(* ===== verification/Prelude.thy ===== *)
theory Prelude
imports Main "HOL-Library.Sublist" "HOL-Library.List_Lexorder" "HOL-Library.Char_ord"
begin

text \<open>
  Shared vocabulary of the development: the collections of rewrite rules the
  component theories fill, SQL-style operations on tables (a table is the list
  of its rows), the clock units, and the generic list facts that the component
  proofs use.
\<close>

named_theorems table_simps \<open>behaviour of the table operations\<close>
named_theorems go_str \<open>behaviour of the Go string functions\<close>
named_theorems inv_intros \<open>preservation of component invariants\<close>

section \<open>Time\<close>

text \<open>A point in time and a duration are integers counting nanoseconds, as in
  Go's package time.  Adding days by AddDate adds 24 hours per day.\<close>

type_synonym time = int

definition second :: time where "second = 1000000000"
definition minute :: time where "minute = 60 * second"
definition hour :: time where "hour = 60 * minute"
definition day :: time where "day = 24 * hour"

text \<open>The zero value of \<open>time.Time\<close> is the first of January of year 1.\<close>

definition zero_time :: time where "zero_time = - 62135596800 * second"

lemma time_units_pos [simp]: "0 < second" "0 < minute" "0 < hour" "0 < day"
  by (simp_all add: second_def minute_def hour_def day_def)

section \<open>Tables\<close>

text \<open>The effect of \<open>UPDATE t SET f WHERE P\<close>, of \<open>DELETE FROM t WHERE P\<close> and of
  \<open>SELECT * FROM t WHERE P LIMIT 1\<close>.\<close>

definition update_where :: "('a \<Rightarrow> bool) \<Rightarrow> ('a \<Rightarrow> 'a) \<Rightarrow> 'a list \<Rightarrow> 'a list" where
  "update_where P f t = map (\<lambda>x. if P x then f x else x) t"

definition delete_where :: "('a \<Rightarrow> bool) \<Rightarrow> 'a list \<Rightarrow> 'a list" where
  "delete_where P t = filter (\<lambda>x. \<not> P x) t"

definition first_where :: "('a \<Rightarrow> bool) \<Rightarrow> 'a list \<Rightarrow> 'a option" where
  "first_where P t = List.find P t"

lemma set_update_where [table_simps]:
  "set (update_where P f t) = (\<lambda>x. if P x then f x else x) ` set t"
  by (simp add: update_where_def)

lemma set_delete_where [table_simps]: "set (delete_where P t) = {x \<in> set t. \<not> P x}"
  by (auto simp: delete_where_def)

lemma length_update_where [table_simps]: "length (update_where P f t) = length t"
  by (simp add: update_where_def)

lemma update_where_keys [table_simps]:
  assumes "\<And>x. k (f x) = k x"
  shows "map k (update_where P f t) = map k t"
  using assms by (simp add: update_where_def)

lemma update_where_Nil [table_simps]: "update_where P f [] = []"
  by (simp add: update_where_def)

lemma update_where_Cons [table_simps]:
  "update_where P f (x # t) = (if P x then f x else x) # update_where P f t"
  by (simp add: update_where_def)

lemma update_where_append [table_simps]:
  "update_where P f (t @ u) = update_where P f t @ update_where P f u"
  by (simp add: update_where_def)

lemma update_where_snoc_new: "\<forall>x \<in> set t. \<not> P x \<Longrightarrow> P y \<Longrightarrow> update_where P f (t @ [y]) = t @ [f y]"
  by (simp add: update_where_def map_idI)

lemma delete_where_Nil [table_simps]: "delete_where P [] = []"
  by (simp add: delete_where_def)

lemma delete_where_Cons [table_simps]:
  "delete_where P (x # t) = (if P x then delete_where P t else x # delete_where P t)"
  by (simp add: delete_where_def)

lemma delete_where_keys_distinct [table_simps]:
  "distinct (map k t) \<Longrightarrow> distinct (map k (delete_where P t))"
  by (simp add: delete_where_def distinct_map_filter)

lemma first_where_Nil [table_simps]: "first_where P [] = None"
  by (simp add: first_where_def)

lemma first_where_Cons [table_simps]:
  "first_where P (x # t) = (if P x then Some x else first_where P t)"
  by (simp add: first_where_def)

lemma first_where_None [table_simps]: "first_where P t = None \<longleftrightarrow> (\<forall>x\<in>set t. \<not> P x)"
  by (auto simp: first_where_def find_None_iff)

lemma first_where_SomeD:
  assumes "first_where P t = Some x"
  shows "x \<in> set t" "P x"
  using assms by (auto simp: first_where_def find_Some_iff)

text \<open>With distinct keys a lookup by key sees exactly the row with that key,
  and an update of that row is seen by the next lookup.\<close>

lemma first_where_key:
  assumes "distinct (map k t)" "x \<in> set t"
  shows "first_where (\<lambda>y. k y = k x) t = Some x"
  using assms by (induction t) (auto simp: table_simps)

lemma first_where_key_iff:
  assumes "distinct (map k t)"
  shows "first_where (\<lambda>y. k y = i) t = Some x \<longleftrightarrow> x \<in> set t \<and> k x = i"
  using assms first_where_SomeD first_where_key by fastforce

lemma first_where_update_same:
  assumes "\<And>x. k (f x) = k x"
  shows "first_where (\<lambda>y. k y = i) (update_where (\<lambda>y. k y = i) f t)
       = map_option f (first_where (\<lambda>y. k y = i) t)"
  by (induction t) (auto simp: table_simps assms)

lemma first_where_update_other:
  assumes "\<And>x. k (f x) = k x" "i \<noteq> j"
  shows "first_where (\<lambda>y. k y = i) (update_where (\<lambda>y. k y = j) f t)
       = first_where (\<lambda>y. k y = i) t"
  using assms by (induction t) (auto simp: table_simps)

lemma first_where_update_inv:
  assumes "\<And>x. P (f x) = P x"
  shows "first_where P (update_where Q f t) = map_option (\<lambda>x. if Q x then f x else x) (first_where P t)"
  by (induction t) (auto simp: table_simps assms)

lemma distinct_update_row:
  assumes "distinct (map i t)" "distinct (map k t)" "\<forall>v\<in>set t. i v \<noteq> i u \<longrightarrow> k v \<noteq> k u"
  shows "distinct (map k (update_where (\<lambda>v. i v = i u) (\<lambda>_. u) t))"
  using assms by (induction t) (auto simp: table_simps set_update_where image_iff split: if_splits)

text \<open>gorm's \<open>First\<close> returns the matching row with the least primary key.\<close>

definition First :: "('a \<Rightarrow> 'k::linorder) \<Rightarrow> ('a \<Rightarrow> bool) \<Rightarrow> 'a list \<Rightarrow> 'a option" where
  "First key P t = (case filter P t of [] \<Rightarrow> None
     | x # xs \<Rightarrow> Some (fold (\<lambda>y m. if key y < key m then y else m) xs x))"

lemma fold_least_mem: "fold (\<lambda>y m. if key y < key m then y else m) xs x \<in> set (x # xs)"
proof (induction xs arbitrary: x)
  case (Cons a xs)
  show ?case using Cons [of "if key a < key x then a else x"] by auto
qed simp

lemma First_None [table_simps]: "First key P t = None \<longleftrightarrow> (\<forall>x\<in>set t. \<not> P x)"
  by (cases "filter P t") (auto simp: First_def filter_empty_conv dest: filter_eq_ConsD)

lemma First_SomeD:
  assumes "First key P t = Some x"
  shows "x \<in> set t" "P x"
proof -
  from assms obtain y ys where "filter P t = y # ys"
    and x: "x = fold (\<lambda>y m. if key y < key m then y else m) ys y"
    by (auto simp: First_def split: list.splits)
  then have "x \<in> set (filter P t)" using fold_least_mem [of key ys y] by simp
  then show "x \<in> set t" "P x" by simp_all
qed

lemma fold_least_le:
  "z \<in> set (x # xs) \<Longrightarrow> (key (fold (\<lambda>y m. if key y < key m then y else m) xs x) :: 'k::linorder) \<le> key z"
proof (induction xs arbitrary: x z)
  case (Cons a xs)
  let ?m = "if key a < key x then a else x"
  have "key (fold (\<lambda>y m. if key y < key m then y else m) xs ?m) \<le> key ?m" using Cons.IH[of ?m ?m] by simp
  then show ?case using Cons.IH[of z ?m] Cons.prems by (auto split: if_splits)
qed simp

lemma First_least:
  assumes "First key P t = Some x" "y \<in> set t" "P y"
  shows "key x \<le> key y"
proof -
  from assms(1) obtain z zs where f: "filter P t = z # zs"
    and x: "x = fold (\<lambda>y m. if key y < key m then y else m) zs z"
    by (auto simp: First_def split: list.splits)
  have "y \<in> set (filter P t)" using assms(2,3) by simp
  then have "y \<in> set (z # zs)" by (simp only: f)
  then show ?thesis using fold_least_le[of y z zs key] x by simp
qed

lemma First_key: "First key (\<lambda>y. key y = i) t = first_where (\<lambda>y. key y = i) t"
proof (induction t)
  case (Cons x t)
  have "key x = i \<Longrightarrow> fold (\<lambda>y m. if key y < key m then y else m) (filter (\<lambda>y. key y = i) t) x = x"
    by (induction t) auto
  then show ?case using Cons by (simp add: First_def table_simps)
qed (simp add: First_def table_simps)

lemma First_key_iff:
  assumes "distinct (map key t)"
  shows "First key (\<lambda>y. key y = i) t = Some x \<longleftrightarrow> x \<in> set t \<and> key x = i"
  using assms by (simp add: First_key first_where_key_iff)

text \<open>Rows updated one after the other, each by its key and with values computed from the row as it
  was loaded, are updated all at once.\<close>

lemma fold_row_updates:
  assumes "distinct (map k t)" "set xs \<subseteq> set t" "distinct xs" "\<And>x y. k (f x y) = k y"
  shows "fold (\<lambda>x t. update_where (\<lambda>y. k y = k x) (f x) t) xs t = map (\<lambda>y. if y \<in> set xs then f y y else y) t"
  using assms(2,3)
proof (induction xs rule: rev_induct)
  case (snoc x xs)
  have "k y = k x \<longleftrightarrow> y = x" if "y \<in> set t" for y
    using assms(1) that snoc.prems by (auto simp: distinct_map dest: inj_onD)
  moreover have "fold (\<lambda>x t. update_where (\<lambda>y. k y = k x) (f x) t) xs t = map (\<lambda>y. if y \<in> set xs then f y y else y) t"
    using snoc by simp
  ultimately show ?case using snoc.prems assms(4) by (auto simp: update_where_def)
qed simp

section \<open>Lists\<close>

lemma find_ex: "List.find P xs \<noteq> None \<longleftrightarrow> (\<exists>x\<in>set xs. P x)"
  by (auto simp: find_None_iff)

lemma filter_absorb: "(\<And>x. Q x \<Longrightarrow> P x) \<Longrightarrow> filter P (filter Q xs) = filter Q xs"
  by (induction xs) auto

lemma drop_length_suffix: "length xs - n \<le> k \<Longrightarrow> length (drop n xs) \<le> k"
  by simp

lemma first_where_append:
  "first_where P (t @ u) = (case first_where P t of None \<Rightarrow> first_where P u | Some x \<Rightarrow> Some x)"
  by (induction t) (auto simp: table_simps)

lemma first_where_replace:
  assumes "k a = i"
  shows "first_where (\<lambda>y. k y = j) (update_where (\<lambda>y. k y = i) (\<lambda>_. a) t) =
    (if i = j then map_option (\<lambda>_. a) (first_where (\<lambda>y. k y = j) t) else first_where (\<lambda>y. k y = j) t)"
  using assms by (induction t) (auto simp: table_simps)

section \<open>Insertion without repetition\<close>

text \<open>An insertion that does nothing once its row is there, such as gorm's \<open>FirstOrCreate\<close>.\<close>

locale insert_once =
  fixes ins :: "'x \<Rightarrow> 'd \<Rightarrow> 'd"
    and present :: "'x \<Rightarrow> 'd \<Rightarrow> bool"
  assumes ins_present: "present x (ins x d)"
    and present_skip: "present x d \<Longrightarrow> ins x d = d"
    and present_kept: "present x d \<Longrightarrow> present x (ins y d)"
begin

lemma present_fold: "present x d \<Longrightarrow> present x (fold ins xs d)"
  by (induction xs arbitrary: d) (simp_all add: present_kept)

lemma all_present: "x \<in> set xs \<Longrightarrow> present x (fold ins xs d)"
  by (induction xs arbitrary: d) (auto simp: ins_present present_fold)

lemma skip_all: "(\<And>x. x \<in> set xs \<Longrightarrow> present x d) \<Longrightarrow> fold ins xs d = d"
  by (induction xs) (simp_all add: present_skip)

lemma insert_again: "set ys \<subseteq> set xs \<Longrightarrow> fold ins ys (fold ins xs d) = fold ins xs d"
  by (rule skip_all) (auto intro: all_present)

end

section \<open>Life cycles\<close>

text \<open>A store of rows under steps that never touch a row once it is final.\<close>

locale lifecycle =
  fixes step :: "'s \<Rightarrow> 's \<Rightarrow> bool"
    and row :: "'s \<Rightarrow> 'i \<Rightarrow> 'r option"
    and final :: "'r \<Rightarrow> bool"
  assumes final_stable: "step s s' \<Longrightarrow> row s i = Some r \<Longrightarrow> final r \<Longrightarrow> row s' i = Some r"
begin

lemma final_forever:
  assumes "step\<^sup>*\<^sup>* s s'" "row s i = Some r" "final r"
  shows "row s' i = Some r"
  using assms by (induction rule: rtranclp_induct) (auto intro: final_stable)

end

end
