(* ===== verification/Go_Strings.thy ===== *)
theory Go_Strings
imports Prelude
begin

text \<open>
  The functions of Go's package strings (and of package unicode) that the
  program uses.  A Go string is the list of its bytes; on ASCII text a byte is
  a rune, so \<open>range s\<close>, \<open>[]rune(s)\<close> and \<open>len(s)\<close> agree with the list.
\<close>

section \<open>Characters\<close>

abbreviation ord :: "char \<Rightarrow> nat" where "ord c \<equiv> of_char c"

definition is_space :: "char \<Rightarrow> bool" where
  "is_space c \<longleftrightarrow> (9 \<le> ord c \<and> ord c \<le> 13) \<or> ord c = 32"

definition is_upper :: "char \<Rightarrow> bool" where "is_upper c \<longleftrightarrow> 65 \<le> ord c \<and> ord c \<le> 90"
definition is_lower :: "char \<Rightarrow> bool" where "is_lower c \<longleftrightarrow> 97 \<le> ord c \<and> ord c \<le> 122"
definition is_digit :: "char \<Rightarrow> bool" where "is_digit c \<longleftrightarrow> 48 \<le> ord c \<and> ord c \<le> 57"
definition is_print :: "char \<Rightarrow> bool" where "is_print c \<longleftrightarrow> 32 \<le> ord c \<and> ord c \<le> 126"

definition lower_char :: "char \<Rightarrow> char" where
  "lower_char c = (if is_upper c then char_of (ord c + 32) else c)"

definition chr :: "nat \<Rightarrow> char" where "chr n = char_of n"

lemma ord_chr [simp]: "n < 256 \<Longrightarrow> ord (chr n) = n"
  by (simp add: chr_def)

lemma chr_ord [simp]: "chr (ord c) = c"
  by (simp add: chr_def)

lemma chr_eq_iff: "n < 256 \<Longrightarrow> c = chr n \<longleftrightarrow> ord c = n"
  by (metis chr_ord ord_chr)

lemma ord_lower_char [simp]: "ord (lower_char c) = (if is_upper c then ord c + 32 else ord c)"
  by (simp add: lower_char_def is_upper_def)

lemma lower_char_idem [simp]: "lower_char (lower_char c) = lower_char c"
  by (simp add: lower_char_def is_upper_def)

lemma is_space_lower_char [simp]: "is_space (lower_char c) = is_space c"
  by (auto simp: is_space_def is_upper_def)

section \<open>Searching\<close>

definition ToLower :: "string \<Rightarrow> string" where "ToLower s = map lower_char s"
definition EqualFold :: "string \<Rightarrow> string \<Rightarrow> bool" where "EqualFold s t \<longleftrightarrow> ToLower s = ToLower t"
definition HasPrefix :: "string \<Rightarrow> string \<Rightarrow> bool" where "HasPrefix s t \<longleftrightarrow> prefix t s"
definition HasSuffix :: "string \<Rightarrow> string \<Rightarrow> bool" where "HasSuffix s t \<longleftrightarrow> prefix (rev t) (rev s)"

text \<open>\<open>strings.Index\<close>; the result \<open>-1\<close> is \<open>None\<close>.\<close>

fun Index :: "string \<Rightarrow> string \<Rightarrow> nat option" where
  "Index [] t = (if t = [] then Some 0 else None)"
| "Index (c # s) t = (if prefix t (c # s) then Some 0 else map_option Suc (Index s t))"

definition Contains :: "string \<Rightarrow> string \<Rightarrow> bool" where
  "Contains s t \<longleftrightarrow> Index s t \<noteq> None"

definition LastIndex :: "string \<Rightarrow> string \<Rightarrow> nat option" where
  "LastIndex s t = map_option (\<lambda>i. length s - i - length t) (Index (rev s) (rev t))"

definition TrimPrefix :: "string \<Rightarrow> string \<Rightarrow> string" where
  "TrimPrefix s t = (if prefix t s then drop (length t) s else s)"

definition TrimSuffix :: "string \<Rightarrow> string \<Rightarrow> string" where
  "TrimSuffix s t = (if HasSuffix s t then take (length s - length t) s else s)"

lemma ToLower_idem [simp]: "ToLower (ToLower s) = ToLower s"
  by (simp add: ToLower_def)

lemma ToLower_Nil [simp]: "ToLower [] = []" and ToLower_eq_Nil [simp]: "ToLower s = [] \<longleftrightarrow> s = []"
  by (simp_all add: ToLower_def)

lemma ToLower_append [simp]: "ToLower (s @ t) = ToLower s @ ToLower t"
  by (simp add: ToLower_def)

lemma Index_Nil [simp]: "Index s [] = Some 0"
  by (cases s) auto

lemma Index_Some_iff:
  "Index s t = Some i \<longleftrightarrow> i \<le> length s \<and> prefix t (drop i s) \<and> (\<forall>j<i. \<not> prefix t (drop j s))"
proof (induction s t arbitrary: i rule: Index.induct)
  case (2 c s t)
  show ?case
  proof (cases i)
    case (Suc k)
    have "(\<forall>j<Suc k. \<not> prefix t (drop j (c # s)))
        \<longleftrightarrow> \<not> prefix t (c # s) \<and> (\<forall>j<k. \<not> prefix t (drop j s))"
      by (auto simp: All_less_Suc2)
    then show ?thesis using 2 Suc by (cases "prefix t (c # s)") auto
  qed auto
qed auto

lemma Index_Some_split:
  assumes "Index s t = Some i"
  obtains u v where "s = u @ t @ v" "length u = i"
proof -
  from assms have "i \<le> length s" "prefix t (drop i s)" by (simp_all add: Index_Some_iff)
  then obtain v where "drop i s = t @ v" by (auto elim: prefixE)
  then have "s = take i s @ t @ v" by (metis append_take_drop_id)
  with \<open>i \<le> length s\<close> show thesis by (metis length_take min.absorb2 that)
qed

lemma Index_le:
  assumes "s = u @ t @ v"
  obtains i where "Index s t = Some i" "i \<le> length u"
proof -
  let ?P = "\<lambda>i. prefix t (drop i s)"
  have P: "?P (length u)" using assms by simp
  define i where "i = (LEAST i. ?P i)"
  have "?P i" "i \<le> length u" using P unfolding i_def by (auto intro: LeastI Least_le)
  moreover have "\<forall>j<i. \<not> ?P j" unfolding i_def using not_less_Least by blast
  ultimately have "Index s t = Some i" using assms by (simp add: Index_Some_iff)
  then show thesis using \<open>i \<le> length u\<close> that by blast
qed

lemma Index_bound: "Index s t = Some i \<Longrightarrow> i + length t \<le> length s"
  by (metis Index_Some_split length_append add.assoc le_add1)

lemma Contains_iff: "Contains s t \<longleftrightarrow> (\<exists>u v. s = u @ t @ v)"
  unfolding Contains_def by (metis Index_Some_split Index_le not_None_eq)

lemma Index_first: "c \<notin> set p \<Longrightarrow> prefix w t \<Longrightarrow> Index (p @ c # t) (c # w) = Some (length p)"
  by (induction p) auto

lemma Contains_after: "c \<notin> set p \<Longrightarrow> Contains (p @ s) (c # w) \<longleftrightarrow> Contains s (c # w)"
  by (induction p) (auto simp: Contains_def)

lemma LastIndex_last: "c \<notin> set r \<Longrightarrow> LastIndex (p @ c # r) [c] = Some (length p)"
  using Index_first [of c "rev r" "[]" "rev p"] by (simp add: LastIndex_def)

lemma Contains_sublist [go_str]: "Contains s t \<longleftrightarrow> sublist t s"
  by (simp add: Contains_iff sublist_def)

lemma Contains_Nil [simp]: "Contains s []"
  by (simp add: Contains_def)

lemma Contains_char [go_str]: "Contains s [c] \<longleftrightarrow> c \<in> set s"
  by (metis Contains_iff append_Cons append_Nil in_set_conv_decomp)

lemma HasPrefix_iff: "HasPrefix s t \<longleftrightarrow> (\<exists>u. s = t @ u)"
  by (auto simp: HasPrefix_def prefix_def)

lemma HasSuffix_iff: "HasSuffix s t \<longleftrightarrow> (\<exists>u. s = u @ t)"
  by (metis HasSuffix_def prefix_def rev_append rev_rev_ident)

section \<open>Splitting and trimming\<close>

text \<open>Splitting at every byte that satisfies a predicate; with a one-byte
  separator this is \<open>strings.Split\<close>.\<close>

fun split_by :: "(char \<Rightarrow> bool) \<Rightarrow> string \<Rightarrow> string list" where
  "split_by p [] = [[]]"
| "split_by p (c # s) = (if p c then [] # split_by p s
     else (case split_by p s of w # ws \<Rightarrow> (c # w) # ws | [] \<Rightarrow> [[c]]))"

definition SplitChar :: "char \<Rightarrow> string \<Rightarrow> string list" where
  "SplitChar d s = split_by (\<lambda>c. c = d) s"

definition Fields :: "string \<Rightarrow> string list" where
  "Fields s = filter (\<lambda>w. w \<noteq> []) (split_by is_space s)"

definition TrimSpace :: "string \<Rightarrow> string" where
  "TrimSpace s = rev (dropWhile is_space (rev (dropWhile is_space s)))"

definition TrimLeft :: "string \<Rightarrow> string \<Rightarrow> string" where
  "TrimLeft s cutset = dropWhile (\<lambda>c. c \<in> set cutset) s"

definition TrimRight :: "string \<Rightarrow> string \<Rightarrow> string" where
  "TrimRight s cutset = rev (dropWhile (\<lambda>c. c \<in> set cutset) (rev s))"

text \<open>\<open>strings.ReplaceAll(s, c, "")\<close> for a one-byte \<open>c\<close>.\<close>

definition RemoveChar :: "char \<Rightarrow> string \<Rightarrow> string" where
  "RemoveChar d s = filter (\<lambda>c. c \<noteq> d) s"

fun Join :: "string list \<Rightarrow> string \<Rightarrow> string" where
  "Join [] sep = []"
| "Join [w] sep = w"
| "Join (w # ws) sep = w @ sep @ Join ws sep"

lemma split_by_not_Nil [simp]: "split_by p s \<noteq> []"
  by (induction s) (auto split: list.splits)

lemma split_by_Cons_not [simp]:
  "\<not> p c \<Longrightarrow> split_by p (c # s) = (c # hd (split_by p s)) # tl (split_by p s)"
  by (cases "split_by p s") auto

lemma split_by_words: "w \<in> set (split_by p s) \<Longrightarrow> c \<in> set w \<Longrightarrow> \<not> p c"
proof (induction s arbitrary: w)
  case (Cons a s)
  obtain v vs where "split_by p s = v # vs" by (meson list.exhaust split_by_not_Nil)
  with Cons.IH [of v] Cons show ?case by (auto split: if_splits)
qed simp

lemma split_by_single: "(\<forall>c\<in>set w. \<not> p c) \<Longrightarrow> split_by p w = [w]"
  by (induction w) auto

lemma split_by_append_sep:
  "p d \<Longrightarrow> split_by p (s @ d # t) = split_by p s @ split_by p t"
  by (induction s) (auto split: list.splits)

lemma split_by_map_pred:
  assumes "\<And>c. p (f c) = p c"
  shows "split_by p (map f s) = map (map f) (split_by p s)"
  using assms by (induction s) (auto split: list.splits)

lemma Join_split_by: "Join (SplitChar d s) [d] = s"
proof (induction s)
  case (Cons c s)
  obtain w ws where "split_by (\<lambda>c. c = d) s = w # ws"
    by (meson list.exhaust split_by_not_Nil)
  then show ?case using Cons by (cases ws) (auto simp: SplitChar_def)
qed (simp add: SplitChar_def)

lemma split_by_Join:
  assumes "ws \<noteq> []" "\<forall>w\<in>set ws. d \<notin> set w"
  shows "SplitChar d (Join ws [d]) = ws"
  using assms
proof (induction ws "[d]" rule: Join.induct)
  case (2 w)
  then show ?case by (auto simp: SplitChar_def intro!: split_by_single)
next
  case (3 w v ws)
  then have "SplitChar d w = [w]" by (auto simp: SplitChar_def intro!: split_by_single)
  with 3 show ?case
    by (simp add: SplitChar_def split_by_append_sep)
qed simp

lemma Fields_Nil [simp]: "Fields [] = []"
  by (simp add: Fields_def)

lemma Fields_words: "w \<in> set (Fields s) \<Longrightarrow> w \<noteq> [] \<and> (\<forall>c\<in>set w. \<not> is_space c)"
  using split_by_words by (fastforce simp: Fields_def)

lemma Fields_space [simp]: "is_space c \<Longrightarrow> Fields (c # s) = Fields s"
  by (simp add: Fields_def)

lemma Fields_append_sep: "is_space d \<Longrightarrow> Fields (s @ d # t) = Fields s @ Fields t"
  by (simp add: Fields_def split_by_append_sep)

lemma Fields_single: "w \<noteq> [] \<Longrightarrow> (\<forall>c\<in>set w. \<not> is_space c) \<Longrightarrow> Fields w = [w]"
  by (simp add: Fields_def split_by_single)

lemma Fields_spaces: "(\<forall>c\<in>set s. is_space c) \<Longrightarrow> Fields s = []"
  by (induction s) auto

lemma Fields_dropWhile [simp]: "Fields (dropWhile is_space s) = Fields s"
  by (induction s) auto

lemma Fields_append_spaces: "(\<forall>c\<in>set t. is_space c) \<Longrightarrow> Fields (s @ t) = Fields s"
  by (cases t) (auto simp: Fields_append_sep Fields_spaces)

lemma trim_right_split:
  "\<exists>t. s = rev (dropWhile is_space (rev s)) @ t \<and> (\<forall>c\<in>set t. is_space c)"
proof -
  have "rev s = takeWhile is_space (rev s) @ dropWhile is_space (rev s)" by simp
  then have "s = rev (dropWhile is_space (rev s)) @ rev (takeWhile is_space (rev s))"
    by (metis rev_append rev_rev_ident)
  moreover have "\<forall>c\<in>set (rev (takeWhile is_space (rev s))). is_space c"
    using set_takeWhileD by fastforce
  ultimately show ?thesis by blast
qed

lemma Fields_TrimSpace [simp]: "Fields (TrimSpace s) = Fields s"
  unfolding TrimSpace_def
  by (metis Fields_append_spaces Fields_dropWhile trim_right_split)

lemma Fields_ToLower: "Fields (ToLower s) = map ToLower (Fields s)"
  by (simp add: Fields_def ToLower_def split_by_map_pred filter_map comp_def cong: filter_cong)

lemma TrimSpace_Nil [simp]: "TrimSpace [] = []"
  by (simp add: TrimSpace_def)

lemma TrimSpace_eq_Nil: "TrimSpace s = [] \<longleftrightarrow> (\<forall>c\<in>set s. is_space c)"
proof
  assume "TrimSpace s = []"
  then have "\<forall>c\<in>set (dropWhile is_space s). is_space c"
    by (simp add: TrimSpace_def dropWhile_eq_Nil_conv)
  then show "\<forall>c\<in>set s. is_space c"
    by (metis dropWhile_eq_Nil_conv hd_dropWhile hd_in_set)
next
  assume "\<forall>c\<in>set s. is_space c"
  then have "dropWhile is_space s = []" by simp
  then show "TrimSpace s = []" by (simp only: TrimSpace_def) simp
qed

lemma dropWhile_id: "s = [] \<or> \<not> p (hd s) \<Longrightarrow> dropWhile p s = s"
  by (cases s) auto

lemma TrimSpace_hd: "TrimSpace s \<noteq> [] \<Longrightarrow> \<not> is_space (hd (TrimSpace s))"
proof -
  assume a: "TrimSpace s \<noteq> []"
  let ?d = "dropWhile is_space s"
  obtain t where t: "?d = TrimSpace s @ t"
    unfolding TrimSpace_def using trim_right_split by blast
  then have "hd ?d = hd (TrimSpace s)" "?d \<noteq> []" using a by (metis hd_append2, auto)
  then show ?thesis by (metis hd_dropWhile)
qed

lemma TrimSpace_last: "TrimSpace s \<noteq> [] \<Longrightarrow> \<not> is_space (last (TrimSpace s))"
  unfolding TrimSpace_def by (metis hd_dropWhile last_rev rev_is_Nil_conv)

lemma TrimSpace_id:
  assumes "s = [] \<or> \<not> is_space (hd s) \<and> \<not> is_space (last s)"
  shows "TrimSpace s = s"
  using assms by (auto simp: TrimSpace_def dropWhile_id hd_rev)

lemma TrimSpace_idem [simp]: "TrimSpace (TrimSpace s) = TrimSpace s"
  by (rule TrimSpace_id) (use TrimSpace_hd TrimSpace_last in blast)

lemma TrimSpace_ToLower: "TrimSpace (ToLower s) = ToLower (TrimSpace s)"
  by (simp add: TrimSpace_def ToLower_def dropWhile_map rev_map comp_def)

lemma set_TrimSpace: "set (TrimSpace s) \<subseteq> set s"
  unfolding TrimSpace_def by (auto dest!: set_dropWhileD)

lemma set_ToLower: "set (ToLower s) = lower_char ` set s"
  by (simp add: ToLower_def)

lemma RemoveChar_comm: "RemoveChar a (RemoveChar b s) = RemoveChar b (RemoveChar a s)"
  by (simp add: RemoveChar_def conj_commute)

lemma RemoveChar_append [simp]: "RemoveChar d (s @ t) = RemoveChar d s @ RemoveChar d t"
  by (simp add: RemoveChar_def)

lemma split_by_filter:
  assumes "\<And>c. p c \<Longrightarrow> q c"
  shows "split_by p (filter q s) = map (filter q) (split_by p s)"
proof (induction s)
  case (Cons c s)
  then show ?case using assms by (cases "split_by p s") auto
qed simp

section \<open>Words\<close>

text \<open>The non-empty pieces between separators; with the space predicate these
  are the words of \<open>Fields\<close>.\<close>

definition words_by :: "(char \<Rightarrow> bool) \<Rightarrow> string \<Rightarrow> string list" where
  "words_by p s = filter (\<lambda>w. w \<noteq> []) (split_by p s)"

lemma Fields_words_by: "Fields s = words_by is_space s"
  by (simp add: Fields_def words_by_def)

lemma words_by_Cons_sep [simp]: "p c \<Longrightarrow> words_by p (c # s) = words_by p s"
  by (simp add: words_by_def)

lemma words_by_append_sep: "p d \<Longrightarrow> words_by p (s @ d # t) = words_by p s @ words_by p t"
  by (simp add: words_by_def split_by_append_sep)

lemma words_by_seps_left: "(\<forall>c\<in>set t. p c) \<Longrightarrow> words_by p (t @ s) = words_by p s"
  by (induction t) auto

lemma words_by_seps_right: "(\<forall>c\<in>set t. p c) \<Longrightarrow> words_by p (s @ t) = words_by p s"
proof (cases t)
  case (Cons d t')
  assume "\<forall>c\<in>set t. p c"
  moreover have "words_by p ([] :: string) = []" by (simp add: words_by_def)
  ultimately show ?thesis
    using Cons words_by_seps_left [of t' p "[]"] by (simp add: words_by_append_sep)
qed simp

lemma TrimSpace_split:
  obtains a b where "s = a @ TrimSpace s @ b" "\<forall>c\<in>set a. is_space c" "\<forall>c\<in>set b. is_space c"
proof -
  let ?a = "takeWhile is_space s" and ?d = "dropWhile is_space s"
  obtain b where "?d = TrimSpace s @ b" "\<forall>c\<in>set b. is_space c"
    unfolding TrimSpace_def using trim_right_split by blast
  moreover have "s = ?a @ ?d" by simp
  moreover have "\<forall>c\<in>set ?a. is_space c" using set_takeWhileD by fastforce
  ultimately show thesis using that by metis
qed

lemma words_by_TrimSpace:
  assumes "\<And>c. is_space c \<Longrightarrow> p c"
  shows "words_by p (TrimSpace s) = words_by p s"
proof -
  obtain a b where "s = a @ TrimSpace s @ b" "\<forall>c\<in>set a. p c" "\<forall>c\<in>set b. p c"
    using TrimSpace_split assms by metis
  then show ?thesis by (metis words_by_seps_left words_by_seps_right)
qed

text \<open>Splitting by two kinds of separators is splitting by one and then the
  pieces by the other.\<close>

lemma split_by_or:
  "split_by (\<lambda>c. p c \<or> q c) s = concat (map (split_by q) (split_by p s))"
proof (induction s)
  case (Cons c s)
  obtain w ws where s: "split_by p s = w # ws" by (meson list.exhaust split_by_not_Nil)
  obtain x xs where w: "split_by q w = x # xs" by (meson list.exhaust split_by_not_Nil)
  show ?case using Cons s w by auto
qed simp

lemma words_by_or: "words_by (\<lambda>c. p c \<or> q c) s = concat (map (words_by q) (split_by p s))"
  by (simp add: words_by_def [abs_def] split_by_or filter_concat comp_def)

lemma words_by_filter:
  assumes "\<And>c. p c \<Longrightarrow> q c"
  shows "words_by p (filter q s) = filter (\<lambda>w. w \<noteq> []) (map (filter q) (words_by p s))"
proof -
  have "filter (\<lambda>w. w \<noteq> []) (map (filter q) ws)
      = filter (\<lambda>w. w \<noteq> []) (map (filter q) (filter (\<lambda>w. w \<noteq> []) ws))" for ws
    by (induction ws) auto
  then show ?thesis using assms by (simp add: words_by_def split_by_filter)
qed

end
