(* ===== verification/Go_Regexp.thy ===== *)
theory Go_Regexp
imports Go_Strings
begin

text \<open>
  The part of Go's package regexp that the program uses.  A regular expression
  is a syntax tree, a matching state is a pair of the reversed text before the
  position and the text after it (the first part is what \<open>^\<close> and \<open>\b\<close> look at),
  and \<open>rx\<close> lists the end states in Go's leftmost-first order of preference.
  The declarative relation \<open>rxm\<close> says which end states are possible at all;
  \<open>rx_rxm\<close> shows that the matcher finds exactly those.
\<close>

section \<open>Syntax\<close>

datatype regex =
    REps
  | RCls "char \<Rightarrow> bool"
  | RSeq regex regex
  | RAlt regex regex
  | RStar regex
  | RBol
  | REol
  | RWordb

type_synonym mstate = "string \<times> string"

definition word_char :: "char \<Rightarrow> bool" where
  "word_char c \<longleftrightarrow> is_lower c \<or> is_upper c \<or> is_digit c \<or> c = CHR ''_''"

text \<open>The word boundary assertion.\<close>

definition at_word_boundary :: "mstate \<Rightarrow> bool" where
  "at_word_boundary s \<longleftrightarrow>
     (fst s \<noteq> [] \<and> word_char (hd (fst s))) \<noteq> (snd s \<noteq> [] \<and> word_char (hd (snd s)))"

section \<open>Declarative semantics\<close>

inductive rxm :: "regex \<Rightarrow> mstate \<Rightarrow> mstate \<Rightarrow> bool" where
  eps: "rxm REps s s"
| cls: "p c \<Longrightarrow> rxm (RCls p) (l, c # r) (c # l, r)"
| seq: "rxm a s t \<Longrightarrow> rxm b t u \<Longrightarrow> rxm (RSeq a b) s u"
| alt1: "rxm a s t \<Longrightarrow> rxm (RAlt a b) s t"
| alt2: "rxm b s t \<Longrightarrow> rxm (RAlt a b) s t"
| star0: "rxm (RStar a) s s"
| star1: "rxm a s t \<Longrightarrow> rxm (RStar a) t u \<Longrightarrow> rxm (RStar a) s u"
| bol: "rxm RBol ([], r) ([], r)"
| eol: "rxm REol (l, []) (l, [])"
| wordb: "at_word_boundary s \<Longrightarrow> rxm RWordb s s"

inductive_cases rxm_epsE [elim!]: "rxm REps s t"
inductive_cases rxm_clsE [elim!]: "rxm (RCls p) s t"
inductive_cases rxm_seqE [elim!]: "rxm (RSeq a b) s t"
inductive_cases rxm_altE [elim!]: "rxm (RAlt a b) s t"
inductive_cases rxm_bolE [elim!]: "rxm RBol s t"
inductive_cases rxm_eolE [elim!]: "rxm REol s t"
inductive_cases rxm_wordbE [elim!]: "rxm RWordb s t"

text \<open>A match consumes a piece of the text after the position.\<close>

lemma rxm_consumes: "rxm e s t \<Longrightarrow> \<exists>w. snd s = w @ snd t \<and> fst t = rev w @ fst s"
proof (induction rule: rxm.induct)
  case (seq a s t b u)
  then obtain w v where "snd s = w @ snd t" "fst t = rev w @ fst s"
    "snd t = v @ snd u" "fst u = rev v @ fst t" by blast
  then show ?case by (intro exI [of _ "w @ v"]) simp
next
  case (star1 a s t u)
  then obtain w v where "snd s = w @ snd t" "fst t = rev w @ fst s"
    "snd t = v @ snd u" "fst u = rev v @ fst t" by blast
  then show ?case by (intro exI [of _ "w @ v"]) simp
qed auto

lemma rxm_length: "rxm e s t \<Longrightarrow> length (snd t) \<le> length (snd s)"
  using rxm_consumes by fastforce

lemma rxm_same_length: "rxm e s t \<Longrightarrow> length (snd t) = length (snd s) \<Longrightarrow> t = s"
  using rxm_consumes [of e s t] by (auto simp: prod_eq_iff)

section \<open>The matcher\<close>

text \<open>All end states in order of preference.  An iteration of a star that
  consumes nothing is not repeated.\<close>

function rx :: "regex \<Rightarrow> mstate \<Rightarrow> mstate list" where
  "rx REps s = [s]"
| "rx (RCls p) s = (case s of (l, c # r) \<Rightarrow> if p c then [(c # l, r)] else [] | _ \<Rightarrow> [])"
| "rx (RSeq a b) s = concat (map (rx b) (rx a s))"
| "rx (RAlt a b) s = rx a s @ rx b s"
| "rx (RStar a) s =
     concat (map (rx (RStar a)) (filter (\<lambda>t. length (snd t) < length (snd s)) (rx a s))) @ [s]"
| "rx RBol s = (if fst s = [] then [s] else [])"
| "rx REol s = (if snd s = [] then [s] else [])"
| "rx RWordb s = (if at_word_boundary s then [s] else [])"
  by pat_completeness auto
termination
  by (relation "measures [\<lambda>(e, s). size e, \<lambda>(e, s). length (snd s)]") auto

declare rx.simps(5) [simp del]

lemma set_rx_star:
  "t \<in> set (rx (RStar a) s) \<longleftrightarrow>
     t = s \<or> (\<exists>u\<in>set (rx a s). length (snd u) < length (snd s) \<and> t \<in> set (rx (RStar a) u))"
  by (subst rx.simps(5)) auto

lemma rx_sound: "t \<in> set (rx e s) \<Longrightarrow> rxm e s t"
proof (induction e s arbitrary: t rule: rx.induct)
  case (2 p s)
  then show ?case by (auto split: list.splits if_splits prod.splits intro: rxm.intros)
next
  case (3 a b s)
  then obtain u where "u \<in> set (rx a s)" "t \<in> set (rx b u)" by auto
  with 3 show ?case by (meson rxm.seq)
next
  case (5 a s)
  from "5.prems" consider "t = s"
    | u where "u \<in> set (rx a s)" "length (snd u) < length (snd s)" "t \<in> set (rx (RStar a) u)"
    by (subst (asm) set_rx_star) blast
  then show ?case
  proof cases
    case 1
    then show ?thesis by (simp add: rxm.star0)
  next
    case 2
    then have "rxm a s u" "rxm (RStar a) u t" using "5.IH"(1) [of u] "5.IH"(2) [of u t] by auto
    then show ?thesis by (rule rxm.star1)
  qed
qed (auto split: if_splits intro: rxm.intros)

lemma rx_complete: "rxm e s t \<Longrightarrow> t \<in> set (rx e s)"
proof (induction rule: rxm.induct)
  case (star1 a s t u)
  show ?case
  proof (cases "length (snd t) < length (snd s)")
    case True
    then show ?thesis using star1 by (subst set_rx_star) blast
  next
    case False
    then have "t = s" using rxm_length [OF star1.hyps(1)] rxm_same_length [OF star1.hyps(1)] by simp
    then show ?thesis using star1 by simp
  qed
next
  case (star0 a s)
  show ?case by (subst set_rx_star) simp
next
  case (seq a s t b u)
  then show ?case by auto
qed auto

text \<open>A contract of matching engines: which positions of a text a pattern
  matches at, independent of how the engine enumerates its attempts.\<close>

locale match_engine =
  fixes attempts :: "regex \<Rightarrow> mstate \<Rightarrow> mstate list"
    and admits :: "regex \<Rightarrow> mstate \<Rightarrow> mstate \<Rightarrow> bool"
  assumes exact: "t \<in> set (attempts e s) \<longleftrightarrow> admits e s t"
    and consumes: "admits e s t \<Longrightarrow> \<exists>w. snd s = w @ snd t \<and> fst t = rev w @ fst s"
begin

lemma some_attempt: "attempts e s \<noteq> [] \<longleftrightarrow> (\<exists>t. admits e s t)"
  using exact by (metis list.set_cases list.set_sel(1) neq_Nil_conv list.set_intros(1))

lemma attempt_text:
  assumes "attempts e (rev u, v) \<noteq> []"
  obtains w x where "v = w @ x" "admits e (rev u, v) (rev (u @ w), x)"
proof -
  from assms obtain t where t: "admits e (rev u, v) t" using some_attempt by blast
  from consumes [OF t] obtain w where "v = w @ snd t" "fst t = rev w @ rev u" by auto
  then show thesis using t that [of w "snd t"] by (metis prod.collapse rev_append)
qed

end

interpretation go_rx: match_engine rx rxm
  by unfold_locales (use rx_sound rx_complete rxm_consumes in blast)+

lemma rx_rxm: "t \<in> set (rx e s) \<longleftrightarrow> rxm e s t"
  by (rule go_rx.exact)

section \<open>Searching\<close>

text \<open>The positions of a text from left to right, and the leftmost match.\<close>

fun starts :: "mstate \<Rightarrow> mstate list" where
  "starts (l, []) = [(l, [])]"
| "starts (l, c # r) = (l, c # r) # starts (c # l, r)"

definition first_match :: "regex \<Rightarrow> mstate \<Rightarrow> (mstate \<times> mstate) option" where
  "first_match e s = (case filter (\<lambda>p. rx e p \<noteq> []) (starts s) of
      [] \<Rightarrow> None | p # _ \<Rightarrow> Some (p, hd (rx e p)))"

definition MatchString :: "regex \<Rightarrow> string \<Rightarrow> bool" where
  "MatchString e s \<longleftrightarrow> list_ex (\<lambda>p. rx e p \<noteq> []) (starts ([], s))"

lemma set_starts: "p \<in> set (starts (l, r)) \<longleftrightarrow> (\<exists>u v. r = u @ v \<and> p = (rev u @ l, v))"
proof (induction "(l, r)" arbitrary: l r rule: starts.induct)
  case (2 l c r)
  show ?case
  proof
    assume "p \<in> set (starts (l, c # r))"
    then consider "p = (l, c # r)" | "p \<in> set (starts (c # l, r))" by auto
    then show "\<exists>u v. c # r = u @ v \<and> p = (rev u @ l, v)"
    proof cases
      case 1
      then show ?thesis by auto
    next
      assume "p \<in> set (starts (c # l, r))"
      then obtain u v where "r = u @ v" "p = (rev u @ c # l, v)" using "2.hyps" by blast
      then show ?thesis by (intro exI [of _ "c # u"] exI [of _ v]) simp
    qed
  next
    assume "\<exists>u v. c # r = u @ v \<and> p = (rev u @ l, v)"
    then obtain u v where uv: "c # r = u @ v" "p = (rev u @ l, v)" by blast
    then show "p \<in> set (starts (l, c # r))" using "2.hyps" by (cases u) auto
  qed
qed auto

lemma MatchString_iff:
  "MatchString e s \<longleftrightarrow> (\<exists>u w v. s = u @ w @ v \<and> rxm e (rev u, w @ v) (rev (u @ w), v))"
proof
  assume "MatchString e s"
  then obtain u v where "s = u @ v" "rx e (rev u, v) \<noteq> []"
    by (auto simp: MatchString_def list_ex_iff set_starts)
  then show "\<exists>u w v. s = u @ w @ v \<and> rxm e (rev u, w @ v) (rev (u @ w), v)"
    by (metis go_rx.attempt_text)
next
  assume "\<exists>u w v. s = u @ w @ v \<and> rxm e (rev u, w @ v) (rev (u @ w), v)"
  then obtain u w v where "s = u @ w @ v" "rxm e (rev u, w @ v) (rev (u @ w), v)" by blast
  then show "MatchString e s"
    using go_rx.some_attempt set_starts [of "(rev u, w @ v)" "[]" s]
    by (auto simp: MatchString_def list_ex_iff)
qed

lemma first_match_Some:
  assumes "first_match e (l, r) = Some (p, q)"
  shows "\<exists>u. r = u @ snd p \<and> fst p = rev u @ l" "rxm e p q"
proof -
  from assms have "p \<in> set (filter (\<lambda>p. rx e p \<noteq> []) (starts (l, r)))" "q = hd (rx e p)"
    unfolding first_match_def by (auto split: list.splits simp del: set_filter simp: filter_eq_Cons_iff)
  then have "p \<in> set (starts (l, r))" "q \<in> set (rx e p)" by auto
  then show "\<exists>u. r = u @ snd p \<and> fst p = rev u @ l" "rxm e p q"
    by (auto simp: set_starts rx_rxm)
qed

lemma first_match_length:
  assumes "first_match e s = Some (p, q)"
  shows "length (snd p) \<le> length (snd s)" "length (snd q) \<le> length (snd p)"
proof -
  obtain l r where s: "s = (l, r)" by (cases s)
  from first_match_Some(1) [OF assms [unfolded s]] show "length (snd p) \<le> length (snd s)"
    unfolding s by auto
  show "length (snd q) \<le> length (snd p)"
    using rxm_length first_match_Some(2) [OF assms [unfolded s]] .
qed

text \<open>The loop of \<open>(*Regexp).allMatches\<close>: the matches in order, each as its start
  and end state.  An empty match right after the previous match is skipped.\<close>

function all_matches :: "regex \<Rightarrow> mstate option \<Rightarrow> mstate \<Rightarrow> (mstate \<times> mstate) list" where
  "all_matches e prev s = (case first_match e s of
      None \<Rightarrow> []
    | Some (p, q) \<Rightarrow>
        (if snd q = snd s
         then (if prev = Some p then [] else [(p, q)]) @
              (case snd s of [] \<Rightarrow> [] | c # r \<Rightarrow> all_matches e (Some q) (c # fst s, r))
         else (p, q) # all_matches e (Some q) q))"
  by pat_completeness auto
termination
proof (relation "measure (\<lambda>(e, prev, s). length (snd s))", goal_cases)
  case (3 e prev s a p q)
  then have "length (snd p) \<le> length (snd s)" "length (snd q) \<le> length (snd p)"
    using first_match_length [of e s p q] by auto
  moreover have "snd q \<noteq> snd s" using 3 by simp
  moreover obtain u where "snd s = u @ snd p"
    using 3 first_match_Some(1) [of e "fst s" "snd s" p q] by auto
  moreover obtain w where "snd p = w @ snd q"
    using 3 first_match_Some(2) [of e "fst s" "snd s" p q] rxm_consumes by fastforce
  ultimately show ?case by auto
qed auto

definition matched :: "mstate \<times> mstate \<Rightarrow> string" where
  "matched m = take (length (snd (fst m)) - length (snd (snd m))) (snd (fst m))"

definition FindAllString :: "regex \<Rightarrow> string \<Rightarrow> string list" where
  "FindAllString e s = map matched (all_matches e None ([], s))"

text \<open>The pieces of the text between the matches; \<open>Split(s, -1)\<close> returns them and
  \<open>ReplaceAllString\<close> joins them with the replacement (which holds no \<open>$\<close> here).\<close>

fun between :: "mstate \<Rightarrow> (mstate \<times> mstate) list \<Rightarrow> string list" where
  "between s [] = [snd s]"
| "between s ((p, q) # ms) = matched (s, p) # between q ms"

definition RegexpSplit :: "regex \<Rightarrow> string \<Rightarrow> string list" where
  "RegexpSplit e s = between ([], s) (all_matches e None ([], s))"

definition ReplaceAllString :: "regex \<Rightarrow> string \<Rightarrow> string \<Rightarrow> string" where
  "ReplaceAllString e s rep = Join (RegexpSplit e s) rep"

section \<open>Pattern building blocks\<close>

definition RChar :: "char \<Rightarrow> regex" where "RChar c = RCls (\<lambda>d. d = c)"
definition RAny :: regex where "RAny = RCls (\<lambda>d. d \<noteq> chr 10)"
definition RSpace :: regex where
  "RSpace = RCls (\<lambda>d. ord d = 9 \<or> ord d = 10 \<or> ord d = 12 \<or> ord d = 13 \<or> ord d = 32)"
definition RPlus :: "regex \<Rightarrow> regex" where "RPlus e = RSeq e (RStar e)"
definition ROpt :: "regex \<Rightarrow> regex" where "ROpt e = RAlt e REps"
primrec RStr :: "string \<Rightarrow> regex" where
  "RStr [] = REps"
| "RStr (c # s) = RSeq (RChar c) (RStr s)"
primrec RSeqs :: "regex list \<Rightarrow> regex" where
  "RSeqs [] = REps"
| "RSeqs (e # es) = RSeq e (RSeqs es)"
fun RAlts :: "regex list \<Rightarrow> regex" where
  "RAlts [] = RCls (\<lambda>c. False)"
| "RAlts [e] = e"
| "RAlts (e # es) = RAlt e (RAlts es)"
primrec RRep :: "nat \<Rightarrow> regex \<Rightarrow> regex" where
  "RRep 0 e = REps"
| "RRep (Suc n) e = RSeq e (RRep n e)"

lemma rxm_cls_iff: "rxm (RCls p) s t \<longleftrightarrow> (\<exists>l c r. s = (l, c # r) \<and> t = (c # l, r) \<and> p c)"
  by (auto intro: rxm.intros)

lemma rxm_seq_iff: "rxm (RSeq a b) s u \<longleftrightarrow> (\<exists>t. rxm a s t \<and> rxm b t u)"
  by (auto intro: rxm.intros)

lemma rxm_alt_iff: "rxm (RAlt a b) s u \<longleftrightarrow> rxm a s u \<or> rxm b s u"
  by (auto intro: rxm.intros)

lemma rxm_eps_iff: "rxm REps s t \<longleftrightarrow> t = s"
  by (auto intro: rxm.intros)

lemma rxm_str_iff: "rxm (RStr w) (l, r) t \<longleftrightarrow> (\<exists>v. r = w @ v \<and> t = (rev w @ l, v))"
proof (induction w arbitrary: l r)
  case Nil
  then show ?case by (auto intro: rxm.intros)
next
  case (Cons c w)
  then show ?case by (fastforce simp: RChar_def rxm_seq_iff rxm_cls_iff)
qed

section \<open>Runs of a character class\<close>

text \<open>For a pattern that matches the runs of a character class the matcher
  takes the longest run, and splitting at the matches is splitting at every
  character of the class, up to empty pieces.\<close>

lemma hd_rx_star_cls:
  "rx (RStar (RCls p)) (l, r) \<noteq> [] \<and>
   hd (rx (RStar (RCls p)) (l, r)) = (rev (takeWhile p r) @ l, dropWhile p r)"
proof (induction r arbitrary: l)
  case (Cons c r)
  then show ?case by (subst (1 2) rx.simps(5)) (auto simp: hd_append)
qed (simp add: rx.simps(5))

lemma rx_plus_cls_hd:
  assumes "p c"
  shows "rx (RPlus (RCls p)) (l, c # r) \<noteq> []"
    and "hd (rx (RPlus (RCls p)) (l, c # r)) = (rev (takeWhile p r) @ c # l, dropWhile p r)"
  using assms hd_rx_star_cls [of p "c # l" r] by (simp_all add: RPlus_def)

lemma rx_plus_cls_Nil: "r = [] \<or> \<not> p (hd r) \<Longrightarrow> rx (RPlus (RCls p)) (l, r) = []"
  by (cases r) (auto simp: RPlus_def)

lemma first_match_plus_cls:
  "first_match (RPlus (RCls p)) (l, r) =
     (let u = takeWhile (\<lambda>c. \<not> p c) r; v = dropWhile (\<lambda>c. \<not> p c) r in
      if v = [] then None
      else Some ((rev u @ l, v), (rev (takeWhile p v) @ rev u @ l, dropWhile p v)))"
proof (induction r arbitrary: l)
  case (Cons c r)
  show ?case
  proof (cases "p c")
    case True
    then show ?thesis using rx_plus_cls_hd [of p c l r] by (simp add: first_match_def)
  next
    case False
    then have "first_match (RPlus (RCls p)) (l, c # r) = first_match (RPlus (RCls p)) (c # l, r)"
      by (simp add: first_match_def rx_plus_cls_Nil)
    then show ?thesis using Cons False by (simp add: Let_def)
  qed
qed (simp add: first_match_def rx_plus_cls_Nil)

lemma split_by_takeWhile:
  "split_by p s = (if dropWhile (\<lambda>c. \<not> p c) s = [] then [s]
     else takeWhile (\<lambda>c. \<not> p c) s # split_by p (tl (dropWhile (\<lambda>c. \<not> p c) s)))"
proof -
  let ?u = "takeWhile (\<lambda>c. \<not> p c) s" and ?v = "dropWhile (\<lambda>c. \<not> p c) s"
  have u: "\<forall>c\<in>set ?u. \<not> p c" using set_takeWhileD by fastforce
  show ?thesis
  proof (cases ?v)
    case Nil
    then have "s = ?u" by (metis append.right_neutral takeWhile_dropWhile_id)
    then show ?thesis using Nil u split_by_single by metis
  next
    case (Cons c v)
    then have "p c" "s = ?u @ c # v" by (metis dropWhile_eq_Cons_conv, metis takeWhile_dropWhile_id)
    then have "split_by p s = split_by p ?u @ split_by p v" by (metis split_by_append_sep)
    then show ?thesis using Cons split_by_single [OF u] by simp
  qed
qed

lemma nonempty_split_dropWhile:
  "filter (\<lambda>w. w \<noteq> []) (split_by p (dropWhile p s)) = filter (\<lambda>w. w \<noteq> []) (split_by p s)"
  by (induction s) auto

lemma between_plus_cls:
  "filter (\<lambda>w. w \<noteq> []) (between (l, r) (all_matches (RPlus (RCls p)) prev (l, r)))
     = filter (\<lambda>w. w \<noteq> []) (split_by p r)"
proof (induction "length r" arbitrary: l r prev rule: less_induct)
  case less
  let ?u = "takeWhile (\<lambda>c. \<not> p c) r" and ?v = "dropWhile (\<lambda>c. \<not> p c) r"
  show ?case
  proof (cases ?v)
    case Nil
    then have "first_match (RPlus (RCls p)) (l, r) = None" by (simp add: first_match_plus_cls)
    then show ?thesis using Nil by (subst split_by_takeWhile) simp
  next
    case (Cons c v)
    have pc: "p c" using Cons by (metis dropWhile_eq_Cons_conv)
    define q where "q = (rev (takeWhile p (c # v)) @ rev ?u @ l, dropWhile p (c # v))"
    have r: "r = ?u @ c # v" using Cons by (metis takeWhile_dropWhile_id)
    have "length (?u @ c # v) = length r" using r by simp
    then have len: "length (dropWhile p v) < length r"
      using length_dropWhile_le [of p v] by simp
    have fm: "first_match (RPlus (RCls p)) (l, r) = Some ((rev ?u @ l, c # v), q)"
      using Cons by (simp add: first_match_plus_cls q_def Let_def)
    have m: "matched ((l, r), (rev ?u @ l, c # v)) = ?u"
    proof -
      have "length r - length (c # v) = length ?u" using \<open>length (?u @ c # v) = length r\<close> by simp
      then show ?thesis by (simp add: matched_def takeWhile_eq_take [symmetric])
    qed
    have "between (l, r) (all_matches (RPlus (RCls p)) prev (l, r))
        = ?u # between q (all_matches (RPlus (RCls p)) (Some q) q)"
      using fm m pc len by (subst all_matches.simps) (auto simp: q_def)
    moreover have "filter (\<lambda>w. w \<noteq> []) (between q (all_matches (RPlus (RCls p)) (Some q) q))
        = filter (\<lambda>w. w \<noteq> []) (split_by p (dropWhile p v))"
      using less [of "dropWhile p v"] len pc by (simp add: q_def)
    ultimately show ?thesis using Cons
      by (subst split_by_takeWhile) (simp add: nonempty_split_dropWhile)
  qed
qed

declare all_matches.simps [simp del]

lemma RegexpSplit_plus_cls:
  "filter (\<lambda>w. w \<noteq> []) (RegexpSplit (RPlus (RCls p)) s) = filter (\<lambda>w. w \<noteq> []) (split_by p s)"
  unfolding RegexpSplit_def by (rule between_plus_cls)

lemma MatchString_RStr: "MatchString (RStr w) s \<longleftrightarrow> Contains s w"
  by (auto simp: MatchString_iff rxm_str_iff Contains_iff)

end
