(* ===== verification/Go_Base64.thy ===== *)
theory Go_Base64
imports Go_Strings
begin

text \<open>
  The standard Base64 encoding of Go's package \<open>encoding/base64\<close>
  (\<open>StdEncoding.EncodeToString\<close> and \<open>DecodeString\<close>), and that decoding undoes
  encoding.
\<close>

section \<open>Definitions\<close>

text \<open>\<open>base64.StdEncoding.DecodeString\<close> on text without line breaks: groups of
  four symbols, padding only in the last one.\<close>

definition b64_value :: "char \<Rightarrow> nat option" where
  "b64_value c = (if is_upper c then Some (ord c - 65)
     else if is_lower c then Some (ord c - 71)
     else if is_digit c then Some (ord c + 4)
     else if c = CHR ''+'' then Some 62
     else if c = CHR ''/'' then Some 63
     else None)"

fun DecodeString :: "string \<Rightarrow> string option" where
  "DecodeString [] = Some []"
| "DecodeString (a # b # c # e # rest) =
     (case (b64_value a, b64_value b) of
        (Some x, Some y) \<Rightarrow>
          (if c = CHR ''='' then
             (if e = CHR ''='' \<and> rest = [] then Some [chr (x * 4 + y div 16)] else None)
           else (case b64_value c of
             None \<Rightarrow> None
           | Some z \<Rightarrow>
               (if e = CHR ''='' then
                  (if rest = [] then Some [chr (x * 4 + y div 16), chr (y mod 16 * 16 + z div 4)] else None)
                else (case b64_value e of
                  None \<Rightarrow> None
                | Some w \<Rightarrow> map_option
                    (\<lambda>t. chr (x * 4 + y div 16) # chr (y mod 16 * 16 + z div 4) # chr (z mod 4 * 64 + w) # t)
                    (DecodeString rest)))))
      | _ \<Rightarrow> None)"
| "DecodeString s = None"

definition b64_char :: "nat \<Rightarrow> char" where
  "b64_char n = (if n < 26 then chr (n + 65) else if n < 52 then chr (n + 71)
     else if n < 62 then chr (n - 4) else if n = 62 then CHR ''+'' else CHR ''/'')"

fun EncodeToString :: "string \<Rightarrow> string" where
  "EncodeToString [] = []"
| "EncodeToString [p] = [b64_char (ord p div 4), b64_char (ord p mod 4 * 16), CHR ''='', CHR ''='']"
| "EncodeToString [p, q] =
     [b64_char (ord p div 4), b64_char (ord p mod 4 * 16 + ord q div 16), b64_char (ord q mod 16 * 4), CHR ''='']"
| "EncodeToString (p # q # r # rest) =
     b64_char (ord p div 4) # b64_char (ord p mod 4 * 16 + ord q div 16) #
     b64_char (ord q mod 16 * 4 + ord r div 64) # b64_char (ord r mod 64) # EncodeToString rest"

section \<open>Round trip\<close>

lemma b64_value_char [simp]: "n < 64 \<Longrightarrow> b64_value (b64_char n) = Some n"
  by (auto simp: b64_value_def b64_char_def is_upper_def is_lower_def is_digit_def)

lemma b64_char_pad [simp]: "n < 64 \<Longrightarrow> b64_char n \<noteq> CHR ''=''"
  using b64_value_char [of n] by (auto simp: b64_value_def is_upper_def is_lower_def is_digit_def)

lemma ord_groups [simp]:
  fixes c :: char
  shows "ord c div 4 < 64" "ord c div 16 < 16" "ord c div 64 < 4"
    "ord c div 16 div 16 = 0" "ord c div 64 div 4 = 0"
  using nat_of_char_less_256 [of c] by (simp_all add: div_less_iff_less_mult del: nat_of_char_less_256)

lemma sextet_bounds [simp]:
  fixes c e :: char
  shows "ord c mod 4 * 16 < 64" "ord c mod 4 * 16 + ord e div 16 < 64"
    "ord c mod 16 * 4 < 64" "ord c mod 16 * 4 + ord e div 64 < 64"
proof -
  have "ord c mod 4 < 4" "ord c mod 16 < 16" by simp_all
  with ord_groups [of e] show "ord c mod 4 * 16 < 64" "ord c mod 4 * 16 + ord e div 16 < 64"
    "ord c mod 16 * 4 < 64" "ord c mod 16 * 4 + ord e div 64 < 64" by linarith+
qed

lemma Decode_Encode [simp]: "DecodeString (EncodeToString s) = Some s"
  by (induction s rule: EncodeToString.induct) simp_all

lemma EncodeToString_Nil [simp]: "EncodeToString s = [] \<longleftrightarrow> s = []"
  by (cases s rule: EncodeToString.cases) simp_all

end
