(* ===== verification/Blacklist_Detector.thy ===== *)
theory Blacklist_Detector
imports Go_Regexp Go_Base64
begin

text \<open>
  The advanced detector of dangerous commands
  (\<open>internal/bastion/blacklist/advanced_detector.go\<close>): nine detectors tried in
  order, each returning a reason.  The reasons of the code are message texts;
  here they are the constructors of \<open>reason\<close>, with the piece of the command the
  message quotes.
\<close>

section \<open>Definitions\<close>

datatype reason =
    Base64Keyword string      \<comment> \<open>Base64-encoded dangerous command\<close>
  | Base64Suspicious          \<comment> \<open>Base64 decoding combined with execution\<close>
  | HexKeyword string
  | HexSuspicious
  | EscapeKeyword
  | VariableKeyword string
  | SubstitutionKeyword string
  | SubstitutionSuspicious
  | WildcardKeyword
  | ScriptKeyword
  | PipelineKeyword
  | StandardPattern
  | RuleDescription string    \<comment> \<open>the description of a blacklist rule\<close>
  | GlobalRule string         \<comment> \<open>a global rule without description: its command\<close>
  | UserRule string           \<comment> \<open>a user rule without description: its command\<close>

record AdvancedDetector =
  dangerousPatterns :: "regex list"
  dangerousKeywords :: "string list"

definition device_alt :: regex where
  "device_alt = RAlts [RStr ''sd'', RStr ''hd'', RStr ''nvme'']"

definition shell_alt :: regex where
  "shell_alt = RAlts [RStr ''bash'', RStr ''sh'']"

definition compileDangerousPatterns :: "regex list" where
  "compileDangerousPatterns = [
     RSeqs [RWordb, RStr ''rm'', RPlus RSpace,
            ROpt (RSeqs [RStr ''-'', RPlus (RCls (\<lambda>c. c \<in> set ''rf'')), RPlus RSpace]), RStr ''/''],
     RSeqs [RWordb, RStr ''dd'', RPlus RSpace, RStar RAny, RStr ''of=/dev/'', device_alt],
     RSeqs [RWordb, RStr ''mkfs.''],
     RSeqs [RWordb, RAlts [RStr ''shutdown'', RStr ''reboot'', RStr ''halt'', RStr ''poweroff''], RWordb],
     RSeqs [RStr ''>'', RStar RSpace, RStr ''/dev/'', device_alt],
     RSeqs [RWordb, RStr ''chmod'', RPlus RSpace, RStr ''777''],
     RSeqs [RWordb, RStr ''chmod'', RPlus RSpace, RStar RAny, RPlus RSpace, RStr ''/''],
     RSeqs [RWordb, RStr ''userdel'', RPlus RSpace, RStr ''root''],
     RSeqs [RWordb, RStr ''mv'', RPlus RSpace, RStar RAny, RPlus RSpace, RStr ''/dev/null''],
     RSeqs [RStr '':(){'', RStar RSpace, RStr '':|:&'', RStar RSpace, RStr ''};:''],
     RSeqs [RWordb, RStr ''curl'', RPlus RSpace, RStar RAny, RStr ''|'', RStar RSpace, shell_alt],
     RSeqs [RWordb, RStr ''wget'', RPlus RSpace, RStar RAny, RStr ''|'', RStar RSpace, shell_alt]]"

definition NewAdvancedDetector :: AdvancedDetector where
  "NewAdvancedDetector = \<lparr> dangerousPatterns = compileDangerousPatterns,
     dangerousKeywords =
       [''rm'', ''dd'', ''mkfs'', ''fdisk'', ''parted'',
        ''reboot'', ''shutdown'', ''halt'', ''poweroff'',
        ''iptables'', ''firewall'', ''ufw'',
        ''userdel'', ''usermod'', ''passwd'',
        ''chmod'', ''chown'', ''chgrp'',
        ''kill'', ''pkill'', ''killall''] \<rparr>"

definition containsDangerousKeyword :: "AdvancedDetector \<Rightarrow> string \<Rightarrow> bool" where
  "containsDangerousKeyword d command =
     (let lowerCmd = ToLower command; words = Fields lowerCmd in
      list_ex (\<lambda>word. let word = TrimLeft word ''./'' in
        list_ex (\<lambda>keyword. word = keyword \<or> HasPrefix word (keyword @ '' '')) (dangerousKeywords d)) words)"

definition quote_cls :: regex where
  "quote_cls = RCls (\<lambda>c. c = CHR 0x22 \<or> c = CHR 0x27)"

definition b64_symbol :: "char \<Rightarrow> bool" where
  "b64_symbol c \<longleftrightarrow> b64_value c \<noteq> None \<or> c = CHR ''=''"

text \<open>A quoted run of at least ten Base64 symbols; its only group is the text
  between the quotes.\<close>

definition base64_re :: regex where
  "base64_re = RSeqs [quote_cls, RRep 10 (RCls b64_symbol), RStar (RCls b64_symbol), quote_cls]"

definition inner :: "nat \<Rightarrow> string \<Rightarrow> string" where
  "inner n m = butlast (drop n m)"

primrec first_some :: "('a \<Rightarrow> 'b option) \<Rightarrow> 'a list \<Rightarrow> 'b option" where
  "first_some f [] = None"
| "first_some f (x # xs) = (case f x of None \<Rightarrow> first_some f xs | Some y \<Rightarrow> Some y)"

definition detectBase64Bypass :: "AdvancedDetector \<Rightarrow> string \<Rightarrow> reason option" where
  "detectBase64Bypass d command =
     (let lowerCmd = ToLower command in
      if Contains lowerCmd ''base64'' \<and> Contains lowerCmd ''-d'' then
        (case first_some (\<lambda>m. case DecodeString (inner 1 m) of
                 None \<Rightarrow> None
               | Some decodedCmd \<Rightarrow>
                   (if containsDangerousKeyword d decodedCmd then Some (Base64Keyword decodedCmd) else None))
             (FindAllString base64_re command) of
           Some r \<Rightarrow> Some r
         | None \<Rightarrow> (if Contains lowerCmd ''bash'' \<or> Contains lowerCmd ''sh'' then Some Base64Suspicious else None))
      else None)"

definition hex_value :: "char \<Rightarrow> nat option" where
  "hex_value c = (if is_digit c then Some (ord c - 48)
     else if 97 \<le> ord c \<and> ord c \<le> 102 then Some (ord c - 87)
     else if 65 \<le> ord c \<and> ord c \<le> 70 then Some (ord c - 55)
     else None)"

definition hex_re :: regex where
  "hex_re = RSeqs [RChar CHR 0x5C, RChar CHR ''x'', RRep 2 (RCls (\<lambda>c. hex_value c \<noteq> None))]"

text \<open>One hexadecimal escape, decoded by \<open>hex.DecodeString\<close>.\<close>

definition hex_byte :: "string \<Rightarrow> string" where
  "hex_byte m = (case TrimPrefix m [CHR 0x5C, CHR ''x''] of
     [a, b] \<Rightarrow> (case (hex_value a, hex_value b) of
       (Some x, Some y) \<Rightarrow> [chr (16 * x + y)] | _ \<Rightarrow> [])
   | _ \<Rightarrow> [])"

definition detectHexBypass :: "AdvancedDetector \<Rightarrow> string \<Rightarrow> reason option" where
  "detectHexBypass d command =
     (if MatchString hex_re command then
        (let decodedCmd = concat (map hex_byte (FindAllString hex_re command)) in
         if decodedCmd \<noteq> [] \<and> containsDangerousKeyword d decodedCmd then Some (HexKeyword decodedCmd)
         else (let lowerCmd = ToLower command in
           if Contains lowerCmd ''printf'' \<or> Contains lowerCmd ''echo'' then Some HexSuspicious else None))
      else None)"

definition escape_clean :: "string \<Rightarrow> string" where
  "escape_clean command =
     (let cleaned = RemoveChar CHR 0x5C command;
          cleaned = RemoveChar CHR 0x27 cleaned;
          cleaned = RemoveChar CHR 0x22 cleaned;
          cleaned = RemoveChar CHR 0x60 cleaned
      in ToLower cleaned)"

definition detectEscapeBypass :: "AdvancedDetector \<Rightarrow> string \<Rightarrow> reason option" where
  "detectEscapeBypass d command =
     (if containsDangerousKeyword d (escape_clean command) then Some EscapeKeyword else None)"

definition var_re :: regex where
  "var_re = RSeqs [RStr ''$'', ROpt (RStr ''{''),
     RCls (\<lambda>c. is_upper c \<or> is_lower c \<or> c = CHR ''_''), RStar (RCls word_char), ROpt (RStr ''}'')]"

definition detectVariableBypass :: "AdvancedDetector \<Rightarrow> string \<Rightarrow> reason option" where
  "detectVariableBypass d command =
     (let lowerCmd = ToLower command in
      if MatchString var_re command then
        first_some (\<lambda>keyword.
          if Contains lowerCmd ([CHR 0x27] @ keyword @ [CHR 0x27]) \<or>
             Contains lowerCmd ([CHR 0x22] @ keyword @ [CHR 0x22]) \<or>
             Contains lowerCmd (''='' @ keyword)
          then Some (VariableKeyword keyword) else None) (dangerousKeywords d)
      else None)"

text \<open>The two patterns, each with the length of the delimiter before its group.\<close>

definition subst_res :: "(regex \<times> nat) list" where
  "subst_res =
     [(RSeqs [RStr ''$('', RPlus (RCls (\<lambda>c. c \<noteq> CHR '')'')), RStr '')''], 2),
      (RSeqs [RChar CHR 0x60, RPlus (RCls (\<lambda>c. c \<noteq> CHR 0x60)), RChar CHR 0x60], 1)]"

definition detectCommandSubstitution :: "AdvancedDetector \<Rightarrow> string \<Rightarrow> reason option" where
  "detectCommandSubstitution d command =
     (let lowerCmd = ToLower command in
      if Contains command ''$('' \<or> Contains command [CHR 0x60] then
        (case first_some (\<lambda>(pattern, n). first_some (\<lambda>m.
                 if containsDangerousKeyword d (ToLower (inner n m)) then Some (SubstitutionKeyword (inner n m)) else None)
               (FindAllString pattern command)) subst_res of
           Some r \<Rightarrow> Some r
         | None \<Rightarrow>
             (if Contains lowerCmd ''echo'' \<and> list_ex (\<lambda>keyword. Contains lowerCmd keyword) (dangerousKeywords d)
              then Some SubstitutionSuspicious else None))
      else None)"

definition bracket_re :: regex where
  "bracket_re = RSeqs [RChar CHR 0x5B, RPlus (RCls (\<lambda>c. c \<noteq> CHR 0x5D)), RChar CHR 0x5D]"

definition wildcard_clean :: "string \<Rightarrow> string" where
  "wildcard_clean command =
     (let cleaned = ReplaceAllString (RStr ''?'') command '''';
          cleaned = ReplaceAllString bracket_re cleaned ''m'';
          cleaned = ReplaceAllString (RStr ''*'') cleaned ''''
      in ToLower cleaned)"

definition detectWildcardBypass :: "AdvancedDetector \<Rightarrow> string \<Rightarrow> reason option" where
  "detectWildcardBypass d command =
     (if containsDangerousKeyword d (wildcard_clean command) then Some WildcardKeyword else None)"

definition scriptPatterns :: "regex list" where
  "scriptPatterns =
     [RSeqs [RStr ''echo'', RStar RAny, RStr ''>'', RStar RAny, RStr ''.sh''],
      RSeqs [RStr ''cat'', RStar RAny, RStr ''>'', RStar RAny, RStr ''.sh''],
      RSeqs [RStr ''printf'', RStar RAny, RStr ''>'', RStar RAny, RStr ''.sh''],
      RSeqs [RStr ''tee'', RStar RAny, RStr ''.sh'']]"

definition detectScriptBypass :: "AdvancedDetector \<Rightarrow> string \<Rightarrow> reason option" where
  "detectScriptBypass d command =
     (let lowerCmd = ToLower command in
      first_some (\<lambda>pattern.
        if MatchString pattern lowerCmd \<and>
           (Contains lowerCmd ''bash'' \<or> Contains lowerCmd ''sh '' \<or> Contains lowerCmd ''./'') \<and>
           containsDangerousKeyword d command
        then Some ScriptKeyword else None) scriptPatterns)"

definition pipe_re :: regex where
  "pipe_re = RPlus (RCls (\<lambda>c. c \<in> set ''|;&''))"

definition detectPipelineBypass :: "AdvancedDetector \<Rightarrow> string \<Rightarrow> reason option" where
  "detectPipelineBypass d command =
     first_some (\<lambda>part. let cleaned = TrimSpace (ToLower part) in
       if containsDangerousKeyword d cleaned then Some PipelineKeyword else None)
       (RegexpSplit pipe_re command)"

definition detectStandardPatterns :: "AdvancedDetector \<Rightarrow> string \<Rightarrow> reason option" where
  "detectStandardPatterns d command =
     (let lowerCmd = ToLower command in
      first_some (\<lambda>pattern. if MatchString pattern lowerCmd then Some StandardPattern else None)
        (dangerousPatterns d))"

text \<open>The detectors in the order \<open>IsCommandDangerous\<close> tries them.\<close>

definition IsCommandDangerous :: "AdvancedDetector \<Rightarrow> string \<Rightarrow> reason option" where
  "IsCommandDangerous d command0 =
     (let command = TrimSpace command0 in
      if command = [] then None
      else first_some (\<lambda>detect. detect command)
        [detectBase64Bypass d, detectHexBypass d, detectEscapeBypass d, detectVariableBypass d,
         detectCommandSubstitution d, detectWildcardBypass d, detectScriptBypass d,
         detectPipelineBypass d, detectStandardPatterns d])"

section \<open>Keyword search\<close>

lemma first_some_None [simp]: "first_some f xs = None \<longleftrightarrow> (\<forall>x\<in>set xs. f x = None)"
  by (induction xs) (auto split: option.splits)

lemma first_some_SomeD: "first_some f xs = Some y \<Longrightarrow> \<exists>x\<in>set xs. f x = Some y"
  by (induction xs) (auto split: option.splits)

lemma first_some_Some_iff:
  "first_some f xs = Some y \<longleftrightarrow>
     (\<exists>i<length xs. f (xs ! i) = Some y \<and> (\<forall>j<i. f (xs ! j) = None))"
proof (induction xs)
  case (Cons x xs)
  show ?case
  proof (cases "f x")
    case None
    then show ?thesis using Cons by (auto simp: Ex_less_Suc2 All_less_Suc2)
  next
    case (Some z)
    have "(\<exists>i<length (x # xs). f ((x # xs) ! i) = Some y \<and> (\<forall>j<i. f ((x # xs) ! j) = None)) \<longleftrightarrow> z = y"
      using Some by (simp add: Ex_less_Suc2 All_less_Suc2)
    then show ?thesis using Some by simp
  qed
qed simp

text \<open>A word of \<open>Fields\<close> holds no space, so the second disjunct of the test in
  \<open>containsDangerousKeyword\<close> never holds: a keyword is found exactly when it is a
  whole word up to leading dots and slashes and case.\<close>

lemma containsDangerousKeyword_iff:
  "containsDangerousKeyword d command \<longleftrightarrow>
     (\<exists>word\<in>set (Fields command). TrimLeft (ToLower word) ''./'' \<in> set (dangerousKeywords d))"
proof -
  have no: "\<not> HasPrefix (TrimLeft w ''./'') (k @ '' '')" if "w \<in> set (Fields s)" for w k s
  proof
    assume "HasPrefix (TrimLeft w ''./'') (k @ '' '')"
    then have "CHR '' '' \<in> set (TrimLeft w ''./'')" by (auto simp: HasPrefix_iff)
    then have "CHR '' '' \<in> set w" by (auto simp: TrimLeft_def dest: set_dropWhileD)
    then show False using Fields_words [OF that] by (auto simp: is_space_def)
  qed
  then have "containsDangerousKeyword d command \<longleftrightarrow>
      (\<exists>w\<in>set (Fields (ToLower command)). TrimLeft w ''./'' \<in> set (dangerousKeywords d))"
    unfolding containsDangerousKeyword_def Let_def list_ex_iff by metis
  then show ?thesis by (auto simp: Fields_ToLower)
qed

lemma containsDangerousKeyword_TrimSpace [simp]:
  "containsDangerousKeyword d (TrimSpace s) = containsDangerousKeyword d s"
  by (simp add: containsDangerousKeyword_iff)

lemma containsDangerousKeyword_ToLower [simp]:
  "containsDangerousKeyword d (ToLower s) = containsDangerousKeyword d s"
  by (simp add: containsDangerousKeyword_iff Fields_ToLower)

lemma IsCommandDangerous_TrimSpace [simp]:
  "IsCommandDangerous d (TrimSpace s) = IsCommandDangerous d s"
  by (simp add: IsCommandDangerous_def)

lemma IsCommandDangerous_Nil [simp]: "IsCommandDangerous d [] = None"
  by (simp add: IsCommandDangerous_def)

section \<open>Detection of single bypasses\<close>

lemma IsCommandDangerous_detects:
  assumes "detect \<in> {detectBase64Bypass d, detectHexBypass d, detectEscapeBypass d, detectVariableBypass d,
         detectCommandSubstitution d, detectWildcardBypass d, detectScriptBypass d,
         detectPipelineBypass d, detectStandardPatterns d}"
    and "detect (TrimSpace command) \<noteq> None" and "TrimSpace command \<noteq> []"
  shows "IsCommandDangerous d command \<noteq> None"
proof
  assume "IsCommandDangerous d command = None"
  with assms(3) have "\<forall>detect\<in>set [detectBase64Bypass d, detectHexBypass d, detectEscapeBypass d,
      detectVariableBypass d, detectCommandSubstitution d, detectWildcardBypass d,
      detectScriptBypass d, detectPipelineBypass d, detectStandardPatterns d].
      detect (TrimSpace command) = None"
    unfolding IsCommandDangerous_def Let_def by (simp only: if_False first_some_None)
  with assms(1,2) show False by auto
qed

lemma Fields_nonempty_TrimSpace: "w \<in> set (Fields s) \<Longrightarrow> TrimSpace s \<noteq> []"
  by (metis Fields_TrimSpace Fields_Nil empty_iff list.set(1))

definition quote_chars :: string where
  "quote_chars = [CHR 0x5C, CHR 0x27, CHR 0x22, CHR 0x60]"

lemma escape_clean_filter: "escape_clean s = ToLower (filter (\<lambda>c. c \<notin> set quote_chars) s)"
  by (simp add: escape_clean_def RemoveChar_def quote_chars_def conj_ac cong: filter_cong)

lemma words_escape_clean_TrimSpace:
  "Fields (escape_clean (TrimSpace s)) = Fields (escape_clean s)"
proof -
  have "is_space c \<Longrightarrow> c \<notin> set quote_chars" for c
    by (auto simp: is_space_def quote_chars_def)
  then show ?thesis
    unfolding escape_clean_filter Fields_ToLower
    by (simp add: Fields_words_by words_by_filter words_by_TrimSpace)
qed

text \<open>A command one of whose words, separated by spaces or by the operators of a
  command line, is a keyword, is dangerous: the pipeline detector sees every
  piece between the operators.\<close>

lemma pipeline_pieces:
  "word \<in> set (words_by (\<lambda>c. c \<in> set ''|;&'' \<or> is_space c) s) \<longleftrightarrow>
     (\<exists>part\<in>set (RegexpSplit pipe_re s). word \<in> set (Fields part))"
proof -
  let ?p = "\<lambda>c. c \<in> set ''|;&''"
  have *: "(\<exists>part\<in>set ps. word \<in> set (Fields part)) \<longleftrightarrow>
        (\<exists>part\<in>set (filter (\<lambda>w. w \<noteq> []) ps). word \<in> set (Fields part))" for ps
    by force
  have "word \<in> set (words_by (\<lambda>c. ?p c \<or> is_space c) s) \<longleftrightarrow>
        (\<exists>part\<in>set (split_by ?p s). word \<in> set (Fields part))"
    by (simp only: words_by_or Fields_words_by set_concat set_map UN_iff bex_simps)
  also have "\<dots> \<longleftrightarrow> (\<exists>part\<in>set (RegexpSplit pipe_re s). word \<in> set (Fields part))"
    unfolding pipe_re_def
    by (subst (1 2) *) (simp only: RegexpSplit_plus_cls)
  finally show ?thesis .
qed

text \<open>No quoting evades the detector.  If some word of the command is a
  dangerous keyword (up to case and a leading path of dots and slashes) once
  every backslash, quote and backquote is deleted, then the command as typed is
  reported as dangerous, wherever those characters were inserted.\<close>

theorem escape_insertion_detected:
  assumes "word \<in> set (Fields (filter (\<lambda>c. c \<notin> set quote_chars) command))"
    and "TrimLeft (ToLower word) ''./'' \<in> set (dangerousKeywords d)"
  shows "IsCommandDangerous d command \<noteq> None"
proof -
  let ?clean = "filter (\<lambda>c. c \<notin> set quote_chars)"
  have "containsDangerousKeyword d (escape_clean command)"
    using assms unfolding escape_clean_filter containsDangerousKeyword_ToLower
    by (auto simp: containsDangerousKeyword_iff)
  then have "containsDangerousKeyword d (escape_clean (TrimSpace command))"
    by (simp add: containsDangerousKeyword_iff words_escape_clean_TrimSpace)
  then have "detectEscapeBypass d (TrimSpace command) \<noteq> None" by (simp add: detectEscapeBypass_def)
  moreover have "TrimSpace command \<noteq> []"
  proof
    assume "TrimSpace command = []"
    then have "\<forall>c\<in>set (?clean command). is_space c" by (simp add: TrimSpace_eq_Nil)
    then show False using assms(1) by (simp add: Fields_spaces)
  qed
  ultimately show ?thesis by (intro IsCommandDangerous_detects [of "detectEscapeBypass d"]) simp_all
qed

theorem escape_insertion_detected_witness:
  "IsCommandDangerous NewAdvancedDetector [CHR ''/'', CHR ''R'', CHR 0x5C, CHR ''m'', CHR '' '', CHR ''x''] \<noteq> None"
  by (rule escape_insertion_detected [of "''/Rm''"]) code_simp+

text \<open>The operators of a command line hide nothing.  Every keyword that
  stands as a word between spaces and the operators \<open>|\<close>, \<open>;\<close> and \<open>&\<close> (in any
  number, with or without spaces around them) makes the command dangerous.\<close>

theorem pipeline_word_detected:
  assumes "word \<in> set (words_by (\<lambda>c. c \<in> set ''|;&'' \<or> is_space c) command)"
    and "TrimLeft (ToLower word) ''./'' \<in> set (dangerousKeywords d)"
  shows "IsCommandDangerous d command \<noteq> None"
proof -
  have w: "word \<in> set (words_by (\<lambda>c. c \<in> set ''|;&'' \<or> is_space c) (TrimSpace command))"
    using assms(1) by (simp add: words_by_TrimSpace)
  then obtain part where part: "part \<in> set (RegexpSplit pipe_re (TrimSpace command))"
    "word \<in> set (Fields part)" unfolding pipeline_pieces by blast
  then have "containsDangerousKeyword d (TrimSpace (ToLower part))"
    using assms(2) unfolding containsDangerousKeyword_TrimSpace containsDangerousKeyword_ToLower
    by (auto simp: containsDangerousKeyword_iff)
  then have "detectPipelineBypass d (TrimSpace command) \<noteq> None"
    using part(1) by (auto simp: detectPipelineBypass_def Let_def)
  moreover have "TrimSpace command \<noteq> []" using w by (auto simp: words_by_def)
  ultimately show ?thesis by (intro IsCommandDangerous_detects [of "detectPipelineBypass d"]) simp_all
qed

theorem pipeline_word_detected_witness:
  "IsCommandDangerous NewAdvancedDetector ''ls;x&&./Kill|y'' \<noteq> None"
  by (rule pipeline_word_detected [of "''./Kill''"]) code_simp+

end
