(* ===== verification/Blacklist_Manager.thy ===== *)
theory Blacklist_Manager
imports Blacklist_Detector
begin

text \<open>
  The blacklist manager (\<open>internal/bastion/blacklist/manager.go\<close>): the rule
  lists, their refresh from the API or the database, and the decision whether a
  command of a user is blocked, with its reason.
\<close>

section \<open>Definitions\<close>

record BlacklistRule =
  rule_ID :: string
  rule_Command :: string
  rule_Pattern :: string
  rule_Description :: string
  rule_Scope :: string
  rule_Users :: "string list"
  rule_Enabled :: bool

record Manager =
  globalRules :: "BlacklistRule list"
  userRules :: "BlacklistRule list"
  advancedDetector :: "AdvancedDetector option"
  hasNotifier :: bool

text \<open>The loop of \<open>matchPattern\<close>: the text still to search is \<open>str[pos:]\<close>.\<close>

fun match_parts :: "string list \<Rightarrow> string \<Rightarrow> bool" where
  "match_parts [] str = True"
| "match_parts (part # parts) str =
     (if part = [] then match_parts parts str
      else (case Index str part of
        None \<Rightarrow> False
      | Some idx \<Rightarrow> match_parts parts (drop (idx + length part) str)))"

definition matchPattern :: "string \<Rightarrow> string \<Rightarrow> bool" where
  "matchPattern str pattern =
     (let parts = SplitChar CHR ''*'' pattern;
          parts = (if parts \<noteq> [] \<and> hd parts = [] then tl parts else parts)
      in match_parts parts str)"

definition matchCommand :: "string \<Rightarrow> string \<Rightarrow> bool" where
  "matchCommand command pattern =
     (if command = pattern then True
      else if Contains pattern ''*'' then matchPattern command pattern
      else (let parts = Fields command in parts \<noteq> [] \<and> HasPrefix (hd parts) pattern))"

definition containsUser :: "string list \<Rightarrow> string \<Rightarrow> bool" where
  "containsUser users username = list_ex (\<lambda>u. EqualFold u username) users"

definition rule_matches :: "string \<Rightarrow> BlacklistRule \<Rightarrow> bool" where
  "rule_matches lowerCommand rule = matchCommand lowerCommand (ToLower (rule_Pattern rule))"

definition user_rule_matches :: "string \<Rightarrow> string \<Rightarrow> BlacklistRule \<Rightarrow> bool" where
  "user_rule_matches lowerCommand username rule =
     (containsUser (rule_Users rule) username \<and> rule_matches lowerCommand rule)"

text \<open>\<open>checkBlocked\<close> returns the reason when the command is blocked.\<close>

definition checkBlocked :: "Manager \<Rightarrow> string \<Rightarrow> string \<Rightarrow> reason option" where
  "checkBlocked m command0 username =
     (let command = TrimSpace command0 in
      if command = [] then None
      else (let lowerCommand = ToLower command;
                detected = (case advancedDetector m of
                  None \<Rightarrow> None | Some d \<Rightarrow> IsCommandDangerous d command)
        in case detected of Some r \<Rightarrow> Some r
        | None \<Rightarrow> (case List.find (rule_matches lowerCommand) (globalRules m) of
            Some rule \<Rightarrow> Some (if rule_Description rule = [] then GlobalRule (rule_Command rule)
                              else RuleDescription (rule_Description rule))
          | None \<Rightarrow> (if username = [] then None
              else (case List.find (user_rule_matches lowerCommand username) (userRules m) of
                Some rule \<Rightarrow> Some (if rule_Description rule = [] then UserRule (rule_Command rule)
                                  else RuleDescription (rule_Description rule))
              | None \<Rightarrow> None)))))"

definition IsBlocked :: "Manager \<Rightarrow> string \<Rightarrow> string \<Rightarrow> bool" where
  "IsBlocked m command username = (checkBlocked m command username \<noteq> None)"

text \<open>The second component is the alert handed to the notification manager.\<close>

record alert =
  alert_username :: string
  alert_hostIP :: string
  alert_command :: string
  alert_reason :: reason

definition IsBlockedWithNotify :: "Manager \<Rightarrow> string \<Rightarrow> string \<Rightarrow> string \<Rightarrow> bool \<times> alert option" where
  "IsBlockedWithNotify m command username hostIP =
     (case checkBlocked m command username of
        None \<Rightarrow> (False, None)
      | Some reason \<Rightarrow> (True, if hasNotifier m
          then Some \<lparr> alert_username = username, alert_hostIP = hostIP,
                      alert_command = command, alert_reason = reason \<rparr>
          else None))"

datatype block_reason =
    AdvancedReason reason
  | GlobalPolicy string
  | GlobalForbidden string
  | UserPolicy string
  | UserForbidden string string
  | GenericReason

definition GetBlockReason :: "Manager \<Rightarrow> string \<Rightarrow> string \<Rightarrow> block_reason" where
  "GetBlockReason m command0 username =
     (let command = TrimSpace command0; lowerCommand = ToLower command;
          detected = (case advancedDetector m of None \<Rightarrow> None | Some d \<Rightarrow> IsCommandDangerous d command)
      in case detected of Some reason \<Rightarrow> AdvancedReason reason
      | None \<Rightarrow> (case List.find (rule_matches lowerCommand) (globalRules m) of
          Some rule \<Rightarrow> (if rule_Description rule \<noteq> [] then GlobalPolicy (rule_Description rule)
                       else GlobalForbidden (rule_Command rule))
        | None \<Rightarrow> (if username \<noteq> [] then
            (case List.find (user_rule_matches lowerCommand username) (userRules m) of
               Some rule \<Rightarrow> (if rule_Description rule \<noteq> [] then UserPolicy (rule_Description rule)
                            else UserForbidden (rule_Command rule) username)
             | None \<Rightarrow> GenericReason)
            else GenericReason)))"

text \<open>Sorting the fetched rules into the two lists; a rule of any other scope is
  dropped.\<close>

fun classify :: "BlacklistRule list \<Rightarrow> Manager \<Rightarrow> Manager" where
  "classify [] m = m"
| "classify (rule # rules) m =
     classify rules
       (if rule_Scope rule = ''global'' then m\<lparr>globalRules := globalRules m @ [rule]\<rparr>
        else if rule_Scope rule = ''user'' then m\<lparr>userRules := userRules m @ [rule]\<rparr>
        else m)"

datatype refresh_error = NoDatabase | FetchFailed string

text \<open>\<open>refresh\<close> takes the answer of the API client; \<open>refreshFromDB\<close> takes the
  database handle (absent, failing, or the table of rules).\<close>

definition refresh :: "string + BlacklistRule list \<Rightarrow> Manager \<Rightarrow> refresh_error option \<times> Manager" where
  "refresh fetched m = (case fetched of
     Inl err \<Rightarrow> (Some (FetchFailed err), m)
   | Inr rules \<Rightarrow> (None, classify rules (m\<lparr>globalRules := [], userRules := []\<rparr>)))"

definition refreshFromDB ::
  "(string + BlacklistRule list) option \<Rightarrow> Manager \<Rightarrow> refresh_error option \<times> Manager" where
  "refreshFromDB db m = (case db of
     None \<Rightarrow> (Some NoDatabase, m)
   | Some (Inl err) \<Rightarrow> (Some (FetchFailed err), m)
   | Some (Inr table) \<Rightarrow>
       (None, classify (filter rule_Enabled table) (m\<lparr>globalRules := [], userRules := []\<rparr>)))"

definition default_rule :: "string \<Rightarrow> string \<Rightarrow> string \<Rightarrow> string \<Rightarrow> BlacklistRule" where
  "default_rule i cmd pat desc = \<lparr> rule_ID = ''default-'' @ i, rule_Command = cmd, rule_Pattern = pat,
     rule_Description = desc, rule_Scope = ''global'', rule_Users = [], rule_Enabled = True \<rparr>"

definition setDefaultBlacklist :: "Manager \<Rightarrow> Manager" where
  "setDefaultBlacklist m = m\<lparr>
     globalRules :=
       [default_rule ''1'' ''rm'' ''rm'' ''delete files'',
        default_rule ''2'' ''rm -rf'' ''rm -rf *'' ''recursive forced deletion'',
        default_rule ''3'' ''dd'' ''dd'' ''disk operation'',
        default_rule ''4'' ''mkfs'' ''mkfs'' ''format disk'',
        default_rule ''5'' ''reboot'' ''reboot'' ''restart system'',
        default_rule ''6'' ''shutdown'' ''shutdown'' ''shut down'',
        default_rule ''7'' ''halt'' ''halt'' ''halt''],
     userRules := []\<rparr>"

definition empty_manager :: Manager where
  "empty_manager = \<lparr> globalRules = [], userRules = [],
     advancedDetector = Some NewAdvancedDetector, hasNotifier = False \<rparr>"

definition NewManager :: "string + BlacklistRule list \<Rightarrow> Manager" where
  "NewManager fetched = (case refresh fetched empty_manager of
     (None, m) \<Rightarrow> m | (Some err, m) \<Rightarrow> setDefaultBlacklist m)"

definition NewManagerFromDB :: "(string + BlacklistRule list) option \<Rightarrow> Manager" where
  "NewManagerFromDB db = (case refreshFromDB db empty_manager of
     (None, m) \<Rightarrow> m | (Some err, m) \<Rightarrow> setDefaultBlacklist m)"

definition SetNotificationManager :: "Manager \<Rightarrow> Manager" where
  "SetNotificationManager m = m\<lparr>hasNotifier := True\<rparr>"

text \<open>The periodic loops: one tick per answer of the source of the rules, until
  the stop channel is closed (the end of the list).  A failed tick is logged.\<close>

fun startRefreshLoop :: "(string + BlacklistRule list) list \<Rightarrow> Manager \<Rightarrow> Manager" where
  "startRefreshLoop [] m = m"
| "startRefreshLoop (fetched # ticks) m = startRefreshLoop ticks (snd (refresh fetched m))"

fun startRefreshLoopFromDB :: "(string + BlacklistRule list) option list \<Rightarrow> Manager \<Rightarrow> Manager" where
  "startRefreshLoopFromDB [] m = m"
| "startRefreshLoopFromDB (db # ticks) m = startRefreshLoopFromDB ticks (snd (refreshFromDB db m))"

record stats = global_rules :: nat user_rules :: nat total_rules :: nat

definition GetStats :: "Manager \<Rightarrow> stats" where
  "GetStats m = \<lparr> global_rules = length (globalRules m), user_rules = length (userRules m),
     total_rules = length (globalRules m) + length (userRules m) \<rparr>"

section \<open>Wildcard patterns\<close>

text \<open>What a pattern means: \<open>*\<close> stands for any text, every other character for
  itself, and nothing is required of the text after the pattern.\<close>

fun glob :: "string \<Rightarrow> string \<Rightarrow> bool" where
  "glob [] s = True"
| "glob (c # pat) s =
     (if c = CHR ''*'' then (\<exists>v\<in>set (suffixes s). glob pat v)
      else (case s of [] \<Rightarrow> False | x # v \<Rightarrow> x = c \<and> glob pat v))"

lemma glob_star: "glob (CHR ''*'' # pat) s \<longleftrightarrow> (\<exists>u v. s = u @ v \<and> glob pat v)"
proof -
  have "glob (CHR ''*'' # pat) s \<longleftrightarrow> (\<exists>v. suffix v s \<and> glob pat v)" by auto
  then show ?thesis unfolding suffix_def by blast
qed

lemma glob_star_append: "glob (CHR ''*'' # pat) s \<Longrightarrow> glob (CHR ''*'' # pat) (u @ s)"
  unfolding glob_star by (metis append.assoc)

lemma glob_word: "CHR ''*'' \<notin> set w \<Longrightarrow> glob (w @ pat) s \<longleftrightarrow> (\<exists>v. s = w @ v \<and> glob pat v)"
  by (induction w arbitrary: s) (auto split: list.splits)

lemma Join_Cons: "Join (w # ws) sep = w @ (if ws = [] then [] else sep @ Join ws sep)"
  by (cases ws) auto

lemma glob_star_Join:
  assumes "CHR ''*'' \<notin> set w"
  shows "glob (CHR ''*'' # Join (w # ws) ''*'') s \<longleftrightarrow>
    (\<exists>u v. s = u @ w @ v \<and> glob (CHR ''*'' # Join ws ''*'') v)"
proof (cases ws)
  case Nil
  have "glob (CHR ''*'' # []) v" for v unfolding glob_star by (auto intro: exI [of _ v])
  moreover have "glob w v \<longleftrightarrow> (\<exists>x. v = w @ x)" for v using glob_word [OF assms, of "[]"] by simp
  ultimately show ?thesis using Nil by (simp only: Join.simps glob_star [of w]) metis
next
  case (Cons x xs)
  then have "Join (w # ws) ''*'' = w @ CHR ''*'' # Join ws ''*''" by simp
  then show ?thesis using glob_word [OF assms] by (simp only: glob_star) metis
qed

lemma match_parts_glob:
  assumes "\<forall>w\<in>set ws. CHR ''*'' \<notin> set w"
  shows "match_parts ws s \<longleftrightarrow> glob (CHR ''*'' # Join ws ''*'') s"
  using assms
proof (induction ws arbitrary: s)
  case Nil
  show ?case unfolding glob_star by (auto intro: exI [of _ s])
next
  case (Cons w ws)
  let ?rest = "glob (CHR ''*'' # Join ws ''*'')"
  have w: "CHR ''*'' \<notin> set w" and IH: "\<And>s. match_parts ws s \<longleftrightarrow> ?rest s" using Cons by simp_all
  show ?case
  proof (cases "Index s w")
    case None
    then have "\<nexists>u v. s = u @ w @ v" by (metis Contains_def Contains_iff)
    moreover have "w \<noteq> []" using None by auto
    moreover have "\<not> glob (CHR ''*'' # Join (w # ws) ''*'') s"
      using calculation(1) unfolding glob_star_Join [OF w] by blast
    ultimately show ?thesis using None by (simp del: glob.simps)
  next
    case (Some i)
    have eq: "match_parts (w # ws) s \<longleftrightarrow> ?rest (drop (i + length w) s)"
      using Some IH by (cases "w = []") auto
    have "?rest (drop (i + length w) s) \<longleftrightarrow> (\<exists>u v. s = u @ w @ v \<and> ?rest v)"
    proof
      obtain u v where "s = u @ w @ v" "length u = i" using Some Index_Some_split by metis
      then show "?rest (drop (i + length w) s) \<Longrightarrow> \<exists>u v. s = u @ w @ v \<and> ?rest v" by auto
    next
      assume "\<exists>u v. s = u @ w @ v \<and> ?rest v"
      then obtain u v where uv: "s = u @ w @ v" "?rest v" by blast
      then have "i \<le> length u" using Some Index_le by (metis option.inject)
      then have "drop (i + length w) s = drop (i + length w) (u @ w) @ v" using uv by simp
      then show "?rest (drop (i + length w) s)" using glob_star_append uv(2) by metis
    qed
    then show ?thesis using eq glob_star_Join [OF w] by metis
  qed
qed

text \<open>C24: the greedy search for the pieces of a pattern decides the wildcard
  match.  A text matches exactly when some part of it, anywhere in the text, has
  the shape of the pattern.\<close>

theorem matchPattern_glob: "matchPattern str pattern \<longleftrightarrow> glob (CHR ''*'' # pattern) str"
proof -
  have "match_parts (if ws \<noteq> [] \<and> hd ws = [] then tl ws else ws) str = match_parts ws str" for ws
    by (cases ws) auto
  moreover have "\<forall>w\<in>set (SplitChar CHR ''*'' pattern). CHR ''*'' \<notin> set w"
    using split_by_words by (fastforce simp: SplitChar_def)
  ultimately show ?thesis
    unfolding matchPattern_def Let_def using match_parts_glob Join_split_by by metis
qed

section \<open>The blocking decision\<close>

lemma find_not_None [simp]: "(\<exists>y. List.find P xs = Some y) \<longleftrightarrow> (\<exists>x\<in>set xs. P x)"
  using find_ex by (metis not_None_eq)

lemma IsBlocked_iff:
  "IsBlocked m command username \<longleftrightarrow> TrimSpace command \<noteq> [] \<and>
     ((\<exists>d. advancedDetector m = Some d \<and> IsCommandDangerous d command \<noteq> None) \<or>
      (\<exists>rule\<in>set (globalRules m). rule_matches (ToLower (TrimSpace command)) rule) \<or>
      username \<noteq> [] \<and>
      (\<exists>rule\<in>set (userRules m). user_rule_matches (ToLower (TrimSpace command)) username rule))"
  unfolding IsBlocked_def checkBlocked_def Let_def
  by (auto split: option.splits simp: find_None_iff find_Some_iff)

lemma classify_rules:
  "classify rules m = m\<lparr>globalRules := globalRules m @ filter (\<lambda>r. rule_Scope r = ''global'') rules,
     userRules := userRules m @ filter (\<lambda>r. rule_Scope r = ''user'') rules\<rparr>"
  by (induction rules arbitrary: m) auto

text \<open>The contract the terminal relies on: whether a line is blocked does not
  depend on the space around it, and an empty line never is.\<close>

locale command_filter =
  fixes blocked :: "string \<Rightarrow> bool"
  assumes blocked_trim: "blocked (TrimSpace command) = blocked command"
    and not_blocked_empty: "\<not> blocked []"
begin

lemma blocked_not_space: "blocked command \<Longrightarrow> TrimSpace command \<noteq> []"
  using blocked_trim not_blocked_empty by metis

end

interpretation mgr: command_filter "\<lambda>command. IsBlocked m command username" for m username
  by unfold_locales (simp_all add: IsBlocked_iff)

text \<open>C9: what the blacklist manager of the terminal server blocks.  Built from
  the table of rules it blocks a command of a user exactly when the command is
  not blank and the detector finds it dangerous, or an enabled global rule
  matches it, or an enabled user rule that names the user (up to case) matches
  it; rules that are disabled or of another scope have no effect.\<close>

theorem NewManagerFromDB_blocks:
  "IsBlocked (NewManagerFromDB (Some (Inr table))) command username \<longleftrightarrow>
     TrimSpace command \<noteq> [] \<and>
     (IsCommandDangerous NewAdvancedDetector command \<noteq> None \<or>
      (\<exists>rule\<in>set table. rule_Enabled rule \<and>
         matchCommand (ToLower (TrimSpace command)) (ToLower (rule_Pattern rule)) \<and>
         (rule_Scope rule = ''global'' \<or>
          rule_Scope rule = ''user'' \<and> username \<noteq> [] \<and>
            (\<exists>u\<in>set (rule_Users rule). EqualFold u username))))"
  unfolding IsBlocked_iff NewManagerFromDB_def refreshFromDB_def empty_manager_def
  by (simp add: classify_rules user_rule_matches_def rule_matches_def containsUser_def list_ex_iff) blast

theorem NewManagerFromDB_blocks_witness:
  "IsBlocked (NewManagerFromDB (Some (Inr [\<lparr> rule_ID = ''1'', rule_Command = ''vi'', rule_Pattern = ''vi*hosts'',
      rule_Description = [], rule_Scope = ''user'', rule_Users = [''Bob''], rule_Enabled = True \<rparr>])))
    ''vi /etc/hosts'' ''bob''"
  unfolding NewManagerFromDB_blocks by code_simp

lemma matchCommand_prefix:
  assumes "Fields command = w # ws" "prefix pattern w" "CHR ''*'' \<notin> set pattern"
  shows "matchCommand command pattern"
  using assms by (auto simp: matchCommand_def HasPrefix_def Contains_char)

lemma setDefaultBlacklist_blocks:
  assumes "Fields command = w # ws"
    and "pattern \<in> {''rm'', ''dd'', ''mkfs'', ''reboot'', ''shutdown'', ''halt''}"
    and "prefix pattern (ToLower w)"
  shows "IsBlocked (setDefaultBlacklist m) command username"
proof -
  have "Fields (ToLower (TrimSpace command)) = ToLower w # map ToLower ws"
    using assms(1) by (simp add: Fields_ToLower)
  moreover have "CHR ''*'' \<notin> set pattern" using assms(2) by auto
  ultimately have "matchCommand (ToLower (TrimSpace command)) pattern"
    using assms(3) matchCommand_prefix by blast
  moreover have "\<exists>rule\<in>set (globalRules (setDefaultBlacklist m)). ToLower (rule_Pattern rule) = pattern"
    using assms(2) by (elim insertE emptyE; simp add: setDefaultBlacklist_def default_rule_def)
      (code_simp; blast)+
  moreover have "TrimSpace command \<noteq> []" using assms(1) Fields_nonempty_TrimSpace by (metis list.set_intros(1))
  ultimately show ?thesis by (auto simp: IsBlocked_iff rule_matches_def)
qed

text \<open>Without its rules the manager falls back to blocking.  When the initial
  load fails (no database, a failing query or a failing API call), every command
  whose first word begins with \<open>rm\<close>, \<open>dd\<close>, \<open>mkfs\<close>, \<open>reboot\<close>, \<open>shutdown\<close> or \<open>halt\<close>
  (in any case) is blocked for every user.\<close>

theorem default_blacklist_blocks:
  assumes "Fields command = w # ws"
    and "pattern \<in> {''rm'', ''dd'', ''mkfs'', ''reboot'', ''shutdown'', ''halt''}"
    and "prefix pattern (ToLower w)"
  shows "IsBlocked (NewManagerFromDB None) command username \<and>
    IsBlocked (NewManagerFromDB (Some (Inl err))) command username \<and>
    IsBlocked (NewManager (Inl err)) command username"
  using setDefaultBlacklist_blocks [OF assms]
  by (simp add: NewManagerFromDB_def refreshFromDB_def NewManager_def refresh_def)

theorem default_blacklist_blocks_witness:
  "IsBlocked (NewManagerFromDB None) ''  RMdir x'' ''bob'' \<and>
   IsBlocked (NewManager (Inl ''timeout'')) ''  RMdir x'' ''bob''"
proof -
  have "Fields ''  RMdir x'' = ''RMdir'' # [''x'']" "prefix ''rm'' (ToLower ''RMdir'')"
    by code_simp+
  from default_blacklist_blocks [OF this(1) _ this(2)] show ?thesis by blast
qed

lemma refresh_errors: "startRefreshLoop (map Inl errs) m = m"
  by (induction errs arbitrary: m) (auto simp: refresh_def)

lemma refreshFromDB_keeps: "advancedDetector (snd (refreshFromDB db m)) = advancedDetector m"
  by (auto simp: refreshFromDB_def classify_rules split: option.splits sum.splits)

lemma refresh_keeps:
  "advancedDetector (snd (refresh f m)) = advancedDetector m"
  "hasNotifier (snd (refresh f m)) = hasNotifier m"
  by (auto simp: refresh_def classify_rules split: sum.splits)

lemma startRefreshLoop_append:
  "startRefreshLoop (xs @ ys) m = startRefreshLoop ys (startRefreshLoop xs m)"
  by (induction xs arbitrary: m) auto

text \<open>A refresh that fails changes no decision: after any ticks of the
  refresh loop the rules in force are those of the last tick that succeeded,
  and the detector stays in place.\<close>

theorem refresh_loop_last_success:
  "startRefreshLoop (ticks @ Inr rules # map Inl errs) m =
     m\<lparr>globalRules := filter (\<lambda>r. rule_Scope r = ''global'') rules,
       userRules := filter (\<lambda>r. rule_Scope r = ''user'') rules\<rparr>"
proof -
  obtain g u where "startRefreshLoop ticks m = m\<lparr>globalRules := g, userRules := u\<rparr>"
  proof (induction ticks arbitrary: m thesis)
    case (Cons f ticks)
    obtain g u where "snd (refresh f m) = m\<lparr>globalRules := g, userRules := u\<rparr>"
    proof (cases f)
      case (Inl err)
      then show ?thesis using that [of "userRules m" "globalRules m"] by (simp add: refresh_def)
    qed (auto simp: refresh_def classify_rules intro: that)
    then show ?case using Cons.IH [of "snd (refresh f m)"] Cons.prems by auto
  qed (metis Manager.surjective Manager.update_convs(1,2) startRefreshLoop.simps(1))
  then show ?thesis
    by (simp add: startRefreshLoop_append refresh_errors refresh_def classify_rules)
qed

text \<open>The reason shown to the user agrees with the decision.\<close>

lemma GetBlockReason_blocked:
  assumes "TrimSpace command \<noteq> []"
  shows "IsBlocked m command username \<longleftrightarrow> GetBlockReason m command username \<noteq> GenericReason"
  using assms unfolding IsBlocked_def checkBlocked_def GetBlockReason_def Let_def
  by (auto split: option.splits)

end
