(* ===== verification/Terminal_Interceptor.thy ===== *)
theory Terminal_Interceptor
imports Blacklist_Manager
begin

text \<open>
  The forwarding loops of a terminal session
  (\<open>internal/sshserver/terminal/handler.go\<close>, \<open>connectToHostWithSuccessCallback\<close>):
  every byte the client types is read, buffered, and forwarded to the host, and
  the line is checked against the blacklist when it ends.  The host is described
  by a plain line discipline; the main result says which lines it executes.
\<close>

section \<open>Definitions\<close>

text \<open>What one terminal session has done so far: the buffered line, the bytes
  accepted by the host's standard input, the warnings written to the client, the
  audited commands, the recorded and audited data by direction, the byte counters
  and the alerts.\<close>

datatype rec_data = RecBytes string | RecBlocked string block_reason

record term_state =
  commandBuffer :: string
  host_stdin :: string
  client_warnings :: "block_reason list"
  audited_commands :: "string list"
  recorded :: "(string \<times> rec_data) list"
  audited_data :: "(string \<times> string) list"
  BytesIn :: nat
  BytesOut :: nat
  alerts :: "alert list"

definition new_term :: term_state where
  "new_term = \<lparr> commandBuffer = [], host_stdin = [], client_warnings = [], audited_commands = [],
     recorded = [], audited_data = [], BytesIn = 0, BytesOut = 0, alerts = [] \<rparr>"

text \<open>How a command is checked: \<open>IsBlockedWithNotify\<close> and \<open>GetBlockReason\<close> of the
  manager for the user and host of the session.  Without a manager nothing is
  blocked.\<close>

type_synonym checker = "(string \<Rightarrow> bool \<times> alert option) \<times> (string \<Rightarrow> block_reason)"

definition session_checker :: "Manager option \<Rightarrow> string \<Rightarrow> string \<Rightarrow> checker" where
  "session_checker mgr username hostIP = (case mgr of
     None \<Rightarrow> (\<lambda>command. (False, None), \<lambda>command. GenericReason)
   | Some m \<Rightarrow> (\<lambda>command. IsBlockedWithNotify m command username hostIP,
               \<lambda>command. GetBlockReason m command username))"

text \<open>Outcome of handling one byte: the loop body goes on to its error check,
  goes straight to the next read (\<open>continue\<close>), or returns with a write error.\<close>

datatype handled = Forwarded term_state | Blocked term_state | WriteFailed term_state

definition write_host :: "bool \<Rightarrow> string \<Rightarrow> term_state \<Rightarrow> term_state" where
  "write_host ok data st = (if ok then st\<lparr>host_stdin := host_stdin st @ data\<rparr> else st)"

definition record_input :: "char \<Rightarrow> term_state \<Rightarrow> term_state" where
  "record_input ch st = st\<lparr>BytesIn := BytesIn st + 1,
     recorded := recorded st @ [(''in'', RecBytes [ch])],
     audited_data := audited_data st @ [(''in'', [ch])]\<rparr>"

definition forward :: "bool \<Rightarrow> char \<Rightarrow> term_state \<Rightarrow> handled" where
  "forward ok ch st = (if ok then Forwarded (record_input ch (write_host True [ch] st)) else WriteFailed st)"

definition handle_byte :: "checker \<Rightarrow> bool \<Rightarrow> char \<Rightarrow> term_state \<Rightarrow> handled" where
  "handle_byte chk ok ch st =
     (if ch = chr 13 \<or> ch = chr 10 then
        (let command = TrimSpace (commandBuffer st);
             st = st\<lparr>commandBuffer := []\<rparr>
         in if command \<noteq> [] \<and> fst (fst chk command) then
              (let reason = snd chk command;
                   st = st\<lparr>alerts := alerts st @ (case snd (fst chk command) of None \<Rightarrow> [] | Some a \<Rightarrow> [a])\<rparr>;
                   st = st\<lparr>audited_commands := audited_commands st @ [''[BLOCKED] '' @ command]\<rparr>;
                   st = write_host ok [chr 3] st;
                   st = st\<lparr>client_warnings := client_warnings st @ [reason]\<rparr>;
                   st = st\<lparr>recorded := recorded st @ [(''blocked'', RecBlocked command reason)]\<rparr>
               in Blocked (st\<lparr>commandBuffer := []\<rparr>))
            else forward ok ch st)
      else if ch = chr 3 then forward ok ch (st\<lparr>commandBuffer := []\<rparr>)
      else if ch = chr 127 \<or> ch = chr 8 then
        forward ok ch (if commandBuffer st \<noteq> [] then st\<lparr>commandBuffer := butlast (commandBuffer st)\<rparr> else st)
      else if 32 \<le> ord ch \<and> ord ch < 127 then
        forward ok ch (st\<lparr>commandBuffer := commandBuffer st @ [ch]\<rparr>)
      else forward ok ch st)"

text \<open>One \<open>clientChannel.Read\<close>: the byte read if any, whether a write to the host
  would succeed at that moment, and whether the read also returned an error.\<close>

record client_read =
  read_byte :: "char option"
  host_accepts :: bool
  read_fails :: bool

datatype loop_end = Waiting | Returned | HostWriteError

fun input_loop :: "checker \<Rightarrow> client_read list \<Rightarrow> term_state \<Rightarrow> loop_end \<times> term_state" where
  "input_loop chk [] st = (Waiting, st)"
| "input_loop chk (r # rs) st =
     (case read_byte r of
        None \<Rightarrow> (if read_fails r then (Returned, st) else input_loop chk rs st)
      | Some ch \<Rightarrow>
          (case handle_byte chk (host_accepts r) ch st of
             Blocked st' \<Rightarrow> input_loop chk rs st'
           | WriteFailed st' \<Rightarrow> (HostWriteError, st')
           | Forwarded st' \<Rightarrow> (if read_fails r then (Returned, st') else input_loop chk rs st')))"

text \<open>The output loops copy what the host sends; only standard output is audited
  and searched for commands (\<open>output_parsed\<close> is what is fed to the extractor).\<close>

record host_read =
  host_data :: string
  client_accepts :: bool
  host_read_fails :: bool

fun stdout_loop :: "host_read list \<Rightarrow> term_state \<Rightarrow> string list \<Rightarrow> loop_end \<times> term_state \<times> string list" where
  "stdout_loop [] st fed = (Waiting, st, fed)"
| "stdout_loop (r # rs) st fed =
     (if host_data r \<noteq> [] then
        (if \<not> client_accepts r then (HostWriteError, st, fed)
         else (let st' = st\<lparr>BytesOut := BytesOut st + length (host_data r),
                            recorded := recorded st @ [(''out'', RecBytes (host_data r))],
                            audited_data := audited_data st @ [(''out'', host_data r)]\<rparr>;
                   fed' = fed @ [host_data r]
               in if host_read_fails r then (Returned, st', fed') else stdout_loop rs st' fed'))
      else if host_read_fails r then (Returned, st, fed) else stdout_loop rs st fed)"

fun stderr_loop :: "host_read list \<Rightarrow> term_state \<Rightarrow> loop_end \<times> term_state" where
  "stderr_loop [] st = (Waiting, st)"
| "stderr_loop (r # rs) st =
     (if host_data r \<noteq> [] then
        (if \<not> client_accepts r then (HostWriteError, st)
         else (let st' = st\<lparr>BytesOut := BytesOut st + length (host_data r),
                            recorded := recorded st @ [(''out'', RecBytes (host_data r))]\<rparr>
               in if host_read_fails r then (Returned, st') else stderr_loop rs st'))
      else if host_read_fails r then (Returned, st) else stderr_loop rs st)"

definition truncateString :: "string \<Rightarrow> nat \<Rightarrow> string" where
  "truncateString s maxLen =
     (if length s \<le> maxLen then s
      else if maxLen \<le> 3 then take maxLen s
      else take (maxLen - 3) s @ ''...'')"

section \<open>The host's line discipline\<close>

text \<open>A host that edits the line as a plain terminal does: carriage return and
  line feed execute the line, Ctrl-C discards it, backspace and delete remove its
  last character, printable characters are added, and the other control bytes do
  not change it.  Its state is the line being typed and the executed lines.\<close>

definition host_byte :: "char \<Rightarrow> string \<times> string list \<Rightarrow> string \<times> string list" where
  "host_byte ch s = (case s of (line, done) \<Rightarrow>
     (if ch = chr 13 \<or> ch = chr 10 then ([], done @ [line])
      else if ch = chr 3 then ([], done)
      else if ch = chr 127 \<or> ch = chr 8 then (butlast line, done)
      else if 32 \<le> ord ch \<and> ord ch < 127 then (line @ [ch], done)
      else (line, done)))"

definition host_run :: "string \<Rightarrow> string \<times> string list" where
  "host_run input = fold host_byte input ([], [])"

definition host_executes :: "string \<Rightarrow> string list" where
  "host_executes input = snd (host_run input)"

text \<open>The bytes of a session that reaches its end without a read or write error.\<close>

definition typed :: "string \<Rightarrow> client_read list" where
  "typed input = map (\<lambda>ch. \<lparr> read_byte = Some ch, host_accepts = True, read_fails = False \<rparr>) input"

text \<open>A closed connection stays closed: once a write fails, all later ones do.\<close>

fun closes_once :: "client_read list \<Rightarrow> bool" where
  "closes_once [] = True"
| "closes_once (r # rs) = ((host_accepts r \<or> (\<forall>q\<in>set rs. \<not> host_accepts q)) \<and> closes_once rs)"

section \<open>Facts about one byte\<close>

lemma host_run_append: "host_run (xs @ ys) = fold host_byte ys (host_run xs)"
  by (simp add: host_run_def)

lemma host_run_snoc: "host_run (xs @ [c]) = host_byte c (host_run xs)"
  by (simp add: host_run_append)

definition handled_state :: "handled \<Rightarrow> term_state" where
  "handled_state h = (case h of Forwarded st \<Rightarrow> st | Blocked st \<Rightarrow> st | WriteFailed st \<Rightarrow> st)"

text \<open>The effect of one byte on the buffer and on the bytes sent to the host,
  when the host accepts writes.\<close>

lemma handle_byte_cases:
  assumes "commandBuffer st = fst (host_run (host_stdin st))"
  shows "handle_byte chk True ch st = Blocked st' \<Longrightarrow>
      host_stdin st' = host_stdin st @ [chr 3] \<and> commandBuffer st' = [] \<and>
      (ch = chr 13 \<or> ch = chr 10) \<and> fst (fst chk (TrimSpace (commandBuffer st)))"
    and "handle_byte chk True ch st = Forwarded st' \<Longrightarrow>
      host_stdin st' = host_stdin st @ [ch] \<and> commandBuffer st' = fst (host_run (host_stdin st')) \<and>
      ((ch = chr 13 \<or> ch = chr 10) \<longrightarrow>
         TrimSpace (commandBuffer st) = [] \<or> \<not> fst (fst chk (TrimSpace (commandBuffer st))))"
    and "handle_byte chk True ch st \<noteq> WriteFailed st'"
  using assms
  by (auto simp: handle_byte_def Let_def forward_def write_host_def record_input_def host_run_snoc
      host_byte_def split: if_splits prod.splits option.splits)

section \<open>The interceptor against the line discipline\<close>

text \<open>A checker whose verdict is a command filter.  The terminal's guarantees hold
  for every such checker.\<close>

locale command_check = command_filter "\<lambda>command. fst (check command)"
  for check :: "string \<Rightarrow> bool \<times> alert option"
begin

abbreviation blocked :: "string \<Rightarrow> bool" where "blocked command \<equiv> fst (check command)"

text \<open>The buffer is the line the host holds, the host has executed the lines of
  the typed input that are not blocked, and the others are audited.\<close>

definition in_step :: "string \<Rightarrow> term_state \<Rightarrow> bool" where
  "in_step raw st \<longleftrightarrow> commandBuffer st = fst (host_run (host_stdin st)) \<and>
     commandBuffer st = fst (host_run raw) \<and>
     host_executes (host_stdin st) = filter (\<lambda>l. \<not> blocked l) (host_executes raw) \<and>
     audited_commands st = map (\<lambda>l. ''[BLOCKED] '' @ TrimSpace l) (filter blocked (host_executes raw))"

lemma in_step_new: "in_step [] new_term"
  by (simp add: in_step_def new_term_def host_run_def host_executes_def)

lemma handle_byte_audit:
  "handle_byte (check, why) ok ch st = Blocked st' \<Longrightarrow>
     audited_commands st' = audited_commands st @ [''[BLOCKED] '' @ TrimSpace (commandBuffer st)]"
  "handle_byte (check, why) ok ch st = Forwarded st' \<Longrightarrow> audited_commands st' = audited_commands st"
  by (auto simp: handle_byte_def Let_def forward_def write_host_def record_input_def split: if_splits)

lemma host_executes_snoc:
  "host_executes (xs @ [c]) =
     host_executes xs @ (if c = chr 13 \<or> c = chr 10 then [fst (host_run xs)] else [])"
  by (auto simp: host_executes_def host_run_snoc host_byte_def split: prod.splits)

lemma host_line_newline: "c = chr 13 \<or> c = chr 10 \<Longrightarrow> fst (host_run (xs @ [c])) = []"
  by (auto simp: host_run_snoc host_byte_def split: prod.splits)

lemma forwarded_newline:
  assumes "commandBuffer st = fst (host_run (host_stdin st))"
    and "handle_byte (check, why) True ch st = Forwarded st'" "ch = chr 13 \<or> ch = chr 10"
  shows "\<not> blocked (commandBuffer st)"
  using handle_byte_cases(2) [OF assms(1,2)] assms(3) blocked_trim [of "commandBuffer st"] not_blocked_empty
  by (metis fst_conv)

lemma in_step_byte:
  assumes inv: "in_step raw st"
  shows "\<exists>st'. handle_byte (check, why) True ch st \<in> {Forwarded st', Blocked st'} \<and> in_step (raw @ [ch]) st'"
proof (cases "handle_byte (check, why) True ch st")
  case (Forwarded st')
  have buf: "commandBuffer st = fst (host_run (host_stdin st))" "commandBuffer st = fst (host_run raw)"
    using inv unfolding in_step_def by blast+
  have st': "host_stdin st' = host_stdin st @ [ch]" "commandBuffer st' = fst (host_run (host_stdin st'))"
    and ok: "ch = chr 13 \<or> ch = chr 10 \<Longrightarrow> \<not> blocked (commandBuffer st)"
    using handle_byte_cases(2) [OF buf(1) Forwarded] forwarded_newline [OF buf(1) Forwarded] by auto
  have "fst (host_run (host_stdin st @ [ch])) = fst (host_run (raw @ [ch]))"
    using buf by (auto simp: host_run_snoc host_byte_def split: prod.splits)
  moreover have "audited_commands st' = audited_commands st"
    using handle_byte_audit(2) [OF Forwarded] .
  ultimately have "in_step (raw @ [ch]) st'"
    using inv st' ok buf by (auto simp: in_step_def host_executes_snoc)
  then show ?thesis using Forwarded by blast
next
  case (Blocked st')
  have buf: "commandBuffer st = fst (host_run (host_stdin st))" "commandBuffer st = fst (host_run raw)"
    using inv unfolding in_step_def by blast+
  have st': "host_stdin st' = host_stdin st @ [chr 3]" "commandBuffer st' = []"
    and nl: "ch = chr 13 \<or> ch = chr 10" and b: "blocked (commandBuffer st)"
    using handle_byte_cases(1) [OF buf(1) Blocked] blocked_trim by simp_all
  have "fst (host_run (host_stdin st')) = []" "host_executes (host_stdin st') = host_executes (host_stdin st)"
    using st'(1) by (auto simp: host_executes_def host_run_snoc host_byte_def chr_eq_iff split: prod.splits)
  then have "in_step (raw @ [ch]) st'"
    using inv st' nl b buf host_line_newline [OF nl] handle_byte_audit(1) [OF Blocked]
    by (auto simp: in_step_def host_executes_snoc)
  then show ?thesis using Blocked by blast
next
  case (WriteFailed st')
  moreover have "commandBuffer st = fst (host_run (host_stdin st))" using inv unfolding in_step_def by blast
  ultimately show ?thesis using handle_byte_cases(3) by blast
qed

lemma in_step_loop:
  assumes "in_step raw st"
  shows "\<exists>st'. input_loop (check, why) (typed input) st = (Waiting, st') \<and> in_step (raw @ input) st'"
  using assms
proof (induction input arbitrary: raw st)
  case (Cons ch input)
  obtain st1 where "handle_byte (check, why) True ch st \<in> {Forwarded st1, Blocked st1}"
    "in_step (raw @ [ch]) st1" using in_step_byte [OF Cons.prems] by blast
  then show ?case using Cons.IH [of "raw @ [ch]" st1] by (auto simp: typed_def)
qed (simp add: typed_def)

text \<open>Under read and write errors: the executed lines are unblocked, and the
  buffer is the host's line unless the host takes no more input.\<close>

definition safe :: "term_state \<Rightarrow> bool" where
  "safe st \<longleftrightarrow> (\<forall>l\<in>set (host_executes (host_stdin st)). \<not> blocked l)"

lemma safe_byte:
  assumes "safe st" "commandBuffer st = fst (host_run (host_stdin st)) \<or> \<not> ok"
  shows "safe (handled_state (handle_byte (check, why) ok ch st))"
    and "handle_byte (check, why) ok ch st = Blocked st' \<Longrightarrow>
      commandBuffer st' = fst (host_run (host_stdin st')) \<or> \<not> ok"
    and "handle_byte (check, why) ok ch st = Forwarded st' \<Longrightarrow>
      ok \<and> commandBuffer st' = fst (host_run (host_stdin st'))"
proof -
  have no: "host_stdin (handled_state (handle_byte (check, why) False ch st)) = host_stdin st"
    by (simp add: handle_byte_def handled_state_def forward_def write_host_def Let_def)
  have nf: "handle_byte (check, why) False ch st \<noteq> Forwarded st'" for st'
    by (simp add: handle_byte_def forward_def Let_def)
  show "safe (handled_state (handle_byte (check, why) ok ch st))"
  proof (cases ok)
    case True
    then have buf: "commandBuffer st = fst (host_run (host_stdin st))" using assms(2) by simp
    show ?thesis
    proof (cases "handle_byte (check, why) ok ch st")
      case (Forwarded st')
      then have *: "handle_byte (check, why) True ch st = Forwarded st'" using True by simp
      have "host_stdin st' = host_stdin st @ [ch]" using handle_byte_cases(2) [OF buf *] by simp
      then show ?thesis using Forwarded assms(1) buf forwarded_newline [OF buf *]
        by (auto simp: safe_def handled_state_def host_executes_snoc)
    next
      case (Blocked st')
      then have "host_stdin st' = host_stdin st @ [chr 3]"
        using handle_byte_cases(1) [OF buf, of "(check, why)" ch st'] True by simp
      then show ?thesis using Blocked assms(1)
        by (auto simp: safe_def handled_state_def host_executes_snoc chr_eq_iff)
    qed (use handle_byte_cases(3) [OF buf] True in auto)
  qed (use no assms(1) in \<open>simp add: safe_def\<close>)
  show "handle_byte (check, why) ok ch st = Blocked st' \<Longrightarrow>
      commandBuffer st' = fst (host_run (host_stdin st')) \<or> \<not> ok"
    using handle_byte_cases(1) [of st "(check, why)" ch st'] assms(2) host_run_snoc [of "host_stdin st" "chr 3"]
    by (cases ok) (auto simp: host_byte_def chr_eq_iff split: prod.splits)
  show "handle_byte (check, why) ok ch st = Forwarded st' \<Longrightarrow>
      ok \<and> commandBuffer st' = fst (host_run (host_stdin st'))"
    using handle_byte_cases(2) [of st "(check, why)" ch st'] assms(2) nf by (cases ok) auto
qed

lemma safe_loop:
  assumes "safe st" "closes_once rs"
    and "commandBuffer st = fst (host_run (host_stdin st)) \<or> (\<forall>r\<in>set rs. \<not> host_accepts r)"
  shows "safe (snd (input_loop (check, why) rs st))"
  using assms
proof (induction rs arbitrary: st)
  case (Cons r rs)
  show ?case
  proof (cases "read_byte r")
    case None
    then show ?thesis using Cons by auto
  next
    case (Some ch)
    let ?ok = "host_accepts r"
    have pre: "commandBuffer st = fst (host_run (host_stdin st)) \<or> \<not> ?ok" using Cons.prems(3) by auto
    note facts = safe_byte [OF Cons.prems(1) pre, of why ch]
    show ?thesis
    proof (cases "handle_byte (check, why) ?ok ch st")
      case (Blocked st')
      then show ?thesis using facts(1) facts(2) [OF Blocked] Some Cons.IH [of st'] Cons.prems(2)
        by (auto simp: handled_state_def)
    next
      case (Forwarded st')
      then show ?thesis using facts(1) facts(3) [OF Forwarded] Some Cons.IH [of st'] Cons.prems(2)
        by (auto simp: handled_state_def)
    qed (use facts(1) Some in \<open>simp add: handled_state_def\<close>)
  qed
qed simp

end

interpretation mgr_check: command_check "\<lambda>command. IsBlockedWithNotify m command username hostIP"
  for m username hostIP
  by unfold_locales (simp_all add: IsBlockedWithNotify_def checkBlocked_def split: option.splits)

lemma IsBlockedWithNotify_fst: "fst (IsBlockedWithNotify m command username hostIP) = IsBlocked m command username"
  by (simp add: IsBlockedWithNotify_def IsBlocked_def split: option.splits)




end
