(* ===== verification/Command_Parser.thy ===== *)
theory Command_Parser
imports Go_Regexp
begin

text \<open>
  \<open>CommandParser\<close> of \<open>internal/bastion/parser/command_parser.go\<close>: it follows the
  output of a shell character by character, looks for prompts at the ends of
  lines and reports the text typed after a prompt.  The callback collects the
  reported commands.
\<close>

section \<open>Definitions\<close>

definition prompt_end :: regex where "prompt_end = RSeqs [RCls (\<lambda>c. c \<in> set ''$#''), RStar RSpace, REol]"
definition any_text :: regex where "any_text = RStar RAny"

definition version_text :: regex where
  "version_text = RPlus (RCls (\<lambda>c. is_digit c \<or> c = CHR ''.''))"

text \<open>The prompt patterns of \<open>NewCommandParser\<close>; whether a text matches does not
  depend on the lazy or greedy choice of the repetitions.\<close>

definition promptPatterns :: "regex list" where
  "promptPatterns =
     [prompt_end,
      RSeqs [RStr ''['', any_text, RStr ''@'', any_text, RPlus RSpace, any_text, RStr '']'', prompt_end],
      RSeqs [any_text, RStr ''@'', any_text, RStr '':'', any_text, prompt_end],
      RSeqs [any_text, RStr ''>'', RStar RSpace, REol],
      RSeqs [RPlus (RCls word_char), RStr ''@'', RPlus (RCls (\<lambda>c. word_char c \<or> c = CHR ''-'')), RStr '':'',
             RPlus (RCls (\<lambda>c. \<not> (ord c = 9 \<or> ord c = 10 \<or> ord c = 12 \<or> ord c = 13 \<or> ord c = 32))), prompt_end],
      RSeqs [RBol, RStr ''root@'', any_text, prompt_end],
      RSeqs [RBol, RStr ''[root@'', any_text, RStr '']#'', RStar RSpace, REol],
      RSeqs [RBol, RStr ''bash-'', version_text, prompt_end],
      RSeqs [RBol, RStr ''sh-'', version_text, prompt_end]]"

record CommandParser =
  cp_buffer :: string
  cp_commandBuffer :: string
  cp_inCommand :: bool
  cp_promptDetected :: bool
  cp_cursorPos :: nat
  cp_lastPromptIndex :: nat
  cp_commands :: "string list"

definition NewCommandParser :: CommandParser where
  "NewCommandParser = \<lparr> cp_buffer = [], cp_commandBuffer = [], cp_inCommand = False,
     cp_promptDetected = False, cp_cursorPos = 0, cp_lastPromptIndex = 0, cp_commands = [] \<rparr>"

definition ansi_re :: regex where
  "ansi_re = RSeqs [RChar (chr 27), RStr ''['', RStar (RCls (\<lambda>c. is_digit c \<or> c = CHR '';'')),
     RCls (\<lambda>c. is_lower c \<or> is_upper c)]"

definition stripANSI :: "string \<Rightarrow> string" where
  "stripANSI s = filter (\<lambda>r. is_print r \<or> r = CHR '' '' \<or> r = chr 9) (ReplaceAllString ansi_re s '''')"

definition isPrompt :: "string \<Rightarrow> bool" where
  "isPrompt line0 = (let line = TrimSpace line0 in
     if line = [] then False else list_ex (\<lambda>pattern. MatchString pattern line) promptPatterns)"

definition shouldIgnoreCommand :: "string \<Rightarrow> bool" where
  "shouldIgnoreCommand cmd0 = (let cmd = TrimSpace cmd0 in
     if list_ex (\<lambda>ignore. cmd = ignore)
          [''exit'', ''logout'', ''clear'', ''reset'', ''history'', ''pwd'', ''''] then True
     else TrimSpace cmd = [])"

text \<open>Insertion at the cursor, or at the end when the cursor is beyond it.\<close>

definition insert_at :: "nat \<Rightarrow> char \<Rightarrow> string \<Rightarrow> string" where
  "insert_at pos ch buf = (if pos \<ge> length buf then buf @ [ch] else take pos buf @ ch # drop pos buf)"

definition handleNewLine :: "CommandParser \<Rightarrow> CommandParser" where
  "handleNewLine p =
     (let line = cp_buffer p;
          p = (if cp_promptDetected p \<and> length (cp_commandBuffer p) > 0 then
                 (let command = TrimSpace (cp_commandBuffer p);
                      p = (if command \<noteq> [] \<and> \<not> shouldIgnoreCommand command
                           then p\<lparr>cp_commands := cp_commands p @ [command]\<rparr> else p)
                  in p\<lparr>cp_commandBuffer := [], cp_promptDetected := False\<rparr>)
               else p);
          cleanLine = stripANSI line;
          p = (if isPrompt cleanLine
               then p\<lparr>cp_promptDetected := True, cp_lastPromptIndex := length (cp_buffer p), cp_commandBuffer := []\<rparr>
               else p)
      in p\<lparr>cp_buffer := [], cp_cursorPos := 0\<rparr>)"

definition handleBackspace :: "CommandParser \<Rightarrow> CommandParser" where
  "handleBackspace p =
     (let p = (if cp_promptDetected p \<and> cp_cursorPos p > 0 then
                 (let p = (if cp_cursorPos p \<le> length (cp_commandBuffer p)
                    then p\<lparr>cp_commandBuffer := take (cp_cursorPos p - 1) (cp_commandBuffer p)
                                              @ drop (cp_cursorPos p) (cp_commandBuffer p)\<rparr> else p)
                  in p\<lparr>cp_cursorPos := cp_cursorPos p - 1\<rparr>)
               else p)
      in if cp_cursorPos p > 0 \<and> cp_cursorPos p \<le> length (cp_buffer p)
         then p\<lparr>cp_buffer := take (cp_cursorPos p - 1) (cp_buffer p) @ drop (cp_cursorPos p) (cp_buffer p)\<rparr>
         else p)"

definition handleEscapeSequence :: "CommandParser \<Rightarrow> CommandParser" where
  "handleEscapeSequence p = p"

definition processChar :: "char \<Rightarrow> CommandParser \<Rightarrow> CommandParser" where
  "processChar ch p =
     (if ch = chr 13 \<or> ch = chr 10 then handleNewLine p
      else if ch = chr 127 \<or> ch = chr 8 then handleBackspace p
      else if ch = chr 27 then handleEscapeSequence p
      else if ch = chr 9 then p
      else if is_print ch \<or> ch = CHR '' '' then
        (let p = (if cp_promptDetected p
                  then p\<lparr>cp_commandBuffer := insert_at (cp_cursorPos p) ch (cp_commandBuffer p),
                         cp_cursorPos := cp_cursorPos p + 1\<rparr> else p)
         in p\<lparr>cp_buffer := insert_at (cp_cursorPos p) ch (cp_buffer p)\<rparr>)
      else p)"

definition CommandParser_Feed :: "CommandParser \<Rightarrow> string \<Rightarrow> CommandParser" where
  "CommandParser_Feed p data = fold processChar data p"

definition CommandParser_Reset :: "CommandParser \<Rightarrow> CommandParser" where
  "CommandParser_Reset p = p\<lparr>cp_buffer := [], cp_commandBuffer := [], cp_inCommand := False,
     cp_promptDetected := False, cp_cursorPos := 0, cp_lastPromptIndex := 0\<rparr>"

section \<open>Invariant\<close>

text \<open>After a prompt the cursor stands at the end of the command; before one it
  does not move.\<close>

definition cp_inv :: "CommandParser \<Rightarrow> bool" where
  "cp_inv p \<longleftrightarrow> cp_cursorPos p = (if cp_promptDetected p then length (cp_commandBuffer p) else 0) \<and>
     (\<not> cp_promptDetected p \<longrightarrow> cp_commandBuffer p = [])"

lemma cp_inv_new [inv_intros]: "cp_inv NewCommandParser"
  by (simp add: cp_inv_def NewCommandParser_def)

lemma cp_inv_handleNewLine: "cp_inv p \<Longrightarrow> cp_inv (handleNewLine p)"
  unfolding handleNewLine_def Let_def
  by (cases "cp_promptDetected p"; cases "cp_commandBuffer p = []"; cases "isPrompt (stripANSI (cp_buffer p))")
    (simp_all add: cp_inv_def)

lemma cp_inv_handleBackspace: "cp_inv p \<Longrightarrow> cp_inv (handleBackspace p)"
  by (cases "cp_promptDetected p"; cases "cp_commandBuffer p = []")
    (simp_all add: handleBackspace_def Let_def cp_inv_def)

lemma cp_inv_insert:
  "cp_inv p \<Longrightarrow> cp_promptDetected p \<Longrightarrow>
     cp_inv (p\<lparr>cp_commandBuffer := insert_at (cp_cursorPos p) ch (cp_commandBuffer p),
               cp_cursorPos := Suc (cp_cursorPos p), cp_buffer := b\<rparr>)"
  "cp_inv p \<Longrightarrow> cp_inv (p\<lparr>cp_buffer := b\<rparr>)"
  by (simp_all add: cp_inv_def insert_at_def)

lemma cp_inv_processChar [inv_intros]: "cp_inv p \<Longrightarrow> cp_inv (processChar ch p)"
  by (simp add: processChar_def Let_def cp_inv_handleNewLine cp_inv_handleBackspace handleEscapeSequence_def
      cp_inv_insert)

lemma cp_inv_Feed [inv_intros]: "cp_inv p \<Longrightarrow> cp_inv (CommandParser_Feed p data)"
  unfolding CommandParser_Feed_def by (induction data arbitrary: p) (auto intro: inv_intros)

text \<open>Typing with backspaces, as the command buffer should see it: printable
  characters are added, backspace and delete remove the last character, escapes,
  tabs and other control characters are dropped.\<close>

fun edited :: "string \<Rightarrow> string \<Rightarrow> string" where
  "edited line [] = line"
| "edited line (ch # inp) =
     edited (if ch = chr 127 \<or> ch = chr 8 then butlast line
             else if is_print ch then line @ [ch] else line) inp"

definition no_newline :: "string \<Rightarrow> bool" where
  "no_newline inp \<longleftrightarrow> chr 13 \<notin> set inp \<and> chr 10 \<notin> set inp"

lemma no_newline_Cons [simp]:
  "no_newline (c # t) \<longleftrightarrow> c \<noteq> chr 13 \<and> c \<noteq> chr 10 \<and> no_newline t"
  by (auto simp: no_newline_def)

lemma special_not_print: "\<not> is_print (chr 127)" "\<not> is_print (chr 8)" "\<not> is_print (chr 27)" "\<not> is_print (chr 9)"
  by (simp_all add: is_print_def)

lemma space_print: "is_print CHR '' ''"
  by (simp add: is_print_def)

lemma processChar_typing:
  assumes "cp_inv p" "cp_promptDetected p" "ch \<noteq> chr 13" "ch \<noteq> chr 10"
  shows "cp_promptDetected (processChar ch p)" "cp_commands (processChar ch p) = cp_commands p"
    "cp_commandBuffer (processChar ch p) = edited (cp_commandBuffer p) [ch]"
  using assms special_not_print space_print
  by (auto simp: cp_inv_def processChar_def handleBackspace_def handleEscapeSequence_def insert_at_def
      Let_def butlast_conv_take)

lemma Feed_typing:
  assumes "cp_inv p" "cp_promptDetected p" "no_newline inp"
  shows "cp_promptDetected (CommandParser_Feed p inp) \<and>
    cp_commands (CommandParser_Feed p inp) = cp_commands p \<and>
    cp_commandBuffer (CommandParser_Feed p inp) = edited (cp_commandBuffer p) inp"
  using assms
proof (induction inp arbitrary: p)
  case (Cons ch inp)
  have "cp_inv (processChar ch p)" using Cons.prems(1) by (rule inv_intros)
  then show ?case
    using Cons.IH [of "processChar ch p"] Cons.prems processChar_typing [of p ch]
    by (auto simp: CommandParser_Feed_def)
qed (simp add: CommandParser_Feed_def)

text \<open>What the parser reports.  Once a prompt has been seen and nothing has
  been typed yet, the text up to the next line end is reported as a command
  exactly when, after its backspaces are applied and the space around it is
  removed, it is not empty and not one of the ignored commands; the reported
  command is that edited text.\<close>

theorem CommandParser_reports_edited:
  assumes "cp_inv p" "cp_promptDetected p" "cp_commandBuffer p = []"
    and "no_newline inp" "nl = chr 13 \<or> nl = chr 10"
  shows "cp_commands (CommandParser_Feed p (inp @ [nl])) =
    cp_commands p @
      (let command = TrimSpace (edited [] inp)
       in if shouldIgnoreCommand command then [] else [command])"
proof -
  let ?q = "CommandParser_Feed p inp"
  have q: "cp_promptDetected ?q" "cp_commands ?q = cp_commands p" "cp_commandBuffer ?q = edited [] inp"
    using Feed_typing [OF assms(1,2,4)] assms(3) by simp_all
  have "shouldIgnoreCommand []" by (simp add: shouldIgnoreCommand_def)
  moreover have "CommandParser_Feed p (inp @ [nl]) = handleNewLine ?q"
    using assms(5) by (auto simp: CommandParser_Feed_def processChar_def)
  ultimately show ?thesis using q by (auto simp: handleNewLine_def Let_def)
qed

definition prompt_seen :: CommandParser where
  "prompt_seen = CommandParser_Feed NewCommandParser [CHR ''$'', chr 10]"

theorem CommandParser_reports_edited_witness:
  "cp_commands (CommandParser_Feed prompt_seen (('' lx'' @ [chr 127] @ ''s'') @ [chr 13])) = [''ls'']"
proof -
  have "cp_inv prompt_seen" unfolding prompt_seen_def by (intro inv_intros)
  moreover have "cp_promptDetected prompt_seen \<and> cp_commandBuffer prompt_seen = [] \<and> cp_commands prompt_seen = []"
    by code_simp
  moreover have "no_newline ('' lx'' @ [chr 127] @ ''s'')" by code_simp
  moreover have "TrimSpace (edited [] ('' lx'' @ [chr 127] @ ''s'')) = ''ls''" by code_simp
  moreover have "\<not> shouldIgnoreCommand ''ls''" by code_simp
  ultimately show ?thesis
    by (subst CommandParser_reports_edited) simp_all
qed

lemma processChar_no_prompt:
  assumes "cp_inv p" "\<not> cp_promptDetected p" "is_print ch"
  shows "processChar ch p = p\<lparr>cp_buffer := ch # cp_buffer p\<rparr>"
  using assms special_not_print
  by (auto simp: cp_inv_def processChar_def insert_at_def Let_def is_print_def)

text \<open>While no prompt has been seen the line is stored backwards.  Every
  character is inserted at position 0, because the cursor only moves after a
  prompt, so the text tested against the prompt patterns at the line end is the
  reverse of the line the shell printed.\<close>

theorem CommandParser_line_reversed:
  assumes "cp_inv p" "\<not> cp_promptDetected p" "cp_buffer p = []" "\<forall>ch\<in>set line. is_print ch"
  shows "cp_buffer (CommandParser_Feed p line) = rev line"
proof -
  have "cp_inv q \<Longrightarrow> \<not> cp_promptDetected q \<Longrightarrow> \<forall>ch\<in>set line. is_print ch \<Longrightarrow>
      cp_buffer (CommandParser_Feed q line) = rev line @ cp_buffer q" for q
  proof (induction line arbitrary: q)
    case (Cons ch line)
    have "cp_inv (processChar ch q)" using Cons.prems(1) by (rule inv_intros)
    then show ?case using Cons by (simp add: CommandParser_Feed_def processChar_no_prompt)
  qed (simp add: CommandParser_Feed_def)
  then show ?thesis using assms by simp
qed

theorem CommandParser_line_reversed_witness:
  "cp_buffer (CommandParser_Feed NewCommandParser ''root@h:~# '') = '' #~:h@toor''"
proof -
  have "\<forall>ch\<in>set ''root@h:~# ''. is_print ch" by (simp add: is_print_def)
  with CommandParser_line_reversed [of NewCommandParser "''root@h:~# ''"] cp_inv_new
  show ?thesis by (simp add: NewCommandParser_def)
qed

end
