(* ===== verification/Command_Extractor.thy ===== *)
theory Command_Extractor
imports Go_Regexp
begin

text \<open>
  \<open>CommandExtractor\<close> of \<open>internal/bastion/parser/command_parser.go\<close>, which the
  terminal handler feeds with the host's output to audit the commands seen
  there: line assembly with escape sequences and backspaces, prompt recognition
  and the heuristics that tell commands from output.  The callback collects the
  reported commands.
\<close>

section \<open>Definitions\<close>

definition letter :: "char \<Rightarrow> bool" where "letter c \<longleftrightarrow> is_upper c \<or> is_lower c"
definition ESC :: char where "ESC = chr 27"

definition Count1 :: "string \<Rightarrow> char \<Rightarrow> nat" where
  "Count1 s c = length (filter (\<lambda>d. d = c) s)"

definition csi_re :: regex where
  "csi_re = RSeqs [RChar ESC, RStr ''['', RStar (RCls (\<lambda>c. is_digit c \<or> c = CHR '';'' \<or> c = CHR ''?'')), RCls letter]"

definition osc_re :: regex where
  "osc_re = RSeqs [RChar ESC, RStr '']'', RStar (RCls (\<lambda>c. c \<noteq> chr 7)), RChar (chr 7)]"

definition esc_re :: regex where
  "esc_re = RSeqs [RChar ESC, RCls (\<lambda>c. c \<noteq> CHR ''['')]"

definition shown :: "char \<Rightarrow> bool" where
  "shown r \<longleftrightarrow> is_print r \<or> r = CHR '' '' \<or> r = chr 9"

definition stripANSISimple :: "string \<Rightarrow> string" where
  "stripANSISimple s =
     (let s = ReplaceAllString csi_re s '''';
          s = ReplaceAllString osc_re s '''';
          s = ReplaceAllString esc_re s ''''
      in filter shown s)"

definition user_char :: "char \<Rightarrow> bool" where "user_char c \<longleftrightarrow> letter c \<or> is_digit c \<or> c = CHR ''_'' \<or> c = CHR ''-''"
definition host_char :: "char \<Rightarrow> bool" where "host_char c \<longleftrightarrow> user_char c \<or> c = CHR ''.''"
definition user_at_host :: regex where
  "user_at_host = RSeqs [RBol, RPlus (RCls user_char), RStr ''@'', RPlus (RCls host_char), RStr '':'']"
definition marker_end :: regex where
  "marker_end = RSeqs [RCls (\<lambda>c. c \<in> set ''$#''), RStar RSpace, REol]"
definition before_marker :: regex where "before_marker = RStar (RCls (\<lambda>c. c \<notin> set ''$#''))"
definition not_bracket :: regex where "not_bracket = RPlus (RCls (\<lambda>c. c \<noteq> CHR '']''))"

definition prompt_forms :: "regex list" where
  "prompt_forms =
     [RSeqs [user_at_host, before_marker, marker_end],
      RSeqs [user_at_host, ROpt (RStr ''~''), ROpt (RStr ''/''), before_marker, marker_end],
      RSeqs [RBol, RStr ''['', not_bracket, RStr ''@'', not_bracket, RPlus RSpace, not_bracket, RStr '']'', marker_end],
      RSeqs [RBol, RPlus (RCls user_char), RStr ''@'', RPlus (RCls (\<lambda>c. host_char c \<or> c = CHR '':'')), RStr '':'',
             RStar RSpace, REol],
      RSeqs [user_at_host, RStr ''~'', RStar RSpace, REol],
      RSeqs [user_at_host, ROpt (RSeqs [RStr ''/'', RStar (RCls (\<lambda>c. host_char c \<or> c = CHR ''/''))]),
             ROpt (RStr ''~''), RStar RSpace, REol]]"

definition isPromptPattern :: "string \<Rightarrow> bool" where
  "isPromptPattern line =
     (if \<not> Contains line ''@'' then False else list_ex (\<lambda>pattern. MatchString pattern line) prompt_forms)"

definition shouldIgnoreSimple :: "string \<Rightarrow> bool" where
  "shouldIgnoreSimple cmd0 =
     (let cmd = TrimSpace (ToLower cmd0) in
      if cmd = [] then True
      else if Contains cmd ''^C'' \<or> Contains cmd ''^c'' then True
      else if isPromptPattern cmd then True
      else if Contains cmd ''@'' \<and> Contains cmd '':'' \<and> \<not> Contains cmd '' '' then True
      else list_ex (\<lambda>ignore. cmd = ignore) [''exit'', ''logout'', ''clear'', ''reset''])"

definition containsPromptMarker :: "string \<Rightarrow> bool" where
  "containsPromptMarker line =
     (if \<not> Contains line ''@'' then False
      else Contains line ''$ '' \<or> Contains line ''# '' \<or> Contains line '']$ '' \<or> Contains line '']# '' \<or>
           HasSuffix line ''$'' \<or> HasSuffix line ''#'' \<or> HasSuffix line '']$'' \<or> HasSuffix line '']#'')"

text \<open>The inner loop of \<open>extractCommandFromLine\<close> for one marker: \<open>best\<close> is the
  marker found last, with its position.  Markers are not empty.\<close>

function scan_marker :: "string \<Rightarrow> string \<Rightarrow> nat \<Rightarrow> (nat \<times> string) option \<Rightarrow> (nat \<times> string) option" where
  "scan_marker line m idx best =
     (case (if m = [] then None else Index (drop idx line) m) of
        None \<Rightarrow> best
      | Some p \<Rightarrow>
          (let pos = p + idx; beforeMarker = take pos line;
               best' = (case LastIndex beforeMarker ''@'' of
                  None \<Rightarrow> best
                | Some atPos \<Rightarrow>
                    (let promptPart = drop atPos (take pos line); spaceCount = Count1 promptPart CHR '' ''
                     in if spaceCount \<le> 1 then Some (pos, m) else best))
           in scan_marker line m (pos + length m) best'))"
  by pat_completeness auto
termination
  by (relation "measure (\<lambda>(line, m, idx, best). length line - idx)")
    (auto dest!: Index_bound split: if_splits simp: neq_Nil_conv)

declare scan_marker.simps [simp del]

definition markersWithSpace :: "string list" where
  "markersWithSpace = ['']# '', '']$ '', ''# '', ''$ '']"

text \<open>The search for a marker at the end of the line returns the empty command in
  every case, so it has no branch of its own.\<close>

definition extractCommandFromLine :: "string \<Rightarrow> string" where
  "extractCommandFromLine line =
     (case fold (\<lambda>m best. scan_marker line m 0 best) markersWithSpace None of
        Some (lastMarkerPos, lastMarker) \<Rightarrow>
          (let cmdStart = lastMarkerPos + length lastMarker in
           if cmdStart \<ge> length line then []
           else (let cmd = TrimSpace (drop cmdStart line) in
                 if Contains cmd ''@'' \<and> Contains cmd '':'' \<and> isPromptPattern cmd then [] else cmd))
      | None \<Rightarrow> [])"

definition looksLikeOutput :: "string \<Rightarrow> bool" where
  "looksLikeOutput line =
     (if HasPrefix line '' '' \<or> HasPrefix line [chr 9] then True
      else if HasPrefix line ''total '' then True
      else if line \<noteq> [] \<and> (hd line = CHR ''d'' \<or> hd line = CHR ''-'' \<or> hd line = CHR ''l'') \<and>
              length line > 10 \<and>
              Count1 (take 10 line) CHR ''r'' + Count1 (take 10 line) CHR ''w'' + Count1 (take 10 line) CHR ''x'' \<ge> 3
           then True
      else if HasPrefix line ''/'' \<and> \<not> Contains line '' '' then True
      else if Contains line ''@'' \<and> HasSuffix line '':'' then True
      else if list_ex (\<lambda>pre. Contains line pre)
                [''bash:'', ''sh:'', ''-bash:'', ''-sh:'', ''command not found'',
                 ''No such file or directory'', ''Permission denied''] then True
      else length line > 200)"

definition commonCommands :: "string list" where
  "commonCommands =
     [''ls'', ''cd'', ''pwd'', ''cat'', ''echo'', ''grep'', ''find'', ''ps'', ''top'', ''df'', ''du'',
      ''mkdir'', ''rm'', ''cp'', ''mv'', ''touch'', ''chmod'', ''chown'', ''tar'', ''gzip'', ''zip'',
      ''ssh'', ''scp'', ''curl'', ''wget'', ''ping'', ''netstat'', ''ifconfig'', ''ip'', ''route'',
      ''systemctl'', ''service'', ''docker'', ''kubectl'', ''git'', ''npm'', ''yarn'', ''python'',
      ''java'', ''go'', ''make'', ''gcc'', ''vim'', ''nano'', ''less'', ''more'', ''head'', ''tail'',
      ''awk'', ''sed'', ''sort'', ''uniq'', ''wc'', ''diff'', ''vi'', ''su'', ''sudo'']"

definition command_char :: "char \<Rightarrow> bool" where
  "command_char ch \<longleftrightarrow> letter ch \<or> is_digit ch \<or> ch \<in> set ''-_./ ''"

text \<open>The quotient of the code is above 0.8 exactly when \<open>5 v > 4 n\<close>: for lengths
  below 100 the two sides differ by more than the rounding of the division.\<close>

definition looksLikeCommand :: "string \<Rightarrow> bool" where
  "looksLikeCommand line0 =
     (let line = TrimSpace line0 in
      if line = [] then False
      else if HasPrefix line ''/'' \<and> \<not> Contains line '' '' then False
      else if Contains line ''@'' \<and> Contains line '':'' \<and>
              (case LastIndex line '':'' of None \<Rightarrow> False
               | Some colonIdx \<Rightarrow> \<not> Contains (drop (colonIdx + 1) line) '' '' \<and>
                   (\<not> Contains line '' '' \<or> isPromptPattern line)) then False
      else (let firstWord = (case Index line '' '' of
                  Some idx \<Rightarrow> (if idx > 0 then take idx line else line) | None \<Rightarrow> line) in
        if list_ex (\<lambda>cmd. firstWord = cmd) commonCommands then True
        else if length line < 100 \<and> \<not> looksLikeOutput line then
          5 * length (filter command_char line) > 4 * length line
        else False))"

record CommandExtractor =
  ce_lines :: "string list"
  ce_lineBuffer :: string
  ce_waitingForCommand :: bool
  ce_commands :: "string list"

definition NewCommandExtractor :: CommandExtractor where
  "NewCommandExtractor = \<lparr> ce_lines = [], ce_lineBuffer = [], ce_waitingForCommand = False, ce_commands = [] \<rparr>"

definition classify_line :: "string \<Rightarrow> CommandExtractor \<Rightarrow> CommandExtractor" where
  "classify_line cleanLine e =
     (if containsPromptMarker cleanLine then
        (let cmd = extractCommandFromLine cleanLine in
         if cmd \<noteq> [] \<and> \<not> shouldIgnoreSimple cmd
         then e\<lparr>ce_commands := ce_commands e @ [cmd], ce_waitingForCommand := False\<rparr>
         else if cmd \<noteq> [] \<and> shouldIgnoreSimple cmd then e\<lparr>ce_waitingForCommand := False\<rparr>
         else e\<lparr>ce_waitingForCommand := True\<rparr>)
      else if ce_waitingForCommand e then
        (if looksLikeOutput cleanLine then e\<lparr>ce_waitingForCommand := False\<rparr>
         else if shouldIgnoreSimple cleanLine then e\<lparr>ce_waitingForCommand := False\<rparr>
         else if looksLikeCommand cleanLine
         then e\<lparr>ce_commands := ce_commands e @ [cleanLine], ce_waitingForCommand := False\<rparr>
         else e\<lparr>ce_waitingForCommand := False\<rparr>)
      else e)"

definition processLine :: "CommandExtractor \<Rightarrow> CommandExtractor" where
  "processLine e0 =
     (let line = ce_lineBuffer e0; e = e0\<lparr>ce_lineBuffer := []\<rparr> in
      if line = [] then e
      else (let cleanLine = TrimSpace (stripANSISimple line) in
        if cleanLine = [] then e
        else (let e = classify_line cleanLine e;
                  lines = ce_lines e @ [cleanLine]
              in e\<lparr>ce_lines := (if length lines > 20 then drop (length lines - 20) lines else lines)\<rparr>)))"

text \<open>Skipping the rest of an escape sequence.\<close>

definition skip_csi :: "string \<Rightarrow> string" where
  "skip_csi s = drop 1 (dropWhile (\<lambda>c. \<not> letter c) s)"

definition skip_osc :: "string \<Rightarrow> string" where
  "skip_osc s = (case dropWhile (\<lambda>c. c \<noteq> chr 7 \<and> c \<noteq> chr 13 \<and> c \<noteq> chr 10) s of
     [] \<Rightarrow> [] | c # r \<Rightarrow> if c = chr 7 then r else c # r)"

definition skip_escape :: "string \<Rightarrow> string" where
  "skip_escape s = (case s of [] \<Rightarrow> []
     | c # r \<Rightarrow> if c = CHR ''['' then skip_csi r else if c = CHR '']'' then skip_osc r else r)"

definition skip_after_backspace :: "string \<Rightarrow> string" where
  "skip_after_backspace s = (case s of [] \<Rightarrow> []
     | c # r \<Rightarrow> if c = ESC
         then (case r of [] \<Rightarrow> [] | d # q \<Rightarrow> if d = CHR ''['' then skip_csi q else r)
         else s)"

lemma skip_length [simp]:
  "length (skip_csi s) \<le> length s" "length (skip_osc s) \<le> length s"
  "length (skip_escape s) \<le> length s" "length (skip_after_backspace s) \<le> length s"
proof -
  show csi: "length (skip_csi s) \<le> length s" for s
    using length_dropWhile_le [of "\<lambda>c. \<not> letter c" s] by (simp add: skip_csi_def)
  show osc: "length (skip_osc s) \<le> length s" for s
    using length_dropWhile_le [of "\<lambda>c. c \<noteq> chr 7 \<and> c \<noteq> chr 13 \<and> c \<noteq> chr 10" s]
    by (auto simp: skip_osc_def split: list.splits)
  show "length (skip_escape s) \<le> length s"
    using csi osc by (auto simp: skip_escape_def le_SucI split: list.splits)
  show "length (skip_after_backspace s) \<le> length s"
    using csi by (auto simp: skip_after_backspace_def le_SucI split: list.splits)
qed

function Feed :: "CommandExtractor \<Rightarrow> string \<Rightarrow> CommandExtractor" where
  "Feed e [] = e"
| "Feed e (ch # rs) =
     (if ch = chr 13 then Feed e rs
      else if ch = chr 10 then Feed (processLine e) rs
      else if ch = chr 8 \<or> ch = chr 127 then
        Feed (e\<lparr>ce_lineBuffer := butlast (ce_lineBuffer e)\<rparr>) (skip_after_backspace rs)
      else if ch = ESC then Feed e (skip_escape rs)
      else if ch = chr 3 then Feed (e\<lparr>ce_lineBuffer := []\<rparr>) rs
      else Feed (e\<lparr>ce_lineBuffer := ce_lineBuffer e @ [ch]\<rparr>) rs)"
  by pat_completeness auto
termination
  by (relation "measure (\<lambda>(e, s). length s)") (auto simp: le_imp_less_Suc)

section \<open>What is reported\<close>

definition ce_inv :: "CommandExtractor \<Rightarrow> bool" where
  "ce_inv e \<longleftrightarrow> length (ce_lines e) \<le> 20 \<and>
     (\<forall>cmd\<in>set (ce_commands e). cmd \<noteq> [] \<and> \<not> shouldIgnoreSimple cmd \<and> (\<forall>c\<in>set cmd. shown c))"

lemma ce_inv_new [inv_intros]: "ce_inv NewCommandExtractor"
  by (simp add: ce_inv_def NewCommandExtractor_def)

lemma ce_inv_lineBuffer [inv_intros]: "ce_inv e \<Longrightarrow> ce_inv (e\<lparr>ce_lineBuffer := b\<rparr>)"
  by (simp add: ce_inv_def)

lemma set_extractCommandFromLine: "set (extractCommandFromLine line) \<subseteq> set line"
proof -
  have "set (TrimSpace (drop n line)) \<subseteq> set line" for n
    using set_TrimSpace [of "drop n line"] set_drop_subset [of n line] by (rule subset_trans)
  then show ?thesis by (auto simp: extractCommandFromLine_def Let_def split: option.splits)
qed

lemma ce_inv_classify_line:
  assumes "ce_inv e" "cleanLine \<noteq> []" "\<forall>c\<in>set cleanLine. shown c"
  shows "ce_inv (classify_line cleanLine e)" "ce_lines (classify_line cleanLine e) = ce_lines e"
  using assms set_extractCommandFromLine [of cleanLine]
  by (auto simp: ce_inv_def classify_line_def Let_def)

lemma ce_inv_processLine [inv_intros]:
  assumes "ce_inv e"
  shows "ce_inv (processLine e)"
proof -
  let ?clean = "TrimSpace (stripANSISimple (ce_lineBuffer e))" and ?e = "e\<lparr>ce_lineBuffer := []\<rparr>"
  have "\<forall>c\<in>set ?clean. shown c"
    using set_TrimSpace [of "stripANSISimple (ce_lineBuffer e)"] by (auto simp: stripANSISimple_def)
  moreover have "ce_inv ?e" using assms by (rule inv_intros)
  ultimately have "ce_inv (classify_line ?clean ?e)" if "?clean \<noteq> []"
    using ce_inv_classify_line(1) that by blast
  then show ?thesis using \<open>ce_inv ?e\<close> unfolding processLine_def Let_def
    by (auto simp: ce_inv_def)
qed

lemma ce_inv_Feed [inv_intros]: "ce_inv e \<Longrightarrow> ce_inv (Feed e data)"
  by (induction e data rule: Feed.induct) (simp_all add: inv_intros)

text \<open>What reaches the audit trail.  Whatever bytes the host sends, in
  whatever pieces, every command the extractor reports is non-empty, is not one
  of the ignored lines (blank, interrupted, prompts, exit and the like) and
  contains only printable characters and tabs; and it never keeps more than 20
  lines of output.\<close>

theorem extractor_reports_clean:
  "let e = fold (\<lambda>data e. Feed e data) chunks NewCommandExtractor in
     length (ce_lines e) \<le> 20 \<and>
     (\<forall>cmd\<in>set (ce_commands e). cmd \<noteq> [] \<and> \<not> shouldIgnoreSimple cmd \<and> (\<forall>c\<in>set cmd. is_print c \<or> c = chr 9))"
proof -
  have "ce_inv e \<Longrightarrow> ce_inv (fold (\<lambda>data e. Feed e data) chunks e)" for e
    by (induction chunks arbitrary: e) (auto intro: inv_intros)
  then have "ce_inv (fold (\<lambda>data e. Feed e data) chunks NewCommandExtractor)" using ce_inv_new by blast
  moreover have "shown c \<longleftrightarrow> is_print c \<or> c = chr 9" for c by (auto simp: shown_def is_print_def)
  ultimately show ?thesis unfolding ce_inv_def Let_def by simp
qed

theorem extractor_reports_clean_witness:
  "\<not> shouldIgnoreSimple ''ls''"
proof -
  have "''ls'' \<in> set (ce_commands (Feed NewCommandExtractor (''root@h:~# ls'' @ [chr 10])))" by code_simp
  then show ?thesis using extractor_reports_clean [of "[''root@h:~# ls'' @ [chr 10]]"] by (auto simp: Let_def)
qed

section \<open>Feeding in pieces\<close>

lemma skip_after_backspace_append:
  assumes "ESC \<notin> set a" "a \<noteq> []"
  shows "skip_after_backspace (a @ b) = a @ b"
  using assms by (cases a) (auto simp: skip_after_backspace_def)

text \<open>The pieces in which the output arrives do not matter as long as no
  escape sequence is cut: if the first piece holds no escape character and does
  not end in a backspace, feeding the two pieces one after the other is feeding
  them at once.\<close>

theorem Feed_append:
  assumes "ESC \<notin> set a" "a = [] \<or> last a \<noteq> chr 8 \<and> last a \<noteq> chr 127"
  shows "Feed e (a @ b) = Feed (Feed e a) b"
  using assms
proof (induction a arbitrary: e)
  case (Cons c a)
  have bs: "skip_after_backspace (a @ b) = a @ b \<and> skip_after_backspace a = a" if "c = chr 8 \<or> c = chr 127"
  proof -
    have "a \<noteq> []" using that Cons.prems by auto
    then show ?thesis using Cons.prems skip_after_backspace_append [of a b] skip_after_backspace_append [of a "[]"]
      by simp
  qed
  show ?case using Cons bs by (auto split: if_splits)
qed simp

theorem Feed_append_witness:
  "Feed NewCommandExtractor (''ro'' @ ''ot@h# ls'') = Feed (Feed NewCommandExtractor ''ro'') ''ot@h# ls''"
  by (rule Feed_append; code_simp)

text \<open>An escape sequence cut by the boundary of a read leaks into the
  command: the same output reports \<open>ls\<close> when it arrives at once and \<open>ls[0m\<close> when
  the read ends right after the escape character.\<close>

theorem Feed_split_escape:
  "ce_commands (Feed NewCommandExtractor ((''root@h:~# ls'' @ [ESC]) @ (''[0m'' @ [chr 10]))) = [''ls''] \<and>
   ce_commands (Feed (Feed NewCommandExtractor (''root@h:~# ls'' @ [ESC])) (''[0m'' @ [chr 10])) = [''ls[0m'']"
  by (intro conjI; code_simp)

section \<open>Commands after a prompt\<close>

lemma scan_marker_none: "\<not> Contains (drop idx line) m \<Longrightarrow> scan_marker line m idx best = best"
  by (subst scan_marker.simps) (auto simp: Contains_def)

text \<open>A prompt: a user, an \<open>@\<close>, and a host and path with at most one space.\<close>

lemma scan_marker_prompt:
  assumes line: "line = (u @ CHR ''@'' # rest) @ (c # '' '') @ cmd"
    and "CHR ''@'' \<notin> set rest" "Count1 rest CHR '' '' \<le> 1" "c \<notin> set (u @ CHR ''@'' # rest)"
    and "\<not> Contains cmd (c # '' '')"
  shows "scan_marker line (c # '' '') 0 best = Some (length (u @ CHR ''@'' # rest), c # '' '')"
proof -
  let ?P = "u @ CHR ''@'' # rest"
  have idx: "Index (drop 0 line) (c # '' '') = Some (length ?P)"
    using Index_first [of c ?P "'' ''" "'' '' @ cmd"] assms(4) line by simp
  have "LastIndex (take (length ?P) line) ''@'' = Some (length u)"
    using LastIndex_last [of "CHR ''@''" rest u] assms(2) line by simp
  moreover have "drop (length u) (take (length ?P) line) = CHR ''@'' # rest" using line by simp
  moreover have "Count1 (CHR ''@'' # rest) CHR '' '' \<le> 1" using assms(3) by (simp add: Count1_def)
  moreover have "drop (length ?P + 2) line = cmd" using line by (simp add: numeral_3_eq_3)
  then have "scan_marker line (c # '' '') (length ?P + 2) best' = best'" for best'
    using assms(5) by (simp add: scan_marker_none)
  ultimately show ?thesis using idx by (subst scan_marker.simps) (simp add: Let_def)
qed

text \<open>The command typed after a prompt is recovered as it is.  For a prompt of
  the form \<open>user@host:path#\<close> or \<open>[user@host path]$\<close> followed by a space and a
  command without a prompt marker or \<open>@\<close> of its own, the extracted command is
  that command.\<close>

theorem extractCommandFromLine_prompt:
  assumes "c = CHR ''#'' \<or> c = CHR ''$''"
    and "CHR ''@'' \<notin> set rest" "Count1 rest CHR '' '' \<le> 1"
    and "CHR ''#'' \<notin> set (u @ rest)" "CHR ''$'' \<notin> set (u @ rest)"
    and "cmd \<noteq> []" "TrimSpace cmd = cmd" "CHR ''@'' \<notin> set cmd"
    and "\<not> Contains cmd ''# ''" "\<not> Contains cmd ''$ ''"
  shows "extractCommandFromLine (u @ ''@'' @ rest @ [c] @ '' '' @ cmd) = cmd"
proof -
  let ?P = "u @ CHR ''@'' # rest" and ?line = "u @ ''@'' @ rest @ [c] @ '' '' @ cmd"
  have line: "?line = ?P @ (c # '' '') @ cmd" by simp
  have scan: "scan_marker ?line (c # '' '') 0 best = Some (length ?P, c # '' '')" for best
    using assms by (intro scan_marker_prompt [of ?line u rest c cmd]) auto
  have "\<not> Contains ?line ''$ ''" if "c = CHR ''#''"
    using Contains_after [of "CHR ''$''" "?P @ ''# ''" cmd "'' ''"] assms(5,10) that by simp
  then have "fold (\<lambda>m best. scan_marker ?line m 0 best) markersWithSpace None = Some (length ?P, c # '' '')"
    using scan assms(1) scan_marker_none [of 0 ?line "''$ ''"] by (auto simp: markersWithSpace_def)
  moreover have "drop (length ?P + 2) ?line = cmd" by (simp add: numeral_3_eq_3)
  moreover have "\<not> Contains cmd ''@''" using assms(8) by (simp add: Contains_char)
  ultimately show ?thesis using assms(6,7) by (simp add: extractCommandFromLine_def Let_def)
qed

theorem extractCommandFromLine_prompt_witness:
  "extractCommandFromLine ''[root@web01 /etc]# cat hosts'' = ''cat hosts''"
  using extractCommandFromLine_prompt [of "CHR ''#''" "''web01 /etc]''" "''[root''" "''cat hosts''"]
  by (simp add: Count1_def TrimSpace_id is_space_def Contains_def)

end
