(* ===== verification/Go_Json.thy ===== *)
theory Go_Json
imports Go_Strings
begin

text \<open>
  Go's package encoding/json on lists of strings, the only JSON documents the
  modelled code stores: \<open>json.Marshal\<close> of a \<open>[]string\<close> and \<open>json.Unmarshal\<close> into
  one, on valid UTF-8, whose bytes from 128 on are kept as they are.  A \<open>null\<close> element is the empty string and the document
  \<open>null\<close> the empty list.
\<close>

section \<open>Encoding\<close>

definition hex_digit :: "nat \<Rightarrow> char" where
  "hex_digit n = (if n < 10 then chr (48 + n) else chr (87 + n))"

definition json_char :: "char \<Rightarrow> string" where
  "json_char c =
     (if c = CHR 0x22 \<or> c = CHR 0x5C then [CHR 0x5C, c]
      else if ord c = 8 then [CHR 0x5C, CHR ''b'']
      else if ord c = 12 then [CHR 0x5C, CHR ''f'']
      else if ord c = 10 then [CHR 0x5C, CHR ''n'']
      else if ord c = 13 then [CHR 0x5C, CHR ''r'']
      else if ord c = 9 then [CHR 0x5C, CHR ''t'']
      else if ord c < 32 \<or> c \<in> set ''<>&''
        then [CHR 0x5C, CHR ''u'', CHR ''0'', CHR ''0'', hex_digit (ord c div 16), hex_digit (ord c mod 16)]
      else [c])"

definition json_string :: "string \<Rightarrow> string" where
  "json_string s = [CHR 0x22] @ concat (map json_char s) @ [CHR 0x22]"

definition MarshalStrings :: "string list \<Rightarrow> string" where
  "MarshalStrings ws = ''['' @ Join (map json_string ws) '','' @ '']''"

section \<open>Decoding\<close>

definition json_ws :: "char \<Rightarrow> bool" where
  "json_ws c \<longleftrightarrow> ord c = 32 \<or> ord c = 9 \<or> ord c = 10 \<or> ord c = 13"

definition skip_ws :: "string \<Rightarrow> string" where "skip_ws s = dropWhile json_ws s"

definition hex_val :: "char \<Rightarrow> nat option" where
  "hex_val c = (if is_digit c then Some (ord c - 48)
     else if 97 \<le> ord c \<and> ord c \<le> 102 then Some (ord c - 87)
     else if 65 \<le> ord c \<and> ord c \<le> 70 then Some (ord c - 55)
     else None)"

definition hex4 :: "char \<Rightarrow> char \<Rightarrow> char \<Rightarrow> char \<Rightarrow> nat option" where
  "hex4 a b c d = (case (hex_val a, hex_val b, hex_val c, hex_val d) of
     (Some w, Some x, Some y, Some z) \<Rightarrow> Some (4096 * w + 256 * x + 16 * y + z) | _ \<Rightarrow> None)"

text \<open>The UTF-8 encoding of a code unit; surrogates become the replacement
  character.\<close>

definition utf8 :: "nat \<Rightarrow> string" where
  "utf8 n = (if n < 128 then [chr n]
     else if n < 2048 then [chr (192 + n div 64), chr (128 + n mod 64)]
     else if 55296 \<le> n \<and> n < 57344 then [chr 239, chr 191, chr 189]
     else [chr (224 + n div 4096), chr (128 + n div 64 mod 64), chr (128 + n mod 64)])"

definition simple_escape :: "char \<Rightarrow> char option" where
  "simple_escape e =
     (if e = CHR 0x22 \<or> e = CHR 0x5C \<or> e = CHR ''/'' then Some e
      else if e = CHR ''b'' then Some (chr 8)
      else if e = CHR ''f'' then Some (chr 12)
      else if e = CHR ''n'' then Some (chr 10)
      else if e = CHR ''r'' then Some (chr 13)
      else if e = CHR ''t'' then Some (chr 9)
      else None)"

text \<open>The characters of a string literal after its opening quote, and the rest
  of the document after its closing quote.\<close>

fun parse_chars :: "string \<Rightarrow> (string \<times> string) option" where
  "parse_chars [] = None"
| "parse_chars (c # s) =
     (if c = CHR 0x22 then Some ([], s)
      else if c = CHR 0x5C then
        (case s of
           [] \<Rightarrow> None
         | e # r \<Rightarrow>
             (case simple_escape e of
                Some x \<Rightarrow> map_option (\<lambda>(w, q). (x # w, q)) (parse_chars r)
              | None \<Rightarrow>
                  (if e = CHR ''u'' then
                     (case r of
                        a # b # d # f # r' \<Rightarrow>
                          (case hex4 a b d f of
                             None \<Rightarrow> None
                           | Some n \<Rightarrow> map_option (\<lambda>(w, q). (utf8 n @ w, q)) (parse_chars r'))
                      | _ \<Rightarrow> None)
                   else None)))
      else if ord c < 32 then None
      else map_option (\<lambda>(w, q). (c # w, q)) (parse_chars s))"

lemma parse_chars_length: "parse_chars s = Some (w, r) \<Longrightarrow> length r < length s"
proof (induction "length s" arbitrary: s w r rule: less_induct)
  case less
  then obtain c t where s: "s = c # t" by (cases s) auto
  have IH: "parse_chars x = Some (w', r) \<Longrightarrow> length x < Suc (length t) \<Longrightarrow> length r < Suc (length t)" for x w'
    using less.hyps [of x w' r] s by simp
  show ?case using less.prems unfolding s
    by (auto split: if_splits list.splits option.splits dest!: IH)
qed

definition parse_elem :: "string \<Rightarrow> (string \<times> string) option" where
  "parse_elem s = (case s of
     [] \<Rightarrow> None
   | c # r \<Rightarrow> (if c = CHR 0x22 then parse_chars r
              else if prefix ''null'' s then Some ([], drop 4 s) else None))"

lemma parse_elem_length: "parse_elem s = Some (w, r) \<Longrightarrow> length r < length s"
  by (auto simp: parse_elem_def split: list.splits if_splits dest: parse_chars_length)

lemma skip_ws_length: "length (skip_ws s) \<le> length s"
  by (simp add: skip_ws_def length_dropWhile_le)

function parse_elems :: "string \<Rightarrow> string list option" where
  "parse_elems s =
     (case parse_elem (skip_ws s) of
        None \<Rightarrow> None
      | Some (w, r) \<Rightarrow>
          (case skip_ws r of
             [] \<Rightarrow> None
           | d # q \<Rightarrow>
               (if d = CHR '','' then map_option (\<lambda>ws. w # ws) (parse_elems q)
                else if d = CHR '']'' \<and> skip_ws q = [] then Some [w]
                else None)))"
  by pat_completeness auto
termination
proof (relation "measure length", goal_cases)
  case (2 s wr w r d q)
  have "length r < length (skip_ws s)" using 2 by (auto dest: parse_elem_length)
  moreover have "length (d # q) \<le> length r" using 2 skip_ws_length [of r] by simp
  ultimately show ?case using skip_ws_length [of s] by simp
qed simp

declare parse_elems.simps [simp del]

definition UnmarshalStrings :: "string \<Rightarrow> string list option" where
  "UnmarshalStrings s0 =
     (let s = skip_ws s0 in
      if prefix ''null'' s \<and> skip_ws (drop 4 s) = [] then Some []
      else (case s of
        [] \<Rightarrow> None
      | c # r \<Rightarrow>
          (if c \<noteq> CHR ''['' then None
           else (case skip_ws r of
             [] \<Rightarrow> None
           | d # q \<Rightarrow> (if d = CHR '']'' then (if skip_ws q = [] then Some [] else None) else parse_elems r)))))"

section \<open>Round trip\<close>

lemma hex_val_digit: "n < 16 \<Longrightarrow> hex_val (hex_digit n) = Some n"
  by (auto simp: hex_val_def hex_digit_def is_digit_def)

lemma hex4_byte: "n < 256 \<Longrightarrow> hex4 CHR ''0'' CHR ''0'' (hex_digit (n div 16)) (hex_digit (n mod 16)) = Some n"
proof -
  assume "n < 256"
  moreover have "hex_val CHR ''0'' = Some 0" by (simp add: hex_val_def is_digit_def)
  ultimately show ?thesis by (simp add: hex4_def hex_val_digit less_mult_imp_div_less)
qed

lemma not_escape_u: "simple_escape CHR ''u'' = None"
  by (simp add: simple_escape_def)

lemma utf8_small: "n < 128 \<Longrightarrow> utf8 n = [chr n]"
  by (simp add: utf8_def)

text \<open>Decoding one encoded character.\<close>

lemma parse_json_char: "parse_chars (json_char c @ r) = map_option (\<lambda>(w, q). (c # w, q)) (parse_chars r)"
proof (cases "c = CHR 0x22 \<or> c = CHR 0x5C \<or> ord c \<in> {8, 9, 10, 12, 13}")
  case True
  then have "\<exists>e. json_char c = [CHR 0x5C, e] \<and> simple_escape e = Some c"
    by (auto simp: json_char_def simple_escape_def chr_eq_iff [symmetric])
  then show ?thesis by auto
next
  case False
  show ?thesis
  proof (cases "ord c < 32 \<or> c \<in> set ''<>&''")
    case True
    then have "json_char c = [CHR 0x5C, CHR ''u'', CHR ''0'', CHR ''0'', hex_digit (ord c div 16), hex_digit (ord c mod 16)]"
      using False by (auto simp: json_char_def)
    moreover have "ord c < 128" using True by auto
    ultimately show ?thesis using hex4_byte [of "ord c"] by (simp add: not_escape_u utf8_small)
  next
    case nf: False
    then have "json_char c = [c]" using False by (auto simp: json_char_def)
    then show ?thesis using nf False by simp
  qed
qed

lemma parse_json_chars: "parse_chars (concat (map json_char w) @ CHR 0x22 # r) = Some (w, r)"
  by (induction w) (simp_all add: parse_json_char)

lemma skip_ws_quote [simp]: "skip_ws (CHR 0x22 # r) = CHR 0x22 # r"
  by (simp add: skip_ws_def json_ws_def)

lemma parse_elem_json_string: "parse_elem (json_string w @ r) = Some (w, r)"
  by (simp add: parse_elem_def json_string_def parse_json_chars)

lemma skip_ws_json_string: "skip_ws (json_string w @ r) = json_string w @ r"
  by (simp add: json_string_def)

lemma parse_elems_Join:
  assumes "ws \<noteq> []"
  shows "parse_elems (Join (map json_string ws) '','' @ '']'') = Some ws"
  using assms
proof (induction ws)
  case (Cons w ws)
  show ?case
  proof (cases ws)
    case Nil
    then show ?thesis using Cons.prems
      by (subst parse_elems.simps)
        (simp add: parse_elem_json_string skip_ws_json_string, simp add: skip_ws_def json_ws_def)
  next
    case (Cons v vs)
    have "parse_elems (Join (map json_string ws) '','' @ '']'') = Some ws"
      using Cons.IH Cons.prems Cons by simp
    moreover have "skip_ws (CHR '','' # x) = CHR '','' # x" for x by (simp add: skip_ws_def json_ws_def)
    ultimately show ?thesis using Cons.prems Cons
      by (subst parse_elems.simps) (simp add: parse_elem_json_string skip_ws_json_string)
  qed
qed simp

lemma Unmarshal_Marshal: "UnmarshalStrings (MarshalStrings ws) = Some ws"
proof (cases ws)
  case Nil
  then show ?thesis by (simp add: UnmarshalStrings_def MarshalStrings_def skip_ws_def json_ws_def)
next
  case (Cons w vs)
  let ?body = "Join (map json_string ws) '','' @ '']''"
  have "MarshalStrings ws = CHR ''['' # ?body" by (simp add: MarshalStrings_def)
  moreover obtain q where "?body = CHR 0x22 # q" using Cons by (cases vs) (auto simp: json_string_def)
  moreover have "parse_elems ?body = Some ws" using parse_elems_Join Cons by blast
  moreover have "skip_ws (CHR ''['' # x) = CHR ''['' # x" for x by (simp add: skip_ws_def json_ws_def)
  ultimately show ?thesis by (simp add: UnmarshalStrings_def)
qed

end
