(* ===== verification/Approvals.thy ===== *)
theory Approvals
imports Go_Json
begin

text \<open>
  Approval tickets: the request handlers of
  \<open>internal/api/handler/approval_handler.go\<close>, the platform callbacks of
  \<open>approval_callback_handler.go\<close>, and the provider factory of
  \<open>internal/approval/interface.go\<close>, over the tables of tickets, comments and
  platform configurations.  A handler takes the decoded request (\<open>None\<close> when the
  body does not bind), the environment of the call and the database, and returns
  the response and the new database.  The clock, the generated identifiers and
  the outcome of each database access are part of the environment; the platform
  providers are functions given by the factory.
\<close>

section \<open>Data\<close>

datatype ApprovalStatus = Pending | Approved | Rejected | Canceled | Expired

fun status_string :: "ApprovalStatus \<Rightarrow> string" where
  "status_string Pending = ''pending''"
| "status_string Approved = ''approved''"
| "status_string Rejected = ''rejected''"
| "status_string Canceled = ''canceled''"
| "status_string Expired = ''expired''"

record Approval =
  a_ID :: string
  a_Title :: string
  a_Description :: string
  a_Type :: string
  a_Status :: ApprovalStatus
  a_Platform :: string
  a_ApplicantID :: string
  a_ApplicantName :: string
  a_ApplicantEmail :: string
  a_ApproverIDs :: "string list"
  a_ApproverNames :: "string list"
  a_CurrentApprover :: string
  a_ResourceType :: string
  a_ResourceIDs :: "string list"
  a_ResourceNames :: "string list"
  a_Permissions :: "string list"
  a_Duration :: int
  a_ExpiresAt :: "time option"
  a_Reason :: string
  a_ApprovalNote :: string
  a_RejectReason :: string
  a_ExternalID :: string
  a_ExternalURL :: string
  a_ExternalData :: string
  a_CreatedAt :: time
  a_UpdatedAt :: time
  a_ApprovedAt :: "time option"
  a_RejectedAt :: "time option"

record ApprovalComment =
  c_ID :: string
  c_ApprovalID :: string
  c_UserID :: string
  c_UserName :: string
  c_Action :: string
  c_Comment :: string
  c_CreatedAt :: time

record ApprovalConfig =
  cfg_ID :: string
  cfg_Name :: string
  cfg_Type :: string
  cfg_Enabled :: bool
  cfg_AppID :: string
  cfg_AppSecret :: string
  cfg_ApprovalCode :: string
  cfg_ProcessCode :: string
  cfg_TemplateID :: string
  cfg_FormFields :: string
  cfg_ApproverUserIDs :: string
  cfg_APIBaseURL :: string
  cfg_APIPath :: string
  cfg_APIPathGet :: string
  cfg_APIPathCancel :: string
  cfg_CallbackURL :: string
  cfg_CreatedAt :: time
  cfg_UpdatedAt :: time

record CallbackResult =
  cr_ApprovalID :: string
  cr_Status :: ApprovalStatus
  cr_ApproverName :: string
  cr_Comment :: string

text \<open>A provider: creating a ticket on the platform returns its external
  identifier; a callback body is turned into a result.  Errors are texts.\<close>

record 'd Provider =
  p_CreateApproval :: "Approval \<Rightarrow> string + string"
  p_HandleCallback :: "'d \<Rightarrow> string + CallbackResult"

type_synonym 'd Factory = "string \<Rightarrow> 'd Provider option"

definition NewFactory :: "'d Factory" where "NewFactory = (\<lambda>platform. None)"

definition Register :: "'d Factory \<Rightarrow> string \<Rightarrow> 'd Provider \<Rightarrow> 'd Factory" where
  "Register f platform provider = f(platform \<mapsto> provider)"

definition GetProvider :: "'d Factory \<Rightarrow> string \<Rightarrow> 'd Provider option" where
  "GetProvider f platform = f platform"

text \<open>The database, with the tickets cancelled on the platforms.\<close>

record adb =
  approvals :: "Approval list"
  comments :: "ApprovalComment list"
  configs :: "ApprovalConfig list"
  cancelled :: "(string \<times> string) list"

record env =
  e_now :: time
  newID :: string
  commentID :: string
  read_ok :: bool
  write_ok :: bool
  comment_ok :: bool

datatype approval_error =
    InvalidRequest | MissingFields | ApprovalNotFound | NotApplicant | AlreadyHandled
  | UnsupportedPlatform string | ProviderFailed string | DatabaseFailed
  | InvalidPlatformType | InvalidFormFields | ConfigNotFound | EmptyConfigID | CallbackFailed

fun http_status :: "approval_error \<Rightarrow> nat" where
  "http_status InvalidRequest = 400"
| "http_status MissingFields = 400"
| "http_status ApprovalNotFound = 404"
| "http_status NotApplicant = 403"
| "http_status AlreadyHandled = 400"
| "http_status (UnsupportedPlatform p) = 501"
| "http_status (ProviderFailed e) = 500"
| "http_status DatabaseFailed = 500"
| "http_status InvalidPlatformType = 400"
| "http_status InvalidFormFields = 400"
| "http_status ConfigNotFound = 404"
| "http_status EmptyConfigID = 400"
| "http_status CallbackFailed = 500"

section \<open>Database accesses\<close>

definition find_approval :: "env \<Rightarrow> string \<Rightarrow> adb \<Rightarrow> Approval option" where
  "find_approval e i db = (if read_ok e then First a_ID (\<lambda>a. a_ID a = i) (approvals db) else None)"

definition find_external :: "env \<Rightarrow> string \<Rightarrow> adb \<Rightarrow> Approval option" where
  "find_external e x db = (if read_ok e then First a_ID (\<lambda>a. a_ExternalID a = x) (approvals db) else None)"

text \<open>\<open>db.Save\<close> of a loaded row rewrites the row with its primary key.\<close>

definition save_approval :: "Approval \<Rightarrow> adb \<Rightarrow> adb" where
  "save_approval a db = db\<lparr>approvals := update_where (\<lambda>b. a_ID b = a_ID a) (\<lambda>_. a) (approvals db)\<rparr>"

definition add_comment :: "env \<Rightarrow> ApprovalComment \<Rightarrow> adb \<Rightarrow> adb" where
  "add_comment e c db = (if comment_ok e then db\<lparr>comments := comments db @ [c]\<rparr> else db)"

section \<open>Handlers\<close>

definition ListApprovals ::
  "string \<Rightarrow> string \<Rightarrow> string \<Rightarrow> string \<Rightarrow> env \<Rightarrow> adb \<Rightarrow> approval_error + Approval list" where
  "ListApprovals userID status approvalType role e db =
     (let q0 = approvals db;
          q1 = (if role = ''my'' \<and> userID \<noteq> [] then filter (\<lambda>a. a_ApplicantID a = userID) q0
                else if role = ''approve'' \<and> userID \<noteq> []
                  then filter (\<lambda>a. a_Status a = Pending \<and> userID \<in> set (a_ApproverIDs a)) q0
                else if role = ''all'' \<and> userID \<noteq> []
                  then filter (\<lambda>a. a_ApplicantID a = userID \<or> userID \<in> set (a_ApproverIDs a)) q0
                else q0);
          q2 = (if status \<noteq> [] then filter (\<lambda>a. status_string (a_Status a) = status) q1 else q1);
          q3 = (if approvalType \<noteq> [] then filter (\<lambda>a. a_Type a = approvalType) q2 else q2)
      in if read_ok e then Inr (sort_key (\<lambda>a. - a_CreatedAt a) q3) else Inl DatabaseFailed)"

definition GetApproval ::
  "string \<Rightarrow> env \<Rightarrow> adb \<Rightarrow> approval_error + (Approval \<times> ApprovalComment list)" where
  "GetApproval i e db =
     (if \<not> read_ok e then Inl DatabaseFailed
      else (case First a_ID (\<lambda>a. a_ID a = i) (approvals db) of
        None \<Rightarrow> Inl ApprovalNotFound
      | Some a \<Rightarrow> Inr (a, sort_key c_CreatedAt (filter (\<lambda>c. c_ApprovalID c = i) (comments db)))))"

text \<open>The approvers of the enabled configuration of a platform, if it lists any.\<close>

definition config_approvers :: "env \<Rightarrow> string \<Rightarrow> adb \<Rightarrow> string list option" where
  "config_approvers e platform db =
     (if \<not> read_ok e then None
      else (case First cfg_ID (\<lambda>c. cfg_Type c = platform \<and> cfg_Enabled c) (configs db) of
        None \<Rightarrow> None
      | Some c \<Rightarrow> (if cfg_ApproverUserIDs c = [] then None else UnmarshalStrings (cfg_ApproverUserIDs c))))"

definition with_approvers :: "string list option \<Rightarrow> Approval \<Rightarrow> Approval" where
  "with_approvers ids a = (case ids of None \<Rightarrow> a | Some xs \<Rightarrow> a\<lparr>a_ApproverIDs := xs\<rparr>)"

definition getDefaultExternalURL :: "string \<Rightarrow> string \<Rightarrow> string" where
  "getDefaultExternalURL platform externalID =
     (if platform = ''feishu'' then ''https://www.feishu.cn/approval/instance/'' @ externalID
      else if platform = ''dingtalk'' then
        ''https://aflow.dingtalk.com/dingtalk/mobile/homepage.htm?corpid=&lwp_as=1&procInstId='' @ externalID
      else if platform = ''wechat'' then
        ''https://work.weixin.qq.com/wework_admin/frame#/approval/detail/'' @ externalID
      else [])"

definition prepare_request :: "env \<Rightarrow> Approval \<Rightarrow> Approval" where
  "prepare_request e req0 =
     (let req = req0\<lparr>a_ID := newID e, a_CreatedAt := e_now e, a_UpdatedAt := e_now e, a_Status := Pending\<rparr>;
          req = (if a_Platform req = [] then req\<lparr>a_Platform := ''internal''\<rparr> else req)
      in if a_Duration req > 0 then req\<lparr>a_ExpiresAt := Some (e_now e + a_Duration req * hour)\<rparr> else req)"

definition CreateApproval ::
  "'d Factory \<Rightarrow> Approval option \<Rightarrow> env \<Rightarrow> adb \<Rightarrow> (approval_error + Approval) \<times> adb" where
  "CreateApproval f body e db = (case body of
     None \<Rightarrow> (Inl InvalidRequest, db)
   | Some req0 \<Rightarrow>
       (if a_Title req0 = [] \<or> a_Type req0 = [] \<or> a_ApplicantID req0 = [] then (Inl MissingFields, db)
        else (let req = prepare_request e req0 in
          if a_Platform req = ''internal'' then
            (let req = with_approvers (config_approvers e (a_Platform req) db) req in
             if write_ok e then (Inr req, db\<lparr>approvals := approvals db @ [req]\<rparr>) else (Inl DatabaseFailed, db))
          else (case GetProvider f (a_Platform req) of
            None \<Rightarrow> (Inl (UnsupportedPlatform (a_Platform req)), db)
          | Some provider \<Rightarrow>
              (case p_CreateApproval provider req of
                 Inl err \<Rightarrow> (Inl (ProviderFailed err), db)
               | Inr externalID \<Rightarrow>
                   (let req = req\<lparr>a_ExternalID := externalID,
                                  a_ExternalURL := getDefaultExternalURL (a_Platform req) externalID\<rparr>;
                        req = with_approvers (config_approvers e (a_Platform req) db) req
                    in if write_ok e
                       then (Inr req, add_comment e
                              \<lparr> c_ID = commentID e, c_ApprovalID = a_ID req, c_UserID = a_ApplicantID req,
                                c_UserName = a_ApplicantName req, c_Action = ''submit'',
                                c_Comment = ''submit approval request'', c_CreatedAt = e_now e \<rparr>
                              (db\<lparr>approvals := approvals db @ [req]\<rparr>))
                       else (Inl DatabaseFailed, db)))))))"

record approve_req = ap_ApproverID :: string ap_ApproverName :: string ap_Comment :: string

definition ApproveApproval ::
  "string \<Rightarrow> approve_req option \<Rightarrow> env \<Rightarrow> adb \<Rightarrow> (approval_error + Approval) \<times> adb" where
  "ApproveApproval i body e db = (case body of
     None \<Rightarrow> (Inl InvalidRequest, db)
   | Some req \<Rightarrow>
       (if ap_ApproverID req = [] then (Inl InvalidRequest, db)
        else (case find_approval e i db of
          None \<Rightarrow> (Inl ApprovalNotFound, db)
        | Some a \<Rightarrow>
            (if a_Status a \<noteq> Pending then (Inl AlreadyHandled, db)
             else (let a = a\<lparr>a_Status := Approved, a_ApprovedAt := Some (e_now e), a_ApprovalNote := ap_Comment req,
                             a_CurrentApprover := ap_ApproverName req, a_UpdatedAt := e_now e\<rparr>
                   in if \<not> write_ok e then (Inl DatabaseFailed, db)
                      else (Inr a, add_comment e
                        \<lparr> c_ID = commentID e, c_ApprovalID = a_ID a, c_UserID = ap_ApproverID req,
                          c_UserName = ap_ApproverName req, c_Action = ''approve'',
                          c_Comment = ap_Comment req, c_CreatedAt = e_now e \<rparr> (save_approval a db)))))))"

record reject_req = rj_ApproverID :: string rj_ApproverName :: string rj_Reason :: string

definition RejectApproval ::
  "string \<Rightarrow> reject_req option \<Rightarrow> env \<Rightarrow> adb \<Rightarrow> (approval_error + Approval) \<times> adb" where
  "RejectApproval i body e db = (case body of
     None \<Rightarrow> (Inl InvalidRequest, db)
   | Some req \<Rightarrow>
       (if rj_ApproverID req = [] \<or> rj_Reason req = [] then (Inl InvalidRequest, db)
        else (case find_approval e i db of
          None \<Rightarrow> (Inl ApprovalNotFound, db)
        | Some a \<Rightarrow>
            (if a_Status a \<noteq> Pending then (Inl AlreadyHandled, db)
             else (let a = a\<lparr>a_Status := Rejected, a_RejectedAt := Some (e_now e), a_RejectReason := rj_Reason req,
                             a_CurrentApprover := rj_ApproverName req, a_UpdatedAt := e_now e\<rparr>
                   in if \<not> write_ok e then (Inl DatabaseFailed, db)
                      else (Inr a, add_comment e
                        \<lparr> c_ID = commentID e, c_ApprovalID = a_ID a, c_UserID = rj_ApproverID req,
                          c_UserName = rj_ApproverName req, c_Action = ''reject'',
                          c_Comment = rj_Reason req, c_CreatedAt = e_now e \<rparr> (save_approval a db)))))))"

record cancel_req = cn_UserID :: string cn_Reason :: string

definition CancelApproval ::
  "'d Factory \<Rightarrow> string \<Rightarrow> cancel_req option \<Rightarrow> env \<Rightarrow> adb \<Rightarrow> (approval_error + Approval) \<times> adb" where
  "CancelApproval f i body e db = (case body of
     None \<Rightarrow> (Inl InvalidRequest, db)
   | Some req \<Rightarrow>
       (if cn_UserID req = [] then (Inl InvalidRequest, db)
        else (case find_approval e i db of
          None \<Rightarrow> (Inl ApprovalNotFound, db)
        | Some a \<Rightarrow>
            (if a_ApplicantID a \<noteq> cn_UserID req then (Inl NotApplicant, db)
             else if a_Status a \<noteq> Pending then (Inl AlreadyHandled, db)
             else (let db = (if a_ExternalID a \<noteq> [] \<and> GetProvider f (a_Platform a) \<noteq> None
                             then db\<lparr>cancelled := cancelled db @ [(a_Platform a, a_ExternalID a)]\<rparr> else db);
                       a = a\<lparr>a_Status := Canceled, a_UpdatedAt := e_now e\<rparr>
                   in if \<not> write_ok e then (Inl DatabaseFailed, db)
                      else (Inr a, add_comment e
                        \<lparr> c_ID = commentID e, c_ApprovalID = a_ID a, c_UserID = cn_UserID req,
                          c_UserName = [], c_Action = ''cancel'',
                          c_Comment = cn_Reason req, c_CreatedAt = e_now e \<rparr> (save_approval a db)))))))"

record comment_req = cm_UserID :: string cm_UserName :: string cm_Comment :: string

definition AddComment ::
  "string \<Rightarrow> comment_req option \<Rightarrow> env \<Rightarrow> adb \<Rightarrow> (approval_error + ApprovalComment) \<times> adb" where
  "AddComment i body e db = (case body of
     None \<Rightarrow> (Inl InvalidRequest, db)
   | Some req \<Rightarrow>
       (if cm_UserID req = [] \<or> cm_Comment req = [] then (Inl InvalidRequest, db)
        else (case find_approval e i db of
          None \<Rightarrow> (Inl ApprovalNotFound, db)
        | Some a \<Rightarrow>
            (let c = \<lparr> c_ID = commentID e, c_ApprovalID = i, c_UserID = cm_UserID req,
                       c_UserName = cm_UserName req, c_Action = ''comment'',
                       c_Comment = cm_Comment req, c_CreatedAt = e_now e \<rparr>
             in if write_ok e then (Inr c, db\<lparr>comments := comments db @ [c]\<rparr>) else (Inl DatabaseFailed, db)))))"

record counts = n_total :: nat n_pending :: nat n_approved :: nat n_rejected :: nat

definition count_by :: "(Approval \<Rightarrow> bool) \<Rightarrow> Approval list \<Rightarrow> counts" where
  "count_by P t = \<lparr> n_total = length (filter P t),
     n_pending = length (filter (\<lambda>a. P a \<and> a_Status a = Pending) t),
     n_approved = length (filter (\<lambda>a. P a \<and> a_Status a = Approved) t),
     n_rejected = length (filter (\<lambda>a. P a \<and> a_Status a = Rejected) t) \<rparr>"

text \<open>The applicant's counts and the tickets waiting for the user are present only
  when a user is given; the errors of the counting queries are ignored.\<close>

definition GetApprovalStats :: "string \<Rightarrow> adb \<Rightarrow> (counts \<times> nat) option \<times> counts" where
  "GetApprovalStats userID db =
     ((if userID \<noteq> []
       then Some (count_by (\<lambda>a. a_ApplicantID a = userID) (approvals db),
                  length (filter (\<lambda>a. a_Status a = Pending \<and> userID \<in> set (a_ApproverIDs a)) (approvals db)))
       else None),
      count_by (\<lambda>a. True) (approvals db))"

definition HandleCallback ::
  "'d Factory \<Rightarrow> string \<Rightarrow> 'd option \<Rightarrow> env \<Rightarrow> adb \<Rightarrow> (approval_error + unit) \<times> adb" where
  "HandleCallback f platform body e db = (case GetProvider f platform of
     None \<Rightarrow> (Inl (UnsupportedPlatform platform), db)
   | Some provider \<Rightarrow> (case body of
       None \<Rightarrow> (Inl InvalidRequest, db)
     | Some data \<Rightarrow> (case p_HandleCallback provider data of
         Inl err \<Rightarrow> (Inl (ProviderFailed err), db)
       | Inr result \<Rightarrow> (case find_external e (cr_ApprovalID result) db of
           None \<Rightarrow> (Inl ApprovalNotFound, db)
         | Some a \<Rightarrow>
             (let a = a\<lparr>a_Status := cr_Status result, a_CurrentApprover := cr_ApproverName result,
                        a_UpdatedAt := e_now e\<rparr>;
                  a = (if cr_Status result = Approved
                       then a\<lparr>a_ApprovedAt := Some (e_now e), a_ApprovalNote := cr_Comment result\<rparr>
                       else if cr_Status result = Rejected
                       then a\<lparr>a_RejectedAt := Some (e_now e), a_RejectReason := cr_Comment result\<rparr>
                       else a)
              in (Inr (), if write_ok e then save_approval a db else db))))))"

definition GetApprovalConfig :: "env \<Rightarrow> adb \<Rightarrow> approval_error + ApprovalConfig list" where
  "GetApprovalConfig e db =
     (if read_ok e then Inr (sort_key (\<lambda>c. - cfg_CreatedAt c) (configs db)) else Inl DatabaseFailed)"

text \<open>\<open>valid_json\<close> says whether the form fields parse as JSON.\<close>

definition UpdateApprovalConfig ::
  "(string \<Rightarrow> bool) \<Rightarrow> string \<Rightarrow> ApprovalConfig option \<Rightarrow> env \<Rightarrow> adb \<Rightarrow> (approval_error + ApprovalConfig) \<times> adb" where
  "UpdateApprovalConfig valid_json i body e db = (case body of
     None \<Rightarrow> (Inl InvalidRequest, db)
   | Some req \<Rightarrow>
       (if cfg_Name req = [] \<or> cfg_Type req = [] \<or> cfg_AppID req = [] \<or> cfg_AppSecret req = []
        then (Inl MissingFields, db)
        else if cfg_Type req \<noteq> ''feishu'' \<and> cfg_Type req \<noteq> ''dingtalk'' \<and> cfg_Type req \<noteq> ''wechat''
        then (Inl InvalidPlatformType, db)
        else if cfg_FormFields req \<noteq> [] \<and> \<not> valid_json (cfg_FormFields req) then (Inl InvalidFormFields, db)
        else if i = [] then
          (let req = req\<lparr>cfg_ID := newID e, cfg_CreatedAt := e_now e, cfg_UpdatedAt := e_now e\<rparr> in
           if write_ok e then (Inr req, db\<lparr>configs := configs db @ [req]\<rparr>) else (Inl DatabaseFailed, db))
        else (case (if read_ok e then First cfg_ID (\<lambda>c. cfg_ID c = i) (configs db) else None) of
          None \<Rightarrow> (Inl ConfigNotFound, db)
        | Some existing \<Rightarrow>
            (let req = req\<lparr>cfg_CreatedAt := cfg_CreatedAt existing, cfg_UpdatedAt := e_now e, cfg_ID := i\<rparr> in
             if write_ok e
             then (Inr req, db\<lparr>configs := update_where (\<lambda>c. cfg_ID c = i) (\<lambda>_. req) (configs db)\<rparr>)
             else (Inl DatabaseFailed, db)))))"

definition DeleteApprovalConfig :: "string \<Rightarrow> env \<Rightarrow> adb \<Rightarrow> (approval_error + unit) \<times> adb" where
  "DeleteApprovalConfig i e db =
     (if i = [] then (Inl EmptyConfigID, db)
      else if \<not> read_ok e then (Inl DatabaseFailed, db)
      else (case First cfg_ID (\<lambda>c. cfg_ID c = i) (configs db) of
        None \<Rightarrow> (Inl ConfigNotFound, db)
      | Some c \<Rightarrow>
          (if write_ok e then (Inr (), db\<lparr>configs := delete_where (\<lambda>c. cfg_ID c = i) (configs db)\<rparr>)
           else (Inl DatabaseFailed, db))))"

section \<open>Platform callbacks\<close>

definition mapFeishuStatus :: "string \<Rightarrow> ApprovalStatus" where
  "mapFeishuStatus s = (if s = ''PENDING'' then Pending else if s = ''APPROVED'' then Approved
     else if s = ''REJECTED'' then Rejected else if s = ''CANCELLED'' then Canceled else Pending)"

definition mapDingTalkStatus :: "string \<Rightarrow> ApprovalStatus" where
  "mapDingTalkStatus s = (if s = ''RUNNING'' then Pending else if s = ''COMPLETED'' then Approved
     else if s = ''TERMINATED'' then Rejected else if s = ''CANCELED'' then Canceled else Pending)"

definition mapWeChatStatus :: "string \<Rightarrow> ApprovalStatus" where
  "mapWeChatStatus s = (if s = ''1'' then Pending else if s = ''2'' then Approved
     else if s = ''3'' then Rejected else if s = ''4'' then Canceled else Pending)"

text \<open>The fields of the callback bodies that the handlers read.\<close>

record FeishuCallbackRequest =
  fs_Type :: string
  fs_Challenge :: string
  fs_EventType :: string
  fs_InstanceCode :: string
  fs_Status :: string
  fs_EndTime :: int

record DingTalkCallbackRequest =
  dt_EventType :: string
  dt_ProcessInstanceID :: string
  dt_Status :: string
  dt_FinishTime :: string

record WeChatCallbackRequest =
  wx_Event :: string
  wx_ProcessInstanceID :: string
  wx_Status :: string
  wx_FinishTime :: int

text \<open>Storing the status of a callback with the time of the decision.\<close>

definition apply_status :: "ApprovalStatus \<Rightarrow> time \<Rightarrow> env \<Rightarrow> Approval \<Rightarrow> Approval" where
  "apply_status status decided e a0 =
     (let a = a0\<lparr>a_Status := status, a_UpdatedAt := e_now e\<rparr> in
      if status = Approved then a\<lparr>a_ApprovedAt := Some decided\<rparr>
      else if status = Rejected then a\<lparr>a_RejectedAt := Some decided\<rparr>
      else a)"

definition store_event ::
  "string \<Rightarrow> ApprovalStatus \<Rightarrow> time \<Rightarrow> env \<Rightarrow> adb \<Rightarrow> (approval_error + unit) \<times> adb" where
  "store_event externalID status decided e db = (case find_external e externalID db of
     None \<Rightarrow> (Inl CallbackFailed, db)
   | Some a \<Rightarrow> (if write_ok e then (Inr (), save_approval (apply_status status decided e a) db)
               else (Inl CallbackFailed, db)))"

text \<open>Go's integer division truncates towards zero.\<close>

definition quot :: "int \<Rightarrow> int \<Rightarrow> int" where
  "quot a b = (if a < 0 then - ((- a) div b) else a div b)"

definition handleFeishuApprovalEvent :: "FeishuCallbackRequest \<Rightarrow> env \<Rightarrow> adb \<Rightarrow> (approval_error + unit) \<times> adb" where
  "handleFeishuApprovalEvent req e db =
     store_event (fs_InstanceCode req) (mapFeishuStatus (fs_Status req)) (quot (fs_EndTime req) 1000 * second) e db"

text \<open>\<open>parse_time\<close> is \<open>time.Parse\<close> with the layout of the code.\<close>

definition handleDingTalkApprovalEvent ::
  "(string \<Rightarrow> time option) \<Rightarrow> DingTalkCallbackRequest \<Rightarrow> env \<Rightarrow> adb \<Rightarrow> (approval_error + unit) \<times> adb" where
  "handleDingTalkApprovalEvent parse_time req e db =
     store_event (dt_ProcessInstanceID req) (mapDingTalkStatus (dt_Status req))
       (if dt_FinishTime req \<noteq> []
        then (case parse_time (dt_FinishTime req) of Some t \<Rightarrow> t | None \<Rightarrow> zero_time) else zero_time) e db"

definition handleWeChatApprovalEvent :: "WeChatCallbackRequest \<Rightarrow> env \<Rightarrow> adb \<Rightarrow> (approval_error + unit) \<times> adb" where
  "handleWeChatApprovalEvent req e db =
     store_event (wx_ProcessInstanceID req) (mapWeChatStatus (wx_Status req))
       (if wx_FinishTime req > 0 then wx_FinishTime req * second else zero_time) e db"

text \<open>The answer to a callback: a challenge to echo, success, or an error.\<close>

datatype callback_answer = Challenge string | Success | Failed approval_error

definition answer :: "(approval_error + unit) \<times> adb \<Rightarrow> callback_answer \<times> adb" where
  "answer r = (case r of (Inl err, db) \<Rightarrow> (Failed err, db) | (Inr u, db) \<Rightarrow> (Success, db))"

definition HandleFeishuCallback :: "FeishuCallbackRequest option \<Rightarrow> env \<Rightarrow> adb \<Rightarrow> callback_answer \<times> adb" where
  "HandleFeishuCallback body e db = (case body of
     None \<Rightarrow> (Failed InvalidRequest, db)
   | Some req \<Rightarrow>
       (if fs_Type req = ''url_verification'' then (Challenge (fs_Challenge req), db)
        else if fs_EventType req = ''approval_instance'' then answer (handleFeishuApprovalEvent req e db)
        else (Success, db)))"

definition HandleDingTalkCallback ::
  "(string \<Rightarrow> time option) \<Rightarrow> DingTalkCallbackRequest option \<Rightarrow> env \<Rightarrow> adb \<Rightarrow> callback_answer \<times> adb" where
  "HandleDingTalkCallback parse_time body e db = (case body of
     None \<Rightarrow> (Failed InvalidRequest, db)
   | Some req \<Rightarrow>
       (if dt_EventType req = ''bpms_task_change'' \<or> dt_EventType req = ''bpms_instance_change''
        then answer (handleDingTalkApprovalEvent parse_time req e db)
        else (Success, db)))"

definition HandleWeChatCallback :: "WeChatCallbackRequest option \<Rightarrow> env \<Rightarrow> adb \<Rightarrow> callback_answer \<times> adb" where
  "HandleWeChatCallback body e db = (case body of
     None \<Rightarrow> (Failed InvalidRequest, db)
   | Some req \<Rightarrow>
       (if wx_Event req = ''sys_approval_change'' then answer (handleWeChatApprovalEvent req e db)
        else (Success, db)))"

section \<open>Life of a ticket\<close>

definition ticket :: "adb \<Rightarrow> string \<Rightarrow> Approval option" where
  "ticket db i = first_where (\<lambda>a. a_ID a = i) (approvals db)"

lemma find_approval_ticket: "find_approval e i db = (if read_ok e then ticket db i else None)"
  by (simp add: find_approval_def ticket_def First_key)

lemma ticket_ID: "ticket db i = Some a \<Longrightarrow> a_ID a = i"
  using first_where_SomeD(2) by (fastforce simp: ticket_def)

lemma ticket_save: "ticket (save_approval a db) i = (if a_ID a = i then map_option (\<lambda>_. a) (ticket db i) else ticket db i)"
  by (simp add: ticket_def save_approval_def first_where_replace [where k = a_ID])

lemma ticket_add_comment [simp]: "ticket (add_comment e c db) i = ticket db i"
  by (simp add: ticket_def add_comment_def)

lemma ticket_cancelled [simp]: "ticket (db\<lparr>cancelled := x\<rparr>) i = ticket db i"
  by (simp add: ticket_def)

lemma ticket_create:
  "ticket (db\<lparr>approvals := approvals db @ [a]\<rparr>) i =
     (case ticket db i of None \<Rightarrow> if a_ID a = i then Some a else None | Some b \<Rightarrow> Some b)"
  by (simp add: ticket_def first_where_append first_where_Cons first_where_Nil split: option.splits)

text \<open>The steps of the ticket handlers; new tickets get a fresh identifier.\<close>

inductive handler_step :: "'d Factory \<Rightarrow> (string \<Rightarrow> bool) \<Rightarrow> adb \<Rightarrow> adb \<Rightarrow> bool" for f vj where
  create: "newID e \<notin> a_ID ` set (approvals db) \<Longrightarrow> handler_step f vj db (snd (CreateApproval f b1 e db))"
| approve: "handler_step f vj db (snd (ApproveApproval i b2 e db))"
| reject: "handler_step f vj db (snd (RejectApproval i b3 e db))"
| cancel: "handler_step f vj db (snd (CancelApproval f i b4 e db))"
| remark: "handler_step f vj db (snd (AddComment i b5 e db))"
| config: "handler_step f vj db (snd (UpdateApprovalConfig vj i b6 e db))"
| unconfig: "handler_step f vj db (snd (DeleteApprovalConfig i e db))"

lemma a_ID_with_approvers [simp]: "a_ID (with_approvers ids a) = a_ID a"
  by (simp add: with_approvers_def split: option.splits)

lemma a_Status_with_approvers [simp]: "a_Status (with_approvers ids a) = a_Status a"
  by (simp add: with_approvers_def split: option.splits)

lemma prepare_request_fields [simp]:
  "a_ID (prepare_request e a) = newID e" "a_Status (prepare_request e a) = Pending"
  by (simp_all add: prepare_request_def Let_def)

text \<open>The database after a creation: unchanged, or one new pending ticket.\<close>

lemma CreateApproval_db:
  obtains "snd (CreateApproval f b e db) = db"
  | a where "a_ID a = newID e" "a_Status a = Pending" "snd (CreateApproval f b e db) = db\<lparr>approvals := approvals db @ [a]\<rparr>"
  | a c where "a_ID a = newID e" "a_Status a = Pending" "c_ApprovalID c = newID e"
      "snd (CreateApproval f b e db) = add_comment e c (db\<lparr>approvals := approvals db @ [a]\<rparr>)"
proof (cases b)
  case None
  then show ?thesis using that(1) by (simp add: CreateApproval_def)
next
  case (Some req)
  show ?thesis
  proof (cases "a_Title req = [] \<or> a_Type req = [] \<or> a_ApplicantID req = [] \<or> \<not> write_ok e")
    case True
    then show ?thesis using Some that(1)
      by (auto simp: CreateApproval_def Let_def split: option.splits sum.splits)
  next
    case False
    let ?r = "prepare_request e req"
    let ?ok = "\<lambda>a. with_approvers (config_approvers e (a_Platform ?r) db) a"
    show ?thesis
    proof (cases "a_Platform ?r = ''internal''")
      case True
      then show ?thesis using Some False that(2) [of "?ok ?r"] by (simp add: CreateApproval_def Let_def)
    next
      case ext: False
      show ?thesis
      proof (cases "GetProvider f (a_Platform ?r)")
        case None
        then show ?thesis using Some False ext that(1) by (simp add: CreateApproval_def Let_def)
      next
        case prov: (Some provider)
        show ?thesis
        proof (cases "p_CreateApproval provider ?r")
          case (Inl err)
          then show ?thesis using Some False ext prov that(1) by (simp add: CreateApproval_def Let_def)
        next
          case (Inr x)
          then show ?thesis using Some False ext prov
            by (intro that(3)) (auto simp: CreateApproval_def Let_def)
        qed
      qed
    qed
  qed
qed

text \<open>The database after a decision: unchanged tickets, or one pending ticket that
  has become decided.\<close>

definition decides :: "adb \<Rightarrow> adb \<Rightarrow> bool" where
  "decides db db' \<longleftrightarrow> (\<forall>i. ticket db' i = ticket db i) \<or>
     (\<exists>a a'. ticket db (a_ID a) = Some a \<and> a_Status a = Pending \<and> a_ID a' = a_ID a \<and>
        (\<forall>i. ticket db' i = (if i = a_ID a then Some a' else ticket db i)))"

lemma decides_saved:
  assumes "find_approval e i db = Some a" "a_Status a = Pending" "a_ID a' = a_ID a"
  shows "decides db (add_comment e c (save_approval a' db))"
    and "decides db (add_comment e c (save_approval a' (db\<lparr>cancelled := x\<rparr>)))"
proof -
  have t: "ticket db (a_ID a) = Some a" using assms(1) ticket_ID by (auto simp: find_approval_ticket split: if_splits)
  have "\<forall>j. ticket (add_comment e c (save_approval a' db)) j = (if j = a_ID a then Some a' else ticket db j)"
    "\<forall>j. ticket (add_comment e c (save_approval a' (db\<lparr>cancelled := x\<rparr>))) j = (if j = a_ID a then Some a' else ticket db j)"
    using t assms(3) by (auto simp: ticket_save)
  then show "decides db (add_comment e c (save_approval a' db))"
    "decides db (add_comment e c (save_approval a' (db\<lparr>cancelled := x\<rparr>)))"
    unfolding decides_def using t assms(2,3) by blast+
qed

lemma decides_same: "approvals db' = approvals db \<Longrightarrow> decides db db'"
  by (simp add: decides_def ticket_def)

lemma decides_refl [simp]: "decides db db"
  by (simp add: decides_same)

lemma decides_Approve: "decides db (snd (ApproveApproval i b e db))"
  unfolding ApproveApproval_def Let_def
  by (auto split: option.split intro: decides_saved(1))

lemma decides_Reject: "decides db (snd (RejectApproval i b e db))"
  unfolding RejectApproval_def Let_def
  by (auto split: option.split intro: decides_saved(1))

lemma decides_Cancel: "decides db (snd (CancelApproval f i b e db))"
  unfolding CancelApproval_def Let_def
  by (auto split: option.split intro: decides_saved decides_same)

lemma decides_other:
  "decides db (snd (AddComment i b5 e db))"
  "decides db (snd (UpdateApprovalConfig vj i b6 e db))"
  "decides db (snd (DeleteApprovalConfig i e db))"
  by (auto simp: AddComment_def UpdateApprovalConfig_def DeleteApprovalConfig_def Let_def
      split: option.split intro: decides_same)

lemmas decides_handlers = decides_Approve decides_Reject decides_Cancel decides_other

lemma decides_final: "decides db db' \<Longrightarrow> ticket db i = Some a \<Longrightarrow> a_Status a \<noteq> Pending \<Longrightarrow> ticket db' i = Some a"
  by (auto simp: decides_def)

lemma handler_step_final:
  assumes "handler_step f vj db db'" "ticket db i = Some a" "a_Status a \<noteq> Pending"
  shows "ticket db' i = Some a"
  using assms
proof (induction rule: handler_step.induct)
  case (create e db b1)
  then show ?case by (cases rule: CreateApproval_db [of f b1 e db]) (auto simp: ticket_create)
qed (auto intro: decides_final decides_handlers)

interpretation tickets: lifecycle "handler_step f vj" ticket "\<lambda>a. a_Status a \<noteq> Pending" for f vj
  by unfold_locales (rule handler_step_final)

definition sample :: Approval where
  "sample = \<lparr> a_ID = ''t1'', a_Title = ''db access'', a_Description = [], a_Type = ''host_access'',
     a_Status = Pending, a_Platform = ''internal'', a_ApplicantID = ''u1'', a_ApplicantName = ''ann'',
     a_ApplicantEmail = [], a_ApproverIDs = [''u2''], a_ApproverNames = [], a_CurrentApprover = [],
     a_ResourceType = ''host'', a_ResourceIDs = [''h1''], a_ResourceNames = [], a_Permissions = [],
     a_Duration = 2, a_ExpiresAt = None, a_Reason = [], a_ApprovalNote = [], a_RejectReason = [],
     a_ExternalID = [], a_ExternalURL = [], a_ExternalData = [], a_CreatedAt = 0, a_UpdatedAt = 0,
     a_ApprovedAt = None, a_RejectedAt = None \<rparr>"

definition sample_db :: adb where
  "sample_db = \<lparr> approvals = [sample], comments = [], configs = [], cancelled = [] \<rparr>"

definition sample_env :: env where
  "sample_env = \<lparr> e_now = 5, newID = ''n1'', commentID = ''c1'', read_ok = True, write_ok = True, comment_ok = True \<rparr>"

text \<open>C20: a ticket is decided once.  Whatever requests the handlers serve, in any
  order and with any database and provider failures, a ticket that is approved,
  rejected or cancelled keeps its status and every other field.\<close>

theorem handlers_decide_once:
  assumes "(handler_step f vj)\<^sup>*\<^sup>* db db'" "ticket db i = Some a" "a_Status a \<noteq> Pending"
  shows "ticket db' i = Some a"
  using tickets.final_forever [OF assms] .

theorem handlers_decide_once_witness:
  "ticket (snd (RejectApproval ''t1'' (Some \<lparr> rj_ApproverID = ''u3'', rj_ApproverName = [], rj_Reason = ''no'' \<rparr>)
      sample_env (sample_db\<lparr>approvals := [sample\<lparr>a_Status := Canceled\<rparr>]\<rparr>))) ''t1''
    = Some (sample\<lparr>a_Status := Canceled\<rparr>)"
proof (rule handlers_decide_once [where f = "NewFactory" and vj = "\<lambda>_. True"])
  show "(handler_step NewFactory (\<lambda>_. True))\<^sup>*\<^sup>* (sample_db\<lparr>approvals := [sample\<lparr>a_Status := Canceled\<rparr>]\<rparr>)
    (snd (RejectApproval ''t1'' (Some \<lparr> rj_ApproverID = ''u3'', rj_ApproverName = [], rj_Reason = ''no'' \<rparr>)
      sample_env (sample_db\<lparr>approvals := [sample\<lparr>a_Status := Canceled\<rparr>]\<rparr>)))"
    by (intro r_into_rtranclp handler_step.reject)
qed (simp_all add: ticket_def first_where_Cons sample_def)

text \<open>Cancelling.  A cancellation succeeds only for the applicant of a pending
  ticket; it then changes the status of that ticket to cancelled and of no other
  ticket, and a ticket that lives on a registered platform is cancelled there.\<close>

theorem CancelApproval_success:
  assumes "CancelApproval f i (Some req) e db = (Inr a', db')"
  shows "\<exists>a. ticket db i = Some a \<and> a_ApplicantID a = cn_UserID req \<and> a_Status a = Pending \<and>
    a' = a\<lparr>a_Status := Canceled, a_UpdatedAt := e_now e\<rparr> \<and>
    ticket db' i = Some a' \<and> (\<forall>j. j \<noteq> i \<longrightarrow> ticket db' j = ticket db j) \<and>
    (a_ExternalID a \<noteq> [] \<and> f (a_Platform a) \<noteq> None \<longrightarrow> (a_Platform a, a_ExternalID a) \<in> set (cancelled db'))"
proof -
  from assms obtain a where a: "find_approval e i db = Some a" "a_ApplicantID a = cn_UserID req"
    "a_Status a = Pending" "a' = a\<lparr>a_Status := Canceled, a_UpdatedAt := e_now e\<rparr>"
    by (auto simp: CancelApproval_def Let_def split: option.splits if_splits)
  then have t: "ticket db i = Some a" "a_ID a = i"
    using ticket_ID by (auto simp: find_approval_ticket split: if_splits)
  moreover have "ticket db' j = (if j = i then Some a' else ticket db j)" for j
    using assms a t by (auto simp: CancelApproval_def Let_def ticket_save split: if_splits)
  moreover have "a_ExternalID a \<noteq> [] \<and> f (a_Platform a) \<noteq> None \<Longrightarrow>
      (a_Platform a, a_ExternalID a) \<in> set (cancelled db')"
    using assms a by (auto simp: CancelApproval_def Let_def GetProvider_def add_comment_def save_approval_def
        split: if_splits)
  ultimately show ?thesis using a by auto
qed

theorem CancelApproval_success_witness:
  "\<exists>a. ticket sample_db ''t1'' = Some a \<and> a_ApplicantID a = ''u1''"
proof -
  let ?req = "\<lparr> cn_UserID = ''u1'', cn_Reason = [] \<rparr>"
  have "\<exists>a' db'. CancelApproval NewFactory ''t1'' (Some ?req) sample_env sample_db = (Inr a', db')"
    by (simp add: CancelApproval_def find_approval_ticket sample_env_def sample_db_def ticket_def
        first_where_Cons sample_def Let_def)
  then obtain a' db' where "CancelApproval NewFactory ''t1'' (Some ?req) sample_env sample_db = (Inr a', db')"
    by blast
  from CancelApproval_success [OF this] show ?thesis by auto
qed

text \<open>The approver list does not restrict who decides.  A pending ticket is
  approved by a request with any non-empty approver identifier, listed among the
  approvers of the ticket or not, even that of the applicant.\<close>

theorem ApproveApproval_any_approver:
  assumes "ticket db i = Some a" "a_Status a = Pending" "approver \<noteq> []" "read_ok e" "write_ok e"
  shows "ticket (snd (ApproveApproval i
      (Some \<lparr> ap_ApproverID = approver, ap_ApproverName = name, ap_Comment = note \<rparr>) e db)) i
    = Some (a\<lparr>a_Status := Approved, a_ApprovedAt := Some (e_now e), a_ApprovalNote := note,
              a_CurrentApprover := name, a_UpdatedAt := e_now e\<rparr>)"
  using assms ticket_ID [OF assms(1)]
  by (simp add: ApproveApproval_def find_approval_ticket ticket_save Let_def)

theorem ApproveApproval_any_approver_witness:
  "\<exists>a. ticket (snd (ApproveApproval ''t1''
      (Some \<lparr> ap_ApproverID = ''u1'', ap_ApproverName = [], ap_Comment = [] \<rparr>) sample_env sample_db)) ''t1'' = Some a \<and>
    a_Status a = Approved \<and> ''u1'' \<notin> set (a_ApproverIDs a) \<and> a_ApplicantID a = ''u1''"
proof -
  have "ticket sample_db ''t1'' = Some sample" "a_Status sample = Pending" "read_ok sample_env" "write_ok sample_env"
    by (simp_all add: ticket_def sample_db_def sample_def sample_env_def first_where_Cons)
  from ApproveApproval_any_approver [OF this(1,2) _ this(3,4), of "''u1''"] show ?thesis
    by (simp add: sample_def)
qed

section \<open>Callbacks\<close>

lemma find_external_least: "find_external e x db = Some a \<Longrightarrow> a \<in> set (approvals db) \<and> a_ExternalID a = x"
  using First_SomeD by (fastforce simp: find_external_def split: if_splits)

text \<open>The callbacks of the platforms, which need no login, reach tickets that
  were never sent to a platform.  Internal tickets have an empty external
  identifier, so a callback with an empty instance code finds one of them and
  stores the status it carries: it approves a pending ticket, and equally reopens
  or overturns a decided one.\<close>

theorem callback_overwrites_internal:
  assumes "\<exists>a\<in>set (approvals db). a_ExternalID a = []" "distinct (map a_ID (approvals db))"
    and "read_ok e" "write_ok e" "fs_Type req \<noteq> ''url_verification''"
    and "fs_EventType req = ''approval_instance''" "fs_InstanceCode req = []"
  shows "\<exists>a\<in>set (approvals db). a_ExternalID a = [] \<and>
    (\<exists>a'. ticket (snd (HandleFeishuCallback (Some req) e db)) (a_ID a) = Some a' \<and>
      a_Status a' = mapFeishuStatus (fs_Status req))"
proof -
  have "First a_ID (\<lambda>a. a_ExternalID a = []) (approvals db) \<noteq> None"
    using assms(1) unfolding First_None by blast
  then obtain a where f: "find_external e [] db = Some a"
    using assms(3) by (auto simp: find_external_def)
  then have a: "a \<in> set (approvals db)" "a_ExternalID a = []" using find_external_least by blast+
  then have t: "ticket db (a_ID a) = Some a"
    unfolding ticket_def by (intro first_where_key assms(2))
  let ?t = "quot (fs_EndTime req) 1000 * second"
  have "snd (HandleFeishuCallback (Some req) e db) =
      save_approval (apply_status (mapFeishuStatus (fs_Status req)) ?t e a) db"
    using assms f by (simp add: HandleFeishuCallback_def handleFeishuApprovalEvent_def store_event_def answer_def)
  then have "ticket (snd (HandleFeishuCallback (Some req) e db)) (a_ID a) =
      Some (apply_status (mapFeishuStatus (fs_Status req)) ?t e a)"
    using t by (simp add: ticket_save apply_status_def Let_def)
  then show ?thesis using a by (auto simp: apply_status_def Let_def)
qed

theorem callback_overwrites_internal_witness:
  "\<exists>a'. ticket (snd (HandleFeishuCallback (Some \<lparr> fs_Type = [], fs_Challenge = [], fs_EventType = ''approval_instance'',
      fs_InstanceCode = [], fs_Status = ''APPROVED'', fs_EndTime = 0 \<rparr>) sample_env sample_db)) ''t1'' = Some a' \<and>
    a_Status a' = Approved"
  using callback_overwrites_internal [of sample_db sample_env "\<lparr> fs_Type = [], fs_Challenge = [],
      fs_EventType = ''approval_instance'', fs_InstanceCode = [], fs_Status = ''APPROVED'', fs_EndTime = 0 \<rparr>"]
  by (simp add: sample_db_def sample_env_def sample_def mapFeishuStatus_def)

section \<open>Invariants of the tables\<close>

text \<open>An approved ticket has a time of approval and a rejected one a time of
  rejection.\<close>

definition decided_at :: "Approval \<Rightarrow> bool" where
  "decided_at a \<longleftrightarrow> (a_Status a = Approved \<longrightarrow> a_ApprovedAt a \<noteq> None) \<and> (a_Status a = Rejected \<longrightarrow> a_RejectedAt a \<noteq> None)"

definition times_ok :: "adb \<Rightarrow> bool" where
  "times_ok db \<longleftrightarrow> (\<forall>a\<in>set (approvals db). decided_at a)"

lemma times_ok_save [inv_intros]: "times_ok db \<Longrightarrow> decided_at a \<Longrightarrow> times_ok (save_approval a db)"
  by (auto simp: times_ok_def save_approval_def set_update_where)

lemma times_ok_add_comment [simp]: "times_ok (add_comment e c db) = times_ok db"
  by (simp add: times_ok_def add_comment_def)

lemma times_ok_other [simp]:
  "times_ok (db\<lparr>cancelled := x\<rparr>) = times_ok db" "times_ok (db\<lparr>comments := y\<rparr>) = times_ok db"
  "times_ok (db\<lparr>configs := z\<rparr>) = times_ok db"
  by (simp_all add: times_ok_def)

lemma times_ok_create: "times_ok db \<Longrightarrow> a_Status a = Pending \<Longrightarrow> times_ok (db\<lparr>approvals := approvals db @ [a]\<rparr>)"
  by (simp add: times_ok_def decided_at_def)

lemma find_approval_mem: "find_approval e i db = Some a \<Longrightarrow> a \<in> set (approvals db)"
  using First_SomeD(1) by (fastforce simp: find_approval_def split: if_splits)

lemma times_ok_handler: "handler_step f vj db db' \<Longrightarrow> times_ok db \<Longrightarrow> times_ok db'"
proof (induction rule: handler_step.induct)
  case (create e db b1)
  then show ?case by (cases rule: CreateApproval_db [of f b1 e db]) (auto intro: times_ok_create)
next
  case (approve db i b2 e)
  then show ?case
    by (auto simp: ApproveApproval_def Let_def decided_at_def split: option.splits intro!: times_ok_save)
next
  case (reject db i b3 e)
  then show ?case
    by (auto simp: RejectApproval_def Let_def decided_at_def split: option.splits intro!: times_ok_save)
next
  case (cancel db i b4 e)
  then show ?case
    by (auto simp: CancelApproval_def Let_def decided_at_def split: option.splits intro!: times_ok_save)
next
  case (remark db i b5 e)
  then show ?case by (auto simp: AddComment_def Let_def split: option.splits)
next
  case (config db i b6 e)
  then show ?case by (auto simp: UpdateApprovalConfig_def Let_def split: option.splits)
next
  case (unconfig db i e)
  then show ?case by (auto simp: DeleteApprovalConfig_def split: option.splits)
qed

inductive callback_step :: "'d Factory \<Rightarrow> (string \<Rightarrow> time option) \<Rightarrow> adb \<Rightarrow> adb \<Rightarrow> bool" for f pt where
  generic: "callback_step f pt db (snd (HandleCallback f platform b1 e db))"
| feishu: "callback_step f pt db (snd (HandleFeishuCallback b2 e db))"
| dingtalk: "callback_step f pt db (snd (HandleDingTalkCallback pt b3 e db))"
| wechat: "callback_step f pt db (snd (HandleWeChatCallback b4 e db))"

lemma decided_at_apply_status: "decided_at a \<Longrightarrow> decided_at (apply_status s t e a)"
  by (simp add: decided_at_def apply_status_def Let_def)

lemma times_ok_store_event: "times_ok db \<Longrightarrow> times_ok (snd (store_event x s t e db))"
proof (cases "find_external e x db")
  case (Some a)
  assume db: "times_ok db"
  then have "decided_at a" using find_external_least [OF Some] by (simp add: times_ok_def)
  then have "times_ok (save_approval (apply_status s t e a) db)"
    using db by (intro times_ok_save decided_at_apply_status)
  then show ?thesis using Some db by (simp add: store_event_def)
qed (simp add: store_event_def)

lemma snd_answer [simp]: "snd (answer r) = snd r"
  by (simp add: answer_def split: prod.splits sum.splits)

lemma times_ok_callback: "callback_step f pt db db' \<Longrightarrow> times_ok db \<Longrightarrow> times_ok db'"
proof (induction rule: callback_step.induct)
  case (generic db platform b1 e)
  then show ?case
    by (auto simp: HandleCallback_def Let_def decided_at_def split: option.splits sum.splits intro!: times_ok_save)
qed (auto simp: HandleFeishuCallback_def HandleDingTalkCallback_def HandleWeChatCallback_def
    handleFeishuApprovalEvent_def handleDingTalkApprovalEvent_def handleWeChatApprovalEvent_def
    intro: times_ok_store_event split: option.splits)

text \<open>The record of a decision is complete.  Over every sequence of requests
  and callbacks, from a table without tickets, every approved ticket carries the
  time of its approval and every rejected one that of its rejection.\<close>

theorem decisions_are_dated:
  assumes "(\<lambda>s t. handler_step f vj s t \<or> callback_step f pt s t)\<^sup>*\<^sup>* db db'" "approvals db = []"
    and "a \<in> set (approvals db')"
  shows "(a_Status a = Approved \<longrightarrow> a_ApprovedAt a \<noteq> None) \<and> (a_Status a = Rejected \<longrightarrow> a_RejectedAt a \<noteq> None)"
proof -
  have "times_ok db" using assms(2) by (simp add: times_ok_def)
  with assms(1) have "times_ok db'"
    by (induction rule: rtranclp_induct) (auto intro: times_ok_handler times_ok_callback)
  then show ?thesis using assms(3) by (simp add: times_ok_def decided_at_def)
qed

theorem decisions_are_dated_witness:
  "a_ApprovedAt (with_approvers None (prepare_request sample_env sample)) = None"
proof -
  let ?db = "sample_db\<lparr>approvals := []\<rparr>" and ?f = "NewFactory :: unit Factory"
  let ?a = "with_approvers None (prepare_request sample_env sample)"
  have "snd (CreateApproval ?f (Some sample) sample_env ?db) = ?db\<lparr>approvals := [?a]\<rparr>"
    by (simp add: CreateApproval_def sample_def sample_env_def sample_db_def prepare_request_def Let_def
        config_approvers_def First_def)
  moreover have "handler_step ?f (\<lambda>_. True) ?db (snd (CreateApproval ?f (Some sample) sample_env ?db))"
    by (rule handler_step.create) simp
  ultimately have "(\<lambda>s t. handler_step ?f (\<lambda>_. True) s t \<or>
      callback_step ?f (\<lambda>_. None) s t)\<^sup>*\<^sup>* ?db (?db\<lparr>approvals := [?a]\<rparr>)" by auto
  from decisions_are_dated [OF this, of ?a] show ?thesis
    by (simp add: with_approvers_def prepare_request_def sample_def Let_def)
qed

lemma configs_platforms:
  "handler_step f vj db db' \<Longrightarrow> \<forall>c\<in>set (configs db). cfg_Type c \<noteq> ''internal'' \<Longrightarrow>
   \<forall>c\<in>set (configs db'). cfg_Type c \<noteq> ''internal''"
proof (induction rule: handler_step.induct)
  case (create e db b1)
  then show ?case by (cases rule: CreateApproval_db [of f b1 e db]) (auto simp: add_comment_def)
next
  case (config db i b6 e)
  then show ?case
    by (auto simp: UpdateApprovalConfig_def Let_def set_update_where split: option.splits)
next
  case (unconfig db i e)
  then show ?case by (auto simp: DeleteApprovalConfig_def set_delete_where split: option.splits)
qed (auto simp: ApproveApproval_def RejectApproval_def CancelApproval_def AddComment_def Let_def
    add_comment_def save_approval_def split: option.splits)

text \<open>The approvers of internal tickets cannot be configured.  Creating an
  internal ticket looks up an enabled configuration of type internal, but the
  configuration handler refuses that type, so no sequence of requests makes the
  lookup succeed and the ticket keeps the approvers its applicant wrote into it.\<close>

theorem internal_approvers_from_request:
  assumes "(handler_step f vj)\<^sup>*\<^sup>* db db'" "configs db = []"
  shows "config_approvers e ''internal'' db' = None"
proof -
  from assms(1) have "\<forall>c\<in>set (configs db'). cfg_Type c \<noteq> ''internal''"
    using assms(2) by (induction rule: rtranclp_induct) (auto dest: configs_platforms)
  then have "First cfg_ID (\<lambda>c. cfg_Type c = ''internal'' \<and> cfg_Enabled c) (configs db') = None"
    unfolding First_None by blast
  then show ?thesis by (simp add: config_approvers_def)
qed

theorem internal_approvers_from_request_witness:
  "config_approvers sample_env ''internal'' (snd (ApproveApproval ''t1'' None sample_env sample_db)) = None"
  by (rule internal_approvers_from_request [where f = "NewFactory" and vj = "\<lambda>_. True" and db = sample_db])
    (auto intro: handler_step.approve simp: sample_db_def)

end
