(* ===== verification/Two_Factor.thy ===== *)
theory Two_Factor
imports Go_Json
begin

text \<open>
  Backup codes and replay windows of \<open>pkg/twofactor/twofactor.go\<close>, and the
  \<open>StringArray\<close> column type of \<open>internal/model/blacklist.go\<close>, which stores lists
  the same way.  Secrets, time-based codes and QR images come from third-party
  packages and are not modelled here.
\<close>

section \<open>Definitions\<close>

definition ValidateBackupCode :: "string list \<Rightarrow> string \<Rightarrow> bool" where
  "ValidateBackupCode backupCodes code = list_ex (\<lambda>backupCode. backupCode = code) backupCodes"

definition charset :: string where
  "charset = ''ABCDEFGHIJKLMNOPQRSTUVWXYZ0123456789''"

text \<open>\<open>generateRandomCode\<close> takes the answers of \<open>rand.Int\<close> in order (\<open>None\<close> is a
  failing source); each answer is below the length of the character set.\<close>

fun generateRandomCode :: "nat \<Rightarrow> (nat option) list \<Rightarrow> (string \<times> (nat option) list) option" where
  "generateRandomCode 0 rs = Some ([], rs)"
| "generateRandomCode (Suc n) [] = None"
| "generateRandomCode (Suc n) (r # rs) =
     (case r of None \<Rightarrow> None
      | Some num \<Rightarrow> map_option (\<lambda>(code, rs'). (charset ! num # code, rs')) (generateRandomCode n rs))"

fun GenerateBackupCodes :: "nat \<Rightarrow> (nat option) list \<Rightarrow> string list option" where
  "GenerateBackupCodes 0 rs = Some []"
| "GenerateBackupCodes (Suc n) rs =
     (case generateRandomCode 8 rs of None \<Rightarrow> None
      | Some (code, rs') \<Rightarrow> map_option (\<lambda>codes. code # codes) (GenerateBackupCodes n rs'))"

definition SerializeBackupCodes :: "string list \<Rightarrow> string" where
  "SerializeBackupCodes codes = MarshalStrings codes"

definition DeserializeBackupCodes :: "string \<Rightarrow> string list option" where
  "DeserializeBackupCodes data = UnmarshalStrings data"

definition GetTimeWindow :: "time \<Rightarrow> int" where
  "GetTimeWindow now = now div second div 30"

definition IsCodeRecentlyUsed :: "(string \<Rightarrow> int option) \<Rightarrow> string \<Rightarrow> int \<Rightarrow> bool" where
  "IsCodeRecentlyUsed usedCodes code window =
     (case usedCodes code of None \<Rightarrow> False | Some lastUsed \<Rightarrow> window - lastUsed < 1)"

definition MarkCodeAsUsed :: "(string \<Rightarrow> int option) \<Rightarrow> string \<Rightarrow> int \<Rightarrow> string \<Rightarrow> int option" where
  "MarkCodeAsUsed usedCodes code window = usedCodes(code \<mapsto> window)"

text \<open>The column type: \<open>Value\<close> writes a list, \<open>Scan\<close> reads a column (\<open>None\<close> is SQL
  NULL).\<close>

definition StringArray_Value :: "string list \<Rightarrow> string" where
  "StringArray_Value s = (if s = [] then ''[]'' else MarshalStrings s)"

definition StringArray_Scan :: "string option \<Rightarrow> string list option" where
  "StringArray_Scan v = (case v of None \<Rightarrow> Some [] | Some bytes \<Rightarrow> UnmarshalStrings bytes)"

section \<open>Properties\<close>

lemma generateRandomCode_charset:
  assumes "generateRandomCode n rs = Some (code, rs')" "\<forall>r\<in>set rs. \<forall>k. r = Some k \<longrightarrow> k < 36"
  shows "length code = n \<and> set code \<subseteq> set charset \<and> set rs' \<subseteq> set rs"
  using assms
proof (induction n rs arbitrary: code rs' rule: generateRandomCode.induct)
  case (3 n r rs)
  then obtain num where r: "r = Some num" by (cases r) auto
  then obtain c where c: "generateRandomCode n rs = Some (c, rs')" "code = charset ! num # c"
    using "3.prems"(1) by auto
  have "num < length charset" using "3.prems"(2) r by (simp add: charset_def)
  then show ?case using "3.IH" [OF r c(1)] "3.prems"(2) c(2) nth_mem by auto
qed auto

lemma GenerateBackupCodes_charset:
  assumes "GenerateBackupCodes n rs = Some codes" "\<forall>r\<in>set rs. \<forall>k. r = Some k \<longrightarrow> k < 36"
  shows "length codes = n \<and> (\<forall>code\<in>set codes. length code = 8 \<and> set code \<subseteq> set charset)"
  using assms
proof (induction n rs arbitrary: codes rule: GenerateBackupCodes.induct)
  case (2 n rs)
  then obtain code rs' cs where g: "generateRandomCode 8 rs = Some (code, rs')"
    "GenerateBackupCodes n rs' = Some cs" "codes = code # cs"
    by (auto split: option.splits prod.splits)
  have c: "length code = 8 \<and> set code \<subseteq> set charset \<and> set rs' \<subseteq> set rs"
    using generateRandomCode_charset [OF g(1) "2.prems"(2)] .
  then have "\<forall>r\<in>set rs'. \<forall>k. r = Some k \<longrightarrow> k < 36" using "2.prems"(2) by blast
  then show ?case using "2.IH" [of "(code, rs')" code rs'] g c by auto
qed simp

text \<open>Generated backup codes survive storage.  The codes produced from a
  source of random numbers below 36 are eight characters of the alphabet, and
  reading back the stored text gives the same codes, so each of them validates
  and nothing else does.\<close>

theorem backup_codes_roundtrip:
  assumes "GenerateBackupCodes n rs = Some codes" "\<forall>r\<in>set rs. \<forall>k. r = Some k \<longrightarrow> k < 36"
  shows "DeserializeBackupCodes (SerializeBackupCodes codes) = Some codes \<and>
    (\<forall>code. ValidateBackupCode codes code \<longrightarrow> length code = 8 \<and> set code \<subseteq> set charset)"
proof -
  have "\<forall>code\<in>set codes. length code = 8 \<and> set code \<subseteq> set charset"
    using GenerateBackupCodes_charset [OF assms] by blast
  then show ?thesis
    by (auto simp: SerializeBackupCodes_def DeserializeBackupCodes_def Unmarshal_Marshal ValidateBackupCode_def list_ex_iff)
qed

theorem backup_codes_roundtrip_witness:
  "DeserializeBackupCodes (SerializeBackupCodes [''ABCDEF09'']) = Some [''ABCDEF09'']"
proof -
  let ?rs = "[Some (0::nat), Some 1, Some 2, Some 3, Some 4, Some 5, Some 26, Some 35]"
  have "GenerateBackupCodes 1 ?rs = Some [''ABCDEF09'']" by code_simp
  moreover have "\<forall>r\<in>set ?rs. \<forall>k. r = Some k \<longrightarrow> k < 36" by simp
  ultimately show ?thesis using backup_codes_roundtrip by blast
qed

text \<open>The column type loses nothing.\<close>

lemma StringArray_roundtrip: "StringArray_Scan (Some (StringArray_Value ws)) = Some ws"
proof (cases "ws = []")
  case True
  then show ?thesis by (simp add: StringArray_Scan_def StringArray_Value_def UnmarshalStrings_def skip_ws_def json_ws_def)
qed (simp add: StringArray_Scan_def StringArray_Value_def Unmarshal_Marshal)

text \<open>A code marked in a window is refused in that window and accepted again in
  every later one.\<close>

lemma replay_window:
  "IsCodeRecentlyUsed (MarkCodeAsUsed used code w) code w' \<longleftrightarrow> w' \<le> w"
  "code' \<noteq> code \<Longrightarrow> IsCodeRecentlyUsed (MarkCodeAsUsed used code w) code' w' = IsCodeRecentlyUsed used code' w'"
  by (auto simp: IsCodeRecentlyUsed_def MarkCodeAsUsed_def)

end
