(* ===== verification/Accounts.thy ===== *)
theory Accounts
imports Two_Factor Go_Base64
begin

text \<open>
  Platform accounts: the tables of \<open>internal/model/user.go\<close>, the queries of
  \<open>internal/repository/user_repository.go\<close>, the service
  \<open>internal/service/auth_service.go\<close> (registration, login with password, two-factor
  code and single sign-on, tokens, account management, SSH keys) and the
  middleware \<open>internal/api/middleware/auth.go\<close> that checks tokens.  Password
  hashing, tokens, time-based codes, key generation and the collation by which the
  database compares texts are fields of a record of libraries.  The clock is read
  once per operation.  The columns \<open>created_at\<close> and \<open>updated_at\<close> are left out.
\<close>

section \<open>Tables and libraries\<close>

record User =
  u_ID :: string
  u_Username :: string
  u_Password :: string
  u_SSHPublicKey :: string
  u_SSHPrivateKeyEncrypted :: string
  u_AuthMethod :: string
  u_SSHKeyGeneratedAt :: "time option"
  u_SSHKeyFingerprint :: string
  u_Email :: string
  u_FullName :: string
  u_Role :: string
  u_Status :: string
  u_ExpiresAt :: "time option"
  u_ExpirationWarningSent :: bool
  u_AutoDisableOnExpiry :: bool
  u_LastLoginTime :: "time option"
  u_LastLoginIP :: string
  u_TwoFactorEnabled :: bool
  u_TwoFactorSecret :: string
  u_TwoFactorBackupCodes :: string
  u_TwoFactorVerifiedAt :: "time option"

record PlatformLoginRecord =
  pl_ID :: string
  pl_UserID :: string
  pl_Username :: string
  pl_LoginIP :: string
  pl_UserAgent :: string
  pl_LoginTime :: time
  pl_Status :: string

record Setting =
  st_ID :: nat
  st_Key :: string
  st_Value :: string
  st_Category :: string
  st_Type :: string

record TwoFactorConfig =
  tc_ID :: nat
  tc_Enabled :: bool
  tc_Issuer :: string

record adb =
  users :: "User list"
  login_records :: "PlatformLoginRecord list"
  settings :: "Setting list"
  two_factor_config :: "TwoFactorConfig list"

record LoginRequest =
  lq_Username :: string
  lq_Password :: string
  lq_TwoFactorCode :: string
  lq_BackupCode :: string

record LoginResponse =
  lr_Token :: string
  lr_User :: User
  lr_RequiresTwoFactor :: bool
  lr_TwoFactorEnabled :: bool
  lr_NeedsTwoFactorSetup :: bool

record RegisterRequest =
  rr_Username :: string
  rr_Password :: string
  rr_Email :: string
  rr_FullName :: string

text \<open>The two times are the arguments of \<open>jwt.NewNumericDate\<close>, which cuts them to
  seconds.\<close>

record Claims =
  c_UserID :: string
  c_Username :: string
  c_Role :: string
  c_ExpiresAt :: time
  c_IssuedAt :: time
  c_Issuer :: string

record KeyPair =
  kp_PrivateKey :: string
  kp_PublicKey :: string
  kp_Fingerprint :: string

text \<open>The libraries.  \<open>collate\<close> maps a text to its key under the collation of the
  database; \<open>None\<close> is an error.\<close>

record libs =
  collate :: "string \<Rightarrow> string"
  GenerateFromPassword :: "string \<Rightarrow> string option"
  CompareHashAndPassword :: "string \<Rightarrow> string \<Rightarrow> bool"
  totp_Validate :: "time \<Rightarrow> string \<Rightarrow> string \<Rightarrow> bool"
  SignedString :: "Claims \<Rightarrow> string option"
  ParseWithClaims :: "time \<Rightarrow> string \<Rightarrow> Claims option"
  ParseRFC3339 :: "string \<Rightarrow> time option"
  GenerateRSAKeyPair :: "KeyPair option"
  gcm_NonceSize :: nat
  gcm_nonce :: "string option"
  gcm_Seal :: "string \<Rightarrow> string \<Rightarrow> string"
  gcm_Open :: "string \<Rightarrow> string \<Rightarrow> string option"

datatype auth_error =
    UsernameTaken | EmailTaken | HashFailed | CreateFailed | SaveFailed | BadCredentials
  | UserDisabled | WrongPassword | AccountExpired | LdapNotConfigured | LdapUnavailable
  | SsoFlowRequired | TwoFactorFailed | TokenFailed | InvalidToken | UserNotFound
  | InvalidTime | InvalidRole | InvalidStatus | SsoNotConfigured | SsoTokenFailed
  | SsoUserInfoFailed | KeyGenerationFailed | EncryptFailed | DecryptFailed
  | NoPrivateKey | NoPublicKey | InvalidAuthMethod | PublicKeyNotEnabled

section \<open>User repository\<close>

definition same :: "libs \<Rightarrow> string \<Rightarrow> string \<Rightarrow> bool" where
  "same L a b \<longleftrightarrow> collate L a = collate L b"

text \<open>A row that keeps the unique indexes on the identifier, the user name and the
  e-mail address.\<close>

definition fits :: "libs \<Rightarrow> User \<Rightarrow> User list \<Rightarrow> bool" where
  "fits L u t \<longleftrightarrow> list_all (\<lambda>v. u_ID v \<noteq> u_ID u \<and> \<not> same L (u_Username v) (u_Username u) \<and>
     \<not> same L (u_Email v) (u_Email u)) t"

definition repo_CreateUser :: "libs \<Rightarrow> User \<Rightarrow> adb \<Rightarrow> (User \<times> adb) option" where
  "repo_CreateUser L u db =
     (if \<not> fits L u (users db) then None
      else (let u = u\<lparr>u_AuthMethod := (if u_AuthMethod u = [] then ''password'' else u_AuthMethod u),
              u_Role := (if u_Role u = [] then ''user'' else u_Role u),
              u_Status := (if u_Status u = [] then ''active'' else u_Status u),
              u_AutoDisableOnExpiry := True\<rparr>
            in Some (u, db\<lparr>users := users db @ [u]\<rparr>)))"

definition FindUserByUsername :: "libs \<Rightarrow> string \<Rightarrow> adb \<Rightarrow> User option" where
  "FindUserByUsername L username db = first_where (\<lambda>u. same L (u_Username u) username) (users db)"

definition FindUserByEmail :: "libs \<Rightarrow> string \<Rightarrow> adb \<Rightarrow> User option" where
  "FindUserByEmail L email db = first_where (\<lambda>u. same L (u_Email u) email) (users db)"

definition FindUserByID :: "string \<Rightarrow> adb \<Rightarrow> User option" where
  "FindUserByID i db = First u_ID (\<lambda>u. u_ID u = i) (users db)"

text \<open>\<open>Save\<close> of a row that was just read: every column is written, the unique indexes
  are checked against the other rows.\<close>

definition UpdateUser :: "libs \<Rightarrow> User \<Rightarrow> adb \<Rightarrow> adb option" where
  "UpdateUser L u db =
     (if fits L u (delete_where (\<lambda>v. u_ID v = u_ID u) (users db))
      then Some (db\<lparr>users := update_where (\<lambda>v. u_ID v = u_ID u) (\<lambda>_. u) (users db)\<rparr>)
      else None)"

definition UpdateUserLastLogin :: "string \<Rightarrow> time \<Rightarrow> string \<Rightarrow> adb \<Rightarrow> adb" where
  "UpdateUserLastLogin userID loginTime loginIP db =
     db\<lparr>users := update_where (\<lambda>u. u_ID u = userID)
       (\<lambda>u. u\<lparr>u_LastLoginTime := Some loginTime, u_LastLoginIP := loginIP\<rparr>) (users db)\<rparr>"

definition CreatePlatformLoginRecord :: "PlatformLoginRecord \<Rightarrow> adb \<Rightarrow> adb" where
  "CreatePlatformLoginRecord r db =
     (if pl_ID r \<in> pl_ID ` set (login_records db) then db
      else db\<lparr>login_records := login_records db @ [r]\<rparr>)"

definition UpdatePlatformLoginRecordLogout :: "string \<Rightarrow> adb \<Rightarrow> adb" where
  "UpdatePlatformLoginRecordLogout recordID db =
     db\<lparr>login_records := update_where (\<lambda>r. pl_ID r = recordID \<and> pl_Status r = ''active'')
       (\<lambda>r. r\<lparr>pl_Status := ''logged_out''\<rparr>) (login_records db)\<rparr>"

text \<open>\<open>UPDATE .. ORDER BY login_time DESC LIMIT 1\<close>: the latest active record.\<close>

definition latest_active :: "string \<Rightarrow> PlatformLoginRecord list \<Rightarrow> PlatformLoginRecord option" where
  "latest_active userID t =
     First (\<lambda>r. - pl_LoginTime r) (\<lambda>r. pl_UserID r = userID \<and> pl_Status r = ''active'') t"

definition UpdatePlatformLoginRecordLogoutByUser :: "string \<Rightarrow> adb \<Rightarrow> adb" where
  "UpdatePlatformLoginRecordLogoutByUser userID db = (case latest_active userID (login_records db) of
     None \<Rightarrow> db
   | Some r \<Rightarrow> db\<lparr>login_records := update_where (\<lambda>x. pl_ID x = pl_ID r)
       (\<lambda>x. x\<lparr>pl_Status := ''logged_out''\<rparr>) (login_records db)\<rparr>)"

definition set_user :: "string \<Rightarrow> (User \<Rightarrow> User) \<Rightarrow> adb \<Rightarrow> adb" where
  "set_user i f db = db\<lparr>users := update_where (\<lambda>u. u_ID u = i) f (users db)\<rparr>"

definition repo_DeleteUser :: "string \<Rightarrow> adb \<Rightarrow> adb" where
  "repo_DeleteUser userID db = set_user userID (\<lambda>u. u\<lparr>u_Status := ''inactive''\<rparr>) db"

definition repo_UpdateUserRole :: "string \<Rightarrow> string \<Rightarrow> adb \<Rightarrow> adb" where
  "repo_UpdateUserRole userID role db = set_user userID (\<lambda>u. u\<lparr>u_Role := role\<rparr>) db"

definition repo_UpdateUserStatus :: "string \<Rightarrow> string \<Rightarrow> adb \<Rightarrow> adb" where
  "repo_UpdateUserStatus userID status db = set_user userID (\<lambda>u. u\<lparr>u_Status := status\<rparr>) db"

section \<open>Settings\<close>

definition GetByCategory :: "string \<Rightarrow> adb \<Rightarrow> Setting list" where
  "GetByCategory category db = sort_key st_Key (filter (\<lambda>s. st_Category s = category) (settings db))"

fun getSettingValue :: "Setting list \<Rightarrow> string \<Rightarrow> string \<Rightarrow> string" where
  "getSettingValue [] key defaultValue = defaultValue"
| "getSettingValue (s # ss) key defaultValue =
     (if st_Key s = key then st_Value s else getSettingValue ss key defaultValue)"

fun isAuthMethodEnabled :: "Setting list \<Rightarrow> string \<Rightarrow> bool" where
  "isAuthMethodEnabled [] key = False"
| "isAuthMethodEnabled (s # ss) key =
     (if st_Key s = key then st_Value s = ''true'' else isAuthMethodEnabled ss key)"

section \<open>Registration\<close>

definition new_user :: "string \<Rightarrow> string \<Rightarrow> string \<Rightarrow> string \<Rightarrow> string \<Rightarrow> string \<Rightarrow> string \<Rightarrow> User" where
  "new_user i username password email fullName role authMethod =
     \<lparr> u_ID = i, u_Username = username, u_Password = password, u_SSHPublicKey = [],
       u_SSHPrivateKeyEncrypted = [], u_AuthMethod = authMethod, u_SSHKeyGeneratedAt = None,
       u_SSHKeyFingerprint = [], u_Email = email, u_FullName = fullName, u_Role = role, u_Status = ''active'',
       u_ExpiresAt = None, u_ExpirationWarningSent = False, u_AutoDisableOnExpiry = False,
       u_LastLoginTime = None, u_LastLoginIP = [], u_TwoFactorEnabled = False, u_TwoFactorSecret = [],
       u_TwoFactorBackupCodes = [], u_TwoFactorVerifiedAt = None \<rparr>"

definition register_as :: "libs \<Rightarrow> string \<Rightarrow> RegisterRequest \<Rightarrow> string \<Rightarrow> string \<Rightarrow> adb \<Rightarrow> (auth_error + User) \<times> adb" where
  "register_as L newID req role authMethod db =
     (if FindUserByUsername L (rr_Username req) db \<noteq> None then (Inl UsernameTaken, db)
      else if rr_Email req \<noteq> [] \<and> FindUserByEmail L (rr_Email req) db \<noteq> None then (Inl EmailTaken, db)
      else (case GenerateFromPassword L (rr_Password req) of
          None \<Rightarrow> (Inl HashFailed, db)
        | Some hashed \<Rightarrow>
            (case repo_CreateUser L (new_user newID (rr_Username req) hashed (rr_Email req) (rr_FullName req) role authMethod) db of
               None \<Rightarrow> (Inl CreateFailed, db)
             | Some (u, db') \<Rightarrow> (Inr u, db'))))"

definition Register_user :: "libs \<Rightarrow> string \<Rightarrow> RegisterRequest \<Rightarrow> adb \<Rightarrow> (auth_error + User) \<times> adb" where
  "Register_user L newID req db = register_as L newID req ''user'' [] db"

definition CreateUser :: "libs \<Rightarrow> string \<Rightarrow> RegisterRequest \<Rightarrow> string \<Rightarrow> string \<Rightarrow> adb \<Rightarrow> (auth_error + User) \<times> adb" where
  "CreateUser L newID req role authMethod db =
     register_as L newID req
       (if role \<noteq> ''admin'' \<and> role \<noteq> ''user'' then ''user'' else role)
       (if authMethod = [] \<or> authMethod \<noteq> ''password'' \<and> authMethod \<noteq> ''publickey'' then ''password'' else authMethod) db"

section \<open>Login\<close>

definition authenticateWithPassword :: "libs \<Rightarrow> string \<Rightarrow> string \<Rightarrow> adb \<Rightarrow> auth_error + User" where
  "authenticateWithPassword L username password db = (case FindUserByUsername L username db of
     None \<Rightarrow> Inl BadCredentials
   | Some user \<Rightarrow>
       (if u_Status user \<noteq> ''active'' then Inl UserDisabled
        else if \<not> CompareHashAndPassword L (u_Password user) password then Inl BadCredentials
        else Inr user))"

definition authenticateWithLDAP :: "string \<Rightarrow> string \<Rightarrow> Setting list \<Rightarrow> auth_error + User" where
  "authenticateWithLDAP username password ss =
     (if getSettingValue ss ''ldapServer'' [] = [] \<or> getSettingValue ss ''ldapBindDn'' [] = [] \<or>
         getSettingValue ss ''ldapBaseDn'' [] = [] \<or> getSettingValue ss ''ldapBindPassword'' [] = []
      then Inl LdapNotConfigured else Inl LdapUnavailable)"

definition validateTwoFactorCode :: "libs \<Rightarrow> time \<Rightarrow> User \<Rightarrow> string \<Rightarrow> string \<Rightarrow> bool" where
  "validateTwoFactorCode L now user totpCode backupCode =
     (if totpCode \<noteq> [] \<and> totp_Validate L now (u_TwoFactorSecret user) totpCode then True
      else if backupCode \<noteq> [] \<and> u_TwoFactorBackupCodes user \<noteq> [] then
        (case DeserializeBackupCodes (u_TwoFactorBackupCodes user) of
           None \<Rightarrow> False
         | Some codes \<Rightarrow> ValidateBackupCode codes backupCode)
      else False)"

definition ValidatePassword :: "libs \<Rightarrow> User \<Rightarrow> string \<Rightarrow> auth_error option" where
  "ValidatePassword L user password =
     (if u_Status user \<noteq> ''active'' then Some UserDisabled
      else if \<not> CompareHashAndPassword L (u_Password user) password then Some WrongPassword
      else None)"

definition token_claims :: "time \<Rightarrow> User \<Rightarrow> Claims" where
  "token_claims now user =
     \<lparr> c_UserID = u_ID user, c_Username = u_Username user, c_Role = u_Role user,
       c_ExpiresAt = now + 7 * 24 * hour, c_IssuedAt = now, c_Issuer = ''zjump'' \<rparr>"

definition GenerateToken :: "libs \<Rightarrow> time \<Rightarrow> User \<Rightarrow> string option" where
  "GenerateToken L now user = SignedString L (token_claims now user)"

definition ValidateToken :: "libs \<Rightarrow> time \<Rightarrow> string \<Rightarrow> auth_error + Claims" where
  "ValidateToken L now tokenString = (case ParseWithClaims L now tokenString of
     None \<Rightarrow> Inl InvalidToken | Some claims \<Rightarrow> Inr claims)"

definition login_record :: "string \<Rightarrow> User \<Rightarrow> string \<Rightarrow> string \<Rightarrow> time \<Rightarrow> PlatformLoginRecord" where
  "login_record newID user loginIP userAgent now =
     \<lparr> pl_ID = newID, pl_UserID = u_ID user, pl_Username = u_Username user, pl_LoginIP = loginIP,
       pl_UserAgent = userAgent, pl_LoginTime = now, pl_Status = ''active'' \<rparr>"

text \<open>The end of every login: the token, then the last login and the login record;
  failures of the last two are only logged.\<close>

definition finish_login :: "libs \<Rightarrow> time \<Rightarrow> string \<Rightarrow> string \<Rightarrow> string \<Rightarrow> bool \<Rightarrow> User \<Rightarrow> adb \<Rightarrow> (auth_error + LoginResponse) \<times> adb" where
  "finish_login L now newID loginIP userAgent setup user db = (case GenerateToken L now user of
     None \<Rightarrow> (Inl TokenFailed, db)
   | Some token \<Rightarrow>
       (Inr \<lparr> lr_Token = token, lr_User = user, lr_RequiresTwoFactor = False, lr_TwoFactorEnabled = False,
              lr_NeedsTwoFactorSetup = setup \<rparr>,
        CreatePlatformLoginRecord (login_record newID user loginIP userAgent now)
          (UpdateUserLastLogin (u_ID user) now loginIP db)))"

definition expired :: "time \<Rightarrow> User \<Rightarrow> bool" where
  "expired now user = (case u_ExpiresAt user of None \<Rightarrow> False | Some t \<Rightarrow> t < now)"

definition globalConfig_enabled :: "adb \<Rightarrow> bool" where
  "globalConfig_enabled db = (case First tc_ID (\<lambda>c. True) (two_factor_config db) of
     None \<Rightarrow> False | Some c \<Rightarrow> tc_Enabled c)"

definition ask_two_factor :: "User \<Rightarrow> LoginResponse" where
  "ask_two_factor user = \<lparr> lr_Token = [], lr_User = user, lr_RequiresTwoFactor = True,
     lr_TwoFactorEnabled = True, lr_NeedsTwoFactorSetup = False \<rparr>"

definition Login :: "libs \<Rightarrow> time \<Rightarrow> string \<Rightarrow> LoginRequest \<Rightarrow> string \<Rightarrow> string \<Rightarrow> adb \<Rightarrow> (auth_error + LoginResponse) \<times> adb" where
  "Login L now newID req loginIP userAgent db =
     (let authSettings = GetByCategory ''auth'' db;
          authMethod = getSettingValue authSettings ''authMethod'' ''password'';
          auth = (if authMethod = ''ldap'' then authenticateWithLDAP (lq_Username req) (lq_Password req) authSettings
                  else if authMethod = ''sso'' then Inl SsoFlowRequired
                  else authenticateWithPassword L (lq_Username req) (lq_Password req) db)
      in case auth of
           Inl err \<Rightarrow> (Inl err, db)
         | Inr user \<Rightarrow>
             (if expired now user then (Inl AccountExpired, db)
              else if globalConfig_enabled db then
                (if \<not> u_TwoFactorEnabled user then finish_login L now newID loginIP userAgent True user db
                 else if lq_TwoFactorCode req = [] \<and> lq_BackupCode req = [] then (Inr (ask_two_factor user), db)
                 else if \<not> validateTwoFactorCode L now user (lq_TwoFactorCode req) (lq_BackupCode req)
                 then (Inl TwoFactorFailed, db)
                 else finish_login L now newID loginIP userAgent False user db)
              else if u_TwoFactorEnabled user then
                (if lq_TwoFactorCode req = [] \<and> lq_BackupCode req = [] then (Inr (ask_two_factor user), db)
                 else if \<not> validateTwoFactorCode L now user (lq_TwoFactorCode req) (lq_BackupCode req)
                 then (Inl TwoFactorFailed, db)
                 else finish_login L now newID loginIP userAgent False user db)
              else finish_login L now newID loginIP userAgent False user db))"

definition Logout :: "string \<Rightarrow> adb \<Rightarrow> adb" where
  "Logout userID db = UpdatePlatformLoginRecordLogoutByUser userID db"

section \<open>Account management\<close>

text \<open>Read a user, change it, save it.\<close>

definition modify_user :: "libs \<Rightarrow> string \<Rightarrow> (User \<Rightarrow> auth_error + User) \<Rightarrow> adb \<Rightarrow> auth_error option \<times> adb" where
  "modify_user L userID f db = (case FindUserByID userID db of
     None \<Rightarrow> (Some UserNotFound, db)
   | Some user \<Rightarrow> (case f user of
       Inl err \<Rightarrow> (Some err, db)
     | Inr user' \<Rightarrow> (case UpdateUser L user' db of
         None \<Rightarrow> (Some SaveFailed, db) | Some db' \<Rightarrow> (None, db'))))"

definition UpdateUserInfo :: "libs \<Rightarrow> string \<Rightarrow> string \<Rightarrow> string \<Rightarrow> adb \<Rightarrow> auth_error option \<times> adb" where
  "UpdateUserInfo L userID fullName email db =
     modify_user L userID (\<lambda>user.
       if email \<noteq> [] \<and> email \<noteq> u_Email user \<and>
          (case FindUserByEmail L email db of None \<Rightarrow> False | Some existing \<Rightarrow> u_ID existing \<noteq> userID)
       then Inl EmailTaken
       else Inr (user\<lparr>u_FullName := fullName, u_Email := email\<rparr>)) db"

definition UpdateUserExpiration :: "libs \<Rightarrow> string \<Rightarrow> string option \<Rightarrow> bool option \<Rightarrow> adb \<Rightarrow> auth_error option \<times> adb" where
  "UpdateUserExpiration L userID expiresAt autoDisableOnExpiry db =
     modify_user L userID (\<lambda>user.
       let auto = (\<lambda>u. case autoDisableOnExpiry of None \<Rightarrow> u | Some b \<Rightarrow> u\<lparr>u_AutoDisableOnExpiry := b\<rparr>)
       in case expiresAt of
            None \<Rightarrow> Inr (auto user)
          | Some s \<Rightarrow>
              (if s = [] then Inr (auto (user\<lparr>u_ExpiresAt := None, u_ExpirationWarningSent := False\<rparr>))
               else case ParseRFC3339 L s of
                 None \<Rightarrow> Inl InvalidTime
               | Some t \<Rightarrow> Inr (auto (user\<lparr>u_ExpiresAt := Some t, u_ExpirationWarningSent := False\<rparr>)))) db"

definition UpdateUserRole :: "string \<Rightarrow> string \<Rightarrow> adb \<Rightarrow> auth_error option \<times> adb" where
  "UpdateUserRole userID role db =
     (if role \<noteq> ''admin'' \<and> role \<noteq> ''user'' then (Some InvalidRole, db)
      else if FindUserByID userID db = None then (Some UserNotFound, db)
      else (None, repo_UpdateUserRole userID role db))"

definition UpdateUserStatus :: "string \<Rightarrow> string \<Rightarrow> adb \<Rightarrow> auth_error option \<times> adb" where
  "UpdateUserStatus userID status db =
     (if status \<noteq> ''active'' \<and> status \<noteq> ''inactive'' then (Some InvalidStatus, db)
      else if FindUserByID userID db = None then (Some UserNotFound, db)
      else (None, repo_UpdateUserStatus userID status db))"

definition DeleteUser :: "string \<Rightarrow> adb \<Rightarrow> auth_error option \<times> adb" where
  "DeleteUser userID db =
     (if FindUserByID userID db = None then (Some UserNotFound, db) else (None, repo_DeleteUser userID db))"

definition ResetUserPassword :: "libs \<Rightarrow> string \<Rightarrow> string \<Rightarrow> adb \<Rightarrow> auth_error option \<times> adb" where
  "ResetUserPassword L userID newPassword db =
     modify_user L userID (\<lambda>user. case GenerateFromPassword L newPassword of
       None \<Rightarrow> Inl HashFailed | Some hashed \<Rightarrow> Inr (user\<lparr>u_Password := hashed\<rparr>)) db"

section \<open>Single sign-on\<close>

text \<open>An HTTP exchange either fails or answers with a status and a body, \<open>None\<close>
  when the body cannot be decoded.\<close>

datatype 'a answer = RequestFailed | Answer nat "'a option"

record SSOUserInfo =
  so_Sub :: string
  so_Email :: string
  so_Name :: string
  so_Username :: string
  so_OpenID :: string
  so_UnionID :: string
  so_Mobile :: string
  so_AvatarURL :: string

record TokenResponse =
  tr_AccessToken :: string
  tr_Error :: string

record 'd FeishuResponse =
  fr_Code :: int
  fr_Data :: "'d option"

record sso_env =
  token_answer :: "TokenResponse answer"
  feishu_token_answer :: "string FeishuResponse answer"
  userinfo_answer :: "string \<Rightarrow> SSOUserInfo answer"
  feishu_userinfo_answer :: "string \<Rightarrow> SSOUserInfo FeishuResponse answer"
  sso_suffix :: string
  sso_userID :: string
  sso_password :: string
  sso_recordID :: string

definition is_feishu :: "string \<Rightarrow> bool" where
  "is_feishu provider \<longleftrightarrow> Contains (ToLower provider) ''feishu'' \<or> Contains (ToLower provider) ''lark''"

definition exchangeFeishuToken :: "string FeishuResponse answer \<Rightarrow> string option" where
  "exchangeFeishuToken a = (case a of
     Answer st (Some r) \<Rightarrow>
       (if fr_Code r \<noteq> 0 then None
        else case fr_Data r of None \<Rightarrow> None | Some tok \<Rightarrow> (if tok = [] then None else Some tok))
   | _ \<Rightarrow> None)"

definition ExchangeCodeForToken :: "sso_env \<Rightarrow> string \<Rightarrow> string option" where
  "ExchangeCodeForToken e provider =
     (if is_feishu provider then exchangeFeishuToken (feishu_token_answer e)
      else case token_answer e of
        Answer st body \<Rightarrow>
          (if st \<noteq> 200 then None
           else case body of None \<Rightarrow> None
           | Some r \<Rightarrow> (if tr_Error r \<noteq> [] then None
                       else if tr_AccessToken r = [] then None else Some (tr_AccessToken r)))
      | RequestFailed \<Rightarrow> None)"

definition getFeishuUserInfo :: "sso_env \<Rightarrow> string \<Rightarrow> SSOUserInfo option" where
  "getFeishuUserInfo e accessToken = (case feishu_userinfo_answer e accessToken of
     Answer st (Some r) \<Rightarrow>
       (if fr_Code r \<noteq> 0 then None
        else map_option (\<lambda>d. d\<lparr>so_Username :=
          (if so_Email d \<noteq> [] then hd (SplitChar (CHR ''@'') (so_Email d))
           else if so_OpenID d \<noteq> [] then ''feishu_'' @ so_OpenID d
           else ''sso_'' @ sso_suffix e)\<rparr>) (fr_Data r))
   | _ \<Rightarrow> None)"

definition GetSSOUserInfo :: "sso_env \<Rightarrow> string \<Rightarrow> string \<Rightarrow> SSOUserInfo option" where
  "GetSSOUserInfo e accessToken provider =
     (if is_feishu provider then getFeishuUserInfo e accessToken
      else case userinfo_answer e accessToken of
        Answer st body \<Rightarrow>
          (if st \<noteq> 200 then None
           else case body of None \<Rightarrow> None
           | Some i \<Rightarrow> (if so_Sub i = [] \<and> so_Email i = [] then None else Some i))
      | RequestFailed \<Rightarrow> None)"

definition sso_found :: "libs \<Rightarrow> SSOUserInfo \<Rightarrow> adb \<Rightarrow> User option" where
  "sso_found L info db =
     (let by_email = (if so_Email info \<noteq> [] then FindUserByEmail L (so_Email info) db else None)
      in if by_email = None \<and> so_Username info \<noteq> [] then FindUserByUsername L (so_Username info) db else by_email)"

definition sso_updated :: "SSOUserInfo \<Rightarrow> User \<Rightarrow> User" where
  "sso_updated info user =
     (let user = (if so_Name info \<noteq> [] then user\<lparr>u_FullName := so_Name info\<rparr> else user)
      in if so_Email info \<noteq> [] \<and> u_Email user = [] then user\<lparr>u_Email := so_Email info\<rparr> else user)"

definition CreateOrUpdateSSOUser :: "libs \<Rightarrow> sso_env \<Rightarrow> SSOUserInfo \<Rightarrow> adb \<Rightarrow> (auth_error + User) \<times> adb" where
  "CreateOrUpdateSSOUser L e info db = (case sso_found L info db of
     Some user \<Rightarrow>
       (case UpdateUser L (sso_updated info user) db of
          None \<Rightarrow> (Inl SaveFailed, db) | Some db' \<Rightarrow> (Inr (sso_updated info user), db'))
   | None \<Rightarrow>
       (case GenerateFromPassword L (sso_password e) of
          None \<Rightarrow> (Inl HashFailed, db)
        | Some hashed \<Rightarrow>
            (case repo_CreateUser L (new_user (sso_userID e) (so_Username info) hashed (so_Email info)
                (so_Name info) ''user'' []) db of
               None \<Rightarrow> (Inl CreateFailed, db)
             | Some (u, db') \<Rightarrow> (Inr u, db'))))"

definition LoginWithSSO :: "libs \<Rightarrow> sso_env \<Rightarrow> time \<Rightarrow> string \<Rightarrow> string \<Rightarrow> adb \<Rightarrow> (auth_error + LoginResponse) \<times> adb" where
  "LoginWithSSO L e now loginIP userAgent db =
     (let ss = GetByCategory ''auth'' db; provider = getSettingValue ss ''ssoProvider'' [] in
      if provider = [] \<or> getSettingValue ss ''ssoClientId'' [] = [] \<or> getSettingValue ss ''ssoClientSecret'' [] = [] \<or>
         getSettingValue ss ''ssoTokenUrl'' [] = [] \<or> getSettingValue ss ''ssoUserInfoUrl'' [] = []
      then (Inl SsoNotConfigured, db)
      else case ExchangeCodeForToken e provider of
        None \<Rightarrow> (Inl SsoTokenFailed, db)
      | Some accessToken \<Rightarrow> (case GetSSOUserInfo e accessToken provider of
          None \<Rightarrow> (Inl SsoUserInfoFailed, db)
        | Some info \<Rightarrow> (case CreateOrUpdateSSOUser L e info db of
            (Inl err, db') \<Rightarrow> (Inl err, db')
          | (Inr user, db') \<Rightarrow>
              (if expired now user then (Inl AccountExpired, db')
               else finish_login L now (sso_recordID e) loginIP userAgent False user db'))))"

section \<open>SSH keys\<close>

text \<open>The private key is stored encrypted with AES in GCM mode under a fixed key, the
  nonce in front, in Base64.\<close>

definition encryptPrivateKey :: "libs \<Rightarrow> string \<Rightarrow> string option" where
  "encryptPrivateKey L privateKey = (case gcm_nonce L of
     None \<Rightarrow> None | Some nonce \<Rightarrow> Some (EncodeToString (nonce @ gcm_Seal L nonce privateKey)))"

definition decryptPrivateKey :: "libs \<Rightarrow> string \<Rightarrow> string option" where
  "decryptPrivateKey L encryptedKey = (case DecodeString encryptedKey of
     None \<Rightarrow> None
   | Some ciphertext \<Rightarrow>
       (if length ciphertext < gcm_NonceSize L then None
        else gcm_Open L (take (gcm_NonceSize L) ciphertext) (drop (gcm_NonceSize L) ciphertext)))"

definition GenerateSSHKey :: "libs \<Rightarrow> time \<Rightarrow> string \<Rightarrow> adb \<Rightarrow> auth_error option \<times> adb" where
  "GenerateSSHKey L now userID db =
     modify_user L userID (\<lambda>user. case GenerateRSAKeyPair L of
       None \<Rightarrow> Inl KeyGenerationFailed
     | Some kp \<Rightarrow> (case encryptPrivateKey L (kp_PrivateKey kp) of
         None \<Rightarrow> Inl EncryptFailed
       | Some enc \<Rightarrow> Inr (user\<lparr>u_SSHPublicKey := kp_PublicKey kp, u_SSHPrivateKeyEncrypted := enc,
           u_SSHKeyFingerprint := kp_Fingerprint kp, u_SSHKeyGeneratedAt := Some now\<rparr>))) db"

definition DeleteSSHKey :: "libs \<Rightarrow> string \<Rightarrow> adb \<Rightarrow> auth_error option \<times> adb" where
  "DeleteSSHKey L userID db =
     modify_user L userID (\<lambda>user. Inr (user\<lparr>u_SSHPublicKey := [], u_SSHPrivateKeyEncrypted := [],
       u_SSHKeyFingerprint := [], u_SSHKeyGeneratedAt := None,
       u_AuthMethod := (if u_AuthMethod user = ''publickey'' then ''password'' else u_AuthMethod user)\<rparr>)) db"

definition GetSSHPrivateKey :: "libs \<Rightarrow> string \<Rightarrow> adb \<Rightarrow> auth_error + (string \<times> string)" where
  "GetSSHPrivateKey L userID db = (case FindUserByID userID db of
     None \<Rightarrow> Inl UserNotFound
   | Some user \<Rightarrow>
       (if u_SSHPrivateKeyEncrypted user = [] then Inl NoPrivateKey
        else case decryptPrivateKey L (u_SSHPrivateKeyEncrypted user) of
          None \<Rightarrow> Inl DecryptFailed | Some key \<Rightarrow> Inr (key, u_Username user)))"

definition UpdateUserAuthMethod :: "libs \<Rightarrow> string \<Rightarrow> string \<Rightarrow> adb \<Rightarrow> auth_error option \<times> adb" where
  "UpdateUserAuthMethod L userID authMethod db =
     modify_user L userID (\<lambda>user.
       if authMethod = ''publickey'' \<and> u_SSHPublicKey user = [] then Inl NoPublicKey
       else if authMethod \<noteq> ''password'' \<and> authMethod \<noteq> ''publickey'' then Inl InvalidAuthMethod
       else Inr (user\<lparr>u_AuthMethod := authMethod\<rparr>)) db"

definition GetUserPublicKey :: "libs \<Rightarrow> string \<Rightarrow> adb \<Rightarrow> auth_error + string" where
  "GetUserPublicKey L username db = (case FindUserByUsername L username db of
     None \<Rightarrow> Inl UserNotFound
   | Some user \<Rightarrow>
       (if u_SSHPublicKey user = [] then Inl NoPublicKey
        else if u_AuthMethod user \<noteq> ''publickey'' \<and> u_AuthMethod user \<noteq> ''both'' then Inl PublicKeyNotEnabled
        else Inr (u_SSHPublicKey user)))"

section \<open>Middleware\<close>

text \<open>The context of a request after the middleware, or the status it was refused
  with.  \<open>header\<close> and \<open>query\<close> are the Authorization header and the query parameter
  \<open>token\<close>, empty when absent.\<close>

record request_context =
  rc_userID :: string
  rc_username :: string
  rc_role :: string

definition AuthMiddleware :: "libs \<Rightarrow> time \<Rightarrow> string \<Rightarrow> string \<Rightarrow> nat + request_context" where
  "AuthMiddleware L now header query =
     (let check = (\<lambda>tok. case ValidateToken L now tok of
          Inl err \<Rightarrow> Inl 401
        | Inr c \<Rightarrow> Inr \<lparr> rc_userID = c_UserID c, rc_username = c_Username c, rc_role = c_Role c \<rparr>)
      in if header \<noteq> [] then
           (let tok = TrimPrefix header ''Bearer '' in if tok = header then Inl 401 else check tok)
         else (let tok = TrimSpace query in if tok = [] then Inl 401 else check tok))"

definition AdminMiddleware :: "request_context option \<Rightarrow> nat option" where
  "AdminMiddleware c = (case c of None \<Rightarrow> Some 403 | Some x \<Rightarrow> (if rc_role x \<noteq> ''admin'' then Some 403 else None))"

section \<open>Login\<close>

lemma FindUserByID_Some: "FindUserByID i db = Some u \<Longrightarrow> u \<in> set (users db) \<and> u_ID u = i"
  using First_SomeD [of u_ID "\<lambda>u. u_ID u = i" "users db" u] by (simp add: FindUserByID_def)

lemma authenticateWithPassword_Inr:
  "authenticateWithPassword L n p db = Inr user \<longleftrightarrow>
     FindUserByUsername L n db = Some user \<and> u_Status user = ''active'' \<and> CompareHashAndPassword L (u_Password user) p"
  by (auto simp: authenticateWithPassword_def split: option.splits)

lemma authenticateWithLDAP_never [simp]: "authenticateWithLDAP n p ss \<noteq> Inr user"
  by (simp add: authenticateWithLDAP_def)

lemma validateTwoFactorCode_nonempty: "validateTwoFactorCode L now user a b \<Longrightarrow> a \<noteq> [] \<or> b \<noteq> []"
  by (auto simp: validateTwoFactorCode_def split: if_splits)

lemma finish_login_Inr:
  "finish_login L now newID ip agent needs user db = (Inr resp, db') \<longleftrightarrow>
     (\<exists>tok. GenerateToken L now user = Some tok \<and>
        resp = \<lparr> lr_Token = tok, lr_User = user, lr_RequiresTwoFactor = False, lr_TwoFactorEnabled = False,
                 lr_NeedsTwoFactorSetup = needs \<rparr> \<and>
        db' = CreatePlatformLoginRecord (login_record newID user ip agent now) (UpdateUserLastLogin (u_ID user) now ip db))"
  by (auto simp: finish_login_def split: option.splits)

text \<open>The configured method, and the part of a login that follows authentication.\<close>

definition auth_method :: "adb \<Rightarrow> string" where
  "auth_method db = getSettingValue (GetByCategory ''auth'' db) ''authMethod'' ''password''"

lemma Login_password:
  assumes "auth_method db \<noteq> ''ldap''" "auth_method db \<noteq> ''sso''"
  shows "Login L now newID req ip agent db =
    (case authenticateWithPassword L (lq_Username req) (lq_Password req) db of
       Inl err \<Rightarrow> (Inl err, db)
     | Inr user \<Rightarrow>
         (if expired now user then (Inl AccountExpired, db)
          else if \<not> u_TwoFactorEnabled user
          then finish_login L now newID ip agent (globalConfig_enabled db) user db
          else if lq_TwoFactorCode req = [] \<and> lq_BackupCode req = [] then (Inr (ask_two_factor user), db)
          else if \<not> validateTwoFactorCode L now user (lq_TwoFactorCode req) (lq_BackupCode req)
          then (Inl TwoFactorFailed, db)
          else finish_login L now newID ip agent False user db))"
  using assms by (simp add: Login_def Let_def auth_method_def split: sum.split)

lemma Login_other:
  assumes "auth_method db = ''ldap'' \<or> auth_method db = ''sso''"
  shows "\<exists>err. Login L now newID req ip agent db = (Inl err, db)"
  using assms by (auto simp: Login_def Let_def auth_method_def authenticateWithLDAP_def)

lemma Login_finished:
  assumes "Login L now newID req ip agent db = (Inr resp, db')" "\<not> lr_RequiresTwoFactor resp"
  obtains user needs where "authenticateWithPassword L (lq_Username req) (lq_Password req) db = Inr user"
    "auth_method db \<noteq> ''ldap''" "auth_method db \<noteq> ''sso''"
    "finish_login L now newID ip agent needs user db = (Inr resp, db')"
proof (cases "auth_method db = ''ldap'' \<or> auth_method db = ''sso''")
  case True
  then show ?thesis using assms Login_other [OF True, of L now newID req ip agent] by auto
next
  case False
  then show ?thesis using assms that by (auto simp: Login_password ask_two_factor_def split: sum.splits if_splits)
qed

text \<open>C7: when a login hands out a token.  A login succeeds without asking for a
  second factor exactly when passwords are the configured method, the user name
  belongs to an active account whose hash accepts the password, the account has
  not expired, and, if the account has two-factor authentication enabled, the
  time-based code or the backup code is valid.  The answer then carries the token
  of that account, and the last login and a login record are written.\<close>

theorem Login_issues_token:
  "Login L now newID req ip agent db = (Inr resp, db') \<and> \<not> lr_RequiresTwoFactor resp \<longleftrightarrow>
   (\<exists>user tok. auth_method db \<notin> {''ldap'', ''sso''} \<and>
      FindUserByUsername L (lq_Username req) db = Some user \<and> u_Status user = ''active'' \<and>
      CompareHashAndPassword L (u_Password user) (lq_Password req) \<and> \<not> expired now user \<and>
      (u_TwoFactorEnabled user \<longrightarrow> validateTwoFactorCode L now user (lq_TwoFactorCode req) (lq_BackupCode req)) \<and>
      GenerateToken L now user = Some tok \<and>
      resp = \<lparr> lr_Token = tok, lr_User = user, lr_RequiresTwoFactor = False, lr_TwoFactorEnabled = False,
               lr_NeedsTwoFactorSetup = (globalConfig_enabled db \<and> \<not> u_TwoFactorEnabled user) \<rparr> \<and>
      db' = CreatePlatformLoginRecord (login_record newID user ip agent now)
              (UpdateUserLastLogin (u_ID user) now ip db))" (is "?l \<longleftrightarrow> ?r")
proof (cases "auth_method db = ''ldap'' \<or> auth_method db = ''sso''")
  case True
  then show ?thesis using Login_other [OF True, of L now newID req ip agent] by auto
next
  case pw: False
  show ?thesis
  proof (cases "authenticateWithPassword L (lq_Username req) (lq_Password req) db")
    case (Inl err)
    then show ?thesis using pw authenticateWithPassword_Inr [of L "lq_Username req" "lq_Password req" db]
      by (auto simp: Login_password)
  next
    case (Inr user)
    then show ?thesis using pw Inr [unfolded authenticateWithPassword_Inr]
      by (auto simp: Login_password finish_login_Inr ask_two_factor_def dest: validateTwoFactorCode_nonempty)
  qed
qed

section \<open>Sample\<close>

definition sample_user :: User where
  "sample_user = (new_user ''u1'' ''ann'' ''terces'' ''a@x'' ''Ann'' ''admin'' ''password'')
     \<lparr>u_AutoDisableOnExpiry := True, u_TwoFactorEnabled := True, u_TwoFactorBackupCodes := SerializeBackupCodes [''K7'']\<rparr>"

definition sample_adb :: adb where
  "sample_adb = \<lparr> users = [sample_user], login_records = [], settings = [], two_factor_config = [] \<rparr>"

definition sample_libs :: libs where
  "sample_libs = \<lparr> collate = ToLower, GenerateFromPassword = (\<lambda>p. Some (rev p)),
     CompareHashAndPassword = (\<lambda>h p. h = rev p), totp_Validate = (\<lambda>t secret code. False),
     SignedString = (\<lambda>c. Some (''t-'' @ c_UserID c)),
     ParseWithClaims = (\<lambda>t tok. if tok = ''t-u1'' \<and> t < 7 * 24 * hour then Some (token_claims 0 sample_user) else None),
     ParseRFC3339 = (\<lambda>s. None),
     GenerateRSAKeyPair = Some \<lparr> kp_PrivateKey = ''private'', kp_PublicKey = ''public'', kp_Fingerprint = ''fp'' \<rparr>,
     gcm_NonceSize = 2, gcm_nonce = Some ''nn'', gcm_Seal = (\<lambda>n p. rev p), gcm_Open = (\<lambda>n c. Some (rev c)) \<rparr>"

definition sample_login :: LoginRequest where
  "sample_login = \<lparr> lq_Username = ''Ann'', lq_Password = ''secret'', lq_TwoFactorCode = [], lq_BackupCode = ''K7'' \<rparr>"

definition sample_response :: LoginResponse where
  "sample_response = \<lparr> lr_Token = ''t-u1'', lr_User = sample_user, lr_RequiresTwoFactor = False,
     lr_TwoFactorEnabled = False, lr_NeedsTwoFactorSetup = False \<rparr>"

definition sample_logged_in :: adb where
  "sample_logged_in = snd (Login sample_libs 0 ''r1'' sample_login ''ip'' ''ua'' sample_adb)"

lemma sample_login_runs: "fst (Login sample_libs 0 ''r1'' sample_login ''ip'' ''ua'' sample_adb) = Inr sample_response"
  by code_simp

lemma sample_login_result:
  "Login sample_libs 0 ''r1'' sample_login ''ip'' ''ua'' sample_adb = (Inr sample_response, sample_logged_in)"
  using sample_login_runs by (simp add: sample_logged_in_def prod_eq_iff)

theorem Login_issues_token_witness:
  "\<exists>user. FindUserByUsername sample_libs ''Ann'' sample_adb = Some user \<and>
     validateTwoFactorCode sample_libs 0 user [] ''K7'' \<and> u_TwoFactorEnabled user"
proof -
  have "\<not> lr_RequiresTwoFactor sample_response" by (simp add: sample_response_def)
  with sample_login_result obtain user where
    "FindUserByUsername sample_libs (lq_Username sample_login) sample_adb = Some user" and
    v: "u_TwoFactorEnabled user \<longrightarrow> validateTwoFactorCode sample_libs 0 user (lq_TwoFactorCode sample_login) (lq_BackupCode sample_login)"
    using Login_issues_token [of sample_libs 0 "''r1''" sample_login "''ip''" "''ua''" sample_adb sample_response sample_logged_in]
    by blast
  moreover have "FindUserByUsername sample_libs ''Ann'' sample_adb = Some sample_user" by code_simp
  moreover have "u_TwoFactorEnabled sample_user" by (simp add: sample_user_def)
  ultimately show ?thesis by (simp add: sample_login_def)
qed

section \<open>Tokens\<close>

text \<open>What the token library documents: a signed token is accepted, with its claims,
  until its expiry time, which is cut to seconds.\<close>

definition jwt_roundtrip :: "libs \<Rightarrow> Claims \<Rightarrow> bool" where
  "jwt_roundtrip L c \<longleftrightarrow> (\<forall>tok t. SignedString L c = Some tok \<longrightarrow> t \<le> c_ExpiresAt c - second \<longrightarrow>
     ParseWithClaims L t tok = Some c)"

lemma AuthMiddleware_bearer:
  "AuthMiddleware L t (''Bearer '' @ tok) q = (case ParseWithClaims L t tok of
     None \<Rightarrow> Inl 401
   | Some c \<Rightarrow> Inr \<lparr> rc_userID = c_UserID c, rc_username = c_Username c, rc_role = c_Role c \<rparr>)"
  by (simp add: AuthMiddleware_def TrimPrefix_def ValidateToken_def split: option.split)

text \<open>A token opens the API for seven days.  The token of a successful login is
  accepted by the middleware until a second before seven days have passed, as the
  user and with the role the account had at the login; the database is not
  consulted, so it makes no difference whether the account was meanwhile disabled,
  deleted or demoted.\<close>

theorem login_token_accepted:
  assumes "Login L now newID req ip agent db = (Inr resp, db')" "\<not> lr_RequiresTwoFactor resp"
    and "jwt_roundtrip L (token_claims now (lr_User resp))" "t \<le> now + 7 * 24 * hour - second"
  shows "AuthMiddleware L t (''Bearer '' @ lr_Token resp) q =
      Inr \<lparr> rc_userID = u_ID (lr_User resp), rc_username = u_Username (lr_User resp), rc_role = u_Role (lr_User resp) \<rparr>"
proof -
  from assms(1,2) have "GenerateToken L now (lr_User resp) = Some (lr_Token resp)"
    by (elim Login_finished) (auto simp: finish_login_Inr)
  with assms(3,4) have "ParseWithClaims L t (lr_Token resp) = Some (token_claims now (lr_User resp))"
    by (auto simp: jwt_roundtrip_def GenerateToken_def token_claims_def)
  then show ?thesis unfolding AuthMiddleware_bearer by (simp add: token_claims_def)
qed

theorem login_token_accepted_witness:
  "AuthMiddleware sample_libs day (''Bearer '' @ ''t-u1'') [] =
     Inr \<lparr> rc_userID = ''u1'', rc_username = ''ann'', rc_role = ''admin'' \<rparr>"
proof -
  have "jwt_roundtrip sample_libs (token_claims 0 sample_user)"
    using time_units_pos
    by (auto simp: jwt_roundtrip_def sample_libs_def token_claims_def sample_user_def new_user_def)
      (simp add: second_def hour_def minute_def)
  moreover have "day \<le> 0 + 7 * 24 * hour - second" by (simp add: day_def hour_def minute_def second_def)
  ultimately show ?thesis
    using login_token_accepted [OF sample_login_result, of day "[]"]
    by (simp add: sample_response_def sample_user_def new_user_def del: append.simps)
qed

section \<open>Soundness of the account table\<close>

text \<open>Identifiers, user names and e-mail addresses are unique (the latter two under
  the collation), roles and states are known ones.\<close>

definition accounts_ok :: "libs \<Rightarrow> adb \<Rightarrow> bool" where
  "accounts_ok L db \<longleftrightarrow> distinct (map u_ID (users db)) \<and>
     distinct (map (\<lambda>u. collate L (u_Username u)) (users db)) \<and>
     distinct (map (\<lambda>u. collate L (u_Email u)) (users db)) \<and>
     list_all (\<lambda>u. u_Role u \<in> {''admin'', ''user''} \<and> u_Status u \<in> {''active'', ''inactive''}) (users db)"

lemma fits_iff: "fits L u t \<longleftrightarrow> (\<forall>v\<in>set t. u_ID v \<noteq> u_ID u \<and>
    collate L (u_Username v) \<noteq> collate L (u_Username u) \<and> collate L (u_Email v) \<noteq> collate L (u_Email u))"
  by (auto simp: fits_def list_all_iff same_def)

lemma accounts_ok_create [inv_intros]:
  assumes "accounts_ok L db" "repo_CreateUser L u db = Some (u', db')"
    and "u_Role u \<in> {''admin'', ''user''}" "u_Status u = ''active''"
  shows "accounts_ok L db'"
proof -
  from assms(2) have fits: "fits L u (users db)"
    and db': "db' = db\<lparr>users := users db @ [u\<lparr>u_AuthMethod := (if u_AuthMethod u = [] then ''password'' else u_AuthMethod u),
        u_Role := u_Role u, u_Status := u_Status u, u_AutoDisableOnExpiry := True\<rparr>]\<rparr>"
    using assms(3,4) by (auto simp: repo_CreateUser_def Let_def split: if_splits)
  then show ?thesis using assms(1,3,4) by (auto simp: accounts_ok_def fits_iff)
qed

lemma accounts_ok_save [inv_intros]:
  assumes "accounts_ok L db" "UpdateUser L u db = Some db'"
    and "u_Role u \<in> {''admin'', ''user''}" "u_Status u \<in> {''active'', ''inactive''}"
  shows "accounts_ok L db'"
proof -
  from assms(2) have db': "db' = db\<lparr>users := update_where (\<lambda>v. u_ID v = u_ID u) (\<lambda>_. u) (users db)\<rparr>"
    and "fits L u (delete_where (\<lambda>v. u_ID v = u_ID u) (users db))"
    by (auto simp: UpdateUser_def split: if_splits)
  then have "\<forall>v\<in>set (users db). u_ID v \<noteq> u_ID u \<longrightarrow> collate L (u_Username v) \<noteq> collate L (u_Username u)"
    "\<forall>v\<in>set (users db). u_ID v \<noteq> u_ID u \<longrightarrow> collate L (u_Email v) \<noteq> collate L (u_Email u)"
    by (auto simp: fits_iff set_delete_where)
  then show ?thesis using assms(1,3,4) unfolding db' accounts_ok_def
    by (auto simp: distinct_update_row [where i = u_ID] list_all_iff set_update_where)
qed

lemma accounts_ok_set_user:
  assumes "accounts_ok L db" "\<And>u. u_ID (f u) = u_ID u" "\<And>u. u_Username (f u) = u_Username u"
    "\<And>u. u_Email (f u) = u_Email u" "\<And>u. u \<in> set (users db) \<Longrightarrow> u_Role (f u) \<in> {''admin'', ''user''}"
    "\<And>u. u \<in> set (users db) \<Longrightarrow> u_Status (f u) \<in> {''active'', ''inactive''}"
  shows "accounts_ok L (db\<lparr>users := update_where P f (users db)\<rparr>)"
  using assms(1) unfolding accounts_ok_def
  by (simp add: assms(2-4) update_where_keys list_all_iff set_update_where) (use assms(5,6) in auto)

lemma accounts_ok_row:
  "accounts_ok L db \<Longrightarrow> u \<in> set (users db) \<Longrightarrow>
     u_Role u \<in> {''admin'', ''user''} \<and> u_Status u \<in> {''active'', ''inactive''}"
  by (simp add: accounts_ok_def list_all_iff)

lemma accounts_ok_records [simp]: "accounts_ok L (CreatePlatformLoginRecord r db) = accounts_ok L db"
  by (simp add: CreatePlatformLoginRecord_def accounts_ok_def)

lemma accounts_ok_last_login [inv_intros]: "accounts_ok L db \<Longrightarrow> accounts_ok L (UpdateUserLastLogin i t ip db)"
  unfolding UpdateUserLastLogin_def by (rule accounts_ok_set_user) (auto dest: accounts_ok_row)

lemma fits_unchanged:
  assumes "accounts_ok L db" "u \<in> set (users db)" "u_ID u' = u_ID u"
    "collate L (u_Username u') = collate L (u_Username u)" "collate L (u_Email u') = collate L (u_Email u)"
  shows "fits L u' (delete_where (\<lambda>v. u_ID v = u_ID u') (users db))"
proof -
  have "collate L (u_Username v) \<noteq> collate L (u_Username u) \<and> collate L (u_Email v) \<noteq> collate L (u_Email u)"
    if "v \<in> set (users db)" "u_ID v \<noteq> u_ID u" for v
    using assms(1,2) that by (auto simp: accounts_ok_def distinct_map inj_on_def)
  then show ?thesis using assms(3-5) by (auto simp: fits_iff set_delete_where)
qed

lemma accounts_ok_modify [inv_intros]:
  assumes "accounts_ok L db"
    and "\<And>u u'. f u = Inr u' \<Longrightarrow> u_Role u' = u_Role u \<and> u_Status u' = u_Status u"
  shows "accounts_ok L (snd (modify_user L i f db))"
proof (cases "FindUserByID i db")
  case (Some u)
  then have "u \<in> set (users db)" by (simp add: FindUserByID_Some)
  then have "accounts_ok L db'" if "f u = Inr u'" "UpdateUser L u' db = Some db'" for u' db'
    using accounts_ok_save [OF assms(1) that(2)] assms(2) [OF that(1)] accounts_ok_row [OF assms(1), of u] by simp
  then show ?thesis using Some assms(1) by (auto simp: modify_user_def split: sum.splits option.splits)
qed (use assms(1) in \<open>simp add: modify_user_def\<close>)

lemma accounts_ok_Register_as:
  "accounts_ok L db \<Longrightarrow> role \<in> {''admin'', ''user''} \<Longrightarrow> accounts_ok L (snd (register_as L i req role m db))"
  by (auto simp: register_as_def new_user_def split: option.splits intro: accounts_ok_create)

lemma accounts_ok_finish: "accounts_ok L db \<Longrightarrow> accounts_ok L (snd (finish_login L now i ip ag needs u db))"
  by (auto simp: finish_login_def split: option.splits intro: accounts_ok_last_login)

lemma accounts_ok_Login: "accounts_ok L db \<Longrightarrow> accounts_ok L (snd (Login L now i req ip ag db))"
  by (auto simp: Login_def Let_def accounts_ok_finish split: sum.split)

lemma sso_found_mem: "sso_found L info db = Some u \<Longrightarrow> u \<in> set (users db)"
  by (auto simp: sso_found_def Let_def FindUserByEmail_def FindUserByUsername_def
      dest: first_where_SomeD split: if_splits)

lemma sso_updated_simps [simp]:
  "u_ID (sso_updated info u) = u_ID u" "u_Username (sso_updated info u) = u_Username u"
  "u_Role (sso_updated info u) = u_Role u" "u_Status (sso_updated info u) = u_Status u"
  "u_ExpiresAt (sso_updated info u) = u_ExpiresAt u"
  by (simp_all add: sso_updated_def Let_def)

lemma accounts_ok_CreateOrUpdate:
  assumes "accounts_ok L db"
  shows "accounts_ok L (snd (CreateOrUpdateSSOUser L e info db))"
proof (cases "sso_found L info db")
  case None
  then show ?thesis using assms
    by (auto simp: CreateOrUpdateSSOUser_def new_user_def split: option.splits intro: accounts_ok_create)
next
  case (Some u)
  then show ?thesis
    using assms accounts_ok_save [OF assms, of "sso_updated info u"] accounts_ok_row [OF assms sso_found_mem [OF Some]]
    by (auto simp: CreateOrUpdateSSOUser_def split: option.splits)
qed

lemma accounts_ok_LoginWithSSO: "accounts_ok L db \<Longrightarrow> accounts_ok L (snd (LoginWithSSO L e now ip ag db))"
  using accounts_ok_CreateOrUpdate [of L db e]
  by (auto simp: LoginWithSSO_def Let_def split: option.split sum.split prod.split intro!: accounts_ok_finish)
    (metis snd_conv)+

section \<open>Single sign-on skips checks\<close>

definition sso_configured :: "adb \<Rightarrow> bool" where
  "sso_configured db = list_all (\<lambda>k. getSettingValue (GetByCategory ''auth'' db) k [] \<noteq> [])
     [''ssoProvider'', ''ssoClientId'', ''ssoClientSecret'', ''ssoTokenUrl'', ''ssoUserInfoUrl'']"

definition sso_provider :: "adb \<Rightarrow> string" where
  "sso_provider db = getSettingValue (GetByCategory ''auth'' db) ''ssoProvider'' []"

lemma LoginWithSSO_known:
  assumes "sso_configured db" "ExchangeCodeForToken e (sso_provider db) = Some access"
    and "GetSSOUserInfo e access (sso_provider db) = Some info"
    and "sso_found L info db = Some user" "UpdateUser L (sso_updated info user) db = Some db'" "\<not> expired now user"
  shows "LoginWithSSO L e now ip agent db =
    finish_login L now (sso_recordID e) ip agent False (sso_updated info user) db'"
  using assms
  by (simp add: LoginWithSSO_def Let_def sso_configured_def sso_provider_def CreateOrUpdateSSOUser_def expired_def)

text \<open>Single sign-on checks neither the state of the account nor its second
  factor.  When the provider vouches for an e-mail address that belongs to an
  account that has not expired, the login answers with a token, whether the
  account is active or disabled, and without asking for a two-factor code.\<close>

theorem sso_skips_status_and_second_factor:
  assumes "accounts_ok L db" "sso_configured db" "ExchangeCodeForToken e (sso_provider db) = Some access"
    and "GetSSOUserInfo e access (sso_provider db) = Some info" "so_Email info \<noteq> []"
    and "FindUserByEmail L (so_Email info) db = Some user" "\<not> expired now user"
    and "SignedString L (token_claims now user) = Some tok"
  shows "\<exists>resp db'. LoginWithSSO L e now ip agent db = (Inr resp, db') \<and> lr_Token resp = tok \<and>
    \<not> lr_RequiresTwoFactor resp \<and> u_ID (lr_User resp) = u_ID user"
proof -
  have found: "sso_found L info db = Some user" using assms(5,6) by (simp add: sso_found_def)
  have email: "collate L (u_Email user) = collate L (so_Email info)"
    using first_where_SomeD(2) [OF assms(6) [unfolded FindUserByEmail_def]] by (simp add: same_def)
  then have "fits L (sso_updated info user) (delete_where (\<lambda>v. u_ID v = u_ID (sso_updated info user)) (users db))"
    by (intro fits_unchanged [OF assms(1) sso_found_mem [OF found]]) (auto simp: sso_updated_def Let_def)
  then obtain db' where "UpdateUser L (sso_updated info user) db = Some db'" by (simp add: UpdateUser_def)
  from LoginWithSSO_known [OF assms(2-4) found this assms(7)] assms(8) show ?thesis
    by (simp add: finish_login_def GenerateToken_def token_claims_def)
qed

definition sample_sso_adb :: adb where
  "sample_sso_adb = sample_adb\<lparr>users := [sample_user\<lparr>u_Status := ''inactive''\<rparr>],
     settings := map (\<lambda>k. \<lparr> st_ID = 1, st_Key = k, st_Value = ''x'', st_Category = ''auth'', st_Type = ''string'' \<rparr>)
       [''ssoClientId'', ''ssoClientSecret'', ''ssoProvider'', ''ssoTokenUrl'', ''ssoUserInfoUrl'']\<rparr>"

definition sample_sso :: sso_env where
  "sample_sso = \<lparr> token_answer = Answer 200 (Some \<lparr> tr_AccessToken = ''acc'', tr_Error = [] \<rparr>),
     feishu_token_answer = RequestFailed,
     userinfo_answer = (\<lambda>_. Answer 200 (Some \<lparr> so_Sub = ''s'', so_Email = ''a@x'', so_Name = [], so_Username = [],
       so_OpenID = [], so_UnionID = [], so_Mobile = [], so_AvatarURL = [] \<rparr>)),
     feishu_userinfo_answer = (\<lambda>_. RequestFailed), sso_suffix = [], sso_userID = [], sso_password = [], sso_recordID = ''r1'' \<rparr>"

theorem sso_skips_status_and_second_factor_witness:
  "\<exists>resp db'. LoginWithSSO sample_libs sample_sso 0 ''ip'' ''ua'' sample_sso_adb = (Inr resp, db') \<and>
     lr_Token resp = ''t-u1'' \<and> \<not> lr_RequiresTwoFactor resp \<and> u_ID (lr_User resp) = ''u1''"
proof -
  let ?info = "\<lparr> so_Sub = ''s'', so_Email = ''a@x'', so_Name = [], so_Username = [], so_OpenID = [], so_UnionID = [],
    so_Mobile = [], so_AvatarURL = [] \<rparr>"
  let ?u = "sample_user\<lparr>u_Status := ''inactive''\<rparr>"
  have "accounts_ok sample_libs sample_sso_adb" by code_simp
  moreover have "sso_configured sample_sso_adb" by code_simp
  moreover have "ExchangeCodeForToken sample_sso (sso_provider sample_sso_adb) = Some ''acc''" by code_simp
  moreover have "GetSSOUserInfo sample_sso ''acc'' (sso_provider sample_sso_adb) = Some ?info" by code_simp
  moreover have "so_Email ?info \<noteq> []" by simp
  moreover have "FindUserByEmail sample_libs (so_Email ?info) sample_sso_adb = Some ?u" by code_simp
  moreover have "\<not> expired 0 ?u" by code_simp
  moreover have "SignedString sample_libs (token_claims 0 ?u) = Some ''t-u1''" by code_simp
  moreover have "u_ID ?u = ''u1''" by (simp add: sample_user_def new_user_def)
  ultimately show ?thesis using sso_skips_status_and_second_factor by metis
qed

section \<open>Backup codes are not used up\<close>

lemma ask_two_factor_requires [simp]: "lr_RequiresTwoFactor (ask_two_factor user)"
  by (simp add: ask_two_factor_def)

lemma Login_tokenI:
  assumes "auth_method db \<notin> {''ldap'', ''sso''}" "authenticateWithPassword L (lq_Username req) (lq_Password req) db = Inr user"
    and "\<not> expired now user"
    and "u_TwoFactorEnabled user \<Longrightarrow> validateTwoFactorCode L now user (lq_TwoFactorCode req) (lq_BackupCode req)"
    and "GenerateToken L now user = Some tok"
  shows "\<exists>resp db'. Login L now newID req ip agent db = (Inr resp, db') \<and> \<not> lr_RequiresTwoFactor resp \<and>
    lr_User resp = user \<and> lr_Token resp = tok"
  using assms validateTwoFactorCode_nonempty [of L now user]
  by (cases "u_TwoFactorEnabled user") (auto simp: Login_password finish_login_def)

text \<open>A backup code can be used again.  After a login with a backup code, the
  same request is answered with a token again at any later time before the
  account expires; the code is not removed from the account.\<close>

theorem backup_code_reusable:
  assumes "Login L now newID req ip agent db = (Inr resp, db')" "\<not> lr_RequiresTwoFactor resp"
    and "u_TwoFactorEnabled (lr_User resp)" "lq_TwoFactorCode req = []"
    and "\<not> expired now' (lr_User resp)" "SignedString L (token_claims now' (lr_User resp)) = Some tok"
  shows "\<exists>resp' db''. Login L now' newID' req ip' agent' db' = (Inr resp', db'') \<and>
    \<not> lr_RequiresTwoFactor resp' \<and> lr_Token resp' = tok"
proof -
  from assms(1,2) obtain user needs where auth: "authenticateWithPassword L (lq_Username req) (lq_Password req) db = Inr user"
    and m: "auth_method db \<noteq> ''ldap''" "auth_method db \<noteq> ''sso''"
    and fin: "finish_login L now newID ip agent needs user db = (Inr resp, db')"
    by (rule Login_finished)
  from fin have user: "lr_User resp = user"
    and db': "db' = CreatePlatformLoginRecord (login_record newID user ip agent now) (UpdateUserLastLogin (u_ID user) now ip db)"
    by (auto simp: finish_login_Inr)
  let ?u = "user\<lparr>u_LastLoginTime := Some now, u_LastLoginIP := ip\<rparr>"
  have "auth_method db' = auth_method db"
    by (simp add: db' CreatePlatformLoginRecord_def UpdateUserLastLogin_def auth_method_def GetByCategory_def)
  moreover have "FindUserByUsername L (lq_Username req) db' = Some ?u"
    using auth by (simp add: authenticateWithPassword_Inr db' CreatePlatformLoginRecord_def UpdateUserLastLogin_def
        FindUserByUsername_def first_where_update_inv)
  then have "authenticateWithPassword L (lq_Username req) (lq_Password req) db' = Inr ?u"
    using auth by (simp add: authenticateWithPassword_Inr)
  moreover have "u_TwoFactorEnabled user" using assms(3) user by simp
  then have "validateTwoFactorCode L now user [] (lq_BackupCode req)"
    using assms(1,2,4) m auth by (auto simp: Login_password split: if_splits)
  then have "validateTwoFactorCode L now' ?u (lq_TwoFactorCode req) (lq_BackupCode req)"
    using assms(4) by (simp add: validateTwoFactorCode_def split: if_splits)
  moreover have "\<not> expired now' ?u" "GenerateToken L now' ?u = Some tok"
    using assms(5,6) user by (simp_all add: expired_def GenerateToken_def token_claims_def)
  ultimately show ?thesis using m Login_tokenI [of db' L req ?u now' tok newID' ip' agent'] by auto
qed

theorem backup_code_reusable_witness:
  "\<exists>resp' db''. Login sample_libs hour ''r2'' sample_login ''ip'' ''ua'' sample_logged_in = (Inr resp', db'') \<and>
     \<not> lr_RequiresTwoFactor resp' \<and> lr_Token resp' = ''t-u1''"
  by (rule backup_code_reusable [OF sample_login_result])
    (simp_all add: sample_response_def sample_user_def new_user_def sample_login_def expired_def sample_libs_def token_claims_def)

section \<open>SSH keys\<close>

lemma modify_user_ok:
  assumes "accounts_ok L db" "FindUserByID i db = Some u" "f u = Inr u'"
    and "u_ID u' = u_ID u" "u_Username u' = u_Username u" "u_Email u' = u_Email u"
  shows "modify_user L i f db = (None, db\<lparr>users := update_where (\<lambda>v. u_ID v = i) (\<lambda>_. u') (users db)\<rparr>)"
proof -
  have "u \<in> set (users db)" "u_ID u = i" using FindUserByID_Some [OF assms(2)] by simp_all
  then have "UpdateUser L u' db = Some (db\<lparr>users := update_where (\<lambda>v. u_ID v = i) (\<lambda>_. u') (users db)\<rparr>)"
    using fits_unchanged [OF assms(1), of u u'] assms(4-6) by (simp add: UpdateUser_def)
  then show ?thesis using assms(2,3) by (simp add: modify_user_def)
qed

lemma FindUserByID_replaced:
  "FindUserByID i db = Some u \<Longrightarrow> u_ID u' = i \<Longrightarrow>
     FindUserByID i (db\<lparr>users := update_where (\<lambda>v. u_ID v = i) (\<lambda>_. u') (users db)\<rparr>) = Some u'"
  by (simp add: FindUserByID_def First_key first_where_replace)

lemma accounts_ok_GenerateSSHKey: "accounts_ok L db \<Longrightarrow> accounts_ok L (snd (GenerateSSHKey L now i db))"
  unfolding GenerateSSHKey_def by (rule accounts_ok_modify) (auto split: option.splits)

text \<open>What the cipher documents: a nonce has the announced size and opening undoes
  sealing.\<close>

definition gcm_ok :: "libs \<Rightarrow> bool" where
  "gcm_ok L \<longleftrightarrow> 0 < gcm_NonceSize L \<and> (\<forall>n. gcm_nonce L = Some n \<longrightarrow> length n = gcm_NonceSize L \<and> (\<forall>p. gcm_Open L n (gcm_Seal L n p) = Some p))"

text \<open>A generated private key can be downloaded.  After a key pair has been
  generated for an existing account, the download answers with the private key of
  that pair and the user name; after the deletion of the key it fails, and public
  key authentication is no longer the method of the account.\<close>

theorem ssh_key_roundtrip:
  assumes "accounts_ok L db" "FindUserByID i db = Some user" "gcm_ok L" "gcm_nonce L \<noteq> None"
    and "GenerateRSAKeyPair L = Some kp" "GenerateSSHKey L now i db = (err, db')"
    and "DeleteSSHKey L i db' = (err', db'')"
  shows "err = None \<and> GetSSHPrivateKey L i db' = Inr (kp_PrivateKey kp, u_Username user) \<and>
    err' = None \<and> GetSSHPrivateKey L i db'' = Inl NoPrivateKey \<and>
    (\<exists>u. FindUserByID i db'' = Some u \<and> u_AuthMethod u \<noteq> ''publickey'')"
proof -
  obtain n where n: "gcm_nonce L = Some n" using assms(4) by auto
  let ?enc = "EncodeToString (n @ gcm_Seal L n (kp_PrivateKey kp))"
  let ?u = "user\<lparr>u_SSHPublicKey := kp_PublicKey kp, u_SSHPrivateKeyEncrypted := ?enc,
    u_SSHKeyFingerprint := kp_Fingerprint kp, u_SSHKeyGeneratedAt := Some now\<rparr>"
  let ?v = "?u\<lparr>u_SSHPublicKey := [], u_SSHPrivateKeyEncrypted := [], u_SSHKeyFingerprint := [],
    u_SSHKeyGeneratedAt := None, u_AuthMethod := (if u_AuthMethod user = ''publickey'' then ''password'' else u_AuthMethod user)\<rparr>"
  have i: "u_ID user = i" using FindUserByID_Some [OF assms(2)] by simp
  have 1: "err = None" "db' = db\<lparr>users := update_where (\<lambda>v. u_ID v = i) (\<lambda>_. ?u) (users db)\<rparr>"
    using assms(5,6) n modify_user_ok [OF assms(1,2), of _ ?u] unfolding GenerateSSHKey_def encryptPrivateKey_def by simp_all
  then have f1: "FindUserByID i db' = Some ?u" using FindUserByID_replaced [OF assms(2)] i by simp
  have ok: "accounts_ok L db'" using accounts_ok_GenerateSSHKey [OF assms(1), of now i] assms(6) by simp
  have dec: "decryptPrivateKey L ?enc = Some (kp_PrivateKey kp)"
    using assms(3) n by (simp add: decryptPrivateKey_def gcm_ok_def)
  have "?enc \<noteq> []" using assms(3) n by (auto simp: gcm_ok_def)
  have 2: "err' = None" "db'' = db'\<lparr>users := update_where (\<lambda>v. u_ID v = i) (\<lambda>_. ?v) (users db')\<rparr>"
    using assms(7) modify_user_ok [OF ok f1, of _ ?v] by (simp_all add: DeleteSSHKey_def)
  then have "FindUserByID i db'' = Some ?v" using FindUserByID_replaced [OF f1] i by simp
  then show ?thesis using 1(1) 2(1) f1 dec \<open>?enc \<noteq> []\<close> by (auto simp: GetSSHPrivateKey_def)
qed

theorem ssh_key_roundtrip_witness:
  "GetSSHPrivateKey sample_libs ''u1'' (snd (GenerateSSHKey sample_libs 0 ''u1'' sample_adb)) = Inr (''private'', ''ann'')"
proof -
  let ?r = "GenerateSSHKey sample_libs 0 ''u1'' sample_adb" and ?kp = "the (GenerateRSAKeyPair sample_libs)"
  have "accounts_ok sample_libs sample_adb" by code_simp
  moreover have "FindUserByID ''u1'' sample_adb = Some sample_user" by code_simp
  moreover have "gcm_ok sample_libs" "gcm_nonce sample_libs \<noteq> None" by (simp_all add: gcm_ok_def sample_libs_def)
  moreover have "GenerateRSAKeyPair sample_libs = Some ?kp" by (simp add: sample_libs_def)
  moreover have "?r = (fst ?r, snd ?r)" by simp
  moreover have "DeleteSSHKey sample_libs ''u1'' (snd ?r) =
      (fst (DeleteSSHKey sample_libs ''u1'' (snd ?r)), snd (DeleteSSHKey sample_libs ''u1'' (snd ?r)))" by simp
  ultimately have "GetSSHPrivateKey sample_libs ''u1'' (snd ?r) = Inr (kp_PrivateKey ?kp, u_Username sample_user)"
    using ssh_key_roundtrip by blast
  then show ?thesis by (simp add: sample_libs_def sample_user_def new_user_def)
qed

end
