(* ===== verification/Account_Api.thy ===== *)
theory Account_Api
imports Accounts
begin

text \<open>
  The account part of the HTTP API: the handlers of
  \<open>internal/api/handler/auth_handler.go\<close> that change accounts, those of
  \<open>internal/api/handler/twofactor_handler.go\<close>, and the routes of
  \<open>internal/api/router/router.go\<close> with their middleware.  A request carries the
  bound body, \<open>None\<close> when binding it fails, and the answers of the identifier and
  random number generators it draws on; an answer is a status, data, and the
  database after the request.
\<close>

section \<open>Handlers of accounts\<close>

datatype payload =
    NoData | UserData User | LoginData LoginResponse | Codes "string list"
  | SetupData string "string list" | ConfigData TwoFactorConfig | KeyData string string

type_synonym reply = "(nat \<times> payload) \<times> adb"

definition user_reply :: "(auth_error + User) \<times> adb \<Rightarrow> reply" where
  "user_reply r = (case r of (Inl err, db) \<Rightarrow> ((400, NoData), db) | (Inr u, db) \<Rightarrow> ((200, UserData u), db))"

definition done_reply :: "nat \<Rightarrow> auth_error option \<times> adb \<Rightarrow> reply" where
  "done_reply st r = (case r of (Some err, db) \<Rightarrow> ((st, NoData), db) | (None, db) \<Rightarrow> ((200, NoData), db))"

definition handler_Register :: "libs \<Rightarrow> string \<Rightarrow> RegisterRequest option \<Rightarrow> adb \<Rightarrow> reply" where
  "handler_Register L newID body db = (case body of
     None \<Rightarrow> ((400, NoData), db) | Some req \<Rightarrow> user_reply (Register_user L newID req db))"

definition handler_Login :: "libs \<Rightarrow> time \<Rightarrow> string \<Rightarrow> LoginRequest option \<Rightarrow> string \<Rightarrow> string \<Rightarrow> adb \<Rightarrow> reply" where
  "handler_Login L now newID body clientIP userAgent db = (case body of
     None \<Rightarrow> ((400, NoData), db)
   | Some req \<Rightarrow> (case Login L now newID req clientIP userAgent db of
       (Inl err, db') \<Rightarrow> ((401, NoData), db')
     | (Inr resp, db') \<Rightarrow> ((200, LoginData resp), db')))"

definition handler_Logout :: "request_context option \<Rightarrow> adb \<Rightarrow> reply" where
  "handler_Logout ctx db = (case ctx of
     None \<Rightarrow> ((401, NoData), db) | Some c \<Rightarrow> ((200, NoData), Logout (rc_userID c) db))"

text \<open>The callback of the single sign-on redirects the browser; the address carries
  the token.\<close>

definition SSOCallback :: "libs \<Rightarrow> sso_env \<Rightarrow> time \<Rightarrow> string \<Rightarrow> string \<Rightarrow> string \<Rightarrow> string \<Rightarrow> adb \<Rightarrow> reply" where
  "SSOCallback L e now code errorParam loginIP userAgent db =
     (if errorParam \<noteq> [] then ((307, NoData), db)
      else if code = [] then ((307, NoData), db)
      else case LoginWithSSO L e now loginIP userAgent db of
        (Inl err, db') \<Rightarrow> ((307, NoData), db')
      | (Inr resp, db') \<Rightarrow> ((307, LoginData resp), db'))"

definition CreateUserByAdmin :: "libs \<Rightarrow> string \<Rightarrow> (RegisterRequest \<times> string \<times> string) option \<Rightarrow> adb \<Rightarrow> reply" where
  "CreateUserByAdmin L newID body db = (case body of
     None \<Rightarrow> ((400, NoData), db)
   | Some (req, role, authMethod) \<Rightarrow>
       (let authMethod = (if authMethod = [] then ''password'' else authMethod) in
        if authMethod \<noteq> ''password'' \<and> authMethod \<noteq> ''publickey'' then ((400, NoData), db)
        else user_reply (CreateUser L newID req role authMethod db)))"

definition UpdateUserByAdmin :: "libs \<Rightarrow> string \<Rightarrow> (string \<times> string \<times> string option \<times> bool option) option \<Rightarrow> adb \<Rightarrow> reply" where
  "UpdateUserByAdmin L userID body db = (case body of
     None \<Rightarrow> ((400, NoData), db)
   | Some (fullName, email, expiresAt, autoDisable) \<Rightarrow>
       (case UpdateUserInfo L userID fullName email db of
          (Some err, db') \<Rightarrow> ((400, NoData), db')
        | (None, db') \<Rightarrow> done_reply 400 (UpdateUserExpiration L userID expiresAt autoDisable db')))"

definition handler_UpdateUserRole :: "string \<Rightarrow> string option \<Rightarrow> adb \<Rightarrow> reply" where
  "handler_UpdateUserRole userID body db = (case body of
     None \<Rightarrow> ((400, NoData), db) | Some role \<Rightarrow> done_reply 400 (UpdateUserRole userID role db))"

definition handler_UpdateUserStatus :: "string \<Rightarrow> string option \<Rightarrow> adb \<Rightarrow> reply" where
  "handler_UpdateUserStatus userID body db = (case body of
     None \<Rightarrow> ((400, NoData), db) | Some status \<Rightarrow> done_reply 400 (UpdateUserStatus userID status db))"

definition handler_DeleteUser :: "request_context \<Rightarrow> string \<Rightarrow> adb \<Rightarrow> reply" where
  "handler_DeleteUser ctx userID db =
     (if rc_userID ctx = userID then ((400, NoData), db) else done_reply 400 (DeleteUser userID db))"

definition handler_ResetUserPassword :: "libs \<Rightarrow> string \<Rightarrow> string option \<Rightarrow> adb \<Rightarrow> reply" where
  "handler_ResetUserPassword L userID body db = (case body of
     None \<Rightarrow> ((400, NoData), db) | Some password \<Rightarrow> done_reply 400 (ResetUserPassword L userID password db))"

text \<open>The key handlers serve administrators and the user concerned.\<close>

definition may_manage :: "request_context \<Rightarrow> string \<Rightarrow> bool" where
  "may_manage ctx userID \<longleftrightarrow> rc_role ctx = ''admin'' \<or> rc_userID ctx = userID"

definition handler_GenerateSSHKey :: "libs \<Rightarrow> time \<Rightarrow> request_context \<Rightarrow> string \<Rightarrow> adb \<Rightarrow> reply" where
  "handler_GenerateSSHKey L now ctx userID db =
     (if \<not> may_manage ctx userID then ((403, NoData), db)
      else case GenerateSSHKey L now userID db of
        (Some err, db') \<Rightarrow> ((500, NoData), db')
      | (None, db') \<Rightarrow> (case FindUserByID userID db' of
          None \<Rightarrow> ((500, NoData), db')
        | Some u \<Rightarrow> ((200, KeyData (u_SSHKeyFingerprint u) (u_SSHPublicKey u)), db')))"

definition handler_DeleteSSHKey :: "libs \<Rightarrow> request_context \<Rightarrow> string \<Rightarrow> adb \<Rightarrow> reply" where
  "handler_DeleteSSHKey L ctx userID db =
     (if \<not> may_manage ctx userID then ((403, NoData), db) else done_reply 500 (DeleteSSHKey L userID db))"

definition DownloadSSHPrivateKey :: "libs \<Rightarrow> request_context \<Rightarrow> string \<Rightarrow> adb \<Rightarrow> reply" where
  "DownloadSSHPrivateKey L ctx userID db =
     (if \<not> may_manage ctx userID then ((403, NoData), db)
      else case GetSSHPrivateKey L userID db of
        Inl err \<Rightarrow> ((500, NoData), db)
      | Inr (key, username) \<Rightarrow> ((200, KeyData (username @ ''_zjump_ssh_key'') key), db))"

definition handler_UpdateUserAuthMethod :: "libs \<Rightarrow> request_context \<Rightarrow> string \<Rightarrow> string option \<Rightarrow> adb \<Rightarrow> reply" where
  "handler_UpdateUserAuthMethod L ctx userID body db =
     (if \<not> may_manage ctx userID then ((403, NoData), db)
      else case body of None \<Rightarrow> ((400, NoData), db)
      | Some m \<Rightarrow> done_reply 500 (UpdateUserAuthMethod L userID m db))"

section \<open>Handlers of two-factor authentication\<close>

definition first_config :: "adb \<Rightarrow> TwoFactorConfig option" where
  "first_config db = First tc_ID (\<lambda>c. True) (two_factor_config db)"

text \<open>Inserting a configuration: the next identifier, an empty issuer takes the
  default.\<close>

definition insert_config :: "TwoFactorConfig \<Rightarrow> adb \<Rightarrow> TwoFactorConfig \<times> adb" where
  "insert_config c db =
     (let c = c\<lparr>tc_ID := Suc (fold max (map tc_ID (two_factor_config db)) 0),
                tc_Issuer := (if tc_Issuer c = [] then ''ZJump'' else tc_Issuer c)\<rparr>
      in (c, db\<lparr>two_factor_config := two_factor_config db @ [c]\<rparr>))"

definition GetGlobalConfig :: "adb \<Rightarrow> reply" where
  "GetGlobalConfig db = (case first_config db of
     Some c \<Rightarrow> ((200, ConfigData c), db)
   | None \<Rightarrow> (let (c, db') = insert_config \<lparr> tc_ID = 0, tc_Enabled = False, tc_Issuer = ''ZJump'' \<rparr> db
             in ((200, ConfigData c), db')))"

definition UpdateGlobalConfig :: "(bool \<times> string) option \<Rightarrow> adb \<Rightarrow> reply" where
  "UpdateGlobalConfig body db = (case body of
     None \<Rightarrow> ((400, NoData), db)
   | Some (enabled, issuer) \<Rightarrow> (case first_config db of
       None \<Rightarrow> (let (c, db') = insert_config \<lparr> tc_ID = 0, tc_Enabled = enabled, tc_Issuer = issuer \<rparr> db
               in ((200, ConfigData c), db'))
     | Some c \<Rightarrow>
         (let c' = c\<lparr>tc_Enabled := enabled, tc_Issuer := (if issuer \<noteq> [] then issuer else tc_Issuer c)\<rparr>
          in ((200, ConfigData c'),
              db\<lparr>two_factor_config := update_where (\<lambda>x. tc_ID x = tc_ID c) (\<lambda>_. c') (two_factor_config db)\<rparr>))))"

definition save_reply :: "libs \<Rightarrow> User \<Rightarrow> payload \<Rightarrow> adb \<Rightarrow> reply" where
  "save_reply L user p db = (case UpdateUser L user db of
     None \<Rightarrow> ((500, NoData), db) | Some db' \<Rightarrow> ((200, p), db'))"

text \<open>\<open>secret\<close> is the answer of the secret generator, \<open>None\<close> when it or the QR code
  fails; \<open>rs\<close> are the answers of the random number generator.\<close>

definition SetupTwoFactor :: "string option \<Rightarrow> (nat option) list \<Rightarrow> request_context \<Rightarrow> adb \<Rightarrow> reply" where
  "SetupTwoFactor secret rs ctx db = (case FindUserByID (rc_userID ctx) db of
     None \<Rightarrow> ((404, NoData), db)
   | Some user \<Rightarrow>
       (if u_TwoFactorEnabled user then ((400, NoData), db)
        else case secret of None \<Rightarrow> ((500, NoData), db)
        | Some s \<Rightarrow> (case GenerateBackupCodes 10 rs of
            None \<Rightarrow> ((500, NoData), db)
          | Some codes \<Rightarrow> ((200, SetupData s codes), db))))"

definition VerifyTwoFactor ::
  "libs \<Rightarrow> time \<Rightarrow> (nat option) list \<Rightarrow> request_context \<Rightarrow> (string \<times> string) option \<Rightarrow> adb \<Rightarrow> reply" where
  "VerifyTwoFactor L now rs ctx body db = (case body of
     None \<Rightarrow> ((400, NoData), db)
   | Some (secret, code) \<Rightarrow> (case FindUserByID (rc_userID ctx) db of
       None \<Rightarrow> ((404, NoData), db)
     | Some user \<Rightarrow>
         (if \<not> totp_Validate L now secret code then ((400, NoData), db)
          else case GenerateBackupCodes 10 rs of
            None \<Rightarrow> ((500, NoData), db)
          | Some codes \<Rightarrow> save_reply L (user\<lparr>u_TwoFactorEnabled := True, u_TwoFactorSecret := secret,
              u_TwoFactorBackupCodes := SerializeBackupCodes codes, u_TwoFactorVerifiedAt := Some now\<rparr>) (Codes codes) db)))"

definition no_two_factor :: "User \<Rightarrow> User" where
  "no_two_factor user = user\<lparr>u_TwoFactorEnabled := False, u_TwoFactorSecret := [],
     u_TwoFactorBackupCodes := [], u_TwoFactorVerifiedAt := None\<rparr>"

definition DisableTwoFactor :: "libs \<Rightarrow> request_context \<Rightarrow> adb \<Rightarrow> reply" where
  "DisableTwoFactor L ctx db = (case FindUserByID (rc_userID ctx) db of
     None \<Rightarrow> ((404, NoData), db)
   | Some user \<Rightarrow>
       (if u_Role user \<noteq> ''admin'' then ((403, NoData), db)
        else save_reply L (no_two_factor user) NoData db))"

definition ResetUserTwoFactor :: "libs \<Rightarrow> request_context \<Rightarrow> string \<Rightarrow> adb \<Rightarrow> reply" where
  "ResetUserTwoFactor L ctx targetUserID db = (case FindUserByID (rc_userID ctx) db of
     None \<Rightarrow> ((404, NoData), db)
   | Some currentUser \<Rightarrow>
       (if u_Role currentUser \<noteq> ''admin'' then ((403, NoData), db)
        else if targetUserID = [] then ((400, NoData), db)
        else case FindUserByID targetUserID db of
          None \<Rightarrow> ((404, NoData), db)
        | Some user \<Rightarrow> save_reply L (no_two_factor user) NoData db))"

definition VerifyCode :: "libs \<Rightarrow> time \<Rightarrow> request_context \<Rightarrow> (string \<times> string) option \<Rightarrow> adb \<Rightarrow> reply" where
  "VerifyCode L now ctx body db = (case body of
     None \<Rightarrow> ((400, NoData), db)
   | Some (code, backupCode) \<Rightarrow> (case FindUserByID (rc_userID ctx) db of
       None \<Rightarrow> ((404, NoData), db)
     | Some user \<Rightarrow>
         (if \<not> u_TwoFactorEnabled user then ((400, NoData), db)
          else if validateTwoFactorCode L now user code backupCode then ((200, NoData), db)
          else ((400, NoData), db))))"

definition GetBackupCodes :: "request_context \<Rightarrow> adb \<Rightarrow> reply" where
  "GetBackupCodes ctx db = (case FindUserByID (rc_userID ctx) db of
     None \<Rightarrow> ((404, NoData), db)
   | Some user \<Rightarrow>
       (if \<not> u_TwoFactorEnabled user \<or> u_TwoFactorBackupCodes user = [] then ((400, NoData), db)
        else case DeserializeBackupCodes (u_TwoFactorBackupCodes user) of
          None \<Rightarrow> ((500, NoData), db) | Some codes \<Rightarrow> ((200, Codes codes), db)))"

definition RegenerateBackupCodes :: "libs \<Rightarrow> (nat option) list \<Rightarrow> request_context \<Rightarrow> adb \<Rightarrow> reply" where
  "RegenerateBackupCodes L rs ctx db = (case FindUserByID (rc_userID ctx) db of
     None \<Rightarrow> ((404, NoData), db)
   | Some user \<Rightarrow>
       (if \<not> u_TwoFactorEnabled user then ((400, NoData), db)
        else case GenerateBackupCodes 10 rs of
          None \<Rightarrow> ((500, NoData), db)
        | Some codes \<Rightarrow> save_reply L (user\<lparr>u_TwoFactorBackupCodes := SerializeBackupCodes codes\<rparr>) (Codes codes) db))"

section \<open>Routes\<close>

datatype account_request =
    R_Register string "RegisterRequest option"
  | R_Login string "LoginRequest option" string string
  | R_Logout
  | R_SSOCallback sso_env string string string string
  | R_SetupTwoFactor "string option" "(nat option) list"
  | R_VerifyTwoFactor "(nat option) list" "(string \<times> string) option"
  | R_DisableTwoFactor
  | R_VerifyCode "(string \<times> string) option"
  | R_GetBackupCodes
  | R_RegenerateBackupCodes "(nat option) list"
  | R_GenerateSSHKey string
  | R_DeleteSSHKey string
  | R_DownloadSSHPrivateKey string
  | R_UpdateUserAuthMethod string "string option"
  | R_CreateUser string "(RegisterRequest \<times> string \<times> string) option"
  | R_UpdateUser string "(string \<times> string \<times> string option \<times> bool option) option"
  | R_UpdateUserRole string "string option"
  | R_UpdateUserStatus string "string option"
  | R_DeleteUser string
  | R_ResetUserPassword string "string option"
  | R_GetGlobalConfig
  | R_UpdateGlobalConfig "(bool \<times> string) option"
  | R_ResetUserTwoFactor string

text \<open>Public routes have no middleware, hence no user in their context.\<close>

definition public_route :: "libs \<Rightarrow> time \<Rightarrow> account_request \<Rightarrow> (adb \<Rightarrow> reply) option" where
  "public_route L now req = (case req of
     R_Register newID body \<Rightarrow> Some (handler_Register L newID body)
   | R_Login newID body ip agent \<Rightarrow> Some (handler_Login L now newID body ip agent)
   | R_Logout \<Rightarrow> Some (handler_Logout None)
   | R_SSOCallback e code err ip agent \<Rightarrow> Some (SSOCallback L e now code err ip agent)
   | _ \<Rightarrow> None)"

definition authenticated_route :: "libs \<Rightarrow> time \<Rightarrow> request_context \<Rightarrow> account_request \<Rightarrow> (adb \<Rightarrow> reply) option" where
  "authenticated_route L now ctx req = (case req of
     R_SetupTwoFactor secret rs \<Rightarrow> Some (SetupTwoFactor secret rs ctx)
   | R_VerifyTwoFactor rs body \<Rightarrow> Some (VerifyTwoFactor L now rs ctx body)
   | R_DisableTwoFactor \<Rightarrow> Some (DisableTwoFactor L ctx)
   | R_VerifyCode body \<Rightarrow> Some (VerifyCode L now ctx body)
   | R_GetBackupCodes \<Rightarrow> Some (GetBackupCodes ctx)
   | R_RegenerateBackupCodes rs \<Rightarrow> Some (RegenerateBackupCodes L rs ctx)
   | R_GenerateSSHKey i \<Rightarrow> Some (handler_GenerateSSHKey L now ctx i)
   | R_DeleteSSHKey i \<Rightarrow> Some (handler_DeleteSSHKey L ctx i)
   | R_DownloadSSHPrivateKey i \<Rightarrow> Some (DownloadSSHPrivateKey L ctx i)
   | R_UpdateUserAuthMethod i body \<Rightarrow> Some (handler_UpdateUserAuthMethod L ctx i body)
   | _ \<Rightarrow> None)"

definition admin_route :: "libs \<Rightarrow> request_context \<Rightarrow> account_request \<Rightarrow> adb \<Rightarrow> reply" where
  "admin_route L ctx req = (case req of
     R_CreateUser newID body \<Rightarrow> CreateUserByAdmin L newID body
   | R_UpdateUser i body \<Rightarrow> UpdateUserByAdmin L i body
   | R_UpdateUserRole i body \<Rightarrow> handler_UpdateUserRole i body
   | R_UpdateUserStatus i body \<Rightarrow> handler_UpdateUserStatus i body
   | R_DeleteUser i \<Rightarrow> handler_DeleteUser ctx i
   | R_ResetUserPassword i body \<Rightarrow> handler_ResetUserPassword L i body
   | R_GetGlobalConfig \<Rightarrow> GetGlobalConfig
   | R_UpdateGlobalConfig body \<Rightarrow> UpdateGlobalConfig body
   | R_ResetUserTwoFactor i \<Rightarrow> ResetUserTwoFactor L ctx i
   | _ \<Rightarrow> (\<lambda>db. ((404, NoData), db)))"

definition serve :: "libs \<Rightarrow> time \<Rightarrow> string \<Rightarrow> string \<Rightarrow> account_request \<Rightarrow> adb \<Rightarrow> reply" where
  "serve L now header query req db = (case public_route L now req of
     Some h \<Rightarrow> h db
   | None \<Rightarrow> (case AuthMiddleware L now header query of
       Inl st \<Rightarrow> ((st, NoData), db)
     | Inr ctx \<Rightarrow> (case authenticated_route L now ctx req of
         Some h \<Rightarrow> h db
       | None \<Rightarrow> (case AdminMiddleware (Some ctx) of
           Some st \<Rightarrow> ((st, NoData), db)
         | None \<Rightarrow> admin_route L ctx req db))))"

section \<open>Requests keep the table sound\<close>

lemma snd_user_reply [simp]: "snd (user_reply r) = snd r"
  by (cases r; cases "fst r") (simp_all add: user_reply_def)

lemma snd_done_reply [simp]: "snd (done_reply st r) = snd r"
  by (cases r; cases "fst r") (simp_all add: done_reply_def)

lemma accounts_ok_save_reply:
  assumes "accounts_ok L db" "FindUserByID i db = Some u" "u_Role u' = u_Role u" "u_Status u' = u_Status u"
  shows "accounts_ok L (snd (save_reply L u' p db))"
  using assms accounts_ok_save [OF assms(1)] accounts_ok_row [OF assms(1)] FindUserByID_Some [OF assms(2)]
  by (auto simp: save_reply_def split: option.splits)

lemma accounts_ok_save_two_factor:
  "accounts_ok L db \<Longrightarrow> FindUserByID i db = Some u \<Longrightarrow> accounts_ok L (snd (save_reply L (u\<lparr>u_TwoFactorEnabled := a,
     u_TwoFactorSecret := b, u_TwoFactorBackupCodes := c, u_TwoFactorVerifiedAt := d\<rparr>) p db))"
  "accounts_ok L db \<Longrightarrow> FindUserByID i db = Some u \<Longrightarrow>
     accounts_ok L (snd (save_reply L (u\<lparr>u_TwoFactorBackupCodes := c\<rparr>) p db))"
  by (rule accounts_ok_save_reply; simp)+

lemma accounts_ok_set_user': 
  "accounts_ok L db \<Longrightarrow> (\<And>u. u_ID (f u) = u_ID u \<and> u_Username (f u) = u_Username u \<and> u_Email (f u) = u_Email u) \<Longrightarrow>
   (\<And>u. u \<in> set (users db) \<Longrightarrow> u_Role (f u) \<in> {''admin'', ''user''} \<and> u_Status (f u) \<in> {''active'', ''inactive''}) \<Longrightarrow>
   accounts_ok L (set_user i f db)"
  unfolding set_user_def by (rule accounts_ok_set_user) auto

lemma accounts_ok_UpdateUserInfo: "accounts_ok L db \<Longrightarrow> accounts_ok L (snd (UpdateUserInfo L i n e db))"
  unfolding UpdateUserInfo_def by (rule accounts_ok_modify) (auto split: if_splits option.splits)

lemma accounts_ok_UpdateUserExpiration: "accounts_ok L db \<Longrightarrow> accounts_ok L (snd (UpdateUserExpiration L i e b db))"
  unfolding UpdateUserExpiration_def
  by (rule accounts_ok_modify) (auto simp: Let_def split: if_splits option.splits)

lemma accounts_ok_ResetUserPassword: "accounts_ok L db \<Longrightarrow> accounts_ok L (snd (ResetUserPassword L i pw db))"
  unfolding ResetUserPassword_def by (rule accounts_ok_modify) (auto split: option.splits)

lemma accounts_ok_DeleteSSHKey: "accounts_ok L db \<Longrightarrow> accounts_ok L (snd (DeleteSSHKey L i db))"
  unfolding DeleteSSHKey_def by (rule accounts_ok_modify) auto

lemma accounts_ok_UpdateUserAuthMethod: "accounts_ok L db \<Longrightarrow> accounts_ok L (snd (UpdateUserAuthMethod L i m db))"
  unfolding UpdateUserAuthMethod_def by (rule accounts_ok_modify) (auto split: if_splits)

lemma accounts_ok_UpdateUserRole: "accounts_ok L db \<Longrightarrow> accounts_ok L (snd (UpdateUserRole i r db))"
  by (auto simp: UpdateUserRole_def repo_UpdateUserRole_def intro!: accounts_ok_set_user' dest: accounts_ok_row)

lemma accounts_ok_UpdateUserStatus: "accounts_ok L db \<Longrightarrow> accounts_ok L (snd (UpdateUserStatus i r db))"
  by (auto simp: UpdateUserStatus_def repo_UpdateUserStatus_def intro!: accounts_ok_set_user' dest: accounts_ok_row)

lemma accounts_ok_DeleteUser: "accounts_ok L db \<Longrightarrow> accounts_ok L (snd (DeleteUser i db))"
  by (auto simp: DeleteUser_def repo_DeleteUser_def intro!: accounts_ok_set_user' dest: accounts_ok_row)

lemma accounts_ok_Register: "accounts_ok L db \<Longrightarrow> accounts_ok L (snd (Register_user L i req db))"
  by (simp add: Register_user_def accounts_ok_Register_as)

lemma accounts_ok_CreateUser: "accounts_ok L db \<Longrightarrow> accounts_ok L (snd (CreateUser L i req r m db))"
  by (simp add: CreateUser_def accounts_ok_Register_as)

lemma accounts_ok_config [simp]: "accounts_ok L (db\<lparr>two_factor_config := c\<rparr>) = accounts_ok L db"
  by (simp add: accounts_ok_def)

lemmas service_ok = accounts_ok_UpdateUserInfo accounts_ok_UpdateUserExpiration accounts_ok_ResetUserPassword
  accounts_ok_DeleteSSHKey accounts_ok_UpdateUserAuthMethod accounts_ok_UpdateUserRole accounts_ok_UpdateUserStatus
  accounts_ok_DeleteUser accounts_ok_Register accounts_ok_CreateUser accounts_ok_GenerateSSHKey
  accounts_ok_Login accounts_ok_LoginWithSSO

text \<open>A handler that only passes on the database of a service call.\<close>

lemma accounts_ok_pair: "r = (a, db') \<Longrightarrow> accounts_ok L (snd r) \<Longrightarrow> accounts_ok L db'"
  by simp

lemma public_ok: "public_route L now req = Some h \<Longrightarrow> accounts_ok L db \<Longrightarrow> accounts_ok L (snd (h db))"
  by (auto simp: public_route_def handler_Register_def handler_Login_def handler_Logout_def SSOCallback_def
      split: account_request.splits option.splits prod.splits sum.splits
      intro!: service_ok intro: accounts_ok_pair [OF _ accounts_ok_Login] accounts_ok_pair [OF _ accounts_ok_LoginWithSSO])

lemma authenticated_ok: "authenticated_route L now ctx req = Some h \<Longrightarrow> accounts_ok L db \<Longrightarrow> accounts_ok L (snd (h db))"
  by (auto simp: authenticated_route_def SetupTwoFactor_def VerifyTwoFactor_def DisableTwoFactor_def VerifyCode_def
      GetBackupCodes_def RegenerateBackupCodes_def handler_GenerateSSHKey_def handler_DeleteSSHKey_def
      DownloadSSHPrivateKey_def handler_UpdateUserAuthMethod_def no_two_factor_def
      split: account_request.splits option.splits prod.splits sum.splits
      intro!: service_ok accounts_ok_save_two_factor intro: accounts_ok_pair [OF _ accounts_ok_GenerateSSHKey])

lemma UpdateUserByAdmin_ok: "accounts_ok L db \<Longrightarrow> accounts_ok L (snd (UpdateUserByAdmin L i body db))"
  by (auto simp: UpdateUserByAdmin_def split: option.splits prod.splits
      intro!: service_ok intro: accounts_ok_pair [OF _ accounts_ok_UpdateUserInfo])

lemma config_ok: "accounts_ok L db \<Longrightarrow> accounts_ok L (snd (GetGlobalConfig db))"
  "accounts_ok L db \<Longrightarrow> accounts_ok L (snd (UpdateGlobalConfig cbody db))"
  by (auto simp: GetGlobalConfig_def UpdateGlobalConfig_def insert_config_def Let_def split: option.splits)

lemma admin_ok: "accounts_ok L db \<Longrightarrow> accounts_ok L (snd (admin_route L ctx req db))"
  by (auto simp: admin_route_def CreateUserByAdmin_def handler_UpdateUserRole_def handler_UpdateUserStatus_def
      handler_DeleteUser_def handler_ResetUserPassword_def ResetUserTwoFactor_def no_two_factor_def Let_def
      split: account_request.splits option.splits prod.splits
      intro!: service_ok accounts_ok_save_two_factor UpdateUserByAdmin_ok config_ok)

lemma serve_ok: "accounts_ok L db \<Longrightarrow> accounts_ok L (snd (serve L now header query req db))"
  by (auto simp: serve_def split: option.splits sum.splits intro: public_ok authenticated_ok admin_ok)

text \<open>Serving requests one after the other, each at its time and with its
  credentials.\<close>

fun serve_all :: "libs \<Rightarrow> (time \<times> string \<times> string \<times> account_request) list \<Rightarrow> adb \<Rightarrow> adb" where
  "serve_all L [] db = db"
| "serve_all L ((now, header, query, req) # rs) db = serve_all L rs (snd (serve L now header query req db))"

text \<open>C27: requests keep the accounts sound.  Over every sequence of requests, by
  anybody, identifiers, user names and e-mail addresses stay unique, roles stay
  \<open>admin\<close> or \<open>user\<close>, and states stay \<open>active\<close> or \<open>inactive\<close>.\<close>

theorem requests_keep_accounts_ok:
  assumes "accounts_ok L db"
  shows "accounts_ok L (serve_all L rs db)"
  using assms by (induction L rs db rule: serve_all.induct) (auto intro: serve_ok)

theorem requests_keep_accounts_ok_witness:
  "accounts_ok sample_libs (serve_all sample_libs
     [(0, [], [], R_Login ''r1'' (Some sample_login) ''ip'' ''ua''),
      (minute, ''Bearer t-u1'', [], R_UpdateUserStatus ''u1'' (Some ''inactive''))] sample_adb)"
proof -
  have "accounts_ok sample_libs sample_adb" by code_simp
  then show ?thesis by (rule requests_keep_accounts_ok)
qed

section \<open>Requests of ordinary users are confined\<close>

text \<open>What only an administrator may change of an account, and what only its owner
  or an administrator may change.\<close>

definition keeps_account :: "User \<Rightarrow> User \<Rightarrow> bool" where
  "keeps_account u u' \<longleftrightarrow> u_ID u' = u_ID u \<and> u_Username u' = u_Username u \<and> u_Role u' = u_Role u \<and>
     u_Status u' = u_Status u \<and> u_Password u' = u_Password u \<and> u_ExpiresAt u' = u_ExpiresAt u \<and>
     u_AutoDisableOnExpiry u' = u_AutoDisableOnExpiry u"

definition keeps_credentials :: "User \<Rightarrow> User \<Rightarrow> bool" where
  "keeps_credentials u u' \<longleftrightarrow> u_SSHPublicKey u' = u_SSHPublicKey u \<and>
     u_SSHPrivateKeyEncrypted u' = u_SSHPrivateKeyEncrypted u \<and> u_AuthMethod u' = u_AuthMethod u \<and>
     u_TwoFactorEnabled u' = u_TwoFactorEnabled u \<and> u_TwoFactorSecret u' = u_TwoFactorSecret u \<and>
     u_TwoFactorBackupCodes u' = u_TwoFactorBackupCodes u"

definition guarded :: "string option \<Rightarrow> adb \<Rightarrow> adb \<Rightarrow> bool" where
  "guarded caller db db' \<longleftrightarrow> (\<exists>f new. users db' = map f (users db) @ new \<and>
     (\<forall>u\<in>set (users db). keeps_account u (f u) \<and> (caller \<noteq> Some (u_ID u) \<longrightarrow> keeps_credentials u (f u))) \<and>
     (\<forall>u\<in>set new. u_Role u = ''user''))"

lemma keeps_refl [simp]: "keeps_account u u" "keeps_credentials u u"
  by (simp_all add: keeps_account_def keeps_credentials_def)

lemma guarded_same_users: "users db' = users db \<Longrightarrow> guarded c db db'"
  unfolding guarded_def by (intro exI [of _ id] exI [of _ "[]"]) simp

lemma guarded_trans:
  assumes "guarded c a b" "guarded c b d"
  shows "guarded c a d"
proof -
  from assms(1) obtain f new where 1: "users b = map f (users a) @ new"
    "\<forall>u\<in>set (users a). keeps_account u (f u) \<and> (c \<noteq> Some (u_ID u) \<longrightarrow> keeps_credentials u (f u))"
    "\<forall>u\<in>set new. u_Role u = ''user''" unfolding guarded_def by blast
  from assms(2) obtain g more where 2: "users d = map g (users b) @ more"
    "\<forall>u\<in>set (users b). keeps_account u (g u) \<and> (c \<noteq> Some (u_ID u) \<longrightarrow> keeps_credentials u (g u))"
    "\<forall>u\<in>set more. u_Role u = ''user''" unfolding guarded_def by blast
  show ?thesis unfolding guarded_def
    by (intro exI [of _ "g \<circ> f"] exI [of _ "map g new @ more"])
      (use 1 2 in \<open>auto simp: keeps_account_def keeps_credentials_def\<close>)
qed

lemma guarded_update:
  assumes "\<And>u. u \<in> set (users db) \<Longrightarrow> P u \<Longrightarrow> keeps_account u (f u)"
    and "\<And>u. u \<in> set (users db) \<Longrightarrow> P u \<Longrightarrow> c \<noteq> Some (u_ID u) \<Longrightarrow> keeps_credentials u (f u)"
  shows "guarded c db (db\<lparr>users := update_where P f (users db)\<rparr>)"
  unfolding guarded_def update_where_def
  by (intro exI [of _ "\<lambda>u. if P u then f u else u"] exI [of _ "[]"]) (use assms in simp)

lemma guarded_save:
  assumes "accounts_ok L db" "u \<in> set (users db)" "UpdateUser L u' db = Some db'"
    and "keeps_account u u'" "c \<noteq> Some (u_ID u) \<Longrightarrow> keeps_credentials u u'"
  shows "guarded c db db'"
proof -
  have same: "v = u" if "v \<in> set (users db)" "u_ID v = u_ID u'" for v
    using assms(1,2,4) that by (auto simp: accounts_ok_def distinct_map inj_on_def keeps_account_def)
  from assms(3) have "db' = db\<lparr>users := update_where (\<lambda>v. u_ID v = u_ID u') (\<lambda>_. u') (users db)\<rparr>"
    by (simp add: UpdateUser_def split: if_splits)
  then show ?thesis using assms(4,5) same by (auto intro!: guarded_update)
qed

lemma guarded_create: "repo_CreateUser L u db = Some (u', db') \<Longrightarrow> u_Role u = ''user'' \<Longrightarrow> guarded c db db'"
  unfolding guarded_def
  by (intro exI [of _ id] exI [of _ "[u']"]) (auto simp: repo_CreateUser_def Let_def split: if_splits)

lemma guarded_modify:
  assumes "accounts_ok L db"
    and "\<And>u u'. f u = Inr u' \<Longrightarrow> keeps_account u u'"
  shows "guarded (Some i) db (snd (modify_user L i f db))"
proof (cases "FindUserByID i db")
  case (Some u)
  then have u: "u \<in> set (users db)" "u_ID u = i" by (simp_all add: FindUserByID_Some)
  then have "guarded (Some i) db db'" if "f u = Inr u'" "UpdateUser L u' db = Some db'" for u' db'
    using guarded_save [OF assms(1) u(1) that(2) assms(2) [OF that(1)], of "Some i"] u(2) by simp
  then show ?thesis using Some
    by (auto simp: modify_user_def guarded_same_users split: sum.splits option.splits)
qed (simp add: modify_user_def guarded_same_users)

lemma guarded_finish: "guarded c db (snd (finish_login L now i ip ag needs u db))"
proof -
  have "guarded c db (UpdateUserLastLogin j t ip db)" for j t ip
    unfolding UpdateUserLastLogin_def by (rule guarded_update) (simp_all add: keeps_account_def keeps_credentials_def)
  moreover have "guarded c x (CreatePlatformLoginRecord r x)" for r x
    by (rule guarded_same_users) (simp add: CreatePlatformLoginRecord_def)
  ultimately have "guarded c db (CreatePlatformLoginRecord r (UpdateUserLastLogin j t ip db))" for r j t ip
    using guarded_trans by blast
  then show ?thesis by (simp add: finish_login_def guarded_same_users split: option.split)
qed

lemma guarded_Login: "guarded c db (snd (Login L now i req ip ag db))"
  by (auto simp: Login_def Let_def guarded_finish guarded_same_users split: sum.split)

lemma guarded_Register: "guarded c db (snd (Register_user L i req db))"
  by (auto simp: Register_user_def register_as_def new_user_def guarded_same_users split: option.split intro: guarded_create)

lemma guarded_CreateOrUpdate:
  assumes "accounts_ok L db"
  shows "guarded c db (snd (CreateOrUpdateSSOUser L e info db))"
proof (cases "sso_found L info db")
  case None
  then show ?thesis
    by (auto simp: CreateOrUpdateSSOUser_def new_user_def guarded_same_users split: option.splits intro: guarded_create)
next
  case (Some u)
  have "keeps_account u (sso_updated info u)" "keeps_credentials u (sso_updated info u)"
    by (simp_all add: keeps_account_def keeps_credentials_def sso_updated_def Let_def)
  then show ?thesis using Some guarded_save [OF assms sso_found_mem [OF Some]]
    by (auto simp: CreateOrUpdateSSOUser_def guarded_same_users split: option.splits)
qed

lemma guarded_LoginWithSSO:
  assumes "accounts_ok L db"
  shows "guarded c db (snd (LoginWithSSO L e now ip ag db))"
proof -
  have "guarded c db db'" if "CreateOrUpdateSSOUser L e info db = (r, db')" for info r db'
    using guarded_CreateOrUpdate [OF assms, of c e info] that by simp
  then show ?thesis
    by (auto simp: LoginWithSSO_def Let_def guarded_same_users split: option.split sum.split prod.split
        intro: guarded_trans [OF _ guarded_finish])
qed

lemma guarded_pair: "r = (a, db') \<Longrightarrow> guarded c db (snd r) \<Longrightarrow> guarded c db db'"
  by simp

lemma public_guarded: "accounts_ok L db \<Longrightarrow> public_route L now req = Some h \<Longrightarrow> guarded c db (snd (h db))"
  by (auto simp: public_route_def handler_Register_def handler_Login_def handler_Logout_def SSOCallback_def
      guarded_same_users guarded_Register split: account_request.splits option.splits prod.splits sum.splits
      intro: guarded_pair [OF _ guarded_Login] guarded_pair [OF _ guarded_LoginWithSSO])

lemma guarded_save_two_factor:
  assumes "accounts_ok L db" "FindUserByID i db = Some u"
  shows "guarded (Some i) db (snd (save_reply L (u\<lparr>u_TwoFactorEnabled := a, u_TwoFactorSecret := b,
      u_TwoFactorBackupCodes := x, u_TwoFactorVerifiedAt := d\<rparr>) p db))"
    and "guarded (Some i) db (snd (save_reply L (u\<lparr>u_TwoFactorBackupCodes := x\<rparr>) p db))"
  using FindUserByID_Some [OF assms(2)]
  by (auto simp: save_reply_def guarded_same_users keeps_account_def split: option.split
      intro!: guarded_save [OF assms(1)])

lemma guarded_keys:
  assumes "accounts_ok L db"
  shows "guarded (Some i) db (snd (GenerateSSHKey L now i db))" "guarded (Some i) db (snd (DeleteSSHKey L i db))"
    "guarded (Some i) db (snd (UpdateUserAuthMethod L i m db))"
  unfolding GenerateSSHKey_def DeleteSSHKey_def UpdateUserAuthMethod_def
  by (auto simp: keeps_account_def split: option.splits if_splits intro!: guarded_modify [OF assms])

lemma authenticated_guarded:
  "accounts_ok L db \<Longrightarrow> rc_role ctx \<noteq> ''admin'' \<Longrightarrow> authenticated_route L now ctx req = Some h \<Longrightarrow>
     guarded (Some (rc_userID ctx)) db (snd (h db))"
  by (auto simp: authenticated_route_def SetupTwoFactor_def VerifyTwoFactor_def DisableTwoFactor_def VerifyCode_def
      GetBackupCodes_def RegenerateBackupCodes_def handler_GenerateSSHKey_def handler_DeleteSSHKey_def may_manage_def
      DownloadSSHPrivateKey_def handler_UpdateUserAuthMethod_def no_two_factor_def guarded_same_users
      split: account_request.splits option.splits prod.splits sum.splits
      intro!: guarded_save_two_factor guarded_keys intro: guarded_pair [OF _ guarded_keys(1)])

text \<open>C8: requests without an administrator's token are confined.  Whatever a
  request that is not made with a valid token of an administrator asks for, every
  account keeps its name, role, state, password and expiry, only the caller's own
  account may change its SSH keys, authentication method and second factor, and
  new accounts are ordinary ones.\<close>

theorem ordinary_requests_confined:
  assumes "accounts_ok L db"
    and "\<forall>ctx. AuthMiddleware L now header query = Inr ctx \<longrightarrow> rc_role ctx \<noteq> ''admin''"
  shows "guarded (case AuthMiddleware L now header query of Inl _ \<Rightarrow> None | Inr ctx \<Rightarrow> Some (rc_userID ctx))
    db (snd (serve L now header query req db))"
proof (cases "public_route L now req")
  case (Some h)
  then show ?thesis using public_guarded [OF assms(1) Some] by (simp add: serve_def)
next
  case None
  then show ?thesis
  proof (cases "AuthMiddleware L now header query")
    case (Inr ctx)
    then have "rc_role ctx \<noteq> ''admin''" using assms(2) by simp
    then show ?thesis using None Inr authenticated_guarded [OF assms(1), of ctx now req]
      by (auto simp: serve_def AdminMiddleware_def guarded_same_users split: option.split)
  qed (simp add: serve_def guarded_same_users)
qed

theorem ordinary_requests_confined_witness:
  "guarded None sample_adb (snd (serve sample_libs 0 [] [] (R_UpdateUserRole ''u1'' (Some ''user'')) sample_adb))"
proof -
  have 1: "accounts_ok sample_libs sample_adb" by code_simp
  have 2: "AuthMiddleware sample_libs 0 [] [] = Inl 401" by code_simp
  show ?thesis using ordinary_requests_confined [OF 1, of 0 "[]" "[]" "R_UpdateUserRole ''u1'' (Some ''user'')"]
    by (simp add: 2)
qed

section \<open>Login records are never closed\<close>

lemma UpdateUser_records: "UpdateUser L u db = Some db' \<Longrightarrow> login_records db' = login_records db"
  by (auto simp: UpdateUser_def split: if_splits)

lemma repo_CreateUser_records: "repo_CreateUser L u db = Some (u', db') \<Longrightarrow> login_records db' = login_records db"
  by (auto simp: repo_CreateUser_def Let_def split: if_splits)

lemma modify_user_records [simp]: "login_records (snd (modify_user L i f db)) = login_records db"
  by (auto simp: modify_user_def UpdateUser_records split: option.split sum.split)

lemma save_reply_records [simp]: "login_records (snd (save_reply L u p db)) = login_records db"
  by (auto simp: save_reply_def UpdateUser_records split: option.split)

lemma register_records [simp]: "login_records (snd (register_as L i req r m db)) = login_records db"
  by (auto simp: register_as_def repo_CreateUser_records split: option.split)

lemma finish_login_records: "prefix (login_records db) (login_records (snd (finish_login L now i ip ag needs u db)))"
  by (auto simp: finish_login_def CreatePlatformLoginRecord_def UpdateUserLastLogin_def split: option.split)

lemma Login_records: "prefix (login_records db) (login_records (snd (Login L now i req ip ag db)))"
  by (auto simp: Login_def Let_def finish_login_records split: sum.split)

lemma CreateOrUpdate_records: "CreateOrUpdateSSOUser L e info db = (r, db') \<Longrightarrow> login_records db' = login_records db"
  by (auto simp: CreateOrUpdateSSOUser_def UpdateUser_records repo_CreateUser_records split: option.splits)

lemma LoginWithSSO_records: "prefix (login_records db) (login_records (snd (LoginWithSSO L e now ip ag db)))"
  by (auto simp: LoginWithSSO_def Let_def CreateOrUpdate_records split: option.split sum.split prod.split)
    (metis CreateOrUpdate_records finish_login_records)

lemma records_pair: "r = (a, db') \<Longrightarrow> prefix t (login_records (snd r)) \<Longrightarrow> prefix t (login_records db')"
  by simp

lemma public_records: "public_route L now req = Some h \<Longrightarrow> prefix (login_records db) (login_records (snd (h db)))"
  by (auto simp: public_route_def handler_Register_def handler_Login_def handler_Logout_def SSOCallback_def
      Register_user_def split: account_request.splits option.splits prod.splits sum.splits
      intro: records_pair [OF _ Login_records] records_pair [OF _ LoginWithSSO_records])

lemma service_records [simp]:
  "login_records (snd (GenerateSSHKey L now i db)) = login_records db"
  "login_records (snd (DeleteSSHKey L i db)) = login_records db"
  "login_records (snd (UpdateUserAuthMethod L i m db)) = login_records db"
  "login_records (snd (UpdateUserInfo L i n e db)) = login_records db"
  "login_records (snd (UpdateUserExpiration L i x b db)) = login_records db"
  "login_records (snd (ResetUserPassword L i pw db)) = login_records db"
  "login_records (snd (UpdateUserRole i m db)) = login_records db"
  "login_records (snd (UpdateUserStatus i m db)) = login_records db"
  "login_records (snd (DeleteUser i db)) = login_records db"
  by (simp_all add: GenerateSSHKey_def DeleteSSHKey_def UpdateUserAuthMethod_def UpdateUserInfo_def
      UpdateUserExpiration_def ResetUserPassword_def UpdateUserRole_def UpdateUserStatus_def DeleteUser_def
      repo_UpdateUserRole_def repo_UpdateUserStatus_def repo_DeleteUser_def set_user_def)

lemma same_records: "r = (a, db') \<Longrightarrow> login_records (snd r) = t \<Longrightarrow> login_records db' = t"
  by simp

lemma authenticated_records: "authenticated_route L now ctx req = Some h \<Longrightarrow> login_records (snd (h db)) = login_records db"
  by (auto simp: authenticated_route_def SetupTwoFactor_def VerifyTwoFactor_def DisableTwoFactor_def VerifyCode_def
      GetBackupCodes_def RegenerateBackupCodes_def handler_GenerateSSHKey_def handler_DeleteSSHKey_def
      DownloadSSHPrivateKey_def handler_UpdateUserAuthMethod_def
      split: account_request.splits option.splits prod.splits sum.splits
      intro: same_records [OF _ service_records(1)])

lemma UpdateUserByAdmin_records: "login_records (snd (UpdateUserByAdmin L i body db)) = login_records db"
  by (auto simp: UpdateUserByAdmin_def split: option.splits prod.splits intro: same_records [OF _ service_records(4)])

lemma config_records: "login_records (snd (GetGlobalConfig db)) = login_records db"
  "login_records (snd (UpdateGlobalConfig cbody db)) = login_records db"
  by (simp_all add: GetGlobalConfig_def UpdateGlobalConfig_def insert_config_def Let_def split: option.split prod.split)

lemma admin_records: "login_records (snd (admin_route L ctx req db)) = login_records db"
  by (cases req) (auto simp: admin_route_def CreateUserByAdmin_def handler_UpdateUserRole_def CreateUser_def
      handler_UpdateUserStatus_def handler_DeleteUser_def handler_ResetUserPassword_def ResetUserTwoFactor_def
      UpdateUserByAdmin_records config_records Let_def split: option.split)

lemma serve_records: "prefix (login_records db) (login_records (snd (serve L now header query req db)))"
  by (auto simp: serve_def authenticated_records admin_records public_records split: option.splits sum.splits)

text \<open>Nobody can log out.  The logout route stands outside the authenticated
  group, so its handler never finds a user in its context and refuses; and since
  no other request touches them, over every sequence of requests the login records
  only grow, and a record once active stays active.\<close>

theorem login_records_never_closed:
  "prefix (login_records db) (login_records (serve_all L rs db)) \<and>
   serve L now header query R_Logout db = ((401, NoData), db)"
proof
  show "prefix (login_records db) (login_records (serve_all L rs db))"
    by (induction L rs db rule: serve_all.induct) (auto intro: prefix_order.trans [OF serve_records])
  show "serve L now header query R_Logout db = ((401, NoData), db)"
    by (simp add: serve_def public_route_def handler_Logout_def)
qed

end
