(* ===== verification/Permissions.thy ===== *)
theory Permissions
imports Go_Json
begin

text \<open>
  Who may log in where as whom: \<open>internal/repository/system_user_repository.go\<close>
  over the tables of \<open>internal/model/system_user.go\<close>, and the request handlers of
  \<open>internal/api/handler/permission_rule_handler.go\<close>.  A permission rule ties a
  user group to system users and to host groups or listed hosts, in a period of
  time.  The keys and foreign keys of the schema (\<open>sql/init.sql\<close>) are checked when
  rows are written, deletions cascade along them, and a transaction that fails
  leaves the database unchanged.  Identifiers are compared exactly, and a new row comes with
  the time stamps that gorm fills in.
\<close>

section \<open>Tables\<close>

record SystemUser =
  su_ID :: string
  su_Name :: string
  su_Username :: string
  su_AuthType :: string
  su_Password :: string
  su_PrivateKey :: string
  su_Passphrase :: string
  su_Protocol :: string
  su_Priority :: int
  su_Description :: string
  su_Status :: string
  su_CreatedBy :: string
  su_CreatedAt :: time

record UserGroup =
  ug_ID :: string
  ug_Name :: string
  ug_Description :: string
  ug_Color :: string
  ug_Icon :: string
  ug_Priority :: int
  ug_Status :: string
  ug_CreatedBy :: string
  ug_CreatedAt :: time

record HostGroup =
  hg_ID :: string
  hg_Name :: string
  hg_Description :: string
  hg_Color :: string
  hg_Icon :: string
  hg_SortOrder :: int
  hg_CreatedBy :: string
  hg_CreatedAt :: time

record PermissionRule =
  pr_ID :: string
  pr_Name :: string
  pr_UserGroupID :: string
  pr_HostGroupID :: "string option"
  pr_HostIDs :: string
  pr_SystemUserID :: "string option"
  pr_ValidFrom :: "time option"
  pr_ValidTo :: "time option"
  pr_Enabled :: bool
  pr_Priority :: int
  pr_Description :: string
  pr_CreatedBy :: string
  pr_CreatedAt :: time

text \<open>Membership and relation tables are lists of pairs: (group, user), (group,
  host), (rule, system user) and (rule, host group).\<close>

record pdb =
  system_users :: "SystemUser list"
  user_groups :: "UserGroup list"
  host_groups :: "HostGroup list"
  user_group_members :: "(string \<times> string) list"
  host_group_members :: "(string \<times> string) list"
  permission_rules :: "PermissionRule list"
  rule_system_users :: "(string \<times> string) list"
  rule_host_groups :: "(string \<times> string) list"

datatype perm_error = DuplicateKey | ForeignKey | RecordNotFound | DbError

section \<open>System users\<close>

text \<open>Empty columns with a default take the default on creation.\<close>

definition or_default :: "string \<Rightarrow> string \<Rightarrow> string" where
  "or_default d s = (if s = [] then d else s)"

definition SystemUser_Create :: "SystemUser \<Rightarrow> pdb \<Rightarrow> perm_error + pdb" where
  "SystemUser_Create su db =
     (if su_ID su \<in> su_ID ` set (system_users db) then Inl DuplicateKey
      else Inr (db\<lparr>system_users := system_users db @
        [su\<lparr>su_AuthType := or_default ''password'' (su_AuthType su),
            su_Protocol := or_default ''ssh'' (su_Protocol su),
            su_Status := or_default ''active'' (su_Status su)\<rparr>]\<rparr>))"

text \<open>\<open>Updates\<close> with a struct writes only the fields that are not zero.\<close>

definition merge_su :: "SystemUser \<Rightarrow> SystemUser \<Rightarrow> SystemUser" where
  "merge_su n old = old\<lparr>
     su_Name := or_default (su_Name old) (su_Name n), su_Username := or_default (su_Username old) (su_Username n),
     su_AuthType := or_default (su_AuthType old) (su_AuthType n), su_Password := or_default (su_Password old) (su_Password n),
     su_PrivateKey := or_default (su_PrivateKey old) (su_PrivateKey n),
     su_Passphrase := or_default (su_Passphrase old) (su_Passphrase n),
     su_Protocol := or_default (su_Protocol old) (su_Protocol n),
     su_Priority := (if su_Priority n = 0 then su_Priority old else su_Priority n),
     su_Description := or_default (su_Description old) (su_Description n),
     su_Status := or_default (su_Status old) (su_Status n),
     su_CreatedBy := or_default (su_CreatedBy old) (su_CreatedBy n)\<rparr>"

definition SystemUser_Update :: "SystemUser \<Rightarrow> pdb \<Rightarrow> pdb" where
  "SystemUser_Update su db =
     db\<lparr>system_users := update_where (\<lambda>s. su_ID s = su_ID su) (merge_su su) (system_users db)\<rparr>"

text \<open>Deleting a rule deletes its relations; deleting a system user deletes its
  relations and the rules that name it directly.\<close>

definition delete_rules :: "(PermissionRule \<Rightarrow> bool) \<Rightarrow> pdb \<Rightarrow> pdb" where
  "delete_rules P db =
     (let gone = map pr_ID (filter P (permission_rules db)) in
      db\<lparr>permission_rules := delete_where P (permission_rules db),
         rule_system_users := delete_where (\<lambda>(r, s). r \<in> set gone) (rule_system_users db),
         rule_host_groups := delete_where (\<lambda>(r, g). r \<in> set gone) (rule_host_groups db)\<rparr>)"

definition SystemUser_Delete :: "string \<Rightarrow> pdb \<Rightarrow> pdb" where
  "SystemUser_Delete i db =
     (let db = delete_rules (\<lambda>r. pr_SystemUserID r = Some i) db in
      db\<lparr>system_users := delete_where (\<lambda>s. su_ID s = i) (system_users db),
         rule_system_users := delete_where (\<lambda>(r, s). s = i) (rule_system_users db)\<rparr>)"

definition SystemUser_FindByID :: "string \<Rightarrow> pdb \<Rightarrow> perm_error + SystemUser" where
  "SystemUser_FindByID i db = (case First su_ID (\<lambda>s. su_ID s = i) (system_users db) of
     None \<Rightarrow> Inl RecordNotFound | Some s \<Rightarrow> Inr s)"

text \<open>\<open>ORDER BY priority DESC, created_at DESC\<close>.\<close>

definition su_order :: "SystemUser list \<Rightarrow> SystemUser list" where
  "su_order t = sort_key (\<lambda>s. - su_Priority s) (sort_key (\<lambda>s. - su_CreatedAt s) t)"

definition SystemUser_FindAll :: "pdb \<Rightarrow> SystemUser list" where
  "SystemUser_FindAll db = su_order (system_users db)"

definition FindByStatus :: "string \<Rightarrow> pdb \<Rightarrow> SystemUser list" where
  "FindByStatus status db = su_order (filter (\<lambda>s. su_Status s = status) (system_users db))"

definition FindByProtocol :: "string \<Rightarrow> pdb \<Rightarrow> SystemUser list" where
  "FindByProtocol protocol db =
     su_order (filter (\<lambda>s. su_Protocol s = protocol \<and> su_Status s = ''active'') (system_users db))"

section \<open>Permission checks\<close>

definition in_period :: "time \<Rightarrow> PermissionRule \<Rightarrow> bool" where
  "in_period t r \<longleftrightarrow> (case pr_ValidFrom r of None \<Rightarrow> True | Some a \<Rightarrow> a \<le> t) \<and>
                     (case pr_ValidTo r of None \<Rightarrow> True | Some b \<Rightarrow> b \<ge> t)"

text \<open>The user is a member of the rule's group and the group is active.\<close>

definition user_in_rule :: "pdb \<Rightarrow> string \<Rightarrow> PermissionRule \<Rightarrow> bool" where
  "user_in_rule db userID r =
     list_ex (\<lambda>g. ug_ID g = pr_UserGroupID r \<and> ug_Status g = ''active'' \<and>
       (ug_ID g, userID) \<in> set (user_group_members db)) (user_groups db)"

text \<open>\<open>JSON_CONTAINS(host_ids, JSON_QUOTE(id))\<close> for a column that holds an array of
  strings.\<close>

definition host_listed :: "string \<Rightarrow> PermissionRule \<Rightarrow> bool" where
  "host_listed hostID r = (pr_HostIDs r \<noteq> [] \<and>
     (case UnmarshalStrings (pr_HostIDs r) of None \<Rightarrow> False | Some ids \<Rightarrow> hostID \<in> set ids))"

definition host_in_rule :: "pdb \<Rightarrow> string \<Rightarrow> PermissionRule \<Rightarrow> bool" where
  "host_in_rule db hostID r =
     (list_ex (\<lambda>(rid, gid). rid = pr_ID r \<and> (gid, hostID) \<in> set (host_group_members db)) (rule_host_groups db) \<or>
      host_listed hostID r)"

definition rule_applies :: "time \<Rightarrow> pdb \<Rightarrow> string \<Rightarrow> string \<Rightarrow> PermissionRule \<Rightarrow> bool" where
  "rule_applies t db userID hostID r =
     (pr_Enabled r \<and> in_period t r \<and> user_in_rule db userID r \<and> host_in_rule db hostID r)"

definition GetAvailableSystemUsersForUser :: "time \<Rightarrow> string \<Rightarrow> string \<Rightarrow> pdb \<Rightarrow> SystemUser list" where
  "GetAvailableSystemUsersForUser t userID hostID db =
     su_order (remdups (filter (\<lambda>s. su_Status s = ''active'' \<and>
       list_ex (\<lambda>(rid, sid). sid = su_ID s \<and>
         list_ex (\<lambda>r. pr_ID r = rid \<and> rule_applies t db userID hostID r) (permission_rules db))
         (rule_system_users db)) (system_users db)))"

definition CheckUserHasPermission :: "time \<Rightarrow> string \<Rightarrow> string \<Rightarrow> string \<Rightarrow> pdb \<Rightarrow> bool" where
  "CheckUserHasPermission t userID hostID systemUserID db =
     list_ex (\<lambda>r. (pr_ID r, systemUserID) \<in> set (rule_system_users db) \<and>
       rule_applies t db userID hostID r) (permission_rules db)"

section \<open>Permission rules\<close>

text \<open>Writing relation rows inside a transaction: empty identifiers are skipped,
  a duplicate or dangling row fails.\<close>

fun add_su_relations :: "string \<Rightarrow> string list \<Rightarrow> pdb \<Rightarrow> perm_error + pdb" where
  "add_su_relations rid [] db = Inr db"
| "add_su_relations rid (s # ss) db =
     (if s = [] then add_su_relations rid ss db
      else if (rid, s) \<in> set (rule_system_users db) then Inl DuplicateKey
      else if s \<notin> su_ID ` set (system_users db) then Inl ForeignKey
      else add_su_relations rid ss (db\<lparr>rule_system_users := rule_system_users db @ [(rid, s)]\<rparr>))"

fun add_hg_relations :: "string \<Rightarrow> string list \<Rightarrow> pdb \<Rightarrow> perm_error + pdb" where
  "add_hg_relations rid [] db = Inr db"
| "add_hg_relations rid (g # gs) db =
     (if g = [] then add_hg_relations rid gs db
      else if (rid, g) \<in> set (rule_host_groups db) then Inl DuplicateKey
      else if g \<notin> hg_ID ` set (host_groups db) then Inl ForeignKey
      else add_hg_relations rid gs (db\<lparr>rule_host_groups := rule_host_groups db @ [(rid, g)]\<rparr>))"

definition rule_refs_ok :: "pdb \<Rightarrow> PermissionRule \<Rightarrow> bool" where
  "rule_refs_ok db r = (pr_UserGroupID r \<in> ug_ID ` set (user_groups db) \<and>
     (case pr_HostGroupID r of None \<Rightarrow> True | Some g \<Rightarrow> g \<in> hg_ID ` set (host_groups db)) \<and>
     (case pr_SystemUserID r of None \<Rightarrow> True | Some s \<Rightarrow> s \<in> su_ID ` set (system_users db)))"

text \<open>The column \<open>enabled\<close> has the default true, so a rule is always created
  enabled.\<close>

definition insert_rule :: "PermissionRule \<Rightarrow> pdb \<Rightarrow> perm_error + pdb" where
  "insert_rule r db =
     (if pr_ID r \<in> pr_ID ` set (permission_rules db) then Inl DuplicateKey
      else if \<not> rule_refs_ok db r then Inl ForeignKey
      else Inr (db\<lparr>permission_rules := permission_rules db @ [r\<lparr>pr_Enabled := True\<rparr>]\<rparr>))"

definition merge_rule :: "PermissionRule \<Rightarrow> PermissionRule \<Rightarrow> PermissionRule" where
  "merge_rule n old = old\<lparr>
     pr_Name := or_default (pr_Name old) (pr_Name n),
     pr_UserGroupID := or_default (pr_UserGroupID old) (pr_UserGroupID n),
     pr_HostGroupID := (if pr_HostGroupID n = None then pr_HostGroupID old else pr_HostGroupID n),
     pr_HostIDs := or_default (pr_HostIDs old) (pr_HostIDs n),
     pr_SystemUserID := (if pr_SystemUserID n = None then pr_SystemUserID old else pr_SystemUserID n),
     pr_ValidFrom := (if pr_ValidFrom n = None then pr_ValidFrom old else pr_ValidFrom n),
     pr_ValidTo := (if pr_ValidTo n = None then pr_ValidTo old else pr_ValidTo n),
     pr_Enabled := (if pr_Enabled n then True else pr_Enabled old),
     pr_Priority := (if pr_Priority n = 0 then pr_Priority old else pr_Priority n),
     pr_Description := or_default (pr_Description old) (pr_Description n)\<rparr>"

definition update_rule :: "PermissionRule \<Rightarrow> pdb \<Rightarrow> perm_error + pdb" where
  "update_rule r db =
     (let rules = update_where (\<lambda>x. pr_ID x = pr_ID r) (merge_rule r) (permission_rules db) in
      if list_all (rule_refs_ok db) rules then Inr (db\<lparr>permission_rules := rules\<rparr>) else Inl ForeignKey)"

definition clear_su_relations :: "string \<Rightarrow> pdb \<Rightarrow> pdb" where
  "clear_su_relations rid db = db\<lparr>rule_system_users := delete_where (\<lambda>(r, s). r = rid) (rule_system_users db)\<rparr>"

definition clear_hg_relations :: "string \<Rightarrow> pdb \<Rightarrow> pdb" where
  "clear_hg_relations rid db = db\<lparr>rule_host_groups := delete_where (\<lambda>(r, g). r = rid) (rule_host_groups db)\<rparr>"

text \<open>Sequencing inside a transaction; the caller keeps the old database on error.\<close>

definition bind_tx :: "perm_error + pdb \<Rightarrow> (pdb \<Rightarrow> perm_error + pdb) \<Rightarrow> perm_error + pdb" where
  "bind_tx m k = (case m of Inl err \<Rightarrow> Inl err | Inr db \<Rightarrow> k db)"

definition opt_list :: "string option \<Rightarrow> string list" where
  "opt_list x = (case x of None \<Rightarrow> [] | Some s \<Rightarrow> [s])"

definition Rule_Create :: "PermissionRule \<Rightarrow> pdb \<Rightarrow> perm_error + pdb" where
  "Rule_Create r db =
     bind_tx (insert_rule r db) (\<lambda>db1.
     bind_tx (add_su_relations (pr_ID r) (opt_list (pr_SystemUserID r)) db1) (\<lambda>db2.
     add_hg_relations (pr_ID r) (opt_list (pr_HostGroupID r)) db2))"

definition Rule_Update :: "PermissionRule \<Rightarrow> pdb \<Rightarrow> perm_error + pdb" where
  "Rule_Update r db =
     bind_tx (update_rule r db) (\<lambda>db1.
     bind_tx (add_su_relations (pr_ID r) (opt_list (pr_SystemUserID r)) (clear_su_relations (pr_ID r) db1)) (\<lambda>db2.
     add_hg_relations (pr_ID r) (opt_list (pr_HostGroupID r)) (clear_hg_relations (pr_ID r) db2)))"

definition CreateWithRelations :: "PermissionRule \<Rightarrow> string list \<Rightarrow> string list \<Rightarrow> pdb \<Rightarrow> perm_error + pdb" where
  "CreateWithRelations r systemUserIDs hostGroupIDs db =
     bind_tx (insert_rule r db) (\<lambda>db1.
     bind_tx (add_su_relations (pr_ID r) systemUserIDs db1) (\<lambda>db2.
     add_hg_relations (pr_ID r) hostGroupIDs db2))"

definition UpdateWithRelations :: "PermissionRule \<Rightarrow> string list \<Rightarrow> string list \<Rightarrow> pdb \<Rightarrow> perm_error + pdb" where
  "UpdateWithRelations r systemUserIDs hostGroupIDs db =
     bind_tx (update_rule r db) (\<lambda>db1.
     bind_tx (add_su_relations (pr_ID r) systemUserIDs (clear_su_relations (pr_ID r) db1)) (\<lambda>db2.
     add_hg_relations (pr_ID r) hostGroupIDs (clear_hg_relations (pr_ID r) db2)))"

definition Rule_Delete :: "string \<Rightarrow> pdb \<Rightarrow> pdb" where
  "Rule_Delete i db = delete_rules (\<lambda>r. pr_ID r = i) db"

definition Rule_FindByID :: "string \<Rightarrow> pdb \<Rightarrow> perm_error + PermissionRule" where
  "Rule_FindByID i db = (case First pr_ID (\<lambda>r. pr_ID r = i) (permission_rules db) of
     None \<Rightarrow> Inl RecordNotFound | Some r \<Rightarrow> Inr r)"

definition pr_order :: "PermissionRule list \<Rightarrow> PermissionRule list" where
  "pr_order t = sort_key (\<lambda>r. - pr_Priority r) (sort_key (\<lambda>r. - pr_CreatedAt r) t)"

record PermissionRuleDetail =
  d_Rule :: PermissionRule
  d_UserGroupName :: string
  d_HostGroupName :: string
  d_SystemUserName :: string
  d_SystemUsers :: "SystemUser list"
  d_HostGroups :: "HostGroup list"
  d_SystemUserIDs :: "string list"
  d_HostGroupIDs :: "string list"

definition first_name :: "string list \<Rightarrow> string" where
  "first_name names = (case dropWhile (\<lambda>n. n = []) names of [] \<Rightarrow> [] | n # _ \<Rightarrow> n)"

definition rule_detail :: "pdb \<Rightarrow> PermissionRule \<Rightarrow> PermissionRuleDetail" where
  "rule_detail db r =
     (let sids = map snd (filter (\<lambda>(rid, s). rid = pr_ID r) (rule_system_users db));
          gids = map snd (filter (\<lambda>(rid, g). rid = pr_ID r) (rule_host_groups db));
          sus = concat (map (\<lambda>i. case First su_ID (\<lambda>s. su_ID s = i) (system_users db) of None \<Rightarrow> [] | Some s \<Rightarrow> [s]) sids);
          hgs = concat (map (\<lambda>i. case First hg_ID (\<lambda>g. hg_ID g = i) (host_groups db) of None \<Rightarrow> [] | Some g \<Rightarrow> [g]) gids)
      in \<lparr> d_Rule = r,
           d_UserGroupName = (case First ug_ID (\<lambda>g. ug_ID g = pr_UserGroupID r) (user_groups db) of
              None \<Rightarrow> [] | Some g \<Rightarrow> ug_Name g),
           d_HostGroupName = first_name (map hg_Name hgs),
           d_SystemUserName = first_name (map su_Name sus),
           d_SystemUsers = sus, d_HostGroups = hgs, d_SystemUserIDs = sids, d_HostGroupIDs = gids \<rparr>)"

definition Rule_FindAll :: "pdb \<Rightarrow> PermissionRuleDetail list" where
  "Rule_FindAll db = map (rule_detail db) (pr_order (permission_rules db))"

definition FindByUserGroup :: "string \<Rightarrow> pdb \<Rightarrow> PermissionRule list" where
  "FindByUserGroup i db = pr_order (filter (\<lambda>r. pr_UserGroupID r = i) (permission_rules db))"

definition FindByHostGroup :: "string \<Rightarrow> pdb \<Rightarrow> PermissionRule list" where
  "FindByHostGroup i db = pr_order (filter (\<lambda>r. pr_HostGroupID r = Some i) (permission_rules db))"

definition ValidateHostInRule :: "string \<Rightarrow> string \<Rightarrow> pdb \<Rightarrow> perm_error + bool" where
  "ValidateHostInRule ruleID hostID db = (case First pr_ID (\<lambda>r. pr_ID r = ruleID) (permission_rules db) of
     None \<Rightarrow> Inl RecordNotFound
   | Some r \<Rightarrow>
       (if (pr_HostGroupID r = None \<or> pr_HostGroupID r = Some []) \<and> pr_HostIDs r = [] then Inr True
        else if (case pr_HostGroupID r of None \<Rightarrow> False
                 | Some g \<Rightarrow> g \<noteq> [] \<and> (g, hostID) \<in> set (host_group_members db)) then Inr True
        else Inr (host_listed hostID r)))"

section \<open>Request handlers\<close>

definition nil_if_empty :: "string option \<Rightarrow> string option" where
  "nil_if_empty x = (if x = Some [] then None else x)"

definition normalize_rule :: "PermissionRule \<Rightarrow> PermissionRule" where
  "normalize_rule r = r\<lparr>pr_HostGroupID := nil_if_empty (pr_HostGroupID r),
     pr_SystemUserID := nil_if_empty (pr_SystemUserID r)\<rparr>"

record rule_request =
  rq_Rule :: PermissionRule
  rq_SystemUserIDs :: "string list"
  rq_HostGroupIDs :: "string list"

text \<open>A response is an HTTP status with the rule on success, and the database
  after the request.\<close>

definition commit :: "perm_error + pdb \<Rightarrow> PermissionRule \<Rightarrow> pdb \<Rightarrow> nat \<times> PermissionRule option \<times> pdb" where
  "commit res r db = (case res of Inl err \<Rightarrow> (500, None, db) | Inr db' \<Rightarrow> (200, Some r, db'))"

definition CreatePermissionRule ::
  "string \<Rightarrow> string option \<Rightarrow> rule_request option \<Rightarrow> pdb \<Rightarrow> nat \<times> PermissionRule option \<times> pdb" where
  "CreatePermissionRule newID user body db = (case body of
     None \<Rightarrow> (400, None, db)
   | Some req \<Rightarrow>
       (let r = (rq_Rule req)\<lparr>pr_ID := newID\<rparr>;
            r = (case user of None \<Rightarrow> r | Some u \<Rightarrow> r\<lparr>pr_CreatedBy := u\<rparr>);
            r = normalize_rule r
        in commit (CreateWithRelations r (rq_SystemUserIDs req) (rq_HostGroupIDs req) db) r db))"

definition UpdatePermissionRule ::
  "string \<Rightarrow> rule_request option \<Rightarrow> pdb \<Rightarrow> nat \<times> PermissionRule option \<times> pdb" where
  "UpdatePermissionRule i body db = (case body of
     None \<Rightarrow> (400, None, db)
   | Some req \<Rightarrow>
       (let r = normalize_rule ((rq_Rule req)\<lparr>pr_ID := i\<rparr>)
        in commit (UpdateWithRelations r (rq_SystemUserIDs req) (rq_HostGroupIDs req) db) r db))"

definition DeletePermissionRule :: "string \<Rightarrow> pdb \<Rightarrow> nat \<times> pdb" where
  "DeletePermissionRule i db = (200, Rule_Delete i db)"

definition ListPermissionRules :: "pdb \<Rightarrow> nat \<times> PermissionRuleDetail list" where
  "ListPermissionRules db = (200, Rule_FindAll db)"

definition GetPermissionRule :: "string \<Rightarrow> pdb \<Rightarrow> nat \<times> PermissionRule option" where
  "GetPermissionRule i db = (case Rule_FindByID i db of Inl err \<Rightarrow> (404, None) | Inr r \<Rightarrow> (200, Some r))"

definition GetPermissionRulesByUserGroup :: "string \<Rightarrow> pdb \<Rightarrow> nat \<times> PermissionRule list" where
  "GetPermissionRulesByUserGroup i db = (if i = [] then (400, []) else (200, FindByUserGroup i db))"

definition GetPermissionRulesByHostGroup :: "string \<Rightarrow> pdb \<Rightarrow> nat \<times> PermissionRule list" where
  "GetPermissionRulesByHostGroup i db = (if i = [] then (400, []) else (200, FindByHostGroup i db))"

section \<open>The two permission queries agree\<close>

lemma CheckUserHasPermission_iff:
  "CheckUserHasPermission t u h s db \<longleftrightarrow>
     (\<exists>r\<in>set (permission_rules db). (pr_ID r, s) \<in> set (rule_system_users db) \<and> rule_applies t db u h r)"
  by (simp add: CheckUserHasPermission_def list_ex_iff)

lemma set_su_order [simp]: "set (su_order t) = set t"
  by (simp add: su_order_def)

text \<open>C15: the list of system users offered for a host and the permission check
  agree.  A system user is offered to a user for a host exactly when it exists, is
  active, and the check allows the user to use it there.\<close>

theorem available_iff_permitted:
  "s \<in> set (GetAvailableSystemUsersForUser t u h db) \<longleftrightarrow>
     s \<in> set (system_users db) \<and> su_Status s = ''active'' \<and> CheckUserHasPermission t u h (su_ID s) db"
  unfolding CheckUserHasPermission_iff GetAvailableSystemUsersForUser_def
  by (auto simp: list_ex_iff)

section \<open>Integrity of the tables\<close>

definition pdb_ok :: "pdb \<Rightarrow> bool" where
  "pdb_ok db \<longleftrightarrow> distinct (map pr_ID (permission_rules db)) \<and>
     (\<forall>(r, s)\<in>set (rule_system_users db). r \<in> pr_ID ` set (permission_rules db) \<and> s \<in> su_ID ` set (system_users db)) \<and>
     (\<forall>(r, g)\<in>set (rule_host_groups db). r \<in> pr_ID ` set (permission_rules db) \<and> g \<in> hg_ID ` set (host_groups db)) \<and>
     (\<forall>r\<in>set (permission_rules db). rule_refs_ok db r)"

abbreviation rel_rows :: "string \<Rightarrow> string list \<Rightarrow> (string \<times> string) list" where
  "rel_rows rid xs \<equiv> map (Pair rid) (filter (\<lambda>x. x \<noteq> []) xs)"

lemma add_su_relations_Inr:
  "add_su_relations rid ss db = Inr db' \<Longrightarrow>
     db' = db\<lparr>rule_system_users := rule_system_users db @ rel_rows rid ss\<rparr> \<and>
     (\<forall>s\<in>set ss. s \<noteq> [] \<longrightarrow> s \<in> su_ID ` set (system_users db))"
proof (induction ss arbitrary: db)
  case (Cons x xs)
  show ?case
  proof (cases "x = []")
    case False
    let ?db = "db\<lparr>rule_system_users := rule_system_users db @ [(rid, x)]\<rparr>"
    have "add_su_relations rid xs ?db = Inr db'" "x \<in> su_ID ` set (system_users db)"
      using Cons.prems False by (auto split: if_splits)
    then show ?thesis using Cons.IH [of ?db] False by simp
  qed (use Cons in simp)
qed simp

lemma add_hg_relations_Inr:
  "add_hg_relations rid gs db = Inr db' \<Longrightarrow>
     db' = db\<lparr>rule_host_groups := rule_host_groups db @ rel_rows rid gs\<rparr> \<and>
     (\<forall>g\<in>set gs. g \<noteq> [] \<longrightarrow> g \<in> hg_ID ` set (host_groups db))"
proof (induction gs arbitrary: db)
  case (Cons x xs)
  show ?case
  proof (cases "x = []")
    case False
    let ?db = "db\<lparr>rule_host_groups := rule_host_groups db @ [(rid, x)]\<rparr>"
    have "add_hg_relations rid xs ?db = Inr db'" "x \<in> hg_ID ` set (host_groups db)"
      using Cons.prems False by (auto split: if_splits)
    then show ?thesis using Cons.IH [of ?db] False by simp
  qed (use Cons in simp)
qed simp

lemma bind_tx_Inr: "bind_tx m k = Inr db' \<longleftrightarrow> (\<exists>db1. m = Inr db1 \<and> k db1 = Inr db')"
  by (auto simp: bind_tx_def split: sum.splits)

text \<open>What a successful creation writes.\<close>

lemma CreateWithRelations_Inr:
  assumes "CreateWithRelations r sus hgs db = Inr db'"
  shows "db' = db\<lparr>permission_rules := permission_rules db @ [r\<lparr>pr_Enabled := True\<rparr>],
      rule_system_users := rule_system_users db @ rel_rows (pr_ID r) sus,
      rule_host_groups := rule_host_groups db @ rel_rows (pr_ID r) hgs\<rparr>"
    and "\<forall>s\<in>set sus. s \<noteq> [] \<longrightarrow> s \<in> su_ID ` set (system_users db)"
    and "\<forall>g\<in>set hgs. g \<noteq> [] \<longrightarrow> g \<in> hg_ID ` set (host_groups db)"
    and "pr_ID r \<notin> pr_ID ` set (permission_rules db)" and "rule_refs_ok db r"
proof -
  from assms obtain db1 db2 where 1: "insert_rule r db = Inr db1"
    and 2: "add_su_relations (pr_ID r) sus db1 = Inr db2" and 3: "add_hg_relations (pr_ID r) hgs db2 = Inr db'"
    by (auto simp: CreateWithRelations_def bind_tx_Inr)
  have db1: "db1 = db\<lparr>permission_rules := permission_rules db @ [r\<lparr>pr_Enabled := True\<rparr>]\<rparr>"
    "pr_ID r \<notin> pr_ID ` set (permission_rules db)" "rule_refs_ok db r"
    using 1 by (auto simp: insert_rule_def split: if_splits)
  note db2 = add_su_relations_Inr [OF 2] and db3 = add_hg_relations_Inr [OF 3]
  show "db' = db\<lparr>permission_rules := permission_rules db @ [r\<lparr>pr_Enabled := True\<rparr>],
      rule_system_users := rule_system_users db @ rel_rows (pr_ID r) sus,
      rule_host_groups := rule_host_groups db @ rel_rows (pr_ID r) hgs\<rparr>"
    "\<forall>s\<in>set sus. s \<noteq> [] \<longrightarrow> s \<in> su_ID ` set (system_users db)"
    "\<forall>g\<in>set hgs. g \<noteq> [] \<longrightarrow> g \<in> hg_ID ` set (host_groups db)"
    "pr_ID r \<notin> pr_ID ` set (permission_rules db)" "rule_refs_ok db r"
    using db1 db2 db3 by simp_all
qed

lemma rule_refs_ok_upd [simp]:
  "rule_refs_ok (db\<lparr>permission_rules := a\<rparr>) q = rule_refs_ok db q"
  "rule_refs_ok (db\<lparr>rule_system_users := b\<rparr>) q = rule_refs_ok db q"
  "rule_refs_ok (db\<lparr>rule_host_groups := c\<rparr>) q = rule_refs_ok db q"
  "rule_refs_ok db (q\<lparr>pr_Enabled := e\<rparr>) = rule_refs_ok db q"
  by (simp_all add: rule_refs_ok_def split: option.split)

lemma pdb_ok_CreateWithRelations [inv_intros]:
  assumes "pdb_ok db" "CreateWithRelations r sus hgs db = Inr db'"
  shows "pdb_ok db'"
proof -
  note w = CreateWithRelations_Inr [OF assms(2)]
  show ?thesis unfolding w(1) pdb_ok_def using assms(1) w(2-5)
    by (simp add: pdb_ok_def ball_Un) blast
qed

text \<open>What a successful update writes.\<close>

lemma pr_ID_merge [simp]: "pr_ID (merge_rule n old) = pr_ID old"
  by (simp add: merge_rule_def)

lemma UpdateWithRelations_Inr:
  assumes "UpdateWithRelations r sus hgs db = Inr db'"
  shows "db' = db\<lparr>permission_rules := update_where (\<lambda>x. pr_ID x = pr_ID r) (merge_rule r) (permission_rules db),
      rule_system_users := delete_where (\<lambda>(x, s). x = pr_ID r) (rule_system_users db) @ rel_rows (pr_ID r) sus,
      rule_host_groups := delete_where (\<lambda>(x, g). x = pr_ID r) (rule_host_groups db) @ rel_rows (pr_ID r) hgs\<rparr>"
    and "\<forall>s\<in>set sus. s \<noteq> [] \<longrightarrow> s \<in> su_ID ` set (system_users db)"
    and "\<forall>g\<in>set hgs. g \<noteq> [] \<longrightarrow> g \<in> hg_ID ` set (host_groups db)"
    and "\<forall>x\<in>set (update_where (\<lambda>x. pr_ID x = pr_ID r) (merge_rule r) (permission_rules db)). rule_refs_ok db x"
proof -
  let ?rules = "update_where (\<lambda>x. pr_ID x = pr_ID r) (merge_rule r) (permission_rules db)"
  from assms obtain db1 db2 where 1: "update_rule r db = Inr db1"
    and 2: "add_su_relations (pr_ID r) sus (clear_su_relations (pr_ID r) db1) = Inr db2"
    and 3: "add_hg_relations (pr_ID r) hgs (clear_hg_relations (pr_ID r) db2) = Inr db'"
    by (auto simp: UpdateWithRelations_def bind_tx_Inr)
  have db1: "db1 = db\<lparr>permission_rules := ?rules\<rparr>" "\<forall>x\<in>set ?rules. rule_refs_ok db x"
    using 1 by (auto simp: update_rule_def Let_def list_all_iff split: if_splits)
  note db2 = add_su_relations_Inr [OF 2] and db3 = add_hg_relations_Inr [OF 3]
  show "db' = db\<lparr>permission_rules := ?rules,
      rule_system_users := delete_where (\<lambda>(x, s). x = pr_ID r) (rule_system_users db) @ rel_rows (pr_ID r) sus,
      rule_host_groups := delete_where (\<lambda>(x, g). x = pr_ID r) (rule_host_groups db) @ rel_rows (pr_ID r) hgs\<rparr>"
    "\<forall>s\<in>set sus. s \<noteq> [] \<longrightarrow> s \<in> su_ID ` set (system_users db)"
    "\<forall>g\<in>set hgs. g \<noteq> [] \<longrightarrow> g \<in> hg_ID ` set (host_groups db)"
    "\<forall>x\<in>set ?rules. rule_refs_ok db x"
    using db1 db2 db3 by (simp_all add: clear_su_relations_def clear_hg_relations_def)
qed

text \<open>C14: a new rule grants exactly what it says.  After a rule is created with
  its system users and host groups, a user may use a system user on a host
  exactly when that was allowed before, or the system user is one of the rule's,
  the rule's period contains the time, the user belongs to the rule's active
  group, and the host is in one of the rule's host groups or listed by it.  That
  the request may say the rule is disabled makes no difference.\<close>

theorem CreateWithRelations_grants:
  assumes "pdb_ok db" "CreateWithRelations r sus hgs db = Inr db'"
  shows "CheckUserHasPermission t u h s db' \<longleftrightarrow>
    CheckUserHasPermission t u h s db \<or>
    s \<in> set sus \<and> s \<noteq> [] \<and> in_period t r \<and> user_in_rule db u r \<and>
    ((\<exists>g\<in>set hgs. g \<noteq> [] \<and> (g, h) \<in> set (host_group_members db)) \<or> host_listed h r)"
proof -
  note w = CreateWithRelations_Inr [OF assms(2)]
  have old: "(pr_ID r, x) \<notin> set (rule_system_users db)" "(pr_ID r, y) \<notin> set (rule_host_groups db)" for x y
    using assms(1) w(4) by (auto simp: pdb_ok_def)
  have other: "rule_applies t db' u h q \<longleftrightarrow> rule_applies t db u h q" if "q \<in> set (permission_rules db)" for q
  proof -
    have "pr_ID q \<noteq> pr_ID r" using that w(4) by (metis imageI)
    then show ?thesis using w(1) by (auto simp: rule_applies_def user_in_rule_def host_in_rule_def list_ex_iff)
  qed
  let ?n = "r\<lparr>pr_Enabled := True\<rparr>"
  have new: "rule_applies t db' u h ?n \<longleftrightarrow> in_period t r \<and> user_in_rule db u r \<and>
      ((\<exists>g\<in>set hgs. g \<noteq> [] \<and> (g, h) \<in> set (host_group_members db)) \<or> host_listed h r)"
    using w(1) old
    by (auto simp: rule_applies_def user_in_rule_def host_in_rule_def host_listed_def in_period_def list_ex_iff)
  have "(pr_ID q, s) \<in> set (rule_system_users db') \<longleftrightarrow> (pr_ID q, s) \<in> set (rule_system_users db)"
    if "q \<in> set (permission_rules db)" for q
  proof -
    have "pr_ID q \<noteq> pr_ID r" using that w(4) by (metis imageI)
    then show ?thesis using w(1) by auto
  qed
  moreover have "(pr_ID r, s) \<in> set (rule_system_users db') \<longleftrightarrow> s \<in> set sus \<and> s \<noteq> []"
    using w(1) old by auto
  moreover have "set (permission_rules db') = insert ?n (set (permission_rules db))" using w(1) by simp
  ultimately show ?thesis using other new unfolding CheckUserHasPermission_iff by auto
qed

definition sample_su :: SystemUser where
  "sample_su = \<lparr> su_ID = ''s1'', su_Name = ''deploy'', su_Username = ''deploy'', su_AuthType = ''password'',
     su_Password = ''x'', su_PrivateKey = [], su_Passphrase = [], su_Protocol = ''ssh'', su_Priority = 0,
     su_Description = [], su_Status = ''active'', su_CreatedBy = [], su_CreatedAt = 0 \<rparr>"

definition sample_rule :: PermissionRule where
  "sample_rule = \<lparr> pr_ID = ''r1'', pr_Name = ''ops'', pr_UserGroupID = ''g1'', pr_HostGroupID = None,
     pr_HostIDs = [], pr_SystemUserID = None, pr_ValidFrom = None, pr_ValidTo = Some 100,
     pr_Enabled = False, pr_Priority = 0, pr_Description = [], pr_CreatedBy = [], pr_CreatedAt = 0 \<rparr>"

definition sample_pdb :: pdb where
  "sample_pdb = \<lparr> system_users = [sample_su],
     user_groups = [\<lparr> ug_ID = ''g1'', ug_Name = ''ops'',
       ug_Description = [], ug_Color = [], ug_Icon = [], ug_Priority = 0, ug_Status = ''active'', ug_CreatedBy = [], ug_CreatedAt = 0 \<rparr>],
     host_groups = [\<lparr> hg_ID = ''hg1'', hg_Name = ''web'',
       hg_Description = [], hg_Color = [], hg_Icon = [], hg_SortOrder = 0, hg_CreatedBy = [], hg_CreatedAt = 0 \<rparr>],
     user_group_members = [(''g1'', ''u1'')], host_group_members = [(''hg1'', ''h1'')],
     permission_rules = [], rule_system_users = [], rule_host_groups = [] \<rparr>"

definition sample_granted :: pdb where
  "sample_granted = sample_pdb\<lparr>permission_rules := [sample_rule\<lparr>pr_Enabled := True\<rparr>],
     rule_system_users := [(''r1'', ''s1'')], rule_host_groups := [(''r1'', ''hg1'')]\<rparr>"

lemma sample_pdb_ok: "pdb_ok sample_pdb"
  by (simp add: pdb_ok_def sample_pdb_def)

lemma sample_create: "CreateWithRelations sample_rule [''s1''] [''hg1''] sample_pdb = Inr sample_granted"
  by (simp add: CreateWithRelations_def bind_tx_def insert_rule_def rule_refs_ok_def sample_rule_def
      sample_pdb_def sample_su_def sample_granted_def)

theorem CreateWithRelations_grants_witness: "CheckUserHasPermission 50 ''u1'' ''h1'' ''s1'' sample_granted"
  using CreateWithRelations_grants [OF sample_pdb_ok sample_create, of 50 "''u1''" "''h1''" "''s1''"]
  by (simp add: sample_rule_def sample_pdb_def in_period_def user_in_rule_def)

text \<open>An update cannot withdraw a permission by disabling its rule.  Zero
  values are not written, so after any successful update of a rule that is
  enabled, in particular one that says it is disabled, the rule is enabled and
  keeps its period unless a new one is given.\<close>

theorem update_cannot_disable:
  assumes "UpdateWithRelations r sus hgs db = Inr db'" "q \<in> set (permission_rules db)" "pr_ID q = pr_ID r" "pr_Enabled q"
  shows "\<exists>q'\<in>set (permission_rules db'). pr_ID q' = pr_ID r \<and> pr_Enabled q' \<and>
    (pr_ValidTo r = None \<longrightarrow> pr_ValidTo q' = pr_ValidTo q)"
proof -
  have "merge_rule r q \<in> set (permission_rules db')"
    using UpdateWithRelations_Inr(1) [OF assms(1)] assms(2,3) by (auto simp: set_update_where)
  then show ?thesis using assms(3,4) by (intro bexI [of _ "merge_rule r q"]) (auto simp: merge_rule_def)
qed

theorem update_cannot_disable_witness:
  "\<exists>db'. UpdateWithRelations sample_rule [''s1''] [''hg1''] sample_granted = Inr db' \<and>
     (\<exists>q'\<in>set (permission_rules db'). pr_ID q' = ''r1'' \<and> pr_Enabled q')"
proof -
  have "\<exists>db'. UpdateWithRelations sample_rule [''s1''] [''hg1''] sample_granted = Inr db'"
    by (simp add: UpdateWithRelations_def bind_tx_def update_rule_def Let_def rule_refs_ok_def sample_rule_def
        sample_pdb_def sample_su_def sample_granted_def merge_rule_def or_default_def update_where_def
        clear_su_relations_def clear_hg_relations_def delete_where_def)
  then obtain db' where db': "UpdateWithRelations sample_rule [''s1''] [''hg1''] sample_granted = Inr db'" by blast
  from update_cannot_disable [OF this, of "sample_rule\<lparr>pr_Enabled := True\<rparr>"] db' show ?thesis
    by (auto simp: sample_granted_def sample_rule_def)
qed

text \<open>Deleting a rule withdraws exactly its permissions.\<close>

theorem Rule_Delete_revokes:
  "CheckUserHasPermission t u h s (Rule_Delete i db) \<longleftrightarrow>
     (\<exists>r\<in>set (permission_rules db). pr_ID r \<noteq> i \<and>
        (pr_ID r, s) \<in> set (rule_system_users db) \<and> rule_applies t db u h r)"
proof -
  let ?db = "Rule_Delete i db"
  have same: "rule_applies t ?db u h r \<longleftrightarrow> rule_applies t db u h r"
    "(pr_ID r, s) \<in> set (rule_system_users ?db) \<longleftrightarrow> (pr_ID r, s) \<in> set (rule_system_users db)"
    if "pr_ID r \<noteq> i" for r
    using that by (auto simp: Rule_Delete_def delete_rules_def Let_def rule_applies_def user_in_rule_def
        host_in_rule_def list_ex_iff set_delete_where)
  have "set (permission_rules ?db) = {r \<in> set (permission_rules db). pr_ID r \<noteq> i}"
    by (auto simp: Rule_Delete_def delete_rules_def Let_def set_delete_where)
  then show ?thesis unfolding CheckUserHasPermission_iff using same by auto
qed

text \<open>A rule without hosts means two different things.  For a rule with
  neither a host group nor listed hosts \<open>ValidateHostInRule\<close> accepts every host,
  while the permission check lets nobody use it on any host.\<close>

theorem empty_scope_disagrees:
  assumes "distinct (map pr_ID (permission_rules db))" "r \<in> set (permission_rules db)"
    and "pr_HostGroupID r = None" "pr_HostIDs r = []" "\<forall>g. (pr_ID r, g) \<notin> set (rule_host_groups db)"
  shows "ValidateHostInRule (pr_ID r) h db = Inr True \<and> \<not> rule_applies t db u h r"
proof -
  have "First pr_ID (\<lambda>q. pr_ID q = pr_ID r) (permission_rules db) = Some r"
    using First_key_iff [OF assms(1)] assms(2) by blast
  moreover have "\<not> host_in_rule db h r"
    using assms(4,5) by (auto simp: host_in_rule_def host_listed_def list_ex_iff)
  ultimately show ?thesis using assms(3,4) by (simp add: ValidateHostInRule_def rule_applies_def)
qed

theorem empty_scope_disagrees_witness:
  "ValidateHostInRule ''r1'' ''h1'' (sample_granted\<lparr>rule_host_groups := []\<rparr>) = Inr True \<and>
   \<not> rule_applies 5 (sample_granted\<lparr>rule_host_groups := []\<rparr>) ''u1'' ''h1'' (sample_rule\<lparr>pr_Enabled := True\<rparr>)"
  using empty_scope_disagrees [of "sample_granted\<lparr>rule_host_groups := []\<rparr>" "sample_rule\<lparr>pr_Enabled := True\<rparr>"
      "''h1''" 5 "''u1''"]
  by (simp add: sample_granted_def sample_rule_def)

text \<open>The interface the terminal relies on: the system users offered for a host are
  those the check permits.\<close>

locale host_access =
  fixes offered :: "string \<Rightarrow> string \<Rightarrow> SystemUser list"
    and permitted :: "string \<Rightarrow> string \<Rightarrow> string \<Rightarrow> bool"
  assumes offered_permitted: "s \<in> set (offered u h) \<Longrightarrow> permitted u h (su_ID s)"
    and offered_active: "s \<in> set (offered u h) \<Longrightarrow> su_Status s = ''active''"
begin

lemma nothing_offered: "(\<forall>i. \<not> permitted u h i) \<Longrightarrow> offered u h = []"
  using offered_permitted by (metis list.set_intros(1) neq_Nil_conv)

end

lemma available_permitted:
  assumes "s \<in> set (GetAvailableSystemUsersForUser t u h db)"
  shows "CheckUserHasPermission t u h (su_ID s) db" "su_Status s = ''active''"
  using assms unfolding CheckUserHasPermission_iff GetAvailableSystemUsersForUser_def
  by (auto simp: list_ex_iff)

interpretation repo_access: host_access
  "\<lambda>u h. GetAvailableSystemUsersForUser t u h db" "\<lambda>u h i. CheckUserHasPermission t u h i db" for t db
  by unfold_locales (use available_permitted in blast)+

section \<open>Requests keep the tables sound\<close>

lemma pdb_ok_UpdateWithRelations [inv_intros]:
  assumes "pdb_ok db" "UpdateWithRelations r sus hgs db = Inr db'"
    and "sus = [] \<or> pr_ID r \<in> pr_ID ` set (permission_rules db)"
    and "hgs = [] \<or> pr_ID r \<in> pr_ID ` set (permission_rules db)"
  shows "pdb_ok db'"
proof -
  note w = UpdateWithRelations_Inr [OF assms(2)]
  let ?rules = "update_where (\<lambda>x. pr_ID x = pr_ID r) (merge_rule r) (permission_rules db)"
  have ids: "map pr_ID ?rules = map pr_ID (permission_rules db)" by (simp add: update_where_keys)
  then have "pr_ID ` set ?rules = pr_ID ` set (permission_rules db)" by (metis set_map)
  then show ?thesis unfolding w(1) pdb_ok_def using assms(1,3,4) w(2-4) ids
    by (simp add: pdb_ok_def ball_Un set_delete_where) fastforce
qed

lemma pdb_ok_Rule_Delete [inv_intros]: "pdb_ok db \<Longrightarrow> pdb_ok (Rule_Delete i db)"
  by (fastforce simp: pdb_ok_def Rule_Delete_def delete_rules_def Let_def set_delete_where
      delete_where_keys_distinct image_iff)

inductive rule_request_step :: "pdb \<Rightarrow> pdb \<Rightarrow> bool" where
  create: "rule_request_step db (snd (snd (CreatePermissionRule newID user body db)))"
| update: "i \<in> pr_ID ` set (permission_rules db) \<Longrightarrow>
    rule_request_step db (snd (snd (UpdatePermissionRule i body db)))"
| delete: "rule_request_step db (snd (DeletePermissionRule i db))"

lemma pdb_ok_commit: "pdb_ok db \<Longrightarrow> (\<And>db'. res = Inr db' \<Longrightarrow> pdb_ok db') \<Longrightarrow> pdb_ok (snd (snd (commit res r db)))"
  by (simp add: commit_def split: sum.splits)

lemma pr_ID_normalize [simp]: "pr_ID (normalize_rule r) = pr_ID r"
  by (simp add: normalize_rule_def)

lemma pdb_ok_step: "rule_request_step db db' \<Longrightarrow> pdb_ok db \<Longrightarrow> pdb_ok db'"
proof (induction rule: rule_request_step.induct)
  case (create db newID user body)
  then show ?case
    by (auto simp: CreatePermissionRule_def Let_def split: option.splits
        intro!: pdb_ok_commit intro: pdb_ok_CreateWithRelations)
next
  case (update i db body)
  then show ?case
    by (auto simp: UpdatePermissionRule_def Let_def split: option.splits
        intro!: pdb_ok_commit intro: pdb_ok_UpdateWithRelations)
next
  case (delete db i)
  then show ?case by (simp add: DeletePermissionRule_def pdb_ok_Rule_Delete)
qed



end
