(* ===== verification/Expiration.thy ===== *)
theory Expiration
imports Accounts Permissions
begin

text \<open>
  The expiration service (\<open>internal/service/expiration_service.go\<close>): the periodic
  check that warns about, and disables, accounts and permission rules that expire,
  and their renewal.  It works on the account tables and on the permission tables;
  a check reads the clock once.  Notifications are only logged by the code and are
  left out, as are the intervals of the ticker.
\<close>

section \<open>Definitions\<close>

record ExpirationNotificationConfig =
  ec_ID :: nat
  ec_Type :: string
  ec_WarningDays :: int
  ec_Enabled :: bool

datatype log_reason = WillExpireIn int | ExpiredAndDisabled | ExpiredNotDisabled | GivenReason string

record UserExpirationLog =
  ul_UserID :: string
  ul_Username :: string
  ul_Action :: string
  ul_ExpiresAt :: "time option"
  ul_NewExpiresAt :: "time option"
  ul_Reason :: log_reason
  ul_PerformedBy :: string

record PermissionExpirationLog =
  xl_RuleID :: string
  xl_RuleName :: string
  xl_UserGroupID :: string
  xl_UserGroupName :: string
  xl_Action :: string
  xl_ValidTo :: "time option"
  xl_NewValidTo :: "time option"
  xl_Reason :: log_reason
  xl_PerformedBy :: string

record edb =
  accounts :: adb
  perms :: pdb
  notification_config :: "ExpirationNotificationConfig list"
  user_logs :: "UserExpirationLog list"
  rule_logs :: "PermissionExpirationLog list"

definition notification_for :: "string \<Rightarrow> int \<Rightarrow> edb \<Rightarrow> int \<times> bool" where
  "notification_for kind days e = (case First ec_ID (\<lambda>c. ec_Type c = kind) (notification_config e) of
     None \<Rightarrow> (days, True) | Some c \<Rightarrow> (ec_WarningDays c, ec_Enabled c))"

definition auto_disable :: "string \<Rightarrow> edb \<Rightarrow> bool" where
  "auto_disable key e = (case First st_ID (\<lambda>s. st_Key s = key) (settings (accounts e)) of
     None \<Rightarrow> True | Some s \<Rightarrow> st_Value s = ''true'')"

text \<open>The two queries of a check; \<open>before t x\<close> and \<open>after t x\<close> compare a column that may
  be NULL.\<close>

definition due_by :: "time \<Rightarrow> time option \<Rightarrow> bool" where
  "due_by t x = (case x of None \<Rightarrow> False | Some y \<Rightarrow> y \<le> t)"

definition user_to_warn :: "time \<Rightarrow> int \<Rightarrow> User \<Rightarrow> bool" where
  "user_to_warn now days u \<longleftrightarrow> due_by (now + days * day) (u_ExpiresAt u) \<and> \<not> due_by now (u_ExpiresAt u) \<and>
     \<not> u_ExpirationWarningSent u \<and> u_Status u = ''active''"

definition user_expired :: "time \<Rightarrow> User \<Rightarrow> bool" where
  "user_expired now u \<longleftrightarrow> due_by now (u_ExpiresAt u) \<and> u_Status u = ''active''"

definition user_log :: "User \<Rightarrow> string \<Rightarrow> log_reason \<Rightarrow> UserExpirationLog" where
  "user_log u action reason = \<lparr> ul_UserID = u_ID u, ul_Username = u_Username u, ul_Action = action,
     ul_ExpiresAt = u_ExpiresAt u, ul_NewExpiresAt = None, ul_Reason = reason, ul_PerformedBy = [] \<rparr>"

definition put_user_log :: "UserExpirationLog \<Rightarrow> edb \<Rightarrow> edb" where
  "put_user_log l e = e\<lparr>user_logs := user_logs e @ [l]\<rparr>"

definition put_user :: "string \<Rightarrow> (User \<Rightarrow> User) \<Rightarrow> edb \<Rightarrow> edb" where
  "put_user i f e = e\<lparr>accounts := set_user i f (accounts e)\<rparr>"

text \<open>The bodies of the two loops.\<close>

definition warn_user :: "int \<Rightarrow> User \<Rightarrow> edb \<Rightarrow> edb" where
  "warn_user days u e =
     put_user_log (user_log u ''warning_sent'' (WillExpireIn days))
       (put_user (u_ID u) (\<lambda>u. u\<lparr>u_ExpirationWarningSent := True\<rparr>) e)"

definition expire_user :: "bool \<Rightarrow> User \<Rightarrow> edb \<Rightarrow> edb" where
  "expire_user auto u e =
     (if auto \<and> u_AutoDisableOnExpiry u
      then put_user_log (user_log u ''disabled'' ExpiredAndDisabled) (put_user (u_ID u) (\<lambda>u. u\<lparr>u_Status := ''inactive''\<rparr>) e)
      else put_user_log (user_log u ''expired'' ExpiredNotDisabled) e)"

definition checkUserExpiration :: "time \<Rightarrow> edb \<Rightarrow> edb" where
  "checkUserExpiration now e =
     (let (days, enabled) = notification_for ''user'' 7 e in
      if \<not> enabled then e
      else (let e1 = fold (warn_user days) (filter (user_to_warn now days) (users (accounts e))) e
            in fold (expire_user (auto_disable ''user_expiration_auto_disable'' e1))
                 (filter (user_expired now) (users (accounts e1))) e1))"

definition rule_to_warn :: "time \<Rightarrow> int \<Rightarrow> PermissionRule \<Rightarrow> bool" where
  "rule_to_warn now days r \<longleftrightarrow> due_by (now + days * day) (pr_ValidTo r) \<and> \<not> due_by now (pr_ValidTo r) \<and> pr_Enabled r"

definition rule_expired :: "time \<Rightarrow> PermissionRule \<Rightarrow> bool" where
  "rule_expired now r \<longleftrightarrow> due_by now (pr_ValidTo r) \<and> pr_Enabled r"

definition group_name :: "edb \<Rightarrow> string \<Rightarrow> string" where
  "group_name e i = (case First ug_ID (\<lambda>g. ug_ID g = i) (user_groups (perms e)) of None \<Rightarrow> [] | Some g \<Rightarrow> ug_Name g)"

definition rule_log :: "edb \<Rightarrow> PermissionRule \<Rightarrow> string \<Rightarrow> log_reason \<Rightarrow> PermissionExpirationLog" where
  "rule_log e r action reason = \<lparr> xl_RuleID = pr_ID r, xl_RuleName = pr_Name r, xl_UserGroupID = pr_UserGroupID r,
     xl_UserGroupName = group_name e (pr_UserGroupID r), xl_Action = action, xl_ValidTo = pr_ValidTo r,
     xl_NewValidTo = None, xl_Reason = reason, xl_PerformedBy = [] \<rparr>"

definition put_rule_log :: "PermissionExpirationLog \<Rightarrow> edb \<Rightarrow> edb" where
  "put_rule_log l e = e\<lparr>rule_logs := rule_logs e @ [l]\<rparr>"

definition put_rule :: "string \<Rightarrow> (PermissionRule \<Rightarrow> PermissionRule) \<Rightarrow> edb \<Rightarrow> edb" where
  "put_rule i f e = e\<lparr>perms := (perms e)\<lparr>permission_rules := update_where (\<lambda>r. pr_ID r = i) f (permission_rules (perms e))\<rparr>\<rparr>"

definition warn_rule :: "int \<Rightarrow> PermissionRule \<Rightarrow> edb \<Rightarrow> edb" where
  "warn_rule days r e = put_rule_log (rule_log e r ''warning_sent'' (WillExpireIn days)) e"

definition expire_rule :: "bool \<Rightarrow> PermissionRule \<Rightarrow> edb \<Rightarrow> edb" where
  "expire_rule auto r e =
     (if auto then put_rule_log (rule_log e r ''disabled'' ExpiredAndDisabled) (put_rule (pr_ID r) (\<lambda>r. r\<lparr>pr_Enabled := False\<rparr>) e)
      else put_rule_log (rule_log e r ''expired'' ExpiredNotDisabled) e)"

definition checkPermissionExpiration :: "time \<Rightarrow> edb \<Rightarrow> edb" where
  "checkPermissionExpiration now e =
     (let (days, enabled) = notification_for ''permission'' 3 e in
      if \<not> enabled then e
      else (let e1 = fold (warn_rule days) (filter (rule_to_warn now days) (permission_rules (perms e))) e
            in fold (expire_rule (auto_disable ''permission_expiration_auto_disable'' e1))
                 (filter (rule_expired now) (permission_rules (perms e1))) e1))"

definition performCheck :: "time \<Rightarrow> edb \<Rightarrow> edb" where
  "performCheck now e = checkPermissionExpiration now (checkUserExpiration now e)"

text \<open>The checks of a running service, one at the start and one per tick, at the
  given times.\<close>

definition runPeriodicCheck :: "time list \<Rightarrow> edb \<Rightarrow> edb" where
  "runPeriodicCheck ts e = fold performCheck ts e"

definition RenewUserExpiration :: "time \<Rightarrow> string \<Rightarrow> time option \<Rightarrow> string \<Rightarrow> string \<Rightarrow> edb \<Rightarrow> edb option" where
  "RenewUserExpiration now userID newExpiresAt reason performedBy e = (case FindUserByID userID (accounts e) of
     None \<Rightarrow> None
   | Some user \<Rightarrow>
       (let activate = (case newExpiresAt of None \<Rightarrow> False | Some t \<Rightarrow> t > now) \<and> u_Status user = ''inactive'';
            e1 = put_user userID (\<lambda>u. u\<lparr>u_ExpiresAt := newExpiresAt, u_ExpirationWarningSent := False,
                   u_Status := (if activate then ''active'' else u_Status u)\<rparr>) e
        in Some (put_user_log ((user_log user ''renewed'' (GivenReason reason))
                   \<lparr>ul_NewExpiresAt := newExpiresAt, ul_PerformedBy := performedBy\<rparr>) e1)))"

definition RenewPermissionExpiration :: "time \<Rightarrow> string \<Rightarrow> time option \<Rightarrow> string \<Rightarrow> string \<Rightarrow> edb \<Rightarrow> edb option" where
  "RenewPermissionExpiration now ruleID newValidTo reason performedBy e =
     (case First pr_ID (\<lambda>r. pr_ID r = ruleID) (permission_rules (perms e)) of
        None \<Rightarrow> None
      | Some rule \<Rightarrow>
          (let enable = (case newValidTo of None \<Rightarrow> False | Some t \<Rightarrow> t > now) \<and> \<not> pr_Enabled rule;
               e1 = put_rule ruleID (\<lambda>r. r\<lparr>pr_ValidTo := newValidTo, pr_Enabled := (enable \<or> pr_Enabled r)\<rparr>) e
           in Some (put_rule_log ((rule_log e rule ''renewed'' (GivenReason reason))
                      \<lparr>xl_NewValidTo := newValidTo, xl_PerformedBy := performedBy\<rparr>) e1)))"

section \<open>What a check does to the accounts\<close>

text \<open>Updating the selected rows one by one is updating them all at once.\<close>

lemma fold_update_rows:
  assumes "distinct (map k t)" "set xs \<subseteq> set t" "distinct xs" "\<And>x. k (f x) = k x"
  shows "fold (\<lambda>x t. update_where (\<lambda>y. k y = k x) f t) xs t = map (\<lambda>y. if y \<in> set xs then f y else y) t"
  using fold_row_updates[OF assms(1-3), of "\<lambda>_. f"] assms(4) by simp

lemma fold_warn_user:
  "fold (warn_user days) xs e =
     e\<lparr>accounts := (accounts e)\<lparr>users := fold (\<lambda>x t. update_where (\<lambda>y. u_ID y = u_ID x)
         (\<lambda>u. u\<lparr>u_ExpirationWarningSent := True\<rparr>) t) xs (users (accounts e))\<rparr>,
       user_logs := user_logs e @ map (\<lambda>u. user_log u ''warning_sent'' (WillExpireIn days)) xs\<rparr>"
  by (induction xs arbitrary: e) (simp_all add: warn_user_def put_user_def put_user_log_def set_user_def)

definition expiry_log :: "bool \<Rightarrow> User \<Rightarrow> UserExpirationLog" where
  "expiry_log auto u = (if auto \<and> u_AutoDisableOnExpiry u then user_log u ''disabled'' ExpiredAndDisabled
     else user_log u ''expired'' ExpiredNotDisabled)"

lemma fold_expire_user:
  "fold (expire_user auto) xs e =
     e\<lparr>accounts := (accounts e)\<lparr>users := fold (\<lambda>x t. update_where (\<lambda>y. u_ID y = u_ID x)
         (\<lambda>u. u\<lparr>u_Status := ''inactive''\<rparr>) t) (filter (\<lambda>u. auto \<and> u_AutoDisableOnExpiry u) xs) (users (accounts e))\<rparr>,
       user_logs := user_logs e @ map (expiry_log auto) xs\<rparr>"
  by (induction xs arbitrary: e)
    (simp_all add: expire_user_def expiry_log_def put_user_def put_user_log_def set_user_def)

text \<open>The effect of a check on one account.\<close>

definition checked_user :: "time \<Rightarrow> int \<Rightarrow> bool \<Rightarrow> User \<Rightarrow> User" where
  "checked_user now days auto u =
     (if user_to_warn now days u then u\<lparr>u_ExpirationWarningSent := True\<rparr>
      else if user_expired now u \<and> auto \<and> u_AutoDisableOnExpiry u then u\<lparr>u_Status := ''inactive''\<rparr>
      else u)"

lemma to_warn_not_expired: "user_to_warn now days u \<Longrightarrow> \<not> user_expired now u"
  by (simp add: user_to_warn_def user_expired_def)

lemma expired_after_warning [simp]:
  "user_expired now (u\<lparr>u_ExpirationWarningSent := b\<rparr>) = user_expired now u"
  by (simp add: user_expired_def)

lemma filter_expired_warned:
  "filter (user_expired now) (map (\<lambda>u. if user_to_warn now days u then u\<lparr>u_ExpirationWarningSent := True\<rparr> else u) t)
   = filter (user_expired now) t"
  by (induction t) (auto dest: to_warn_not_expired)

text \<open>What a check does to the accounts.  With distinct identifiers and the
  check enabled, the loops over the two query results do exactly this, in one
  pass: active accounts that expire within the warning period and have not been
  warned are marked as warned, active accounts whose expiry has come are disabled
  if automatic disabling is on globally and for the account, and all others stay
  as they are; one log entry is written for each warned and each expired account.\<close>

theorem checkUserExpiration_effect:
  assumes "distinct (map u_ID (users (accounts e)))" "notification_for ''user'' 7 e = (days, True)"
    and "auto = auto_disable ''user_expiration_auto_disable'' e"
  shows "checkUserExpiration now e =
    e\<lparr>accounts := (accounts e)\<lparr>users := map (checked_user now days auto) (users (accounts e))\<rparr>,
      user_logs := user_logs e @
        map (\<lambda>u. user_log u ''warning_sent'' (WillExpireIn days)) (filter (user_to_warn now days) (users (accounts e))) @
        map (expiry_log auto) (filter (user_expired now) (users (accounts e)))\<rparr>"
proof -
  let ?t = "users (accounts e)" and ?w = "\<lambda>u. u\<lparr>u_ExpirationWarningSent := True\<rparr>"
  let ?t1 = "map (\<lambda>u. if user_to_warn now days u then ?w u else u) ?t"
  have dist: "distinct ?t" using assms(1) by (simp add: distinct_map)
  have "fold (\<lambda>x t. update_where (\<lambda>y. u_ID y = u_ID x) ?w t) (filter (user_to_warn now days) ?t) ?t =
      map (\<lambda>y. if y \<in> set (filter (user_to_warn now days) ?t) then ?w y else y) ?t"
    by (rule fold_update_rows) (use assms(1) dist in auto)
  then have 1: "fold (warn_user days) (filter (user_to_warn now days) ?t) e =
      e\<lparr>accounts := (accounts e)\<lparr>users := ?t1\<rparr>,
        user_logs := user_logs e @ map (\<lambda>u. user_log u ''warning_sent'' (WillExpireIn days)) (filter (user_to_warn now days) ?t)\<rparr>"
    by (simp add: fold_warn_user)
  let ?xs = "filter (\<lambda>u. auto \<and> u_AutoDisableOnExpiry u) (filter (user_expired now) ?t)"
  have d1: "distinct (map u_ID ?t1)" using assms(1) by (simp add: comp_def if_distrib cong: if_cong)
  have sub: "set ?xs \<subseteq> set ?t1" by (auto simp: image_iff dest: to_warn_not_expired)
  have "fold (\<lambda>x t. update_where (\<lambda>y. u_ID y = u_ID x) (\<lambda>u. u\<lparr>u_Status := ''inactive''\<rparr>) t) ?xs ?t1 =
      map (\<lambda>y. if y \<in> set ?xs then y\<lparr>u_Status := ''inactive''\<rparr> else y) ?t1"
    by (rule fold_update_rows [OF d1 sub]) (use dist in auto)
  also have "\<dots> = map (checked_user now days auto) ?t"
    by (auto simp: checked_user_def dest: to_warn_not_expired)
  finally have 2: "fold (\<lambda>x t. update_where (\<lambda>y. u_ID y = u_ID x) (\<lambda>u. u\<lparr>u_Status := ''inactive''\<rparr>) t) ?xs ?t1 =
      map (checked_user now days auto) ?t" .
  have same: "auto_disable k (e\<lparr>accounts := (accounts e)\<lparr>users := us\<rparr>, user_logs := ls\<rparr>) = auto_disable k e" for k us ls
    by (simp add: auto_disable_def)
  show ?thesis using assms(2) assms(3) [symmetric]
    by (simp add: checkUserExpiration_def Let_def 1 same fold_expire_user filter_expired_warned 2 del: filter_filter)
qed

definition sample_edb :: edb where
  "sample_edb = \<lparr> accounts = sample_adb\<lparr>users := [sample_user\<lparr>u_ExpiresAt := Some 5\<rparr>]\<rparr>, perms = sample_granted,
     notification_config = [], user_logs = [], rule_logs = [] \<rparr>"

theorem checkUserExpiration_effect_witness:
  "map u_Status (users (accounts (checkUserExpiration 10 sample_edb))) = [''inactive''] \<and>
   map ul_Action (user_logs (checkUserExpiration 10 sample_edb)) = [''disabled'']"
proof -
  have 1: "distinct (map u_ID (users (accounts sample_edb)))" by code_simp
  have 2: "notification_for ''user'' 7 sample_edb = (7, True)" by code_simp
  have 3: "True = auto_disable ''user_expiration_auto_disable'' sample_edb" by code_simp
  have "users (accounts sample_edb) = [sample_user\<lparr>u_ExpiresAt := Some 5\<rparr>]" "user_logs sample_edb = []"
    by (simp_all add: sample_edb_def)
  then show ?thesis unfolding checkUserExpiration_effect [OF 1 2 3, of 10]
    by (simp add: checked_user_def user_to_warn_def user_expired_def due_by_def expiry_log_def user_log_def
        sample_user_def new_user_def)
qed

section \<open>Checks and permissions\<close>

lemma perms_user_steps [simp]:
  "perms (fold (warn_user days) xs e) = perms e" "perms (fold (expire_user auto) xs e) = perms e"
  by (simp_all add: fold_warn_user fold_expire_user)

lemma perms_checkUserExpiration [simp]: "perms (checkUserExpiration now e) = perms e"
  by (simp add: checkUserExpiration_def Let_def split: prod.split)

lemma fold_warn_rule [simp]: "perms (fold (warn_rule days) xs e) = perms e" "accounts (fold (warn_rule days) xs e) = accounts e"
  by (induction xs arbitrary: e) (simp_all add: warn_rule_def put_rule_log_def)

text \<open>Disabling rules whose period is over at a time makes no difference to later
  decisions.\<close>

lemma disable_over:
  assumes "\<forall>r\<in>set (permission_rules db). pr_ID r = i \<longrightarrow> due_by now (pr_ValidTo r)" "now < t"
  shows "CheckUserHasPermission t u h su
      (db\<lparr>permission_rules := update_where (\<lambda>r. pr_ID r = i) (\<lambda>r. r\<lparr>pr_Enabled := False\<rparr>) (permission_rules db)\<rparr>)
    \<longleftrightarrow> CheckUserHasPermission t u h su db" (is "CheckUserHasPermission t u h su ?db \<longleftrightarrow> _")
proof -
  define f :: "PermissionRule \<Rightarrow> PermissionRule" where "f = (\<lambda>r. if pr_ID r = i then r\<lparr>pr_Enabled := False\<rparr> else r)"
  have applies: "rule_applies t ?db u h (f r) \<longleftrightarrow> rule_applies t db u h r" if "r \<in> set (permission_rules db)" for r
  proof (cases "pr_ID r = i")
    case True
    then have "\<not> in_period t r" using assms that by (auto simp: due_by_def in_period_def split: option.splits)
    then show ?thesis using True by (simp add: f_def rule_applies_def)
  qed (simp add: f_def rule_applies_def user_in_rule_def host_in_rule_def)
  have "pr_ID (f r) = pr_ID r" for r by (simp add: f_def)
  moreover have "set (permission_rules ?db) = f ` set (permission_rules db)"
    by (simp add: set_update_where f_def)
  moreover have "rule_system_users ?db = rule_system_users db" by simp
  ultimately show ?thesis using applies unfolding CheckUserHasPermission_iff by (simp only: bex_simps) (metis)
qed

definition over_in :: "time \<Rightarrow> PermissionRule list \<Rightarrow> PermissionRule list \<Rightarrow> bool" where
  "over_in now xs t \<longleftrightarrow> (\<forall>x\<in>set xs. \<forall>r\<in>set t. pr_ID r = pr_ID x \<longrightarrow> due_by now (pr_ValidTo r))"

lemma over_in_disabled:
  "over_in now xs t \<Longrightarrow> over_in now xs (update_where P (\<lambda>r. r\<lparr>pr_Enabled := b\<rparr>) t)"
  by (auto simp: over_in_def set_update_where)

lemma fold_expire_rule:
  assumes "over_in now xs (permission_rules (perms e))" "now < t"
  shows "(CheckUserHasPermission t u h su (perms (fold (expire_rule auto) xs e)) \<longleftrightarrow>
      CheckUserHasPermission t u h su (perms e)) \<and>
    map pr_ID (permission_rules (perms (fold (expire_rule auto) xs e))) = map pr_ID (permission_rules (perms e))"
  using assms(1)
proof (induction xs arbitrary: e)
  case (Cons x xs)
  have over: "\<forall>r\<in>set (permission_rules (perms e)). pr_ID r = pr_ID x \<longrightarrow> due_by now (pr_ValidTo r)"
    using Cons.prems by (simp add: over_in_def)
  have "over_in now xs (permission_rules (perms (expire_rule auto x e)))"
    using Cons.prems over_in_disabled [of now xs "permission_rules (perms e)"]
    by (simp add: expire_rule_def put_rule_def put_rule_log_def over_in_def)
  from Cons.IH [OF this] show ?case using disable_over [OF over assms(2)]
    by (simp add: expire_rule_def put_rule_def put_rule_log_def update_where_keys)
qed simp

lemma checkPermissionExpiration_later:
  assumes "distinct (map pr_ID (permission_rules (perms e)))" "now < t"
  shows "(CheckUserHasPermission t u h su (perms (checkPermissionExpiration now e)) \<longleftrightarrow>
      CheckUserHasPermission t u h su (perms e)) \<and>
    map pr_ID (permission_rules (perms (checkPermissionExpiration now e))) = map pr_ID (permission_rules (perms e))"
proof -
  let ?rs = "permission_rules (perms e)"
  have "over_in now (filter (rule_expired now) ?rs) ?rs"
    using assms(1) by (auto simp: over_in_def rule_expired_def distinct_map dest: inj_onD)
  then show ?thesis using fold_expire_rule [of now "filter (rule_expired now) ?rs", OF _ assms(2)]
    by (simp add: checkPermissionExpiration_def Let_def split: prod.split)
qed

text \<open>C25: disabling expired rules changes no decision.  However often the checks
  run, at any times before \<open>t\<close>, and whatever their configuration, the permission
  check at time \<open>t\<close> gives the same answer as without them, since a rule whose
  period is over grants nothing anyway.\<close>

theorem checks_keep_later_permissions:
  assumes "distinct (map pr_ID (permission_rules (perms e)))" "\<forall>s\<in>set ts. s < t"
  shows "CheckUserHasPermission t u h su (perms (runPeriodicCheck ts e)) \<longleftrightarrow> CheckUserHasPermission t u h su (perms e)"
  using assms
proof (induction ts arbitrary: e)
  case (Cons s ts)
  let ?e = "performCheck s e"
  have "CheckUserHasPermission t u h su (perms ?e) \<longleftrightarrow> CheckUserHasPermission t u h su (perms e)"
    "map pr_ID (permission_rules (perms ?e)) = map pr_ID (permission_rules (perms e))"
    using checkPermissionExpiration_later [of "checkUserExpiration s e" s t] Cons.prems by (simp_all add: performCheck_def)
  then show ?case using Cons.IH [of ?e] Cons.prems by (simp add: runPeriodicCheck_def)
qed (simp add: runPeriodicCheck_def)

theorem checks_keep_later_permissions_witness:
  "CheckUserHasPermission 50 ''u1'' ''h1'' ''s1'' (perms (runPeriodicCheck [10, 40] sample_edb))"
proof -
  have 1: "distinct (map pr_ID (permission_rules (perms sample_edb)))" by code_simp
  have 2: "\<forall>s\<in>set [10, 40]. s < (50 :: time)" by simp
  have "CheckUserHasPermission 50 ''u1'' ''h1'' ''s1'' (perms sample_edb)" by code_simp
  then show ?thesis using checks_keep_later_permissions [OF 1 2] by simp
qed

section \<open>Renewal\<close>

text \<open>An account that expires at \<open>t\<close> and is active, and that there is such an account.\<close>

definition lasting :: "string \<Rightarrow> time \<Rightarrow> edb \<Rightarrow> bool" where
  "lasting i t e \<longleftrightarrow> i \<in> u_ID ` set (users (accounts e)) \<and>
     (\<forall>u\<in>set (users (accounts e)). u_ID u = i \<longrightarrow> u_Status u = ''active'' \<and> u_ExpiresAt u = Some t)"

lemma lasting_put:
  assumes "lasting i t e" "\<And>u. u_ID (f u) = u_ID u" "\<And>u. u_ExpiresAt (f u) = u_ExpiresAt u"
    and "i \<noteq> j \<or> (\<forall>u. u_Status (f u) = u_Status u)"
  shows "lasting i t (put_user j f e)"
proof -
  have "map u_ID (users (accounts (put_user j f e))) = map u_ID (users (accounts e))"
    using assms(2) by (simp add: put_user_def set_user_def update_where_keys)
  then have "u_ID ` set (users (accounts (put_user j f e))) = u_ID ` set (users (accounts e))" by (metis set_map)
  then show ?thesis using assms unfolding lasting_def
    by (auto simp: put_user_def set_user_def set_update_where)
qed

lemma lasting_log [simp]: "lasting i t (put_user_log l e) = lasting i t e"
  by (simp add: lasting_def put_user_log_def)

lemma lasting_warn: "lasting i t e \<Longrightarrow> lasting i t (fold (warn_user days) xs e)"
  by (induction xs arbitrary: e) (simp_all add: warn_user_def lasting_put)

lemma lasting_expire: "lasting i t e \<Longrightarrow> i \<notin> u_ID ` set xs \<Longrightarrow> lasting i t (fold (expire_user auto) xs e)"
  by (induction xs arbitrary: e) (simp_all add: expire_user_def lasting_put)

lemma lasting_expire_rule [simp]: "lasting i t (fold (expire_rule auto) xs e) = lasting i t e"
  by (induction xs arbitrary: e) (simp_all add: expire_rule_def put_rule_def put_rule_log_def lasting_def)

lemma lasting_performCheck:
  assumes "lasting i t e" "now < t"
  shows "lasting i t (performCheck now e)"
proof -
  have exp: "lasting i t (fold (expire_user auto) (filter (user_expired now) (users (accounts e'))) e')"
    if "lasting i t e'" for auto e'
    using that assms(2) by (intro lasting_expire) (auto simp: lasting_def user_expired_def due_by_def)
  have "lasting i t (checkUserExpiration now e)"
    using assms(1) by (simp add: checkUserExpiration_def Let_def lasting_warn exp split: prod.split)
  moreover have "lasting i t (fold (warn_rule days) xs e') = lasting i t e'" for days xs e'
    by (simp add: lasting_def)
  ultimately show ?thesis by (simp add: performCheck_def checkPermissionExpiration_def Let_def split: prod.split)
qed

text \<open>A renewal lasts until the new date.  After an account with a known state
  has been renewed to a date in the future, it is active, also when it had been
  disabled or deleted before, and however often the checks run before that date it
  stays active and does not count as expired.\<close>

theorem renewal_lasts:
  assumes "accounts_ok L (accounts e)" "RenewUserExpiration now i (Some t) reason by_whom e = Some e'" "now < t"
    and "\<forall>s\<in>set ts. s < t"
  shows "\<exists>u. FindUserByID i (accounts (runPeriodicCheck ts e')) = Some u \<and> u_Status u = ''active'' \<and>
    u_ExpiresAt u = Some t \<and> \<not> expired t u"
proof -
  from assms(2) obtain user where user: "FindUserByID i (accounts e) = Some user"
    by (auto simp: RenewUserExpiration_def split: option.splits)
  then have mem: "user \<in> set (users (accounts e))" "u_ID user = i" by (simp_all add: FindUserByID_Some)
  have same: "u = user" if "u \<in> set (users (accounts e))" "u_ID u = i" for u
    using assms(1) that mem by (auto simp: accounts_ok_def distinct_map dest: inj_onD)
  define g :: "User \<Rightarrow> User" where "g = (\<lambda>u. u\<lparr>u_ExpiresAt := Some t, u_ExpirationWarningSent := False,
      u_Status := (if u_Status user = ''inactive'' then ''active'' else u_Status u)\<rparr>)"
  have rows: "set (users (accounts e')) = (\<lambda>u. if u_ID u = i then g u else u) ` set (users (accounts e))"
    using assms(2,3) user
    by (auto simp: RenewUserExpiration_def Let_def put_user_def put_user_log_def set_user_def g_def set_update_where)
  have g: "u_Status (g user) = ''active''" "u_ExpiresAt (g user) = Some t" "u_ID (g user) = i"
    using accounts_ok_row [OF assms(1) mem(1)] mem(2) by (auto simp: g_def)
  have "g user \<in> set (users (accounts e'))" unfolding rows using mem by (intro image_eqI [of _ _ user]) simp_all
  moreover have "x = g user" if "x \<in> set (users (accounts e'))" "u_ID x = i" for x
    using that same unfolding rows by (auto split: if_splits)
  ultimately have "lasting i t e'" using g unfolding lasting_def by (metis image_eqI)
  then have "lasting i t (runPeriodicCheck ts e')"
    using assms(4) by (induction ts arbitrary: e') (simp_all add: runPeriodicCheck_def lasting_performCheck)
  then obtain u where "u \<in> set (users (accounts (runPeriodicCheck ts e')))" "u_ID u = i"
    by (auto simp: lasting_def)
  then obtain u where "FindUserByID i (accounts (runPeriodicCheck ts e')) = Some u"
    by (cases "FindUserByID i (accounts (runPeriodicCheck ts e'))") (auto simp: FindUserByID_def First_None)
  then show ?thesis using \<open>lasting i t (runPeriodicCheck ts e')\<close> FindUserByID_Some
    by (fastforce simp: lasting_def expired_def)
qed

theorem renewal_lasts_witness:
  "\<exists>e'. RenewUserExpiration 0 ''u1'' (Some day) ''r'' ''root'' sample_edb = Some e' \<and>
     (\<exists>u. FindUserByID ''u1'' (accounts (runPeriodicCheck [minute, hour] e')) = Some u \<and> u_Status u = ''active'')"
proof -
  have 1: "accounts_ok sample_libs (accounts sample_edb)" by code_simp
  have "FindUserByID ''u1'' (accounts sample_edb) \<noteq> None" by code_simp
  then obtain e' where 2: "RenewUserExpiration 0 ''u1'' (Some day) ''r'' ''root'' sample_edb = Some e'"
    by (auto simp: RenewUserExpiration_def Let_def)
  have 3: "\<forall>s\<in>set [minute, hour]. s < day" by (simp add: day_def hour_def minute_def second_def)
  show ?thesis using renewal_lasts [OF 1 2 _ 3] 2 by auto
qed

end
