(* ===== verification/Go_Numbers.thy ===== *)
theory Go_Numbers
imports Go_Strings
begin

text \<open>
  What the code uses of Go's integers: the 64-bit type \<open>int\<close> with its wrap-around, the
  decimal text of \<open>%d\<close> and \<open>strconv.Atoi\<close>, with the round trip between them.
\<close>

section \<open>64-bit integers\<close>

definition int64 :: "int \<Rightarrow> int" where
  "int64 n = (n + 2 ^ 63) mod 2 ^ 64 - 2 ^ 63"

definition in_int64 :: "int \<Rightarrow> bool" where
  "in_int64 n \<longleftrightarrow> - (2 ^ 63) \<le> n \<and> n < 2 ^ 63"

lemma int64_id [simp]: "in_int64 n \<Longrightarrow> int64 n = n"
  by (simp add: int64_def in_int64_def)

lemma in_int64_int64 [simp]: "in_int64 (int64 n)"
  using pos_mod_bound[of "2 ^ 64 :: int" "n + 2 ^ 63"] by (simp add: int64_def in_int64_def)

text \<open>Go's division by a positive number truncates towards zero.\<close>

definition trunc_div :: "int \<Rightarrow> int \<Rightarrow> int" where
  "trunc_div a b = (if a < 0 then - ((- a) div b) else a div b)"

section \<open>Decimal text\<close>

function print_digits :: "int \<Rightarrow> string" where
  "print_digits n = (if n < 10 then [char_of (48 + n)] else print_digits (n div 10) @ [char_of (48 + n mod 10)])"
  by pat_completeness auto
termination by (relation "measure nat") auto

declare print_digits.simps [simp del]

definition print_int :: "int \<Rightarrow> string" where
  "print_int n = (if n < 0 then ''-'' @ print_digits (- n) else print_digits n)"

definition digits_value :: "string \<Rightarrow> int" where
  "digits_value ds = fold (\<lambda>c n. 10 * n + (int (ord c) - 48)) ds 0"

text \<open>\<open>strconv.Atoi\<close> with its error: the value is 0 for a text that is no number, and the nearest
  64-bit integer for one out of range.\<close>

definition Atoi :: "string \<Rightarrow> int \<times> bool" where
  "Atoi s =
     (let neg = (s \<noteq> [] \<and> hd s = CHR ''-'');
          ds = (if s \<noteq> [] \<and> (hd s = CHR ''-'' \<or> hd s = CHR ''+'') then tl s else s)
      in if ds = [] \<or> \<not> list_all is_digit ds then (0, False)
         else let n = (if neg then - digits_value ds else digits_value ds)
              in if n < - (2 ^ 63) then (- (2 ^ 63), False) else if 2 ^ 63 \<le> n then (2 ^ 63 - 1, False) else (n, True))"

lemma digits_value_append: "digits_value (ds @ [c]) = 10 * digits_value ds + (int (ord c) - 48)"
  by (simp add: digits_value_def)

lemma ord_digit:
  assumes "0 \<le> n" "n < 10"
  shows "int (of_char (char_of (48 + n :: int))) = 48 + n"
  using assms by (simp add: of_nat_of_char of_char_of)

lemma print_digits_ok:
  assumes "0 \<le> n"
  shows "print_digits n \<noteq> [] \<and> list_all is_digit (print_digits n) \<and> digits_value (print_digits n) = n"
  using assms
proof (induction n rule: print_digits.induct)
  case (1 n)
  have one: "is_digit (char_of (48 + m :: int)) \<and> digits_value [char_of (48 + m)] = m" if "0 \<le> m" "m < 10" for m
    using ord_digit[OF that] that by (simp add: is_digit_def digits_value_def)
  show ?case
  proof (cases "n < 10")
    case True
    then show ?thesis using one[of n] 1(2) by (simp add: print_digits.simps[of n])
  next
    case False
    have "is_digit (char_of (48 + n mod 10)) \<and> int (ord (char_of (48 + n mod 10))) - 48 = n mod 10"
      using one[of "n mod 10"] ord_digit[of "n mod 10"] by simp
    then show ?thesis using False 1 by (simp add: print_digits.simps[of n] digits_value_append)
  qed
qed

lemma Atoi_print_int [simp]: "in_int64 n \<Longrightarrow> Atoi (print_int n) = (n, True)"
proof -
  assume r: "in_int64 n"
  let ?ds = "print_digits \<bar>n\<bar>"
  have ds: "?ds \<noteq> []" "list_all is_digit ?ds" "digits_value ?ds = \<bar>n\<bar>" using print_digits_ok[of "\<bar>n\<bar>"] by simp_all
  then have "is_digit (hd ?ds)" by (cases ?ds) auto
  then have "hd ?ds \<noteq> CHR ''-''" "hd ?ds \<noteq> CHR ''+''" by (auto simp: is_digit_def)
  then show "Atoi (print_int n) = (n, True)"
  proof (cases "n < 0")
    case True
    then have "print_int n = CHR ''-'' # ?ds" by (simp add: print_int_def)
    then show ?thesis using ds r True by (simp add: Atoi_def in_int64_def)
  next
    case False
    then have "print_int n = ?ds" by (simp add: print_int_def)
    then show ?thesis using ds r False \<open>hd ?ds \<noteq> CHR ''-''\<close> \<open>hd ?ds \<noteq> CHR ''+''\<close>
      by (simp add: Atoi_def in_int64_def)
  qed
qed

end
