(* ===== verification/Host_Connection.thy ===== *)
theory Host_Connection
imports Permissions Go_Numbers
begin

text \<open>
  Connecting a terminal session to a host
  (\<open>internal/sshserver/terminal/handler.go\<close>: \<open>HandleTerminal\<close>,
  \<open>handleHostConnection\<close> and the first half of
  \<open>connectToHostWithSuccessCallback\<close>): the choice of the system user, the
  authentication method, and the order of the audit and recording calls.  The
  answers of the menu, of the client, of the key parser and of the SSH dialer are
  arguments; the forwarding that follows a successful connection is the subject
  of \<open>Terminal_Interceptor\<close>.
\<close>

section \<open>Definitions\<close>

record HostInfo =
  h_ID :: string
  h_Name :: string
  h_IP :: string
  h_Port :: int
  h_Username :: string
  h_Password :: string
  h_Tags :: "string list"
  h_DeviceType :: string
  h_Status :: string

record SessionInfo =
  s_SessionID :: string
  s_UserID :: string
  s_Username :: string
  s_ClientIP :: string
  s_HostID :: string
  s_HostName :: string
  s_HostIP :: string
  s_HostPort :: int
  s_HostUsername :: string
  s_StartTime :: time
  s_EndTime :: "time option"
  s_Status :: string
  s_TerminalCols :: nat
  s_TerminalRows :: nat

datatype connection_error =
    NoRepositoryAnswer string | NoSystemUser | SelectionUnread | InvalidSelection
  | KeyRejected string | UnsupportedAuth string | DialFailed string

text \<open>What the connection does to the outside, in order: messages to the user, and
  the calls to the auditor and the recorder with the session they are made for.\<close>

datatype event =
    ShowConnectionInfo string
  | ShowError string
  | AuditLoginStart SessionInfo
  | AuditSessionFailed string
  | AuditConnectionSuccess SessionInfo
  | RecordStart SessionInfo
  | Dialed string SystemUser
  | AuditSessionEnd string time
  | RecordEnd string time

text \<open>\<open>fmt.Sscanf(choice, "%d", ..)\<close>: an optional sign and digits at the start of the
  text; what follows is ignored.\<close>

definition scan_int :: "string \<Rightarrow> int option" where
  "scan_int s =
     (let s = dropWhile is_space s;
          neg = (s \<noteq> [] \<and> hd s = CHR ''-'');
          body = (if s \<noteq> [] \<and> (hd s = CHR ''-'' \<or> hd s = CHR ''+'') then tl s else s);
          ds = takeWhile is_digit body
      in if ds = [] then None else Some (if neg then - digits_value ds else digits_value ds))"

text \<open>The choice among the available system users: none is an error, a single one
  is taken, otherwise the client's answer (\<open>None\<close> when it cannot be read) selects
  by number.\<close>

definition select_system_user :: "SystemUser list \<Rightarrow> string option \<Rightarrow> connection_error + SystemUser" where
  "select_system_user available answer =
     (case available of
        [] \<Rightarrow> Inl NoSystemUser
      | [su] \<Rightarrow> Inr su
      | _ \<Rightarrow> (case answer of
          None \<Rightarrow> Inl SelectionUnread
        | Some a \<Rightarrow>
            (if a = [] then Inl SelectionUnread
             else (case scan_int (TrimSpace a) of
               None \<Rightarrow> Inl InvalidSelection
             | Some n \<Rightarrow> (if n < 1 \<or> n > int (length available) then Inl InvalidSelection
                         else Inr (available ! nat (n - 1)))))))"

text \<open>The authentication method and the dial.  \<open>parse_key\<close> stands for the two key
  parsers (the passphrase is passed on), \<open>dial\<close> for \<open>ssh.Dial\<close>.\<close>

definition connect_auth :: "(string \<Rightarrow> string \<Rightarrow> string option) \<Rightarrow> (SystemUser \<Rightarrow> string option) \<Rightarrow>
    SystemUser \<Rightarrow> connection_error option" where
  "connect_auth parse_key dial su =
     (if su_AuthType su = ''password'' then map_option DialFailed (dial su)
      else if su_AuthType su = ''key'' then
        (case parse_key (su_PrivateKey su) (su_Passphrase su) of
           Some err \<Rightarrow> Some (KeyRejected err)
         | None \<Rightarrow> map_option DialFailed (dial su))
      else Some (UnsupportedAuth (su_AuthType su)))"

text \<open>The result of a connection: returned to the menu with an optional error, or a
  nil dereference, which ends the whole terminal session.\<close>

datatype outcome = Done "connection_error option" | Panicked

record conn_env =
  e_suffix :: string    \<comment> \<open>the first eight characters of a new UUID\<close>
  e_start :: time
  e_end :: time
  e_available :: "(string + SystemUser list) option"  \<comment> \<open>absent: no repository configured\<close>
  e_answer :: "string option"
  e_parse_key :: "string \<Rightarrow> string \<Rightarrow> string option"
  e_dial :: "SystemUser \<Rightarrow> string option"

definition host_session :: "conn_env \<Rightarrow> SessionInfo \<Rightarrow> HostInfo \<Rightarrow> SessionInfo" where
  "host_session e session host =
     \<lparr> s_SessionID = s_SessionID session @ ''-'' @ e_suffix e,
       s_UserID = s_UserID session, s_Username = s_Username session, s_ClientIP = s_ClientIP session,
       s_HostID = h_ID host, s_HostName = h_Name host, s_HostIP = h_IP host, s_HostPort = h_Port host,
       s_HostUsername = h_Username host, s_StartTime = e_start e, s_EndTime = None, s_Status = ''connecting'',
       s_TerminalCols = s_TerminalCols session, s_TerminalRows = s_TerminalRows session \<rparr>"

definition error_shown :: "connection_error \<Rightarrow> event list" where
  "error_shown err = (case err of
     NoSystemUser \<Rightarrow> [ShowError ''No available system users for this host'']
   | InvalidSelection \<Rightarrow> [ShowError ''Invalid selection'']
   | _ \<Rightarrow> [])"

definition handleHostConnection :: "conn_env \<Rightarrow> SessionInfo \<Rightarrow> HostInfo \<Rightarrow> event list \<times> outcome" where
  "handleHostConnection e session host =
     (let hs = host_session e session host; shown = [ShowConnectionInfo (h_Name host)] in
      case e_available e of
        None \<Rightarrow> (shown @ [AuditLoginStart hs], Panicked)
      | Some (Inl err) \<Rightarrow> (shown, Done (Some (NoRepositoryAnswer err)))
      | Some (Inr available) \<Rightarrow>
          (case select_system_user available (e_answer e) of
             Inl err \<Rightarrow> (shown @ error_shown err, Done (Some err))
           | Inr su \<Rightarrow>
               (let hs = hs\<lparr>s_HostUsername := su_Username su\<rparr> in
                case connect_auth (e_parse_key e) (e_dial e) su of
                  Some err \<Rightarrow> (shown @ [AuditLoginStart hs, AuditSessionFailed (s_SessionID hs)], Done (Some err))
                | None \<Rightarrow>
                    (shown @ [AuditLoginStart hs, Dialed (h_IP host) su, AuditConnectionSuccess hs, RecordStart hs,
                              AuditSessionEnd (s_SessionID hs) (e_end e), RecordEnd (s_SessionID hs) (e_end e)],
                     Done None))))"

text \<open>The menu loop of \<open>HandleTerminal\<close>: each answer of the menu is an exit, nothing,
  or a host with the environment of its connection.  A panic is recovered and
  ends the session.\<close>

datatype menu_answer = MenuExit | MenuNone | MenuHost HostInfo conn_env

datatype terminal_event = Connection "event list" | ConnectionFailed connection_error | ReturnToMenu | Goodbye

fun HandleTerminal :: "menu_answer list \<Rightarrow> SessionInfo \<Rightarrow> terminal_event list" where
  "HandleTerminal [] session = []"
| "HandleTerminal (MenuExit # as) session = [Goodbye]"
| "HandleTerminal (MenuNone # as) session = HandleTerminal as session"
| "HandleTerminal (MenuHost host e # as) session =
     (case handleHostConnection e session host of
        (evs, Panicked) \<Rightarrow> [Connection evs]
      | (evs, Done (Some err)) \<Rightarrow> Connection evs # ConnectionFailed err # HandleTerminal as session
      | (evs, Done None) \<Rightarrow> Connection evs # ReturnToMenu # HandleTerminal as session)"

section \<open>Facts\<close>

lemma select_system_user_mem: "select_system_user available answer = Inr su \<Longrightarrow> su \<in> set available"
proof -
  assume a: "select_system_user available answer = Inr su"
  show ?thesis
  proof (cases available)
    case (Cons x xs)
    show ?thesis
    proof (cases xs)
      case Nil
      then show ?thesis using a Cons by (simp add: select_system_user_def)
    next
      case (Cons y ys)
      then obtain n where "su = available ! nat (n - 1)" "1 \<le> n" "n \<le> int (length available)"
        using a \<open>available = x # xs\<close>
        by (auto simp: select_system_user_def not_less split: option.splits if_splits)
      then show ?thesis by auto
    qed
  qed (use a in \<open>simp add: select_system_user_def\<close>)
qed

text \<open>Clients of the access interface: whom a connection may dial as.\<close>

context host_access
begin

lemma dials_permitted:
  assumes "e_available e = Some (Inr (offered (s_UserID session) (h_ID host)))"
    and "Dialed ip su \<in> set (fst (handleHostConnection e session host))"
  shows "permitted (s_UserID session) (h_ID host) (su_ID su)" "su_Status su = ''active''" "ip = h_IP host"
proof -
  from assms obtain "su \<in> set (offered (s_UserID session) (h_ID host))" "ip = h_IP host"
    by (auto simp: handleHostConnection_def Let_def error_shown_def dest: select_system_user_mem
        split: sum.splits option.splits connection_error.splits)
  then show "permitted (s_UserID session) (h_ID host) (su_ID su)" "su_Status su = ''active''" "ip = h_IP host"
    by (simp_all add: offered_permitted offered_active)
qed

end


definition sample_host :: HostInfo where
  "sample_host = \<lparr> h_ID = ''h1'', h_Name = ''web'', h_IP = ''10.0.0.1'', h_Port = 22, h_Username = [], h_Password = [],
     h_Tags = [], h_DeviceType = ''linux'', h_Status = ''online'' \<rparr>"

definition sample_session :: SessionInfo where
  "sample_session = \<lparr> s_SessionID = ''x'', s_UserID = ''u1'', s_Username = ''ann'', s_ClientIP = [], s_HostID = [],
     s_HostName = [], s_HostIP = [], s_HostPort = 0, s_HostUsername = [], s_StartTime = 0, s_EndTime = None,
     s_Status = [], s_TerminalCols = 80, s_TerminalRows = 24 \<rparr>"

definition sample_conn :: conn_env where
  "sample_conn = \<lparr> e_suffix = ''00000000'', e_start = 50, e_end = 60,
     e_available = Some (Inr (GetAvailableSystemUsersForUser 50 ''u1'' ''h1'' sample_granted)),
     e_answer = None, e_parse_key = (\<lambda>_ _. None), e_dial = (\<lambda>_. None) \<rparr>"


text \<open>What is recorded is complete.  A connection that returns to the menu
  without an error was dialed, audited as successful, and its recording was
  started and ended once, under the identifier of the host session; a connection
  that fails is never dialed into, recorded or audited as successful.\<close>

theorem connection_audit_complete:
  "case handleHostConnection e session host of
     (evs, Done None) \<Rightarrow> (\<exists>su hs. s_SessionID hs = s_SessionID session @ ''-'' @ e_suffix e \<and>
        s_UserID hs = s_UserID session \<and> s_HostUsername hs = su_Username su \<and>
        evs = [ShowConnectionInfo (h_Name host), AuditLoginStart hs, Dialed (h_IP host) su,
               AuditConnectionSuccess hs, RecordStart hs,
               AuditSessionEnd (s_SessionID hs) (e_end e), RecordEnd (s_SessionID hs) (e_end e)])
   | (evs, _) \<Rightarrow> (\<forall>ev\<in>set evs. case ev of Dialed _ _ \<Rightarrow> False | RecordStart _ \<Rightarrow> False
        | RecordEnd _ _ \<Rightarrow> False | AuditConnectionSuccess _ \<Rightarrow> False | _ \<Rightarrow> True)"
proof (cases "e_available e")
  case None
  then show ?thesis by (simp add: handleHostConnection_def Let_def)
next
  case (Some av)
  show ?thesis
  proof (cases av)
    case (Inl err)
    then show ?thesis using Some by (simp add: handleHostConnection_def Let_def)
  next
    case (Inr available)
    show ?thesis
    proof (cases "select_system_user available (e_answer e)")
      case (Inl err)
      then show ?thesis using Some Inr
        by (simp add: handleHostConnection_def Let_def error_shown_def split: connection_error.splits)
    next
      case sel: (Inr su)
      let ?hs = "(host_session e session host)\<lparr>s_HostUsername := su_Username su\<rparr>"
      show ?thesis
      proof (cases "connect_auth (e_parse_key e) (e_dial e) su")
        case None
        then show ?thesis using Some Inr sel
          by (simp add: handleHostConnection_def Let_def) (simp add: host_session_def)
      next
        case (Some err)
        then show ?thesis using \<open>e_available e = Some av\<close> Inr sel
          by (simp add: handleHostConnection_def Let_def)
      qed
    qed
  qed
qed

theorem connection_audit_complete_witness:
  "\<exists>hs. fst (handleHostConnection sample_conn sample_session sample_host) =
     [ShowConnectionInfo ''web'', AuditLoginStart hs, Dialed ''10.0.0.1'' sample_su,
      AuditConnectionSuccess hs, RecordStart hs, AuditSessionEnd ''x-00000000'' 60, RecordEnd ''x-00000000'' 60]"
proof -
  have "snd (handleHostConnection sample_conn sample_session sample_host) = Done None" by code_simp
  moreover have "Dialed ''10.0.0.1'' sample_su \<in> set (fst (handleHostConnection sample_conn sample_session sample_host))"
    by code_simp
  ultimately show ?thesis
    using connection_audit_complete [where e = sample_conn and session = sample_session and host = sample_host]
    by (auto split: prod.splits simp: sample_conn_def sample_session_def sample_host_def)
qed

end
