(* ===== verification/Settings.thy ===== *)
theory Settings
imports Accounts
begin

text \<open>
  System settings: the queries of \<open>internal/repository/setting_repository.go\<close> on the
  table of \<open>internal/model/setting.go\<close>, and the handlers of
  \<open>internal/api/handler/setting_handler.go\<close>.  A JSON value is given by its kind and the
  text that \<open>fmt\<close> prints for it; a JSON object is the list of its members in the order in
  which the loop over the map visits them.  What the handlers reload and publish after
  an update is returned as events.
\<close>

section \<open>Repository\<close>

text \<open>A structured condition leaves out fields with their zero value: the empty key puts no
  condition on the query.\<close>

definition key_is :: "string \<Rightarrow> Setting \<Rightarrow> bool" where
  "key_is key s \<longleftrightarrow> key = [] \<or> st_Key s = key"

definition Setting_GetAll :: "Setting list \<Rightarrow> Setting list" where
  "Setting_GetAll t = sort_key st_Category (sort_key st_Key t)"

definition Setting_GetByKey :: "string \<Rightarrow> Setting list \<Rightarrow> Setting option" where
  "Setting_GetByKey key t = first_where (key_is key) t"

definition Setting_Get :: "string \<Rightarrow> Setting list \<Rightarrow> string" where
  "Setting_Get key t = (case Setting_GetByKey key t of None \<Rightarrow> [] | Some s \<Rightarrow> st_Value s)"

definition next_setting_ID :: "Setting list \<Rightarrow> nat" where
  "next_setting_ID t = Suc (fold max (map st_ID t) 0)"

definition Setting_Upsert :: "string \<Rightarrow> string \<Rightarrow> string \<Rightarrow> string \<Rightarrow> Setting list \<Rightarrow> Setting list" where
  "Setting_Upsert key val category ty t = (case First st_ID (key_is key) t of
     None \<Rightarrow> t @ [\<lparr>st_ID = next_setting_ID t, st_Key = key, st_Value = val, st_Category = category, st_Type = ty\<rparr>]
   | Some existing \<Rightarrow> update_where (\<lambda>s. st_ID s = st_ID existing)
       (\<lambda>s. s\<lparr>st_Value := val, st_Category := category, st_Type := ty\<rparr>) t)"

definition Setting_BatchUpsert :: "(string \<times> string \<times> string \<times> string) list \<Rightarrow> Setting list \<Rightarrow> Setting list" where
  "Setting_BatchUpsert rows t = fold (\<lambda>(key, val, category, ty). Setting_Upsert key val category ty) rows t"

text \<open>A delete without any condition is refused by the library.\<close>

definition Setting_Delete :: "string \<Rightarrow> Setting list \<Rightarrow> Setting list option" where
  "Setting_Delete key t = (if key = [] then None else Some (delete_where (\<lambda>s. st_Key s = key) t))"

section \<open>Handlers\<close>

datatype jval = JString string | JBool bool | JNumber string | JOther string

fun value_text :: "jval \<Rightarrow> string \<times> string" where
  "value_text (JString v) = (''string'', v)"
| "value_text (JBool v) = (''boolean'', if v then ''true'' else ''false'')"
| "value_text (JNumber v) = (''number'', v)"
| "value_text (JOther v) = (''string'', v)"

fun jprint :: "jval \<Rightarrow> string" where
  "jprint v = snd (value_text v)"

datatype jmember = Scalar jval | Object "(string \<times> jval) list"

text \<open>The rows of one member of a batch: the form with a value and a category, or a category
  with its settings; other values are skipped.\<close>

fun member_rows :: "string \<times> jmember \<Rightarrow> (string \<times> string \<times> string \<times> string) list" where
  "member_rows (key, Scalar v) = []"
| "member_rows (key, Object ms) =
     (case (map_of ms ''value'', map_of ms ''category'') of
        (Some val, Some cat) \<Rightarrow> [(key, snd (value_text val), jprint cat, fst (value_text val))]
      | _ \<Rightarrow> map (\<lambda>(k, v). (k, snd (value_text v), key, fst (value_text v))) ms)"

datatype setting_event = ReloadNotification | ReloadHostMonitor | PublishConfigChange string string

definition UpdateSettings :: "bool \<Rightarrow> bool \<Rightarrow> bool \<Rightarrow> (string \<times> jmember) list option \<Rightarrow> Setting list \<Rightarrow>
    nat \<times> setting_event list \<times> Setting list" where
  "UpdateSettings has_notifier has_monitor has_sync request t = (case request of
     None \<Rightarrow> (400, [], t)
   | Some members \<Rightarrow>
       (let rows = concat (map member_rows members);
            monitor = list_ex (\<lambda>(_, _, category, _). category = ''host_monitor'') rows
        in (200,
            (if has_notifier \<and> list_ex (\<lambda>(_, _, category, _). category = ''notification'') rows
             then [ReloadNotification] else []) @
            (if has_monitor \<and> monitor
             then ReloadHostMonitor # (if has_sync
               then map (\<lambda>(key, val, _, _). PublishConfigChange key val)
                      (filter (\<lambda>(_, _, category, _). category = ''host_monitor'') rows)
               else [])
             else []),
            Setting_BatchUpsert rows t)))"

definition UpdateSetting :: "(string \<times> jval \<times> string) option \<Rightarrow> Setting list \<Rightarrow> nat \<times> Setting list" where
  "UpdateSetting request t = (case request of
     None \<Rightarrow> (400, t)
   | Some (key, val, category) \<Rightarrow>
       (if key = [] \<or> category = [] then (400, t)
        else (200, Setting_Upsert key (snd (value_text val)) category (fst (value_text val)) t)))"

definition DeleteSetting :: "string \<Rightarrow> Setting list \<Rightarrow> nat \<times> Setting list" where
  "DeleteSetting key t = (case Setting_Delete key t of None \<Rightarrow> (500, t) | Some t' \<Rightarrow> (200, t'))"

definition settings_object :: "Setting list \<Rightarrow> string \<Rightarrow> string option" where
  "settings_object ss = fold (\<lambda>s m. m(st_Key s \<mapsto> st_Value s)) ss (\<lambda>_. None)"

definition GetAllSettings :: "Setting list \<Rightarrow> string \<Rightarrow> string \<Rightarrow> string option" where
  "GetAllSettings t category = settings_object (filter (\<lambda>s. st_Category s = category) (Setting_GetAll t))"

definition GetSettingsByCategory :: "string \<Rightarrow> adb \<Rightarrow> string \<Rightarrow> string option" where
  "GetSettingsByCategory category db = settings_object (GetByCategory category db)"

definition GetPublicSettings :: "adb \<Rightarrow> string \<Rightarrow> string option" where
  "GetPublicSettings db = GetSettingsByCategory ''system'' db"

record auth_methods =
  am_password :: bool
  am_ldap :: bool
  am_sso :: bool
  am_primary :: string

definition GetAuthMethods :: "adb \<Rightarrow> auth_methods" where
  "GetAuthMethods db =
     (let authMethod = getSettingValue (GetByCategory ''auth'' db) ''authMethod'' ''password''
      in \<lparr>am_password = (authMethod = ''password''), am_ldap = (authMethod = ''ldap''),
          am_sso = (authMethod = ''sso''), am_primary = authMethod\<rparr>)"

text \<open>The tests of a directory or single sign-on configuration look at nothing but the presence
  of the required fields: success, or a malformed request.\<close>

definition TestConnection :: "string list \<Rightarrow> nat \<times> bool" where
  "TestConnection required = (if [] \<in> set required then (400, False) else (200, True))"

section \<open>The interface of the store\<close>

text \<open>What the clients of the settings rely on: reading a key after writing it gives the value
  written, and writing a key leaves the other keys alone.\<close>

locale setting_store =
  fixes ok :: "'t \<Rightarrow> bool"
    and lookup :: "string \<Rightarrow> 't \<Rightarrow> string option"
    and put :: "string \<Rightarrow> string \<Rightarrow> string \<Rightarrow> string \<Rightarrow> 't \<Rightarrow> 't"
  assumes put_ok: "ok t \<Longrightarrow> key \<noteq> [] \<Longrightarrow> ok (put key v c ty t)"
    and lookup_put: "ok t \<Longrightarrow> key \<noteq> [] \<Longrightarrow> lookup key (put key v c ty t) = Some v"
    and lookup_other: "ok t \<Longrightarrow> key \<noteq> [] \<Longrightarrow> key' \<noteq> [] \<Longrightarrow> key' \<noteq> key \<Longrightarrow> lookup key' (put key v c ty t) = lookup key' t"
begin

lemma put_all_ok:
  "ok t \<Longrightarrow> list_all (\<lambda>r. fst r \<noteq> []) rows \<Longrightarrow> ok (fold (\<lambda>(key, v, c, ty). put key v c ty) rows t)"
proof (induction rows arbitrary: t)
  case (Cons r rows)
  obtain k w d u where r: "r = (k, w, d, u)" by (cases r) auto
  then show ?case using Cons.IH[of "put k w d u t"] Cons.prems put_ok[of t k w d u] by simp
qed simp

lemma lookup_put_all_other:
  "ok t \<Longrightarrow> list_all (\<lambda>r. fst r \<noteq> []) rows \<Longrightarrow> key \<noteq> [] \<Longrightarrow> key \<notin> fst ` set rows \<Longrightarrow>
   lookup key (fold (\<lambda>(key, v, c, ty). put key v c ty) rows t) = lookup key t"
proof (induction rows arbitrary: t)
  case (Cons r rows)
  obtain k w d u where r: "r = (k, w, d, u)" by (cases r) auto
  then show ?case
    using Cons.IH[of "put k w d u t"] Cons.prems put_ok[of t k w d u] lookup_other[of t k key w d u] by simp
qed simp

lemma lookup_put_all:
  assumes "ok t" "list_all (\<lambda>r. fst r \<noteq> []) rows" "distinct (map fst rows)" "(key, v, c, ty) \<in> set rows"
  shows "lookup key (fold (\<lambda>(key, v, c, ty). put key v c ty) rows t) = Some v"
  using assms
proof (induction rows arbitrary: t)
  case (Cons r rows)
  obtain k w d u where r: "r = (k, w, d, u)" by (cases r) auto
  have ok: "ok (put k w d u t)" "k \<noteq> []" using Cons.prems r put_ok by auto
  show ?case
  proof (cases "(key, v, c, ty) = r")
    case True
    then have "key \<notin> fst ` set rows" using Cons.prems(3) r by auto
    then have "lookup key (fold (\<lambda>(key, v, c, ty). put key v c ty) rows (put k w d u t)) = lookup key (put k w d u t)"
      using lookup_put_all_other[OF ok(1)] Cons.prems(2) ok(2) True r by auto
    then show ?thesis using lookup_put Cons.prems(1) ok(2) True r by simp
  next
    case False
    then show ?thesis using Cons.IH[OF ok(1)] Cons.prems r by auto
  qed
qed simp

end

definition settings_ok :: "Setting list \<Rightarrow> bool" where
  "settings_ok t \<longleftrightarrow> distinct (map st_ID t) \<and> distinct (map st_Key t)"

definition Setting_lookup :: "string \<Rightarrow> Setting list \<Rightarrow> string option" where
  "Setting_lookup key t = map_option st_Value (Setting_GetByKey key t)"

lemma key_is_nonempty [simp]: "key \<noteq> [] \<Longrightarrow> key_is key s \<longleftrightarrow> st_Key s = key"
  by (simp add: key_is_def)

lemma GetByKey_nonempty: "key \<noteq> [] \<Longrightarrow> Setting_GetByKey key t = first_where (\<lambda>s. st_Key s = key) t"
  unfolding Setting_GetByKey_def by (rule arg_cong[where f = "\<lambda>P. first_where P t"]) (auto simp: key_is_def)

lemma fold_max_ge: "x \<in> set xs \<Longrightarrow> x \<le> fold max xs (m :: nat)"
proof (induction xs arbitrary: m)
  case (Cons y xs)
  have "n \<le> fold max zs n" for zs and n :: nat
    by (induction zs arbitrary: n) (auto intro: order_trans[OF max.cobounded2])
  then show ?case using Cons by (auto intro: order_trans[OF max.cobounded1])
qed simp

lemma next_setting_ID_new: "next_setting_ID t \<notin> st_ID ` set t"
  using fold_max_ge[of _ "map st_ID t" 0] by (fastforce simp: next_setting_ID_def)

lemma Upsert_found:
  assumes "settings_ok t" "s \<in> set t" "st_Key s = key" "key \<noteq> []"
  shows "Setting_Upsert key v c ty t =
    update_where (\<lambda>x. st_Key x = key) (\<lambda>x. x\<lparr>st_Value := v, st_Category := c, st_Type := ty\<rparr>) t"
proof -
  obtain e where e: "First st_ID (key_is key) t = Some e" using assms First_None[of st_ID "key_is key" t] by auto
  have "e \<in> set t" "st_Key e = key" using First_SomeD[OF e] assms(4) by simp_all
  then have "st_ID x = st_ID e \<longleftrightarrow> st_Key x = key" if "x \<in> set t" for x
    using that assms(1) unfolding settings_ok_def by (metis distinct_map inj_onD)
  then show ?thesis by (simp add: Setting_Upsert_def e update_where_def)
qed

lemma Upsert_absent:
  assumes "\<not> list_ex (\<lambda>s. st_Key s = key) t" "key \<noteq> []"
  shows "Setting_Upsert key v c ty t =
    t @ [\<lparr>st_ID = next_setting_ID t, st_Key = key, st_Value = v, st_Category = c, st_Type = ty\<rparr>]"
proof -
  have "First st_ID (key_is key) t = None" using assms by (auto simp: First_None list_ex_iff)
  then show ?thesis by (simp add: Setting_Upsert_def)
qed

interpretation settings_table: setting_store settings_ok Setting_lookup Setting_Upsert
proof (unfold_locales, goal_cases)
  case (1 t key v c ty)
  show ?case
  proof (cases "list_ex (\<lambda>s. st_Key s = key) t")
    case True
    then obtain s where "s \<in> set t" "st_Key s = key" by (auto simp: list_ex_iff)
    then show ?thesis using Upsert_found[OF 1(1) _ _ 1(2)] 1 by (auto simp: settings_ok_def update_where_keys)
  next
    case False
    then show ?thesis using Upsert_absent[OF False 1(2)] next_setting_ID_new[of t] 1
      by (auto simp: settings_ok_def list_ex_iff)
  qed
next
  case (2 t key v c ty)
  show ?case
  proof (cases "list_ex (\<lambda>s. st_Key s = key) t")
    case True
    then obtain s where "s \<in> set t" "st_Key s = key" by (auto simp: list_ex_iff)
    moreover from this obtain x where "first_where (\<lambda>s. st_Key s = key) t = Some x"
      using first_where_None[of "\<lambda>s. st_Key s = key" t] by auto
    ultimately show ?thesis
      using Upsert_found[OF 2(1) _ _ 2(2)] 2
      by (simp add: Setting_lookup_def GetByKey_nonempty first_where_update_same)
  next
    case False
    then have "first_where (\<lambda>s. st_Key s = key) t = None" by (simp add: first_where_None list_ex_iff)
    then show ?thesis using Upsert_absent[OF False 2(2)] 2
      by (simp add: Setting_lookup_def GetByKey_nonempty first_where_append first_where_Cons)
  qed
next
  case (3 t key key' v c ty)
  show ?case
  proof (cases "list_ex (\<lambda>s. st_Key s = key) t")
    case True
    then obtain s where "s \<in> set t" "st_Key s = key" by (auto simp: list_ex_iff)
    then show ?thesis
      using Upsert_found[OF 3(1) _ _ 3(2)] 3
      by (simp add: Setting_lookup_def GetByKey_nonempty first_where_update_other)
  next
    case False
    then show ?thesis using Upsert_absent[OF False 3(2)] 3
      by (simp add: Setting_lookup_def GetByKey_nonempty first_where_append table_simps split: option.splits)
  qed
qed

section \<open>Properties\<close>

text \<open>After a batch update every setting of the request reads back with the value it was
  given, and all other settings are unchanged.\<close>

theorem UpdateSettings_roundtrip:
  assumes "settings_ok t" "UpdateSettings n m sync (Some members) t = (status, evs, t')"
    "distinct (map fst (concat (map member_rows members)))" "[] \<notin> fst ` set (concat (map member_rows members))"
  shows "settings_ok t' \<and>
    (\<forall>(key, v, c, ty) \<in> set (concat (map member_rows members)). Setting_lookup key t' = Some v) \<and>
    (\<forall>key. key \<noteq> [] \<and> key \<notin> fst ` set (concat (map member_rows members)) \<longrightarrow>
       Setting_lookup key t' = Setting_lookup key t)"
proof -
  define rows where "rows = concat (map member_rows members)"
  have t': "t' = fold (\<lambda>(key, v, c, ty). Setting_Upsert key v c ty) rows t"
    using assms(2) by (auto simp: UpdateSettings_def Let_def Setting_BatchUpsert_def rows_def)
  have ne: "list_all (\<lambda>r. fst r \<noteq> []) rows"
    using assms(4) by (auto simp: rows_def[symmetric] list_all_iff image_iff)
  show ?thesis
    unfolding rows_def[symmetric] t'
    using settings_table.put_all_ok[OF assms(1) ne] settings_table.lookup_put_all[OF assms(1) ne]
      settings_table.lookup_put_all_other[OF assms(1) ne] assms(3)[folded rows_def]
    by blast
qed

definition sample_settings :: "Setting list" where
  "sample_settings = [\<lparr>st_ID = 4, st_Key = ''name'', st_Value = ''zjump'', st_Category = ''system'', st_Type = ''string''\<rparr>,
     \<lparr>st_ID = 7, st_Key = ''authMethod'', st_Value = ''password'', st_Category = ''auth'', st_Type = ''string''\<rparr>]"

definition sample_members :: "(string \<times> jmember) list" where
  "sample_members = [(''host_monitor'', Object [(''interval'', JNumber ''5''), (''enabled'', JBool True)]),
     (''name'', Object [(''value'', JString ''gate''), (''category'', JString ''system'')])]"

theorem UpdateSettings_roundtrip_witness:
  "Setting_lookup ''enabled'' (snd (snd (UpdateSettings True True True (Some sample_members) sample_settings))) = Some ''true'' \<and>
   Setting_lookup ''authMethod'' (snd (snd (UpdateSettings True True True (Some sample_members) sample_settings))) = Some ''password''"
proof -
  obtain st evs t' where u: "UpdateSettings True True True (Some sample_members) sample_settings = (st, evs, t')"
    using prod_cases3 by blast
  have rows: "concat (map member_rows sample_members) =
      [(''interval'', ''5'', ''host_monitor'', ''number''), (''enabled'', ''true'', ''host_monitor'', ''boolean''),
       (''name'', ''gate'', ''system'', ''string'')]" by code_simp
  have ok: "settings_ok sample_settings" by code_simp
  have other: "Setting_lookup ''authMethod'' sample_settings = Some ''password''" by code_simp
  show ?thesis using UpdateSettings_roundtrip[OF ok u] u rows other by (simp add: image_iff)
qed

text \<open>The empty key matches every row: an update with it, which a batch can contain, changes
  the setting with the least identifier, under its old key.\<close>

theorem empty_key_overwrites:
  assumes "settings_ok t" "t \<noteq> []"
  shows "\<exists>s \<in> set t. (\<forall>x \<in> set t. st_ID s \<le> st_ID x) \<and>
           Setting_Upsert [] v c ty t = update_where (\<lambda>x. st_ID x = st_ID s)
             (\<lambda>x. x\<lparr>st_Value := v, st_Category := c, st_Type := ty\<rparr>) t"
proof -
  obtain e where e: "First st_ID (key_is []) t = Some e"
    using assms(2) First_None[of st_ID "key_is []" t] by (cases t) (auto simp: key_is_def)
  then have "Setting_Upsert [] v c ty t = update_where (\<lambda>x. st_ID x = st_ID e)
      (\<lambda>x. x\<lparr>st_Value := v, st_Category := c, st_Type := ty\<rparr>) t" by (simp add: Setting_Upsert_def)
  moreover have "\<forall>x \<in> set t. st_ID e \<le> st_ID x"
    using First_least[OF e] by (simp add: key_is_def)
  ultimately show ?thesis using First_SomeD(1)[OF e] by blast
qed

theorem empty_key_overwrites_witness:
  "\<exists>s \<in> set sample_settings. (\<forall>x \<in> set sample_settings. st_ID s \<le> st_ID x) \<and>
     Setting_Upsert [] ''off'' ''x'' ''string'' sample_settings = update_where (\<lambda>x. st_ID x = st_ID s)
       (\<lambda>x. x\<lparr>st_Value := ''off'', st_Category := ''x'', st_Type := ''string''\<rparr>) sample_settings"
proof -
  have "settings_ok sample_settings" "sample_settings \<noteq> []" by code_simp+
  then show ?thesis by (rule empty_key_overwrites)
qed

subsection \<open>Types of settings\<close>

definition typed :: "string \<Rightarrow> string \<Rightarrow> bool" where
  "typed ty v \<longleftrightarrow> (ty = ''string'' \<or> ty = ''number'' \<or> ty = ''boolean'') \<and> (ty = ''boolean'' \<longrightarrow> v = ''true'' \<or> v = ''false'')"

definition settings_typed :: "Setting list \<Rightarrow> bool" where
  "settings_typed t \<longleftrightarrow> list_all (\<lambda>s. typed (st_Type s) (st_Value s)) t"

lemma value_text_typed: "typed (fst (value_text v)) (snd (value_text v))"
  by (cases v) (simp_all add: typed_def)

lemma Upsert_typed: "settings_typed t \<Longrightarrow> typed ty v \<Longrightarrow> settings_typed (Setting_Upsert key v c ty t)"
  by (auto simp: settings_typed_def Setting_Upsert_def list_all_iff set_update_where split: option.splits)

lemma member_rows_typed: "(key, v, c, ty) \<in> set (member_rows m) \<Longrightarrow> typed ty v"
  by (cases m rule: member_rows.cases) (auto simp: value_text_typed split: option.splits)

lemma BatchUpsert_typed:
  "settings_typed t \<Longrightarrow> \<forall>(key, v, c, ty) \<in> set rows. typed ty v \<Longrightarrow> settings_typed (Setting_BatchUpsert rows t)"
  unfolding Setting_BatchUpsert_def
proof (induction rows arbitrary: t)
  case (Cons r rows)
  obtain k w d u where r: "r = (k, w, d, u)" by (cases r) auto
  then show ?case using Cons.IH[of "Setting_Upsert k w d u t"] Cons.prems Upsert_typed[of t u w k d] by auto
qed simp

datatype setting_request =
    Batch "(string \<times> jmember) list option"
  | Single "(string \<times> jval \<times> string) option"
  | Remove string

fun setting_step :: "setting_request \<Rightarrow> Setting list \<Rightarrow> Setting list" where
  "setting_step (Batch r) t = snd (snd (UpdateSettings True True True r t))"
| "setting_step (Single r) t = snd (UpdateSetting r t)"
| "setting_step (Remove key) t = snd (DeleteSetting key t)"

lemma setting_step_typed: "settings_typed t \<Longrightarrow> settings_typed (setting_step r t)"
proof (cases r)
  case (Batch b)
  assume t: "settings_typed t"
  have "\<forall>(key, v, c, ty) \<in> set (concat (map member_rows ms)). typed ty v" for ms
    using member_rows_typed by (force simp: split_beta)
  then show ?thesis using t BatchUpsert_typed by (auto simp: Batch UpdateSettings_def Let_def split: option.splits)
next
  case (Single b)
  assume "settings_typed t"
  then show ?thesis by (auto simp: Single UpdateSetting_def Upsert_typed value_text_typed split: option.splits)
next
  case (Remove key)
  assume "settings_typed t"
  then show ?thesis
    by (auto simp: Remove DeleteSetting_def Setting_Delete_def settings_typed_def delete_where_def list_all_iff)
qed

text \<open>The stored type of a setting fits its value: whatever requests a table goes through,
  its types are string, number or boolean, and a boolean setting is the text true or
  false.\<close>

theorem settings_stay_typed:
  assumes "settings_typed t"
  shows "settings_typed (fold setting_step requests t)"
  using assms by (induction requests arbitrary: t) (auto intro: setting_step_typed)

theorem settings_stay_typed_witness:
  "settings_typed (fold setting_step [Batch (Some sample_members), Remove ''name'', Single (Some (''x'', JBool False, ''y''))] sample_settings)"
proof -
  have "settings_typed sample_settings" by code_simp
  then show ?thesis by (rule settings_stay_typed)
qed

subsection \<open>Sign-in methods\<close>

text \<open>What the sign-in page is told differs from what the login does: under a method name that
  is none of the three, the page hears that passwords are disabled, while the login checks
  passwords.\<close>

theorem unknown_method_still_passwords:
  assumes "auth_method db \<notin> {''password'', ''ldap'', ''sso''}"
  shows "\<not> am_password (GetAuthMethods db) \<and>
    (authenticateWithPassword L (lq_Username req) (lq_Password req) db = Inr u \<and> \<not> expired now u \<and>
     \<not> u_TwoFactorEnabled u \<and> GenerateToken L now u = Some tok \<longrightarrow>
       (\<exists>resp db'. Login L now newID req ip agent db = (Inr resp, db') \<and> lr_Token resp = tok))"
  using assms by (auto simp: GetAuthMethods_def Let_def Login_password finish_login_def auth_method_def[symmetric])

theorem unknown_method_still_passwords_witness:
  "\<not> am_password (GetAuthMethods (sample_adb\<lparr>settings := [\<lparr>st_ID = 1, st_Key = ''authMethod'', st_Value = ''oauth'',
       st_Category = ''auth'', st_Type = ''string''\<rparr>]\<rparr>))"
proof -
  have "auth_method (sample_adb\<lparr>settings := [\<lparr>st_ID = 1, st_Key = ''authMethod'', st_Value = ''oauth'',
       st_Category = ''auth'', st_Type = ''string''\<rparr>]\<rparr>) \<notin> {''password'', ''ldap'', ''sso''}" by code_simp
  then show ?thesis using unknown_method_still_passwords by blast
qed

end
