(* ===== verification/Ssh_Wire.thy ===== *)
theory Ssh_Wire
imports Go_Strings "HOL-Library.Word"
begin

text \<open>
  The byte level of \<open>internal/sshserver/protocol\<close>: the big-endian integers and the
  \<open>bytes.Reader\<close> of the Go library, the field readers and writers of
  \<open>custom_ssh.go\<close> and \<open>channel_handler.go\<close>, the framing of messages on a
  connection and the exchange of version lines.  A byte is a \<open>char\<close>, a \<open>uint32\<close>
  is a word of 32 bits.  A connection is the list of the segments its reads will
  return until the peer closes it, what has been written so far, and which of the
  writes succeed.
\<close>

unbundle bit_operations_syntax

section \<open>encoding/binary\<close>

definition byte :: "32 word \<Rightarrow> char" where "byte v = char_of (uint v)"

definition u32 :: "char \<Rightarrow> 32 word" where "u32 c = word_of_int (of_char c)"

definition PutUint32 :: "32 word \<Rightarrow> string" where
  "PutUint32 v = [byte (drop_bit 24 v), byte (drop_bit 16 v), byte (drop_bit 8 v), byte v]"

fun Uint32 :: "string \<Rightarrow> 32 word" where
  "Uint32 (b0 # b1 # b2 # b3 # _) =
     u32 b3 OR push_bit 8 (u32 b2) OR push_bit 16 (u32 b1) OR push_bit 24 (u32 b0)"
| "Uint32 _ = 0"

lemma bit_of_char_int: "bit (of_char c :: int) n \<Longrightarrow> n < 8"
proof -
  have "take_bit 8 (of_char c :: int) = of_char c"
    using of_char_mod_256[of c, where 'a=int] by (simp add: take_bit_eq_mod)
  then show "bit (of_char c :: int) n \<Longrightarrow> n < 8" by (metis bit_take_bit_iff)
qed

lemma bit_of_char_high [simp]: "8 \<le> n \<Longrightarrow> \<not> bit (of_char c :: int) n"
  using bit_of_char_int leD by blast

lemma bit_u32: "bit (u32 c) n \<longleftrightarrow> bit (of_char c :: int) n"
  using bit_of_char_int[of c n] by (auto simp: u32_def bit_word_of_int_iff)

lemma bit_byte: "bit (of_char (byte v) :: int) n \<longleftrightarrow> n < 8 \<and> bit v n"
proof -
  have "(of_char (byte v) :: int) = take_bit 8 (uint v)"
    by (simp add: byte_def take_bit_eq_mod)
  then show ?thesis by (auto simp: bit_simps dest: bit_imp_le_length)
qed

lemma Uint32_PutUint32 [simp]: "Uint32 (PutUint32 v) = v"
proof (rule bit_word_eqI)
  fix n assume "n < LENGTH(32)"
  then consider "n < 8" | "8 \<le> n" "n < 16" | "16 \<le> n" "n < 24" | "24 \<le> n" "n < 32" by fastforce
  then show "bit (Uint32 (PutUint32 v)) n = bit v n"
    by cases (auto simp: PutUint32_def bit_simps bit_u32 bit_byte)
qed

lemma length_PutUint32 [simp]: "length (PutUint32 v) = 4"
  by (simp add: PutUint32_def)

lemma char_bits_eqI:
  "(\<And>n. n < 8 \<Longrightarrow> bit (of_char c :: int) n = bit (of_char d :: int) n) \<Longrightarrow> c = d"
  by (metis (no_types, lifting) bit_eqI bit_of_char_int of_char_eq_iff)

lemma PutUint32_Uint32: "PutUint32 (Uint32 [a, b, c, d]) = [a, b, c, d]"
  by (auto simp: PutUint32_def bit_byte bit_simps bit_u32 intro!: char_bits_eqI dest: bit_of_char_int)

lemma Uint32_append [simp]: "Uint32 (PutUint32 v @ r) = v"
proof -
  have "Uint32 (PutUint32 v @ r) = Uint32 (PutUint32 v)" by (simp add: PutUint32_def)
  then show ?thesis by simp
qed

section \<open>Fields of a message\<close>

text \<open>\<open>bytes.Reader.Read\<close> into a buffer of \<open>n\<close> zero bytes: an error at the end of the
  input, whatever the size of the buffer; otherwise the bytes there are, the rest of the
  buffer keeping its zeros.\<close>

definition fill :: "nat \<Rightarrow> string \<Rightarrow> string" where
  "fill n b = take n b @ replicate (n - length b) (CHR 0x00)"

definition Reader_Read :: "nat \<Rightarrow> string \<Rightarrow> (string \<times> string) option" where
  "Reader_Read n r = (if r = [] then None else Some (fill n r, drop n r))"

definition readUint32 :: "string \<Rightarrow> (32 word \<times> string) option" where
  "readUint32 r = (case Reader_Read 4 r of
     None \<Rightarrow> None | Some (b, r1) \<Rightarrow> Some (Uint32 b, r1))"

definition readString :: "string \<Rightarrow> (string \<times> string) option" where
  "readString r = (case Reader_Read 4 r of
     None \<Rightarrow> None
   | Some (lengthBytes, r1) \<Rightarrow> Reader_Read (unat (Uint32 lengthBytes)) r1)"

definition readBool :: "string \<Rightarrow> (bool \<times> string) option" where
  "readBool r = (case Reader_Read 1 r of
     None \<Rightarrow> None | Some (b, r1) \<Rightarrow> Some (hd b \<noteq> CHR 0x00, r1))"

definition encodeUint32 :: "32 word \<Rightarrow> string" where "encodeUint32 v = PutUint32 v"

definition encodeString :: "string \<Rightarrow> string" where
  "encodeString s = PutUint32 (word_of_nat (length s)) @ s"

definition encodeBool :: "bool \<Rightarrow> string" where
  "encodeBool b = (if b then [CHR 0x01] else [CHR 0x00])"

lemma length_fill [simp]: "length (fill n b) = n" by (simp add: fill_def)

lemma fill_append [simp]: "length a = n \<Longrightarrow> fill n (a @ b) = a" by (simp add: fill_def)

lemma fill_full: "n \<le> length b \<Longrightarrow> fill n b = take n b" by (simp add: fill_def)

lemma readUint32_encodeUint32 [simp]: "readUint32 (encodeUint32 v @ r) = Some (v, r)"
  by (simp add: readUint32_def Reader_Read_def encodeUint32_def) (simp add: PutUint32_def)

lemma readBool_encodeBool [simp]: "readBool (encodeBool b @ r) = Some (b, r)"
  by (simp add: readBool_def Reader_Read_def encodeBool_def fill_def)

lemma unat_word_of_length: "length s < 2 ^ 32 \<Longrightarrow> unat (word_of_nat (length s) :: 32 word) = length s"
  by (simp add: unat_of_nat take_bit_eq_mod)

lemma readString_encodeString:
  assumes "length s < 2 ^ 32"
  shows "readString (encodeString s @ r) = (if s @ r = [] then None else Some (s, r))"
proof -
  have "Reader_Read 4 (encodeString s @ r) = Some (PutUint32 (word_of_nat (length s)), s @ r)"
    by (simp add: Reader_Read_def encodeString_def) (simp add: PutUint32_def)
  then show ?thesis
    by (simp add: readString_def unat_word_of_length[OF assms]) (auto simp: Reader_Read_def)
qed

lemma readString_length:
  assumes "readString r = Some (s, r')"
  shows "length s = unat (Uint32 (fill 4 r))" "length r' = length r - 4 - length s"
  using assms by (auto simp: readString_def Reader_Read_def split: option.splits if_splits)

section \<open>Connections\<close>

record conn =
  c_in :: "string list"
  c_out :: string
  c_writes :: nat
  c_wok :: "nat \<Rightarrow> bool"

definition Conn_Write :: "string \<Rightarrow> conn \<Rightarrow> bool \<times> conn" where
  "Conn_Write p c = (let c' = c\<lparr>c_writes := Suc (c_writes c)\<rparr>
     in if c_wok c (c_writes c) then (True, c'\<lparr>c_out := c_out c @ p\<rparr>) else (False, c'))"

text \<open>\<open>io.ReadFull\<close>: reads segments until the buffer of \<open>n\<close> bytes is full.\<close>

fun ReadFull :: "nat \<Rightarrow> string list \<Rightarrow> string option \<times> string list" where
  "ReadFull 0 cs = (Some [], cs)"
| "ReadFull (Suc n) [] = (None, [])"
| "ReadFull (Suc n) (c # cs) =
     (if length c \<le> Suc n then (case ReadFull (Suc n - length c) cs of
          (r, rest) \<Rightarrow> (map_option (append c) r, rest))
      else (Some (take (Suc n) c), drop (Suc n) c # cs))"

lemma ReadFull_result:
  "fst (ReadFull n cs) = (if n \<le> length (concat cs) then Some (take n (concat cs)) else None)"
  by (induction n cs rule: ReadFull.induct) (auto split: prod.splits)

lemma ReadFull_rest [simp]: "concat (snd (ReadFull n cs)) = drop n (concat cs)"
  by (induction n cs rule: ReadFull.induct) (auto split: prod.splits)

lemma ReadFull_take:
  "ReadFull n cs = (r, cs') \<Longrightarrow>
     r = (if n \<le> length (concat cs) then Some (take n (concat cs)) else None) \<and>
     concat cs' = drop n (concat cs)"
  using ReadFull_result[of n cs] ReadFull_rest[of n cs] by simp

section \<open>Messages\<close>

record SSHMessage =
  Type :: char
  Payload :: string

datatype read_error = ReadFailed | TooLarge "32 word"

definition readSSHMessage :: "conn \<Rightarrow> (read_error + SSHMessage) \<times> conn" where
  "readSSHMessage c = (case ReadFull 4 (c_in c) of
     (None, r) \<Rightarrow> (Inl ReadFailed, c\<lparr>c_in := r\<rparr>)
   | (Some lengthBytes, r1) \<Rightarrow> (let length = Uint32 lengthBytes in
       if length > 32768 then (Inl (TooLarge length), c\<lparr>c_in := r1\<rparr>)
       else (case ReadFull 1 r1 of
           (None, r) \<Rightarrow> (Inl ReadFailed, c\<lparr>c_in := r\<rparr>)
         | (Some typeByte, r2) \<Rightarrow> (case ReadFull (unat (length - 1)) r2 of
             (None, r) \<Rightarrow> (Inl ReadFailed, c\<lparr>c_in := r\<rparr>)
           | (Some payload, r3) \<Rightarrow>
               (Inr \<lparr>Type = hd typeByte, Payload = payload\<rparr>, c\<lparr>c_in := r3\<rparr>)))))"

definition sshMessage :: "char \<Rightarrow> string \<Rightarrow> string" where
  "sshMessage msgType payload = PutUint32 (word_of_nat (1 + length payload)) @ [msgType] @ payload"

definition sendSSHMessage :: "char \<Rightarrow> string \<Rightarrow> conn \<Rightarrow> bool \<times> conn" where
  "sendSSHMessage msgType payload c = Conn_Write (sshMessage msgType payload) c"

text \<open>What a reader of the whole byte stream makes of it, segments forgotten.\<close>

definition stream_message :: "string \<Rightarrow> (read_error + SSHMessage) \<times> string" where
  "stream_message b =
     (if length b < 4 then (Inl ReadFailed, [])
      else if Uint32 (take 4 b) > 32768 then (Inl (TooLarge (Uint32 (take 4 b))), drop 4 b)
      else if length b < 5 + unat (Uint32 (take 4 b) - 1) then (Inl ReadFailed, [])
      else (let n = unat (Uint32 (take 4 b) - 1)
            in (Inr \<lparr>Type = b ! 4, Payload = take n (drop 5 b)\<rparr>, drop n (drop 5 b))))"

lemma readSSHMessage_stream:
  "readSSHMessage c = (r, c') \<Longrightarrow>
     stream_message (concat (c_in c)) = (r, concat (c_in c')) \<and> c' = c\<lparr>c_in := c_in c'\<rparr>"
proof -
  assume r: "readSSHMessage c = (r, c')"
  obtain b1 r1 where 1: "ReadFull 4 (c_in c) = (b1, r1)" by fastforce
  obtain b2 r2 where 2: "ReadFull 1 r1 = (b2, r2)" by fastforce
  obtain b3 r3 where 3: "ReadFull (unat (Uint32 (take 4 (concat (c_in c))) - 1)) r2 = (b3, r3)" by fastforce
  note spec = ReadFull_take[OF 1] ReadFull_take[OF 2] ReadFull_take[OF 3]
  have hd: "5 \<le> length b \<Longrightarrow> hd (take 1 (drop 4 b)) = b ! 4" for b :: string
    by (simp add: hd_take hd_drop_conv_nth)
  show ?thesis using r 1 2 3 spec hd[of "concat (c_in c)"]
    by (auto simp: readSSHMessage_def stream_message_def Let_def split: if_splits)
qed

lemma stream_message_framed:
  assumes "length p \<le> 32767"
  shows "stream_message (sshMessage t p @ r) = (Inr \<lparr>Type = t, Payload = p\<rparr>, r)"
proof -
  have n: "unat (word_of_nat (Suc (length p)) :: 32 word) = Suc (length p)"
    using assms by (simp only: unat_of_nat take_bit_eq_mod) simp
  have le: "\<not> word_of_nat (Suc (length p)) > (32768 :: 32 word)"
    using assms n by (simp add: word_less_nat_alt del: of_nat_Suc)
  have m: "unat (word_of_nat (Suc (length p)) - 1 :: 32 word) = length p"
    using assms by (simp add: unat_of_nat take_bit_eq_mod)
  have l: "sshMessage t p @ r = PutUint32 (word_of_nat (Suc (length p))) @ t # p @ r"
    by (simp add: sshMessage_def del: of_nat_Suc)
  show ?thesis
    unfolding stream_message_def l Let_def
    using le m by (simp add: nth_append del: of_nat_Suc)
qed

text \<open>What a receiver that reads \<open>n\<close> messages gets.\<close>

fun read_messages :: "nat \<Rightarrow> conn \<Rightarrow> (read_error + SSHMessage) list \<times> conn" where
  "read_messages 0 c = ([], c)"
| "read_messages (Suc n) c = (case readSSHMessage c of
     (r, c1) \<Rightarrow> (case read_messages n c1 of (rs, c2) \<Rightarrow> (r # rs, c2)))"

definition sent :: "SSHMessage list \<Rightarrow> string" where
  "sent ms = concat (map (\<lambda>m. sshMessage (Type m) (Payload m)) ms)"

lemma read_messages_sent:
  assumes "concat (c_in c) = sent ms @ rest" "list_all (\<lambda>m. length (Payload m) \<le> 32767) ms"
  shows "fst (read_messages (length ms) c) = map Inr ms \<and>
         concat (c_in (snd (read_messages (length ms) c))) = rest"
  using assms
proof (induction ms arbitrary: c)
  case Nil
  then show ?case by (simp add: sent_def)
next
  case (Cons m ms)
  obtain r c1 where r: "readSSHMessage c = (r, c1)" by fastforce
  have "stream_message (concat (c_in c)) = (Inr m, sent ms @ rest)"
    using Cons.prems stream_message_framed[of "Payload m" "Type m" "sent ms @ rest"]
    by (simp add: sent_def)
  then have "r = Inr m" "concat (c_in c1) = sent ms @ rest"
    using readSSHMessage_stream[OF r] by auto
  then show ?case using Cons.IH[of c1] Cons.prems r by (auto split: prod.splits)
qed

lemma readSSHMessage_bound:
  assumes "readSSHMessage c = (Inr m, c')"
  shows "length (Payload m) \<le> 32767 \<or>
         Uint32 (take 4 (concat (c_in c))) = 0 \<and> length (Payload m) = 4294967295"
proof -
  define l where "l = Uint32 (take 4 (concat (c_in c)))"
  have s: "stream_message (concat (c_in c)) = (Inr m, concat (c_in c'))"
    using readSSHMessage_stream[OF assms] by blast
  then have p: "length (Payload m) = unat (l - 1)" and le: "unat l \<le> 32768"
    by (auto simp: stream_message_def Let_def l_def word_less_nat_alt split: if_splits)
  show ?thesis
  proof (cases "l = 0")
    case True
    moreover have "unat (- 1 :: 32 word) = 4294967295"
      by (simp add: unsigned_minus_1_eq_mask mask_eq_exp_minus_1)
    ultimately show ?thesis using p by (simp add: l_def)
  next
    case False
    then have "unat (l - 1) = unat l - 1" by (simp add: unat_minus_one)
    then show ?thesis using p le by linarith
  qed
qed

text \<open>The bytes still to be read.\<close>

definition pending :: "conn \<Rightarrow> nat" where
  "pending c = length (concat (c_in c))"

lemma stream_message_shrinks:
  "stream_message b = (r, b') \<Longrightarrow> length b' \<le> length b \<and> (r = Inr m \<longrightarrow> length b' + 5 \<le> length b)"
  by (auto simp: stream_message_def Let_def split: if_splits)

lemma readSSHMessage_pending:
  assumes "readSSHMessage c = (r, c')"
  shows "pending c' \<le> pending c" "r = Inr m \<Longrightarrow> pending c' + 5 \<le> pending c"
  using stream_message_shrinks readSSHMessage_stream[OF assms] by (fastforce simp: pending_def)+

section \<open>Version lines\<close>

text \<open>\<open>bufio.Reader.ReadString('\n')\<close> over a new reader with a buffer of 4096 bytes, of
  which \<open>w\<close> (modulo 4096) are in use: each read asks for the room that is left.  What a
  read returned after the end of the line stays in the buffer of the reader.\<close>

function ReadString_nl :: "nat \<Rightarrow> string list \<Rightarrow> (string \<times> string list) option" where
  "ReadString_nl w [] = None"
| "ReadString_nl w (c # cs) =
     (let room = 4096 - w mod 4096;
          rest = (if length c \<le> room then cs else drop room c # cs)
      in if CHR 0x0A \<in> set (take room c)
         then Some (takeWhile (\<lambda>x. x \<noteq> CHR 0x0A) (take room c) @ [CHR 0x0A], rest)
         else (case ReadString_nl (w + length (take room c)) rest of
             None \<Rightarrow> None
           | Some (l, r) \<Rightarrow> Some (take room c @ l, r)))"
  by pat_completeness auto
termination
proof (relation "measure (\<lambda>(w, cs). length (concat cs) + length cs)", goal_cases)
  case (2 w c cs room rest)
  have "0 < 4096 - w mod 4096" by simp
  then show ?case using 2 by (auto simp: Let_def split: if_splits)
qed simp

definition versionString :: "string \<Rightarrow> string" where
  "versionString serverVersion = ''SSH-2.0-'' @ serverVersion @ [CHR 0x0D, CHR 0x0A]"

datatype version_error = SendFailed | NoVersion | Unsupported string

definition handleVersionNegotiation :: "string \<Rightarrow> conn \<Rightarrow> version_error option \<times> conn" where
  "handleVersionNegotiation serverVersion c = (case Conn_Write (versionString serverVersion) c of
     (False, c1) \<Rightarrow> (Some SendFailed, c1)
   | (True, c1) \<Rightarrow> (case ReadString_nl 0 (c_in c1) of
       None \<Rightarrow> (Some NoVersion, c1\<lparr>c_in := []\<rparr>)
     | Some (line, rest) \<Rightarrow>
         (let clientVersion = TrimSpace line
          in (if HasPrefix clientVersion ''SSH-2.0'' then None else Some (Unsupported clientVersion),
              c1\<lparr>c_in := rest\<rparr>))))"

text \<open>Whatever follows the line of the client in the same segment is lost: only the
  segments after the one that ends the line are there for the rest of the handshake.\<close>

theorem version_line_takes_segment:
  assumes "c_in c = (v @ [CHR 0x0A] @ extra) # cs" "CHR 0x0A \<notin> set v" "length v + length extra < 4096"
    "HasPrefix (TrimSpace (v @ [CHR 0x0A])) ''SSH-2.0''" "c_wok c (c_writes c)"
  shows "\<exists>c'. handleVersionNegotiation serverVersion c = (None, c') \<and> c_in c' = cs \<and>
           c_out c' = c_out c @ versionString serverVersion"
proof -
  have "takeWhile (\<lambda>x. x \<noteq> CHR 0x0A) (v @ CHR 0x0A # extra) = v"
    using assms(2) by (simp add: takeWhile_append)
  then have "ReadString_nl 0 (c_in c) = Some (v @ [CHR 0x0A], cs)"
    using assms(1,3) by (simp add: Let_def)
  then show ?thesis using assms(4,5)
    by (simp add: handleVersionNegotiation_def Conn_Write_def Let_def)
qed

definition wire_conn :: "string list \<Rightarrow> conn" where
  "wire_conn b = \<lparr>c_in = b, c_out = [], c_writes = 0, c_wok = (\<lambda>_. True)\<rparr>"

theorem version_line_takes_segment_witness:
  "\<exists>c'. handleVersionNegotiation ''zjump''
     (wire_conn [''SSH-2.0-x'' @ [CHR 0x0A] @ sshMessage (CHR 0x32) ''request'']) = (None, c') \<and>
     c_in c' = []"
proof -
  define e where "e = sshMessage (CHR 0x32) ''request''"
  have l: "length e = 12" unfolding e_def by code_simp
  have h: "HasPrefix (TrimSpace (''SSH-2.0-x'' @ [CHR 0x0A])) ''SSH-2.0''" by code_simp
  show ?thesis
    using version_line_takes_segment[of "wire_conn [''SSH-2.0-x'' @ [CHR 0x0A] @ e]" "''SSH-2.0-x''" e "[]" "''zjump''"]
      l h unfolding e_def[symmetric] by (auto simp: wire_conn_def)
qed

text \<open>C32: messages come back as they were sent, however the byte stream is cut into segments,
  as long as no payload is longer than the limit.\<close>

theorem messages_roundtrip:
  assumes "concat (c_in c) = sent ms @ rest" "list_all (\<lambda>m. length (Payload m) \<le> 32767) ms"
  shows "fst (read_messages (length ms) c) = map Inr ms \<and>
         concat (c_in (snd (read_messages (length ms) c))) = rest"
  using assms by (rule read_messages_sent)

definition wire_message :: SSHMessage where
  "wire_message = \<lparr>Type = CHR 0x32, Payload = encodeString ''alice''\<rparr>"

theorem messages_roundtrip_witness:
  "fst (read_messages 1 (wire_conn [take 3 (sent [wire_message]), drop 3 (sent [wire_message])])) =
     [Inr wire_message]"
  using messages_roundtrip[of "wire_conn [take 3 (sent [wire_message]), drop 3 (sent [wire_message])]"
      "[wire_message]" "[]"]
  by (simp add: wire_conn_def wire_message_def encodeString_def)

text \<open>The payload of a message that is accepted is at most 32767 bytes, except that a length
  field of 0 makes the server wait for 4294967295 bytes of payload.\<close>

theorem readSSHMessage_payload_bound:
  assumes "readSSHMessage c = (Inr m, c')"
  shows "length (Payload m) \<le> 32767 \<or>
         Uint32 (take 4 (concat (c_in c))) = 0 \<and> length (Payload m) = 4294967295"
  using assms by (rule readSSHMessage_bound)

theorem readSSHMessage_payload_bound_witness:
  "\<exists>c'. readSSHMessage (wire_conn [sent [wire_message]]) = (Inr wire_message, c') \<and>
     (length (Payload wire_message) \<le> 32767 \<or>
      Uint32 (take 4 (concat (c_in (wire_conn [sent [wire_message]])))) = 0 \<and>
      length (Payload wire_message) = 4294967295)"
proof -
  obtain r c' where r: "readSSHMessage (wire_conn [sent [wire_message]]) = (r, c')" by fastforce
  have "stream_message (sshMessage (Type wire_message) (Payload wire_message) @ []) =
      (Inr \<lparr>Type = Type wire_message, Payload = Payload wire_message\<rparr>, [])"
    by (rule stream_message_framed) (simp add: wire_message_def encodeString_def)
  then have "r = Inr wire_message"
    using readSSHMessage_stream[OF r] by (auto simp: wire_conn_def sent_def)
  then show ?thesis using r readSSHMessage_payload_bound[of _ wire_message c'] by blast
qed

end
