(* ===== verification/Ssh_Gateway.thy ===== *)
theory Ssh_Gateway
imports Host_Connection Settings Ssh_Wire
begin

text \<open>
  The handshake of \<open>internal/sshserver/protocol/custom_ssh.go\<close>: version lines, the
  simplified key exchange and the authentication of the user with a password or by
  keyboard-interactive questions, over the messages of Ssh_Wire and the accounts of
  Accounts.  The state of a session is a record; the environment says what the
  database holds, what the clock shows and whether the session is cancelled at each
  turn of the authentication loop.
\<close>

section \<open>State\<close>

record Config =
  cf_MaxSessions :: int
  cf_SessionTimeout :: time
  cf_IdleTimeout :: time
  cf_BannerMessage :: string
  cf_ServerVersion :: string
  cf_CustomDomain :: string

record Channel =
  ch_ID :: "32 word"
  ch_Type :: string
  ch_WindowSize :: "32 word"
  ch_PacketSize :: "32 word"
  ch_LocalWindow :: "32 word"
  ch_RemoteWindow :: "32 word"
  ch_Data :: "string list"
  ch_CloseChan :: nat
  ch_Closed :: bool

text \<open>\<open>gs_heap\<close> are the channel objects in the order they were allocated; the map of the
  session and the shells refer to them by their index.  The two Go channels of an object
  are open exactly while \<open>ch_Closed\<close> is false: the three are changed together.\<close>

record Session =
  gs_ID :: string
  gs_Conn :: conn
  gs_SessionInfo :: SessionInfo
  gs_StartTime :: time
  gs_LastActive :: time
  gs_cancelled :: bool
  gs_versionNegotiated :: bool
  gs_authenticated :: bool
  gs_username :: string
  gs_userID :: string
  gs_encrypted :: bool
  gs_clientToServerKey :: string
  gs_serverToClientKey :: string
  gs_channels :: "32 word \<Rightarrow> nat option"
  gs_heap :: "Channel list"
  gs_shells :: "nat list"

record auth_env =
  ae_libs :: libs
  ae_service :: bool
  ae_db :: "nat \<Rightarrow> adb"
  ae_now :: "nat \<Rightarrow> time"
  ae_done :: "nat \<Rightarrow> bool"

datatype gateway_error =
    VersionError version_error | NoSessionKey | BannerFailed | SessionCancelled | AuthRead read_error
  | BadUsername | BadService | BadMethod | UnsupportedMethod string | BadPassword | NoAuthService
  | NoUser | AuthFailed | PromptFailed | ResponseUnread read_error | NotAResponse | InvalidResponse
  | MfaFailed

abbreviation SSH_MSG_UNIMPLEMENTED :: char where "SSH_MSG_UNIMPLEMENTED \<equiv> CHR 0x03"
abbreviation SSH_MSG_USERAUTH_REQUEST :: char where "SSH_MSG_USERAUTH_REQUEST \<equiv> CHR 0x32"
abbreviation SSH_MSG_USERAUTH_FAILURE :: char where "SSH_MSG_USERAUTH_FAILURE \<equiv> CHR 0x33"
abbreviation SSH_MSG_USERAUTH_SUCCESS :: char where "SSH_MSG_USERAUTH_SUCCESS \<equiv> CHR 0x34"
abbreviation SSH_MSG_USERAUTH_BANNER :: char where "SSH_MSG_USERAUTH_BANNER \<equiv> CHR 0x35"
abbreviation SSH_MSG_USERAUTH_INFO_REQUEST :: char where "SSH_MSG_USERAUTH_INFO_REQUEST \<equiv> CHR 0x3C"
abbreviation SSH_MSG_USERAUTH_INFO_RESPONSE :: char where "SSH_MSG_USERAUTH_INFO_RESPONSE \<equiv> CHR 0x3D"

section \<open>Messages of the server\<close>

definition sendUserAuthBanner :: "string \<Rightarrow> conn \<Rightarrow> bool \<times> conn" where
  "sendUserAuthBanner banner c =
     sendSSHMessage SSH_MSG_USERAUTH_BANNER (encodeString banner @ encodeString ''en'') c"

definition sendUserAuthFailure :: "conn \<Rightarrow> bool \<times> conn" where
  "sendUserAuthFailure c = sendSSHMessage SSH_MSG_USERAUTH_FAILURE
     (encodeString ''password,keyboard-interactive'' @ encodeBool False) c"

definition sendUserAuthSuccess :: "conn \<Rightarrow> bool \<times> conn" where
  "sendUserAuthSuccess c = sendSSHMessage SSH_MSG_USERAUTH_SUCCESS [] c"

definition sendUserAuthInfoRequest :: "string \<Rightarrow> string \<Rightarrow> conn \<Rightarrow> bool \<times> conn" where
  "sendUserAuthInfoRequest name instruction c = sendSSHMessage SSH_MSG_USERAUTH_INFO_REQUEST
     (encodeString name @ encodeString instruction @ encodeString [] @ encodeUint32 1 @
      encodeString [] @ encodeBool False) c"

definition getSystemDomain :: "Config \<Rightarrow> adb \<Rightarrow> string" where
  "getSystemDomain cfg db =
     (if cf_CustomDomain cfg \<noteq> [] then cf_CustomDomain cfg
      else (let domain = Setting_Get ''domain'' (settings db) in if domain = [] then ''jump.xx.com'' else domain))"

section \<open>Authentication\<close>

text \<open>A question to the user: the request is sent, the next message has to be a response
  with exactly one answer.\<close>

definition ask :: "string \<Rightarrow> string \<Rightarrow> Session \<Rightarrow> (gateway_error + string) \<times> Session" where
  "ask name instruction s = (case sendUserAuthInfoRequest name instruction (gs_Conn s) of
     (False, c) \<Rightarrow> (Inl PromptFailed, s\<lparr>gs_Conn := c\<rparr>)
   | (True, c) \<Rightarrow> (case readSSHMessage c of
       (Inl e, c) \<Rightarrow> (Inl (ResponseUnread e), s\<lparr>gs_Conn := c\<rparr>)
     | (Inr msg, c) \<Rightarrow>
         (if Type msg \<noteq> SSH_MSG_USERAUTH_INFO_RESPONSE then Inl NotAResponse
          else (case readUint32 (Payload msg) of
              None \<Rightarrow> Inl InvalidResponse
            | Some (numResponses, reader) \<Rightarrow>
                (if numResponses \<noteq> 1 then Inl InvalidResponse
                 else (case readString reader of
                     None \<Rightarrow> Inl BadPassword
                   | Some (answer, _) \<Rightarrow> Inr answer))),
          s\<lparr>gs_Conn := c\<rparr>)))"

definition prompt_for :: "Config \<Rightarrow> adb \<Rightarrow> string \<Rightarrow> Session \<Rightarrow> string" where
  "prompt_for cfg db what s = gs_username s @ ''@'' @ getSystemDomain cfg db @ what"

definition record_user :: "User \<Rightarrow> Session \<Rightarrow> Session" where
  "record_user user s = s\<lparr>gs_userID := u_ID user,
     gs_SessionInfo := (gs_SessionInfo s)\<lparr>s_UserID := u_ID user, s_Username := gs_username s,
       s_Status := ''authenticated''\<rparr>\<rparr>"

text \<open>The end of both methods, after the password was read: the password, then the code of
  a user with two-factor authentication.\<close>

definition check_credentials :: "auth_env \<Rightarrow> Config \<Rightarrow> nat \<Rightarrow> User \<Rightarrow> string \<Rightarrow> Session \<Rightarrow> gateway_error option \<times> Session" where
  "check_credentials E cfg k user password s =
     (if ValidatePassword (ae_libs E) user password \<noteq> None then (Some AuthFailed, s)
      else if u_TwoFactorEnabled user then
        (case ask ''MFA Verification'' (prompt_for cfg (ae_db E k) ([CHR 0x27] @ ''s MFA code: '') s) s of
           (Inl e, s1) \<Rightarrow> (Some e, s1)
         | (Inr mfaCode, s1) \<Rightarrow>
             (if \<not> validateTwoFactorCode (ae_libs E) (ae_now E k) user mfaCode [] then (Some MfaFailed, s1)
              else (None, record_user user s1)))
      else (None, record_user user s))"

definition handlePasswordAuth :: "auth_env \<Rightarrow> Config \<Rightarrow> nat \<Rightarrow> string \<Rightarrow> Session \<Rightarrow> gateway_error option \<times> Session" where
  "handlePasswordAuth E cfg k reader s = (case readString reader of
     None \<Rightarrow> (Some BadPassword, s)
   | Some (password, _) \<Rightarrow>
       (if \<not> ae_service E then (Some NoAuthService, s)
        else (case FindUserByUsername (ae_libs E) (gs_username s) (ae_db E k) of
            None \<Rightarrow> (Some NoUser, s)
          | Some user \<Rightarrow> check_credentials E cfg k user password s)))"

definition handleKeyboardInteractiveAuth :: "auth_env \<Rightarrow> Config \<Rightarrow> nat \<Rightarrow> Session \<Rightarrow> gateway_error option \<times> Session" where
  "handleKeyboardInteractiveAuth E cfg k s =
     (if \<not> ae_service E then (Some NoAuthService, s)
      else (case FindUserByUsername (ae_libs E) (gs_username s) (ae_db E k) of
          None \<Rightarrow> (Some NoUser, s)
        | Some user \<Rightarrow>
            (case ask ''Password Authentication'' (prompt_for cfg (ae_db E k) ([CHR 0x27] @ ''s password: '') s) s of
               (Inl e, s1) \<Rightarrow> (Some e, s1)
             | (Inr password, s1) \<Rightarrow> check_credentials E cfg k user password s1)))"

definition handleUserAuthRequest :: "auth_env \<Rightarrow> Config \<Rightarrow> nat \<Rightarrow> SSHMessage \<Rightarrow> Session \<Rightarrow> gateway_error option \<times> Session" where
  "handleUserAuthRequest E cfg k msg s = (case readString (Payload msg) of
     None \<Rightarrow> (Some BadUsername, s)
   | Some (username, r1) \<Rightarrow> (case readString r1 of
       None \<Rightarrow> (Some BadService, s)
     | Some (service, r2) \<Rightarrow> (case readString r2 of
         None \<Rightarrow> (Some BadMethod, s)
       | Some (auth, r3) \<Rightarrow>
           (let s1 = s\<lparr>gs_username := username\<rparr> in
            if auth = ''password'' then handlePasswordAuth E cfg k r3 s1
            else if auth = ''keyboard-interactive'' then handleKeyboardInteractiveAuth E cfg k s1
            else (Some (UnsupportedMethod auth), s1)))))"

subsection \<open>Requests only consume input\<close>

abbreviation todo :: "Session \<Rightarrow> nat" where "todo s \<equiv> pending (gs_Conn s)"

lemma Conn_Write_in: "Conn_Write p c = (b, c') \<Longrightarrow> c_in c' = c_in c"
  by (auto simp: Conn_Write_def Let_def split: if_splits)

lemma sendSSHMessage_in: "sendSSHMessage t p c = (b, c') \<Longrightarrow> c_in c' = c_in c"
  by (simp add: sendSSHMessage_def Conn_Write_in)

lemma sendSSHMessage_pending: "sendSSHMessage t p c = (b, c') \<Longrightarrow> pending c' = pending c"
  by (simp add: pending_def sendSSHMessage_in)

lemma ask_todo: "ask n i s = (r, s') \<Longrightarrow> todo s' \<le> todo s"
proof -
  assume r: "ask n i s = (r, s')"
  obtain b c1 where 1: "sendUserAuthInfoRequest n i (gs_Conn s) = (b, c1)" by fastforce
  obtain m c2 where 2: "readSSHMessage c1 = (m, c2)" by fastforce
  have "gs_Conn s' = c1 \<or> gs_Conn s' = c2"
    using r 1 2 by (auto simp: ask_def split: bool.splits sum.splits)
  moreover have "pending c1 = todo s" using 1 by (simp add: sendUserAuthInfoRequest_def sendSSHMessage_pending)
  moreover have "pending c2 \<le> pending c1" using 2 by (rule readSSHMessage_pending)
  ultimately show ?thesis by auto
qed

lemma record_user_todo [simp]: "todo (record_user u s) = todo s"
  by (simp add: record_user_def)

lemma check_credentials_todo: "check_credentials E cfg k u p s = (r, s') \<Longrightarrow> todo s' \<le> todo s"
  by (auto simp: check_credentials_def dest: ask_todo split: prod.splits sum.splits if_splits)

lemma handleUserAuthRequest_todo: "handleUserAuthRequest E cfg k msg s = (r, s') \<Longrightarrow> todo s' \<le> todo s"
  by (fastforce simp: handleUserAuthRequest_def handlePasswordAuth_def handleKeyboardInteractiveAuth_def Let_def
      dest: ask_todo check_credentials_todo split: prod.splits sum.splits option.splits if_splits)

subsection \<open>The loop\<close>

lemma send_pending [simp]: "pending (snd (sendSSHMessage t p c)) = pending c"
  using sendSSHMessage_in[of t p c] by (metis pending_def prod.collapse)

function auth_loop :: "auth_env \<Rightarrow> Config \<Rightarrow> nat \<Rightarrow> Session \<Rightarrow> gateway_error option \<times> Session" where
  "auth_loop E cfg k s =
     (if ae_done E k then (Some SessionCancelled, s)
      else (case readSSHMessage (gs_Conn s) of
          (Inl e, c) \<Rightarrow> (Some (AuthRead e), s\<lparr>gs_Conn := c\<rparr>)
        | (Inr msg, c) \<Rightarrow>
            (if Type msg = SSH_MSG_USERAUTH_REQUEST then
               (case handleUserAuthRequest E cfg k msg (s\<lparr>gs_Conn := c\<rparr>) of
                  (Some e, s1) \<Rightarrow>
                    auth_loop E cfg (Suc k) (s1\<lparr>gs_Conn := snd (sendUserAuthFailure (gs_Conn s1))\<rparr>)
                | (None, s1) \<Rightarrow>
                    (None, s1\<lparr>gs_Conn := snd (sendUserAuthSuccess (gs_Conn s1)), gs_authenticated := True\<rparr>))
             else auth_loop E cfg (Suc k) (s\<lparr>gs_Conn := c\<rparr>))))"
  by pat_completeness auto

termination
proof (relation "measure (\<lambda>(E, cfg, k, s). todo s)", goal_cases)
  case (2 E cfg k s r c msg p s1 e)
  then have "pending c + 5 \<le> todo s" by (metis readSSHMessage_pending(2))
  moreover have "todo s1 \<le> pending c"
    using handleUserAuthRequest_todo[OF 2(5)[symmetric]] by simp
  ultimately show ?case by (simp add: sendUserAuthFailure_def)
next
  case (3 E cfg k s r c msg)
  then show ?case using readSSHMessage_pending(2)[of "gs_Conn s" r c msg] by auto
qed simp

declare auth_loop.simps [simp del]

definition handleAuthentication :: "auth_env \<Rightarrow> Config \<Rightarrow> Session \<Rightarrow> gateway_error option \<times> Session" where
  "handleAuthentication E cfg s =
     (if cf_BannerMessage cfg \<noteq> [] then
        (let banner = (if HasSuffix (cf_BannerMessage cfg) [CHR 0x0A] then cf_BannerMessage cfg
                       else cf_BannerMessage cfg @ [CHR 0x0A])
         in case sendUserAuthBanner banner (gs_Conn s) of
              (False, c) \<Rightarrow> (Some BannerFailed, s\<lparr>gs_Conn := c\<rparr>)
            | (True, c) \<Rightarrow> auth_loop E cfg 0 (s\<lparr>gs_Conn := c\<rparr>))
      else auth_loop E cfg 0 s)"

text \<open>The key exchange draws 32 random bytes for both directions.  Nothing of the key
  exchange is sent, and the keys are not used by the readers and writers of messages.\<close>

definition handleKeyExchange :: "string option \<Rightarrow> Session \<Rightarrow> gateway_error option \<times> Session" where
  "handleKeyExchange rand_Read s = (case rand_Read of
     None \<Rightarrow> (Some NoSessionKey, s)
   | Some sessionKey \<Rightarrow> (None, s\<lparr>gs_clientToServerKey := sessionKey, gs_serverToClientKey := sessionKey,
       gs_encrypted := True\<rparr>))"

definition handleSSHHandshake :: "auth_env \<Rightarrow> Config \<Rightarrow> string option \<Rightarrow> Session \<Rightarrow> gateway_error option \<times> Session" where
  "handleSSHHandshake E cfg rand_Read s = (case handleVersionNegotiation (cf_ServerVersion cfg) (gs_Conn s) of
     (Some e, c) \<Rightarrow> (Some (VersionError e), s\<lparr>gs_Conn := c\<rparr>)
   | (None, c) \<Rightarrow> (case handleKeyExchange rand_Read (s\<lparr>gs_Conn := c, gs_versionNegotiated := True\<rparr>) of
       (Some e, s1) \<Rightarrow> (Some e, s1)
     | (None, s1) \<Rightarrow> handleAuthentication E cfg s1))"

section \<open>Properties\<close>

subsection \<open>Who is let in\<close>

text \<open>The session carries the identity of an active account whose password was given and,
  for an account with two-factor authentication, a valid time-based code.\<close>

definition proved :: "auth_env \<Rightarrow> nat \<Rightarrow> Session \<Rightarrow> bool" where
  "proved E k s \<longleftrightarrow> (\<exists>u pw. FindUserByUsername (ae_libs E) (gs_username s) (ae_db E k) = Some u \<and>
     u_Status u = ''active'' \<and> CompareHashAndPassword (ae_libs E) (u_Password u) pw \<and>
     (u_TwoFactorEnabled u \<longrightarrow>
        (\<exists>code. code \<noteq> [] \<and> totp_Validate (ae_libs E) (ae_now E k) (u_TwoFactorSecret u) code)) \<and>
     gs_userID s = u_ID u \<and> s_UserID (gs_SessionInfo s) = u_ID u \<and>
     s_Username (gs_SessionInfo s) = gs_username s)"

lemma ask_username: "ask n i s = (r, s') \<Longrightarrow> gs_username s' = gs_username s"
  by (auto simp: ask_def split: prod.splits bool.splits sum.splits)

lemma check_credentials_proved:
  assumes "check_credentials E cfg k u pw s = (None, s')"
    "FindUserByUsername (ae_libs E) (gs_username s) (ae_db E k) = Some u"
  shows "proved E k s'"
proof -
  obtain s1 where s': "s' = record_user u s1" and n: "gs_username s1 = gs_username s"
    and p: "ValidatePassword (ae_libs E) u pw = None"
    and m: "u_TwoFactorEnabled u \<longrightarrow> (\<exists>code. validateTwoFactorCode (ae_libs E) (ae_now E k) u code [])"
    using assms(1) by (fastforce simp: check_credentials_def split: if_splits prod.splits sum.splits dest: ask_username)
  from m have "u_TwoFactorEnabled u \<longrightarrow>
      (\<exists>code. code \<noteq> [] \<and> totp_Validate (ae_libs E) (ae_now E k) (u_TwoFactorSecret u) code)"
    by (auto simp: validateTwoFactorCode_def split: if_splits)
  then show ?thesis
    unfolding proved_def using assms(2) n p
    by (intro exI[of _ u] exI[of _ pw]) (simp add: s' record_user_def ValidatePassword_def split: if_splits)
qed

lemma handlePasswordAuth_proved: "handlePasswordAuth E cfg k r s = (None, s') \<Longrightarrow> proved E k s'"
  by (auto simp: handlePasswordAuth_def dest: check_credentials_proved split: option.splits if_splits)

lemma handleKeyboardInteractiveAuth_proved:
  assumes "handleKeyboardInteractiveAuth E cfg k s = (None, s')"
  shows "proved E k s'"
proof -
  obtain u where u: "FindUserByUsername (ae_libs E) (gs_username s) (ae_db E k) = Some u"
    using assms by (auto simp: handleKeyboardInteractiveAuth_def split: if_splits option.splits)
  obtain r s1 where a: "ask ''Password Authentication''
      (prompt_for cfg (ae_db E k) ([CHR 0x27] @ ''s password: '') s) s = (r, s1)" by fastforce
  obtain pw where "check_credentials E cfg k u pw s1 = (None, s')"
    using assms u a by (auto simp: handleKeyboardInteractiveAuth_def split: if_splits sum.splits)
  then show ?thesis using check_credentials_proved u ask_username[OF a] by metis
qed

lemma handleUserAuthRequest_proved:
  "handleUserAuthRequest E cfg k msg s = (None, s') \<Longrightarrow> proved E k s'"
  by (auto simp: handleUserAuthRequest_def Let_def split: option.splits if_splits)
    (erule handlePasswordAuth_proved handleKeyboardInteractiveAuth_proved)+

lemma auth_loop_proved:
  "auth_loop E cfg k s = (None, s') \<Longrightarrow> gs_authenticated s' \<and> (\<exists>j\<ge>k. \<not> ae_done E j \<and> proved E j s')"
proof (induction E cfg k s rule: auth_loop.induct)
  case (1 E cfg k s)
  obtain r c where r: "readSSHMessage (gs_Conn s) = (r, c)" by fastforce
  have go: "\<not> ae_done E k" using 1(3) by (subst (asm) auth_loop.simps) (simp split: if_splits)
  then obtain msg where m: "r = Inr msg"
    using 1(3) r by (cases r) (subst (asm) auth_loop.simps, simp)+
  note loop = 1(3)[unfolded auth_loop.simps[of E cfg k s], simplified go r m, simplified]
  obtain e s1 where h: "handleUserAuthRequest E cfg k msg (s\<lparr>gs_Conn := c\<rparr>) = (e, s1)" by fastforce
  show ?case
  proof (cases "Type msg = SSH_MSG_USERAUTH_REQUEST")
    case False
    then show ?thesis using 1(2)[OF go r[symmetric] m] loop Suc_leD by fastforce
  next
    case req: True
    show ?thesis
    proof (cases e)
      case None
      then have "proved E k s1" using h handleUserAuthRequest_proved by blast
      moreover have "s' = s1\<lparr>gs_Conn := snd (sendUserAuthSuccess (gs_Conn s1)), gs_authenticated := True\<rparr>"
        using loop req h None by simp
      ultimately show ?thesis using go by (intro conjI exI[of _ k]) (simp_all add: proved_def)
    next
      case (Some x)
      then show ?thesis using 1(1)[OF go r[symmetric] m req h[symmetric]] loop req h Suc_leD by fastforce
    qed
  qed
qed


subsection \<open>A password request is answered\<close>

definition password_request :: "string \<Rightarrow> string \<Rightarrow> SSHMessage" where
  "password_request username password = \<lparr>Type = SSH_MSG_USERAUTH_REQUEST,
     Payload = encodeString username @ encodeString ''ssh-connection'' @ encodeString ''password'' @
       encodeString password\<rparr>"

lemma encodeString_ne [simp]: "encodeString s \<noteq> []"
  by (simp add: encodeString_def PutUint32_def)

lemma handle_password_request:
  assumes "length username < 2 ^ 32" "length password < 2 ^ 32" "password \<noteq> []"
    "ae_service E" "FindUserByUsername (ae_libs E) username (ae_db E k) = Some u"
  shows "handleUserAuthRequest E cfg k (password_request username password) s =
         check_credentials E cfg k u password (s\<lparr>gs_username := username\<rparr>)"
  using assms readString_encodeString[of password "[]"]
  by (simp add: handleUserAuthRequest_def password_request_def readString_encodeString handlePasswordAuth_def)

text \<open>The rest of the loop after the answer to a request.\<close>

definition auth_next :: "auth_env \<Rightarrow> Config \<Rightarrow> nat \<Rightarrow> gateway_error option \<times> Session \<Rightarrow> gateway_error option \<times> Session" where
  "auth_next E cfg k r = (case r of
     (Some e, s1) \<Rightarrow>
       auth_loop E cfg (Suc k) (s1\<lparr>gs_Conn := snd (sendUserAuthFailure (gs_Conn s1))\<rparr>)
   | (None, s1) \<Rightarrow>
       (None, s1\<lparr>gs_Conn := snd (sendUserAuthSuccess (gs_Conn s1)), gs_authenticated := True\<rparr>))"

lemma auth_loop_message:
  assumes "concat (c_in (gs_Conn s)) = sent [m] @ rest" "length (Payload m) \<le> 32767" "\<not> ae_done E k"
    "Type m = SSH_MSG_USERAUTH_REQUEST"
  obtains c where "concat (c_in c) = rest"
    "auth_loop E cfg k s = auth_next E cfg k (handleUserAuthRequest E cfg k m (s\<lparr>gs_Conn := c\<rparr>))"
proof -
  obtain r c where r: "readSSHMessage (gs_Conn s) = (r, c)" by fastforce
  have "stream_message (concat (c_in (gs_Conn s))) = (Inr m, rest)"
    using stream_message_framed[OF assms(2), of "Type m" rest] assms(1) by (simp add: sent_def)
  then have m: "r = Inr m" and c: "concat (c_in c) = rest"
    using readSSHMessage_stream[OF r] by auto
  have "auth_loop E cfg k s = auth_next E cfg k (handleUserAuthRequest E cfg k m (s\<lparr>gs_Conn := c\<rparr>))"
    using r m assms(3,4) by (subst auth_loop.simps) (simp add: auth_next_def)
  then show ?thesis using that c by blast
qed

lemma password_request_fits:
  "length username + length password \<le> 32000 \<Longrightarrow> length (Payload (password_request username password)) \<le> 32767"
  by (simp add: password_request_def encodeString_def)

lemma password_request_type: "Type (password_request username password) = SSH_MSG_USERAUTH_REQUEST"
  by (simp add: password_request_def)

lemma sendUserAuthFailure_in [simp]: "c_in (snd (sendUserAuthFailure c)) = c_in c"
  using sendSSHMessage_in[of _ _ c] by (metis prod.collapse sendUserAuthFailure_def)

text \<open>The loop sets no limit on attempts.  After any number of wrong passwords the right
  one is accepted, whether or not the account has expired.\<close>

theorem authentication_never_locks:
  assumes "concat (c_in (gs_Conn s)) =
             sent (map (password_request username) wrong @ [password_request username right]) @ rest"
    "ae_service E" "\<And>j. ae_db E j = db" "\<And>j. \<not> ae_done E j"
    "FindUserByUsername (ae_libs E) username db = Some u" "u_Status u = ''active''"
    "\<not> u_TwoFactorEnabled u"
    "list_all (\<lambda>w. w \<noteq> [] \<and> length username + length w \<le> 32000 \<and>
       \<not> CompareHashAndPassword (ae_libs E) (u_Password u) w) wrong"
    "right \<noteq> []" "length username + length right \<le> 32000"
    "CompareHashAndPassword (ae_libs E) (u_Password u) right"
  shows "\<exists>s'. auth_loop E cfg k s = (None, s') \<and> gs_authenticated s' \<and> gs_userID s' = u_ID u"
  using assms(1,8)
proof (induction wrong arbitrary: k s)
  case Nil
  let ?m = "password_request username right"
  have "concat (c_in (gs_Conn s)) = sent [?m] @ rest" using Nil.prems(1) by simp
  then obtain c where c: "auth_loop E cfg k s = auth_next E cfg k (handleUserAuthRequest E cfg k ?m (s\<lparr>gs_Conn := c\<rparr>))"
    using auth_loop_message password_request_fits[OF assms(10)] assms(4) password_request_type by metis
  have "handleUserAuthRequest E cfg k ?m (s\<lparr>gs_Conn := c\<rparr>) =
      check_credentials E cfg k u right (s\<lparr>gs_Conn := c, gs_username := username\<rparr>)"
    using assms handle_password_request[of username right E k u cfg "s\<lparr>gs_Conn := c\<rparr>"] by simp
  then show ?case using c assms(6,7,11)
    by (simp add: check_credentials_def ValidatePassword_def record_user_def auth_next_def)
next
  case (Cons w wrong)
  let ?m = "password_request username w"
    and ?rest = "sent (map (password_request username) wrong @ [password_request username right]) @ rest"
  have w: "w \<noteq> []" "length username + length w \<le> 32000" "\<not> CompareHashAndPassword (ae_libs E) (u_Password u) w"
    using Cons.prems(2) by simp_all
  have "concat (c_in (gs_Conn s)) = sent [?m] @ ?rest" using Cons.prems(1) by (simp add: sent_def)
  then obtain c where i: "concat (c_in c) = ?rest"
    and c: "auth_loop E cfg k s = auth_next E cfg k (handleUserAuthRequest E cfg k ?m (s\<lparr>gs_Conn := c\<rparr>))"
    using auth_loop_message password_request_fits[OF w(2)] assms(4) password_request_type by metis
  have "handleUserAuthRequest E cfg k ?m (s\<lparr>gs_Conn := c\<rparr>) =
      check_credentials E cfg k u w (s\<lparr>gs_Conn := c, gs_username := username\<rparr>)"
    using assms w handle_password_request[of username w E k u cfg "s\<lparr>gs_Conn := c\<rparr>"] by simp
  then have "auth_loop E cfg k s = auth_loop E cfg (Suc k)
      (s\<lparr>gs_username := username, gs_Conn := snd (sendUserAuthFailure c)\<rparr>)"
    using c assms(6) w by (simp add: check_credentials_def ValidatePassword_def auth_next_def)
  moreover have "list_all (\<lambda>w. w \<noteq> [] \<and> length username + length w \<le> 32000 \<and>
       \<not> CompareHashAndPassword (ae_libs E) (u_Password u) w) wrong" using Cons.prems(2) by simp
  ultimately show ?case
    using Cons.IH[of "s\<lparr>gs_username := username, gs_Conn := snd (sendUserAuthFailure c)\<rparr>" "Suc k"] i by simp
qed

subsection \<open>Sample session\<close>

definition gateway_user :: User where
  "gateway_user = (new_user ''u1'' ''ann'' ''terces'' ''a@x'' ''Ann'' ''user'' ''password'')\<lparr>u_ExpiresAt := Some 5\<rparr>"

definition gateway_env :: auth_env where
  "gateway_env = \<lparr> ae_libs = sample_libs, ae_service = True, ae_db = (\<lambda>_. sample_adb\<lparr>users := [gateway_user]\<rparr>),
     ae_now = (\<lambda>_. 1000), ae_done = (\<lambda>_. False) \<rparr>"

definition gateway_config :: Config where
  "gateway_config = \<lparr> cf_MaxSessions = 10, cf_SessionTimeout = 0, cf_IdleTimeout = 0, cf_BannerMessage = [],
     cf_ServerVersion = ''zjump'', cf_CustomDomain = [] \<rparr>"

definition gateway_session :: "conn \<Rightarrow> Session" where
  "gateway_session c = \<lparr> gs_ID = ''x'', gs_Conn = c, gs_SessionInfo = sample_session, gs_StartTime = 0,
     gs_LastActive = 0, gs_cancelled = False, gs_versionNegotiated = True, gs_authenticated = False,
     gs_username = [], gs_userID = [], gs_encrypted = True, gs_clientToServerKey = [], gs_serverToClientKey = [],
     gs_channels = (\<lambda>_. None), gs_heap = [], gs_shells = [] \<rparr>"

definition gateway_input :: string where
  "gateway_input = sent (map (password_request ''ann'') [''guess'', ''other''] @ [password_request ''ann'' ''secret''])"

theorem authentication_never_locks_witness:
  "u_ExpiresAt gateway_user = Some 5 \<and>
   (\<exists>s'. auth_loop gateway_env gateway_config 0 (gateway_session (wire_conn [gateway_input])) = (None, s') \<and>
     gs_authenticated s' \<and> gs_userID s' = ''u1'')"
proof -
  have f: "FindUserByUsername sample_libs ''ann'' (sample_adb\<lparr>users := [gateway_user]\<rparr>) = Some gateway_user"
    by code_simp
  show ?thesis
    using authentication_never_locks[where E = gateway_env and u = gateway_user and username = "''ann''"
        and wrong = "[''guess'', ''other'']" and right = "''secret''" and rest = "[]"
        and db = "sample_adb\<lparr>users := [gateway_user]\<rparr>" and k = 0 and cfg = gateway_config
        and s = "gateway_session (wire_conn [gateway_input])"] f
    by (simp add: gateway_env_def gateway_session_def wire_conn_def gateway_input_def gateway_user_def
        new_user_def sample_libs_def)
qed

lemma gateway_login_code:
  "\<exists>s'. auth_loop gateway_env gateway_config 0 (gateway_session (wire_conn [gateway_input])) = (None, s')"
proof -
  have "fst (auth_loop gateway_env gateway_config 0 (gateway_session (wire_conn [gateway_input]))) = None"
    by code_simp
  then show ?thesis by (metis prod.collapse)
qed


subsection \<open>The dialogue ends\<close>

abbreviation replies :: "Session \<Rightarrow> nat" where "replies s \<equiv> c_writes (gs_Conn s)"

lemma send_writes_snd [simp]: "c_writes (snd (sendSSHMessage t p c)) = Suc (c_writes c)"
  by (simp add: sendSSHMessage_def Conn_Write_def Let_def)

lemma send_writes: "sendSSHMessage t p c = (b, c') \<Longrightarrow> c_writes c' = Suc (c_writes c)"
  using send_writes_snd[of t p c] by simp

lemma read_writes: "readSSHMessage c = (r, c') \<Longrightarrow> c_writes c' = c_writes c"
  by (auto simp: readSSHMessage_def Let_def split: prod.splits option.splits if_splits)

lemma ask_replies: "ask n i s = (r, s') \<Longrightarrow> replies s' = Suc (replies s)"
  by (auto simp: ask_def sendUserAuthInfoRequest_def send_writes dest!: read_writes
      split: prod.splits bool.splits sum.splits)

lemma check_credentials_replies: "check_credentials E cfg k u pw s = (r, s') \<Longrightarrow> replies s' \<le> Suc (replies s)"
  by (auto simp: check_credentials_def record_user_def dest: ask_replies split: prod.splits sum.splits if_splits)

lemma handleUserAuthRequest_replies:
  assumes "handleUserAuthRequest E cfg k msg s = (r, s')"
  shows "replies s' \<le> replies s + 2"
proof -
  have k: "handleKeyboardInteractiveAuth E cfg k t = (r, s') \<Longrightarrow> replies s' \<le> replies t + 2" for t
    by (fastforce simp: handleKeyboardInteractiveAuth_def dest: ask_replies check_credentials_replies
        split: prod.splits sum.splits if_splits option.splits)
  have p: "handlePasswordAuth E cfg k q t = (r, s') \<Longrightarrow> replies s' \<le> replies t + 2" for q t
    by (fastforce simp: handlePasswordAuth_def dest: check_credentials_replies split: if_splits option.splits)
  show ?thesis using assms k[of "s\<lparr>gs_username := _\<rparr>"] p[of _ "s\<lparr>gs_username := _\<rparr>"]
    by (auto simp: handleUserAuthRequest_def Let_def split: option.splits if_splits)
qed

text \<open>C40: the authentication dialogue ends with the input: the server sends at most one reply
  for each byte it reads.\<close>

theorem auth_loop_replies_bounded:
  "replies (snd (auth_loop E cfg k s)) + todo (snd (auth_loop E cfg k s)) \<le> replies s + todo s"
proof (induction E cfg k s rule: auth_loop.induct)
  case (1 E cfg k s)
  obtain r c where r: "readSSHMessage (gs_Conn s) = (r, c)" by fastforce
  note w = read_writes[OF r] and p = readSSHMessage_pending[OF r]
  show ?case
  proof (cases "ae_done E k \<or> (\<exists>e. r = Inl e)")
    case True
    then show ?thesis using r w p(1) by (subst (1 2) auth_loop.simps) auto
  next
    case False
    then obtain msg where go: "\<not> ae_done E k" and m: "r = Inr msg" by (cases r) auto
    note p5 = p(2)[OF m]
    obtain e s1 where h: "handleUserAuthRequest E cfg k msg (s\<lparr>gs_Conn := c\<rparr>) = (e, s1)" by fastforce
    have b: "replies s1 \<le> c_writes c + 2" "todo s1 \<le> pending c"
      using handleUserAuthRequest_replies[OF h] handleUserAuthRequest_todo[OF h] by simp_all
    show ?thesis
    proof (cases "Type msg = SSH_MSG_USERAUTH_REQUEST")
      case False
      then show ?thesis using 1(2)[OF go r[symmetric] m False] go r m w p5
        by (subst (1 2) auth_loop.simps) simp
    next
      case req: True
      show ?thesis
      proof (cases e)
        case None
        then show ?thesis using req go r m h b w p5
          by (subst (1 2) auth_loop.simps) (simp add: sendUserAuthSuccess_def)
      next
        case (Some x)
        then show ?thesis using 1(1)[OF go r[symmetric] m req h[symmetric]] go r m h b w p5 req
          by (subst (1 2) auth_loop.simps) (simp add: sendUserAuthFailure_def)
      qed
    qed
  qed
qed

subsection \<open>The layout of RFC 4252\<close>

lemma PutUint32_small:
  assumes "n < 256"
  shows "PutUint32 (word_of_nat n) = [CHR 0x00, CHR 0x00, CHR 0x00, char_of n]"
proof -
  have u: "uint (word_of_nat n :: 32 word) = int n"
    using assms by (simp add: unsigned_of_nat take_bit_eq_mod)
  have d: "drop_bit i (word_of_nat n :: 32 word) = 0" if "8 \<le> i" for i
  proof (rule bit_word_eqI)
    fix j
    have "n < 2 ^ (i + j)"
      using assms that power_increasing[of 8 "i + j" "2::nat"] by simp
    then have "\<not> bit n (i + j)" by (simp add: bit_iff_odd)
    then show "bit (drop_bit i (word_of_nat n :: 32 word)) j = bit (0 :: 32 word) j"
      by (simp add: bit_simps)
  qed
  have "char_of (0 :: int) = CHR 0x00" by code_simp
  then show ?thesis using d u by (simp add: PutUint32_def byte_def)
qed

lemma readString_after_bool:
  assumes "length pw < 256"
  shows "readString (encodeBool False @ encodeString pw) = Some ([], char_of (length pw) # pw)"
proof -
  have "Uint32 [CHR 0x00, CHR 0x00, CHR 0x00, CHR 0x00] = 0" by code_simp
  then show ?thesis
    using PutUint32_small[OF assms]
    by (simp add: readString_def Reader_Read_def encodeString_def encodeBool_def fill_def)
qed

text \<open>The password request as RFC 4252 lays it out: a boolean stands before the password.\<close>

definition rfc_password_request :: "string \<Rightarrow> string \<Rightarrow> SSHMessage" where
  "rfc_password_request username password = \<lparr>Type = SSH_MSG_USERAUTH_REQUEST,
     Payload = encodeString username @ encodeString ''ssh-connection'' @ encodeString ''password'' @
       encodeBool False @ encodeString password\<rparr>"

text \<open>The boolean of a standard password request is read as part of the length of the
  password, so that every such request is checked against the empty password.\<close>

theorem rfc_password_read_as_empty:
  assumes "length username < 2 ^ 32" "length password < 256"
    "ae_service E" "FindUserByUsername (ae_libs E) username (ae_db E k) = Some u"
  shows "handleUserAuthRequest E cfg k (rfc_password_request username password) s =
         check_credentials E cfg k u [] (s\<lparr>gs_username := username\<rparr>)"
  using assms readString_after_bool[OF assms(2)]
  by (simp add: handleUserAuthRequest_def rfc_password_request_def readString_encodeString handlePasswordAuth_def)

theorem rfc_password_read_as_empty_witness:
  "fst (handleUserAuthRequest gateway_env gateway_config 0 (rfc_password_request ''ann'' ''secret'')
     (gateway_session (wire_conn []))) = Some AuthFailed"
proof -
  have f: "FindUserByUsername (ae_libs gateway_env) ''ann'' (ae_db gateway_env 0) = Some gateway_user"
    by code_simp
  have v: "ValidatePassword (ae_libs gateway_env) gateway_user [] = Some WrongPassword" by code_simp
  show ?thesis
    using rfc_password_read_as_empty[OF _ _ _ f, of "''secret''" gateway_config "gateway_session (wire_conn [])"] v
    by (simp add: check_credentials_def) (simp add: gateway_env_def)
qed

end
