(* ===== verification/Ssh_Channels.thy ===== *)
theory Ssh_Channels
imports Ssh_Gateway
begin

text \<open>
  Channels and sessions of the custom SSH server: the message loop of
  \<open>internal/sshserver/protocol/custom_ssh.go\<close>, the channel requests and the terminal
  connection of \<open>channel_handler.go\<close>, and the table of sessions with its limits.
  Channel objects live in a heap because the map of a session and the shells that were
  started share them.  A step may end in a panic (a send on, or a second close of, a
  closed Go channel) or block for ever (a send on a full one).
\<close>

section \<open>Channels\<close>

datatype 'a go = Fine 'a | Panics | Blocks

abbreviation SSH_MSG_GLOBAL_REQUEST :: char where "SSH_MSG_GLOBAL_REQUEST \<equiv> CHR 0x50"
abbreviation SSH_MSG_REQUEST_FAILURE :: char where "SSH_MSG_REQUEST_FAILURE \<equiv> CHR 0x52"
abbreviation SSH_MSG_CHANNEL_OPEN :: char where "SSH_MSG_CHANNEL_OPEN \<equiv> CHR 0x5A"
abbreviation SSH_MSG_CHANNEL_OPEN_CONFIRMATION :: char where "SSH_MSG_CHANNEL_OPEN_CONFIRMATION \<equiv> CHR 0x5B"
abbreviation SSH_MSG_CHANNEL_OPEN_FAILURE :: char where "SSH_MSG_CHANNEL_OPEN_FAILURE \<equiv> CHR 0x5C"
abbreviation SSH_MSG_CHANNEL_DATA :: char where "SSH_MSG_CHANNEL_DATA \<equiv> CHR 0x5E"
abbreviation SSH_MSG_CHANNEL_CLOSE :: char where "SSH_MSG_CHANNEL_CLOSE \<equiv> CHR 0x61"
abbreviation SSH_MSG_CHANNEL_REQUEST :: char where "SSH_MSG_CHANNEL_REQUEST \<equiv> CHR 0x62"
abbreviation SSH_MSG_CHANNEL_SUCCESS :: char where "SSH_MSG_CHANNEL_SUCCESS \<equiv> CHR 0x63"
abbreviation SSH_MSG_CHANNEL_FAILURE :: char where "SSH_MSG_CHANNEL_FAILURE \<equiv> CHR 0x64"

definition SSH_OPEN_UNKNOWN_CHANNEL_TYPE :: "32 word" where "SSH_OPEN_UNKNOWN_CHANNEL_TYPE = 3"

definition say :: "char \<Rightarrow> string \<Rightarrow> Session \<Rightarrow> bool \<times> Session" where
  "say msgType payload s = (case sendSSHMessage msgType payload (gs_Conn s) of
     (ok, c) \<Rightarrow> (ok, s\<lparr>gs_Conn := c\<rparr>))"

definition sendChannelOpenConfirmation :: "32 word \<Rightarrow> 32 word \<Rightarrow> 32 word \<Rightarrow> 32 word \<Rightarrow> Session \<Rightarrow> bool \<times> Session" where
  "sendChannelOpenConfirmation recipientChannel senderChannel windowSize packetSize s =
     say SSH_MSG_CHANNEL_OPEN_CONFIRMATION (encodeUint32 recipientChannel @ encodeUint32 senderChannel @
       encodeUint32 windowSize @ encodeUint32 packetSize) s"

definition sendChannelOpenFailure :: "32 word \<Rightarrow> 32 word \<Rightarrow> string \<Rightarrow> Session \<Rightarrow> bool \<times> Session" where
  "sendChannelOpenFailure recipientChannel reasonCode reason s =
     say SSH_MSG_CHANNEL_OPEN_FAILURE (encodeUint32 recipientChannel @ encodeUint32 reasonCode @
       encodeString reason @ encodeString []) s"

definition sendChannelSuccess :: "32 word \<Rightarrow> Session \<Rightarrow> bool \<times> Session" where
  "sendChannelSuccess channelID s = say SSH_MSG_CHANNEL_SUCCESS (encodeUint32 channelID) s"

definition sendChannelFailure :: "32 word \<Rightarrow> Session \<Rightarrow> bool \<times> Session" where
  "sendChannelFailure channelID s = say SSH_MSG_CHANNEL_FAILURE (encodeUint32 channelID) s"

subsection \<open>Requests of the client\<close>

text \<open>The handlers answer whether they returned without an error.\<close>

definition parse_open :: "string \<Rightarrow> (string \<times> 32 word \<times> 32 word \<times> 32 word) option" where
  "parse_open p = (case readString p of
     None \<Rightarrow> None
   | Some (channelType, r1) \<Rightarrow> (case readUint32 r1 of
       None \<Rightarrow> None
     | Some (senderChannel, r2) \<Rightarrow> (case readUint32 r2 of
         None \<Rightarrow> None
       | Some (initialWindowSize, r3) \<Rightarrow> (case readUint32 r3 of
           None \<Rightarrow> None
         | Some (maxPacketSize, _) \<Rightarrow> Some (channelType, senderChannel, initialWindowSize, maxPacketSize)))))"

definition new_channel :: "string \<Rightarrow> 32 word \<Rightarrow> 32 word \<Rightarrow> 32 word \<Rightarrow> Channel" where
  "new_channel channelType senderChannel initialWindowSize maxPacketSize =
     \<lparr> ch_ID = senderChannel, ch_Type = channelType, ch_WindowSize = initialWindowSize,
       ch_PacketSize = maxPacketSize, ch_LocalWindow = initialWindowSize, ch_RemoteWindow = 32768,
       ch_Data = [], ch_CloseChan = 0, ch_Closed = False \<rparr>"

definition handleChannelOpen :: "SSHMessage \<Rightarrow> Session \<Rightarrow> bool \<times> Session" where
  "handleChannelOpen msg s = (case parse_open (Payload msg) of
     None \<Rightarrow> (False, s)
   | Some (channelType, senderChannel, initialWindowSize, maxPacketSize) \<Rightarrow>
       (if channelType \<noteq> ''session''
        then sendChannelOpenFailure senderChannel SSH_OPEN_UNKNOWN_CHANNEL_TYPE ''unsupported channel type'' s
        else sendChannelOpenConfirmation senderChannel senderChannel initialWindowSize maxPacketSize
          (s\<lparr>gs_heap := gs_heap s @ [new_channel channelType senderChannel initialWindowSize maxPacketSize],
             gs_channels := (gs_channels s)(senderChannel \<mapsto> length (gs_heap s))\<rparr>)))"

definition read_size :: "string \<Rightarrow> (32 word \<times> 32 word) option" where
  "read_size r = (case readUint32 r of
     None \<Rightarrow> None
   | Some (cols, r1) \<Rightarrow> (case readUint32 r1 of
       None \<Rightarrow> None
     | Some (rows, r2) \<Rightarrow> (case readUint32 r2 of
         None \<Rightarrow> None
       | Some (width, r3) \<Rightarrow> (case readUint32 r3 of
           None \<Rightarrow> None
         | Some (height, r4) \<Rightarrow> Some (cols, rows)))))"

definition set_size :: "32 word \<Rightarrow> 32 word \<Rightarrow> Session \<Rightarrow> Session" where
  "set_size cols rows s = s\<lparr>gs_SessionInfo := (gs_SessionInfo s)
     \<lparr>s_TerminalCols := unat cols, s_TerminalRows := unat rows\<rparr>\<rparr>"

definition handlePtyRequest :: "32 word \<Rightarrow> string \<Rightarrow> bool \<Rightarrow> Session \<Rightarrow> bool \<times> Session" where
  "handlePtyRequest channelID reader wantReply s = (case readString reader of
     None \<Rightarrow> (False, s)
   | Some (_, r1) \<Rightarrow> (case read_size r1 of
       None \<Rightarrow> (False, s)
     | Some (cols, rows) \<Rightarrow>
         (let s1 = set_size cols rows s
          in if wantReply then sendChannelSuccess channelID s1 else (True, s1))))"

definition handleShellRequest :: "nat \<Rightarrow> 32 word \<Rightarrow> bool \<Rightarrow> Session \<Rightarrow> bool \<times> Session" where
  "handleShellRequest channel channelID wantReply s =
     (case (if wantReply then sendChannelSuccess channelID s else (True, s)) of
        (False, s1) \<Rightarrow> (False, s1)
      | (True, s1) \<Rightarrow> (True, s1\<lparr>gs_shells := gs_shells s1 @ [channel]\<rparr>))"

definition handleWindowChange :: "string \<Rightarrow> Session \<Rightarrow> bool \<times> Session" where
  "handleWindowChange reader s = (case read_size reader of
     None \<Rightarrow> (False, s) | Some (cols, rows) \<Rightarrow> (True, set_size cols rows s))"

definition handleChannelRequest :: "SSHMessage \<Rightarrow> Session \<Rightarrow> bool \<times> Session" where
  "handleChannelRequest msg s = (case readUint32 (Payload msg) of
     None \<Rightarrow> (False, s)
   | Some (recipientChannel, r1) \<Rightarrow> (case readString r1 of
       None \<Rightarrow> (False, s)
     | Some (requestType, r2) \<Rightarrow> (case readBool r2 of
         None \<Rightarrow> (False, s)
       | Some (wantReply, reader) \<Rightarrow>
           (let refuse = (if wantReply then snd (sendChannelFailure recipientChannel s) else s)
            in case gs_channels s recipientChannel of
                 None \<Rightarrow> (False, refuse)
               | Some channel \<Rightarrow>
                   (let channelID = ch_ID (gs_heap s ! channel) in
                    if requestType = ''pty-req'' then handlePtyRequest channelID reader wantReply s
                    else if requestType = ''shell'' then handleShellRequest channel channelID wantReply s
                    else if requestType = ''window-change'' then handleWindowChange reader s
                    else (True, refuse))))))"

definition handleGlobalRequest :: "Session \<Rightarrow> Session" where
  "handleGlobalRequest s = snd (say SSH_MSG_REQUEST_FAILURE [] s)"

definition handleChannelData :: "SSHMessage \<Rightarrow> Session \<Rightarrow> Session go" where
  "handleChannelData msg s = (case readUint32 (Payload msg) of
     None \<Rightarrow> Fine s
   | Some (channelID, reader) \<Rightarrow> (case gs_channels s channelID of
       None \<Rightarrow> Fine s
     | Some a \<Rightarrow> (case Reader_Read (length reader) reader of
         None \<Rightarrow> Fine s
       | Some (data, _) \<Rightarrow>
           (let channel = gs_heap s ! a in
            if ch_Closed channel then Panics
            else if length (ch_Data channel) < 100
            then Fine (s\<lparr>gs_heap := (gs_heap s)[a := channel\<lparr>ch_Data := ch_Data channel @ [data]\<rparr>]\<rparr>)
            else Fine s))))"

definition closeChannel :: "32 word \<Rightarrow> Session \<Rightarrow> Session go" where
  "closeChannel channelID s = (case gs_channels s channelID of
     None \<Rightarrow> Fine s
   | Some a \<Rightarrow>
       (let channel = gs_heap s ! a in
        if ch_Closed channel then Panics
        else Fine (s\<lparr>gs_heap := (gs_heap s)[a := channel\<lparr>ch_Closed := True\<rparr>],
                     gs_channels := (gs_channels s)(channelID := None)\<rparr>)))"

definition handleChannelClose :: "SSHMessage \<Rightarrow> Session \<Rightarrow> Session go" where
  "handleChannelClose msg s = (case readUint32 (Payload msg) of
     None \<Rightarrow> Fine s | Some (channelID, _) \<Rightarrow> closeChannel channelID s)"

definition handle_message :: "SSHMessage \<Rightarrow> Session \<Rightarrow> Session go" where
  "handle_message msg s =
     (if Type msg = SSH_MSG_CHANNEL_OPEN then Fine (snd (handleChannelOpen msg s))
      else if Type msg = SSH_MSG_CHANNEL_REQUEST then Fine (snd (handleChannelRequest msg s))
      else if Type msg = SSH_MSG_GLOBAL_REQUEST then Fine (handleGlobalRequest s)
      else if Type msg = SSH_MSG_CHANNEL_DATA then handleChannelData msg s
      else if Type msg = SSH_MSG_CHANNEL_CLOSE then handleChannelClose msg s
      else Fine (snd (say SSH_MSG_UNIMPLEMENTED [] s)))"

subsection \<open>The side of the shell\<close>

text \<open>\<open>channel.CloseChan <- true\<close> on a Go channel of capacity 1.\<close>

definition signal_close :: "nat \<Rightarrow> Session \<Rightarrow> Session go" where
  "signal_close a s =
     (let channel = gs_heap s ! a in
      if ch_Closed channel then Panics
      else if ch_CloseChan channel < 1
      then Fine (s\<lparr>gs_heap := (gs_heap s)[a := channel\<lparr>ch_CloseChan := Suc (ch_CloseChan channel)\<rparr>]\<rparr>)
      else Blocks)"

text \<open>The deferred function of \<open>handleShell\<close>, which runs when the terminal handler returns.\<close>

definition shell_ends :: "nat \<Rightarrow> Session \<Rightarrow> Session go" where
  "shell_ends a s = (case signal_close a s of
     Fine s1 \<Rightarrow> (case closeChannel (ch_ID (gs_heap s1 ! a)) s1 of
       Fine s2 \<Rightarrow> Fine (s2\<lparr>gs_shells := remove1 a (gs_shells s2)\<rparr>)
     | r \<Rightarrow> r)
   | r \<Rightarrow> r)"

definition terminal_write :: "nat \<Rightarrow> string \<Rightarrow> Session \<Rightarrow> nat \<times> bool \<times> Session" where
  "terminal_write a p s =
     (length p, say SSH_MSG_CHANNEL_DATA (encodeUint32 (ch_ID (gs_heap s ! a)) @ p) s)"

definition terminal_close :: "nat \<Rightarrow> Session \<Rightarrow> Session go" where
  "terminal_close a s =
     signal_close a (snd (say SSH_MSG_CHANNEL_CLOSE (encodeUint32 (ch_ID (gs_heap s ! a))) s))"

text \<open>A read into a buffer of \<open>n\<close> bytes: any of the cases that are ready; \<open>None\<close> is the end
  of the file.  Receiving from a closed channel yields its zero value at once.\<close>

inductive terminal_read :: "nat \<Rightarrow> nat \<Rightarrow> Session \<Rightarrow> string option \<Rightarrow> Session \<Rightarrow> bool" for a n s where
  data: "ch_Data (gs_heap s ! a) = d # ds \<Longrightarrow>
     terminal_read a n s (Some (take n d)) (s\<lparr>gs_heap := (gs_heap s)[a := (gs_heap s ! a)\<lparr>ch_Data := ds\<rparr>]\<rparr>)"
| data_closed: "ch_Data (gs_heap s ! a) = [] \<Longrightarrow> ch_Closed (gs_heap s ! a) \<Longrightarrow> terminal_read a n s (Some []) s"
| close_signal: "ch_CloseChan (gs_heap s ! a) = Suc k \<Longrightarrow>
     terminal_read a n s None (s\<lparr>gs_heap := (gs_heap s)[a := (gs_heap s ! a)\<lparr>ch_CloseChan := k\<rparr>]\<rparr>)"
| close_closed: "ch_CloseChan (gs_heap s ! a) = 0 \<Longrightarrow> ch_Closed (gs_heap s ! a) \<Longrightarrow> terminal_read a n s None s"
| cancelled: "gs_cancelled s \<Longrightarrow> terminal_read a n s None s"

text \<open>The message loop and the shells of a session take turns.\<close>

inductive gstep :: "Session \<Rightarrow> Session go \<Rightarrow> bool" for s where
  incoming: "gstep s (handle_message m s)"
| reads: "a \<in> set (gs_shells s) \<Longrightarrow> terminal_read a n s r s' \<Longrightarrow> gstep s (Fine s')"
| writes: "a \<in> set (gs_shells s) \<Longrightarrow> gstep s (Fine (snd (snd (terminal_write a p s))))"
| closes: "a \<in> set (gs_shells s) \<Longrightarrow> gstep s (terminal_close a s)"
| ends: "a \<in> set (gs_shells s) \<Longrightarrow> gstep s (shell_ends a s)"
| cancels: "gstep s (Fine (s\<lparr>gs_cancelled := True\<rparr>))"

inductive_cases terminal_readE: "terminal_read a n s r s'"

inductive running :: "Session \<Rightarrow> Session \<Rightarrow> bool" for s0 where
  start: "running s0 s0"
| step: "running s0 s \<Longrightarrow> gstep s (Fine s') \<Longrightarrow> running s0 s'"

section \<open>Invariant\<close>

text \<open>The map of the session holds open channels under their own number, the Go channels
  keep their capacities and shells refer to allocated objects.\<close>

definition channel_fits :: "Channel \<Rightarrow> bool" where
  "channel_fits ch \<longleftrightarrow> length (ch_Data ch) \<le> 100 \<and> ch_CloseChan ch \<le> 1"

definition channels_ok :: "Session \<Rightarrow> bool" where
  "channels_ok s \<longleftrightarrow>
     (\<forall>i a. gs_channels s i = Some a \<longrightarrow>
        a < length (gs_heap s) \<and> ch_ID (gs_heap s ! a) = i \<and> \<not> ch_Closed (gs_heap s ! a)) \<and>
     list_all channel_fits (gs_heap s) \<and> list_all (\<lambda>a. a < length (gs_heap s)) (gs_shells s)"

lemma channels_okD:
  assumes "channels_ok s" "gs_channels s i = Some a"
  shows "a < length (gs_heap s)" "ch_ID (gs_heap s ! a) = i" "\<not> ch_Closed (gs_heap s ! a)"
  using assms by (auto simp: channels_ok_def)

lemma channels_ok_fits: "channels_ok s \<Longrightarrow> a < length (gs_heap s) \<Longrightarrow> channel_fits (gs_heap s ! a)"
  by (simp add: channels_ok_def list_all_length)

lemma channels_ok_shell: "channels_ok s \<Longrightarrow> a \<in> set (gs_shells s) \<Longrightarrow> a < length (gs_heap s)"
  by (auto simp: channels_ok_def list_all_iff)

text \<open>Sending and the size of the terminal leave the channels alone.\<close>

lemma say_keeps [simp]:
  "gs_heap (snd (say t p s)) = gs_heap s" "gs_channels (snd (say t p s)) = gs_channels s"
  "gs_shells (snd (say t p s)) = gs_shells s"
  by (simp_all add: say_def split: prod.splits)

lemma set_size_keeps [simp]:
  "gs_heap (set_size c r s) = gs_heap s" "gs_channels (set_size c r s) = gs_channels s"
  "gs_shells (set_size c r s) = gs_shells s"
  by (simp_all add: set_size_def)

lemmas sends = sendChannelOpenConfirmation_def sendChannelOpenFailure_def sendChannelSuccess_def sendChannelFailure_def

lemma channels_ok_cong:
  "gs_heap s' = gs_heap s \<Longrightarrow> gs_channels s' = gs_channels s \<Longrightarrow> set (gs_shells s') \<subseteq> set (gs_shells s) \<Longrightarrow>
   channels_ok s \<Longrightarrow> channels_ok s'"
  by (auto simp: channels_ok_def list_all_iff)

lemma channels_ok_say [simp]: "channels_ok (snd (say t p s)) = channels_ok s"
  by (simp add: channels_ok_def)

text \<open>Replacing an object by one with the same number keeps the invariant, unless it closes
  an object that is still in the map.\<close>

lemma channels_ok_update:
  assumes "channels_ok s" "ch_ID ch = ch_ID (gs_heap s ! a)" "channel_fits ch"
    "\<And>i. gs_channels s i = Some a \<Longrightarrow> gs_channels s' i = Some a \<Longrightarrow> \<not> ch_Closed ch"
    "gs_heap s' = (gs_heap s)[a := ch]" "gs_channels s' \<subseteq>\<^sub>m gs_channels s" "gs_shells s' = gs_shells s"
  shows "channels_ok s'"
proof -
  have sub: "gs_channels s' i = Some b \<Longrightarrow> gs_channels s i = Some b" for i b
    using assms(6) by (metis domI map_le_def)
  have "b < length (gs_heap s') \<and> ch_ID (gs_heap s' ! b) = i \<and> \<not> ch_Closed (gs_heap s' ! b)"
    if b: "gs_channels s' i = Some b" for i b
    using channels_okD[OF assms(1) sub[OF b]] assms(2,4,5) b sub[OF b] by (cases "b = a") auto
  moreover have "list_all channel_fits (gs_heap s')"
    using assms(1,3,5) set_update_subset_insert[of "gs_heap s" a ch] by (auto simp: channels_ok_def list_all_iff)
  ultimately show ?thesis
    using assms(1,5,7) by (simp add: channels_ok_def)
qed

lemma fits_simps [simp]:
  "channel_fits (ch\<lparr>ch_Closed := b\<rparr>) = channel_fits ch"
  "channel_fits (ch\<lparr>ch_Data := ds\<rparr>) \<longleftrightarrow> length ds \<le> 100 \<and> ch_CloseChan ch \<le> 1"
  "channel_fits (ch\<lparr>ch_CloseChan := k\<rparr>) \<longleftrightarrow> length (ch_Data ch) \<le> 100 \<and> k \<le> 1"
  by (simp_all add: channel_fits_def)

subsection \<open>Messages of the client\<close>

lemma handleChannelOpen_ok: "channels_ok s \<Longrightarrow> channels_ok (snd (handleChannelOpen msg s))"
proof -
  assume ok: "channels_ok s"
  define s1 where "s1 t i w m = s\<lparr>gs_heap := gs_heap s @ [new_channel t i w m],
             gs_channels := (gs_channels s)(i \<mapsto> length (gs_heap s))\<rparr>" for t i w m
  have "channels_ok (s1 t i w m)" for t i w m
    using ok by (auto simp: channels_ok_def s1_def new_channel_def channel_fits_def nth_append list_all_iff
        intro: less_SucI split: if_splits)
  then show ?thesis
    using ok by (auto simp: handleChannelOpen_def sends s1_def split: option.splits)
qed

lemma handleShellRequest_keeps [simp]:
  "gs_heap (snd (handleShellRequest a i w s)) = gs_heap s"
  "gs_channels (snd (handleShellRequest a i w s)) = gs_channels s"
  using say_keeps[of SSH_MSG_CHANNEL_SUCCESS "encodeUint32 i" s]
  by (cases "say SSH_MSG_CHANNEL_SUCCESS (encodeUint32 i) s", simp add: handleShellRequest_def sends split: bool.splits)+

lemma handleShellRequest_shells:
  "set (gs_shells (snd (handleShellRequest a i w s))) \<subseteq> insert a (set (gs_shells s))"
  using say_keeps[of SSH_MSG_CHANNEL_SUCCESS "encodeUint32 i" s]
  by (cases "say SSH_MSG_CHANNEL_SUCCESS (encodeUint32 i) s") (auto simp: handleShellRequest_def sends split: bool.splits)

lemma handlePtyRequest_keeps [simp]:
  "gs_heap (snd (handlePtyRequest i r w s)) = gs_heap s"
  "gs_channels (snd (handlePtyRequest i r w s)) = gs_channels s"
  "gs_shells (snd (handlePtyRequest i r w s)) = gs_shells s"
  by (simp_all add: handlePtyRequest_def sends Let_def split: option.splits prod.splits)

lemma handleWindowChange_keeps [simp]:
  "gs_heap (snd (handleWindowChange r s)) = gs_heap s"
  "gs_channels (snd (handleWindowChange r s)) = gs_channels s"
  "gs_shells (snd (handleWindowChange r s)) = gs_shells s"
  by (simp_all add: handleWindowChange_def split: option.splits prod.splits)

lemma handleChannelRequest_keeps [simp]:
  "gs_heap (snd (handleChannelRequest msg s)) = gs_heap s"
  "gs_channels (snd (handleChannelRequest msg s)) = gs_channels s"
  by (simp_all add: handleChannelRequest_def sends Let_def split: option.splits prod.splits)

lemma handleChannelRequest_shells:
  "a \<in> set (gs_shells (snd (handleChannelRequest msg s))) \<Longrightarrow>
     a \<in> set (gs_shells s) \<or> (\<exists>i. gs_channels s i = Some a)"
  by (auto simp: handleChannelRequest_def sends Let_def split: option.splits prod.splits if_splits
      dest!: subsetD[OF handleShellRequest_shells])

lemma handleChannelRequest_ok:
  assumes "channels_ok s"
  shows "channels_ok (snd (handleChannelRequest msg s))"
  using assms channels_okD(1)[OF assms]
  by (auto simp: channels_ok_def list_all_iff dest!: handleChannelRequest_shells)

lemma closeChannel_ok:
  assumes "channels_ok s"
  shows "\<exists>s'. closeChannel i s = Fine s' \<and> channels_ok s'"
proof (cases "gs_channels s i")
  case (Some a)
  note d = channels_okD[OF assms Some]
  have f: "channel_fits (gs_heap s ! a)" using channels_ok_fits[OF assms d(1)] .
  have only: "gs_channels s j = Some a \<Longrightarrow> j = i" for j
    using channels_okD(2)[OF assms, of j a] d(2) by simp
  have "channels_ok (s\<lparr>gs_heap := (gs_heap s)[a := (gs_heap s ! a)\<lparr>ch_Closed := True\<rparr>],
      gs_channels := (gs_channels s)(i := None)\<rparr>)"
    by (rule channels_ok_update[OF assms, where a = a and ch = "(gs_heap s ! a)\<lparr>ch_Closed := True\<rparr>"])
      (use f only in \<open>auto simp: map_le_def\<close>)
  then show ?thesis using d(3) by (simp add: closeChannel_def Some)
qed (simp add: closeChannel_def assms)

lemma handleChannelData_ok:
  assumes "channels_ok s"
  shows "\<exists>s'. handleChannelData msg s = Fine s' \<and> channels_ok s'"
proof -
  have "channels_ok (s\<lparr>gs_heap := (gs_heap s)[a := (gs_heap s ! a)\<lparr>ch_Data := ch_Data (gs_heap s ! a) @ [d]\<rparr>]\<rparr>)"
    if a: "gs_channels s i = Some a" "length (ch_Data (gs_heap s ! a)) < 100" for i a d
    by (rule channels_ok_update[OF assms, where a = a])
      (use channels_ok_fits[OF assms channels_okD(1)[OF assms a(1)]] channels_okD(3)[OF assms] a(2)
        in \<open>auto simp: channel_fits_def\<close>)
  then show ?thesis
    using assms channels_okD(3)[OF assms]
    by (auto simp: handleChannelData_def Let_def split: option.splits)
qed

lemma handle_message_ok:
  assumes "channels_ok s"
  shows "\<exists>s'. handle_message msg s = Fine s' \<and> channels_ok s'"
  using assms handleChannelOpen_ok handleChannelRequest_ok handleChannelData_ok closeChannel_ok
  by (auto simp: handle_message_def handleGlobalRequest_def handleChannelClose_def split: option.splits)

subsection \<open>Steps of the shells\<close>

lemma object_update_ok:
  assumes "channels_ok s" "ch_ID ch = ch_ID (gs_heap s ! a)" "channel_fits ch"
    "ch_Closed ch = ch_Closed (gs_heap s ! a)"
  shows "channels_ok (s\<lparr>gs_heap := (gs_heap s)[a := ch]\<rparr>)"
  by (rule channels_ok_update[OF assms(1-3)]) (use assms(4) channels_okD(3)[OF assms(1)] in auto)

lemma signal_close_ok:
  assumes "channels_ok s" "a < length (gs_heap s)" "signal_close a s = Fine s'"
  shows "channels_ok s'" "gs_shells s' = gs_shells s"
proof -
  show "gs_shells s' = gs_shells s" using assms(3) by (auto simp: signal_close_def Let_def split: if_splits)
  show "channels_ok s'"
    using assms(3) channels_ok_fits[OF assms(1,2)]
    by (auto simp: signal_close_def Let_def channel_fits_def intro!: object_update_ok[OF assms(1)] split: if_splits)
qed

lemma shell_ends_ok:
  assumes "channels_ok s" "a < length (gs_heap s)" "shell_ends a s = Fine s'"
  shows "channels_ok s'"
proof -
  obtain s1 where 1: "signal_close a s = Fine s1" using assms(3) by (auto simp: shell_ends_def split: go.splits)
  obtain s2 where 2: "closeChannel (ch_ID (gs_heap s1 ! a)) s1 = Fine s2" "channels_ok s2"
    using closeChannel_ok[OF signal_close_ok(1)[OF assms(1,2) 1]] by blast
  have "s' = s2\<lparr>gs_shells := remove1 a (gs_shells s2)\<rparr>"
    using assms(3) 1 2(1) by (simp add: shell_ends_def)
  then show ?thesis
    by (intro channels_ok_cong[OF _ _ _ 2(2)]) (simp_all add: set_remove1_subset)
qed

lemma terminal_read_ok:
  assumes "channels_ok s" "a < length (gs_heap s)" "terminal_read a n s r s'"
  shows "channels_ok s'"
  using assms(3) channels_ok_fits[OF assms(1,2)] assms(1)
  by cases (auto simp: channel_fits_def intro!: object_update_ok[OF assms(1)])

lemma gstep_ok:
  assumes "channels_ok s" "gstep s (Fine s')"
  shows "channels_ok s'"
  using assms(2)
proof cases
  case (incoming m)
  then show ?thesis using handle_message_ok[OF assms(1), of m] by auto
next
  case (reads a n r)
  then show ?thesis using terminal_read_ok channels_ok_shell assms(1) by blast
next
  case (closes a)
  then show ?thesis
    using signal_close_ok(1)[of "snd (say SSH_MSG_CHANNEL_CLOSE (encodeUint32 (ch_ID (gs_heap s ! a))) s)" a s']
      channels_ok_shell[OF assms(1)] assms(1) by (simp add: terminal_close_def)
next
  case (ends a)
  then show ?thesis using shell_ends_ok channels_ok_shell assms(1) by metis
qed (use assms(1) channels_ok_cong[of s' s] in \<open>auto simp: terminal_write_def\<close>)

lemma running_ok: "running s0 s \<Longrightarrow> channels_ok s0 \<Longrightarrow> channels_ok s"
  by (induction rule: running.induct) (auto intro: gstep_ok)

text \<open>A session as \<open>handleConnection\<close> creates it has no channels.\<close>

definition fresh :: "Session \<Rightarrow> bool" where
  "fresh s \<longleftrightarrow> gs_channels s = (\<lambda>_. None) \<and> gs_heap s = [] \<and> gs_shells s = []"

lemma fresh_ok: "fresh s \<Longrightarrow> channels_ok s"
  by (simp add: fresh_def channels_ok_def)

section \<open>Properties\<close>


subsection \<open>Closing a channel under a shell\<close>

definition channel_close :: "32 word \<Rightarrow> SSHMessage" where
  "channel_close i = \<lparr>Type = SSH_MSG_CHANNEL_CLOSE, Payload = encodeUint32 i\<rparr>"

lemma readUint32_whole [simp]: "readUint32 (encodeUint32 v) = Some (v, [])"
  using readUint32_encodeUint32[of v "[]"] by simp

lemma handle_channel_close:
  assumes "channels_ok s" "gs_channels s i = Some a"
  shows "handle_message (channel_close i) s =
    Fine (s\<lparr>gs_heap := (gs_heap s)[a := (gs_heap s ! a)\<lparr>ch_Closed := True\<rparr>],
            gs_channels := (gs_channels s)(i := None)\<rparr>)"
  using channels_okD(3)[OF assms] assms(2)
  by (simp add: handle_message_def channel_close_def handleChannelClose_def closeChannel_def)

text \<open>A client that closes its channel while the shell runs makes the end of the shell
  panic, outside of any recovery.\<close>

theorem close_under_shell_panics:
  assumes "fresh s0" "running s0 s" "gs_channels s i = Some a" "a \<in> set (gs_shells s)"
  shows "\<exists>s'. handle_message (channel_close i) s = Fine s' \<and> gstep s' Panics"
proof -
  have ok: "channels_ok s" using running_ok[OF assms(2) fresh_ok[OF assms(1)]] .
  define s' where "s' = s\<lparr>gs_heap := (gs_heap s)[a := (gs_heap s ! a)\<lparr>ch_Closed := True\<rparr>],
            gs_channels := (gs_channels s)(i := None)\<rparr>"
  have h: "handle_message (channel_close i) s = Fine s'"
    unfolding s'_def by (rule handle_channel_close[OF ok assms(3)])
  have "shell_ends a s' = Panics"
    using channels_okD(1)[OF ok assms(3)] by (simp add: shell_ends_def signal_close_def s'_def)
  then have "gstep s' Panics"
    using gstep.ends[of a s'] assms(4) by (simp add: s'_def)
  then show ?thesis using h by blast
qed

text \<open>A terminal that closes its connection and then returns blocks the shell for ever:
  the channel is never removed.\<close>

theorem terminal_close_blocks_shell:
  assumes "a < length (gs_heap s)" "terminal_close a s = Fine s'"
  shows "shell_ends a s' = Blocks"
  using assms
  by (auto simp: terminal_close_def signal_close_def shell_ends_def Let_def split: if_splits)

subsection \<open>Refinement: numbered queues\<close>

text \<open>What the messages of the client mean: a session holds one bounded queue of data per
  channel number.  Opening creates an empty queue, also under a number that is in use, data
  beyond 100 waiting pieces is dropped, closing removes the queue.\<close>

type_synonym queues = "32 word \<Rightarrow> string list option"

definition spec_message :: "SSHMessage \<Rightarrow> queues \<Rightarrow> queues" where
  "spec_message msg Q =
     (if Type msg = SSH_MSG_CHANNEL_OPEN then
        (case parse_open (Payload msg) of
           None \<Rightarrow> Q
         | Some (channelType, i, w, m) \<Rightarrow> if channelType = ''session'' then Q(i \<mapsto> []) else Q)
      else if Type msg = SSH_MSG_CHANNEL_DATA then
        (case readUint32 (Payload msg) of
           None \<Rightarrow> Q
         | Some (i, d) \<Rightarrow> (case Q i of
             None \<Rightarrow> Q
           | Some q \<Rightarrow> if d \<noteq> [] \<and> length q < 100 then Q(i \<mapsto> q @ [d]) else Q))
      else if Type msg = SSH_MSG_CHANNEL_CLOSE then
        (case readUint32 (Payload msg) of None \<Rightarrow> Q | Some (i, _) \<Rightarrow> Q(i := None))
      else Q)"

definition queues_of :: "Session \<Rightarrow> queues" where
  "queues_of s i = map_option (\<lambda>a. ch_Data (gs_heap s ! a)) (gs_channels s i)"

lemma queues_of_say [simp]: "queues_of (snd (say t p s)) = queues_of s"
  by (simp add: queues_of_def fun_eq_iff)

lemma queues_of_open:
  assumes "channels_ok s"
  shows "queues_of (s\<lparr>gs_heap := gs_heap s @ [ch], gs_channels := (gs_channels s)(i \<mapsto> length (gs_heap s))\<rparr>) =
         (queues_of s)(i \<mapsto> ch_Data ch)"
proof
  fix j
  show "queues_of (s\<lparr>gs_heap := gs_heap s @ [ch], gs_channels := (gs_channels s)(i \<mapsto> length (gs_heap s))\<rparr>) j =
         ((queues_of s)(i \<mapsto> ch_Data ch)) j"
    using channels_okD(1)[OF assms, of j] by (cases "gs_channels s j") (auto simp: queues_of_def nth_append)
qed

lemma queues_of_data:
  assumes "channels_ok s" "gs_channels s i = Some a"
  shows "queues_of (s\<lparr>gs_heap := (gs_heap s)[a := (gs_heap s ! a)\<lparr>ch_Data := q\<rparr>]\<rparr>) = (queues_of s)(i \<mapsto> q)"
proof
  fix j
  have "gs_channels s j = Some a \<Longrightarrow> j = i"
    using channels_okD(2)[OF assms(1)] channels_okD(2)[OF assms] by blast
  then show "queues_of (s\<lparr>gs_heap := (gs_heap s)[a := (gs_heap s ! a)\<lparr>ch_Data := q\<rparr>]\<rparr>) j = ((queues_of s)(i \<mapsto> q)) j"
    using channels_okD(1)[OF assms] assms(2)
    by (cases "gs_channels s j") (auto simp: queues_of_def nth_list_update)
qed

lemma queues_of_close:
  assumes "channels_ok s" "closeChannel i s = Fine s'"
  shows "queues_of s' = (queues_of s)(i := None)"
proof
  fix j
  show "queues_of s' j = ((queues_of s)(i := None)) j"
    using assms channels_okD(1)[OF assms(1)]
    by (auto simp: closeChannel_def queues_of_def Let_def nth_list_update map_option_case
        split: option.splits if_splits)
qed

lemma handle_message_refines:
  assumes "channels_ok s" "handle_message msg s = Fine s'"
  shows "queues_of s' = spec_message msg (queues_of s)"
proof -
  have request: "queues_of (snd (handleChannelRequest msg s)) = queues_of s"
    by (simp add: queues_of_def fun_eq_iff)
  have opened: "queues_of (snd (handleChannelOpen msg s)) = spec_message msg (queues_of s)"
    if "Type msg = SSH_MSG_CHANNEL_OPEN"
    using that queues_of_open[OF assms(1)]
    by (auto simp: handleChannelOpen_def spec_message_def sends new_channel_def split: option.splits)
  have data: "queues_of s' = spec_message msg (queues_of s)"
    if "Type msg = SSH_MSG_CHANNEL_DATA" "handleChannelData msg s = Fine s'"
    using that queues_of_data[OF assms(1)]
    by (auto simp: handleChannelData_def spec_message_def Let_def Reader_Read_def fill_def queues_of_def
        split: option.splits if_splits)
  have closed: "queues_of s' = spec_message msg (queues_of s)"
    if "Type msg = SSH_MSG_CHANNEL_CLOSE" "handleChannelClose msg s = Fine s'"
    using that queues_of_close[OF assms(1)]
    by (auto simp: handleChannelClose_def spec_message_def split: option.splits)
  show ?thesis
    using assms(2) request opened data closed
    by (auto simp: handle_message_def handleGlobalRequest_def spec_message_def split: if_splits)
qed

subsection \<open>The message loop\<close>

lemma set_size_conn [simp]: "gs_Conn (set_size c r s) = gs_Conn s" by (simp add: set_size_def)

lemma say_in [simp]: "c_in (gs_Conn (snd (say t p s))) = c_in (gs_Conn s)"
  by (simp add: say_def sendSSHMessage_def Conn_Write_def Let_def)

lemma handleShellRequest_in [simp]: "c_in (gs_Conn (snd (handleShellRequest a i w s))) = c_in (gs_Conn s)"
  using say_in[of SSH_MSG_CHANNEL_SUCCESS "encodeUint32 i" s]
  by (cases "say SSH_MSG_CHANNEL_SUCCESS (encodeUint32 i) s") (auto simp: handleShellRequest_def sends split: bool.splits)

lemma handle_message_in:
  "handle_message msg s = Fine s' \<Longrightarrow> c_in (gs_Conn s') = c_in (gs_Conn s)"
proof -
  have 1: "c_in (gs_Conn (snd (handleChannelOpen msg s))) = c_in (gs_Conn s)"
    by (simp add: handleChannelOpen_def sends split: option.splits prod.splits)
  have 2: "c_in (gs_Conn (snd (handleChannelRequest msg s))) = c_in (gs_Conn s)"
    by (simp add: handleChannelRequest_def handlePtyRequest_def handleWindowChange_def sends Let_def
        split: option.splits prod.splits)
  show "handle_message msg s = Fine s' \<Longrightarrow> ?thesis"
    using 1 2 by (auto simp: handle_message_def handleGlobalRequest_def handleChannelData_def handleChannelClose_def
        closeChannel_def Let_def split: if_splits option.splits)
qed

function message_loop :: "(nat \<Rightarrow> bool) \<Rightarrow> nat \<Rightarrow> Session \<Rightarrow> Session go" where
  "message_loop cancelled k s =
     (if cancelled k then Fine s
      else (case readSSHMessage (gs_Conn s) of
          (Inl e, c) \<Rightarrow> Fine (s\<lparr>gs_Conn := c\<rparr>)
        | (Inr msg, c) \<Rightarrow> (case handle_message msg (s\<lparr>gs_Conn := c\<rparr>) of
            Fine s1 \<Rightarrow> message_loop cancelled (Suc k) s1
          | r \<Rightarrow> r)))"
  by pat_completeness auto
termination
proof (relation "measure (\<lambda>(cancelled, k, s). todo s)", goal_cases)
  case (2 cancelled k s r c msg s1)
  then have "pending c + 5 \<le> todo s" by (metis readSSHMessage_pending(2))
  moreover have "todo s1 = pending c" using handle_message_in[of msg "s\<lparr>gs_Conn := c\<rparr>" s1] 2 by (simp add: pending_def)
  ultimately show ?case by simp
qed simp

declare message_loop.simps [simp del]

definition handleSSHMessages :: "(nat \<Rightarrow> bool) \<Rightarrow> Session \<Rightarrow> Session go" where
  "handleSSHMessages cancelled s = message_loop cancelled 0 s"

lemma channels_ok_conn [simp]: "channels_ok (s\<lparr>gs_Conn := c\<rparr>) = channels_ok s"
  by (simp add: channels_ok_def)

lemma queues_of_conn [simp]: "queues_of (s\<lparr>gs_Conn := c\<rparr>) = queues_of s"
  by (simp add: queues_of_def fun_eq_iff)

lemma message_loop_refines:
  assumes "channels_ok s" "concat (c_in (gs_Conn s)) = sent ms" "list_all (\<lambda>m. length (Payload m) \<le> 32767) ms"
    "\<And>k. \<not> cancelled k"
  shows "\<exists>s'. message_loop cancelled k s = Fine s' \<and> channels_ok s' \<and>
           queues_of s' = fold spec_message ms (queues_of s)"
  using assms(1-3)
proof (induction ms arbitrary: k s)
  case Nil
  obtain r c where r: "readSSHMessage (gs_Conn s) = (r, c)" by fastforce
  have "concat (c_in (gs_Conn s)) = []" using Nil(2) by (simp add: sent_def)
  then have "stream_message (concat (c_in (gs_Conn s))) = (Inl ReadFailed, [])"
    by (simp only: stream_message_def) simp
  then have "r = Inl ReadFailed" using readSSHMessage_stream[OF r] by simp
  then show ?case using Nil(1) r assms(4) by (simp add: message_loop.simps[of _ _ s])
next
  case (Cons m ms)
  obtain r c where r: "readSSHMessage (gs_Conn s) = (r, c)" by fastforce
  have "stream_message (concat (c_in (gs_Conn s))) = (Inr m, sent ms)"
    using Cons.prems(2,3) stream_message_framed[of "Payload m" "Type m" "sent ms"] by (simp add: sent_def)
  then have m: "r = Inr m" and c: "concat (c_in c) = sent ms" using readSSHMessage_stream[OF r] by auto
  obtain s1 where h: "handle_message m (s\<lparr>gs_Conn := c\<rparr>) = Fine s1" and ok: "channels_ok s1"
    using handle_message_ok[of "s\<lparr>gs_Conn := c\<rparr>" m] Cons.prems(1) by auto
  have "concat (c_in (gs_Conn s1)) = sent ms" using handle_message_in[OF h] c by simp
  then obtain s' where "message_loop cancelled (Suc k) s1 = Fine s'" "channels_ok s'"
      "queues_of s' = fold spec_message ms (queues_of s1)"
    using Cons.IH[OF ok, of "Suc k"] Cons.prems(3) by auto
  moreover have "queues_of s1 = spec_message m (queues_of s)"
    using handle_message_refines[OF _ h] Cons.prems(1) by simp
  moreover have "message_loop cancelled k s = message_loop cancelled (Suc k) s1"
    using r m h assms(4) by (simp add: message_loop.simps[of _ _ s])
  ultimately show ?case by simp
qed

text \<open>C13: the message loop of a new session implements the numbered queues, in the order of
  the messages, up to the end of the input.\<close>

theorem message_loop_implements_queues:
  assumes "fresh s" "concat (c_in (gs_Conn s)) = sent ms" "list_all (\<lambda>m. length (Payload m) \<le> 32767) ms"
    "\<And>k. \<not> cancelled k"
  shows "\<exists>s'. handleSSHMessages cancelled s = Fine s' \<and> channels_ok s' \<and>
           queues_of s' = fold spec_message ms (\<lambda>_. None)"
proof -
  have "queues_of s = (\<lambda>_. None)" using assms(1) by (simp add: fresh_def queues_of_def fun_eq_iff)
  then show ?thesis
    using message_loop_refines[OF fresh_ok[OF assms(1)] assms(2-4), where k = 0]
    by (simp add: handleSSHMessages_def)
qed

section \<open>The table of sessions\<close>

text \<open>\<open>sv_stopped\<close> are the identifiers of the sessions whose context was cancelled,
  \<open>sv_closed\<close> those whose connection the server closed.\<close>

record server =
  sv_sessions :: "Session list"
  sv_stopped :: "string list"
  sv_closed :: "string list"

definition new_session :: "string \<Rightarrow> conn \<Rightarrow> string \<Rightarrow> time \<Rightarrow> Session" where
  "new_session sessionID conn remoteAddr now = \<lparr> gs_ID = sessionID, gs_Conn = conn,
     gs_SessionInfo = \<lparr> s_SessionID = sessionID, s_UserID = [], s_Username = [], s_ClientIP = remoteAddr, s_HostID = [],
       s_HostName = [], s_HostIP = [], s_HostPort = 0, s_HostUsername = [], s_StartTime = now, s_EndTime = None,
       s_Status = ''connecting'', s_TerminalCols = 0, s_TerminalRows = 0 \<rparr>,
     gs_StartTime = now, gs_LastActive = now, gs_cancelled = False, gs_versionNegotiated = False,
     gs_authenticated = False, gs_username = [], gs_userID = [], gs_encrypted = False,
     gs_clientToServerKey = [], gs_serverToClientKey = [], gs_channels = (\<lambda>_. None), gs_heap = [], gs_shells = [] \<rparr>"

definition registerSession :: "Session \<Rightarrow> server \<Rightarrow> server" where
  "registerSession session sv =
     sv\<lparr>sv_sessions := delete_where (\<lambda>s. gs_ID s = gs_ID session) (sv_sessions sv) @ [session]\<rparr>"

definition unregisterSession :: "string \<Rightarrow> server \<Rightarrow> server" where
  "unregisterSession sessionID sv =
     (if list_ex (\<lambda>s. gs_ID s = sessionID) (sv_sessions sv)
      then sv\<lparr>sv_stopped := sessionID # sv_stopped sv,
              sv_sessions := delete_where (\<lambda>s. gs_ID s = sessionID) (sv_sessions sv)\<rparr>
      else sv)"

definition getSessionCount :: "server \<Rightarrow> int" where
  "getSessionCount sv = int (length (sv_sessions sv))"

definition timed_out :: "Config \<Rightarrow> time \<Rightarrow> Session \<Rightarrow> bool" where
  "timed_out cfg now session \<longleftrightarrow>
     cf_IdleTimeout cfg > 0 \<and> now - gs_LastActive session > cf_IdleTimeout cfg \<or>
     cf_SessionTimeout cfg > 0 \<and> now - gs_StartTime session > cf_SessionTimeout cfg"

definition checkIdleSessions :: "Config \<Rightarrow> time \<Rightarrow> server \<Rightarrow> server" where
  "checkIdleSessions cfg now sv =
     (let over = map gs_ID (filter (timed_out cfg now) (sv_sessions sv))
      in sv\<lparr>sv_sessions := delete_where (timed_out cfg now) (sv_sessions sv),
            sv_stopped := over @ sv_stopped sv, sv_closed := over @ sv_closed sv\<rparr>)"

definition closeAllSessions :: "server \<Rightarrow> server" where
  "closeAllSessions sv = (let all = map gs_ID (sv_sessions sv)
     in sv\<lparr>sv_stopped := all @ sv_stopped sv, sv_closed := all @ sv_closed sv\<rparr>)"

definition forceCloseAllSessions :: "server \<Rightarrow> server" where
  "forceCloseAllSessions sv = (closeAllSessions sv)\<lparr>sv_sessions := []\<rparr>"

text \<open>\<open>Stop\<close> waits for the connections to end and, after five seconds, closes them by force.\<close>

definition Stop_server :: "bool \<Rightarrow> server \<Rightarrow> server" where
  "Stop_server timedOut sv =
     (if timedOut then forceCloseAllSessions (closeAllSessions sv) else closeAllSessions sv)"

definition GetActiveSessions :: "server \<Rightarrow> SessionInfo list" where
  "GetActiveSessions sv = map gs_SessionInfo (sv_sessions sv)"

text \<open>The server accepts connections in one goroutine and registers each session in a
  goroutine of its own: between the two a connection is waiting.\<close>

inductive serving :: "Config \<Rightarrow> server \<Rightarrow> nat \<Rightarrow> bool" for cfg where
  started: "serving cfg \<lparr>sv_sessions = [], sv_stopped = [], sv_closed = []\<rparr> 0"
| accepts: "serving cfg sv w \<Longrightarrow> getSessionCount sv < cf_MaxSessions cfg \<Longrightarrow> serving cfg sv (Suc w)"
| refuses: "serving cfg sv w \<Longrightarrow> getSessionCount sv \<ge> cf_MaxSessions cfg \<Longrightarrow> serving cfg sv w"
| begins: "serving cfg sv (Suc w) \<Longrightarrow> \<not> list_ex (\<lambda>s. gs_ID s = i) (sv_sessions sv) \<Longrightarrow>
     serving cfg (registerSession (new_session i c addr now) sv) w"
| ends: "serving cfg sv w \<Longrightarrow> serving cfg (unregisterSession i sv) w"
| checks: "serving cfg sv w \<Longrightarrow> serving cfg (checkIdleSessions cfg now sv) w"

lemma waiting_unbounded:
  assumes "0 < cf_MaxSessions cfg"
  shows "serving cfg \<lparr>sv_sessions = [], sv_stopped = [], sv_closed = []\<rparr> w"
  by (induction w) (auto intro: serving.intros simp: getSessionCount_def assms)

lemma registered_unbounded:
  assumes "0 < cf_MaxSessions cfg"
  shows "\<exists>sv. serving cfg sv w \<and> length (sv_sessions sv) = n \<and>
           list_all (\<lambda>s. length (gs_ID s) < n) (sv_sessions sv)"
proof (induction n arbitrary: w)
  case 0
  then show ?case using waiting_unbounded[OF assms, of w] by auto
next
  case (Suc n)
  then obtain sv where sv: "serving cfg sv (Suc w)" "length (sv_sessions sv) = n"
    "list_all (\<lambda>s. length (gs_ID s) < n) (sv_sessions sv)" by blast
  define i :: string where "i = replicate n (CHR ''x'')"
  have new: "\<not> list_ex (\<lambda>s. gs_ID s = i) (sv_sessions sv)"
    using sv(3) by (auto simp: list_ex_iff list_all_iff i_def)
  define sv' where "sv' = registerSession (new_session i (wire_conn []) [] 0) sv"
  have "sv_sessions sv' = sv_sessions sv @ [new_session i (wire_conn []) [] 0]"
    using new by (auto simp: sv'_def registerSession_def delete_where_def new_session_def list_ex_iff)
  moreover have "serving cfg sv' w"
    unfolding sv'_def using serving.begins[OF sv(1) new] .
  ultimately show ?case
    using sv(2,3) by (intro exI[of _ sv']) (auto simp: new_session_def i_def list_all_iff)
qed

text \<open>The limit on sessions does not hold: connections accepted in a row are counted only
  when their own goroutine runs, and any number of sessions can be open at once.\<close>

theorem MaxSessions_exceeded:
  assumes "0 < cf_MaxSessions cfg"
  shows "\<exists>sv. serving cfg sv 0 \<and> getSessionCount sv = int n"
  using registered_unbounded[OF assms, of 0 n] by (auto simp: getSessionCount_def)

theorem MaxSessions_exceeded_witness:
  "cf_MaxSessions gateway_config = 10 \<and> (\<exists>sv. serving gateway_config sv 0 \<and> getSessionCount sv = 25)"
  using MaxSessions_exceeded[of gateway_config 25] by (simp add: gateway_config_def)

section \<open>A connection\<close>

definition handleConnection :: "auth_env \<Rightarrow> Config \<Rightarrow> string option \<Rightarrow> (nat \<Rightarrow> bool) \<Rightarrow> Session \<Rightarrow> Session go" where
  "handleConnection E cfg rand_Read cancelled session =
     (case handleSSHHandshake E cfg rand_Read session of
        (Some e, s) \<Rightarrow> Fine s
      | (None, s) \<Rightarrow> handleSSHMessages cancelled s)"

text \<open>What the channel handlers never change.\<close>

definition identity :: "Session \<Rightarrow> bool \<times> string \<times> string \<times> string \<times> string \<times> time \<times> time" where
  "identity s = (gs_authenticated s, gs_username s, gs_userID s, s_UserID (gs_SessionInfo s),
     s_Username (gs_SessionInfo s), gs_StartTime s, gs_LastActive s)"

lemma identity_updates [simp]:
  "identity (s\<lparr>gs_Conn := c\<rparr>) = identity s" "identity (s\<lparr>gs_heap := h\<rparr>) = identity s"
  "identity (s\<lparr>gs_channels := m\<rparr>) = identity s" "identity (s\<lparr>gs_shells := sh\<rparr>) = identity s"
  "identity (s\<lparr>gs_cancelled := b\<rparr>) = identity s"
  "identity (set_size cols rows s) = identity s" "identity (snd (say t p s)) = identity s"
  by (simp_all add: identity_def set_size_def say_def split: prod.splits)

lemma handleShellRequest_identity [simp]: "identity (snd (handleShellRequest a i w s)) = identity s"
  using identity_updates(7)[of SSH_MSG_CHANNEL_SUCCESS "encodeUint32 i" s]
  by (cases "say SSH_MSG_CHANNEL_SUCCESS (encodeUint32 i) s") (auto simp: handleShellRequest_def sends split: bool.splits)

lemma handle_message_identity:
  "handle_message msg s = Fine s' \<Longrightarrow> identity s' = identity s"
proof -
  have 1: "identity (snd (handleChannelOpen msg s)) = identity s"
    by (simp add: handleChannelOpen_def sends split: option.splits prod.splits)
  have 2: "identity (snd (handleChannelRequest msg s)) = identity s"
    by (simp add: handleChannelRequest_def handlePtyRequest_def handleWindowChange_def sends Let_def
        split: option.splits prod.splits)
  show "handle_message msg s = Fine s' \<Longrightarrow> ?thesis"
    using 1 2 by (auto simp: handle_message_def handleGlobalRequest_def handleChannelData_def handleChannelClose_def
        closeChannel_def Let_def split: if_splits option.splits)
qed

lemma message_loop_identity: "message_loop cancelled k s = Fine s' \<Longrightarrow> identity s' = identity s"
proof (induction cancelled k s rule: message_loop.induct)
  case (1 cancelled k s)
  obtain r c where r: "readSSHMessage (gs_Conn s) = (r, c)" by fastforce
  show ?case
  proof (cases "cancelled k \<or> (\<exists>e. r = Inl e)")
    case True
    then show ?thesis using 1(2) r by (auto simp: message_loop.simps[of _ _ s] split: if_splits)
  next
    case False
    then obtain msg where go: "\<not> cancelled k" and m: "r = Inr msg" by (cases r) auto
    then obtain s1 where h: "handle_message msg (s\<lparr>gs_Conn := c\<rparr>) = Fine s1" "message_loop cancelled (Suc k) s1 = Fine s'"
      using 1(2) r by (auto simp: message_loop.simps[of _ _ s] split: go.splits)
    then show ?thesis
      using 1(1)[OF go r[symmetric] m h] handle_message_identity[OF h(1)] by simp
  qed
qed

lemma shell_steps_identity:
  "signal_close a s = Fine s' \<Longrightarrow> identity s' = identity s"
  "closeChannel i s = Fine s' \<Longrightarrow> identity s' = identity s"
  "terminal_read a n s r s' \<Longrightarrow> identity s' = identity s"
  by (auto simp: signal_close_def closeChannel_def Let_def split: if_splits option.splits elim: terminal_read.cases)

lemma gstep_identity: "gstep s (Fine s') \<Longrightarrow> identity s' = identity s"
proof (erule gstep.cases, goal_cases)
  case (1 m)
  then show ?case by (metis handle_message_identity)
next
  case (4 a)
  then show ?case using shell_steps_identity(1)[of a _ s'] by (simp add: terminal_close_def)
next
  case (5 a)
  then show ?case by (auto simp: shell_ends_def dest!: shell_steps_identity(1,2) split: go.splits)
qed (auto dest: shell_steps_identity(3) simp: terminal_write_def)

lemma running_identity: "running s0 s \<Longrightarrow> identity s = identity s0"
  by (induction rule: running.induct) (auto dest: gstep_identity)

lemma proved_identity: "identity s' = identity s \<Longrightarrow> proved E k s' = proved E k s"
  by (simp add: identity_def proved_def)

lemma record_user_heap [simp]: "gs_heap (record_user u s) = gs_heap s"
  by (simp add: record_user_def)

lemma ask_heap: "ask n i s = (r, s') \<Longrightarrow> gs_heap s' = gs_heap s"
  by (auto simp: ask_def split: prod.splits bool.splits sum.splits)

lemma check_credentials_heap: "check_credentials E cfg k u pw s = (r, s') \<Longrightarrow> gs_heap s' = gs_heap s"
  by (auto simp: check_credentials_def dest: ask_heap split: prod.splits sum.splits if_splits)

lemma handleUserAuthRequest_heap:
  assumes "handleUserAuthRequest E cfg k msg s = (r, s')"
  shows "gs_heap s' = gs_heap s"
proof -
  have k: "handleKeyboardInteractiveAuth E cfg k t = (r, s') \<Longrightarrow> gs_heap s' = gs_heap t" for t
    by (fastforce simp: handleKeyboardInteractiveAuth_def dest: ask_heap check_credentials_heap
        split: prod.splits sum.splits if_splits option.splits)
  have p: "handlePasswordAuth E cfg k q t = (r, s') \<Longrightarrow> gs_heap s' = gs_heap t" for q t
    by (fastforce simp: handlePasswordAuth_def dest: check_credentials_heap split: if_splits option.splits)
  show ?thesis using assms k[of "s\<lparr>gs_username := _\<rparr>"] p[of _ "s\<lparr>gs_username := _\<rparr>"]
    by (auto simp: handleUserAuthRequest_def Let_def split: option.splits if_splits)
qed

lemma auth_loop_heap: "auth_loop E cfg k s = (r, s') \<Longrightarrow> gs_heap s' = gs_heap s"
proof (induction E cfg k s rule: auth_loop.induct)
  case (1 E cfg k s)
  obtain m c where m: "readSSHMessage (gs_Conn s) = (m, c)" by fastforce
  show ?case
  proof (cases "ae_done E k \<or> (\<exists>e. m = Inl e)")
    case True
    then show ?thesis using 1(3) m by (auto simp: auth_loop.simps[of _ _ _ s] split: if_splits)
  next
    case False
    then obtain msg where go: "\<not> ae_done E k" and x: "m = Inr msg" by (cases m) auto
    obtain e s1 where h: "handleUserAuthRequest E cfg k msg (s\<lparr>gs_Conn := c\<rparr>) = (e, s1)" by fastforce
    note h1 = handleUserAuthRequest_heap[OF h]
    show ?thesis
      using 1(1)[OF go m[symmetric] x _ h[symmetric]] 1(2)[OF go m[symmetric] x] 1(3) go m x h h1
      by (auto simp: auth_loop.simps[of _ _ _ s] split: if_splits option.splits)
  qed
qed

lemma handleAuthentication_heap: "handleAuthentication E cfg s = (r, s') \<Longrightarrow> gs_heap s' = gs_heap s"
  by (auto simp: handleAuthentication_def Let_def dest!: auth_loop_heap split: if_splits prod.splits bool.splits)

lemma handleAuthentication_proved:
  "handleAuthentication E cfg s = (None, s') \<Longrightarrow> gs_authenticated s' \<and> (\<exists>k. \<not> ae_done E k \<and> proved E k s')"
  by (auto simp: handleAuthentication_def Let_def dest!: auth_loop_proved split: if_splits prod.splits bool.splits)

lemma handshake_heap: "handleSSHHandshake E cfg rand_Read s = (r, s') \<Longrightarrow> gs_heap s' = gs_heap s"
  by (auto simp: handleSSHHandshake_def handleKeyExchange_def dest!: handleAuthentication_heap
      split: prod.splits option.splits)

lemma handshake_proved:
  "handleSSHHandshake E cfg rand_Read s = (None, s') \<Longrightarrow> gs_authenticated s' \<and> (\<exists>k. \<not> ae_done E k \<and> proved E k s')"
  by (auto simp: handleSSHHandshake_def handleKeyExchange_def dest!: handleAuthentication_proved
      split: prod.splits option.splits)

text \<open>A connection gets a channel only after its user was authenticated, and every step of
  its channels keeps that identity.\<close>

theorem channels_need_authentication:
  assumes "handleConnection E cfg rand_Read cancelled (new_session i c addr now) = Fine s'" "gs_heap s' \<noteq> []"
  shows "gs_authenticated s' \<and> (\<exists>k. \<not> ae_done E k \<and> proved E k s')"
proof -
  obtain r s where h: "handleSSHHandshake E cfg rand_Read (new_session i c addr now) = (r, s)" by fastforce
  have "gs_heap s = []" using handshake_heap[OF h] by (simp add: new_session_def)
  then have n: "r = None" "message_loop cancelled 0 s = Fine s'"
    using assms h by (auto simp: handleConnection_def handleSSHMessages_def split: option.splits)
  have "identity s' = identity s" using message_loop_identity[OF n(2)] .
  then show ?thesis
    using handshake_proved[of E cfg rand_Read _ s] h n(1) proved_identity[of s' s] by (auto simp: identity_def)
qed

text \<open>The idle timeout runs from the start of the session: nothing that the client or the
  shell does in between keeps the session from being closed.\<close>

theorem idle_timeout_ignores_activity:
  assumes "running s0 s" "gs_LastActive s0 = t" "cf_IdleTimeout cfg > 0" "now - t > cf_IdleTimeout cfg"
    "s \<in> set (sv_sessions sv)"
  shows "gs_ID s \<in> set (sv_closed (checkIdleSessions cfg now sv)) \<and>
         s \<notin> set (sv_sessions (checkIdleSessions cfg now sv))"
proof -
  have "timed_out cfg now s"
    using running_identity[OF assms(1)] assms(2-4) by (simp add: identity_def timed_out_def)
  then show ?thesis using assms(5) by (simp add: checkIdleSessions_def Let_def delete_where_def)
qed

subsection \<open>A sample session\<close>

definition open_message :: "32 word \<Rightarrow> SSHMessage" where
  "open_message i = \<lparr>Type = SSH_MSG_CHANNEL_OPEN,
     Payload = encodeString ''session'' @ encodeUint32 i @ encodeUint32 65536 @ encodeUint32 32768\<rparr>"

definition shell_message :: "32 word \<Rightarrow> SSHMessage" where
  "shell_message i = \<lparr>Type = SSH_MSG_CHANNEL_REQUEST,
     Payload = encodeUint32 i @ encodeString ''shell'' @ encodeBool True\<rparr>"

definition data_message :: "32 word \<Rightarrow> string \<Rightarrow> SSHMessage" where
  "data_message i d = \<lparr>Type = SSH_MSG_CHANNEL_DATA, Payload = encodeUint32 i @ d\<rparr>"

definition sample_start :: Session where
  "sample_start = new_session ''x'' (wire_conn [sent [open_message 7, data_message 7 ''ls'']]) ''10.1.1.1:5000'' 0"

definition sample_shell :: Session where
  "sample_shell = snd (handleChannelRequest (shell_message 7) (snd (handleChannelOpen (open_message 7) sample_start)))"

lemma sample_fresh: "fresh sample_start"
  by (simp add: fresh_def sample_start_def new_session_def)

lemma sample_running: "running sample_start sample_shell"
proof -
  have "Type (open_message 7) = SSH_MSG_CHANNEL_OPEN" "Type (shell_message 7) = SSH_MSG_CHANNEL_REQUEST"
    by (simp_all add: open_message_def shell_message_def)
  then have "handle_message (open_message 7) sample_start = Fine (snd (handleChannelOpen (open_message 7) sample_start))"
    "handle_message (shell_message 7) (snd (handleChannelOpen (open_message 7) sample_start)) = Fine sample_shell"
    by (simp_all add: handle_message_def sample_shell_def)
  then show ?thesis by (metis running.start running.step gstep.incoming)
qed

lemma sample_shell_state: "gs_channels sample_shell 7 = Some 0" "gs_shells sample_shell = [0]"
  by code_simp+


theorem close_under_shell_panics_witness:
  "\<exists>s'. handle_message (channel_close 7) sample_shell = Fine s' \<and> gstep s' Panics"
  using close_under_shell_panics[OF sample_fresh sample_running, of 7 0] sample_shell_state by simp

theorem terminal_close_blocks_shell_witness:
  "\<exists>s'. terminal_close 0 sample_shell = Fine s' \<and> shell_ends 0 s' = Blocks"
proof -
  have l: "length (gs_heap sample_shell) = 1" by code_simp
  have "(case terminal_close 0 sample_shell of Fine s' \<Rightarrow> True | _ \<Rightarrow> False)" by code_simp
  then obtain s' where "terminal_close 0 sample_shell = Fine s'" by (auto split: go.splits)
  then show ?thesis using terminal_close_blocks_shell[of 0 sample_shell s'] l by simp
qed

theorem message_loop_implements_queues_witness:
  "\<exists>s'. handleSSHMessages (\<lambda>_. False) sample_start = Fine s' \<and> queues_of s' 7 = Some [''ls'']"
proof -
  have l: "list_all (\<lambda>m. length (Payload m) \<le> 32767) [open_message 7, data_message 7 ''ls'']"
    by (simp add: open_message_def data_message_def encodeString_def encodeUint32_def)
  have q: "fold spec_message [open_message 7, data_message 7 ''ls''] (\<lambda>_. None) 7 = Some [''ls'']" by code_simp
  show ?thesis
    using message_loop_implements_queues[OF sample_fresh _ l, of "\<lambda>_. False"] q
    by (auto simp: sample_start_def new_session_def wire_conn_def)
qed

theorem idle_timeout_ignores_activity_witness:
  "''x'' \<in> set (sv_closed (checkIdleSessions (gateway_config\<lparr>cf_IdleTimeout := 60\<rparr>) 61
     \<lparr>sv_sessions = [sample_shell], sv_stopped = [], sv_closed = []\<rparr>))"
proof -
  have i: "gs_ID sample_shell = ''x''" by code_simp
  show ?thesis
    using idle_timeout_ignores_activity[OF sample_running, of 0 "gateway_config\<lparr>cf_IdleTimeout := 60\<rparr>" 61
        "\<lparr>sv_sessions = [sample_shell], sv_stopped = [], sv_closed = []\<rparr>"] i
    by (simp add: sample_start_def new_session_def)
qed

definition sample_client :: conn where
  "sample_client = wire_conn [''SSH-2.0-x'' @ [CHR 0x0A],
     sent [password_request ''ann'' ''secret'', open_message 7, shell_message 7]]"

theorem channels_need_authentication_witness:
  "\<exists>s'. handleConnection gateway_env gateway_config (Some ''key'') (\<lambda>_. False)
       (new_session ''x'' sample_client ''10.1.1.1:5000'' 0) = Fine s' \<and>
     gs_authenticated s' \<and> (\<exists>k. \<not> ae_done gateway_env k \<and> proved gateway_env k s')"
proof -
  have "(case handleConnection gateway_env gateway_config (Some ''key'') (\<lambda>_. False)
       (new_session ''x'' sample_client ''10.1.1.1:5000'' 0) of Fine s' \<Rightarrow> gs_heap s' \<noteq> [] | _ \<Rightarrow> False)"
    by code_simp
  then obtain s' where "handleConnection gateway_env gateway_config (Some ''key'') (\<lambda>_. False)
       (new_session ''x'' sample_client ''10.1.1.1:5000'' 0) = Fine s'" "gs_heap s' \<noteq> []"
    by (auto split: go.splits)
  then show ?thesis using channels_need_authentication by blast
qed

end
