(* ===== verification/Ssh_Auth.thy ===== *)
theory Ssh_Auth
imports Accounts
begin

text \<open>
  The two authenticators of \<open>internal/sshserver/auth\<close>: \<open>ServiceAuthenticator\<close> with its
  history of attempts per address (\<open>authenticator.go\<close>), and \<open>AuthManager\<close>
  (\<open>manager.go\<close>) over the password, public key and second-factor handlers of
  \<open>handler.go\<close>.  Both implement the interface \<open>Authenticator\<close>, stated as a locale.
  A public key is its marshalled bytes; the parser of stored keys is an argument.
\<close>

section \<open>Attempts\<close>

record authAttempt =
  at_method :: string
  at_timestamp :: time
  at_rejected :: bool
  at_shouldTerminate :: bool
  at_failed :: bool

type_synonym attempts = "string \<Rightarrow> authAttempt list option"

definition recordAttemptWithTerminate :: "time \<Rightarrow> string \<Rightarrow> string \<Rightarrow> bool \<Rightarrow> bool \<Rightarrow> bool \<Rightarrow> attempts \<Rightarrow> attempts" where
  "recordAttemptWithTerminate now clientIP m rejected shouldTerminate failed as =
     as(clientIP \<mapsto> (case as clientIP of None \<Rightarrow> [] | Some l \<Rightarrow> l) @
       [\<lparr>at_method = m, at_timestamp = now, at_rejected = rejected, at_shouldTerminate = shouldTerminate,
         at_failed = failed\<rparr>])"

text \<open>The method of the first rejected attempt.\<close>

definition hasRejectedAttempt :: "string \<Rightarrow> attempts \<Rightarrow> string option" where
  "hasRejectedAttempt clientIP as = (case as clientIP of
     None \<Rightarrow> None
   | Some l \<Rightarrow> map_option at_method (first_where at_rejected l))"

definition ShouldTerminateConnection :: "string \<Rightarrow> attempts \<Rightarrow> bool" where
  "ShouldTerminateConnection clientIP as = (case as clientIP of
     None \<Rightarrow> False | Some l \<Rightarrow> list_ex at_shouldTerminate l)"

definition failedCount :: "authAttempt list \<Rightarrow> nat" where
  "failedCount l = length (filter (\<lambda>a. at_failed a \<or> at_rejected a) l)"

definition HasExceededMaxAttempts :: "string \<Rightarrow> nat \<Rightarrow> attempts \<Rightarrow> bool" where
  "HasExceededMaxAttempts clientIP maxAttempts as = (case as clientIP of
     None \<Rightarrow> False | Some l \<Rightarrow> failedCount l \<ge> maxAttempts)"

definition clearAttempts :: "string \<Rightarrow> attempts \<Rightarrow> attempts" where
  "clearAttempts clientIP as = as(clientIP := None)"

text \<open>One tick of the goroutine that forgets old histories.\<close>

definition cleanupExpiredAttempts :: "time \<Rightarrow> attempts \<Rightarrow> attempts" where
  "cleanupExpiredAttempts now as addr = (case as addr of
     None \<Rightarrow> None
   | Some l \<Rightarrow> if l \<noteq> [] \<and> now - at_timestamp (last l) > 5 * minute then None else Some l)"

section \<open>Service authenticator\<close>

record AuthResult =
  ar_Success :: bool
  ar_UserID :: string
  ar_RequiresTwoFactor :: bool

datatype ssh_auth_error =
    TooManyFailures | MethodNotAllowed | SshUserNotFound | PasswordFailed | KeyLoginDisabled | NoStoredKey
  | InvalidKeyFormat | KeyMismatch | UserNotActive | MfaNotEnabled | MfaVerificationFailed

record sauth =
  sa_attempts :: attempts
  sa_db :: adb

definition note_attempt :: "time \<Rightarrow> string \<Rightarrow> string \<Rightarrow> bool \<Rightarrow> bool \<Rightarrow> bool \<Rightarrow> sauth \<Rightarrow> sauth" where
  "note_attempt now clientIP m rejected shouldTerminate failed s =
     s\<lparr>sa_attempts := recordAttemptWithTerminate now clientIP m rejected shouldTerminate failed (sa_attempts s)\<rparr>"

definition login_request :: "string \<Rightarrow> string \<Rightarrow> LoginRequest" where
  "login_request username password =
     \<lparr>lq_Username = username, lq_Password = password, lq_TwoFactorCode = [], lq_BackupCode = []\<rparr>"

definition Service_AuthenticatePassword :: "libs \<Rightarrow> time \<Rightarrow> string \<Rightarrow> string \<Rightarrow> string \<Rightarrow> string \<Rightarrow> sauth \<Rightarrow>
    (ssh_auth_error + AuthResult) \<times> sauth" where
  "Service_AuthenticatePassword L now newID username password clientIP s =
     (if HasExceededMaxAttempts clientIP 3 (sa_attempts s) then (Inl TooManyFailures, s)
      else if ShouldTerminateConnection clientIP (sa_attempts s) then (Inl MethodNotAllowed, s)
      else (case FindUserByUsername L username (sa_db s) of
          None \<Rightarrow> (Inl SshUserNotFound, note_attempt now clientIP ''password'' True False True s)
        | Some user \<Rightarrow>
            (if u_AuthMethod user = ''publickey''
             then (Inl MethodNotAllowed, note_attempt now clientIP ''password'' True True True s)
             else
               (let s1 = (if hasRejectedAttempt clientIP (sa_attempts s) = Some ''publickey''
                          then s\<lparr>sa_attempts := clearAttempts clientIP (sa_attempts s)\<rparr> else s)
                in case Login L now newID (login_request username password) clientIP ''SSH-Client'' (sa_db s1) of
                     (Inl err, db) \<Rightarrow>
                       (Inl PasswordFailed, note_attempt now clientIP ''password'' False False True (s1\<lparr>sa_db := db\<rparr>))
                   | (Inr resp, db) \<Rightarrow>
                       (if lr_RequiresTwoFactor resp
                        then (Inr \<lparr>ar_Success = True, ar_UserID = u_ID (lr_User resp), ar_RequiresTwoFactor = True\<rparr>,
                              s1\<lparr>sa_db := db\<rparr>)
                        else (Inr \<lparr>ar_Success = True, ar_UserID = u_ID (lr_User resp), ar_RequiresTwoFactor = False\<rparr>,
                              s1\<lparr>sa_db := db, sa_attempts := clearAttempts clientIP (sa_attempts s1)\<rparr>))))))"

definition Service_AuthenticatePublicKey :: "libs \<Rightarrow> (string \<Rightarrow> string option) \<Rightarrow> time \<Rightarrow> string \<Rightarrow> string \<Rightarrow> string \<Rightarrow> sauth \<Rightarrow>
    (ssh_auth_error + AuthResult) \<times> sauth" where
  "Service_AuthenticatePublicKey L ParseAuthorizedKey now username key clientIP s =
     (let refuse = (\<lambda>e terminate. (Inl e, note_attempt now clientIP ''publickey'' True terminate True s)) in
      if HasExceededMaxAttempts clientIP 3 (sa_attempts s) then (Inl TooManyFailures, s)
      else (case FindUserByUsername L username (sa_db s) of
          None \<Rightarrow> refuse SshUserNotFound False
        | Some user \<Rightarrow>
            (if u_AuthMethod user = ''password'' then refuse KeyLoginDisabled False
             else (case GetUserPublicKey L username (sa_db s) of
                 Inl err \<Rightarrow> refuse NoStoredKey False
               | Inr stored \<Rightarrow> (case ParseAuthorizedKey stored of
                   None \<Rightarrow> refuse InvalidKeyFormat False
                 | Some userPublicKey \<Rightarrow>
                     (if key \<noteq> userPublicKey then refuse KeyMismatch True
                      else if u_Status user \<noteq> ''active'' then refuse UserNotActive False
                      else if u_TwoFactorEnabled user
                      then (Inr \<lparr>ar_Success = True, ar_UserID = u_ID user, ar_RequiresTwoFactor = True\<rparr>, s)
                      else (Inr \<lparr>ar_Success = True, ar_UserID = u_ID user, ar_RequiresTwoFactor = False\<rparr>,
                            s\<lparr>sa_attempts := clearAttempts clientIP (sa_attempts s)\<rparr>)))))))"

section \<open>Authentication manager\<close>

text \<open>The state of the manager with that of its password handler: the addresses with a failed
  public key, and the attempts of the handler.\<close>

record mauth =
  mg_failedPubkeyAttempts :: "string list"
  mg_attempts :: attempts
  mg_db :: adb

definition Password_CanHandle :: "libs \<Rightarrow> string \<Rightarrow> adb \<Rightarrow> bool option" where
  "Password_CanHandle L username db = (case FindUserByUsername L username db of
     None \<Rightarrow> None
   | Some user \<Rightarrow> Some (u_AuthMethod user = ''password'' \<or> u_AuthMethod user = ''all''))"

definition Password_Authenticate :: "libs \<Rightarrow> time \<Rightarrow> string \<Rightarrow> string \<Rightarrow> string \<Rightarrow> string \<Rightarrow> mauth \<Rightarrow>
    (ssh_auth_error + AuthResult) \<times> mauth" where
  "Password_Authenticate L now newID username password clientIP m =
     (if HasExceededMaxAttempts clientIP 3 (mg_attempts m) then (Inl TooManyFailures, m)
      else (case Login L now newID (login_request username password) clientIP ''SSH-Client'' (mg_db m) of
          (Inl err, db) \<Rightarrow> (Inl PasswordFailed, m\<lparr>mg_db := db,
             mg_attempts := recordAttemptWithTerminate now clientIP ''password'' False False True (mg_attempts m)\<rparr>)
        | (Inr resp, db) \<Rightarrow>
            (if lr_RequiresTwoFactor resp
             then (Inr \<lparr>ar_Success = False, ar_UserID = u_ID (lr_User resp), ar_RequiresTwoFactor = True\<rparr>, m\<lparr>mg_db := db\<rparr>)
             else (Inr \<lparr>ar_Success = True, ar_UserID = u_ID (lr_User resp), ar_RequiresTwoFactor = False\<rparr>, m\<lparr>mg_db := db\<rparr>))))"

definition PublicKey_CanHandle :: "libs \<Rightarrow> string \<Rightarrow> adb \<Rightarrow> bool option" where
  "PublicKey_CanHandle L username db = (case FindUserByUsername L username db of
     None \<Rightarrow> None
   | Some user \<Rightarrow> Some (u_AuthMethod user = ''publickey'' \<or> u_AuthMethod user = ''all''))"

definition PublicKey_Authenticate :: "libs \<Rightarrow> (string \<Rightarrow> string option) \<Rightarrow> string \<Rightarrow> string \<Rightarrow> adb \<Rightarrow>
    ssh_auth_error + AuthResult" where
  "PublicKey_Authenticate L ParseAuthorizedKey username publicKey db = (case FindUserByUsername L username db of
     None \<Rightarrow> Inl SshUserNotFound
   | Some user \<Rightarrow> (case GetUserPublicKey L username db of
       Inl err \<Rightarrow> Inl NoStoredKey
     | Inr stored \<Rightarrow> (case ParseAuthorizedKey stored of
         None \<Rightarrow> Inl InvalidKeyFormat
       | Some userPublicKey \<Rightarrow>
           (if publicKey \<noteq> userPublicKey then Inl KeyMismatch
            else if u_Status user \<noteq> ''active'' then Inl UserNotActive
            else Inr \<lparr>ar_Success = True, ar_UserID = u_ID user, ar_RequiresTwoFactor = False\<rparr>))))"

definition isNumeric :: "string \<Rightarrow> bool" where "isNumeric s = list_all is_digit s"

definition Mfa_Authenticate :: "libs \<Rightarrow> time \<Rightarrow> string \<Rightarrow> string \<Rightarrow> string \<Rightarrow> string \<Rightarrow> adb \<Rightarrow>
    (ssh_auth_error + AuthResult) \<times> adb" where
  "Mfa_Authenticate L now newID username code clientIP db = (case FindUserByUsername L username db of
     None \<Rightarrow> (Inl SshUserNotFound, db)
   | Some user \<Rightarrow>
       (if \<not> u_TwoFactorEnabled user then (Inl MfaNotEnabled, db)
        else (let totp = length code = 6 \<and> isNumeric code in
          case Login L now newID \<lparr>lq_Username = username, lq_Password = [],
              lq_TwoFactorCode = (if totp then code else []), lq_BackupCode = (if totp then [] else code)\<rparr>
              clientIP ''SSH-MFA'' db of
            (Inl err, db1) \<Rightarrow> (Inl MfaVerificationFailed, db1)
          | (Inr resp, db1) \<Rightarrow>
              (Inr \<lparr>ar_Success = True, ar_UserID = u_ID (lr_User resp), ar_RequiresTwoFactor = False\<rparr>, db1))))"

definition Manager_AuthenticatePassword :: "libs \<Rightarrow> time \<Rightarrow> string \<Rightarrow> string \<Rightarrow> string \<Rightarrow> string \<Rightarrow> mauth \<Rightarrow>
    (ssh_auth_error + AuthResult) \<times> mauth" where
  "Manager_AuthenticatePassword L now newID username password clientIP m =
     (if clientIP \<in> set (mg_failedPubkeyAttempts m) then (Inl MethodNotAllowed, m)
      else (case Password_CanHandle L username (mg_db m) of
          None \<Rightarrow> (Inl SshUserNotFound, m)
        | Some False \<Rightarrow> (Inl MethodNotAllowed, m)
        | Some True \<Rightarrow> Password_Authenticate L now newID username password clientIP m))"

definition Manager_AuthenticatePublicKey :: "libs \<Rightarrow> (string \<Rightarrow> string option) \<Rightarrow> string \<Rightarrow> string \<Rightarrow> string \<Rightarrow> mauth \<Rightarrow>
    (ssh_auth_error + AuthResult) \<times> mauth" where
  "Manager_AuthenticatePublicKey L ParseAuthorizedKey username key clientIP m =
     (case PublicKey_CanHandle L username (mg_db m) of
        None \<Rightarrow> (Inl SshUserNotFound, m)
      | Some False \<Rightarrow> (Inl KeyLoginDisabled, m)
      | Some True \<Rightarrow>
          (let result = PublicKey_Authenticate L ParseAuthorizedKey username key (mg_db m)
           in (result,
               if (case result of Inl _ \<Rightarrow> True | Inr r \<Rightarrow> \<not> ar_Success r)
               then m\<lparr>mg_failedPubkeyAttempts := clientIP # mg_failedPubkeyAttempts m\<rparr> else m)))"

definition cleanupFailedAttempts :: "mauth \<Rightarrow> mauth" where
  "cleanupFailedAttempts m = m\<lparr>mg_failedPubkeyAttempts := []\<rparr>"

text \<open>The callbacks of both authenticators keep the identity of a success.\<close>

definition auth_callback :: "string \<Rightarrow> ssh_auth_error + AuthResult \<Rightarrow> (string \<times> string) option" where
  "auth_callback username result = (case result of
     Inl err \<Rightarrow> None
   | Inr r \<Rightarrow> if ar_Success r then Some (ar_UserID r, username) else None)"

section \<open>The interface\<close>

text \<open>What a server may rely on: a success names the account with that user name, which is
  active and whose password, or stored key, was presented, by a method the account
  allows.\<close>

locale authenticator =
  fixes L :: libs
    and parse :: "string \<Rightarrow> string option"
    and accounts :: "'s \<Rightarrow> adb"
    and by_password :: "time \<Rightarrow> string \<Rightarrow> string \<Rightarrow> string \<Rightarrow> string \<Rightarrow> 's \<Rightarrow> (ssh_auth_error + AuthResult) \<times> 's"
    and by_key :: "time \<Rightarrow> string \<Rightarrow> string \<Rightarrow> string \<Rightarrow> 's \<Rightarrow> (ssh_auth_error + AuthResult) \<times> 's"
  assumes password_sound:
    "by_password now newID username pw ip s = (Inr r, s') \<Longrightarrow> ar_Success r \<Longrightarrow>
     \<exists>u. FindUserByUsername L username (accounts s) = Some u \<and> u_Status u = ''active'' \<and>
       CompareHashAndPassword L (u_Password u) pw \<and> \<not> expired now u \<and> u_AuthMethod u \<noteq> ''publickey'' \<and>
       ar_UserID r = u_ID u \<and> (u_TwoFactorEnabled u \<longrightarrow> ar_RequiresTwoFactor r)"
    and key_sound:
    "by_key now username key ip s = (Inr r, s') \<Longrightarrow> ar_Success r \<Longrightarrow>
     \<exists>u. FindUserByUsername L username (accounts s) = Some u \<and> u_Status u = ''active'' \<and>
       u_SSHPublicKey u \<noteq> [] \<and> parse (u_SSHPublicKey u) = Some key \<and> u_AuthMethod u \<noteq> ''password'' \<and>
       ar_UserID r = u_ID u"
begin

lemma methods_exclude:
  assumes "by_password now newID username pw ip s = (Inr r, s')" "ar_Success r"
    "by_key now' username key ip' t = (Inr q, t')" "ar_Success q" "accounts t = accounts s"
  obtains u where "FindUserByUsername L username (accounts s) = Some u"
    "u_AuthMethod u \<noteq> ''publickey''" "u_AuthMethod u \<noteq> ''password''" "ar_UserID r = ar_UserID q"
  using password_sound[OF assms(1,2)] key_sound[OF assms(3,4)] assms(5) by auto

lemma callback_identity:
  assumes "auth_callback username (fst (by_password now newID username pw ip s)) = Some (i, n)"
  shows "n = username \<and> (\<exists>u. FindUserByUsername L username (accounts s) = Some u \<and> u_ID u = i \<and> u_Status u = ''active'')"
proof -
  obtain r s' where r: "by_password now newID username pw ip s = (r, s')" by fastforce
  obtain q where q: "r = Inr q" "ar_Success q" "i = ar_UserID q" "n = username"
    using assms r by (auto simp: auth_callback_def split: sum.splits if_splits)
  have "\<exists>u. FindUserByUsername L username (accounts s) = Some u \<and> u_Status u = ''active'' \<and>
       CompareHashAndPassword L (u_Password u) pw \<and> \<not> expired now u \<and> u_AuthMethod u \<noteq> ''publickey'' \<and>
       ar_UserID q = u_ID u \<and> (u_TwoFactorEnabled u \<longrightarrow> ar_RequiresTwoFactor q)"
    using password_sound[of now newID username pw ip s q s'] r q by simp
  then show ?thesis using q by auto
qed

end

lemma Login_without_code:
  assumes "Login L now newID (login_request username pw) ip agent db = (Inr resp, db')"
  shows "\<exists>u. FindUserByUsername L username db = Some u \<and> u_Status u = ''active'' \<and>
     CompareHashAndPassword L (u_Password u) pw \<and> \<not> expired now u \<and> u_ID (lr_User resp) = u_ID u \<and>
     lr_RequiresTwoFactor resp = u_TwoFactorEnabled u"
proof (cases "auth_method db = ''ldap'' \<or> auth_method db = ''sso''")
  case True
  then show ?thesis using assms Login_other[OF True, of L now newID "login_request username pw" ip agent] by auto
next
  case False
  then show ?thesis
    using assms
    by (auto simp: Login_password login_request_def finish_login_Inr ask_two_factor_def
        dest!: authenticateWithPassword_Inr[THEN iffD1] split: sum.splits if_splits)
qed

lemma GetUserPublicKey_Inr:
  "GetUserPublicKey L username db = Inr k \<Longrightarrow>
     \<exists>u. FindUserByUsername L username db = Some u \<and> k = u_SSHPublicKey u \<and> k \<noteq> [] \<and>
       (u_AuthMethod u = ''publickey'' \<or> u_AuthMethod u = ''both'')"
  by (auto simp: GetUserPublicKey_def split: option.splits if_splits)

interpretation service: authenticator L parse sa_db "Service_AuthenticatePassword L"
  "Service_AuthenticatePublicKey L parse"
proof (unfold_locales, goal_cases)
  case (1 now newID username pw ip s r s')
  then obtain u resp db where u: "FindUserByUsername L username (sa_db s) = Some u" "u_AuthMethod u \<noteq> ''publickey''"
    and "Login L now newID (login_request username pw) ip ''SSH-Client'' (sa_db s) = (Inr resp, db)"
    and "ar_UserID r = u_ID (lr_User resp)" "ar_RequiresTwoFactor r = lr_RequiresTwoFactor resp"
    by (auto simp: Service_AuthenticatePassword_def Let_def split: if_splits option.splits prod.splits sum.splits)
  then show ?case using Login_without_code u by fastforce
next
  case (2 now username key ip s r s')
  then show ?case
    by (auto simp: Service_AuthenticatePublicKey_def Let_def dest!: GetUserPublicKey_Inr
        split: if_splits option.splits sum.splits)
qed

interpretation manager: authenticator L parse mg_db "Manager_AuthenticatePassword L"
  "\<lambda>now. Manager_AuthenticatePublicKey L parse"
proof (unfold_locales, goal_cases)
  case (1 now newID username pw ip m r m')
  then obtain u resp db where u: "FindUserByUsername L username (mg_db m) = Some u" "u_AuthMethod u \<noteq> ''publickey''"
    and "Login L now newID (login_request username pw) ip ''SSH-Client'' (mg_db m) = (Inr resp, db)"
    and "ar_UserID r = u_ID (lr_User resp)" "ar_RequiresTwoFactor r = lr_RequiresTwoFactor resp"
    by (auto simp: Manager_AuthenticatePassword_def Password_CanHandle_def Password_Authenticate_def
        split: if_splits option.splits prod.splits sum.splits bool.splits)
  then show ?case using Login_without_code u by fastforce
next
  case (2 now username key ip m r m')
  then show ?case
    by (auto simp: Manager_AuthenticatePublicKey_def PublicKey_CanHandle_def PublicKey_Authenticate_def Let_def
        dest!: GetUserPublicKey_Inr split: if_splits option.splits sum.splits bool.splits)
qed

section \<open>Limits\<close>

text \<open>The calls a client can cause, and the passing of time.\<close>

datatype auth_call =
    PasswordCall time string string string string
  | KeyCall time string string string
  | CleanupTick time

fun serve_call :: "libs \<Rightarrow> (string \<Rightarrow> string option) \<Rightarrow> auth_call \<Rightarrow> sauth \<Rightarrow> sauth" where
  "serve_call L parse (PasswordCall now newID username pw ip) s =
     snd (Service_AuthenticatePassword L now newID username pw ip s)"
| "serve_call L parse (KeyCall now username key ip) s =
     snd (Service_AuthenticatePublicKey L parse now username key ip s)"
| "serve_call L parse (CleanupTick now) s = s\<lparr>sa_attempts := cleanupExpiredAttempts now (sa_attempts s)\<rparr>"

definition serve_calls :: "libs \<Rightarrow> (string \<Rightarrow> string option) \<Rightarrow> auth_call list \<Rightarrow> sauth \<Rightarrow> sauth" where
  "serve_calls L parse cs s = fold (serve_call L parse) cs s"

definition few :: "attempts \<Rightarrow> bool" where
  "few as \<longleftrightarrow> (\<forall>ip l. as ip = Some l \<longrightarrow> failedCount l \<le> 3)"

lemma failedCount_append [simp]: "failedCount (l @ l') = failedCount l + failedCount l'"
  by (simp add: failedCount_def)

lemma failedCount_Nil [simp]: "failedCount [] = 0" by (simp add: failedCount_def)

lemma failedCount_Cons [simp]: "failedCount (a # l) = (if at_failed a \<or> at_rejected a then Suc (failedCount l) else failedCount l)"
  by (simp add: failedCount_def)

lemma few_clear: "few as \<Longrightarrow> few (clearAttempts ip as)"
  by (simp add: few_def clearAttempts_def)

lemma few_record:
  "few as \<Longrightarrow> \<not> HasExceededMaxAttempts ip 3 as \<Longrightarrow> few (recordAttemptWithTerminate now ip m r t f as)"
  by (auto simp: few_def HasExceededMaxAttempts_def recordAttemptWithTerminate_def not_le split: option.splits)

lemma exceeded_clear: "\<not> HasExceededMaxAttempts ip 3 (clearAttempts ip as)"
  by (simp add: HasExceededMaxAttempts_def clearAttempts_def)

lemma few_cleanup: "few as \<Longrightarrow> few (cleanupExpiredAttempts now as)"
  by (auto simp: few_def cleanupExpiredAttempts_def split: option.splits if_splits)

lemma serve_call_few: "few (sa_attempts s) \<Longrightarrow> few (sa_attempts (serve_call L parse c s))"
  by (cases c)
    (auto simp: Service_AuthenticatePassword_def Service_AuthenticatePublicKey_def note_attempt_def Let_def few_cleanup
      intro!: few_record few_clear exceeded_clear split: option.splits prod.splits sum.splits)

text \<open>At most three failures are ever counted against an address, whatever the clients do,
  and from the third on no password of that address is compared.\<close>

theorem failures_limited:
  assumes "sa_attempts s0 = (\<lambda>_. None)"
  shows "(sa_attempts (serve_calls L parse cs s0) ip = Some l \<longrightarrow> failedCount l \<le> 3) \<and>
    (HasExceededMaxAttempts ip 3 (sa_attempts s) \<longrightarrow>
       Service_AuthenticatePassword L now newID username pw ip s = (Inl TooManyFailures, s))"
proof -
  have "few (sa_attempts s) \<Longrightarrow> few (sa_attempts (serve_calls L parse cs s))" for s
    unfolding serve_calls_def by (induction cs arbitrary: s) (auto intro: serve_call_few)
  from this[of s0] have "few (sa_attempts (serve_calls L parse cs s0))" using assms by (simp add: few_def)
  then show ?thesis by (simp add: few_def Service_AuthenticatePassword_def)
qed

subsection \<open>Resetting the count\<close>

lemma Login_wrong_password:
  assumes "FindUserByUsername L username db = Some u" "\<not> CompareHashAndPassword L (u_Password u) pw"
  shows "\<exists>e. Login L now newID (login_request username pw) ip agent db = (Inl e, db)"
proof (cases "auth_method db = ''ldap'' \<or> auth_method db = ''sso''")
  case True
  then show ?thesis using Login_other by blast
next
  case False
  then show ?thesis using assms by (simp add: Login_password login_request_def authenticateWithPassword_def)
qed

text \<open>A guess preceded by an attempt with a key.\<close>

definition guess :: "string \<Rightarrow> string \<Rightarrow> time \<Rightarrow> string \<Rightarrow> auth_call list" where
  "guess username ip now pw = [KeyCall now username ''key'' ip, PasswordCall now ''id'' username pw ip]"

definition one_failure :: "string \<Rightarrow> sauth \<Rightarrow> bool" where
  "one_failure ip s \<longleftrightarrow> (case sa_attempts s ip of None \<Rightarrow> True
     | Some l \<Rightarrow> (\<exists>a. l = [a] \<and> \<not> at_rejected a \<and> \<not> at_shouldTerminate a))"

lemma guess_step:
  assumes "one_failure ip s" "FindUserByUsername L username (sa_db s) = Some u" "u_AuthMethod u = ''password''"
    "\<not> CompareHashAndPassword L (u_Password u) pw"
  shows "one_failure ip (serve_calls L parse (guess username ip now pw) s)"
    "sa_db (serve_calls L parse (guess username ip now pw) s) = sa_db s"
proof -
  define k where "k = \<lparr>at_method = ''publickey'', at_timestamp = now, at_rejected = True, at_shouldTerminate = False,
         at_failed = True\<rparr>"
  define s1 where "s1 = serve_call L parse (KeyCall now username ''key'' ip) s"
  define l where "l = (case sa_attempts s ip of None \<Rightarrow> [] | Some l \<Rightarrow> l)"
  have l: "failedCount l \<le> 1" "list_all (\<lambda>a. \<not> at_rejected a \<and> \<not> at_shouldTerminate a) l"
    "\<not> HasExceededMaxAttempts ip 3 (sa_attempts s)"
    using assms(1) by (auto simp: one_failure_def l_def HasExceededMaxAttempts_def split: option.splits if_splits)
  then have s1: "s1 = s\<lparr>sa_attempts := (sa_attempts s)(ip \<mapsto> l @ [k])\<rparr>"
    using assms(2,3) by (simp add: s1_def Service_AuthenticatePublicKey_def note_attempt_def
        recordAttemptWithTerminate_def l_def k_def)
  have f: "first_where at_rejected (l @ [k]) = Some k"
    using l(2) by (induction l) (simp_all add: first_where_def k_def)
  have g: "\<not> HasExceededMaxAttempts ip 3 (sa_attempts s1)" "\<not> ShouldTerminateConnection ip (sa_attempts s1)"
    "hasRejectedAttempt ip (sa_attempts s1) = Some ''publickey''"
    using l f by (auto simp: s1 HasExceededMaxAttempts_def ShouldTerminateConnection_def hasRejectedAttempt_def
        list_ex_iff list_all_iff k_def)
  obtain e where "Login L now ''id'' (login_request username pw) ip ''SSH-Client'' (sa_db s) = (Inl e, sa_db s)"
    using Login_wrong_password[OF assms(2,4)] by blast
  then have r: "serve_call L parse (PasswordCall now ''id'' username pw ip) s1 =
      note_attempt now ip ''password'' False False True (s1\<lparr>sa_attempts := clearAttempts ip (sa_attempts s1)\<rparr>)"
    using g assms(2,3) by (simp add: Service_AuthenticatePassword_def s1)
  have c: "serve_calls L parse (guess username ip now pw) s =
      note_attempt now ip ''password'' False False True (s1\<lparr>sa_attempts := clearAttempts ip (sa_attempts s1)\<rparr>)"
    unfolding serve_calls_def guess_def using r by (simp only: fold_simps s1_def id_apply)
  show "one_failure ip (serve_calls L parse (guess username ip now pw) s)"
    "sa_db (serve_calls L parse (guess username ip now pw) s) = sa_db s"
    by (simp_all add: c note_attempt_def recordAttemptWithTerminate_def clearAttempts_def one_failure_def)
      (simp add: s1)
qed

text \<open>A client that offers a key before each guess resets the count of its failures: the
  limit of three does not stop any number of guesses, and the right password is accepted
  after them.\<close>

theorem key_offers_reset_limit:
  assumes "sa_attempts s = (\<lambda>_. None)" "FindUserByUsername L username (sa_db s) = Some u"
    "u_AuthMethod u = ''password''" "list_all (\<lambda>g. \<not> CompareHashAndPassword L (u_Password u) g) guesses"
    "Login L now newID (login_request username pw) ip ''SSH-Client'' (sa_db s) = (Inr resp, db')"
  shows "\<exists>r s'. Service_AuthenticatePassword L now newID username pw ip
      (serve_calls L parse (concat (map (guess username ip now) guesses)) s) = (Inr r, s') \<and> ar_Success r"
proof -
  define s1 where "s1 = serve_calls L parse (concat (map (guess username ip now) guesses)) s"
  have "one_failure ip (serve_calls L parse (concat (map (guess username ip now) gs)) t) \<and>
      sa_db (serve_calls L parse (concat (map (guess username ip now) gs)) t) = sa_db t"
    if "one_failure ip t" "FindUserByUsername L username (sa_db t) = Some u"
      "list_all (\<lambda>g. \<not> CompareHashAndPassword L (u_Password u) g) gs" for gs t
    using that
  proof (induction gs arbitrary: t)
    case (Cons g gs)
    then show ?case
      using guess_step[OF Cons.prems(1,2) assms(3), of g parse now]
        Cons.IH[of "serve_calls L parse (guess username ip now g) t"]
      by (simp add: serve_calls_def)
  qed (simp add: serve_calls_def)
  then have "one_failure ip s1" "sa_db s1 = sa_db s"
    using assms by (simp_all add: s1_def one_failure_def)
  then have "\<not> HasExceededMaxAttempts ip 3 (sa_attempts s1)" "\<not> ShouldTerminateConnection ip (sa_attempts s1)"
    by (auto simp: one_failure_def HasExceededMaxAttempts_def ShouldTerminateConnection_def split: option.splits if_splits)
  then show ?thesis
    using assms(2,3,5) \<open>sa_db s1 = sa_db s\<close> unfolding s1_def[symmetric]
    by (auto simp: Service_AuthenticatePassword_def Let_def)
qed

subsection \<open>Samples\<close>

definition ssh_user :: User where
  "ssh_user = new_user ''u1'' ''ann'' ''terces'' ''a@x'' ''Ann'' ''user'' ''password''"

definition ssh_start :: sauth where
  "ssh_start = \<lparr>sa_attempts = (\<lambda>_. None), sa_db = sample_adb\<lparr>users := [ssh_user]\<rparr>\<rparr>"

definition three_guesses :: "auth_call list" where
  "three_guesses = map (\<lambda>g. PasswordCall 0 ''id'' ''ann'' g ''1.1.1.1:9'') [''a'', ''b'', ''c'']"

lemma three_guesses_counted:
  "map_option failedCount (sa_attempts (serve_calls sample_libs Some three_guesses ssh_start) ''1.1.1.1:9'') = Some 3"
  by code_simp

theorem failures_limited_witness:
  "fst (Service_AuthenticatePassword sample_libs 0 ''id'' ''ann'' ''secret'' ''1.1.1.1:9''
     (serve_calls sample_libs Some three_guesses ssh_start)) = Inl TooManyFailures"
proof -
  define s where "s = serve_calls sample_libs Some three_guesses ssh_start"
  have "HasExceededMaxAttempts ''1.1.1.1:9'' 3 (sa_attempts s)"
    using three_guesses_counted by (auto simp: HasExceededMaxAttempts_def s_def)
  moreover have "sa_attempts ssh_start = (\<lambda>_. None)" by (simp add: ssh_start_def)
  ultimately have "Service_AuthenticatePassword sample_libs 0 ''id'' ''ann'' ''secret'' ''1.1.1.1:9'' s = (Inl TooManyFailures, s)"
    using failures_limited[of ssh_start sample_libs Some "[]" "''1.1.1.1:9''" "[]" s 0 "''id''" "''ann''" "''secret''"] by blast
  then show ?thesis by (simp add: s_def)
qed

theorem key_offers_reset_limit_witness:
  "\<exists>r s'. Service_AuthenticatePassword sample_libs 0 ''id'' ''ann'' ''secret'' ''1.1.1.1:9''
      (serve_calls sample_libs Some (concat (map (guess ''ann'' ''1.1.1.1:9'' 0) [''a'', ''b'', ''c'', ''d'', ''e''])) ssh_start) =
      (Inr r, s') \<and> ar_Success r"
proof -
  have f: "FindUserByUsername sample_libs ''ann'' (sa_db ssh_start) = Some ssh_user" by code_simp
  have "(case fst (Login sample_libs 0 ''id'' (login_request ''ann'' ''secret'') ''1.1.1.1:9'' ''SSH-Client'' (sa_db ssh_start)) of
      Inl _ \<Rightarrow> False | Inr _ \<Rightarrow> True)" by code_simp
  then obtain resp db' where
    l: "Login sample_libs 0 ''id'' (login_request ''ann'' ''secret'') ''1.1.1.1:9'' ''SSH-Client'' (sa_db ssh_start) = (Inr resp, db')"
    by (cases "Login sample_libs 0 ''id'' (login_request ''ann'' ''secret'') ''1.1.1.1:9'' ''SSH-Client'' (sa_db ssh_start)")
       (auto split: sum.splits)
  show ?thesis
    using key_offers_reset_limit[OF _ f _ _ l, where guesses = "[''a'', ''b'', ''c'', ''d'', ''e'']" and parse = Some]
    by (simp add: ssh_start_def ssh_user_def new_user_def sample_libs_def)
qed

section \<open>Methods of the manager\<close>

text \<open>Through the manager only accounts whose method is exactly \<open>publickey\<close> log in with a
  key: the other spellings, \<open>all\<close> in the handlers and \<open>both\<close> in the account service, never
  agree.\<close>

theorem manager_keys_need_publickey:
  assumes "Manager_AuthenticatePublicKey L parse username key ip m = (Inr r, m')"
  shows "\<exists>u. FindUserByUsername L username (mg_db m) = Some u \<and> u_AuthMethod u = ''publickey'' \<and>
           u_Status u = ''active'' \<and> parse (u_SSHPublicKey u) = Some key"
  using assms
  by (auto simp: Manager_AuthenticatePublicKey_def PublicKey_CanHandle_def PublicKey_Authenticate_def Let_def
      dest!: GetUserPublicKey_Inr split: if_splits option.splits sum.splits bool.splits)

definition key_manager :: mauth where
  "key_manager = \<lparr>mg_failedPubkeyAttempts = [], mg_attempts = (\<lambda>_. None),
     mg_db = sample_adb\<lparr>users := [ssh_user\<lparr>u_AuthMethod := ''publickey'', u_SSHPublicKey := ''k''\<rparr>]\<rparr>\<rparr>"

theorem manager_keys_need_publickey_witness:
  "\<exists>u. FindUserByUsername sample_libs ''ann'' (mg_db key_manager) = Some u \<and> u_AuthMethod u = ''publickey'' \<and>
     u_Status u = ''active'' \<and> Some (u_SSHPublicKey u) = Some ''k''"
proof -
  have "(case fst (Manager_AuthenticatePublicKey sample_libs Some ''ann'' ''k'' ''1.1.1.1:9'' key_manager) of
      Inl _ \<Rightarrow> False | Inr _ \<Rightarrow> True)" by code_simp
  then obtain r m' where "Manager_AuthenticatePublicKey sample_libs Some ''ann'' ''k'' ''1.1.1.1:9'' key_manager = (Inr r, m')"
    by (cases "Manager_AuthenticatePublicKey sample_libs Some ''ann'' ''k'' ''1.1.1.1:9'' key_manager") (auto split: sum.splits)
  then show ?thesis by (rule manager_keys_need_publickey)
qed

text \<open>A failed public key blocks every password of the same address until the next
  clean-up.\<close>

theorem failed_key_blocks_password:
  assumes "Manager_AuthenticatePublicKey L parse username key ip m = (Inl e, m')" "e \<noteq> SshUserNotFound" "e \<noteq> KeyLoginDisabled"
  shows "Manager_AuthenticatePassword L now newID other pw ip m' = (Inl MethodNotAllowed, m')"
  using assms
  by (auto simp: Manager_AuthenticatePublicKey_def Manager_AuthenticatePassword_def Let_def
      split: option.splits bool.splits if_splits)

end
