(* ===== verification/Ssh_Server.thy ===== *)
theory Ssh_Server
imports Ssh_Auth Host_Connection
begin

text \<open>
  The SSH server that the program runs, \<open>internal/sshserver/server/server.go\<close>: the password
  and public key callbacks, the session handler with its second factor asked inside the
  session, and the table of sessions with its clean-up.  The transport is a third-party
  library, which calls the callbacks and then the session handler.  The session goes on
  in the terminal of Host_Connection.
\<close>

section \<open>Callbacks\<close>

text \<open>\<open>service\<close> says whether the authenticator offers the account service.\<close>

definition ssh_handlePasswordAuth :: "libs \<Rightarrow> bool \<Rightarrow> string \<Rightarrow> string \<Rightarrow> adb \<Rightarrow> bool" where
  "ssh_handlePasswordAuth L service username password db =
     (service \<and> (case FindUserByUsername L username db of
        None \<Rightarrow> False
      | Some user \<Rightarrow> ValidatePassword L user password = None))"

definition ssh_handlePublicKeyAuth :: "libs \<Rightarrow> (string \<Rightarrow> string option) \<Rightarrow> bool \<Rightarrow> string \<Rightarrow> string \<Rightarrow> string \<Rightarrow> mauth \<Rightarrow> bool \<times> mauth" where
  "ssh_handlePublicKeyAuth L ParseAuthorizedKey service username key remoteAddr m =
     (if \<not> service then (False, m)
      else (case FindUserByUsername L username (mg_db m) of
          None \<Rightarrow> (False, m)
        | Some user \<Rightarrow>
            (if u_AuthMethod user = ''password'' then (False, m)
             else (case Manager_AuthenticatePublicKey L ParseAuthorizedKey username key remoteAddr m of
                 (Inl err, m1) \<Rightarrow> (False, m1)
               | (Inr result, m1) \<Rightarrow> (ar_Success result, m1)))))"

text \<open>The address without its port, as \<open>net.SplitHostPort\<close> takes \<open>host:port\<close> apart; its result,
  or an error, is an argument.\<close>

definition getClientIP :: "(string \<Rightarrow> string option) \<Rightarrow> string \<Rightarrow> string" where
  "getClientIP SplitHostPort remoteAddr = (case SplitHostPort remoteAddr of None \<Rightarrow> remoteAddr | Some host \<Rightarrow> host)"

section \<open>The second factor\<close>

text \<open>Input up to a carriage return or line feed, echoed; \<open>None\<close> when the input ends first.\<close>

fun mfa_line :: "string \<Rightarrow> string \<times> string option" where
  "mfa_line [] = ([], None)"
| "mfa_line (c # cs) =
     (if c = CHR 0x0D \<or> c = CHR 0x0A then ([], Some cs)
      else (case mfa_line cs of (line, rest) \<Rightarrow> (c # line, rest)))"

definition nl :: string where "nl = [CHR 0x0A]"

text \<open>The loop over the attempts that are left, with what is written to the user.\<close>

fun mfa_loop :: "(string \<Rightarrow> bool) \<Rightarrow> nat \<Rightarrow> string \<Rightarrow> bool \<times> string" where
  "mfa_loop valid 0 input = (False, ''MFA verification failed. Connection closed.'' @ nl)"
| "mfa_loop valid (Suc left) input = (case mfa_line input of
     (echo, None) \<Rightarrow> (False, ''Please Enter MFA Code: '' @ echo)
   | (line, Some rest) \<Rightarrow>
       (let code = TrimSpace line; out = ''Please Enter MFA Code: '' @ line @ nl in
        if code = [] then
          (if 0 < left then (case mfa_loop valid left rest of (ok, shown) \<Rightarrow> (ok, out @ shown)) else (False, out))
        else if valid code then (True, out)
        else (case mfa_loop valid left rest of
            (ok, shown) \<Rightarrow> (ok, out @ (if 0 < left then ''Invalid MFA code. Please try again.'' @ nl else []) @ shown))))"

definition performSessionMFA :: "libs \<Rightarrow> time \<Rightarrow> User \<Rightarrow> string \<Rightarrow> bool \<times> string" where
  "performSessionMFA L now user input = mfa_loop (\<lambda>code. validateTwoFactorCode L now user code []) 3 input"

section \<open>Sessions\<close>

datatype session_end = SessionRefused | TerminalFor SessionInfo

definition ssh_session_info :: "string \<Rightarrow> string \<Rightarrow> string \<Rightarrow> string \<Rightarrow> time \<Rightarrow> SessionInfo" where
  "ssh_session_info sessionID userID username remoteAddr now =
     \<lparr> s_SessionID = sessionID, s_UserID = userID, s_Username = username, s_ClientIP = remoteAddr, s_HostID = [],
       s_HostName = [], s_HostIP = [], s_HostPort = 0, s_HostUsername = [], s_StartTime = now, s_EndTime = None,
       s_Status = [], s_TerminalCols = 80, s_TerminalRows = 24 \<rparr>"

text \<open>\<open>permitted\<close> is the user identifier in the permissions of the connection, empty when
  there is none.\<close>

definition session_userID :: "libs \<Rightarrow> bool \<Rightarrow> string \<Rightarrow> string \<Rightarrow> adb \<Rightarrow> string" where
  "session_userID L service permitted username db =
     (if permitted \<noteq> [] then permitted
      else if \<not> service then []
      else (case FindUserByUsername L username db of None \<Rightarrow> [] | Some user \<Rightarrow> u_ID user))"

definition handleSSHSession :: "libs \<Rightarrow> bool \<Rightarrow> time \<Rightarrow> string \<Rightarrow> string \<Rightarrow> string \<Rightarrow> string \<Rightarrow> string \<Rightarrow> adb \<Rightarrow> session_end" where
  "handleSSHSession L service now sessionID permitted username remoteAddr input db =
     (let info = ssh_session_info sessionID (session_userID L service permitted username db) username remoteAddr now in
      if \<not> service then TerminalFor info
      else (case FindUserByUsername L username db of
          None \<Rightarrow> TerminalFor info
        | Some user \<Rightarrow>
            (if globalConfig_enabled db \<and> \<not> u_TwoFactorEnabled user then SessionRefused
             else if u_TwoFactorEnabled user \<and> \<not> fst (performSessionMFA L now user input) then SessionRefused
             else TerminalFor info)))"

text \<open>A connection by password: the callback, the session handler, and the terminal with the
  answers of the menu.\<close>

definition password_session :: "libs \<Rightarrow> bool \<Rightarrow> time \<Rightarrow> string \<Rightarrow> string \<Rightarrow> string \<Rightarrow> string \<Rightarrow> string \<Rightarrow> menu_answer list \<Rightarrow> adb \<Rightarrow> terminal_event list" where
  "password_session L service now sessionID username password remoteAddr input answers db =
     (if \<not> ssh_handlePasswordAuth L service username password db then []
      else (case handleSSHSession L service now sessionID [] username remoteAddr input db of
          SessionRefused \<Rightarrow> []
        | TerminalFor info \<Rightarrow> HandleTerminal answers info))"

subsection \<open>The table\<close>

record ssh_session =
  sx_ID :: string
  sx_SessionInfo :: SessionInfo
  sx_StartTime :: time
  sx_LastActive :: time
  sx_cancelled :: bool

text \<open>A difference of times is cut to the range of a duration.\<close>

definition time_Sub :: "time \<Rightarrow> time \<Rightarrow> time" where
  "time_Sub t u = max (- (2 ^ 63)) (min (2 ^ 63 - 1) (t - u))"

definition new_ssh_session :: "string \<Rightarrow> SessionInfo \<Rightarrow> ssh_session" where
  "new_ssh_session sessionID info =
     \<lparr>sx_ID = sessionID, sx_SessionInfo = info, sx_StartTime = zero_time, sx_LastActive = zero_time, sx_cancelled = False\<rparr>"

record ssh_table =
  tb_sessions :: "ssh_session list"
  tb_cancelled :: "string list"

definition tb_register :: "ssh_session \<Rightarrow> ssh_table \<Rightarrow> ssh_table" where
  "tb_register session t =
     t\<lparr>tb_sessions := delete_where (\<lambda>s. sx_ID s = sx_ID session) (tb_sessions t) @ [session]\<rparr>"

definition tb_unregister :: "string \<Rightarrow> ssh_table \<Rightarrow> ssh_table" where
  "tb_unregister sessionID t =
     (if list_ex (\<lambda>s. sx_ID s = sessionID) (tb_sessions t)
      then t\<lparr>tb_cancelled := sessionID # tb_cancelled t,
             tb_sessions := delete_where (\<lambda>s. sx_ID s = sessionID) (tb_sessions t)\<rparr>
      else t)"

definition tb_count :: "ssh_table \<Rightarrow> nat" where "tb_count t = length (tb_sessions t)"

definition cleanupExpiredSessions :: "time \<Rightarrow> time \<Rightarrow> ssh_table \<Rightarrow> ssh_table" where
  "cleanupExpiredSessions sessionTimeout now t =
     (let over = (\<lambda>s. sessionTimeout > 0 \<and> time_Sub now (sx_StartTime s) > sessionTimeout)
      in t\<lparr>tb_cancelled := map sx_ID (filter over (tb_sessions t)) @ tb_cancelled t,
           tb_sessions := delete_where over (tb_sessions t)\<rparr>)"

definition tb_closeAll :: "ssh_table \<Rightarrow> ssh_table" where
  "tb_closeAll t = t\<lparr>tb_cancelled := map sx_ID (tb_sessions t) @ tb_cancelled t\<rparr>"

text \<open>\<open>Stop\<close> returns after closing the listener of a server that was set up, so the part that
  closes the sessions is reached only without one.\<close>

definition Stop_ssh :: "bool \<Rightarrow> bool \<Rightarrow> ssh_table \<Rightarrow> ssh_table" where
  "Stop_ssh has_server timedOut t =
     (if has_server then t
      else if timedOut then tb_closeAll (tb_closeAll t) else tb_closeAll t)"

section \<open>Properties\<close>

subsection \<open>Attempts at the second factor\<close>

text \<open>The first \<open>n\<close> complete lines of the input.\<close>

fun entered :: "nat \<Rightarrow> string \<Rightarrow> string list" where
  "entered 0 input = []"
| "entered (Suc n) input = (case mfa_line input of
     (line, None) \<Rightarrow> [] | (line, Some rest) \<Rightarrow> line # entered n rest)"

lemma mfa_loop_entered:
  "fst (mfa_loop valid n input) \<longleftrightarrow> list_ex (\<lambda>l. TrimSpace l \<noteq> [] \<and> valid (TrimSpace l)) (entered n input)"
proof (induction n arbitrary: input)
  case (Suc n)
  obtain line r where l: "mfa_line input = (line, r)" by fastforce
  show ?case
  proof (cases r)
    case (Some rest)
    obtain ok shown where m: "mfa_loop valid n rest = (ok, shown)" by fastforce
    have "ok \<longleftrightarrow> list_ex (\<lambda>l. TrimSpace l \<noteq> [] \<and> valid (TrimSpace l)) (entered n rest)"
      using Suc[of rest] m by simp
    moreover have "n = 0 \<Longrightarrow> \<not> ok" using m by auto
    ultimately show ?thesis using l Some m by (auto simp: Let_def)
  qed (simp add: l)
qed simp

text \<open>The second factor of a session is accepted exactly when one of the first three lines
  the user enters is a valid code.\<close>

theorem performSessionMFA_three_lines:
  "fst (performSessionMFA L now user input) \<longleftrightarrow>
     list_ex (\<lambda>l. TrimSpace l \<noteq> [] \<and> totp_Validate L now (u_TwoFactorSecret user) (TrimSpace l)) (entered 3 input)"
  by (simp add: performSessionMFA_def mfa_loop_entered validateTwoFactorCode_def list_ex_iff)

subsection \<open>From the password to the host\<close>

lemma HandleTerminal_connection:
  "Connection evs \<in> set (HandleTerminal answers info) \<Longrightarrow>
     \<exists>host e. MenuHost host e \<in> set answers \<and> evs = fst (handleHostConnection e info host)"
proof (induction answers)
  case (Cons a as)
  show ?case
  proof (cases a)
    case (MenuHost host e)
    obtain es o1 where h: "handleHostConnection e info host = (es, o1)" by fastforce
    have "evs = es \<or> Connection evs \<in> set (HandleTerminal as info)"
      using Cons.prems h by (auto simp: MenuHost split: outcome.splits option.splits)
    then show ?thesis
    proof
      assume "evs = es"
      then show ?thesis using h by (intro exI[of _ host] exI[of _ e]) (simp add: MenuHost)
    qed (use Cons.IH in auto)
  qed (use Cons in auto)
qed simp

lemma handleSSHSession_terminal:
  assumes "handleSSHSession L True now sessionID [] username addr input db = TerminalFor info"
    "FindUserByUsername L username db = Some u"
  shows "s_UserID info = u_ID u" "globalConfig_enabled db \<longrightarrow> u_TwoFactorEnabled u"
    "u_TwoFactorEnabled u \<longrightarrow> fst (performSessionMFA L now u input)"
  using assms by (auto simp: handleSSHSession_def Let_def ssh_session_info_def session_userID_def split: if_splits)


text \<open>When the account cannot be looked up as the session starts, the session goes on to the
  terminal without the checks on the second factor.\<close>

theorem session_without_account_skips_mfa:
  assumes "FindUserByUsername L username db = None"
  shows "\<exists>info. handleSSHSession L service now sessionID permitted username addr input db = TerminalFor info \<and>
           s_UserID info = permitted"
  using assms by (auto simp: handleSSHSession_def ssh_session_info_def session_userID_def Let_def)

subsection \<open>Session timeout\<close>

text \<open>Sessions are registered with a zero start time, so with any session timeout the first
  clean-up cancels and forgets every session.\<close>

theorem first_cleanup_cancels_all:
  assumes "list_all (\<lambda>s. sx_StartTime s = zero_time) (tb_sessions t)" "0 < sessionTimeout"
    "sessionTimeout < 2 ^ 63 - 1" "0 \<le> now"
  shows "tb_sessions (cleanupExpiredSessions sessionTimeout now t) = [] \<and>
         set (map sx_ID (tb_sessions t)) \<subseteq> set (tb_cancelled (cleanupExpiredSessions sessionTimeout now t))"
proof -
  have "time_Sub now zero_time = 2 ^ 63 - 1"
    using assms(4) by (simp add: time_Sub_def zero_time_def second_def)
  then have "filter (\<lambda>s. \<not> (sessionTimeout > 0 \<and> time_Sub now (sx_StartTime s) > sessionTimeout)) (tb_sessions t) = []"
    using assms(1-3) by (simp add: filter_empty_conv list_all_iff)
  then show ?thesis
    using assms(2) by (auto simp: cleanupExpiredSessions_def Let_def delete_where_def filter_empty_conv)
qed

theorem first_cleanup_cancels_all_witness:
  "tb_sessions (cleanupExpiredSessions (24 * hour) (30 * second)
     (tb_register (new_ssh_session ''x'' sample_session) \<lparr>tb_sessions = [], tb_cancelled = []\<rparr>)) = []"
  using first_cleanup_cancels_all[of "tb_register (new_ssh_session ''x'' sample_session) \<lparr>tb_sessions = [], tb_cancelled = []\<rparr>"
      "24 * hour" "30 * second"]
  by (simp add: tb_register_def new_ssh_session_def delete_where_def hour_def minute_def second_def)

theorem session_without_account_skips_mfa_witness:
  "\<exists>info. handleSSHSession sample_libs True 0 ''x'' ''u1'' ''nobody'' ''1.1.1.1:9'' [] sample_adb = TerminalFor info \<and>
     s_UserID info = ''u1''"
proof -
  have "FindUserByUsername sample_libs ''nobody'' sample_adb = None" by code_simp
  then show ?thesis by (rule session_without_account_skips_mfa)
qed

definition dials_as :: "string \<Rightarrow> event \<Rightarrow> bool" where
  "dials_as i ev = (case ev of Dialed ip su \<Rightarrow> su_ID su = i | _ \<Rightarrow> False)"

definition connection_events :: "terminal_event \<Rightarrow> event list" where
  "connection_events ev = (case ev of Connection evs \<Rightarrow> evs | _ \<Rightarrow> [])"

lemma dials_asD: "dials_as i ev \<Longrightarrow> \<exists>ip su. ev = Dialed ip su \<and> su_ID su = i"
  by (cases ev) (simp_all add: dials_as_def)

lemma connection_eventsD: "e \<in> set (connection_events ev) \<Longrightarrow> \<exists>evs. ev = Connection evs \<and> e \<in> set evs"
  by (cases ev) (simp_all add: connection_events_def)


end
