(* ===== verification/Paging.thy ===== *)
theory Paging
imports Go_Numbers
begin

text \<open>
  Pages of a query, as all list requests compute them: an offset \<open>(page-1)*pageSize\<close> in Go's
  64-bit integers, passed to \<open>Offset\<close> and \<open>Limit\<close>.  gorm drops an offset that is not positive.
  The locale \<open>paged\<close> states what a listing promises: the pages of one size, put together, are
  all the rows.  The listings of hosts, sessions and commands are interpretations.
\<close>

definition page_offset :: "int \<Rightarrow> int \<Rightarrow> int" where
  "page_offset page pageSize = int64 ((page - 1) * pageSize)"

definition paginate :: "int \<Rightarrow> int \<Rightarrow> 'r list \<Rightarrow> 'r list" where
  "paginate page pageSize rows = take (nat pageSize) (drop (nat (page_offset page pageSize)) rows)"

text \<open>The bounds that the services put on a page number and a page size.\<close>

definition clamp_page :: "int \<Rightarrow> int" where "clamp_page page = (if page < 1 then 1 else page)"

definition clamp_size :: "int \<Rightarrow> int \<Rightarrow> int" where
  "clamp_size largest pageSize = (if pageSize < 1 \<or> pageSize > largest then 10 else pageSize)"

lemma clamp_size_range: "10 \<le> largest \<Longrightarrow> 1 \<le> clamp_size largest n \<and> clamp_size largest n \<le> largest"
  by (simp add: clamp_size_def)

lemma clamp_id [simp]: "1 \<le> p \<Longrightarrow> clamp_page p = p" "1 \<le> n \<Longrightarrow> n \<le> largest \<Longrightarrow> clamp_size largest n = n"
  by (simp_all add: clamp_page_def clamp_size_def)

lemma paginate_nat:
  assumes "in_int64 (int (k * s))"
  shows "paginate (1 + int k) (int s) rows = take s (drop (k * s) rows)"
proof -
  have "page_offset (1 + int k) (int s) = int (k * s)" using assms by (simp add: page_offset_def)
  then show ?thesis by (simp add: paginate_def nat_mult_distrib)
qed

lemma pages_concat:
  assumes "in_int64 (int (k * s))"
  shows "concat (map (\<lambda>i. paginate (1 + int i) (int s) rows) [0..<k]) = take (k * s) rows"
  using assms
proof (induction k)
  case (Suc k)
  have "0 \<le> int (k * s)" "int (k * s) \<le> int (Suc k * s)" by (simp_all only: of_nat_0_le_iff of_nat_le_iff mult_le_mono1 le_SucI order_refl)
  then have r: "in_int64 (int (k * s))" using Suc.prems unfolding in_int64_def by linarith
  have "take (Suc k * s) rows = take (k * s) rows @ take s (drop (k * s) rows)"
    by (simp only: take_add[symmetric] mult_Suc add.commute)
  then show ?case using Suc.IH[OF r] paginate_nat[OF r] by simp
qed simp

lemma paginate_overflow:
  assumes "page_offset page pageSize \<le> 0"
  shows "paginate page pageSize rows = take (nat pageSize) rows"
  using assms by (simp add: paginate_def)

locale paged =
  fixes find_page :: "int \<Rightarrow> int \<Rightarrow> 'r list \<times> nat"
    and matching :: "'r list"
  assumes find_page: "find_page page pageSize = (paginate page pageSize matching, length matching)"
begin

lemma page_subset: "set (fst (find_page page pageSize)) \<subseteq> set matching"
  by (auto simp: find_page paginate_def dest: in_set_takeD in_set_dropD)

lemma page_length: "length (fst (find_page page pageSize)) \<le> nat pageSize"
  by (simp add: find_page paginate_def)

lemma pages_complete:
  assumes "in_int64 (int (k * s))" "length matching \<le> k * s"
  shows "concat (map (\<lambda>i. fst (find_page (1 + int i) (int s))) [0..<k]) = matching"
  using pages_concat[OF assms(1), of matching] assms(2) by (simp add: find_page)

end

end
