(* ===== verification/Hosts.thy ===== *)
theory Hosts
imports Permissions Paging "HOL-Library.Multiset"
begin

text \<open>
  The host assets: \<open>internal/repository/host_repository.go\<close>, \<open>internal/service/host_service.go\<close>
  and the requests of \<open>internal/api/handler/host_handler.go\<close>, over the table of hosts, the
  login records that the listings read, and the permission tables.  Pattern matching of
  the database (\<open>LIKE\<close>, \<open>JSON_CONTAINS\<close>, \<open>JSON_EXTRACT\<close>) is an argument.
\<close>

section \<open>Tables\<close>

record Host =
  ho_ID :: string
  ho_Name :: string
  ho_IP :: string
  ho_Port :: int
  ho_Status :: string
  ho_OS :: string
  ho_CPU :: string
  ho_Memory :: string
  ho_Tags :: string
  ho_Description :: string
  ho_DeviceType :: string
  ho_ConnectionMode :: string
  ho_ProxyID :: string
  ho_NetworkZone :: string
  ho_LastLoginTime :: "time option"
  ho_LoginCount :: int
  ho_CreatedAt :: time
  ho_UpdatedAt :: time

record LoginRecord =
  lo_ID :: string
  lo_UserID :: string
  lo_HostID :: string
  lo_HostName :: string
  lo_HostIP :: string
  lo_Username :: string
  lo_LoginIP :: string
  lo_LoginTime :: time
  lo_LogoutTime :: "time option"
  lo_Duration :: "int option"
  lo_Status :: string
  lo_SessionID :: string

record hdb =
  hd_hosts :: "Host list"
  hd_logins :: "LoginRecord list"
  hd_perms :: pdb

record sql_match =
  LIKE :: "string \<Rightarrow> string \<Rightarrow> bool"
  JSON_CONTAINS :: "string \<Rightarrow> string \<Rightarrow> bool"
  JSON_EXTRACT_all :: "string \<Rightarrow> string option"

section \<open>Repository\<close>

text \<open>Columns with a default take it when the field is zero.\<close>

definition Host_Create :: "Host \<Rightarrow> Host list \<Rightarrow> Host list option" where
  "Host_Create host t =
     (if ho_ID host \<in> ho_ID ` set t then None
      else Some (t @ [host\<lparr>ho_Port := (if ho_Port host = 0 then 22 else ho_Port host),
        ho_Status := or_default ''unknown'' (ho_Status host),
        ho_DeviceType := or_default ''linux'' (ho_DeviceType host),
        ho_ConnectionMode := or_default ''auto'' (ho_ConnectionMode host)\<rparr>]))"

definition Host_Update :: "Host \<Rightarrow> Host list \<Rightarrow> Host list" where
  "Host_Update host t = update_where (\<lambda>h. ho_ID h = ho_ID host) (\<lambda>_. host) t"

definition Host_Delete :: "string \<Rightarrow> hdb \<Rightarrow> hdb" where
  "Host_Delete i db = db\<lparr>hd_hosts := delete_where (\<lambda>h. ho_ID h = i) (hd_hosts db),
     hd_perms := (hd_perms db)\<lparr>host_group_members := delete_where (\<lambda>(g, h). h = i) (host_group_members (hd_perms db))\<rparr>\<rparr>"

definition Host_FindByID :: "string \<Rightarrow> Host list \<Rightarrow> Host option" where
  "Host_FindByID i t = First ho_ID (\<lambda>h. ho_ID h = i) t"

definition Host_FindByIP :: "string \<Rightarrow> Host list \<Rightarrow> Host option" where
  "Host_FindByIP ip t = First ho_ID (\<lambda>h. ho_IP h = ip) t"

definition around :: "string \<Rightarrow> string" where "around s = ''%'' @ s @ ''%''"

definition host_matches :: "sql_match \<Rightarrow> string \<Rightarrow> string list \<Rightarrow> Host \<Rightarrow> bool" where
  "host_matches M search tags h =
     ((search = [] \<or> LIKE M (ho_Name h) (around search) \<or> LIKE M (ho_IP h) (around search) \<or> LIKE M (ho_OS h) (around search)) \<and>
      list_all (\<lambda>tag. LIKE M (ho_Tags h) (around tag)) tags)"

definition newest :: "Host list \<Rightarrow> Host list" where
  "newest t = sort_key (\<lambda>h. - ho_CreatedAt h) t"

definition matching_hosts :: "sql_match \<Rightarrow> string \<Rightarrow> string list \<Rightarrow> Host list \<Rightarrow> Host list" where
  "matching_hosts M search tags t = newest (filter (host_matches M search tags) t)"

definition Host_FindAll :: "sql_match \<Rightarrow> int \<Rightarrow> int \<Rightarrow> string \<Rightarrow> string list \<Rightarrow> Host list \<Rightarrow> Host list \<times> nat" where
  "Host_FindAll M page pageSize search tags t =
     (paginate page pageSize (matching_hosts M search tags t), length (filter (host_matches M search tags) t))"

definition Host_FindByUser :: "sql_match \<Rightarrow> int \<Rightarrow> int \<Rightarrow> string \<Rightarrow> string list \<Rightarrow> string \<Rightarrow> hdb \<Rightarrow> Host list \<times> nat" where
  "Host_FindByUser M page pageSize search tags userID db =
     (let hostIDs = remdups (map lo_HostID (filter (\<lambda>l. lo_UserID l = userID) (hd_logins db))) in
      if hostIDs = [] then ([], 0)
      else Host_FindAll M page pageSize search tags (filter (\<lambda>h. ho_ID h \<in> set hostIDs) (hd_hosts db)))"

definition CountByStatus :: "Host list \<Rightarrow> nat \<times> nat \<times> nat" where
  "CountByStatus t = (length t, length (filter (\<lambda>h. ho_Status h = ''online'') t),
     length (filter (\<lambda>h. ho_Status h = ''offline'') t))"

definition IncrementLoginCount :: "string \<Rightarrow> Host list \<Rightarrow> Host list" where
  "IncrementLoginCount i t = update_where (\<lambda>h. ho_ID h = i) (\<lambda>h. h\<lparr>ho_LoginCount := ho_LoginCount h + 1\<rparr>) t"

definition UpdateLastLoginTime :: "time \<Rightarrow> string \<Rightarrow> Host list \<Rightarrow> Host list" where
  "UpdateLastLoginTime now i t = update_where (\<lambda>h. ho_ID h = i) (\<lambda>h. h\<lparr>ho_LastLoginTime := Some now\<rparr>) t"

definition Host_UpdateStatus :: "string \<Rightarrow> string \<Rightarrow> Host list \<Rightarrow> Host list" where
  "Host_UpdateStatus i status t = update_where (\<lambda>h. ho_ID h = i) (\<lambda>h. h\<lparr>ho_Status := status\<rparr>) t"

definition user_logins :: "string \<Rightarrow> string \<Rightarrow> LoginRecord list \<Rightarrow> LoginRecord list" where
  "user_logins userID hostID ls = filter (\<lambda>l. lo_UserID l = userID \<and> lo_HostID l = hostID) ls"

definition last_login :: "LoginRecord list \<Rightarrow> time option" where
  "last_login ls = (if ls = [] then None else Some (Max (set (map lo_LoginTime ls))))"

definition GetHostsWithUserLoginCount :: "sql_match \<Rightarrow> int \<Rightarrow> int \<Rightarrow> string \<Rightarrow> string list \<Rightarrow> string \<Rightarrow> hdb \<Rightarrow> Host list \<times> nat" where
  "GetHostsWithUserLoginCount M page pageSize search tags userID db =
     (case Host_FindAll M page pageSize search tags (hd_hosts db) of
        (hs, n) \<Rightarrow>
          (map (\<lambda>h. let ls = user_logins userID (ho_ID h) (hd_logins db)
                    in h\<lparr>ho_LoginCount := int (length ls),
                         ho_LastLoginTime := (case last_login ls of None \<Rightarrow> ho_LastLoginTime h | Some t \<Rightarrow> Some t)\<rparr>) hs, n))"

text \<open>\<open>FindAllWithPagination\<close> searches the description instead of the system, and takes the
  tags as JSON strings.\<close>

definition FindAllWithPagination :: "sql_match \<Rightarrow> int \<Rightarrow> int \<Rightarrow> string \<Rightarrow> string list \<Rightarrow> Host list \<Rightarrow> Host list \<times> nat" where
  "FindAllWithPagination M page pageSize search tags t =
     (let found = filter (\<lambda>h. (search = [] \<or> LIKE M (ho_Name h) (around search) \<or> LIKE M (ho_IP h) (around search) \<or>
              LIKE M (ho_Description h) (around search)) \<and>
            list_all (\<lambda>tag. JSON_CONTAINS M (ho_Tags h) ([CHR 0x22] @ tag @ [CHR 0x22])) tags) t
      in (paginate page pageSize (newest found), length found))"

subsection \<open>Hosts of a user\<close>

text \<open>The rules of the user that are in force, and the hosts of their groups.\<close>

definition rules_in_force :: "time \<Rightarrow> string \<Rightarrow> pdb \<Rightarrow> PermissionRule list" where
  "rules_in_force now userID db =
     filter (\<lambda>r. pr_Enabled r \<and> in_period now r \<and> user_in_rule db userID r) (permission_rules db)"

definition group_hosts :: "pdb \<Rightarrow> PermissionRule \<Rightarrow> string list" where
  "group_hosts db r = concat (map (\<lambda>(rid, gid). if rid = pr_ID r
     then map snd (filter (\<lambda>(g, h). g = gid) (host_group_members db)) else []) (rule_host_groups db))"

text \<open>The listed hosts of a rule: the text that \<open>JSON_EXTRACT(.., '$[*]')\<close> gives for the column is
  one row, scanned into a slice of one string, and loses quotes at its ends.\<close>

definition TrimQuotes :: "string \<Rightarrow> string" where
  "TrimQuotes s = rev (dropWhile (\<lambda>c. c = CHR 0x22) (rev (dropWhile (\<lambda>c. c = CHR 0x22) s)))"

definition extracted_hosts :: "sql_match \<Rightarrow> PermissionRule \<Rightarrow> string list" where
  "extracted_hosts M r =
     (if pr_HostIDs r = [] then []
      else (case JSON_EXTRACT_all M (pr_HostIDs r) of
          None \<Rightarrow> []
        | Some row \<Rightarrow> if TrimQuotes row \<noteq> [] then [TrimQuotes row] else []))"

definition GetAccessibleHostIDsForUser :: "sql_match \<Rightarrow> time \<Rightarrow> string \<Rightarrow> pdb \<Rightarrow> string list" where
  "GetAccessibleHostIDsForUser M now userID db =
     (let rules = rules_in_force now userID db in
      remdups (concat (map (group_hosts db) rules) @ concat (map (extracted_hosts M) rules)))"

definition FindByUserPermissions :: "sql_match \<Rightarrow> time \<Rightarrow> int \<Rightarrow> int \<Rightarrow> string \<Rightarrow> string list \<Rightarrow> string \<Rightarrow> hdb \<Rightarrow> Host list \<times> nat" where
  "FindByUserPermissions M now page pageSize search tags userID db =
     (let hostIDs = GetAccessibleHostIDsForUser M now userID (hd_perms db) in
      if hostIDs = [] then ([], 0)
      else Host_FindAll M page pageSize search tags (filter (\<lambda>h. ho_ID h \<in> set hostIDs) (hd_hosts db)))"

definition CountByStatusForUser :: "sql_match \<Rightarrow> time \<Rightarrow> string \<Rightarrow> hdb \<Rightarrow> nat \<times> nat \<times> nat" where
  "CountByStatusForUser M now userID db =
     (let hostIDs = GetAccessibleHostIDsForUser M now userID (hd_perms db) in
      if hostIDs = [] then (0, 0, 0)
      else CountByStatus (filter (\<lambda>h. ho_ID h \<in> set hostIDs) (hd_hosts db)))"

subsection \<open>Frequent hosts\<close>

text \<open>The exchange sort of the code, by descending key: position \<open>i\<close> is compared with every later
  position.\<close>

definition exchange :: "('a \<Rightarrow> int) \<Rightarrow> nat \<Rightarrow> nat \<Rightarrow> 'a list \<Rightarrow> 'a list" where
  "exchange k i j xs = (if k (xs ! i) < k (xs ! j) then xs[i := xs ! j, j := xs ! i] else xs)"

definition exchange_sort :: "('a \<Rightarrow> int) \<Rightarrow> 'a list \<Rightarrow> 'a list" where
  "exchange_sort k xs = fold (\<lambda>i. fold (exchange k i) [Suc i..<length xs]) [0..<length xs - 1] xs"

record HostLoginStat =
  hs_HostID :: string
  hs_LoginCount :: int
  hs_LastLoginTime :: time

definition login_stats :: "string \<Rightarrow> string list \<Rightarrow> nat \<Rightarrow> LoginRecord list \<Rightarrow> HostLoginStat list" where
  "login_stats userID hostIDs limit logins =
     (let rows = filter (\<lambda>l. lo_UserID l = userID \<and> lo_HostID l \<in> set hostIDs) logins in
      take limit (sort_key (\<lambda>s. - hs_LoginCount s)
        (map (\<lambda>i. \<lparr>hs_HostID = i, hs_LoginCount = int (length (user_logins userID i logins)),
                   hs_LastLoginTime = Max (set (map lo_LoginTime (user_logins userID i logins)))\<rparr>)
             (remdups (map lo_HostID rows)))))"

definition with_stat :: "HostLoginStat list \<Rightarrow> Host \<Rightarrow> Host" where
  "with_stat stats h = (case first_where (\<lambda>s. hs_HostID s = ho_ID h) stats of
     None \<Rightarrow> h | Some s \<Rightarrow> h\<lparr>ho_LoginCount := hs_LoginCount s, ho_LastLoginTime := Some (hs_LastLoginTime s)\<rparr>)"

definition repo_GetUserFrequentHosts :: "sql_match \<Rightarrow> time \<Rightarrow> string \<Rightarrow> nat \<Rightarrow> hdb \<Rightarrow> Host list" where
  "repo_GetUserFrequentHosts M now userID limit db =
     (let accessible = GetAccessibleHostIDsForUser M now userID (hd_perms db);
          stats = login_stats userID accessible limit (hd_logins db)
      in if accessible = [] then []
         else if stats = [] then take limit (newest (filter (\<lambda>h. ho_ID h \<in> set accessible) (hd_hosts db)))
         else exchange_sort ho_LoginCount
           (map (with_stat stats) (filter (\<lambda>h. ho_ID h \<in> hs_HostID ` set stats) (hd_hosts db))))"

section \<open>Service\<close>

definition svc_CreateHost :: "time \<Rightarrow> string \<Rightarrow> Host \<Rightarrow> Host list \<Rightarrow> Host list option" where
  "svc_CreateHost now newID host t = Host_Create (host\<lparr>ho_ID := newID, ho_CreatedAt := now, ho_UpdatedAt := now\<rparr>) t"

definition merge_host :: "time \<Rightarrow> Host \<Rightarrow> Host \<Rightarrow> Host" where
  "merge_host now host existing = existing\<lparr>
     ho_Name := or_default (ho_Name existing) (ho_Name host), ho_IP := or_default (ho_IP existing) (ho_IP host),
     ho_Port := (if ho_Port host \<noteq> 0 then ho_Port host else ho_Port existing),
     ho_Status := or_default (ho_Status existing) (ho_Status host), ho_OS := or_default (ho_OS existing) (ho_OS host),
     ho_CPU := or_default (ho_CPU existing) (ho_CPU host), ho_Memory := or_default (ho_Memory existing) (ho_Memory host),
     ho_Tags := or_default (ho_Tags existing) (ho_Tags host),
     ho_Description := or_default (ho_Description existing) (ho_Description host),
     ho_DeviceType := or_default (ho_DeviceType existing) (ho_DeviceType host),
     ho_ConnectionMode := or_default (ho_ConnectionMode existing) (ho_ConnectionMode host),
     ho_ProxyID := or_default (ho_ProxyID existing) (ho_ProxyID host),
     ho_NetworkZone := or_default (ho_NetworkZone existing) (ho_NetworkZone host), ho_UpdatedAt := now\<rparr>"

definition svc_UpdateHost :: "time \<Rightarrow> string \<Rightarrow> Host \<Rightarrow> Host list \<Rightarrow> Host list option" where
  "svc_UpdateHost now i host t = (case Host_FindByID i t of
     None \<Rightarrow> None | Some existing \<Rightarrow> Some (Host_Update (merge_host now host existing) t))"

definition svc_ListHosts :: "sql_match \<Rightarrow> int \<Rightarrow> int \<Rightarrow> string \<Rightarrow> string list \<Rightarrow> Host list \<Rightarrow> Host list \<times> nat" where
  "svc_ListHosts M page pageSize search tags t =
     Host_FindAll M (clamp_page page) (clamp_size 10000 pageSize) search tags t"

definition ListHostsByUser :: "sql_match \<Rightarrow> int \<Rightarrow> int \<Rightarrow> string \<Rightarrow> string list \<Rightarrow> string \<Rightarrow> hdb \<Rightarrow> Host list \<times> nat" where
  "ListHostsByUser M page pageSize search tags userID db =
     Host_FindByUser M (clamp_page page) (clamp_size 10000 pageSize) search tags userID db"

definition ListHostsByPermissions :: "sql_match \<Rightarrow> time \<Rightarrow> int \<Rightarrow> int \<Rightarrow> string \<Rightarrow> string list \<Rightarrow> string \<Rightarrow> hdb \<Rightarrow> Host list \<times> nat" where
  "ListHostsByPermissions M now page pageSize search tags userID db =
     FindByUserPermissions M now (clamp_page page) (clamp_size 10000 pageSize) search tags userID db"

definition GetUserFrequentHosts :: "sql_match \<Rightarrow> time \<Rightarrow> string \<Rightarrow> int \<Rightarrow> hdb \<Rightarrow> Host list" where
  "GetUserFrequentHosts M now userID limit db =
     repo_GetUserFrequentHosts M now userID (nat (if limit < 1 then 5 else limit)) db"

definition RecordLogin :: "time \<Rightarrow> string \<Rightarrow> Host list \<Rightarrow> Host list" where
  "RecordLogin now i t = UpdateLastLoginTime now i (IncrementLoginCount i t)"

text \<open>\<open>True\<close> for an address that another host has.\<close>

definition CheckIPDuplicate :: "string \<Rightarrow> string \<Rightarrow> Host list \<Rightarrow> bool" where
  "CheckIPDuplicate ip excludeID t = (case Host_FindByIP ip t of
     None \<Rightarrow> False | Some existingHost \<Rightarrow> ho_ID existingHost \<noteq> excludeID)"

section \<open>Requests\<close>

definition device_types :: "string list" where
  "device_types = [''linux'', ''windows'', ''network'', ''vmware'', ''docker'', ''server'', ''switch'', ''router'',
     ''firewall'', ''other'']"

definition ValidateDeviceType :: "Host \<Rightarrow> Host option" where
  "ValidateDeviceType h =
     (if ho_DeviceType h = [] then Some (h\<lparr>ho_DeviceType := ''server''\<rparr>)
      else if ho_DeviceType h \<in> set device_types then Some h else None)"

definition CreateHost :: "time \<Rightarrow> string \<Rightarrow> Host option \<Rightarrow> hdb \<Rightarrow> nat \<times> hdb" where
  "CreateHost now newID body db = (case body of
     None \<Rightarrow> (400, db)
   | Some host \<Rightarrow>
       (if CheckIPDuplicate (ho_IP host) [] (hd_hosts db) then (400, db)
        else (case ValidateDeviceType host of
            None \<Rightarrow> (400, db)
          | Some host \<Rightarrow> (case svc_CreateHost now newID host (hd_hosts db) of
              None \<Rightarrow> (500, db) | Some t \<Rightarrow> (200, db\<lparr>hd_hosts := t\<rparr>)))))"

definition UpdateHost :: "time \<Rightarrow> string \<Rightarrow> Host option \<Rightarrow> hdb \<Rightarrow> nat \<times> hdb" where
  "UpdateHost now i body db = (case body of
     None \<Rightarrow> (400, db)
   | Some host \<Rightarrow>
       (if ho_IP host \<noteq> [] \<and> CheckIPDuplicate (ho_IP host) i (hd_hosts db) then (400, db)
        else if ho_DeviceType host \<noteq> [] \<and> ValidateDeviceType host = None then (400, db)
        else (case svc_UpdateHost now i host (hd_hosts db) of
            None \<Rightarrow> (500, db) | Some t \<Rightarrow> (200, db\<lparr>hd_hosts := t\<rparr>))))"

definition DeleteHost :: "string \<Rightarrow> hdb \<Rightarrow> nat \<times> hdb" where "DeleteHost i db = (200, Host_Delete i db)"

definition GetHost :: "string \<Rightarrow> hdb \<Rightarrow> nat \<times> Host option" where
  "GetHost i db = (case Host_FindByID i (hd_hosts db) of None \<Rightarrow> (404, None) | Some h \<Rightarrow> (200, Some h))"

text \<open>The query parameters as texts; an absent one has its default.\<close>

definition query_int :: "string \<Rightarrow> string option \<Rightarrow> int" where
  "query_int d q = fst (Atoi (case q of None \<Rightarrow> d | Some s \<Rightarrow> s))"

definition ListHosts :: "sql_match \<Rightarrow> time \<Rightarrow> string option \<Rightarrow> string option \<Rightarrow> string \<Rightarrow> string \<Rightarrow> string \<Rightarrow> string \<Rightarrow> hdb \<Rightarrow> Host list \<times> nat" where
  "ListHosts M now page pageSize search tagsStr userID role db =
     (let p = query_int ''1'' page; n = query_int ''10'' pageSize;
          tags = (if tagsStr \<noteq> [] then SplitChar (CHR '','') tagsStr else [])
      in if role = ''admin'' then svc_ListHosts M p n search tags (hd_hosts db)
         else ListHostsByPermissions M now p n search tags userID db)"

section \<open>Properties\<close>

subsection \<open>Listings\<close>

lemma length_newest [simp]: "length (newest t) = length t"
  and set_newest [simp]: "set (newest t) = set t"
  and newest_Nil [simp]: "newest [] = []"
  by (simp_all add: newest_def)

interpretation host_pages: paged "\<lambda>page pageSize. Host_FindAll M page pageSize search tags t" "matching_hosts M search tags t"
  for M search tags t
  by unfold_locales (simp add: Host_FindAll_def matching_hosts_def)

definition host_visible :: "sql_match \<Rightarrow> time \<Rightarrow> string \<Rightarrow> string \<Rightarrow> hdb \<Rightarrow> Host \<Rightarrow> bool" where
  "host_visible M now userID role db h \<longleftrightarrow>
     role = ''admin'' \<or> ho_ID h \<in> set (GetAccessibleHostIDsForUser M now userID (hd_perms db))"

lemma FindByUserPermissions_rows:
  "fst (FindByUserPermissions M now page pageSize search tags userID db) =
     fst (Host_FindAll M page pageSize search tags
       (filter (\<lambda>h. ho_ID h \<in> set (GetAccessibleHostIDsForUser M now userID (hd_perms db))) (hd_hosts db)))"
  by (simp add: FindByUserPermissions_def Let_def Host_FindAll_def matching_hosts_def paginate_def)

lemma ListHosts_rows:
  "fst (ListHosts M now (Some page) (Some pageSize) search tagsStr userID role db) =
     fst (Host_FindAll M (clamp_page (fst (Atoi page))) (clamp_size 10000 (fst (Atoi pageSize))) search
       (if tagsStr \<noteq> [] then SplitChar (CHR '','') tagsStr else []) (filter (host_visible M now userID role db) (hd_hosts db)))"
  by (simp add: ListHosts_def Let_def svc_ListHosts_def ListHostsByPermissions_def FindByUserPermissions_rows
      query_int_def host_visible_def[abs_def])

text \<open>The pages of the host list, read one after the other, are exactly the hosts that the user
  may see and that match, the newest first: an administrator sees all hosts, other users
  those of their rules.\<close>

theorem host_pages_complete:
  fixes M now search tagsStr userID role db s k
  defines "shown \<equiv> matching_hosts M search (if tagsStr \<noteq> [] then SplitChar (CHR '','') tagsStr else [])
      (filter (host_visible M now userID role db) (hd_hosts db))"
  assumes "1 \<le> s" "s \<le> 10000" "length shown \<le> k * s" "in_int64 (int (k * s))" "in_int64 (int k)"
  shows "concat (map (\<lambda>i. fst (ListHosts M now (Some (print_int (1 + int i))) (Some (print_int (int s))) search tagsStr
      userID role db)) [0..<k]) = shown"
proof -
  have page: "clamp_page (fst (Atoi (print_int (1 + int i)))) = 1 + int i" if "i < k" for i
    using that assms(6) by (simp add: in_int64_def)
  have size: "clamp_size 10000 (fst (Atoi (print_int (int s)))) = int s"
    using assms(2,3) by (simp add: in_int64_def)
  have "map (\<lambda>i. fst (ListHosts M now (Some (print_int (1 + int i))) (Some (print_int (int s))) search tagsStr userID role db)) [0..<k] =
    map (\<lambda>i. fst (Host_FindAll M (1 + int i) (int s) search (if tagsStr \<noteq> [] then SplitChar (CHR '','') tagsStr else [])
       (filter (host_visible M now userID role db) (hd_hosts db)))) [0..<k]"
    using page by (auto simp: ListHosts_rows size simp del: Atoi_print_int)
  then show ?thesis unfolding shown_def
    by (simp only: host_pages.pages_complete[OF assms(5) assms(4)[unfolded shown_def]])
qed

subsection \<open>Hosts of a user\<close>

lemma TrimQuotes_bracket: "\<exists>rest. TrimQuotes (CHR ''['' # row) = CHR ''['' # rest"
proof -
  have "\<exists>ys. dropWhile (\<lambda>c. c = CHR 0x22) (xs @ [CHR ''['']) = ys @ [CHR ''['']" for xs
    by (induction xs) auto
  from this[of "rev row"] obtain ys where "dropWhile (\<lambda>c. c = CHR 0x22) (rev row @ [CHR ''['']) = ys @ [CHR ''['']" by blast
  then show ?thesis by (intro exI[of _ "rev ys"]) (simp add: TrimQuotes_def)
qed

lemma set_group_hosts: "h \<in> set (group_hosts db r) \<longleftrightarrow>
    (\<exists>gid. (pr_ID r, gid) \<in> set (rule_host_groups db) \<and> (gid, h) \<in> set (host_group_members db))"
  by (force simp: group_hosts_def split: if_splits)

text \<open>The list of hosts ignores the hosts that a rule names directly.  MySQL's \<open>JSON_EXTRACT\<close> with
  the path \<open>$[*]\<close> answers with the text of an array; a host is listed exactly if a rule in
  force has it in a group, and a host that is only named by a rule, for which the
  permission check succeeds, is not.\<close>

theorem listed_hosts_not_shown:
  assumes "\<And>r. r \<in> set (permission_rules db) \<Longrightarrow> pr_HostIDs r \<noteq> [] \<Longrightarrow>
      \<exists>row. JSON_EXTRACT_all M (pr_HostIDs r) = Some (CHR ''['' # row)"
    and "hd h \<noteq> CHR ''[''"
  shows "h \<in> set (GetAccessibleHostIDsForUser M now userID db) \<longleftrightarrow>
    (\<exists>r \<in> set (permission_rules db). pr_Enabled r \<and> in_period now r \<and> user_in_rule db userID r \<and>
      (\<exists>gid. (pr_ID r, gid) \<in> set (rule_host_groups db) \<and> (gid, h) \<in> set (host_group_members db)))"
proof -
  have "h \<notin> set (extracted_hosts M r)" if r: "r \<in> set (rules_in_force now userID db)" for r
  proof (cases "pr_HostIDs r = []")
    case False
    then obtain row where "JSON_EXTRACT_all M (pr_HostIDs r) = Some (CHR ''['' # row)"
      using assms(1)[of r] r by (auto simp: rules_in_force_def)
    moreover obtain rest where "TrimQuotes (CHR ''['' # row) = CHR ''['' # rest" using TrimQuotes_bracket by blast
    ultimately show ?thesis using assms(2) False by (auto simp: extracted_hosts_def)
  qed (simp add: extracted_hosts_def)
  then have "h \<in> set (GetAccessibleHostIDsForUser M now userID db) \<longleftrightarrow>
      (\<exists>r \<in> set (rules_in_force now userID db). h \<in> set (group_hosts db r))"
    by (auto simp: GetAccessibleHostIDsForUser_def Let_def)
  then show ?thesis by (auto simp: set_group_hosts rules_in_force_def)
qed

subsection \<open>Frequent hosts\<close>

lemma length_exchange [simp]: "length (exchange k i j xs) = length xs"
  by (simp add: exchange_def)

lemma mset_exchange: "i < length xs \<Longrightarrow> j < length xs \<Longrightarrow> mset (exchange k i j xs) = mset xs"
  by (simp add: exchange_def mset_swap)

text \<open>What one run of the inner loop up to \<open>m\<close> has done: the part before \<open>i\<close> stays, position \<open>i\<close> holds
  the greatest element seen, and the elements from \<open>i\<close> on are among those that were there.\<close>

definition inner_done :: "('a \<Rightarrow> int) \<Rightarrow> nat \<Rightarrow> nat \<Rightarrow> 'a list \<Rightarrow> 'a list \<Rightarrow> bool" where
  "inner_done k i m xs ys \<longleftrightarrow> length ys = length xs \<and> mset ys = mset xs \<and> (\<forall>l < i. ys ! l = xs ! l) \<and>
     (\<forall>l. i \<le> l \<and> l < m \<longrightarrow> k (ys ! l) \<le> k (ys ! i)) \<and>
     (\<forall>l. i \<le> l \<and> l < length xs \<longrightarrow> (\<exists>l'. i \<le> l' \<and> l' < length xs \<and> ys ! l = xs ! l'))"

lemma inner_done_exchange:
  assumes "inner_done k i m xs ys" "i < m" "m < length xs"
  shows "inner_done k i (Suc m) xs (exchange k i m ys)"
proof (cases "k (ys ! i) < k (ys ! m)")
  case True
  have len: "length ys = length xs" using assms(1) by (simp add: inner_done_def)
  have ex: "exchange k i m ys = ys[i := ys ! m, m := ys ! i]" using True by (simp add: exchange_def)
  have nth: "exchange k i m ys ! l = (if l = m then ys ! i else if l = i then ys ! m else ys ! l)" if "l < length xs" for l
    using that len assms by (auto simp: ex nth_list_update)
  have "k (exchange k i m ys ! l) \<le> k (exchange k i m ys ! i)" if "i \<le> l" "l < Suc m" for l
    using that True assms by (cases "l < m") (fastforce simp: nth inner_done_def)+
  moreover have "\<exists>l'. i \<le> l' \<and> l' < length xs \<and> exchange k i m ys ! l = xs ! l'" if "i \<le> l" "l < length xs" for l
    using that assms nth[of l] by (auto simp: inner_done_def)
  ultimately show ?thesis
    using assms nth mset_exchange[of i ys m k] by (auto simp: inner_done_def)
next
  case False
  then show ?thesis using assms by (auto simp: inner_done_def exchange_def less_Suc_eq)
qed

lemma inner_loop:
  "i < m \<Longrightarrow> m \<le> length xs \<Longrightarrow> inner_done k i m xs (fold (exchange k i) [Suc i..<m] xs)"
proof (induction m)
  case (Suc m)
  show ?case
  proof (cases "i = m")
    case False
    then show ?thesis using Suc inner_done_exchange[of k i m xs] by simp
  qed (use Suc in \<open>auto simp: inner_done_def le_less_Suc_eq\<close>)
qed simp

text \<open>After \<open>n\<close> runs of the outer loop the first \<open>n\<close> positions are in order, before everything else.\<close>

definition ranked :: "('a \<Rightarrow> int) \<Rightarrow> nat \<Rightarrow> 'a list \<Rightarrow> bool" where
  "ranked k n xs \<longleftrightarrow> (\<forall>i j. i < n \<and> i < j \<and> j < length xs \<longrightarrow> k (xs ! j) \<le> k (xs ! i))"

lemma ranked_inner:
  assumes "ranked k i xs" "i < length xs"
  shows "ranked k (Suc i) (fold (exchange k i) [Suc i..<length xs] xs)" (is "ranked _ _ ?ys")
proof -
  have d: "inner_done k i (length xs) xs ?ys" using inner_loop[of i "length xs" xs k] assms(2) by simp
  have "k (?ys ! b) \<le> k (?ys ! a)" if ab: "a < Suc i" "a < b" "b < length xs" for a b
  proof (cases "a = i")
    case False
    then have a: "?ys ! a = xs ! a" using d ab by (auto simp: inner_done_def)
    obtain b' where "a < b'" "b' < length xs" "?ys ! b = xs ! b'"
      using d ab False by (cases "b < i") (auto simp: inner_done_def, meson ab(3) leI less_SucE order_less_le_trans)
    then show ?thesis using a assms(1) ab False by (auto simp: ranked_def)
  qed (use d ab in \<open>auto simp: inner_done_def\<close>)
  then show ?thesis using d by (auto simp: ranked_def inner_done_def)
qed

lemma outer_loop:
  "n \<le> length xs \<Longrightarrow> (let ys = fold (\<lambda>i. fold (exchange k i) [Suc i..<length xs]) [0..<n] xs
     in ranked k n ys \<and> length ys = length xs \<and> mset ys = mset xs)"
proof (induction n)
  case (Suc n)
  let ?ys = "fold (\<lambda>i. fold (exchange k i) [Suc i..<length xs]) [0..<n] xs"
  have ys: "ranked k n ?ys" "length ?ys = length xs" "mset ?ys = mset xs" using Suc by (simp_all add: Let_def)
  have "inner_done k n (length xs) ?ys (fold (exchange k n) [Suc n..<length xs] ?ys)"
    using inner_loop[of n "length xs" ?ys k] ys Suc.prems by simp
  then show ?case using ranked_inner[of k n ?ys] ys Suc.prems by (simp add: Let_def inner_done_def)
qed (simp add: ranked_def)

lemma exchange_sort_correct:
  "sorted_wrt (\<lambda>x y. k y \<le> k x) (exchange_sort k xs)" "mset (exchange_sort k xs) = mset xs"
proof -
  let ?ys = "exchange_sort k xs"
  have r: "ranked k (length xs - 1) ?ys" "length ?ys = length xs" "mset ?ys = mset xs"
    using outer_loop[of "length xs - 1" xs k] by (simp_all add: Let_def exchange_sort_def)
  then show "sorted_wrt (\<lambda>x y. k y \<le> k x) ?ys" by (auto simp: ranked_def sorted_wrt_iff_nth_less)
  show "mset ?ys = mset xs" by (rule r(3))
qed

text \<open>The frequent hosts of a user who has logged in somewhere are hosts of the user's rules, in
  the order of the user's own logins, each with the number of those logins.\<close>

theorem frequent_hosts_ranked:
  assumes "login_stats userID (GetAccessibleHostIDsForUser M now userID (hd_perms db))
      (nat (if limit < 1 then 5 else limit)) (hd_logins db) \<noteq> []"
  shows "sorted_wrt (\<lambda>g h. ho_LoginCount h \<le> ho_LoginCount g) (GetUserFrequentHosts M now userID limit db) \<and>
    (\<forall>h \<in> set (GetUserFrequentHosts M now userID limit db).
       ho_ID h \<in> set (GetAccessibleHostIDsForUser M now userID (hd_perms db)) \<and>
       ho_LoginCount h = int (length (user_logins userID (ho_ID h) (hd_logins db))))"
proof -
  let ?acc = "GetAccessibleHostIDsForUser M now userID (hd_perms db)"
  let ?n = "nat (if limit < 1 then 5 else limit)"
  let ?stats = "login_stats userID ?acc ?n (hd_logins db)"
  let ?hs = "map (with_stat ?stats) (filter (\<lambda>h. ho_ID h \<in> hs_HostID ` set ?stats) (hd_hosts db))"
  have stat: "hs_HostID s \<in> set ?acc \<and> hs_LoginCount s = int (length (user_logins userID (hs_HostID s) (hd_logins db)))"
    if "s \<in> set ?stats" for s
    using that by (auto simp: login_stats_def Let_def dest!: in_set_takeD)
  have acc: "?acc \<noteq> []" using assms by (auto simp: login_stats_def)
  have F: "GetUserFrequentHosts M now userID limit db = exchange_sort ho_LoginCount ?hs"
    using acc assms unfolding GetUserFrequentHosts_def repo_GetUserFrequentHosts_def Let_def by simp
  have row: "ho_ID h \<in> set ?acc \<and> ho_LoginCount h = int (length (user_logins userID (ho_ID h) (hd_logins db)))"
    if h: "h \<in> set ?hs" for h
  proof -
    obtain g where g: "h = with_stat ?stats g" "ho_ID g \<in> hs_HostID ` set ?stats" using h by auto
    then obtain s where "first_where (\<lambda>s. hs_HostID s = ho_ID g) ?stats = Some s"
      by (cases "first_where (\<lambda>s. hs_HostID s = ho_ID g) ?stats") (auto simp: first_where_None)
    then show ?thesis using first_where_SomeD[of "\<lambda>s. hs_HostID s = ho_ID g" ?stats s] stat[of s] g
      by (auto simp: with_stat_def)
  qed
  have "set (exchange_sort ho_LoginCount ?hs) = set ?hs" by (rule mset_eq_setD[OF exchange_sort_correct(2)])
  then show ?thesis unfolding F using row exchange_sort_correct(1)[of ho_LoginCount ?hs] by simp
qed

subsection \<open>Host requests\<close>

definition hosts_ok :: "Host list \<Rightarrow> bool" where
  "hosts_ok t \<longleftrightarrow> distinct (map ho_ID t) \<and> distinct (map ho_IP t) \<and> [] \<notin> ho_ID ` set t \<and>
     (\<forall>h \<in> set t. ho_DeviceType h \<in> set device_types)"

lemma CheckIPDuplicate_free: "\<not> CheckIPDuplicate ip i t \<Longrightarrow> [] \<notin> ho_ID ` set t \<Longrightarrow>
    distinct (map ho_IP t) \<Longrightarrow> h \<in> set t \<Longrightarrow> ho_IP h = ip \<Longrightarrow> ho_ID h = i"
proof -
  assume a: "\<not> CheckIPDuplicate ip i t" "distinct (map ho_IP t)" "h \<in> set t" "ho_IP h = ip"
  obtain g where g: "Host_FindByIP ip t = Some g"
    using a(3,4) by (cases "Host_FindByIP ip t") (auto simp: Host_FindByIP_def First_None)
  then have "g \<in> set t" "ho_IP g = ip" using First_SomeD[of ho_ID "\<lambda>h. ho_IP h = ip" t g] by (simp_all add: Host_FindByIP_def)
  then have "g = h" using a by (auto simp: distinct_map inj_on_def)
  then show "ho_ID h = i" using a(1) g by (simp add: CheckIPDuplicate_def)
qed

lemma hosts_ok_CreateHost:
  assumes "hosts_ok (hd_hosts db)" "newID \<noteq> []"
  shows "hosts_ok (hd_hosts (snd (CreateHost now newID body db)))"
proof (cases body)
  case (Some host)
  have free: "ho_IP host \<notin> ho_IP ` set (hd_hosts db)" if "\<not> CheckIPDuplicate (ho_IP host) [] (hd_hosts db)"
    using CheckIPDuplicate_free[OF that] assms(1) by (fastforce simp: hosts_ok_def image_iff)
  show ?thesis
    using assms Some free
    by (auto simp: CreateHost_def ValidateDeviceType_def svc_CreateHost_def Host_Create_def hosts_ok_def or_default_def
        device_types_def split: option.splits if_splits)
qed (use assms in \<open>simp add: CreateHost_def\<close>)

lemma hosts_ok_UpdateHost:
  assumes "hosts_ok (hd_hosts db)"
  shows "hosts_ok (hd_hosts (snd (UpdateHost now i body db)))"
proof -
  have "hosts_ok (Host_Update (merge_host now host old) (hd_hosts db))"
    if old: "Host_FindByID i (hd_hosts db) = Some old"
      and ip: "\<not> (ho_IP host \<noteq> [] \<and> CheckIPDuplicate (ho_IP host) i (hd_hosts db))"
      and dev: "\<not> (ho_DeviceType host \<noteq> [] \<and> ValidateDeviceType host = None)" for host old
  proof -
    let ?t = "hd_hosts db" and ?n = "merge_host now host old"
    have o: "old \<in> set ?t" "ho_ID old = i"
      using First_SomeD[of ho_ID "\<lambda>h. ho_ID h = i" ?t old] old by (simp_all add: Host_FindByID_def)
    have id: "ho_ID ?n = i" using o by (simp add: merge_host_def)
    have ipn: "ho_IP h \<noteq> ho_IP ?n" if "h \<in> set ?t" "ho_ID h \<noteq> i" for h
    proof (cases "ho_IP host = []")
      case True
      then show ?thesis using that o assms by (auto simp: merge_host_def or_default_def hosts_ok_def distinct_map inj_on_def)
    next
      case False
      then show ?thesis using that ip CheckIPDuplicate_free[of "ho_IP host" i ?t h] assms
        by (auto simp: merge_host_def or_default_def hosts_ok_def)
    qed
    have "distinct (map ho_IP (Host_Update ?n ?t))"
      using distinct_update_row[of ho_ID ?t ho_IP ?n] ipn assms id by (auto simp: Host_Update_def hosts_ok_def)
    moreover have "map ho_ID (Host_Update ?n ?t) = map ho_ID ?t"
      using id by (auto simp: Host_Update_def update_where_def)
    moreover have "ho_DeviceType ?n \<in> set device_types"
      using o dev assms by (auto simp: merge_host_def or_default_def ValidateDeviceType_def hosts_ok_def split: if_splits)
    moreover have "h = ?n \<or> h \<in> set ?t" if "h \<in> set (Host_Update ?n ?t)" for h
      using that by (auto simp: Host_Update_def set_update_where split: if_splits)
    ultimately show ?thesis using assms unfolding hosts_ok_def by (metis set_map)
  qed
  then show ?thesis using assms by (auto simp: UpdateHost_def svc_UpdateHost_def split: option.splits)
qed

datatype host_request = HostCreate time string "Host option" | HostUpdate time string "Host option" | HostDelete string

fun host_step :: "host_request \<Rightarrow> hdb \<Rightarrow> hdb" where
  "host_step (HostCreate now newID body) db = snd (CreateHost now newID body db)"
| "host_step (HostUpdate now i body) db = snd (UpdateHost now i body db)"
| "host_step (HostDelete i) db = snd (DeleteHost i db)"

definition fresh_id :: "host_request \<Rightarrow> bool" where
  "fresh_id r = (case r of HostCreate now newID body \<Rightarrow> newID \<noteq> [] | _ \<Rightarrow> True)"

lemma hosts_ok_step: "hosts_ok (hd_hosts db) \<Longrightarrow> fresh_id r \<Longrightarrow> hosts_ok (hd_hosts (host_step r db))"
proof (cases r)
  case (HostDelete i)
  assume "hosts_ok (hd_hosts db)"
  then show ?thesis using HostDelete
    by (auto simp: DeleteHost_def Host_Delete_def hosts_ok_def delete_where_def distinct_map_filter)
qed (auto simp: fresh_id_def intro: hosts_ok_CreateHost hosts_ok_UpdateHost)

text \<open>Whatever hosts are created, changed and deleted, no two hosts share an identifier or an
  address, and every host has one of the device types.\<close>

theorem host_requests_keep_hosts_ok:
  assumes "hosts_ok (hd_hosts db)" "\<forall>r \<in> set rs. fresh_id r"
  shows "hosts_ok (hd_hosts (fold host_step rs db))"
  using assms by (induction rs arbitrary: db) (auto intro: hosts_ok_step)

subsection \<open>An instance\<close>

definition no_like :: sql_match where
  "no_like = \<lparr>LIKE = (\<lambda>c p. p = around c), JSON_CONTAINS = (\<lambda>c v. False),
     JSON_EXTRACT_all = (\<lambda>c. if c = [] then None else Some (CHR ''['' # tl c))\<rparr>"

definition blank_host :: Host where
  "blank_host = \<lparr>ho_ID = [], ho_Name = [], ho_IP = [], ho_Port = 0, ho_Status = [], ho_OS = [], ho_CPU = [], ho_Memory = [],
     ho_Tags = [], ho_Description = [], ho_DeviceType = [], ho_ConnectionMode = [], ho_ProxyID = [], ho_NetworkZone = [],
     ho_LastLoginTime = None, ho_LoginCount = 0, ho_CreatedAt = 0, ho_UpdatedAt = 0\<rparr>"

definition host_requests :: "host_request list" where
  "host_requests = [HostCreate 1 ''h1'' (Some (blank_host\<lparr>ho_Name := ''a'', ho_IP := ''10.0.0.1''\<rparr>)),
     HostCreate 2 ''h2'' (Some (blank_host\<lparr>ho_Name := ''b'', ho_IP := ''10.0.0.1''\<rparr>)),
     HostCreate 3 ''h3'' (Some (blank_host\<lparr>ho_Name := ''c'', ho_IP := ''10.0.0.3''\<rparr>)),
     HostUpdate 4 ''h3'' (Some (blank_host\<lparr>ho_IP := ''10.0.0.1''\<rparr>))]"

definition login_of :: "string \<Rightarrow> time \<Rightarrow> LoginRecord" where
  "login_of i t = \<lparr>lo_ID = [], lo_UserID = ''u1'', lo_HostID = i, lo_HostName = [], lo_HostIP = [], lo_Username = [],
     lo_LoginIP = [], lo_LoginTime = t, lo_LogoutTime = None, lo_Duration = None, lo_Status = ''active'', lo_SessionID = []\<rparr>"

definition host_perms :: pdb where
  "host_perms = \<lparr>system_users = [], user_groups = [\<lparr>ug_ID = ''g'', ug_Name = [],
       ug_Description = [], ug_Color = [], ug_Icon = [], ug_Priority = 0, ug_Status = ''active'', ug_CreatedBy = [], ug_CreatedAt = 0\<rparr>],
     host_groups = [\<lparr>hg_ID = ''hg'', hg_Name = [],
       hg_Description = [], hg_Color = [], hg_Icon = [], hg_SortOrder = 0, hg_CreatedBy = [], hg_CreatedAt = 0\<rparr>], user_group_members = [(''g'', ''u1'')],
     host_group_members = [(''hg'', ''h1''), (''hg'', ''h3'')],
     permission_rules = [\<lparr>pr_ID = ''r'', pr_Name = [], pr_UserGroupID = ''g'', pr_HostGroupID = None,
       pr_HostIDs = MarshalStrings [''h2''], pr_SystemUserID = None, pr_ValidFrom = None, pr_ValidTo = None,
       pr_Enabled = True, pr_Priority = 0, pr_Description = [], pr_CreatedBy = [], pr_CreatedAt = 0\<rparr>],
     rule_system_users = [], rule_host_groups = [(''r'', ''hg'')]\<rparr>"

definition empty_hosts :: hdb where
  "empty_hosts = \<lparr>hd_hosts = [], hd_logins = [login_of ''h1'' 1, login_of ''h3'' 2, login_of ''h3'' 3], hd_perms = host_perms\<rparr>"

definition host_table :: hdb where "host_table = fold host_step host_requests empty_hosts"

theorem host_requests_keep_hosts_ok_witness:
  "hosts_ok (hd_hosts host_table) \<and> map ho_IP (hd_hosts host_table) = [''10.0.0.1'', ''10.0.0.3'']"
proof
  show "hosts_ok (hd_hosts host_table)" unfolding host_table_def
    by (rule host_requests_keep_hosts_ok) (simp_all add: hosts_ok_def empty_hosts_def host_requests_def fresh_id_def)
  show "map ho_IP (hd_hosts host_table) = [''10.0.0.1'', ''10.0.0.3'']" by code_simp
qed

theorem frequent_hosts_ranked_witness:
  "sorted_wrt (\<lambda>g h. ho_LoginCount h \<le> ho_LoginCount g) (GetUserFrequentHosts no_like 9 ''u1'' 0 host_table) \<and>
   map ho_ID (GetUserFrequentHosts no_like 9 ''u1'' 0 host_table) = [''h3'', ''h1'']"
proof -
  have "login_stats ''u1'' (GetAccessibleHostIDsForUser no_like 9 ''u1'' (hd_perms host_table))
      (nat (if (0::int) < 1 then 5 else 0)) (hd_logins host_table) \<noteq> []" by code_simp
  from frequent_hosts_ranked[OF this]
  have "sorted_wrt (\<lambda>g h. ho_LoginCount h \<le> ho_LoginCount g) (GetUserFrequentHosts no_like 9 ''u1'' 0 host_table)" ..
  moreover have "map ho_ID (GetUserFrequentHosts no_like 9 ''u1'' 0 host_table) = [''h3'', ''h1'']" by code_simp
  ultimately show ?thesis ..
qed

theorem host_pages_complete_witness:
  "concat (map (\<lambda>i. fst (ListHosts no_like 9 (Some (print_int (1 + int i))) (Some (print_int (int 1))) [] []
      ''u1'' ''user'' host_table)) [0..<2]) =
   matching_hosts no_like [] (if ([]::string) \<noteq> [] then SplitChar (CHR '','') [] else [])
     (filter (host_visible no_like 9 ''u1'' ''user'' host_table) (hd_hosts host_table))"
proof (rule host_pages_complete)
  have "length (matching_hosts no_like [] [] (filter (host_visible no_like 9 ''u1'' ''user'' host_table) (hd_hosts host_table))) = 2"
    by code_simp
  then show "length (matching_hosts no_like [] (if ([]::string) \<noteq> [] then SplitChar (CHR '','') [] else [])
     (filter (host_visible no_like 9 ''u1'' ''user'' host_table) (hd_hosts host_table))) \<le> 2 * 1" by simp
qed (simp_all add: in_int64_def)

theorem listed_hosts_not_shown_witness:
  "''h2'' \<notin> set (GetAccessibleHostIDsForUser no_like 9 ''u1'' host_perms) \<and>
   (\<exists>r \<in> set (permission_rules host_perms). rule_applies 9 host_perms ''u1'' ''h2'' r)"
proof
  have "\<exists>row. JSON_EXTRACT_all no_like (pr_HostIDs r) = Some (CHR ''['' # row)"
    if "pr_HostIDs r \<noteq> []" for r using that by (simp add: no_like_def)
  then have "''h2'' \<in> set (GetAccessibleHostIDsForUser no_like 9 ''u1'' host_perms) \<longleftrightarrow>
    (\<exists>r \<in> set (permission_rules host_perms). pr_Enabled r \<and> in_period 9 r \<and> user_in_rule host_perms ''u1'' r \<and>
      (\<exists>gid. (pr_ID r, gid) \<in> set (rule_host_groups host_perms) \<and> (gid, ''h2'') \<in> set (host_group_members host_perms)))"
    by (intro listed_hosts_not_shown) auto
  then show "''h2'' \<notin> set (GetAccessibleHostIDsForUser no_like 9 ''u1'' host_perms)" by (simp add: host_perms_def)
  show "\<exists>r \<in> set (permission_rules host_perms). rule_applies 9 host_perms ''u1'' ''h2'' r" by code_simp
qed

end
