(* ===== verification/Routing.thy ===== *)
theory Routing
imports Settings Hosts
begin

text \<open>
  The way to a host: the decision between a direct connection and a proxy of
  \<open>internal/router/connection_router.go\<close> with its cache of connectivity tests, the proxy
  queries of \<open>internal/repository/proxy_repository.go\<close>, the configuration handlers of
  \<open>internal/api/handler/routing_handler.go\<close>, and the life of a proxy: registration,
  heartbeat and removal (\<open>internal/api/handler/proxy_handler.go\<close>), the monitor
  (\<open>internal/service/proxy_monitor.go\<close>) and the registering agent
  (\<open>internal/bastion/registry/registry.go\<close>).  The network is an argument.
\<close>

section \<open>Tables\<close>

record Proxy =
  px_ID :: string
  px_ProxyID :: string
  px_HostName :: string
  px_IP :: string
  px_Port :: int
  px_Status :: string
  px_Version :: string
  px_NetworkZone :: string
  px_StartTime :: time
  px_LastHeartbeat :: time

record RoutingDecision =
  rd_Mode :: string
  rd_Direct :: bool
  rd_ProxyID :: string
  rd_ProxyURL :: string
  rd_Reason :: string

record rdb =
  hosts :: "Host list"
  proxies :: "Proxy list"
  rsettings :: "Setting list"

datatype routing_error = HostNotFound | ProxyIDEmpty | ProxyNotFound string | ProxyOffline string | NoProxy

section \<open>Proxy repository\<close>

definition FindProxyInfoByID :: "string \<Rightarrow> rdb \<Rightarrow> Proxy option" where
  "FindProxyInfoByID proxyID db = First px_ID (\<lambda>p. px_ProxyID p = proxyID) (proxies db)"

definition FindOnlineProxies :: "rdb \<Rightarrow> Proxy list" where
  "FindOnlineProxies db = sort_key (\<lambda>p. - px_LastHeartbeat p) (filter (\<lambda>p. px_Status p = ''online'') (proxies db))"

definition FindOnlineProxiesByZone :: "string \<Rightarrow> rdb \<Rightarrow> Proxy list" where
  "FindOnlineProxiesByZone zone db =
     sort_key (\<lambda>p. - px_LastHeartbeat p)
       (filter (\<lambda>p. px_Status p = ''online'' \<and> px_NetworkZone p = zone) (proxies db))"

definition set_proxy :: "string \<Rightarrow> (Proxy \<Rightarrow> Proxy) \<Rightarrow> rdb \<Rightarrow> rdb" where
  "set_proxy proxyID f db = db\<lparr>proxies := update_where (\<lambda>p. px_ProxyID p = proxyID) f (proxies db)\<rparr>"

definition Proxy_UpdateStatus :: "string \<Rightarrow> string \<Rightarrow> rdb \<Rightarrow> rdb" where
  "Proxy_UpdateStatus proxyID status db = set_proxy proxyID (\<lambda>p. p\<lparr>px_Status := status\<rparr>) db"

definition UpdateNetworkZone :: "string \<Rightarrow> string \<Rightarrow> rdb \<Rightarrow> rdb" where
  "UpdateNetworkZone proxyID zone db = set_proxy proxyID (\<lambda>p. p\<lparr>px_NetworkZone := zone\<rparr>) db"

section \<open>Decision\<close>

definition proxy_url :: "Proxy \<Rightarrow> string" where
  "proxy_url p = ''ws://'' @ px_IP p @ '':'' @ print_int (px_Port p) @ ''/ws/connect''"

definition useSpecifiedProxy :: "string \<Rightarrow> string \<Rightarrow> rdb \<Rightarrow> routing_error + RoutingDecision" where
  "useSpecifiedProxy proxyID reason db =
     (if proxyID = [] then Inl ProxyIDEmpty
      else (case FindProxyInfoByID proxyID db of
          None \<Rightarrow> Inl (ProxyNotFound proxyID)
        | Some proxy \<Rightarrow>
            (if px_Status proxy \<noteq> ''online'' then Inl (ProxyOffline proxyID)
             else Inr \<lparr>rd_Mode = ''proxy'', rd_Direct = False, rd_ProxyID = px_ProxyID proxy,
                       rd_ProxyURL = proxy_url proxy, rd_Reason = reason\<rparr>)))"

text \<open>The double loop over the tags: the first host tag that equals a proxy tag, without case and
  surrounding space; an empty host tag does not count.\<close>

fun matched_tag :: "string list \<Rightarrow> string list \<Rightarrow> string" where
  "matched_tag [] hostTags = []"
| "matched_tag (proxyTag # ts) hostTags =
     (case first_where (\<lambda>h. EqualFold (TrimSpace proxyTag) (TrimSpace h)) hostTags of
        None \<Rightarrow> matched_tag ts hostTags
      | Some h \<Rightarrow> if h \<noteq> [] then h else matched_tag ts hostTags)"

definition checkTagBasedRouting :: "Host \<Rightarrow> rdb \<Rightarrow> RoutingDecision option" where
  "checkTagBasedRouting host db =
     (if FindOnlineProxies db = [] then None
      else (case Setting_GetByKey ''routing_proxy_tags'' (rsettings db) of
          None \<Rightarrow> None
        | Some proxyTagsSetting \<Rightarrow> (case UnmarshalStrings (st_Value proxyTagsSetting) of
            None \<Rightarrow> None
          | Some proxyTags \<Rightarrow>
              (case (if ho_Tags host \<noteq> [] then UnmarshalStrings (ho_Tags host) else Some []) of
                 None \<Rightarrow> None
               | Some hostTags \<Rightarrow>
                   (let matchedTag = matched_tag proxyTags hostTags in
                    if matchedTag = [] then None
                    else (case Setting_GetByKey ''routing_default_proxy_id'' (rsettings db) of
                        None \<Rightarrow> None
                      | Some defaultProxySetting \<Rightarrow>
                          (case useSpecifiedProxy (TrimSpace (st_Value defaultProxySetting))
                               (''Host tag '' @ [CHR 0x27] @ matchedTag @ [CHR 0x27] @ '' requires proxy connection'') db of
                             Inl err \<Rightarrow> None
                           | Inr decision \<Rightarrow> Some decision)))))))"

definition direct_decision :: "string \<Rightarrow> RoutingDecision" where
  "direct_decision reason =
     \<lparr>rd_Mode = ''direct'', rd_Direct = True, rd_ProxyID = [], rd_ProxyURL = [], rd_Reason = reason\<rparr>"

definition MakeRoutingDecision :: "string \<Rightarrow> rdb \<Rightarrow> routing_error + RoutingDecision" where
  "MakeRoutingDecision hostID db = (case Host_FindByID hostID (hosts db) of
     None \<Rightarrow> Inl HostNotFound
   | Some host \<Rightarrow>
       (if ho_ConnectionMode host = ''direct''
        then Inr (direct_decision (''Host '' @ [CHR 0x27] @ ho_Name host @ [CHR 0x27] @ '' configured for direct connection''))
        else if ho_ConnectionMode host = ''proxy''
        then useSpecifiedProxy (ho_ProxyID host)
          (''Host '' @ [CHR 0x27] @ ho_Name host @ [CHR 0x27] @ '' configured for proxy connection'') db
        else (case checkTagBasedRouting host db of
            Some decision \<Rightarrow> Inr decision
          | None \<Rightarrow> Inr (direct_decision (''Default policy: API Server direct connection to '' @ ho_Name host)))))"

definition findBestProxy :: "Host \<Rightarrow> rdb \<Rightarrow> routing_error + Proxy" where
  "findBestProxy host db =
     (case (if ho_NetworkZone host \<noteq> [] then FindOnlineProxiesByZone (ho_NetworkZone host) db else []) of
        p # _ \<Rightarrow> Inr p
      | [] \<Rightarrow> (case FindOnlineProxies db of [] \<Rightarrow> Inl NoProxy | p # _ \<Rightarrow> Inr p))"

subsection \<open>Connectivity cache\<close>

record CacheEntry =
  ce_Reachable :: bool
  ce_LatencyMs :: int
  ce_ExpireTime :: time

type_synonym conn_cache = "string \<Rightarrow> CacheEntry option"

definition cache_Get :: "time \<Rightarrow> string \<Rightarrow> conn_cache \<Rightarrow> CacheEntry option" where
  "cache_Get now key c = (case c key of
     None \<Rightarrow> None | Some entry \<Rightarrow> if now > ce_ExpireTime entry then None else Some entry)"

definition cache_Set :: "time \<Rightarrow> string \<Rightarrow> bool \<Rightarrow> int \<Rightarrow> time \<Rightarrow> conn_cache \<Rightarrow> conn_cache" where
  "cache_Set now key reachable latencyMs ttl c =
     c(key \<mapsto> \<lparr>ce_Reachable = reachable, ce_LatencyMs = latencyMs, ce_ExpireTime = now + ttl\<rparr>)"

definition cache_cleanup :: "time \<Rightarrow> conn_cache \<Rightarrow> conn_cache" where
  "cache_cleanup now c key = (case c key of
     None \<Rightarrow> None | Some entry \<Rightarrow> if now > ce_ExpireTime entry then None else Some entry)"

text \<open>The probe: the cached result, or a dial that ends at \<open>done\<close> with success or not.\<close>

definition checkDirectConnectivity :: "time \<Rightarrow> time \<Rightarrow> bool \<Rightarrow> string \<Rightarrow> int \<Rightarrow> conn_cache \<Rightarrow> (bool \<times> int) \<times> conn_cache" where
  "checkDirectConnectivity now finished dialed ip port c =
     (let cacheKey = ip @ '':'' @ print_int port in
      case cache_Get now cacheKey c of
        Some entry \<Rightarrow> ((ce_Reachable entry, ce_LatencyMs entry), c)
      | None \<Rightarrow>
          (let latencyMs = (finished - now) div 1000000 in
           if \<not> dialed then ((False, latencyMs), cache_Set finished cacheKey False 0 (30 * second) c)
           else ((True, latencyMs), cache_Set finished cacheKey True latencyMs (5 * minute) c)))"

subsection \<open>Configuration\<close>

definition GetRoutingConfig :: "rdb \<Rightarrow> string list \<times> string" where
  "GetRoutingConfig db =
     ((case Setting_GetByKey ''routing_proxy_tags'' (rsettings db) of
         None \<Rightarrow> []
       | Some s \<Rightarrow> if st_Value s = [] then [] else (case UnmarshalStrings (st_Value s) of None \<Rightarrow> [] | Some ts \<Rightarrow> ts)),
      (case Setting_GetByKey ''routing_default_proxy_id'' (rsettings db) of None \<Rightarrow> [] | Some s \<Rightarrow> st_Value s))"

text \<open>\<open>None\<close> for the tags is a request without them, which is stored as the JSON text null.\<close>

definition UpdateRoutingConfig :: "(string list option \<times> string) option \<Rightarrow> rdb \<Rightarrow> nat \<times> rdb" where
  "UpdateRoutingConfig request db = (case request of
     None \<Rightarrow> (400, db)
   | Some (proxyTags, defaultProxyID) \<Rightarrow>
       (if defaultProxyID \<noteq> [] \<and> FindProxyInfoByID defaultProxyID db = None then (400, db)
        else (200, db\<lparr>rsettings :=
          Setting_Upsert ''routing_default_proxy_id'' defaultProxyID [] []
            (Setting_Upsert ''routing_proxy_tags''
              (case proxyTags of None \<Rightarrow> ''null'' | Some ts \<Rightarrow> MarshalStrings ts) [] [] (rsettings db))\<rparr>)))"

definition GetRoutingDecision :: "string \<Rightarrow> rdb \<Rightarrow> nat \<times> RoutingDecision option" where
  "GetRoutingDecision hostID db = (case MakeRoutingDecision hostID db of
     Inl err \<Rightarrow> (500, None) | Inr decision \<Rightarrow> (200, Some decision))"

section \<open>The life of a proxy\<close>

record register_request =
  rq_ProxyID :: string
  rq_HostName :: string
  rq_IP :: string
  rq_Port :: int
  rq_Status :: string
  rq_Version :: string
  rq_StartTime :: time

definition RegisterProxy :: "time \<Rightarrow> string \<Rightarrow> register_request option \<Rightarrow> rdb \<Rightarrow> nat \<times> rdb" where
  "RegisterProxy now newID request db = (case request of
     None \<Rightarrow> (400, db)
   | Some req \<Rightarrow>
       (if rq_ProxyID req = [] then (400, db)
        else (case FindProxyInfoByID (rq_ProxyID req) db of
            Some existing \<Rightarrow> (200, db\<lparr>proxies := update_where (\<lambda>p. px_ID p = px_ID existing)
              (\<lambda>p. p\<lparr>px_HostName := rq_HostName req, px_IP := rq_IP req, px_Port := rq_Port req,
                     px_Status := rq_Status req, px_Version := rq_Version req, px_StartTime := rq_StartTime req,
                     px_LastHeartbeat := now\<rparr>) (proxies db)\<rparr>)
          | None \<Rightarrow> (200, db\<lparr>proxies := proxies db @
              [\<lparr>px_ID = newID, px_ProxyID = rq_ProxyID req, px_HostName = rq_HostName req, px_IP = rq_IP req,
                px_Port = rq_Port req, px_Status = (if rq_Status req = [] then ''offline'' else rq_Status req),
                px_Version = rq_Version req, px_NetworkZone = [], px_StartTime = rq_StartTime req,
                px_LastHeartbeat = now\<rparr>]\<rparr>))))"

definition Unregister :: "string \<Rightarrow> rdb \<Rightarrow> nat \<times> rdb" where
  "Unregister proxyID db =
     (if proxyID = [] then (400, db) else (200, Proxy_UpdateStatus proxyID ''offline'' db))"

definition Heartbeat :: "time \<Rightarrow> string \<Rightarrow> string \<Rightarrow> rdb \<Rightarrow> nat \<times> rdb" where
  "Heartbeat now proxyID status db =
     (if proxyID = [] then (400, db)
      else if \<not> list_ex (\<lambda>p. px_ProxyID p = proxyID) (proxies db) then (404, db)
      else (200, set_proxy proxyID
        (\<lambda>p. p\<lparr>px_LastHeartbeat := now, px_Status := (if status \<noteq> [] then status else px_Status p)\<rparr>) db))"

subsection \<open>Monitor\<close>

definition check_proxy :: "time \<Rightarrow> (string \<Rightarrow> bool) \<Rightarrow> Proxy \<Rightarrow> rdb \<Rightarrow> rdb" where
  "check_proxy now healthy proxy db =
     (if healthy (''http://'' @ px_IP proxy @ '':'' @ print_int (px_Port proxy) @ ''/health'')
      then set_proxy (px_ProxyID proxy) (\<lambda>p. p\<lparr>px_Status := (if px_Status proxy \<noteq> ''online'' then ''online'' else px_Status p),
             px_LastHeartbeat := now\<rparr>) db
      else if px_Status proxy \<noteq> ''offline''
      then set_proxy (px_ProxyID proxy) (\<lambda>p. p\<lparr>px_Status := ''offline''\<rparr>) db
      else db)"

definition checkProxies :: "time \<Rightarrow> (string \<Rightarrow> bool) \<Rightarrow> rdb \<Rightarrow> rdb" where
  "checkProxies now healthy db = fold (check_proxy now healthy) (proxies db) db"

subsection \<open>The registering agent\<close>

text \<open>The agent with the information it registers, talking to the handlers above when the
  network lets a request through.\<close>

record agent =
  ag_info :: register_request
  ag_registered :: bool

definition agent_register :: "bool \<Rightarrow> time \<Rightarrow> string \<Rightarrow> agent \<Rightarrow> rdb \<Rightarrow> bool \<times> rdb" where
  "agent_register network now newID ag db =
     (if \<not> network then (False, db)
      else (case RegisterProxy now newID (Some (ag_info ag)) db of (status, db') \<Rightarrow> (status = 200, db')))"

definition agent_Start :: "bool \<Rightarrow> time \<Rightarrow> string \<Rightarrow> agent \<Rightarrow> rdb \<Rightarrow> agent \<times> rdb" where
  "agent_Start network now newID ag db = (case agent_register network now newID ag db of
     (ok, db') \<Rightarrow> (if ok then ag\<lparr>ag_registered := True\<rparr> else ag, db'))"

definition sendHeartbeat :: "bool \<Rightarrow> time \<Rightarrow> agent \<Rightarrow> rdb \<Rightarrow> bool \<times> agent \<times> rdb" where
  "sendHeartbeat network now ag db =
     (if \<not> network then (False, ag\<lparr>ag_registered := False\<rparr>, db)
      else (case Heartbeat now (rq_ProxyID (ag_info ag)) ''online'' db of
          (status, db') \<Rightarrow> (status = 200, ag\<lparr>ag_registered := (status = 200)\<rparr>, db')))"

definition heartbeat_tick :: "bool \<Rightarrow> time \<Rightarrow> string \<Rightarrow> agent \<Rightarrow> rdb \<Rightarrow> agent \<times> rdb" where
  "heartbeat_tick network now newID ag db = (case sendHeartbeat network now ag db of
     (True, ag', db') \<Rightarrow> (ag', db')
   | (False, ag', db') \<Rightarrow>
       (if \<not> ag_registered ag' then (case agent_register network now newID ag' db' of
            (ok, db'') \<Rightarrow> (if ok then ag'\<lparr>ag_registered := True\<rparr> else ag', db''))
        else (ag', db')))"

definition agent_Stop :: "bool \<Rightarrow> agent \<Rightarrow> rdb \<Rightarrow> rdb" where
  "agent_Stop network ag db =
     (if ag_registered ag \<and> network then snd (Unregister (rq_ProxyID (ag_info ag)) db) else db)"

section \<open>Properties\<close>

subsection \<open>Decisions\<close>

lemma useSpecifiedProxy_Inr:
  assumes "useSpecifiedProxy proxyID reason db = Inr d"
  obtains p where "FindProxyInfoByID proxyID db = Some p" "px_Status p = ''online''" "proxyID \<noteq> []"
    "d = \<lparr>rd_Mode = ''proxy'', rd_Direct = False, rd_ProxyID = px_ProxyID p, rd_ProxyURL = proxy_url p, rd_Reason = reason\<rparr>"
  using assms by (auto simp: useSpecifiedProxy_def split: if_splits option.splits)

lemma FindProxyInfoByID_SomeD:
  "FindProxyInfoByID proxyID db = Some p \<Longrightarrow> p \<in> set (proxies db) \<and> px_ProxyID p = proxyID"
  using First_SomeD[of px_ID "\<lambda>p. px_ProxyID p = proxyID" "proxies db" p] by (simp add: FindProxyInfoByID_def)

lemma checkTagBasedRouting_Some:
  assumes "checkTagBasedRouting host db = Some d"
  shows "\<exists>pid reason. useSpecifiedProxy pid reason db = Inr d"
  using assms by (auto simp: checkTagBasedRouting_def Let_def split: if_splits option.splits sum.splits)

text \<open>A connection is sent through a proxy only if that proxy is registered and online, under
  its own address; a host configured for a proxy is never reached directly, and one
  configured for a direct connection never through a proxy.\<close>

theorem routed_proxy_online:
  assumes "MakeRoutingDecision hostID db = Inr d"
  shows "(\<not> rd_Direct d \<longrightarrow> (\<exists>p \<in> set (proxies db). px_Status p = ''online'' \<and> px_ProxyID p = rd_ProxyID d \<and>
            rd_ProxyURL d = proxy_url p)) \<and>
    (\<exists>host \<in> set (hosts db). ho_ID host = hostID \<and> (ho_ConnectionMode host = ''proxy'' \<longrightarrow> \<not> rd_Direct d) \<and>
       (ho_ConnectionMode host = ''direct'' \<longrightarrow> rd_Direct d))"
proof -
  obtain host where h: "Host_FindByID hostID (hosts db) = Some host"
    using assms by (auto simp: MakeRoutingDecision_def split: option.splits)
  have host: "host \<in> set (hosts db)" "ho_ID host = hostID"
    using First_SomeD[of ho_ID "\<lambda>x. ho_ID x = hostID" "hosts db" host] h by (simp_all add: Host_FindByID_def)
  have via: "\<not> rd_Direct e \<and> (\<exists>p \<in> set (proxies db). px_Status p = ''online'' \<and> px_ProxyID p = rd_ProxyID e \<and>
            rd_ProxyURL e = proxy_url p)" if "useSpecifiedProxy pid reason db = Inr e" for pid reason e
    using that by (rule useSpecifiedProxy_Inr) (auto dest: FindProxyInfoByID_SomeD)
  have "(ho_ConnectionMode host = ''direct'' \<or> ho_ConnectionMode host \<noteq> ''proxy'') \<and> rd_Direct d \<or>
      ho_ConnectionMode host \<noteq> ''direct'' \<and> (\<exists>pid reason. useSpecifiedProxy pid reason db = Inr d)"
    using assms h by (auto simp: MakeRoutingDecision_def direct_decision_def split: if_splits option.splits
        dest!: checkTagBasedRouting_Some)
  then show ?thesis
  proof
    assume "ho_ConnectionMode host \<noteq> ''direct'' \<and> (\<exists>pid reason. useSpecifiedProxy pid reason db = Inr d)"
    then obtain pid reason where "useSpecifiedProxy pid reason db = Inr d" "ho_ConnectionMode host \<noteq> ''direct''" by blast
    with via host show ?thesis by (metis (full_types))
  qed (use host in auto)
qed

subsection \<open>The configuration takes effect\<close>

lemma lookup_GetByKey: "key \<noteq> [] \<Longrightarrow> Setting_lookup key t = Some v \<Longrightarrow> \<exists>s. Setting_GetByKey key t = Some s \<and> st_Value s = v"
  by (auto simp: Setting_lookup_def)

lemma matched_tag_found:
  assumes "t \<in> set ts" "EqualFold (TrimSpace t) (TrimSpace h)" "h \<in> set hs" "[] \<notin> set hs"
  shows "matched_tag ts hs \<noteq> []"
  using assms(1)
proof (induction ts)
  case (Cons u ts)
  have ne: "first_where P hs = Some x \<Longrightarrow> x \<noteq> []" for P x using first_where_SomeD(1)[of P hs x] assms(4) by auto
  show ?case
  proof (cases "first_where (\<lambda>x. EqualFold (TrimSpace u) (TrimSpace x)) hs")
    case None
    then have "u \<noteq> t" using assms(2,3) by (auto simp: first_where_None)
    then show ?thesis using Cons None by simp
  qed (use ne in auto)
qed simp

definition tag_routed :: "Host \<Rightarrow> string list \<Rightarrow> bool" where
  "tag_routed host tags \<longleftrightarrow> ho_ConnectionMode host \<notin> {''direct'', ''proxy''} \<and>
     (\<exists>hostTags. UnmarshalStrings (ho_Tags host) = Some hostTags \<and> [] \<notin> set hostTags \<and>
        (\<exists>t \<in> set tags. \<exists>h \<in> set hostTags. EqualFold (TrimSpace t) (TrimSpace h)))"

text \<open>Once a configuration is saved, a host with one of its tags goes through the configured
  proxy while that proxy is online; while it is offline the same host is reached
  directly.\<close>

theorem tag_routing_follows_config:
  assumes "UpdateRoutingConfig (Some (Some tags, pid)) db = (200, db')" "settings_ok (rsettings db)"
    "TrimSpace pid = pid" "pid \<noteq> []"
    "Host_FindByID hostID (hosts db') = Some host" "tag_routed host tags" "ho_Tags host \<noteq> []"
    "FindProxyInfoByID pid db' = Some p"
  shows "\<exists>reason. MakeRoutingDecision hostID db' =
    Inr (if px_Status p = ''online''
         then \<lparr>rd_Mode = ''proxy'', rd_Direct = False, rd_ProxyID = pid, rd_ProxyURL = proxy_url p, rd_Reason = reason\<rparr>
         else direct_decision (''Default policy: API Server direct connection to '' @ ho_Name host))"
proof -
  let ?t1 = "Setting_Upsert ''routing_proxy_tags'' (MarshalStrings tags) [] [] (rsettings db)"
  have rs: "rsettings db' = Setting_Upsert ''routing_default_proxy_id'' pid [] [] ?t1"
    using assms(1) by (auto simp: UpdateRoutingConfig_def split: if_splits)
  have ok: "settings_ok ?t1" using settings_table.put_ok[OF assms(2)] by simp
  obtain s1 where s1: "Setting_GetByKey ''routing_proxy_tags'' (rsettings db') = Some s1" "st_Value s1 = MarshalStrings tags"
    using lookup_GetByKey[of "''routing_proxy_tags''" "rsettings db'" "MarshalStrings tags"]
      settings_table.lookup_other[OF ok] settings_table.lookup_put[OF assms(2)] by (auto simp: rs)
  obtain s2 where s2: "Setting_GetByKey ''routing_default_proxy_id'' (rsettings db') = Some s2" "st_Value s2 = pid"
    using lookup_GetByKey[of "''routing_default_proxy_id''" "rsettings db'" pid] settings_table.lookup_put[OF ok] by (auto simp: rs)
  obtain hostTags where ht: "UnmarshalStrings (ho_Tags host) = Some hostTags" "matched_tag tags hostTags \<noteq> []"
    using assms(6) matched_tag_found unfolding tag_routed_def by blast
  note use = useSpecifiedProxy_def[of pid _ db'] FindProxyInfoByID_SomeD[OF assms(8)]
  have "px_Status p = ''online'' \<Longrightarrow> p \<in> set (FindOnlineProxies db')"
    using FindProxyInfoByID_SomeD[OF assms(8)] by (simp add: FindOnlineProxies_def)
  then have "px_Status p = ''online'' \<Longrightarrow> FindOnlineProxies db' \<noteq> []" by auto
  then have "checkTagBasedRouting host db' =
      (if px_Status p = ''online''
       then Some \<lparr>rd_Mode = ''proxy'', rd_Direct = False, rd_ProxyID = pid, rd_ProxyURL = proxy_url p,
         rd_Reason = ''Host tag '' @ [CHR 0x27] @ matched_tag tags hostTags @ [CHR 0x27] @ '' requires proxy connection''\<rparr>
       else None)"
    using s1 s2 ht assms(3,4,7,8) use Unmarshal_Marshal[of tags]
    by (simp add: checkTagBasedRouting_def Let_def)
  then show ?thesis using assms(5,6) by (auto simp: MakeRoutingDecision_def tag_routed_def)
qed

definition routed_host :: Host where
  "routed_host = blank_host\<lparr>ho_ID := ''h1'', ho_Name := ''db'', ho_IP := ''10.0.0.1'', ho_Port := 22, ho_Status := ''online'',
     ho_Tags := MarshalStrings [''prod''], ho_ConnectionMode := ''auto''\<rparr>"

definition routed_proxy :: Proxy where
  "routed_proxy = \<lparr>px_ID = ''1'', px_ProxyID = ''p1'', px_HostName = ''gw'', px_IP = ''10.1.0.1'', px_Port = 8022,
     px_Status = ''online'', px_Version = ''1'', px_NetworkZone = [], px_StartTime = 0, px_LastHeartbeat = 0\<rparr>"

definition routed_db :: rdb where
  "routed_db = snd (UpdateRoutingConfig (Some (Some [''Prod''], ''p1''))
     \<lparr>hosts = [routed_host], proxies = [routed_proxy], rsettings = []\<rparr>)"

theorem tag_routing_follows_config_witness:
  "(\<exists>reason. MakeRoutingDecision ''h1'' routed_db =
    Inr (if px_Status routed_proxy = ''online''
         then \<lparr>rd_Mode = ''proxy'', rd_Direct = False, rd_ProxyID = ''p1'', rd_ProxyURL = proxy_url routed_proxy, rd_Reason = reason\<rparr>
         else direct_decision (''Default policy: API Server direct connection to '' @ ho_Name routed_host)))"
proof (rule tag_routing_follows_config)
  show "UpdateRoutingConfig (Some (Some [''Prod''], ''p1''))
     \<lparr>hosts = [routed_host], proxies = [routed_proxy], rsettings = []\<rparr> = (200, routed_db)" by code_simp
  show "settings_ok (rsettings \<lparr>hosts = [routed_host], proxies = [routed_proxy], rsettings = []\<rparr>)" by (simp add: settings_ok_def)
  show "TrimSpace ''p1'' = ''p1''" by code_simp
  show "Host_FindByID ''h1'' (hosts routed_db) = Some routed_host" by code_simp
  show "FindProxyInfoByID ''p1'' routed_db = Some routed_proxy" by code_simp
  have "UnmarshalStrings (ho_Tags routed_host) = Some [''prod'']" by code_simp
  moreover have "EqualFold (TrimSpace ''Prod'') (TrimSpace ''prod'')" by code_simp
  ultimately show "tag_routed routed_host [''Prod'']" by (auto simp: tag_routed_def routed_host_def blank_host_def)
  show "ho_Tags routed_host \<noteq> []" by code_simp
qed simp

theorem routed_proxy_online_witness:
  "\<exists>host \<in> set (hosts routed_db). ho_ID host = ''h1'' \<and> \<not> rd_Direct (projr (MakeRoutingDecision ''h1'' routed_db)) \<and>
     (\<exists>p \<in> set (proxies routed_db). px_Status p = ''online'' \<and> px_ProxyID p = rd_ProxyID (projr (MakeRoutingDecision ''h1'' routed_db)))"
proof -
  let ?d = "projr (MakeRoutingDecision ''h1'' routed_db)"
  have "\<not> isl (MakeRoutingDecision ''h1'' routed_db)" by code_simp
  then have d: "MakeRoutingDecision ''h1'' routed_db = Inr ?d" by simp
  have "\<not> rd_Direct ?d" by code_simp
  with routed_proxy_online[OF d] show ?thesis by metis
qed

subsection \<open>Proxies come back\<close>

lemma set_proxies_set_proxy:
  "set (proxies (set_proxy i f db)) = (\<lambda>q. if px_ProxyID q = i then f q else q) ` set (proxies db)"
  by (simp add: set_proxy_def update_where_def)

lemma Heartbeat_online:
  assumes "Heartbeat now i ''online'' db = (200, db')"
  shows "(\<exists>p \<in> set (proxies db'). px_ProxyID p = i) \<and>
    (\<forall>p \<in> set (proxies db'). px_ProxyID p = i \<longrightarrow> px_Status p = ''online'' \<and> px_LastHeartbeat p = now)"
proof -
  let ?f = "\<lambda>p. p\<lparr>px_LastHeartbeat := now, px_Status := ''online''\<rparr>"
  obtain q where q: "q \<in> set (proxies db)" "px_ProxyID q = i" and db': "db' = set_proxy i ?f db"
    using assms by (auto simp: Heartbeat_def list_ex_iff split: if_splits)
  have "?f q \<in> set (proxies db')" unfolding db' set_proxies_set_proxy using q by (intro image_eqI[of _ _ q]) simp_all
  moreover have "px_ProxyID (?f q) = i" using q by simp
  moreover have "px_Status p = ''online'' \<and> px_LastHeartbeat p = now" if "p \<in> set (proxies db')" "px_ProxyID p = i" for p
  proof -
    obtain r where "p = (if px_ProxyID r = i then ?f r else r)" using \<open>p \<in> _\<close> unfolding db' set_proxies_set_proxy by blast
    then show ?thesis using \<open>px_ProxyID p = i\<close> by (cases "px_ProxyID r = i") simp_all
  qed
  ultimately show ?thesis by blast
qed

text \<open>Whatever the registry believed before, one tick of the agent's loop with the server
  reachable leaves the agent registered and its proxy in the table, online and with a
  heartbeat of now.\<close>

theorem heartbeat_recovers:
  assumes "heartbeat_tick True now newID ag db = (ag', db')" "rq_ProxyID (ag_info ag) \<noteq> []"
    "rq_Status (ag_info ag) = ''online''"
  shows "ag_registered ag' \<and> (\<exists>p \<in> set (proxies db'). px_ProxyID p = rq_ProxyID (ag_info ag) \<and>
    px_Status p = ''online'' \<and> px_LastHeartbeat p = now)"
proof (cases "list_ex (\<lambda>p. px_ProxyID p = rq_ProxyID (ag_info ag)) (proxies db)")
  case True
  then obtain db1 where h: "Heartbeat now (rq_ProxyID (ag_info ag)) ''online'' db = (200, db1)"
    using assms(2) by (simp add: Heartbeat_def)
  then have "ag' = ag\<lparr>ag_registered := True\<rparr> \<and> db' = db1"
    using assms(1) by (simp add: heartbeat_tick_def sendHeartbeat_def)
  then show ?thesis using Heartbeat_online[OF h] by auto
next
  case False
  then have "FindProxyInfoByID (rq_ProxyID (ag_info ag)) db = None"
    using FindProxyInfoByID_SomeD by (cases "FindProxyInfoByID (rq_ProxyID (ag_info ag)) db") (auto simp: list_ex_iff)
  then show ?thesis
    using assms False by (auto simp: heartbeat_tick_def sendHeartbeat_def Heartbeat_def agent_register_def RegisterProxy_def)
qed

definition fresh_agent :: agent where
  "fresh_agent = \<lparr>ag_info = \<lparr>rq_ProxyID = ''p9'', rq_HostName = ''gw'', rq_IP = ''10.1.0.9'', rq_Port = 8022,
     rq_Status = ''online'', rq_Version = ''1'', rq_StartTime = 0\<rparr>, ag_registered = False\<rparr>"

theorem heartbeat_recovers_witness:
  "ag_registered (fst (heartbeat_tick True 5 ''2'' fresh_agent routed_db)) \<and>
   (\<exists>p \<in> set (proxies (snd (heartbeat_tick True 5 ''2'' fresh_agent routed_db))).
      px_ProxyID p = ''p9'' \<and> px_Status p = ''online'' \<and> px_LastHeartbeat p = 5)"
proof -
  obtain ag' db' where r: "heartbeat_tick True 5 ''2'' fresh_agent routed_db = (ag', db')" by fastforce
  have "rq_ProxyID (ag_info fresh_agent) = ''p9''" "rq_Status (ag_info fresh_agent) = ''online''"
    by (simp_all add: fresh_agent_def)
  with heartbeat_recovers[OF r] r show ?thesis by simp
qed

subsection \<open>The monitor\<close>

definition monitored :: "time \<Rightarrow> (string \<Rightarrow> bool) \<Rightarrow> Proxy \<Rightarrow> Proxy" where
  "monitored now healthy p =
     (if healthy (''http://'' @ px_IP p @ '':'' @ print_int (px_Port p) @ ''/health'')
      then p\<lparr>px_Status := ''online'', px_LastHeartbeat := now\<rparr> else p\<lparr>px_Status := ''offline''\<rparr>)"

lemma check_proxy_row:
  assumes "p \<in> set (proxies db)" "distinct (map px_ProxyID (proxies db))"
  shows "proxies (check_proxy now healthy p db) =
    map (\<lambda>q. if px_ProxyID q = px_ProxyID p then monitored now healthy q else q) (proxies db)"
proof -
  have same: "q = p" if "q \<in> set (proxies db)" "px_ProxyID q = px_ProxyID p" for q
    using that assms by (auto simp: distinct_map inj_on_def)
  have keep: "px_Status p = st \<Longrightarrow> p\<lparr>px_Status := st\<rparr> = p" for st by (cases p) simp
  have row: "proxies (set_proxy (px_ProxyID p) f db) =
      map (\<lambda>q. if px_ProxyID q = px_ProxyID p then monitored now healthy q else q) (proxies db)"
    if "f p = monitored now healthy p" for f
    unfolding set_proxy_def update_where_def using that same by (auto intro!: map_cong)
  have same_db: "proxies db = proxies (set_proxy (px_ProxyID p) (\<lambda>q. q) db)"
    by (simp add: set_proxy_def update_where_def)
  show ?thesis
  proof (cases "healthy (''http://'' @ px_IP p @ '':'' @ print_int (px_Port p) @ ''/health'')")
    case True
    then show ?thesis unfolding check_proxy_def
      using keep[of "''online''"] by (simp only: if_True) (intro row, simp add: monitored_def)
  next
    case False
    then show ?thesis unfolding check_proxy_def
      using row[of "\<lambda>q. q\<lparr>px_Status := ''offline''\<rparr>"] row[of "\<lambda>q. q"] keep[of "''offline''"] same_db
      by (simp add: monitored_def del: append.simps)
  qed
qed

lemma fold_check_proxy:
  assumes "distinct (map px_ProxyID (proxies db))" "set ps \<subseteq> set (proxies db)" "distinct (map px_ProxyID ps)"
  shows "proxies (fold (check_proxy now healthy) ps db) =
    map (\<lambda>q. if px_ProxyID q \<in> px_ProxyID ` set ps then monitored now healthy q else q) (proxies db)"
  using assms
proof (induction ps arbitrary: db)
  case (Cons p ps)
  let ?db = "check_proxy now healthy p db"
  have row: "proxies ?db = map (\<lambda>q. if px_ProxyID q = px_ProxyID p then monitored now healthy q else q) (proxies db)"
    using check_proxy_row[of p db] Cons.prems by simp
  have id: "px_ProxyID (monitored now healthy q) = px_ProxyID q" for q by (simp add: monitored_def)
  have "map px_ProxyID (proxies ?db) = map px_ProxyID (proxies db)" by (simp add: row id)
  moreover have "set ps \<subseteq> set (proxies ?db)" using Cons.prems by (fastforce simp: row image_iff)
  ultimately have "proxies (fold (check_proxy now healthy) ps ?db) =
      map (\<lambda>q. if px_ProxyID q \<in> px_ProxyID ` set ps then monitored now healthy q else q) (proxies ?db)"
    using Cons.IH[of ?db] Cons.prems by simp
  then show ?case using Cons.prems(3) by (auto simp: row id)
qed simp

text \<open>A round of the monitor sets every proxy, the unregistered ones too, to what its health
  endpoint answers: online with a heartbeat of now, or offline.\<close>

theorem checkProxies_follows_health:
  assumes "distinct (map px_ProxyID (proxies db))"
  shows "proxies (checkProxies now healthy db) = map (monitored now healthy) (proxies db)"
  using fold_check_proxy[of db "proxies db"] assms by (simp add: checkProxies_def)

theorem checkProxies_follows_health_witness:
  "proxies (checkProxies 7 (\<lambda>_. True) (snd (Unregister ''p1'' routed_db))) = [routed_proxy\<lparr>px_LastHeartbeat := 7\<rparr>]"
proof -
  have "distinct (map px_ProxyID (proxies (snd (Unregister ''p1'' routed_db))))" by code_simp
  from checkProxies_follows_health[OF this, of 7 "\<lambda>_. True"] show ?thesis by (simp, code_simp)
qed

end
