(* ===== verification/Redis_Lock.thy ===== *)
theory Redis_Lock
imports Prelude
begin

text \<open>
  The lock on Redis, \<open>pkg/distributed/redis_lock.go\<close>.  The commands of the Redis server are an
  argument (record \<open>redis\<close>) with the documented behaviour as the predicate \<open>redis_ok\<close>; the two
  Lua scripts are translated.  Every lock object has its own value, the UUID of the code.
  Whether the client refuses a command whose context is cancelled, as go-redis does, is
  part of the argument.
\<close>

section \<open>The server\<close>

text \<open>The commands at a time: \<open>SET key value NX\<close> with an expiry, \<open>GET\<close>, \<open>DEL\<close> and \<open>EXPIRE\<close> in
  seconds.\<close>

record 'r redis =
  SetNX :: "time \<Rightarrow> string \<Rightarrow> string \<Rightarrow> time \<Rightarrow> 'r \<Rightarrow> bool \<times> 'r"
  rGet :: "time \<Rightarrow> string \<Rightarrow> 'r \<Rightarrow> string option"
  rDel :: "time \<Rightarrow> string \<Rightarrow> 'r \<Rightarrow> 'r"
  rExpire :: "time \<Rightarrow> string \<Rightarrow> int \<Rightarrow> 'r \<Rightarrow> 'r"
  ctx_checked :: bool

text \<open>The documented behaviour: what a key shows at any later time.\<close>

definition redis_ok :: "'r redis \<Rightarrow> bool" where
  "redis_ok R \<longleftrightarrow>
     (\<forall>now key v ex r. fst (SetNX R now key v ex r) \<longleftrightarrow> rGet R now key r = None) \<and>
     (\<forall>now key v ex r t k. now \<le> t \<longrightarrow> ex > 0 \<longrightarrow> rGet R t k (snd (SetNX R now key v ex r)) =
        (if k = key \<and> rGet R now key r = None then (if t < now + ex then Some v else None) else rGet R t k r)) \<and>
     (\<forall>now key r t k. now \<le> t \<longrightarrow> rGet R t k (rDel R now key r) = (if k = key then None else rGet R t k r)) \<and>
     (\<forall>now key n r t k. now \<le> t \<longrightarrow> n > 0 \<longrightarrow> rGet R t k (rExpire R now key n r) =
        (if k = key then (if t < now + n * second then rGet R now key r else None) else rGet R t k r)) \<and>
     (\<forall>t u k r. t \<le> u \<longrightarrow> rGet R u k r \<noteq> None \<longrightarrow> rGet R t k r = rGet R u k r)"

section \<open>The lock\<close>

record RedisLock =
  rl_key :: string
  rl_value :: string
  rl_expiry :: time
  rl_cancelled :: bool
  rl_renewing :: bool

definition NewRedisLock :: "string \<Rightarrow> time \<Rightarrow> string \<Rightarrow> RedisLock" where
  "NewRedisLock key expiry uuid =
     \<lparr>rl_key = key, rl_value = uuid, rl_expiry = expiry, rl_cancelled = False, rl_renewing = False\<rparr>"

text \<open>The result is \<open>None\<close> for an error of the client.\<close>

definition TryLock :: "'r redis \<Rightarrow> time \<Rightarrow> RedisLock \<Rightarrow> 'r \<Rightarrow> bool option \<times> RedisLock \<times> 'r" where
  "TryLock R now l r =
     (if rl_cancelled l \<and> ctx_checked R then (None, l, r)
      else (case SetNX R now (rl_key l) (rl_value l) (rl_expiry l) r of
          (got, r1) \<Rightarrow> (Some got, if got then l\<lparr>rl_renewing := True\<rparr> else l, r1)))"

definition release_script :: "'r redis \<Rightarrow> time \<Rightarrow> string \<Rightarrow> string \<Rightarrow> 'r \<Rightarrow> nat \<times> 'r" where
  "release_script R now key v r = (if rGet R now key r = Some v then (1, rDel R now key r) else (0, r))"

definition Unlock :: "'r redis \<Rightarrow> time \<Rightarrow> RedisLock \<Rightarrow> 'r \<Rightarrow> bool \<times> RedisLock \<times> 'r" where
  "Unlock R now l r =
     (let l = l\<lparr>rl_cancelled := True\<rparr> in
      if rl_cancelled l \<and> ctx_checked R then (False, l, r)
      else (case release_script R now (rl_key l) (rl_value l) r of (n, r1) \<Rightarrow> (True, l, r1)))"

definition renew_script :: "'r redis \<Rightarrow> time \<Rightarrow> string \<Rightarrow> string \<Rightarrow> int \<Rightarrow> 'r \<Rightarrow> nat \<times> 'r" where
  "renew_script R now key v seconds r =
     (if rGet R now key r = Some v then (1, rExpire R now key seconds r) else (0, r))"

text \<open>One turn of \<open>autoRenew\<close>: the select takes the tick or, once it is there, the cancellation of
  the context.\<close>

definition autoRenew :: "'r redis \<Rightarrow> bool \<Rightarrow> time \<Rightarrow> RedisLock \<Rightarrow> 'r \<Rightarrow> RedisLock \<times> 'r" where
  "autoRenew R tick now l r =
     (if \<not> rl_renewing l then (l, r)
      else if rl_cancelled l \<and> (\<not> tick \<or> ctx_checked R) then (l\<lparr>rl_renewing := False\<rparr>, r)
      else if \<not> tick then (l, r)
      else (case renew_script R now (rl_key l) (rl_value l) (rl_expiry l div second) r of
          (n, r1) \<Rightarrow> (if n = 0 then l\<lparr>rl_renewing := False\<rparr> else l, r1)))"

definition IsLocked :: "'r redis \<Rightarrow> time \<Rightarrow> RedisLock \<Rightarrow> 'r \<Rightarrow> bool option" where
  "IsLocked R now l r = (if rl_cancelled l \<and> ctx_checked R then None else Some (rGet R now (rl_key l) r \<noteq> None))"

section \<open>Holders over time\<close>

text \<open>The locks of all processes, by their values, on one server.  \<open>lease\<close> is ghost state: until
  when the last acquisition or renewal of a lock entitles it.\<close>

record 'r world =
  w_now :: time
  w_locks :: "string \<Rightarrow> RedisLock option"
  w_redis :: 'r
  w_lease :: "string \<Rightarrow> time option"

inductive lock_step :: "'r redis \<Rightarrow> 'r world \<Rightarrow> 'r world \<Rightarrow> bool" for R where
  pass: "0 \<le> d \<Longrightarrow> lock_step R w (w\<lparr>w_now := w_now w + d\<rparr>)"
| create: "w_locks w uuid = None \<Longrightarrow> expiry \<ge> second \<Longrightarrow>
    lock_step R w (w\<lparr>w_locks := (w_locks w)(uuid \<mapsto> NewRedisLock key expiry uuid)\<rparr>)"
| acquire: "w_locks w i = Some l \<Longrightarrow> TryLock R (w_now w) l (w_redis w) = (Some True, l', r') \<Longrightarrow>
    lock_step R w (w\<lparr>w_locks := (w_locks w)(i \<mapsto> l'), w_redis := r', w_lease := (w_lease w)(i \<mapsto> w_now w + rl_expiry l)\<rparr>)"
| refused: "w_locks w i = Some l \<Longrightarrow> TryLock R (w_now w) l (w_redis w) = (b, l', r') \<Longrightarrow> b \<noteq> Some True \<Longrightarrow>
    lock_step R w (w\<lparr>w_locks := (w_locks w)(i \<mapsto> l'), w_redis := r'\<rparr>)"
| renew: "w_locks w i = Some l \<Longrightarrow> autoRenew R tick (w_now w) l (w_redis w) = (l', r') \<Longrightarrow>
    lock_step R w (w\<lparr>w_locks := (w_locks w)(i \<mapsto> l'), w_redis := r',
      w_lease := (if rl_renewing l' \<and> tick then (w_lease w)(i \<mapsto> w_now w + rl_expiry l div second * second) else w_lease w)\<rparr>)"
| unlock: "w_locks w i = Some l \<Longrightarrow> Unlock R (w_now w) l (w_redis w) = (ok, l', r') \<Longrightarrow>
    lock_step R w (w\<lparr>w_locks := (w_locks w)(i \<mapsto> l'), w_redis := r', w_lease := (w_lease w)(i := None)\<rparr>)"

inductive_cases lock_stepE: "lock_step R w w'"

section \<open>Properties\<close>

subsection \<open>One holder\<close>

lemmas SetNX_wins = redis_ok_def[THEN iffD1, THEN conjunct1, rule_format]
  and SetNX_later = redis_ok_def[THEN iffD1, THEN conjunct2, THEN conjunct1, rule_format]
  and Del_later = redis_ok_def[THEN iffD1, THEN conjunct2, THEN conjunct2, THEN conjunct1, rule_format]
  and Expire_later = redis_ok_def[THEN iffD1, THEN conjunct2, THEN conjunct2, THEN conjunct2, THEN conjunct1, rule_format]
  and Get_earlier = redis_ok_def[THEN iffD1, THEN conjunct2, THEN conjunct2, THEN conjunct2, THEN conjunct2, rule_format]

text \<open>Until the end of a lease the key shows the value of the lock that has it.\<close>

definition leases_ok :: "'r redis \<Rightarrow> 'r world \<Rightarrow> bool" where
  "leases_ok R w \<longleftrightarrow>
     (\<forall>i l. w_locks w i = Some l \<longrightarrow> rl_value l = i \<and> second \<le> rl_expiry l) \<and>
     (\<forall>i e. w_lease w i = Some e \<longrightarrow> (\<exists>l. w_locks w i = Some l \<and>
        (\<forall>t. w_now w \<le> t \<and> t < e \<longrightarrow> rGet R t (rl_key l) (w_redis w) = Some i)))"

lemma leases_okD:
  assumes "leases_ok R w" "w_lease w i = Some e"
  obtains l where "w_locks w i = Some l" "\<And>t. w_now w \<le> t \<Longrightarrow> t < e \<Longrightarrow> rGet R t (rl_key l) (w_redis w) = Some i"
  using assms unfolding leases_ok_def by blast

lemma leases_ok_write:
  assumes "leases_ok R w" "w_locks w i = Some l"
    and "rl_value l' = i" "rl_key l' = rl_key l" "rl_expiry l' = rl_expiry l"
    and others: "\<And>j lj t. j \<noteq> i \<Longrightarrow> w_locks w j = Some lj \<Longrightarrow> w_now w \<le> t \<Longrightarrow> rGet R (w_now w) (rl_key lj) (w_redis w) = Some j \<Longrightarrow>
      rGet R t (rl_key lj) (w_redis w) = Some j \<Longrightarrow> rGet R t (rl_key lj) r' = Some j"
    and own: "\<And>e t. lease = Some e \<Longrightarrow> w_now w \<le> t \<Longrightarrow> t < e \<Longrightarrow> rGet R t (rl_key l) r' = Some i"
  shows "leases_ok R (w\<lparr>w_locks := (w_locks w)(i \<mapsto> l'), w_redis := r', w_lease := (w_lease w)(i := lease)\<rparr>)"
proof -
  have "rGet R t (rl_key lj) r' = Some j"
    if j: "j \<noteq> i" "w_lease w j = Some e" "w_locks w j = Some lj" and t: "w_now w \<le> t" "t < e" for j e lj t
  proof -
    obtain m where "w_locks w j = Some m" "\<And>t. w_now w \<le> t \<Longrightarrow> t < e \<Longrightarrow> rGet R t (rl_key m) (w_redis w) = Some j"
      using leases_okD[OF assms(1) j(2)] by blast
    then show ?thesis using others[OF j(1,3) t(1)] j t by force
  qed
  note kept = this
  let ?w = "w\<lparr>w_locks := (w_locks w)(i \<mapsto> l'), w_redis := r', w_lease := (w_lease w)(i := lease)\<rparr>"
  have "rl_value lj = j \<and> second \<le> rl_expiry lj" if "w_locks ?w j = Some lj" for j lj
    using that assms(1-5) by (cases "j = i") (auto simp: leases_ok_def)
  moreover have "\<exists>m. w_locks ?w j = Some m \<and> (\<forall>t. w_now ?w \<le> t \<and> t < e \<longrightarrow> rGet R t (rl_key m) (w_redis ?w) = Some j)"
    if "w_lease ?w j = Some e" for j e
  proof (cases "j = i")
    case False
    then have j: "w_lease w j = Some e" using that by simp
    then obtain m where "w_locks w j = Some m" using leases_okD[OF assms(1)] by blast
    then show ?thesis using kept[OF False j] False by auto
  qed (use that own assms(4) in auto)
  ultimately show ?thesis unfolding leases_ok_def by blast
qed

lemma TryLock_frame:
  assumes "TryLock R now l r = (b, l', r')"
  shows "rl_value l' = rl_value l" "rl_key l' = rl_key l" "rl_expiry l' = rl_expiry l"
  using assms by (auto simp: TryLock_def split: if_splits prod.splits)

lemma TryLock_redis:
  assumes "TryLock R now l r = (b, l', r')" "redis_ok R" "0 < rl_expiry l" "now \<le> t"
  shows "rGet R t k r' = (if b = Some True \<and> k = rl_key l then (if t < now + rl_expiry l then Some (rl_value l) else None) else rGet R t k r)"
    "b = Some True \<Longrightarrow> rGet R now (rl_key l) r = None"
proof -
  have "r' = r \<and> b = None \<or> r' = snd (SetNX R now (rl_key l) (rl_value l) (rl_expiry l) r) \<and>
      b = Some (fst (SetNX R now (rl_key l) (rl_value l) (rl_expiry l) r))"
    using assms(1) by (auto simp: TryLock_def split: if_splits prod.splits)
  then show "rGet R t k r' = (if b = Some True \<and> k = rl_key l then (if t < now + rl_expiry l then Some (rl_value l) else None) else rGet R t k r)"
    "b = Some True \<Longrightarrow> rGet R now (rl_key l) r = None"
    using SetNX_later[OF assms(2,4,3)] SetNX_wins[OF assms(2)] by (auto split: if_splits)
qed

lemma leases_ok_TryLock:
  assumes "leases_ok R w" "redis_ok R" "w_locks w i = Some l" "TryLock R (w_now w) l (w_redis w) = (b, l', r')"
  shows "leases_ok R (w\<lparr>w_locks := (w_locks w)(i \<mapsto> l'), w_redis := r',
    w_lease := (w_lease w)(i := if b = Some True then Some (w_now w + rl_expiry l) else w_lease w i)\<rparr>)"
proof (rule leases_ok_write[OF assms(1,3)])
  have v: "rl_value l = i" and "second \<le> rl_expiry l" using assms(1,3) by (simp_all add: leases_ok_def)
  then have e: "0 < rl_expiry l" using time_units_pos(1) by linarith
  note lk = TryLock_frame[OF assms(4)]
  show "rl_value l' = i" "rl_key l' = rl_key l" "rl_expiry l' = rl_expiry l" using lk v by simp_all
  note get = TryLock_redis(1)[OF assms(4,2) e] and free = TryLock_redis(2)[OF assms(4,2) e order_refl]
  show "rGet R t (rl_key lj) r' = Some j"
    if "w_now w \<le> t" "rGet R (w_now w) (rl_key lj) (w_redis w) = Some j" "rGet R t (rl_key lj) (w_redis w) = Some j" for j lj t
    using that get[of t "rl_key lj"] free by (cases "b = Some True \<and> rl_key lj = rl_key l") (auto split: if_splits)
  show "rGet R t (rl_key l) r' = Some i"
    if "(if b = Some True then Some (w_now w + rl_expiry l) else w_lease w i) = Some e" "w_now w \<le> t" "t < e" for e t
    using that get[of t "rl_key l"] v leases_okD[OF assms(1), of i e] assms(3) by (fastforce split: if_splits)
qed

lemma leases_ok_autoRenew:
  assumes "leases_ok R w" "redis_ok R" "w_locks w i = Some l" "autoRenew R tick (w_now w) l (w_redis w) = (l', r')"
  shows "leases_ok R (w\<lparr>w_locks := (w_locks w)(i \<mapsto> l'), w_redis := r',
    w_lease := (w_lease w)(i := if rl_renewing l' \<and> tick then Some (w_now w + rl_expiry l div second * second) else w_lease w i)\<rparr>)"
proof (rule leases_ok_write[OF assms(1,3)])
  let ?n = "rl_expiry l div second"
  have v: "rl_value l = i" and n: "0 < ?n"
    using assms(1,3) time_units_pos(1) by (auto simp: leases_ok_def pos_imp_zdiv_pos_iff)
  have "rl_value l' = rl_value l" "rl_key l' = rl_key l" "rl_expiry l' = rl_expiry l"
    using assms(4) by (auto simp: autoRenew_def split: if_splits prod.splits)
  then show "rl_value l' = i" "rl_key l' = rl_key l" "rl_expiry l' = rl_expiry l" using v by simp_all
  have r': "rl_renewing l' \<and> tick \<and> rGet R (w_now w) (rl_key l) (w_redis w) = Some i \<and> r' = rExpire R (w_now w) (rl_key l) ?n (w_redis w) \<or>
      \<not> (rl_renewing l' \<and> tick) \<and> r' = w_redis w"
    using assms(4) v by (auto simp: autoRenew_def renew_script_def split: if_splits prod.splits)
  show "rGet R t (rl_key lj) r' = Some j"
    if "j \<noteq> i" "w_now w \<le> t" "rGet R (w_now w) (rl_key lj) (w_redis w) = Some j" "rGet R t (rl_key lj) (w_redis w) = Some j" for j lj t
    using r' that Expire_later[OF assms(2) that(2) n] by auto
  show "rGet R t (rl_key l) r' = Some i"
    if "(if rl_renewing l' \<and> tick then Some (w_now w + ?n * second) else w_lease w i) = Some e" "w_now w \<le> t" "t < e" for e t
    using that r' Expire_later[OF assms(2) that(2) n] leases_okD[OF assms(1), of i e] assms(3) by (fastforce split: if_splits)
qed

lemma leases_ok_Unlock:
  assumes "leases_ok R w" "redis_ok R" "w_locks w i = Some l" "Unlock R (w_now w) l (w_redis w) = (ok, l', r')"
  shows "leases_ok R (w\<lparr>w_locks := (w_locks w)(i \<mapsto> l'), w_redis := r', w_lease := (w_lease w)(i := None)\<rparr>)"
proof (rule leases_ok_write[OF assms(1,3)])
  have v: "rl_value l = i" using assms(1,3) by (simp add: leases_ok_def)
  show "rl_value l' = i" "rl_key l' = rl_key l" "rl_expiry l' = rl_expiry l"
    using assms(4) v by (auto simp: Unlock_def Let_def split: if_splits prod.splits)
  have "r' = w_redis w \<or> rGet R (w_now w) (rl_key l) (w_redis w) = Some i \<and> r' = rDel R (w_now w) (rl_key l) (w_redis w)"
    using assms(4) v by (auto simp: Unlock_def release_script_def Let_def split: if_splits prod.splits)
  then show "rGet R t (rl_key lj) r' = Some j"
    if "j \<noteq> i" "w_now w \<le> t" "rGet R (w_now w) (rl_key lj) (w_redis w) = Some j" "rGet R t (rl_key lj) (w_redis w) = Some j" for j lj t
    using that Del_later[OF assms(2) that(2)] by auto
qed simp

lemma leases_ok_step:
  assumes "lock_step R w w'" "redis_ok R" "leases_ok R w"
  shows "leases_ok R w'"
  using assms(1)
proof cases
  case (pass d)
  then show ?thesis using assms(3) by (fastforce simp: leases_ok_def)
next
  case (create uuid expiry key)
  then show ?thesis using assms(3) by (fastforce simp: leases_ok_def NewRedisLock_def)
next
  case (acquire i l l' r')
  then show ?thesis using leases_ok_TryLock[OF assms(3,2), of i l "Some True" l' r'] by simp
next
  case (refused i l b l' r')
  then show ?thesis using leases_ok_TryLock[OF assms(3,2), of i l b l' r'] by (simp cong: if_cong)
next
  case (renew i l tick l' r')
  have "(w_lease w)(i := if rl_renewing l' \<and> tick then Some (w_now w + rl_expiry l div second * second) else w_lease w i) =
      (if rl_renewing l' \<and> tick then (w_lease w)(i \<mapsto> w_now w + rl_expiry l div second * second) else w_lease w)" by simp
  then show ?thesis using leases_ok_autoRenew[OF assms(3,2) renew(2,3)] unfolding renew(1) by simp
next
  case (unlock i l ok l' r')
  then show ?thesis using leases_ok_Unlock[OF assms(3,2)] by simp
qed

definition no_locks :: "'r world \<Rightarrow> bool" where
  "no_locks w \<longleftrightarrow> w_locks w = (\<lambda>_. None) \<and> w_lease w = (\<lambda>_. None)"

lemma no_locks_ok: "no_locks w \<Longrightarrow> leases_ok R w"
  by (simp add: no_locks_def leases_ok_def)

lemma leases_ok_reached: "(lock_step R)\<^sup>*\<^sup>* w0 w \<Longrightarrow> redis_ok R \<Longrightarrow> no_locks w0 \<Longrightarrow> leases_ok R w"
  by (induction rule: rtranclp_induct) (auto intro: no_locks_ok leases_ok_step)

text \<open>C22: however processes create, take, renew and release locks, and however time passes, at most one
  lock on a key has a lease that is still running.\<close>

theorem lock_exclusive:
  assumes "redis_ok R" "no_locks w0" "(lock_step R)\<^sup>*\<^sup>* w0 w"
    and "w_locks w i = Some l" "w_locks w j = Some m" "rl_key l = rl_key m"
    and "w_lease w i = Some e" "w_now w < e" "w_lease w j = Some f" "w_now w < f"
  shows "i = j"
proof -
  have ok: "leases_ok R w" using leases_ok_reached assms(1-3) by blast
  have "rGet R (w_now w) (rl_key l) (w_redis w) = Some i" using leases_okD[OF ok assms(7)] assms(4,8) by force
  moreover have "rGet R (w_now w) (rl_key m) (w_redis w) = Some j" using leases_okD[OF ok assms(9)] assms(5,10) by force
  ultimately show ?thesis using assms(6) by simp
qed

subsection \<open>Keeping and releasing\<close>

text \<open>Renewals one after the other, at the given times.\<close>

definition renewals :: "'r redis \<Rightarrow> time list \<Rightarrow> RedisLock \<times> 'r \<Rightarrow> RedisLock \<times> 'r" where
  "renewals R ts lr = fold (\<lambda>now (l, r). autoRenew R True now l r) ts lr"

lemma autoRenew_held:
  assumes "redis_ok R" "rl_renewing l" "\<not> rl_cancelled l" "second \<le> rl_expiry l" "rGet R now (rl_key l) r = Some (rl_value l)"
  shows "\<exists>r'. autoRenew R True now l r = (l, r') \<and>
    (\<forall>t. now \<le> t \<and> t < now + rl_expiry l div second * second \<longrightarrow> rGet R t (rl_key l) r' = Some (rl_value l))"
proof -
  have "0 < rl_expiry l div second" using assms(4) by (simp add: pos_imp_zdiv_pos_iff)
  from Expire_later[OF assms(1) _ this] show ?thesis using assms by (simp add: autoRenew_def renew_script_def)
qed


lemma unlock_refuses:
  assumes "redis_ok R" "ctx_checked R" "TryLock R t0 l r = (Some True, l1, r1)" "0 < rl_expiry l"
    and "Unlock R t1 l1 r1 = (ok, l2, r2)" "t0 \<le> t2" "t2 < t0 + rl_expiry l"
    and "rl_key m = rl_key l" "\<not> rl_cancelled m" "0 < rl_expiry m"
  shows "\<not> ok \<and> fst (TryLock R t2 m r2) = Some False"
proof -
  have "\<not> ok \<and> r2 = r1" using assms(2,5) by (auto simp: Unlock_def)
  moreover have "rGet R t2 (rl_key l) r1 = Some (rl_value l)"
    using TryLock_redis(1)[OF assms(3,1,4,6), of "rl_key l"] assms(7) by simp
  ultimately show ?thesis
    using assms(8,9) SetNX_wins[OF assms(1), of t2 "rl_key l" "rl_value m" "rl_expiry m" r1]
    by (cases "SetNX R t2 (rl_key l) (rl_value m) (rl_expiry m) r1") (simp add: TryLock_def)
qed

text \<open>A lock is not released.  \<open>Unlock\<close> cancels the context that it then uses, so with a client
  that refuses cancelled contexts the key stays, and everybody else fails to take it
  until the expiry has passed.\<close>

theorem unlock_does_not_release:
  assumes "redis_ok R" "ctx_checked R" "TryLock R t0 l r = (Some True, l1, r1)" "0 < rl_expiry l"
    and "Unlock R t1 l1 r1 = (ok, l2, r2)" "t0 \<le> t2" "t2 < t0 + rl_expiry l"
    and "rl_key m = rl_key l" "\<not> rl_cancelled m" "0 < rl_expiry m"
  shows "\<not> ok \<and> fst (TryLock R t2 m r2) = Some False"
  by (rule unlock_refuses[OF assms])

subsection \<open>An instance\<close>

text \<open>A server that keeps values with their times of expiry.\<close>

definition mem_Get :: "time \<Rightarrow> string \<Rightarrow> (string \<Rightarrow> (string \<times> time) option) \<Rightarrow> string option" where
  "mem_Get now key r = (case r key of None \<Rightarrow> None | Some (v, e) \<Rightarrow> if now < e then Some v else None)"

definition mem_redis :: "(string \<Rightarrow> (string \<times> time) option) redis" where
  "mem_redis = \<lparr>SetNX = (\<lambda>now key v ex r. if mem_Get now key r = None then (True, r(key \<mapsto> (v, now + ex))) else (False, r)),
     rGet = mem_Get, rDel = (\<lambda>now key r. r(key := None)),
     rExpire = (\<lambda>now key n r. case mem_Get now key r of None \<Rightarrow> r | Some v \<Rightarrow> r(key \<mapsto> (v, now + n * second))),
     ctx_checked = True\<rparr>"

lemma redis_ok_mem: "redis_ok mem_redis"
  unfolding redis_ok_def mem_redis_def
  by (auto simp: mem_Get_def split: option.splits if_splits prod.splits)

definition monitor_lock :: "string \<Rightarrow> RedisLock" where
  "monitor_lock uuid = NewRedisLock ''zjump:host_monitor:lock'' (10 * minute) uuid"

definition taken :: "bool option \<times> RedisLock \<times> (string \<Rightarrow> (string \<times> time) option)" where
  "taken = TryLock mem_redis 0 (monitor_lock ''a'') (\<lambda>_. None)"

theorem unlock_does_not_release_witness:
  "fst (TryLock mem_redis (5 * minute) (monitor_lock ''b'')
     (snd (snd (Unlock mem_redis minute (fst (snd taken)) (snd (snd taken)))))) = Some False"
proof -
  have t: "TryLock mem_redis 0 (monitor_lock ''a'') (\<lambda>_. None) = (Some True, fst (snd taken), snd (snd taken))"
    by (simp add: taken_def TryLock_def mem_redis_def mem_Get_def monitor_lock_def NewRedisLock_def)
  show ?thesis
    using unlock_does_not_release[OF redis_ok_mem _ t, of minute _ _ _ "5 * minute" "monitor_lock ''b''"]
    by (cases "Unlock mem_redis minute (fst (snd taken)) (snd (snd taken))")
      (auto simp: mem_redis_def monitor_lock_def NewRedisLock_def minute_def second_def)
qed


definition quiet_world :: "(string \<Rightarrow> (string \<times> time) option) world" where
  "quiet_world = \<lparr>w_now = 0, w_locks = (\<lambda>_. None), w_redis = (\<lambda>_. None), w_lease = (\<lambda>_. None)\<rparr>"

theorem lock_exclusive_witness:
  "\<exists>w l. (lock_step mem_redis)\<^sup>*\<^sup>* quiet_world w \<and> w_locks w ''a'' = Some l \<and> w_lease w ''a'' = Some (10 * minute) \<and>
     (\<forall>j m f. w_locks w j = Some m \<and> rl_key m = rl_key l \<and> w_lease w j = Some f \<and> w_now w < f \<longrightarrow> ''a'' = j)"
proof -
  let ?w1 = "quiet_world\<lparr>w_locks := (w_locks quiet_world)(''a'' \<mapsto> monitor_lock ''a'')\<rparr>"
  let ?w2 = "?w1\<lparr>w_locks := (w_locks ?w1)(''a'' \<mapsto> fst (snd taken)), w_redis := snd (snd taken),
      w_lease := (w_lease ?w1)(''a'' \<mapsto> w_now ?w1 + rl_expiry (monitor_lock ''a''))\<rparr>"
  have s1: "lock_step mem_redis quiet_world ?w1"
    using lock_step.create[of quiet_world "''a''" "10 * minute" mem_redis "''zjump:host_monitor:lock''"]
    by (simp add: quiet_world_def monitor_lock_def minute_def second_def)
  have "TryLock mem_redis 0 (monitor_lock ''a'') (\<lambda>_. None) = (Some True, fst (snd taken), snd (snd taken))"
    by (simp add: taken_def TryLock_def mem_redis_def mem_Get_def monitor_lock_def NewRedisLock_def)
  then have s2: "lock_step mem_redis ?w1 ?w2" by (intro lock_step.acquire) (simp_all add: quiet_world_def)
  have reach: "(lock_step mem_redis)\<^sup>*\<^sup>* quiet_world ?w2"
    by (rule converse_rtranclp_into_rtranclp[of "lock_step mem_redis", OF s1 r_into_rtranclp[of "lock_step mem_redis", OF s2]])
  have ls: "w_locks ?w2 ''a'' = Some (fst (snd taken))" "w_lease ?w2 ''a'' = Some (10 * minute)"
    by (simp_all add: quiet_world_def monitor_lock_def NewRedisLock_def)
  have start: "no_locks quiet_world" "w_now ?w2 < 10 * minute" by (simp_all add: no_locks_def quiet_world_def)
  have one: "''a'' = j" if "w_locks ?w2 j = Some m" "rl_key m = rl_key (fst (snd taken))" "w_lease ?w2 j = Some f" "w_now ?w2 < f" for j m f
    by (rule lock_exclusive[OF redis_ok_mem start(1) reach ls(1) that(1) that(2)[symmetric] ls(2) start(2) that(3,4)])
  show ?thesis
    by (rule exI[of _ ?w2], rule exI[of _ "fst (snd taken)"], intro conjI allI impI, (rule reach ls)+, (elim conjE)?, rule one)
qed

end
