(* ===== verification/Host_Monitor.thy ===== *)
theory Host_Monitor
imports Routing Redis_Lock
begin

text \<open>
  The monitor of host states, \<open>internal/service/host_monitor_service.go\<close> with its requests
  (\<open>host_monitor_handler.go\<close>): its configuration from the settings, the goroutine with
  the ticker, and the rounds of checks, guarded by the lock of Redis_Lock when Redis is
  in use, with the change messages of \<open>pkg/distributed/config_sync.go\<close>.  The probes of the
  network are an argument; a panic is \<open>None\<close>.
\<close>

section \<open>Configuration\<close>

record HostMonitorConfig =
  mc_Enabled :: bool
  mc_Interval :: int
  mc_Method :: string
  mc_Timeout :: int
  mc_Concurrent :: int

text \<open>The running goroutines of tickers are kept as the list of their intervals.\<close>

record monitor =
  hm_config :: HostMonitorConfig
  hm_interval :: time
  hm_isRunning :: bool
  hm_tickers :: "time list"

definition positive :: "string \<Rightarrow> int option" where
  "positive s = (case Atoi s of (n, ok) \<Rightarrow> if ok \<and> n > 0 then Some n else None)"

definition loadConfig :: "Setting list \<Rightarrow> monitor \<Rightarrow> monitor" where
  "loadConfig t m =
     (let c = hm_config m;
          c = (let enabled = Setting_Get ''host_monitor_enabled'' t
               in if enabled \<noteq> [] then c\<lparr>mc_Enabled := (enabled = ''true'')\<rparr> else c);
          interval = positive (Setting_Get ''host_monitor_interval'' t);
          c = (case interval of None \<Rightarrow> c | Some n \<Rightarrow> c\<lparr>mc_Interval := n\<rparr>);
          c = (let m = Setting_Get ''host_monitor_method'' t in if m \<noteq> [] then c\<lparr>mc_Method := m\<rparr> else c);
          c = (case positive (Setting_Get ''host_monitor_timeout'' t) of None \<Rightarrow> c | Some n \<Rightarrow> c\<lparr>mc_Timeout := n\<rparr>);
          c = (case positive (Setting_Get ''host_monitor_concurrent'' t) of None \<Rightarrow> c | Some n \<Rightarrow> c\<lparr>mc_Concurrent := n\<rparr>)
      in m\<lparr>hm_config := c,
           hm_interval := (case interval of None \<Rightarrow> hm_interval m | Some n \<Rightarrow> int64 (n * minute))\<rparr>)"

definition NewHostMonitorService :: "int \<Rightarrow> Setting list \<Rightarrow> monitor" where
  "NewHostMonitorService intervalMinutes t =
     (let n = (if intervalMinutes \<le> 0 then 5 else intervalMinutes) in
      loadConfig t \<lparr>hm_config = \<lparr>mc_Enabled = True, mc_Interval = n, mc_Method = ''tcp'', mc_Timeout = 3, mc_Concurrent = 20\<rparr>,
        hm_interval = int64 (n * minute), hm_isRunning = False, hm_tickers = []\<rparr>)"

section \<open>Ticker\<close>

definition stopTicker :: "monitor \<Rightarrow> monitor" where
  "stopTicker m = (if hm_isRunning m then m\<lparr>hm_isRunning := False, hm_tickers := tl (hm_tickers m)\<rparr> else m)"

text \<open>\<open>time.NewTicker\<close> panics for an interval that is not positive.\<close>

definition startTicker :: "monitor \<Rightarrow> monitor option" where
  "startTicker m =
     (let m = (if hm_isRunning m then stopTicker m else m) in
      if hm_interval m \<le> 0 then None
      else Some (m\<lparr>hm_isRunning := True, hm_tickers := hm_interval m # hm_tickers m\<rparr>))"

definition monitor_Start :: "monitor \<Rightarrow> monitor option" where
  "monitor_Start m = (if mc_Enabled (hm_config m) then startTicker m else Some m)"

definition ReloadConfig :: "Setting list \<Rightarrow> monitor \<Rightarrow> monitor option" where
  "ReloadConfig t m =
     (let oldInterval = hm_interval m; oldEnabled = mc_Enabled (hm_config m);
          m = loadConfig t m; newEnabled = mc_Enabled (hm_config m)
      in if oldEnabled \<noteq> newEnabled then (if newEnabled then startTicker m else Some (stopTicker m))
         else if newEnabled \<and> oldInterval \<noteq> hm_interval m then startTicker (stopTicker m)
         else Some m)"

text \<open>\<open>Stop\<close> closes the channel on which every ticker goroutine ends.\<close>

definition monitor_Stop :: "monitor \<Rightarrow> monitor" where
  "monitor_Stop m = m\<lparr>hm_isRunning := (if hm_tickers m = [] then hm_isRunning m else False), hm_tickers := []\<rparr>"

text \<open>A message of the change channel: the listener of the monitor reloads for its own keys.\<close>

definition monitor_keys :: "string list" where
  "monitor_keys = [''host_monitor_enabled'', ''host_monitor_interval'', ''host_monitor_method'', ''host_monitor_timeout'',
     ''host_monitor_concurrent'']"

definition config_listener :: "Setting list \<Rightarrow> string \<Rightarrow> monitor \<Rightarrow> monitor option" where
  "config_listener t key m = (if key \<in> set monitor_keys then ReloadConfig t m else Some m)"

text \<open>\<open>handleMessage\<close> on a payload that was decoded or not; a missing member reads as the empty text.\<close>

definition handleMessage :: "(string \<Rightarrow> string option) option \<Rightarrow> (string \<times> string) option" where
  "handleMessage data = (case data of
     None \<Rightarrow> None
   | Some d \<Rightarrow> Some (case d ''key'' of None \<Rightarrow> [] | Some k \<Rightarrow> k, case d ''value'' of None \<Rightarrow> [] | Some v \<Rightarrow> v))"

section \<open>Probes\<close>

record probes =
  Dial_tcp :: "string \<Rightarrow> time \<Rightarrow> bool"
  Run_command :: "string list \<Rightarrow> time \<Rightarrow> bool"
  Get_http :: "string \<Rightarrow> time \<Rightarrow> bool"
  GOOS :: string

definition checkTCPPort :: "probes \<Rightarrow> string \<Rightarrow> int \<Rightarrow> time \<Rightarrow> bool" where
  "checkTCPPort N ip port timeout = Dial_tcp N (ip @ '':'' @ print_int port) timeout"

definition ping_command :: "string \<Rightarrow> string \<Rightarrow> time \<Rightarrow> string list" where
  "ping_command goos ip timeout =
     (let ms = print_int (timeout div 1000000); sec = print_int (max 1 (timeout div second)) in
      if goos = ''windows'' then [''ping'', ''-n'', ''1'', ''-w'', ms, ip]
      else if goos = ''darwin'' then [''ping'', ''-c'', ''1'', ''-W'', ms, ip]
      else [''ping'', ''-c'', ''1'', ''-W'', sec, ip])"

definition checkICMP :: "probes \<Rightarrow> string \<Rightarrow> time \<Rightarrow> bool" where
  "checkICMP N ip timeout = Run_command N (ping_command (GOOS N) ip timeout) (timeout + second)"

definition checkHTTP :: "probes \<Rightarrow> string \<Rightarrow> int \<Rightarrow> time \<Rightarrow> bool" where
  "checkHTTP N ip port timeout =
     Get_http N (''http://'' @ ip @ '':'' @ print_int (if port = 22 \<or> port = 0 then 80 else port)) timeout"

definition checkHostStatus :: "probes \<Rightarrow> HostMonitorConfig \<Rightarrow> Host \<Rightarrow> bool" where
  "checkHostStatus N c host =
     (let timeout = int64 (mc_Timeout c * second) in
      if mc_Method c = ''icmp'' then checkICMP N (ho_IP host) timeout
      else if mc_Method c = ''http'' then checkHTTP N (ho_IP host) (ho_Port host) timeout
      else checkTCPPort N (ho_IP host) (if ho_Port host = 0 then 22 else ho_Port host) timeout)"

definition newStatus :: "bool \<Rightarrow> string" where "newStatus online = (if online then ''online'' else ''offline'')"

section \<open>Rounds\<close>

text \<open>One goroutine of a round, for a host as it was loaded.\<close>

definition check_host :: "probes \<Rightarrow> HostMonitorConfig \<Rightarrow> Host \<Rightarrow> Host list \<Rightarrow> Host list" where
  "check_host N c host t =
     (let status = newStatus (checkHostStatus N c host) in
      if ho_Status host \<noteq> status then Host_UpdateStatus (ho_ID host) status t else t)"

text \<open>The goroutines run in some order: a permutation of the loaded hosts.\<close>

definition doCheckAllHosts :: "probes \<Rightarrow> (Host list \<Rightarrow> Host list) \<Rightarrow> sql_match \<Rightarrow> HostMonitorConfig \<Rightarrow> Host list \<Rightarrow> Host list" where
  "doCheckAllHosts N schedule M c t =
     fold (check_host N c) (schedule (fst (FindAllWithPagination M 1 10000 [] [] t))) t"

definition lockKey :: string where "lockKey = ''zjump:host_monitor:lock''"

text \<open>The times are those of \<open>TryLock\<close> and of \<open>Unlock\<close>.\<close>

definition checkAllHostsWithLock :: "'r redis \<Rightarrow> time \<Rightarrow> time \<Rightarrow> string \<Rightarrow> (Host list \<Rightarrow> Host list) \<Rightarrow> monitor \<Rightarrow> 'r \<times> Host list \<Rightarrow> 'r \<times> Host list" where
  "checkAllHostsWithLock R start finish uuid round m rt = (case rt of (r, t) \<Rightarrow>
     (case TryLock R start (NewRedisLock lockKey (int64 (hm_interval m * 2)) uuid) r of
        (Some True, l, r1) \<Rightarrow> (case Unlock R finish l r1 of (ok, l2, r2) \<Rightarrow> (r2, round t))
      | (_, l, r1) \<Rightarrow> (r1, t)))"

definition checkAllHosts :: "'r redis option \<Rightarrow> time \<Rightarrow> time \<Rightarrow> string \<Rightarrow> (Host list \<Rightarrow> Host list) \<Rightarrow> monitor \<Rightarrow> 'r \<times> Host list \<Rightarrow> 'r \<times> Host list" where
  "checkAllHosts R start finish uuid round m rt =
     (if \<not> mc_Enabled (hm_config m) then rt
      else (case R of
          Some R \<Rightarrow> checkAllHostsWithLock R start finish uuid round m rt
        | None \<Rightarrow> (case rt of (r, t) \<Rightarrow> (r, round t))))"

definition CheckHostStatusNow :: "probes \<Rightarrow> HostMonitorConfig \<Rightarrow> string \<Rightarrow> Host list \<Rightarrow> bool option \<times> Host list" where
  "CheckHostStatusNow N c hostID t = (case Host_FindByID hostID t of
     None \<Rightarrow> (None, t)
   | Some host \<Rightarrow>
       (let online = checkHostStatus N c host in (Some online, Host_UpdateStatus (ho_ID host) (newStatus online) t)))"

definition CheckHostStatus :: "probes \<Rightarrow> HostMonitorConfig \<Rightarrow> string \<Rightarrow> Host list \<Rightarrow> (nat \<times> (bool \<times> string) option) \<times> Host list" where
  "CheckHostStatus N c hostID t = (case CheckHostStatusNow N c hostID t of
     (None, t1) \<Rightarrow> ((500, None), t1)
   | (Some online, t1) \<Rightarrow> ((200, Some (online, newStatus online)), t1))"

section \<open>Properties\<close>

subsection \<open>A round\<close>

lemma check_host_update:
  "check_host N c host t = update_where (\<lambda>h. ho_ID h = ho_ID host)
     (\<lambda>h. if ho_Status host \<noteq> newStatus (checkHostStatus N c host) then h\<lparr>ho_Status := newStatus (checkHostStatus N c host)\<rparr> else h) t"
  by (cases "ho_Status host = newStatus (checkHostStatus N c host)")
    (simp_all add: check_host_def Host_UpdateStatus_def update_where_def Let_def)

lemma keep_status: "ho_Status h = s \<Longrightarrow> h\<lparr>ho_Status := s\<rparr> = h"
  by (cases h) simp

text \<open>In whatever order the goroutines of a round finish, every loaded host ends with the state
  its probe reported, and all else stays; of more than 10000 hosts the newest 10000 are
  checked.\<close>

theorem round_reports_all:
  assumes "distinct (map ho_ID t)" "\<And>hs. mset (schedule hs) = mset hs"
  shows "doCheckAllHosts N schedule M c t =
    map (\<lambda>h. if h \<in> set (take 10000 (newest t)) then h\<lparr>ho_Status := newStatus (checkHostStatus N c h)\<rparr> else h) t"
proof -
  let ?page = "take 10000 (newest t)"
  have page: "fst (FindAllWithPagination M 1 10000 [] [] t) = ?page"
    by (simp add: FindAllWithPagination_def paginate_def page_offset_def in_int64_def)
  have "distinct (newest t)" using assms(1) by (simp add: newest_def distinct_map)
  then have "distinct (schedule ?page)" using mset_eq_imp_distinct_iff[OF assms(2)[of ?page]] by simp
  moreover have set: "set (schedule ?page) = set ?page" by (rule mset_eq_setD[OF assms(2)])
  moreover have "set (schedule ?page) \<subseteq> set t" unfolding set using set_take_subset[of 10000 "newest t"] by simp
  ultimately have "fold (check_host N c) (schedule ?page) t =
      map (\<lambda>h. if h \<in> set ?page then (if ho_Status h \<noteq> newStatus (checkHostStatus N c h)
        then h\<lparr>ho_Status := newStatus (checkHostStatus N c h)\<rparr> else h) else h) t"
    using fold_row_updates[of ho_ID t "schedule ?page" "\<lambda>host h. if ho_Status host \<noteq> newStatus (checkHostStatus N c host)
        then h\<lparr>ho_Status := newStatus (checkHostStatus N c host)\<rparr> else h"] assms(1)
    unfolding check_host_update[abs_def] by simp
  then show ?thesis by (auto simp: doCheckAllHosts_def page keep_status)
qed

subsection \<open>Rounds and the lock\<close>

text \<open>With Redis the monitor loses every other round.  After an instance has made its round, no
  instance with the same settings makes one at the next tick, although nobody holds the
  lock: the release fails and the key lives for two intervals.\<close>

theorem next_round_skipped:
  assumes "redis_ok R" "ctx_checked R" "0 < hm_interval m" "in_int64 (hm_interval m * 2)"
    and "checkAllHosts (Some R) T finish uuid round m (r, t) = (r1, t1)" "rGet R T lockKey r = None"
    and "mc_Enabled (hm_config m)"
  shows "t1 = round t \<and> snd (checkAllHosts (Some R) (T + hm_interval m) finish' uuid' round' m (r1, t1)) = t1"
proof -
  let ?l = "NewRedisLock lockKey (hm_interval m * 2) uuid"
  obtain l1 r0 where got: "TryLock R T ?l r = (Some True, l1, r0)"
    using SetNX_wins[OF assms(1), of T lockKey uuid "hm_interval m * 2" r] assms(6)
    by (cases "SetNX R T lockKey uuid (hm_interval m * 2) r") (simp add: TryLock_def NewRedisLock_def)
  obtain ok l2 r2 where un: "Unlock R finish l1 r0 = (ok, l2, r2)" by (cases "Unlock R finish l1 r0") auto
  have r1: "r1 = r2" "t1 = round t"
    using assms(4,5,7) got un by (simp_all add: checkAllHosts_def checkAllHostsWithLock_def)
  have "fst (TryLock R (T + hm_interval m) (NewRedisLock lockKey (hm_interval m * 2) uuid') r2) = Some False"
    using unlock_refuses[OF assms(1,2) got _ un, of "T + hm_interval m" "NewRedisLock lockKey (hm_interval m * 2) uuid'"] assms(3)
    by (simp add: NewRedisLock_def)
  then show ?thesis using assms(4) r1
    by (auto simp: checkAllHosts_def checkAllHostsWithLock_def split: prod.splits option.splits bool.splits)
qed

subsection \<open>The ticker\<close>

text \<open>The monitor of a started service: one ticker with the current interval while it is enabled.\<close>

definition ticking :: "monitor \<Rightarrow> bool" where
  "ticking m \<longleftrightarrow> hm_isRunning m = mc_Enabled (hm_config m) \<and>
     hm_tickers m = (if mc_Enabled (hm_config m) then [hm_interval m] else [])"

lemma loadConfig_ticker [simp]:
  "hm_isRunning (loadConfig t m) = hm_isRunning m" "hm_tickers (loadConfig t m) = hm_tickers m"
  by (simp_all add: loadConfig_def Let_def)

lemma ReloadConfig_ticking:
  assumes "ticking m" "ReloadConfig t m = Some m'"
  shows "ticking m'"
  using assms
  by (auto simp: ReloadConfig_def ticking_def startTicker_def stopTicker_def Let_def split: if_splits)

lemma Start_ticking:
  "hm_tickers m = [] \<Longrightarrow> \<not> hm_isRunning m \<Longrightarrow> monitor_Start m = Some m' \<Longrightarrow> ticking m'"
  by (auto simp: monitor_Start_def ticking_def startTicker_def Let_def split: if_splits)

text \<open>The reloads of a service, for the settings at each of them.\<close>

fun reloads :: "Setting list list \<Rightarrow> monitor \<Rightarrow> monitor option" where
  "reloads [] m = Some m"
| "reloads (t # ts) m = (case ReloadConfig t m of None \<Rightarrow> None | Some m1 \<Rightarrow> reloads ts m1)"

lemma reloads_ticking: "ticking m \<Longrightarrow> reloads ts m = Some m' \<Longrightarrow> ticking m'"
  by (induction ts arbitrary: m) (auto split: option.splits intro: ReloadConfig_ticking)

lemma loadConfig_enabled:
  "Setting_Get ''host_monitor_enabled'' t \<noteq> [] \<Longrightarrow>
   mc_Enabled (hm_config (loadConfig t m)) = (Setting_Get ''host_monitor_enabled'' t = ''true'')"
  by (simp add: loadConfig_def Let_def split: option.splits)

lemma loadConfig_interval:
  "positive (Setting_Get ''host_monitor_interval'' t) = Some n \<Longrightarrow> hm_interval (loadConfig t m) = int64 (n * minute)"
  by (simp add: loadConfig_def Let_def)

text \<open>A started monitor follows its settings.  After any reloads that do not panic there is one
  ticker goroutine with the current interval if the monitor is enabled, and none
  otherwise; the last settings decide both.\<close>

theorem monitor_follows_settings:
  assumes "monitor_Start (NewHostMonitorService n t0) = Some m0" "reloads (ts @ [t]) m0 = Some m"
  shows "ticking m \<and>
    (Setting_Get ''host_monitor_enabled'' t \<noteq> [] \<longrightarrow>
       (hm_tickers m \<noteq> []) = (Setting_Get ''host_monitor_enabled'' t = ''true'')) \<and>
    (\<forall>k. positive (Setting_Get ''host_monitor_interval'' t) = Some k \<longrightarrow> hm_interval m = int64 (k * minute))"
proof -
  have m0: "ticking m0" using Start_ticking[OF _ _ assms(1)] by (simp add: NewHostMonitorService_def Let_def)
  then have tick: "ticking m" using reloads_ticking[OF _ assms(2)] by simp
  have "\<exists>m1. ReloadConfig t m1 = Some m" if "reloads (ts @ [t]) m' = Some m" for m'
    using that by (induction ts arbitrary: m') (auto split: option.splits)
  then obtain m1 where "ReloadConfig t m1 = Some m" using assms(2) by blast
  then have "hm_config m = hm_config (loadConfig t m1)" "hm_interval m = hm_interval (loadConfig t m1)"
    by (auto simp: ReloadConfig_def startTicker_def stopTicker_def Let_def split: if_splits)
  then show ?thesis using tick loadConfig_enabled[of t m1] loadConfig_interval[of t _ m1]
    by (auto simp: ticking_def)
qed

text \<open>An interval of 153722868 minutes or a little more, which the settings accept, wraps to a
  negative duration, and the ticker panics.\<close>

theorem huge_interval_panics:
  assumes "ticking m" "mc_Enabled (hm_config m)" "0 < hm_interval m"
    and "Setting_Get ''host_monitor_enabled'' t = []" "Setting_Get ''host_monitor_interval'' t = print_int n"
    and "153722868 \<le> n" "n < 2 * 153722867"
  shows "ReloadConfig t m = None"
proof -
  have "positive (print_int n) = Some n" using assms(6,7) by (simp add: positive_def in_int64_def)
  then have i: "hm_interval (loadConfig t m) = int64 (n * minute)" using assms(5) loadConfig_interval by simp
  have "2 ^ 63 < n * minute" "n * minute < 2 ^ 64" using assms(6,7) by (simp_all add: minute_def second_def)
  then have "(n * minute + 2 ^ 63) mod 2 ^ 64 = n * minute + 2 ^ 63 - 2 ^ 64"
    by (simp add: mod_pos_geq flip: minute_def)
  then have neg: "int64 (n * minute) < 0" using \<open>n * minute < 2 ^ 64\<close> by (simp add: int64_def)
  have "mc_Enabled (hm_config (loadConfig t m))" using assms(2,4) by (simp add: loadConfig_def Let_def split: option.splits)
  then show ?thesis using assms(1-3) i neg
    by (simp add: ReloadConfig_def startTicker_def stopTicker_def ticking_def Let_def)
qed

subsection \<open>An instance\<close>

definition quiet_net :: probes where
  "quiet_net = \<lparr>Dial_tcp = (\<lambda>a t. a = ''10.0.0.3:22''), Run_command = (\<lambda>c t. False), Get_http = (\<lambda>u t. False), GOOS = ''linux''\<rparr>"

definition five_minutes :: monitor where "five_minutes = NewHostMonitorService 5 []"

theorem round_reports_all_witness:
  "map ho_Status (doCheckAllHosts quiet_net rev no_like (hm_config five_minutes) (hd_hosts host_table)) = [''offline'', ''online'']"
proof -
  have "distinct (map ho_ID (hd_hosts host_table))" by code_simp
  from round_reports_all[OF this, of rev quiet_net no_like "hm_config five_minutes"]
  have "doCheckAllHosts quiet_net rev no_like (hm_config five_minutes) (hd_hosts host_table) =
    map (\<lambda>h. if h \<in> set (take 10000 (newest (hd_hosts host_table)))
      then h\<lparr>ho_Status := newStatus (checkHostStatus quiet_net (hm_config five_minutes) h)\<rparr> else h) (hd_hosts host_table)" by simp
  moreover have "take 10000 (newest (hd_hosts host_table)) = newest (hd_hosts host_table)"
    by (rule take_all) (simp, code_simp)
  moreover have "map ho_Status (map (\<lambda>h. if h \<in> set (newest (hd_hosts host_table))
      then h\<lparr>ho_Status := newStatus (checkHostStatus quiet_net (hm_config five_minutes) h)\<rparr> else h) (hd_hosts host_table)) =
      [''offline'', ''online'']" by code_simp
  ultimately show ?thesis by simp
qed

lemma five_minutes_simps: "hm_interval five_minutes = 5 * minute" "mc_Enabled (hm_config five_minutes)"
  "hm_tickers five_minutes = []" "\<not> hm_isRunning five_minutes"
  by code_simp+

theorem next_round_skipped_witness:
  "let (r1, t1) = checkAllHosts (Some mem_redis) 0 second ''a'' tl five_minutes (\<lambda>_. None, [blank_host, blank_host])
   in t1 = [blank_host] \<and> snd (checkAllHosts (Some mem_redis) (5 * minute) (6 * minute) ''b'' tl five_minutes (r1, t1)) = t1"
proof -
  obtain r1 t1 where r: "checkAllHosts (Some mem_redis) 0 second ''a'' tl five_minutes (\<lambda>_. None, [blank_host, blank_host]) = (r1, t1)"
    by fastforce
  have both: "t1 = tl [blank_host, blank_host] \<and>
      snd (checkAllHosts (Some mem_redis) (0 + hm_interval five_minutes) (6 * minute) ''b'' tl five_minutes (r1, t1)) = t1"
    by (rule next_round_skipped[OF redis_ok_mem _ _ _ r])
      (simp_all add: mem_redis_def mem_Get_def five_minutes_simps in_int64_def minute_def second_def)
  show ?thesis unfolding r Let_def prod.case using both[unfolded five_minutes_simps add_0 list.sel] .
qed

definition ticking_five :: monitor where
  "ticking_five = five_minutes\<lparr>hm_isRunning := True, hm_tickers := [5 * minute]\<rparr>"

lemma started_five: "monitor_Start (NewHostMonitorService 5 []) = Some ticking_five" "ticking ticking_five"
  using five_minutes_simps
  by (simp_all add: ticking_five_def monitor_Start_def startTicker_def ticking_def minute_def second_def flip: five_minutes_def)

definition interval_setting :: "string \<Rightarrow> Setting list" where
  "interval_setting s = Setting_Upsert ''host_monitor_interval'' s ''host_monitor'' ''number'' []"

lemma interval_setting_Get:
  "Setting_Get ''host_monitor_interval'' (interval_setting s) = s" "Setting_Get ''host_monitor_enabled'' (interval_setting s) = []"
  by (simp_all add: interval_setting_def Setting_Get_def Setting_Upsert_def Setting_GetByKey_def key_is_def First_def next_setting_ID_def table_simps)

theorem huge_interval_panics_witness: "ReloadConfig (interval_setting (print_int 153722868)) ticking_five = None"
  by (rule huge_interval_panics[OF started_five(2), where n = 153722868])
    (simp_all add: interval_setting_Get ticking_five_def five_minutes_simps)

theorem monitor_follows_settings_witness:
  "\<exists>m. reloads [interval_setting (print_int 1)] ticking_five = Some m \<and> hm_tickers m = [minute]"
proof -
  have "ReloadConfig (interval_setting (print_int 1)) ticking_five \<noteq> None" by code_simp
  then obtain m where m: "reloads ([] @ [interval_setting (print_int 1)]) ticking_five = Some m" by auto
  from monitor_follows_settings[OF started_five(1) m] have "ticking m" "hm_interval m = minute"
    by (auto simp: interval_setting_Get positive_def in_int64_def minute_def second_def)
  moreover have "mc_Enabled (hm_config (the (ReloadConfig (interval_setting (print_int 1)) ticking_five)))" by code_simp
  then have "mc_Enabled (hm_config m)" using m by (simp split: option.splits)
  ultimately show ?thesis using m by (simp add: ticking_def)
qed

end
