(* ===== verification/Recorder.thy ===== *)
theory Recorder
imports Go_Json Go_Numbers
begin

text \<open>
  The session recorder, \<open>internal/bastion/recorder/recorder.go\<close>: events go through a buffered
  channel to a goroutine that collects them, and are exported in the asciinema format.
  The recorder is used from several goroutines, so recording is split into its check and
  its send, and the uses form a step relation.  The text of a float is an argument.
\<close>

section \<open>Definitions\<close>

datatype EventType = EventTypeOutput | EventTypeInput

record rec_event =
  ev_Time :: time
  ev_Type :: EventType
  ev_Data :: string

record Recorder =
  rc_sessionID :: string
  rc_startTime :: time
  rc_events :: "rec_event list"
  rc_eventChan :: "rec_event list"
  rc_closed :: bool
  rc_width :: int
  rc_height :: int

definition NewRecorder :: "time \<Rightarrow> string \<Rightarrow> int \<Rightarrow> int \<Rightarrow> Recorder" where
  "NewRecorder now sessionID width height =
     \<lparr>rc_sessionID = sessionID, rc_startTime = now, rc_events = [], rc_eventChan = [], rc_closed = False,
      rc_width = width, rc_height = height\<rparr>"

definition channel_capacity :: nat where "channel_capacity = 1000"

text \<open>The select of \<open>RecordOutput\<close> and \<open>RecordInput\<close>: a full channel drops the event, a closed one
  panics (\<open>None\<close>).\<close>

definition send_event :: "rec_event \<Rightarrow> Recorder \<Rightarrow> Recorder option" where
  "send_event e r =
     (if rc_closed r then None
      else Some (if length (rc_eventChan r) < channel_capacity then r\<lparr>rc_eventChan := rc_eventChan r @ [e]\<rparr> else r))"

definition new_event :: "time \<Rightarrow> EventType \<Rightarrow> string \<Rightarrow> Recorder \<Rightarrow> rec_event" where
  "new_event now typ data r = \<lparr>ev_Time = now - rc_startTime r, ev_Type = typ, ev_Data = data\<rparr>"

text \<open>Recording from a single goroutine.\<close>

definition RecordOutput :: "time \<Rightarrow> string \<Rightarrow> Recorder \<Rightarrow> Recorder option" where
  "RecordOutput now data r = (if rc_closed r then Some r else send_event (new_event now EventTypeOutput data r) r)"

definition RecordInput :: "time \<Rightarrow> string \<Rightarrow> Recorder \<Rightarrow> Recorder option" where
  "RecordInput now data r = (if rc_closed r then Some r else send_event (new_event now EventTypeInput data r) r)"

text \<open>One turn of \<open>processEvents\<close>.\<close>

definition process_event :: "Recorder \<Rightarrow> Recorder" where
  "process_event r = (case rc_eventChan r of
     [] \<Rightarrow> r | e # es \<Rightarrow> r\<lparr>rc_events := rc_events r @ [e], rc_eventChan := es\<rparr>)"

definition Recorder_Close :: "Recorder \<Rightarrow> Recorder" where
  "Recorder_Close r = (if rc_closed r then r else r\<lparr>rc_closed := True\<rparr>)"

definition type_text :: "EventType \<Rightarrow> string" where
  "type_text typ = (case typ of EventTypeOutput \<Rightarrow> ''o'' | EventTypeInput \<Rightarrow> ''i'')"

definition quoted :: "string \<Rightarrow> string" where "quoted s = [CHR 0x22] @ s @ [CHR 0x22]"

definition header_line :: "Recorder \<Rightarrow> string" where
  "header_line r = ''{'' @ quoted ''version'' @ '':2,'' @ quoted ''width'' @ '':'' @ print_int (rc_width r) @ '','' @
     quoted ''height'' @ '':'' @ print_int (rc_height r) @ '','' @ quoted ''timestamp'' @ '':'' @
     print_int (rc_startTime r div second) @ '','' @ quoted ''env'' @ '':{'' @ quoted ''TERM'' @ '':'' @
     quoted ''xterm-256color'' @ ''}}''"

definition event_line :: "(time \<Rightarrow> string) \<Rightarrow> rec_event \<Rightarrow> string" where
  "event_line float e = ''['' @ float (ev_Time e) @ '','' @ quoted (type_text (ev_Type e)) @ '','' @ json_string (ev_Data e) @ '']''"

definition newline :: string where "newline = [CHR 0x0A]"

definition ToAsciinema :: "(time \<Rightarrow> string) \<Rightarrow> Recorder \<Rightarrow> string" where
  "ToAsciinema float r =
     header_line r @ newline @ concat (map (\<lambda>e. event_line float e @ newline) (rc_events r))"

definition GetEventCount :: "Recorder \<Rightarrow> nat" where "GetEventCount r = length (rc_events r)"

section \<open>Concurrent use\<close>

text \<open>\<open>checked\<close> are the events whose check of \<open>closed\<close> has passed and whose send is still to come;
  \<open>accepted\<close>, a ghost, are the events that got into the channel, in order.\<close>

record rec_state =
  rs_rec :: Recorder
  rs_checked :: "rec_event list"
  rs_accepted :: "rec_event list"

inductive rec_step :: "rec_state \<Rightarrow> rec_state \<Rightarrow> bool" where
  check: "\<not> rc_closed (rs_rec s) \<Longrightarrow> e = new_event now typ data (rs_rec s) \<Longrightarrow>
    rec_step s (s\<lparr>rs_checked := e # rs_checked s\<rparr>)"
| send: "rs_checked s = xs @ e # ys \<Longrightarrow> send_event e (rs_rec s) = Some r \<Longrightarrow>
    rec_step s (s\<lparr>rs_rec := r, rs_checked := xs @ ys,
      rs_accepted := rs_accepted s @ (if r = rs_rec s then [] else [e])\<rparr>)"
| process: "rec_step s (s\<lparr>rs_rec := process_event (rs_rec s)\<rparr>)"
| close: "rec_step s (s\<lparr>rs_rec := Recorder_Close (rs_rec s)\<rparr>)"

text \<open>A goroutine whose send comes after the channel was closed panics.\<close>

definition rec_panics :: "rec_state \<Rightarrow> bool" where
  "rec_panics s \<longleftrightarrow> (\<exists>e \<in> set (rs_checked s). send_event e (rs_rec s) = None)"

definition fresh_recording :: "rec_state \<Rightarrow> bool" where
  "fresh_recording s \<longleftrightarrow> (\<exists>now i w h. rs_rec s = NewRecorder now i w h) \<and> rs_checked s = [] \<and> rs_accepted s = []"

section \<open>Properties\<close>

definition recording_ok :: "rec_state \<Rightarrow> bool" where
  "recording_ok s \<longleftrightarrow> rc_events (rs_rec s) @ rc_eventChan (rs_rec s) = rs_accepted s \<and>
     length (rc_eventChan (rs_rec s)) \<le> channel_capacity"

lemma recording_ok_step: "rec_step s s' \<Longrightarrow> recording_ok s \<Longrightarrow> recording_ok s'"
proof (induction rule: rec_step.induct)
  case (send s xs e ys r)
  have "r = rs_rec s \<or> r = (rs_rec s)\<lparr>rc_eventChan := rc_eventChan (rs_rec s) @ [e]\<rparr> \<and> length (rc_eventChan (rs_rec s)) < channel_capacity"
    using send.hyps(2) by (auto simp: send_event_def split: if_splits)
  moreover have "(rs_rec s)\<lparr>rc_eventChan := rc_eventChan (rs_rec s) @ [e]\<rparr> \<noteq> rs_rec s"
    by (cases "rs_rec s") simp
  ultimately show ?case using send.prems by (auto simp: recording_ok_def)
qed (auto simp: recording_ok_def process_event_def Recorder_Close_def split: list.splits)

lemma recording_ok_reached: "rec_step\<^sup>*\<^sup>* s s' \<Longrightarrow> fresh_recording s \<Longrightarrow> recording_ok s'"
  by (induction rule: rtranclp_induct)
    (auto simp: fresh_recording_def recording_ok_def[of s] NewRecorder_def intro: recording_ok_step)

text \<open>The collected events are always the beginning of the accepted ones, in their order; what is
  missing waits in the channel, which never holds more than 1000 events.  An export is
  therefore complete exactly when the channel has been drained.\<close>

theorem recording_in_order:
  assumes "fresh_recording s0" "rec_step\<^sup>*\<^sup>* s0 s"
  shows "rs_accepted s = rc_events (rs_rec s) @ rc_eventChan (rs_rec s) \<and> length (rc_eventChan (rs_rec s)) \<le> 1000 \<and>
    (rc_events (rs_rec s) = rs_accepted s \<longleftrightarrow> rc_eventChan (rs_rec s) = [])"
  using recording_ok_reached[OF assms(2,1)] by (auto simp: recording_ok_def channel_capacity_def)

text \<open>Closing a recorder under a goroutine that is about to record panics: after its check has
  passed, a close leaves a state in which its send fails.\<close>

theorem close_under_writer_panics:
  assumes "rec_step\<^sup>*\<^sup>* s0 s" "rs_checked s \<noteq> []"
  shows "\<exists>s'. rec_step s s' \<and> rec_panics s'"
proof -
  let ?s = "s\<lparr>rs_rec := Recorder_Close (rs_rec s)\<rparr>"
  have "rec_step s ?s" by (rule rec_step.close)
  moreover have "rec_panics ?s" using assms(2)
    by (cases "rs_checked s") (auto simp: rec_panics_def send_event_def Recorder_Close_def)
  ultimately show ?thesis by blast
qed

subsection \<open>The exported text\<close>

definition free_of_newline :: "string \<Rightarrow> bool" where "free_of_newline s \<longleftrightarrow> CHR 0x0A \<notin> set s"

lemma print_digits_line: "0 \<le> n \<Longrightarrow> free_of_newline (print_digits n)"
  using print_digits_ok[of n] by (auto simp: free_of_newline_def list_all_iff is_digit_def)

lemma print_int_line: "free_of_newline (print_int n)"
  using print_digits_line[of n] print_digits_line[of "- n"] by (auto simp: print_int_def free_of_newline_def)

lemma json_char_line: "CHR 0x0A \<notin> set (json_char c)"
proof -
  have d: "hex_digit k \<noteq> CHR 0x0A" if "k < 16" for k
  proof -
    have "ord (hex_digit k) = (if k < 10 then 48 + k else 87 + k)" using that by (auto simp: hex_digit_def chr_def)
    then have "ord (hex_digit k) \<noteq> ord (CHR 0x0A)" by simp
    then show ?thesis by metis
  qed
  have "ord c div 16 < 16" by (rule less_mult_imp_div_less) simp
  then have "hex_digit (ord c div 16) \<noteq> CHR 0x0A" "hex_digit (ord c mod 16) \<noteq> CHR 0x0A"
    using d[of "ord c div 16"] d[of "ord c mod 16"] by simp_all
  then show ?thesis by (auto simp: json_char_def)
qed

lemma header_line_line: "free_of_newline (header_line r)"
  using print_int_line by (auto simp: header_line_def free_of_newline_def quoted_def)

lemma event_line_line: "free_of_newline (float (ev_Time e)) \<Longrightarrow> free_of_newline (event_line float e)"
  using json_char_line by (auto simp: event_line_def free_of_newline_def quoted_def json_string_def type_text_def split: EventType.splits)

lemma lines_Join: "h @ newline @ concat (map (\<lambda>l. l @ newline) ls) = Join (h # ls @ [[]]) newline"
  by (induction ls arbitrary: h) simp_all

text \<open>The exported recording has one line for the header and one for each collected event, whatever
  bytes were recorded.\<close>

theorem asciinema_lines:
  assumes "\<And>t. CHR 0x0A \<notin> set (float t)"
  shows "SplitChar (CHR 0x0A) (ToAsciinema float r) = header_line r # map (event_line float) (rc_events r) @ [[]]"
proof -
  have "ToAsciinema float r = Join (header_line r # map (event_line float) (rc_events r) @ [[]]) newline"
    using lines_Join[of "header_line r" "map (event_line float) (rc_events r)"] by (simp add: ToAsciinema_def comp_def)
  then show ?thesis
    using header_line_line[of r] event_line_line[of float] assms unfolding newline_def
    by (simp only:) (rule split_by_Join, auto simp: free_of_newline_def)
qed

subsection \<open>An instance\<close>

definition recorded :: "rec_event list \<Rightarrow> rec_state" where
  "recorded es = \<lparr>rs_rec = (NewRecorder 0 ''s'' 80 24)\<lparr>rc_eventChan := es\<rparr>, rs_checked = [], rs_accepted = es\<rparr>"

definition typed_event :: rec_event where "typed_event = \<lparr>ev_Time = 5, ev_Type = EventTypeInput, ev_Data = ''ls''\<rparr>"

lemma fresh_recorded: "fresh_recording (recorded [])"
  by (auto simp: fresh_recording_def recorded_def NewRecorder_def)

lemma checked_reached: "rec_step (recorded []) ((recorded [])\<lparr>rs_checked := [typed_event]\<rparr>)"
  using rec_step.check[of "recorded []" typed_event 5 EventTypeInput "''ls''"]
  by (simp add: recorded_def NewRecorder_def new_event_def typed_event_def)

lemma sent_reached: "rec_step ((recorded [])\<lparr>rs_checked := [typed_event]\<rparr>) (recorded [typed_event])"
  using rec_step.send[of "(recorded [])\<lparr>rs_checked := [typed_event]\<rparr>" "[]" typed_event "[]"
      "(NewRecorder 0 ''s'' 80 24)\<lparr>rc_eventChan := [typed_event]\<rparr>"]
  by (simp add: recorded_def NewRecorder_def send_event_def channel_capacity_def)

theorem recording_in_order_witness:
  "rs_accepted (recorded [typed_event]) = [typed_event] \<and> rc_events (rs_rec (recorded [typed_event])) \<noteq> [typed_event]"
proof -
  have "rec_step\<^sup>*\<^sup>* (recorded []) (recorded [typed_event])"
    using checked_reached sent_reached by (meson r_into_rtranclp rtranclp_trans)
  from recording_in_order[OF fresh_recorded this] show ?thesis by (simp add: recorded_def NewRecorder_def)
qed

theorem close_under_writer_panics_witness:
  "\<exists>s'. rec_step ((recorded [])\<lparr>rs_checked := [typed_event]\<rparr>) s' \<and> rec_panics s'"
  by (rule close_under_writer_panics[OF r_into_rtranclp[of rec_step, OF checked_reached]]) simp

theorem asciinema_lines_witness:
  "SplitChar (CHR 0x0A) (ToAsciinema print_int (process_event (rs_rec (recorded [typed_event])))) =
     header_line (process_event (rs_rec (recorded [typed_event]))) #
     map (event_line print_int) (rc_events (process_event (rs_rec (recorded [typed_event])))) @ [[]]"
  by (rule asciinema_lines) (use print_int_line in \<open>simp add: free_of_newline_def\<close>)

end
