(* ===== verification/Audit_Trail.thy ===== *)
theory Audit_Trail
imports Hosts Host_Connection Recorder
begin

text \<open>
  The audit trail: the database auditor and its adapter for the SSH gateway
  (\<open>internal/audit\<close>), the asynchronous storage with its queues
  (\<open>internal/bastion/storage/database_storage.go\<close>) and the recorder of the SSH server
  (\<open>internal/sshserver/recorder/recorder.go\<close>), over the tables \<open>login_records\<close>,
  \<open>session_recordings\<close> and \<open>command_histories\<close>.  The calls that Host_Connection makes are
  carried out on these tables.
\<close>

section \<open>Tables\<close>

record SessionRecording =
  sr_ID :: string
  sr_SessionID :: string
  sr_ConnectionType :: string
  sr_ProxyID :: string
  sr_UserID :: string
  sr_HostID :: string
  sr_HostName :: string
  sr_HostIP :: string
  sr_Username :: string
  sr_StartTime :: time
  sr_EndTime :: "time option"
  sr_Duration :: string
  sr_CommandCount :: int
  sr_Status :: string
  sr_Recording :: string
  sr_TerminalCols :: int
  sr_TerminalRows :: int

record CommandRecord =
  cr_ID :: nat
  cr_ProxyID :: string
  cr_SessionID :: string
  cr_HostID :: string
  cr_UserID :: string
  cr_Username :: string
  cr_HostIP :: string
  cr_Command :: string
  cr_Output :: string
  cr_ExitCode :: int
  cr_ExecutedAt :: time
  cr_DurationMs :: int

record tdb =
  login_records :: "LoginRecord list"
  session_recordings :: "SessionRecording list"
  command_histories :: "CommandRecord list"

definition create_login :: "LoginRecord \<Rightarrow> tdb \<Rightarrow> tdb option" where
  "create_login l db =
     (if lo_ID l \<in> lo_ID ` set (login_records db) then None
      else Some (db\<lparr>login_records := login_records db @ [l\<lparr>lo_Status := or_default ''active'' (lo_Status l)\<rparr>]\<rparr>))"

definition create_recording :: "SessionRecording \<Rightarrow> tdb \<Rightarrow> tdb option" where
  "create_recording r db =
     (if sr_ID r \<in> sr_ID ` set (session_recordings db) \<or> sr_SessionID r \<in> sr_SessionID ` set (session_recordings db) then None
      else Some (db\<lparr>session_recordings := session_recordings db @
        [r\<lparr>sr_ConnectionType := or_default ''webshell'' (sr_ConnectionType r), sr_Status := or_default ''active'' (sr_Status r),
           sr_TerminalCols := (if sr_TerminalCols r = 0 then 80 else sr_TerminalCols r),
           sr_TerminalRows := (if sr_TerminalRows r = 0 then 24 else sr_TerminalRows r)\<rparr>]\<rparr>))"

text \<open>The key of a command is the next number.\<close>

definition next_command_ID :: "CommandRecord list \<Rightarrow> nat" where
  "next_command_ID t = Suc (fold max (map cr_ID t) 0)"

definition create_command :: "CommandRecord \<Rightarrow> tdb \<Rightarrow> tdb" where
  "create_command c db =
     db\<lparr>command_histories := command_histories db @ [c\<lparr>cr_ID := next_command_ID (command_histories db)\<rparr>]\<rparr>"

definition set_logins :: "string \<Rightarrow> (LoginRecord \<Rightarrow> LoginRecord) \<Rightarrow> tdb \<Rightarrow> tdb" where
  "set_logins sessionID f db = db\<lparr>login_records := update_where (\<lambda>l. lo_SessionID l = sessionID) f (login_records db)\<rparr>"

definition set_recording :: "string \<Rightarrow> (SessionRecording \<Rightarrow> SessionRecording) \<Rightarrow> tdb \<Rightarrow> tdb" where
  "set_recording sessionID f db =
     db\<lparr>session_recordings := update_where (\<lambda>r. sr_SessionID r = sessionID) f (session_recordings db)\<rparr>"

definition recording_of :: "string \<Rightarrow> tdb \<Rightarrow> SessionRecording option" where
  "recording_of sessionID db = First sr_ID (\<lambda>r. sr_SessionID r = sessionID) (session_recordings db)"

text \<open>The text of a duration.\<close>

definition duration_text :: "time \<Rightarrow> string" where
  "duration_text d = (let s = trunc_div d second in
     print_int (trunc_div d minute) @ ''m '' @ print_int (s - 60 * trunc_div s 60) @ ''s'')"

definition in_progress :: string where "in_progress = map char_of [232, 191, 155, 232, 161, 140, 228, 184, 173 :: nat]"

section \<open>Database auditor\<close>

record AuditInfo =
  ai_SessionID :: string
  ai_ConnectionType :: string
  ai_ProxyID :: string
  ai_UserID :: string
  ai_Username :: string
  ai_ClientIP :: string
  ai_HostID :: string
  ai_HostIP :: string
  ai_HostName :: string
  ai_StartTime :: time
  ai_TerminalCols :: int
  ai_TerminalRows :: int

definition db_AuditLoginStart :: "AuditInfo \<Rightarrow> tdb \<Rightarrow> bool \<times> tdb" where
  "db_AuditLoginStart s db =
     (case create_login \<lparr>lo_ID = ai_SessionID s, lo_UserID = ai_UserID s, lo_HostID = ai_HostID s, lo_HostName = ai_HostName s,
         lo_HostIP = ai_HostIP s, lo_Username = ai_Username s, lo_LoginIP = ai_ClientIP s, lo_LoginTime = ai_StartTime s,
         lo_LogoutTime = None, lo_Duration = None, lo_Status = ''connecting'', lo_SessionID = ai_SessionID s\<rparr> db of
        None \<Rightarrow> (False, db) | Some db1 \<Rightarrow> (True, db1))"

definition audit_recording :: "string \<Rightarrow> AuditInfo \<Rightarrow> SessionRecording" where
  "audit_recording newID s =
     \<lparr>sr_ID = newID, sr_SessionID = ai_SessionID s, sr_ConnectionType = ai_ConnectionType s, sr_ProxyID = ai_ProxyID s,
      sr_UserID = ai_UserID s, sr_HostID = ai_HostID s, sr_HostName = ai_HostName s, sr_HostIP = ai_HostIP s,
      sr_Username = ai_Username s, sr_StartTime = ai_StartTime s, sr_EndTime = None, sr_Duration = in_progress,
      sr_CommandCount = 0, sr_Status = ''active'', sr_Recording = [], sr_TerminalCols = ai_TerminalCols s,
      sr_TerminalRows = ai_TerminalRows s\<rparr>"

definition db_AuditLoginSuccess :: "string \<Rightarrow> AuditInfo \<Rightarrow> tdb \<Rightarrow> bool \<times> tdb" where
  "db_AuditLoginSuccess newID s db =
     (let db = set_logins (ai_SessionID s) (\<lambda>l. l\<lparr>lo_Status := ''active''\<rparr>) db in
      case create_recording (audit_recording newID s) db of None \<Rightarrow> (False, db) | Some db1 \<Rightarrow> (True, db1))"

definition db_AuditLoginFailed :: "string \<Rightarrow> time \<Rightarrow> tdb \<Rightarrow> tdb" where
  "db_AuditLoginFailed sessionID endTime db =
     set_logins sessionID (\<lambda>l. l\<lparr>lo_Status := ''failed'', lo_LogoutTime := Some endTime\<rparr>) db"

definition db_AuditSessionEnd :: "string \<Rightarrow> time \<Rightarrow> string \<Rightarrow> tdb \<Rightarrow> bool \<times> tdb" where
  "db_AuditSessionEnd sessionID endTime recording db = (case recording_of sessionID db of
     None \<Rightarrow> (False, db)
   | Some r \<Rightarrow>
       (let diff = endTime - sr_StartTime r in
        (True, set_logins sessionID
          (\<lambda>l. l\<lparr>lo_LogoutTime := Some endTime, lo_Status := ''completed'', lo_Duration := Some (trunc_div diff second)\<rparr>)
          (set_recording sessionID (\<lambda>r. r\<lparr>sr_EndTime := Some endTime, sr_Status := ''closed'',
             sr_Duration := duration_text diff, sr_Recording := recording\<rparr>) db))))"

definition db_AuditCommand :: "CommandRecord \<Rightarrow> tdb \<Rightarrow> tdb" where
  "db_AuditCommand c db =
     set_recording (cr_SessionID c) (\<lambda>r. r\<lparr>sr_CommandCount := sr_CommandCount r + 1\<rparr>) (create_command c db)"

subsection \<open>Adapter of the SSH gateway\<close>

definition gateway_info :: "SessionInfo \<Rightarrow> AuditInfo" where
  "gateway_info s = \<lparr>ai_SessionID = s_SessionID s, ai_ConnectionType = ''ssh_gateway'', ai_ProxyID = ''ssh-gateway'',
     ai_UserID = s_UserID s, ai_Username = s_Username s, ai_ClientIP = s_ClientIP s, ai_HostID = s_HostID s,
     ai_HostIP = s_HostIP s, ai_HostName = s_HostName s, ai_StartTime = s_StartTime s,
     ai_TerminalCols = int (s_TerminalCols s), ai_TerminalRows = int (s_TerminalRows s)\<rparr>"

definition ssh_AuditSessionStart :: "string \<Rightarrow> SessionInfo \<Rightarrow> tdb \<Rightarrow> bool \<times> tdb" where
  "ssh_AuditSessionStart newID s db = (case db_AuditLoginStart (gateway_info s) db of
     (False, db1) \<Rightarrow> (False, db1) | (True, db1) \<Rightarrow> db_AuditLoginSuccess newID (gateway_info s) db1)"

section \<open>Asynchronous storage\<close>

record SessionRecord =
  sn_ProxyID :: string
  sn_SessionID :: string
  sn_HostID :: string
  sn_UserID :: string
  sn_Username :: string
  sn_HostIP :: string
  sn_StartTime :: time
  sn_EndTime :: "time option"
  sn_Status :: string
  sn_Recording :: string
  sn_TerminalCols :: int
  sn_TerminalRows :: int

record DatabaseStorage =
  ds_sessionQueue :: "SessionRecord list"
  ds_commandQueue :: "CommandRecord list"
  ds_closeQueue :: "(string \<times> string) list"
  ds_closed :: bool

definition NewDatabaseStorage :: DatabaseStorage where
  "NewDatabaseStorage = \<lparr>ds_sessionQueue = [], ds_commandQueue = [], ds_closeQueue = [], ds_closed = False\<rparr>"

definition saved_recording :: "SessionRecord \<Rightarrow> SessionRecording" where
  "saved_recording s =
     \<lparr>sr_ID = sn_SessionID s, sr_SessionID = sn_SessionID s,
      sr_ConnectionType = (if sn_ProxyID s \<noteq> [] \<and> sn_ProxyID s \<noteq> ''api-server-direct'' then ''webshell'' else ''ssh_client''),
      sr_ProxyID = sn_ProxyID s, sr_UserID = sn_UserID s, sr_HostID = sn_HostID s, sr_HostName = [], sr_HostIP = sn_HostIP s,
      sr_Username = sn_Username s, sr_StartTime = sn_StartTime s, sr_EndTime = sn_EndTime s,
      sr_Duration = (case sn_EndTime s of None \<Rightarrow> in_progress | Some e \<Rightarrow> duration_text (e - sn_StartTime s)),
      sr_CommandCount = 0, sr_Status = sn_Status s, sr_Recording = sn_Recording s, sr_TerminalCols = sn_TerminalCols s,
      sr_TerminalRows = sn_TerminalRows s\<rparr>"

text \<open>\<open>FirstOrCreate\<close> with the session as its condition.\<close>

definition first_or_create :: "SessionRecording \<Rightarrow> tdb \<Rightarrow> tdb" where
  "first_or_create r db = (case recording_of (sr_SessionID r) db of
     Some _ \<Rightarrow> db | None \<Rightarrow> (case create_recording r db of None \<Rightarrow> db | Some db1 \<Rightarrow> db1))"

definition saveSessionToDB :: "SessionRecord \<Rightarrow> tdb \<Rightarrow> tdb" where
  "saveSessionToDB s db = first_or_create (saved_recording s) db"

definition closeSessionInDB :: "time \<Rightarrow> string \<Rightarrow> string \<Rightarrow> tdb \<Rightarrow> tdb" where
  "closeSessionInDB now sessionID recording db = (case recording_of sessionID db of
     None \<Rightarrow> db
   | Some r \<Rightarrow>
       (let db = set_recording sessionID (\<lambda>x. x\<lparr>sr_Status := ''closed'', sr_EndTime := Some now,
              sr_Duration := duration_text (now - sr_StartTime r), sr_Recording := recording\<rparr>) db
        in case First lo_ID (\<lambda>l. lo_SessionID l = sessionID) (login_records db) of
             None \<Rightarrow> db
           | Some l \<Rightarrow> db\<lparr>login_records := update_where (\<lambda>x. lo_ID x = lo_ID l)
               (\<lambda>x. x\<lparr>lo_LogoutTime := Some now, lo_Status := ''completed'',
                      lo_Duration := Some (trunc_div (now - lo_LoginTime l) second)\<rparr>) (login_records db)\<rparr>))"

definition saveCommandToDB :: "CommandRecord \<Rightarrow> tdb \<Rightarrow> tdb" where
  "saveCommandToDB c db = create_command (c\<lparr>cr_DurationMs := 0\<rparr>) db"

definition ds_SaveSession :: "SessionRecord \<Rightarrow> DatabaseStorage \<times> tdb \<Rightarrow> DatabaseStorage \<times> tdb" where
  "ds_SaveSession s sd = (case sd of (st, db) \<Rightarrow>
     (if ds_closed st then (st, db)
      else if length (ds_sessionQueue st) < 100 then (st\<lparr>ds_sessionQueue := ds_sessionQueue st @ [s]\<rparr>, db)
      else (st, saveSessionToDB s db)))"

definition ds_SaveCommand :: "CommandRecord \<Rightarrow> DatabaseStorage \<times> tdb \<Rightarrow> DatabaseStorage \<times> tdb" where
  "ds_SaveCommand c sd = (case sd of (st, db) \<Rightarrow>
     (if ds_closed st then (st, db)
      else if length (ds_commandQueue st) < 1000 then (st\<lparr>ds_commandQueue := ds_commandQueue st @ [c]\<rparr>, db)
      else (st, saveCommandToDB c db)))"

definition ds_CloseSession :: "time \<Rightarrow> string \<Rightarrow> string \<Rightarrow> DatabaseStorage \<times> tdb \<Rightarrow> DatabaseStorage \<times> tdb" where
  "ds_CloseSession now sessionID recording sd = (case sd of (st, db) \<Rightarrow>
     (if ds_closed st then (st, db)
      else if length (ds_closeQueue st) < 100 then (st\<lparr>ds_closeQueue := ds_closeQueue st @ [(sessionID, recording)]\<rparr>, db)
      else (st, closeSessionInDB now sessionID recording db)))"

text \<open>One turn of each of the three workers.\<close>

definition processSessionQueue :: "DatabaseStorage \<times> tdb \<Rightarrow> DatabaseStorage \<times> tdb" where
  "processSessionQueue sd = (case sd of (st, db) \<Rightarrow> (case ds_sessionQueue st of
     [] \<Rightarrow> (st, db) | s # q \<Rightarrow> (st\<lparr>ds_sessionQueue := q\<rparr>, saveSessionToDB s db)))"

definition processCommandQueue :: "DatabaseStorage \<times> tdb \<Rightarrow> DatabaseStorage \<times> tdb" where
  "processCommandQueue sd = (case sd of (st, db) \<Rightarrow> (case ds_commandQueue st of
     [] \<Rightarrow> (st, db) | c # q \<Rightarrow> (st\<lparr>ds_commandQueue := q\<rparr>, saveCommandToDB c db)))"

definition processCloseQueue :: "time \<Rightarrow> DatabaseStorage \<times> tdb \<Rightarrow> DatabaseStorage \<times> tdb" where
  "processCloseQueue now sd = (case sd of (st, db) \<Rightarrow> (case ds_closeQueue st of
     [] \<Rightarrow> (st, db) | (i, recording) # q \<Rightarrow> (st\<lparr>ds_closeQueue := q\<rparr>, closeSessionInDB now i recording db)))"

definition ds_MarkSessionFailed :: "string \<Rightarrow> tdb \<Rightarrow> tdb" where
  "ds_MarkSessionFailed sessionID db =
     set_logins sessionID (\<lambda>l. l\<lparr>lo_Status := ''failed''\<rparr>) (set_recording sessionID (\<lambda>r. r\<lparr>sr_Status := ''failed''\<rparr>) db)"

definition ds_SaveLoginRecord :: "LoginRecord \<Rightarrow> tdb \<Rightarrow> bool \<times> tdb" where
  "ds_SaveLoginRecord l db =
     (case create_login (l\<lparr>lo_ID := lo_SessionID l @ ''-login'', lo_LoginIP := [], lo_LogoutTime := None, lo_Duration := None\<rparr>) db of
        None \<Rightarrow> (False, db) | Some db1 \<Rightarrow> (True, db1))"

text \<open>No time is passed as \<open>None\<close>, the zero time of the code.\<close>

definition ds_UpdateLoginRecordStatus :: "string \<Rightarrow> string \<Rightarrow> time option \<Rightarrow> tdb \<Rightarrow> tdb" where
  "ds_UpdateLoginRecordStatus sessionID status logoutTime db = (case logoutTime of
     None \<Rightarrow> set_logins sessionID (\<lambda>l. l\<lparr>lo_Status := status\<rparr>) db
   | Some t \<Rightarrow> (case First lo_ID (\<lambda>l. lo_SessionID l = sessionID) (login_records db) of
       None \<Rightarrow> set_logins sessionID (\<lambda>l. l\<lparr>lo_Status := status, lo_LogoutTime := Some t\<rparr>) db
     | Some r \<Rightarrow> set_logins sessionID (\<lambda>l. l\<lparr>lo_Status := status, lo_LogoutTime := Some t,
           lo_Duration := Some (trunc_div (t - lo_LoginTime r) second)\<rparr>) db))"

text \<open>\<open>Close\<close> lets the workers drain their queues; here the sessions first, then the commands, then the
  requests to close.\<close>

definition ds_Close :: "time \<Rightarrow> DatabaseStorage \<times> tdb \<Rightarrow> DatabaseStorage \<times> tdb" where
  "ds_Close now sd = (case sd of (st, db) \<Rightarrow>
     (if ds_closed st then (st, db)
      else (st\<lparr>ds_closed := True, ds_sessionQueue := [], ds_commandQueue := [], ds_closeQueue := []\<rparr>,
            fold (\<lambda>(i, recording). closeSessionInDB now i recording) (ds_closeQueue st)
              (fold saveCommandToDB (ds_commandQueue st) (fold saveSessionToDB (ds_sessionQueue st) db)))))"

subsection \<open>Adapter of the web shell\<close>

text \<open>The storage of direct connections writes through the auditor at once.\<close>

definition web_info :: "SessionRecord \<Rightarrow> string \<Rightarrow> AuditInfo" where
  "web_info s hostName = \<lparr>ai_SessionID = sn_SessionID s, ai_ConnectionType = ''api_server'', ai_ProxyID = sn_ProxyID s,
     ai_UserID = sn_UserID s, ai_Username = sn_Username s, ai_ClientIP = [], ai_HostID = sn_HostID s, ai_HostIP = sn_HostIP s,
     ai_HostName = hostName, ai_StartTime = sn_StartTime s, ai_TerminalCols = sn_TerminalCols s,
     ai_TerminalRows = sn_TerminalRows s\<rparr>"

definition web_SaveSession :: "string \<Rightarrow> SessionRecord \<Rightarrow> string \<Rightarrow> tdb \<Rightarrow> bool \<times> tdb" where
  "web_SaveSession newID s hostName db = db_AuditLoginSuccess newID (web_info s hostName) db"

definition web_CloseSession :: "time \<Rightarrow> string \<Rightarrow> string \<Rightarrow> tdb \<Rightarrow> tdb" where
  "web_CloseSession now sessionID recording db = snd (db_AuditSessionEnd sessionID now recording db)"

definition web_MarkSessionFailed :: "time \<Rightarrow> string \<Rightarrow> tdb \<Rightarrow> tdb" where
  "web_MarkSessionFailed now sessionID db = db_AuditLoginFailed sessionID now db"

definition web_SaveLoginRecord :: "LoginRecord \<Rightarrow> tdb \<Rightarrow> bool \<times> tdb" where
  "web_SaveLoginRecord l db = db_AuditLoginStart
     \<lparr>ai_SessionID = lo_SessionID l, ai_ConnectionType = ''api_server'', ai_ProxyID = ''api-server-direct'', ai_UserID = lo_UserID l,
      ai_Username = lo_Username l, ai_ClientIP = [], ai_HostID = lo_HostID l, ai_HostIP = lo_HostIP l, ai_HostName = lo_HostName l,
      ai_StartTime = lo_LoginTime l, ai_TerminalCols = 0, ai_TerminalRows = 0\<rparr> db"

definition web_UpdateLoginRecordStatus :: "string \<Rightarrow> string \<Rightarrow> time \<Rightarrow> tdb \<Rightarrow> tdb" where
  "web_UpdateLoginRecordStatus sessionID status logoutTime db =
     (if status = ''failed'' then db_AuditLoginFailed sessionID logoutTime db else db)"

definition web_SaveCommand :: "CommandRecord \<Rightarrow> tdb \<Rightarrow> tdb" where "web_SaveCommand c db = db_AuditCommand c db"

section \<open>Recorder of the SSH server\<close>

record gateway =
  gw_tables :: tdb
  gw_storage :: DatabaseStorage
  gw_recorders :: "string \<Rightarrow> Recorder option"

definition ssh_RecordStart :: "time \<Rightarrow> SessionInfo \<Rightarrow> gateway \<Rightarrow> gateway" where
  "ssh_RecordStart now s g = g\<lparr>gw_recorders := (gw_recorders g)(s_SessionID s \<mapsto>
     NewRecorder now (s_SessionID s) (int (s_TerminalCols s)) (int (s_TerminalRows s)))\<rparr>"

text \<open>Only the directions \<open>in\<close> and \<open>out\<close> are recorded; a panic of the recorder leaves the gateway as it is.\<close>

definition ssh_RecordData :: "time \<Rightarrow> string \<Rightarrow> string \<Rightarrow> string \<Rightarrow> gateway \<Rightarrow> gateway" where
  "ssh_RecordData now sessionID direction data g = (case gw_recorders g sessionID of
     None \<Rightarrow> g
   | Some r \<Rightarrow>
       (case (if direction = ''in'' then RecordInput now data r
              else if direction = ''out'' then RecordOutput now data r else Some r) of
          None \<Rightarrow> g | Some r1 \<Rightarrow> g\<lparr>gw_recorders := (gw_recorders g)(sessionID \<mapsto> r1)\<rparr>))"

definition ssh_process :: "string \<Rightarrow> gateway \<Rightarrow> gateway" where
  "ssh_process sessionID g = g\<lparr>gw_recorders := (gw_recorders g)(sessionID := map_option process_event (gw_recorders g sessionID))\<rparr>"

definition ssh_RecordEnd :: "(time \<Rightarrow> string) \<Rightarrow> time \<Rightarrow> string \<Rightarrow> gateway \<Rightarrow> gateway" where
  "ssh_RecordEnd float now sessionID g = (case gw_recorders g sessionID of
     None \<Rightarrow> g
   | Some r \<Rightarrow>
       (let asciinemaData = ToAsciinema float (Recorder_Close r) in
        case ds_CloseSession now sessionID asciinemaData (gw_storage g, gw_tables g) of
          (st, db) \<Rightarrow> g\<lparr>gw_storage := st, gw_tables := db, gw_recorders := (gw_recorders g)(sessionID := None)\<rparr>))"

definition ssh_RecordError :: "time \<Rightarrow> string \<Rightarrow> string \<Rightarrow> gateway \<Rightarrow> gateway" where
  "ssh_RecordError now sessionID errMsg g =
     ssh_RecordData now sessionID ''out'' ([CHR 0x0D, CHR 0x0A] @ ''[ERROR] '' @ errMsg @ [CHR 0x0D, CHR 0x0A]) g"

subsection \<open>The events of a connection\<close>

text \<open>What is recorded between the start and the end of a recording: data in a direction, or a turn of
  the recorder's goroutine.\<close>

datatype traffic = Data time string string | Collect

fun traffic_step :: "string \<Rightarrow> traffic \<Rightarrow> gateway \<Rightarrow> gateway" where
  "traffic_step i (Data now direction data) g = ssh_RecordData now i direction data g"
| "traffic_step i Collect g = ssh_process i g"

fun carry_out :: "(time \<Rightarrow> string) \<Rightarrow> time \<Rightarrow> string \<Rightarrow> traffic list \<Rightarrow> event \<Rightarrow> gateway \<Rightarrow> gateway" where
  "carry_out float now newID ts (AuditLoginStart s) g = g\<lparr>gw_tables := snd (db_AuditLoginStart (gateway_info s) (gw_tables g))\<rparr>"
| "carry_out float now newID ts (AuditSessionFailed i) g = g\<lparr>gw_tables := db_AuditLoginFailed i now (gw_tables g)\<rparr>"
| "carry_out float now newID ts (AuditConnectionSuccess s) g =
     g\<lparr>gw_tables := snd (db_AuditLoginSuccess newID (gateway_info s) (gw_tables g))\<rparr>"
| "carry_out float now newID ts (RecordStart s) g = fold (traffic_step (s_SessionID s)) ts (ssh_RecordStart now s g)"
| "carry_out float now newID ts (AuditSessionEnd i t) g = g\<lparr>gw_tables := snd (db_AuditSessionEnd i t [] (gw_tables g))\<rparr>"
| "carry_out float now newID ts (RecordEnd i t) g = ssh_RecordEnd float now i g"
| "carry_out float now newID ts _ g = g"

text \<open>The \<open>k\<close>-th event happens at \<open>clock k\<close>.\<close>

definition carry_out_all :: "(time \<Rightarrow> string) \<Rightarrow> (nat \<Rightarrow> time) \<Rightarrow> string \<Rightarrow> traffic list \<Rightarrow> event list \<Rightarrow> gateway \<Rightarrow> gateway" where
  "carry_out_all float clock newID ts evs g = fold (\<lambda>(k, ev). carry_out float (clock k) newID ts ev) (enumerate 0 evs) g"

section \<open>Facts\<close>

definition trail_ok :: "tdb \<Rightarrow> bool" where
  "trail_ok db \<longleftrightarrow> distinct (map lo_ID (login_records db)) \<and> distinct (map sr_ID (session_recordings db)) \<and>
     distinct (map sr_SessionID (session_recordings db))"

lemma First_unique:
  assumes "distinct (map k t)"
  shows "First key (\<lambda>y. k y = i) t = first_where (\<lambda>y. k y = i) t"
proof (cases "First key (\<lambda>y. k y = i) t")
  case None
  then have "\<forall>x\<in>set t. k x \<noteq> i" by (simp add: First_None)
  then show ?thesis using None by (metis (mono_tags, lifting) first_where_None)
next
  case (Some x)
  then show ?thesis using First_SomeD[OF Some] first_where_key_iff[OF assms, of i x] by simp
qed

lemma recording_of_first: "trail_ok db \<Longrightarrow> recording_of i db = first_where (\<lambda>r. sr_SessionID r = i) (session_recordings db)"
  by (simp add: recording_of_def trail_ok_def First_unique)

lemma tables_set [simp]:
  "login_records (set_logins i f db) = update_where (\<lambda>l. lo_SessionID l = i) f (login_records db)"
  "session_recordings (set_logins i f db) = session_recordings db"
  "session_recordings (set_recording i g db) = update_where (\<lambda>r. sr_SessionID r = i) g (session_recordings db)"
  "login_records (set_recording i g db) = login_records db"
  "command_histories (set_logins i f db) = command_histories db" "command_histories (set_recording i g db) = command_histories db"
  by (simp_all add: set_logins_def set_recording_def)

lemma trail_ok_set:
  assumes "trail_ok db"
  shows "(\<And>l. lo_ID (f l) = lo_ID l) \<Longrightarrow> trail_ok (set_logins i f db)"
    "(\<And>r. sr_ID (g r) = sr_ID r) \<Longrightarrow> (\<And>r. sr_SessionID (g r) = sr_SessionID r) \<Longrightarrow> trail_ok (set_recording i g db)"
  using assms by (simp_all add: trail_ok_def update_where_keys)

lemma recording_of_set_logins [simp]: "recording_of i (set_logins j f db) = recording_of i db"
  by (simp add: recording_of_def)

lemma recording_of_set:
  assumes "trail_ok db" "\<And>r. sr_ID (g r) = sr_ID r" "\<And>r. sr_SessionID (g r) = sr_SessionID r"
  shows "recording_of i (set_recording j g db) = (if i = j then map_option g (recording_of i db) else recording_of i db)"
proof -
  have "trail_ok (set_recording j g db)" by (rule trail_ok_set(2)[OF assms])
  then show ?thesis using assms
    by (simp add: recording_of_first first_where_update_same first_where_update_other)
qed

lemma recording_of_None: "recording_of i db = None \<longleftrightarrow> i \<notin> sr_SessionID ` set (session_recordings db)"
  by (auto simp: recording_of_def First_None)

text \<open>The row as it is stored.\<close>

definition stored :: "SessionRecording \<Rightarrow> SessionRecording" where
  "stored r = r\<lparr>sr_ConnectionType := or_default ''webshell'' (sr_ConnectionType r), sr_Status := or_default ''active'' (sr_Status r),
     sr_TerminalCols := (if sr_TerminalCols r = 0 then 80 else sr_TerminalCols r),
     sr_TerminalRows := (if sr_TerminalRows r = 0 then 24 else sr_TerminalRows r)\<rparr>"

lemma create_recording_Some:
  assumes "create_recording r db = Some db1" "trail_ok db"
  shows "trail_ok db1" "recording_of i db1 = (if i = sr_SessionID r then Some (stored r) else recording_of i db)"
    "login_records db1 = login_records db" "command_histories db1 = command_histories db"
proof -
  have new: "sr_ID r \<notin> sr_ID ` set (session_recordings db)" "sr_SessionID r \<notin> sr_SessionID ` set (session_recordings db)"
    and db1: "db1 = db\<lparr>session_recordings := session_recordings db @ [stored r]\<rparr>"
    using assms(1) by (auto simp: create_recording_def stored_def split: if_splits)
  then show ok: "trail_ok db1" using assms(2) by (auto simp: trail_ok_def stored_def)
  show "recording_of i db1 = (if i = sr_SessionID r then Some (stored r) else recording_of i db)"
  proof (cases "i = sr_SessionID r")
    case True
    then have none: "recording_of i db = None" using new(2) by (simp add: recording_of_None)
    with True show ?thesis using recording_of_first[OF ok, of i] recording_of_first[OF assms(2), of i]
      by (simp add: db1 first_where_append first_where_Cons first_where_Nil) (simp add: stored_def)
  next
    case False
    then show ?thesis using recording_of_first[OF ok, of i] recording_of_first[OF assms(2), of i]
      by (simp add: db1 first_where_append first_where_Cons first_where_Nil split: option.splits) (simp add: stored_def)
  qed
  show "login_records db1 = login_records db" "command_histories db1 = command_histories db" by (simp_all add: db1)
qed

lemma trail_ok_create_login: "trail_ok db \<Longrightarrow> create_login l db = Some db1 \<Longrightarrow> trail_ok db1"
  by (auto simp: create_login_def trail_ok_def split: if_splits)

lemma trail_ok_LoginStart: "trail_ok db \<Longrightarrow> trail_ok (snd (db_AuditLoginStart s db))"
  by (auto simp: db_AuditLoginStart_def split: option.splits intro: trail_ok_create_login)

lemma trail_ok_SessionEnd: "trail_ok db \<Longrightarrow> trail_ok (snd (db_AuditSessionEnd i t recording db))"
  by (auto simp: db_AuditSessionEnd_def Let_def split: option.splits intro!: trail_ok_set)

lemma trail_ok_LoginSuccess: "trail_ok db \<Longrightarrow> trail_ok (snd (db_AuditLoginSuccess newID s db))"
proof -
  assume "trail_ok db"
  then have "trail_ok (set_logins (ai_SessionID s) (\<lambda>l. l\<lparr>lo_Status := ''active''\<rparr>) db)" by (rule trail_ok_set(1)) simp
  then show ?thesis by (auto simp: db_AuditLoginSuccess_def Let_def split: option.splits dest: create_recording_Some(1))
qed

lemma trail_ok_closeSessionInDB: "trail_ok db \<Longrightarrow> trail_ok (closeSessionInDB now i recording db)"
  by (auto simp: closeSessionInDB_def trail_ok_def set_recording_def update_where_keys Let_def split: option.splits)

lemma trail_ok_first_or_create: "trail_ok db \<Longrightarrow> trail_ok (first_or_create r db)"
  by (auto simp: first_or_create_def split: option.splits dest: create_recording_Some(1))

lemma trail_ok_saveSessionToDB: "trail_ok db \<Longrightarrow> trail_ok (saveSessionToDB s db)"
  by (simp add: saveSessionToDB_def trail_ok_first_or_create)

lemma trail_ok_saveCommandToDB: "trail_ok (saveCommandToDB c db) = trail_ok db"
  by (simp add: saveCommandToDB_def create_command_def trail_ok_def)

subsection \<open>What one session sees\<close>

definition logins :: "string \<Rightarrow> tdb \<Rightarrow> LoginRecord list" where
  "logins i db = filter (\<lambda>l. lo_SessionID l = i) (login_records db)"

definition view :: "string \<Rightarrow> tdb \<Rightarrow> SessionRecording option \<times> LoginRecord list" where
  "view i db = (recording_of i db, logins i db)"

lemma logins_set:
  assumes "\<And>l. lo_SessionID (f l) = lo_SessionID l"
  shows "logins i (set_logins j f db) = (if i = j then map f (logins i db) else logins i db)"
proof -
  have "filter (\<lambda>l. lo_SessionID l = i) (update_where (\<lambda>l. lo_SessionID l = j) f t) =
      (if i = j then map f (filter (\<lambda>l. lo_SessionID l = i) t) else filter (\<lambda>l. lo_SessionID l = i) t)" for t
    by (induction t) (auto simp: update_where_Nil update_where_Cons assms)
  then show ?thesis by (simp add: logins_def)
qed

lemma logins_set_recording [simp]: "logins i (set_recording j g db) = logins i db"
  by (simp add: logins_def)

lemma logins_update_row:
  assumes "distinct (map lo_ID t)" "l \<in> set t" "\<And>x. lo_SessionID (f x) = lo_SessionID x"
  shows "filter (\<lambda>x. lo_SessionID x = i) (update_where (\<lambda>x. lo_ID x = lo_ID l) f t) =
    (if lo_SessionID l = i then map (\<lambda>x. if lo_ID x = lo_ID l then f x else x) (filter (\<lambda>x. lo_SessionID x = i) t)
     else filter (\<lambda>x. lo_SessionID x = i) t)"
proof -
  have "x = l" if "x \<in> set t" "lo_ID x = lo_ID l" for x
    using assms(1,2) that by (auto simp: distinct_map dest: inj_onD)
  then have same: "lo_SessionID x = lo_SessionID l" if "x \<in> set t" "lo_ID x = lo_ID l" for x using that by blast
  have "set u \<subseteq> set t \<Longrightarrow> filter (\<lambda>x. lo_SessionID x = i) (update_where (\<lambda>x. lo_ID x = lo_ID l) f u) =
    (if lo_SessionID l = i then map (\<lambda>x. if lo_ID x = lo_ID l then f x else x) (filter (\<lambda>x. lo_SessionID x = i) u)
     else filter (\<lambda>x. lo_SessionID x = i) u)" for u
    using same assms(3) by (induction u) (auto simp: update_where_Nil update_where_Cons)
  then show ?thesis by blast
qed

lemma view_close_other:
  assumes "trail_ok db" "i \<noteq> j"
  shows "view i (closeSessionInDB now j recording db) = view i db"
proof (cases "recording_of j db")
  case (Some r)
  let ?g = "\<lambda>x. x\<lparr>sr_Status := ''closed'', sr_EndTime := Some now, sr_Duration := duration_text (now - sr_StartTime r), sr_Recording := recording\<rparr>"
  have rec: "recording_of i (set_recording j ?g db) = recording_of i db"
    using recording_of_set[OF assms(1), of ?g i j] assms(2) by simp
  show ?thesis
  proof (cases "First lo_ID (\<lambda>l. lo_SessionID l = j) (login_records db)")
    case None
    with Some rec show ?thesis by (simp add: view_def closeSessionInDB_def Let_def)
  next
    case (Some l)
    with \<open>recording_of j db = _\<close> rec show ?thesis
      using assms First_SomeD[OF Some]
      by (simp add: view_def closeSessionInDB_def Let_def logins_def logins_update_row trail_ok_def recording_of_def)
  qed
qed (simp add: closeSessionInDB_def)

lemma view_close_same:
  assumes "trail_ok db" "view i db = (Some r, [l])"
  shows "view i (closeSessionInDB now i recording db) =
    (Some (r\<lparr>sr_Status := ''closed'', sr_EndTime := Some now, sr_Duration := duration_text (now - sr_StartTime r), sr_Recording := recording\<rparr>),
     [l\<lparr>lo_LogoutTime := Some now, lo_Status := ''completed'', lo_Duration := Some (trunc_div (now - lo_LoginTime l) second)\<rparr>])"
proof -
  have r: "recording_of i db = Some r" and l: "filter (\<lambda>l. lo_SessionID l = i) (login_records db) = [l]"
    using assms(2) by (simp_all add: view_def logins_def)
  have "First lo_ID (\<lambda>l. lo_SessionID l = i) (login_records db) = Some l" by (simp add: First_def l)
  moreover have "l \<in> set (login_records db)" "lo_SessionID l = i" using filter_eq_ConsD[OF l] by auto
  ultimately show ?thesis using assms(1) r l
      recording_of_set[OF assms(1), of "\<lambda>x. x\<lparr>sr_Status := ''closed'', sr_EndTime := Some now,
        sr_Duration := duration_text (now - sr_StartTime r), sr_Recording := recording\<rparr>" i i]
    by (simp add: view_def closeSessionInDB_def Let_def logins_def logins_update_row trail_ok_def recording_of_def)
qed

lemma view_saveSession: "recording_of i db = Some r \<Longrightarrow> trail_ok db \<Longrightarrow> view i (saveSessionToDB s db) = view i db"
  by (auto simp: view_def saveSessionToDB_def first_or_create_def logins_def create_recording_Some(2,3) split: option.splits)

lemma view_saveCommand [simp]: "view i (saveCommandToDB c db) = view i db"
  by (simp add: view_def saveCommandToDB_def create_command_def recording_of_def logins_def)

subsection \<open>Draining the queues\<close>

lemma drain_sessions:
  assumes "trail_ok db" "recording_of i db = Some r"
  shows "trail_ok (fold saveSessionToDB ss db) \<and> view i (fold saveSessionToDB ss db) = view i db"
  using assms
proof (induction ss arbitrary: db)
  case (Cons s ss)
  have "view i (saveSessionToDB s db) = view i db" using Cons.prems by (rule view_saveSession[rotated])
  moreover have "recording_of i (saveSessionToDB s db) = Some r" using calculation Cons.prems(2) by (simp add: view_def)
  ultimately show ?case using Cons.IH[of "saveSessionToDB s db"] trail_ok_saveSessionToDB[OF Cons.prems(1)] by simp
qed simp

lemma drain_commands: "trail_ok db \<Longrightarrow> trail_ok (fold saveCommandToDB cs db) \<and> view i (fold saveCommandToDB cs db) = view i db"
  by (induction cs arbitrary: db) (simp_all add: trail_ok_saveCommandToDB)

lemma drain_closes:
  assumes "trail_ok db" "i \<notin> fst ` set cs"
  shows "trail_ok (fold (\<lambda>(j, recording). closeSessionInDB now j recording) cs db) \<and>
    view i (fold (\<lambda>(j, recording). closeSessionInDB now j recording) cs db) = view i db"
  using assms by (induction cs arbitrary: db) (auto simp: trail_ok_closeSessionInDB view_close_other)

text \<open>Closing a session through the storage: the two implementations of \<open>CloseSession\<close> keep one contract.\<close>

locale session_closing =
  fixes close :: "time \<Rightarrow> string \<Rightarrow> string \<Rightarrow> tdb \<Rightarrow> tdb"
  assumes close_ok: "trail_ok db \<Longrightarrow> trail_ok (close now i recording db)"
    and close_other: "trail_ok db \<Longrightarrow> i \<noteq> j \<Longrightarrow> view i (close now j recording db) = view i db"
    and close_same: "trail_ok db \<Longrightarrow> recording_of i db = Some r \<Longrightarrow>
      recording_of i (close now i recording db) = Some (r\<lparr>sr_Status := ''closed'', sr_EndTime := Some now,
        sr_Duration := duration_text (now - sr_StartTime r), sr_Recording := recording\<rparr>)"
begin

lemma closes_ok: "trail_ok db \<Longrightarrow> trail_ok (fold (\<lambda>(j, recording). close now j recording) cs db)"
  by (induction cs arbitrary: db) (auto simp: close_ok)

lemma closes_other:
  "trail_ok db \<Longrightarrow> i \<notin> fst ` set cs \<Longrightarrow> view i (fold (\<lambda>(j, recording). close now j recording) cs db) = view i db"
  by (induction cs arbitrary: db) (auto simp: close_ok close_other)

lemma closes_same:
  assumes "trail_ok db" "distinct (map fst cs)" "(i, recording) \<in> set cs" "recording_of i db = Some r"
  shows "recording_of i (fold (\<lambda>(j, recording). close now j recording) cs db) = Some (r\<lparr>sr_Status := ''closed'',
    sr_EndTime := Some now, sr_Duration := duration_text (now - sr_StartTime r), sr_Recording := recording\<rparr>)"
  using assms
proof (induction cs arbitrary: db)
  case (Cons c cs)
  obtain j other where c: "c = (j, other)" by (cases c)
  show ?case
  proof (cases "j = i")
    case True
    then have "i \<notin> fst ` set cs" "other = recording" using Cons.prems(2,3) by (force simp: c)+
    then show ?thesis using closes_other[OF close_ok[OF Cons.prems(1)], of i cs] close_same[OF Cons.prems(1,4)]
      by (simp add: c True view_def)
  next
    case False
    then have "recording_of i (close now j other db) = Some r"
      using close_other[OF Cons.prems(1), of i j now other] Cons.prems(4) by (simp add: view_def)
    with False show ?thesis using Cons.IH[OF close_ok[OF Cons.prems(1)]] Cons.prems(2,3) by (auto simp: c)
  qed
qed simp

end

lemma recording_of_close:
  assumes "trail_ok db" "recording_of i db = Some r"
  shows "recording_of i (closeSessionInDB now i recording db) = Some (r\<lparr>sr_Status := ''closed'', sr_EndTime := Some now,
    sr_Duration := duration_text (now - sr_StartTime r), sr_Recording := recording\<rparr>)"
  using assms recording_of_set[OF assms(1), of "\<lambda>x. x\<lparr>sr_Status := ''closed'', sr_EndTime := Some now,
        sr_Duration := duration_text (now - sr_StartTime r), sr_Recording := recording\<rparr>" i i]
  by (auto simp: closeSessionInDB_def Let_def recording_of_def split: option.splits)

interpretation queued: session_closing closeSessionInDB
  by unfold_locales (fact trail_ok_closeSessionInDB view_close_other recording_of_close)+

lemma SessionEnd_view:
  assumes "trail_ok db" "recording_of i db = Some r"
  shows "view i (snd (db_AuditSessionEnd i t recording db)) =
    (Some (r\<lparr>sr_EndTime := Some t, sr_Status := ''closed'', sr_Duration := duration_text (t - sr_StartTime r), sr_Recording := recording\<rparr>),
     map (\<lambda>l. l\<lparr>lo_LogoutTime := Some t, lo_Status := ''completed'', lo_Duration := Some (trunc_div (t - sr_StartTime r) second)\<rparr>) (logins i db))"
  using assms by (simp add: db_AuditSessionEnd_def Let_def view_def logins_set recording_of_set)

interpretation direct: session_closing web_CloseSession
proof
  fix db i j now recording and r :: SessionRecording
  assume ok: "trail_ok db"
  then show "trail_ok (web_CloseSession now i recording db)" by (simp add: web_CloseSession_def trail_ok_SessionEnd)
  show "view i (web_CloseSession now j recording db) = view i db" if "i \<noteq> j"
    using ok that by (simp add: web_CloseSession_def db_AuditSessionEnd_def Let_def view_def logins_set recording_of_set split: option.splits)
  show "recording_of i (web_CloseSession now i recording db) = Some (r\<lparr>sr_Status := ''closed'', sr_EndTime := Some now,
        sr_Duration := duration_text (now - sr_StartTime r), sr_Recording := recording\<rparr>)" if "recording_of i db = Some r"
    using SessionEnd_view[OF ok that, of now recording] by (simp add: web_CloseSession_def view_def)
qed

subsection \<open>A connection\<close>

fun record_traffic :: "traffic \<Rightarrow> Recorder \<Rightarrow> Recorder" where
  "record_traffic (Data now direction data) r =
     (case (if direction = ''in'' then RecordInput now data r
            else if direction = ''out'' then RecordOutput now data r else Some r) of None \<Rightarrow> r | Some r1 \<Rightarrow> r1)"
| "record_traffic Collect r = process_event r"

lemma traffic_step_recorder:
  "gw_recorders g i = Some r \<Longrightarrow> traffic_step i t g = g\<lparr>gw_recorders := (gw_recorders g)(i \<mapsto> record_traffic t r)\<rparr>"
  by (cases t) (auto simp: ssh_RecordData_def ssh_process_def fun_upd_idem split: option.splits)

lemma traffic_recorder:
  "gw_recorders g i = Some r \<Longrightarrow>
   fold (traffic_step i) ts g = g\<lparr>gw_recorders := (gw_recorders g)(i \<mapsto> fold record_traffic ts r)\<rparr>"
  by (induction ts arbitrary: g r) (auto simp: traffic_step_recorder fun_upd_idem)

lemma ToAsciinema_Close: "ToAsciinema float (Recorder_Close r) = ToAsciinema float r"
  by (simp add: ToAsciinema_def Recorder_Close_def header_line_def)

text \<open>The auditor's rows for a new session.\<close>

definition unused_session :: "string \<Rightarrow> string \<Rightarrow> tdb \<Rightarrow> bool" where
  "unused_session i newID db \<longleftrightarrow> i \<notin> lo_ID ` set (login_records db) \<and> i \<notin> lo_SessionID ` set (login_records db) \<and>
     i \<notin> sr_SessionID ` set (session_recordings db) \<and> newID \<notin> sr_ID ` set (session_recordings db)"

lemma LoginStart_view:
  assumes "unused_session (ai_SessionID s) newID db"
  shows "\<exists>l. view (ai_SessionID s) (snd (db_AuditLoginStart s db)) = (None, [l]) \<and> lo_UserID l = ai_UserID s \<and> lo_HostID l = ai_HostID s"
    "session_recordings (snd (db_AuditLoginStart s db)) = session_recordings db"
  using assms
  by (auto simp: unused_session_def db_AuditLoginStart_def create_login_def view_def logins_def recording_of_None recording_of_def
      First_None filter_empty_conv image_iff)

lemma LoginSuccess_view:
  assumes "trail_ok db" "view (ai_SessionID s) db = (None, [l])" "newID \<notin> sr_ID ` set (session_recordings db)"
  shows "view (ai_SessionID s) (snd (db_AuditLoginSuccess newID s db)) =
    (Some (stored (audit_recording newID s)), [l\<lparr>lo_Status := ''active''\<rparr>])"
proof -
  let ?db = "set_logins (ai_SessionID s) (\<lambda>l. l\<lparr>lo_Status := ''active''\<rparr>) db"
  have v: "recording_of (ai_SessionID s) db = None" "logins (ai_SessionID s) db = [l]" using assms(2) by (simp_all add: view_def)
  have "trail_ok ?db" using assms(1) by (rule trail_ok_set(1)) simp
  moreover obtain db1 where "create_recording (audit_recording newID s) ?db = Some db1"
    using v(1) assms(3) by (auto simp: create_recording_def audit_recording_def recording_of_None)
  moreover have "logins (ai_SessionID s) ?db = [l\<lparr>lo_Status := ''active''\<rparr>]" using v(2) by (simp add: logins_set)
  moreover have "sr_SessionID (audit_recording newID s) = ai_SessionID s" by (simp add: audit_recording_def)
  ultimately show ?thesis using create_recording_Some[of "audit_recording newID s" ?db db1]
    by (simp add: db_AuditLoginSuccess_def view_def logins_def)
qed

lemma RecordEnd_closed:
  assumes "gw_recorders g i = Some r" "\<not> ds_closed (gw_storage g)" "i \<notin> fst ` set (ds_closeQueue (gw_storage g))"
    "trail_ok (gw_tables g)" "view i (gw_tables g) = (Some x, [l])"
    "sd = (gw_storage (ssh_RecordEnd float now i g), gw_tables (ssh_RecordEnd float now i g))"
  shows "\<exists>t. view i (snd (ds_Close later sd)) = (Some (x\<lparr>sr_Status := ''closed'', sr_EndTime := Some t,
      sr_Duration := duration_text (t - sr_StartTime x), sr_Recording := ToAsciinema float r\<rparr>),
    [l\<lparr>lo_LogoutTime := Some t, lo_Status := ''completed'', lo_Duration := Some (trunc_div (t - lo_LoginTime l) second)\<rparr>])"
proof -
  let ?st = "gw_storage g" and ?db = "gw_tables g"
  let ?save = "\<lambda>db. fold saveCommandToDB (ds_commandQueue ?st) (fold saveSessionToDB (ds_sessionQueue ?st) db)"
  let ?cs = "fold (\<lambda>(j, recording). closeSessionInDB later j recording) (ds_closeQueue ?st)"
  have saved: "trail_ok (?save db) \<and> view i (?save db) = view i db" if "trail_ok db" "recording_of i db = Some y" for db y
    using drain_sessions[OF that] drain_commands by simp
  have closed: "trail_ok (?cs db) \<and> view i (?cs db) = view i db" if "trail_ok db" for db
    using queued.closes_ok[OF that] queued.closes_other[OF that assms(3)] by simp
  have rec: "recording_of i ?db = Some x" using assms(5) by (simp add: view_def)
  show ?thesis
  proof (cases "length (ds_closeQueue ?st) < 100")
    case True
    have sd: "snd (ds_Close later sd) = closeSessionInDB later i (ToAsciinema float r) (?cs (?save ?db))"
      using assms(1,2,6) True by (simp add: ssh_RecordEnd_def ds_CloseSession_def ds_Close_def ToAsciinema_Close)
    have "trail_ok (?cs (?save ?db))" "view i (?cs (?save ?db)) = (Some x, [l])"
      using saved[OF assms(4) rec] closed[of "?save ?db"] assms(5) by simp_all
    from view_close_same[OF this] show ?thesis unfolding sd by blast
  next
    case False
    let ?now = "closeSessionInDB now i (ToAsciinema float r) ?db"
    have sd: "snd (ds_Close later sd) = ?cs (?save ?now)"
      using assms(1,2,6) False by (simp add: ssh_RecordEnd_def ds_CloseSession_def ds_Close_def ToAsciinema_Close)
    have "view i (?cs (?save ?now)) = view i ?now"
      using saved[OF trail_ok_closeSessionInDB[OF assms(4)] recording_of_close[OF assms(4) rec]] closed by simp
    then show ?thesis unfolding sd using view_close_same[OF assms(4,5)] by auto
  qed
qed

lemma connected_events:
  assumes "handleHostConnection e session host = (evs, Done None)"
  obtains su where "evs = (let hs = (host_session e session host)\<lparr>s_HostUsername := su_Username su\<rparr> in
    [ShowConnectionInfo (h_Name host), AuditLoginStart hs, Dialed (h_IP host) su, AuditConnectionSuccess hs, RecordStart hs,
     AuditSessionEnd (s_SessionID hs) (e_end e), RecordEnd (s_SessionID hs) (e_end e)])"
  using assms by (auto simp: handleHostConnection_def Let_def split: option.splits sum.splits)

lemma carried_out:
  assumes "i = s_SessionID hs" "trail_ok (gw_tables g)" "unused_session i newID (gw_tables g)"
    and g'_def: "g' = fold (\<lambda>(k, ev). carry_out float (clock k) newID ts ev) [(1::nat, AuditLoginStart hs), (3, AuditConnectionSuccess hs),
      (4, RecordStart hs), (5, AuditSessionEnd i t)] g"
  shows "gw_recorders g' i = Some (fold record_traffic ts (NewRecorder (clock 4) i (int (s_TerminalCols hs)) (int (s_TerminalRows hs))))"
    "gw_storage g' = gw_storage g" "trail_ok (gw_tables g')"
    "\<exists>r l. view i (gw_tables g') = (Some r, [l]) \<and> sr_ConnectionType r = ''ssh_gateway'' \<and> sr_UserID r = s_UserID hs \<and>
      sr_HostID r = s_HostID hs \<and> lo_UserID l = s_UserID hs \<and> lo_HostID l = s_HostID hs"
proof -
  let ?a = "gateway_info hs"
  let ?db1 = "snd (db_AuditLoginStart ?a (gw_tables g))"
  let ?db2 = "snd (db_AuditLoginSuccess newID ?a ?db1)"
  let ?new = "NewRecorder (clock 4) i (int (s_TerminalCols hs)) (int (s_TerminalRows hs))"
  have id: "ai_SessionID ?a = i" by (simp add: gateway_info_def assms(1))
  have g': "g' = g\<lparr>gw_tables := snd (db_AuditSessionEnd i t [] ?db2), gw_recorders := (gw_recorders g)(i \<mapsto> fold record_traffic ts ?new)\<rparr>"
    unfolding g'_def assms(1)
    by (simp add: ssh_RecordStart_def traffic_recorder[where r = "NewRecorder (clock 4) (s_SessionID hs) (int (s_TerminalCols hs)) (int (s_TerminalRows hs))"])
  show "gw_recorders g' i = Some (fold record_traffic ts ?new)" "gw_storage g' = gw_storage g" by (simp_all add: g')
  have ok: "trail_ok ?db1" "trail_ok ?db2" using assms(2) by (simp_all add: trail_ok_LoginStart trail_ok_LoginSuccess)
  then show "trail_ok (gw_tables g')" by (simp add: g' trail_ok_SessionEnd)
  obtain l where l: "view i ?db1 = (None, [l])" "lo_UserID l = s_UserID hs" "lo_HostID l = s_HostID hs"
    using LoginStart_view(1)[of ?a newID "gw_tables g"] assms(3) id by (auto simp: gateway_info_def)
  have "newID \<notin> sr_ID ` set (session_recordings ?db1)"
    using LoginStart_view(2)[of ?a newID "gw_tables g"] assms(3) id by (simp add: unused_session_def)
  then have v: "view i ?db2 = (Some (stored (audit_recording newID ?a)), [l\<lparr>lo_Status := ''active''\<rparr>])"
    using LoginSuccess_view[of ?db1 ?a l newID] ok(1) l(1) id by simp
  then have r: "recording_of i ?db2 = Some (stored (audit_recording newID ?a))" "logins i ?db2 = [l\<lparr>lo_Status := ''active''\<rparr>]"
    by (simp_all add: view_def)
  show "\<exists>r l. view i (gw_tables g') = (Some r, [l]) \<and> sr_ConnectionType r = ''ssh_gateway'' \<and> sr_UserID r = s_UserID hs \<and>
      sr_HostID r = s_HostID hs \<and> lo_UserID l = s_UserID hs \<and> lo_HostID l = s_HostID hs"
    using SessionEnd_view[OF ok(2) r(1), of t "[]"] r(2) l(2,3)
    by (simp add: g') (simp add: stored_def audit_recording_def gateway_info_def or_default_def)
qed

text \<open>C4: a connection that ends without an error leaves, once the storage has drained its queues, exactly one login, completed,
  and one closed recording of its session, which name the user and the host and hold the exported
  text of everything that was recorded while it was open, whatever else is in the queues.\<close>

theorem connection_recorded:
  assumes "handleHostConnection e session host = (evs, Done None)" "i = s_SessionID session @ ''-'' @ e_suffix e"
    "trail_ok (gw_tables g)" "unused_session i newID (gw_tables g)"
    "\<not> ds_closed (gw_storage g)" "i \<notin> fst ` set (ds_closeQueue (gw_storage g))"
    "g' = carry_out_all float clock newID ts evs g"
  shows "\<exists>r l. view i (snd (ds_Close later (gw_storage g', gw_tables g'))) = (Some r, [l]) \<and>
    sr_Status r = ''closed'' \<and> sr_ConnectionType r = ''ssh_gateway'' \<and> sr_UserID r = s_UserID session \<and> sr_HostID r = h_ID host \<and>
    sr_Recording r = ToAsciinema float (fold record_traffic ts
      (NewRecorder (clock 4) i (int (s_TerminalCols session)) (int (s_TerminalRows session)))) \<and>
    lo_Status l = ''completed'' \<and> lo_UserID l = s_UserID session \<and> lo_HostID l = h_ID host"
proof -
  obtain su where evs: "evs = (let hs = (host_session e session host)\<lparr>s_HostUsername := su_Username su\<rparr> in
    [ShowConnectionInfo (h_Name host), AuditLoginStart hs, Dialed (h_IP host) su, AuditConnectionSuccess hs, RecordStart hs,
     AuditSessionEnd (s_SessionID hs) (e_end e), RecordEnd (s_SessionID hs) (e_end e)])"
    using assms(1) by (rule connected_events)
  define hs where "hs = (host_session e session host)\<lparr>s_HostUsername := su_Username su\<rparr>"
  define g1 where "g1 = fold (\<lambda>(k, ev). carry_out float (clock k) newID ts ev) [(1::nat, AuditLoginStart hs), (3, AuditConnectionSuccess hs),
      (4, RecordStart hs), (5, AuditSessionEnd i (e_end e))] g"
  have hs: "s_SessionID hs = i" "s_UserID hs = s_UserID session" "s_HostID hs = h_ID host"
    "s_TerminalCols hs = s_TerminalCols session" "s_TerminalRows hs = s_TerminalRows session"
    by (simp_all add: hs_def host_session_def assms(2))
  have g': "g' = ssh_RecordEnd float (clock 6) i g1"
    unfolding assms(7) evs carry_out_all_def Let_def hs_def[symmetric] g1_def by (simp add: hs(1) eval_nat_numeral)
  note c = carried_out[OF hs(1)[symmetric] assms(3,4) g1_def]
  obtain r l where v: "view i (gw_tables g1) = (Some r, [l])" "sr_ConnectionType r = ''ssh_gateway''" "sr_UserID r = s_UserID hs"
      "sr_HostID r = s_HostID hs" "lo_UserID l = s_UserID hs" "lo_HostID l = s_HostID hs"
    using c(4) by blast
  from RecordEnd_closed[OF c(1) _ _ c(3) v(1) refl, where float = float and now = "clock 6" and later = later] assms(5,6) show ?thesis
    using v(2-) by (auto simp: c(2) g' hs)
qed

lemma failed_events:
  assumes "handleHostConnection e session host = (evs, Done (Some err))" "AuditSessionFailed i \<in> set evs"
  shows "\<exists>su :: SystemUser. evs = (let hs = (host_session e session host)\<lparr>s_HostUsername := su_Username su\<rparr> in
      [ShowConnectionInfo (h_Name host), AuditLoginStart hs, AuditSessionFailed (s_SessionID hs)])"
  using assms by (auto simp: handleHostConnection_def Let_def error_shown_def split: option.splits sum.splits connection_error.splits)

text \<open>A connection whose authentication fails leaves one login, marked failed, and no recording.\<close>

theorem failed_connection_recorded:
  assumes "handleHostConnection e session host = (evs, Done (Some err))" "AuditSessionFailed i \<in> set evs"
    "trail_ok (gw_tables g)" "unused_session i newID (gw_tables g)" "g' = carry_out_all float clock newID ts evs g"
  shows "\<exists>l. view i (gw_tables g') = (None, [l]) \<and> lo_Status l = ''failed'' \<and> lo_UserID l = s_UserID session \<and>
    lo_LogoutTime l = Some (clock 2) \<and> gw_storage g' = gw_storage g \<and> gw_recorders g' = gw_recorders g"
proof -
  obtain su :: SystemUser where evs: "evs = (let hs = (host_session e session host)\<lparr>s_HostUsername := su_Username su\<rparr> in
      [ShowConnectionInfo (h_Name host), AuditLoginStart hs, AuditSessionFailed (s_SessionID hs)])"
    using failed_events[OF assms(1,2)] by blast
  define hs where "hs = (host_session e session host)\<lparr>s_HostUsername := su_Username su\<rparr>"
  have i: "i = s_SessionID hs" "ai_SessionID (gateway_info hs) = i" using assms(2) by (simp_all add: evs Let_def hs_def[symmetric] gateway_info_def)
  let ?db1 = "snd (db_AuditLoginStart (gateway_info hs) (gw_tables g))"
  have g': "g' = g\<lparr>gw_tables := db_AuditLoginFailed i (clock 2) ?db1\<rparr>"
    unfolding assms(5) evs carry_out_all_def Let_def hs_def[symmetric] by (simp add: i(1) eval_nat_numeral)
  obtain l where "view i ?db1 = (None, [l])" "lo_UserID l = s_UserID hs"
    using LoginStart_view(1)[of "gateway_info hs" newID "gw_tables g"] assms(4) i(2) by (auto simp: gateway_info_def)
  moreover have "s_UserID hs = s_UserID session" by (simp add: hs_def host_session_def)
  ultimately show ?thesis by (simp add: g' db_AuditLoginFailed_def view_def logins_set)
qed

text \<open>When the storage closes, every session with a request in the close queue and a row gets that request's recording, and
  is closed; the rows of all other sessions are as they were.\<close>

theorem queued_closes_applied:
  assumes "trail_ok db" "distinct (map fst (ds_closeQueue st))" "\<not> ds_closed st" "ds_sessionQueue st = []"
    "recording_of i db = Some r"
  shows "recording_of i (snd (ds_Close now (st, db))) =
    (case map_of (ds_closeQueue st) i of None \<Rightarrow> Some r
     | Some recording \<Rightarrow> Some (r\<lparr>sr_Status := ''closed'', sr_EndTime := Some now,
         sr_Duration := duration_text (now - sr_StartTime r), sr_Recording := recording\<rparr>))"
proof -
  let ?db = "fold saveCommandToDB (ds_commandQueue st) db"
  have ok: "trail_ok ?db" "recording_of i ?db = Some r"
    using drain_commands[OF assms(1), of "ds_commandQueue st" i] assms(5) by (simp_all add: view_def)
  have c: "snd (ds_Close now (st, db)) = fold (\<lambda>(j, recording). closeSessionInDB now j recording) (ds_closeQueue st) ?db"
    using assms(3,4) by (simp add: ds_Close_def)
  show ?thesis
  proof (cases "map_of (ds_closeQueue st) i")
    case None
    then have "i \<notin> fst ` set (ds_closeQueue st)" by (simp add: map_of_eq_None_iff)
    then show ?thesis using queued.closes_other[OF ok(1), of i] ok(2) None by (simp add: c view_def)
  next
    case (Some recording)
    then show ?thesis using queued.closes_same[OF ok(1) assms(2) map_of_SomeD[OF Some] ok(2)] by (simp add: c)
  qed
qed

subsection \<open>An instance\<close>

definition no_trail :: tdb where "no_trail = \<lparr>login_records = [], session_recordings = [], command_histories = []\<rparr>"

definition idle_gateway :: gateway where
  "idle_gateway = \<lparr>gw_tables = no_trail, gw_storage = NewDatabaseStorage, gw_recorders = (\<lambda>_. None)\<rparr>"

lemma idle_ok: "trail_ok (gw_tables idle_gateway)" "unused_session i n (gw_tables idle_gateway)" "\<not> ds_closed (gw_storage idle_gateway)"
    "ds_closeQueue (gw_storage idle_gateway) = []"
  by (simp_all add: idle_gateway_def no_trail_def trail_ok_def unused_session_def NewDatabaseStorage_def)

theorem connection_recorded_witness:
  "\<exists>r l. view ''x-00000000'' (snd (ds_Close 9 (gw_storage (carry_out_all print_int int ''n'' [Data 5 ''out'' ''hello'', Collect]
       (fst (handleHostConnection sample_conn sample_session sample_host)) idle_gateway),
     gw_tables (carry_out_all print_int int ''n'' [Data 5 ''out'' ''hello'', Collect]
       (fst (handleHostConnection sample_conn sample_session sample_host)) idle_gateway)))) = (Some r, [l]) \<and>
     sr_Status r = ''closed'' \<and> lo_Status l = ''completed''"
proof -
  have "snd (handleHostConnection sample_conn sample_session sample_host) = Done None" by code_simp
  then have h: "handleHostConnection sample_conn sample_session sample_host =
      (fst (handleHostConnection sample_conn sample_session sample_host), Done None)" by (metis prod.collapse)
  from connection_recorded[OF h refl idle_ok(1,2,3) _ refl, where float = print_int and clock = int and newID = "''n''"
      and ts = "[Data 5 ''out'' ''hello'', Collect]" and later = 9]
  show ?thesis by (auto simp: idle_ok(4) sample_session_def sample_conn_def)
qed

definition refused_conn :: conn_env where "refused_conn = sample_conn\<lparr>e_dial := (\<lambda>_. Some ''refused'')\<rparr>"

theorem failed_connection_recorded_witness:
  "\<exists>l. view ''x-00000000'' (gw_tables (carry_out_all print_int int ''n'' []
       (fst (handleHostConnection refused_conn sample_session sample_host)) idle_gateway)) = (None, [l]) \<and> lo_Status l = ''failed''"
proof -
  have "snd (handleHostConnection refused_conn sample_session sample_host) = Done (Some (DialFailed ''refused''))" by code_simp
  then have h: "handleHostConnection refused_conn sample_session sample_host =
      (fst (handleHostConnection refused_conn sample_session sample_host), Done (Some (DialFailed ''refused'')))" by (metis prod.collapse)
  have "AuditSessionFailed ''x-00000000'' \<in> set (fst (handleHostConnection refused_conn sample_session sample_host))" by code_simp
  from failed_connection_recorded[OF h this idle_ok(1,2) refl, where newID = "''n''" and float = print_int and clock = int and ts = "[]"] show ?thesis by blast
qed

definition saved_trail :: tdb where "saved_trail = saveSessionToDB \<lparr>sn_ProxyID = ''p'', sn_SessionID = ''a'', sn_HostID = ''h1'', sn_UserID = ''u1'',
  sn_Username = ''ann'', sn_HostIP = ''10.0.0.1'', sn_StartTime = 0, sn_EndTime = None, sn_Status = ''active'', sn_Recording = [],
  sn_TerminalCols = 80, sn_TerminalRows = 24\<rparr> no_trail"

theorem queued_closes_applied_witness:
  "map_option sr_Recording (recording_of ''a'' (snd (ds_Close 9 (NewDatabaseStorage\<lparr>ds_closeQueue := [(''a'', ''text'')]\<rparr>, saved_trail)))) = Some ''text''"
proof -
  have "trail_ok saved_trail" by code_simp
  moreover have "recording_of ''a'' saved_trail \<noteq> None" by code_simp
  ultimately show ?thesis
    using queued_closes_applied[of saved_trail "NewDatabaseStorage\<lparr>ds_closeQueue := [(''a'', ''text'')]\<rparr>" "''a''" _ 9]
    by (auto simp: NewDatabaseStorage_def)
qed

end
