(* ===== verification/Sessions.thy ===== *)
theory Sessions
imports Routing Audit_Trail
begin

text \<open>
  The session API: \<open>internal/repository/session_repository.go\<close>,
  \<open>internal/service/session_service.go\<close> and \<open>internal/api/handler/session_handler.go\<close>, over the
  tables of the audit trail, the hosts, the proxies and the session tokens kept in memory.
  Identifiers and tokens are generated outside and are arguments, as is the answer of a
  proxy to a request to terminate a session.  Rows with equal times come in the order of
  the table.
\<close>

section \<open>State\<close>

record SessionToken =
  tk_Token :: string
  tk_HostID :: string
  tk_UserID :: string
  tk_Username :: string
  tk_ExpiresAt :: time

record SessionHistory =
  sh_ProxyID :: string
  sh_SessionID :: string
  sh_HostID :: string
  sh_Username :: string
  sh_HostIP :: string
  sh_StartTime :: time
  sh_EndTime :: "time option"
  sh_Status :: string
  sh_Recording :: string

record sdb =
  sd_trail :: tdb
  sd_hosts :: "Host list"
  sd_proxies :: "Proxy list"
  sd_tokens :: "string \<Rightarrow> SessionToken option"
  sd_histories :: "SessionHistory list"

section \<open>Repository\<close>

subsection \<open>Logins\<close>

definition UpdateLogoutTime :: "time \<Rightarrow> string \<Rightarrow> tdb \<Rightarrow> tdb" where
  "UpdateLogoutTime now i db = db\<lparr>login_records := update_where (\<lambda>l. lo_ID l = i)
     (\<lambda>l. l\<lparr>lo_LogoutTime := Some now, lo_Status := ''completed''\<rparr>) (login_records db)\<rparr>"

definition CalculateDuration :: "string \<Rightarrow> tdb \<Rightarrow> bool \<times> tdb" where
  "CalculateDuration i db = (case First lo_ID (\<lambda>l. lo_ID l = i) (login_records db) of
     None \<Rightarrow> (False, db)
   | Some r \<Rightarrow> (case lo_LogoutTime r of
       None \<Rightarrow> (True, db)
     | Some out \<Rightarrow> (True, db\<lparr>login_records := update_where (\<lambda>l. lo_ID l = i)
         (\<lambda>l. l\<lparr>lo_Duration := Some (trunc_div (out - lo_LoginTime r) second)\<rparr>) (login_records db)\<rparr>)))"

text \<open>Only logins to hosts; an empty argument does not filter.\<close>

definition vm_logins :: "string \<Rightarrow> string \<Rightarrow> LoginRecord list \<Rightarrow> LoginRecord list" where
  "vm_logins hostID userID t = filter (\<lambda>l. lo_HostID l \<noteq> [] \<and> (hostID = [] \<or> lo_HostID l = hostID) \<and>
     (userID = [] \<or> lo_UserID l = userID)) t"

definition latest :: "('r \<Rightarrow> time) \<Rightarrow> 'r list \<Rightarrow> 'r list" where "latest at rows = sort_key (\<lambda>r. - at r) rows"

definition FindLoginRecords :: "int \<Rightarrow> int \<Rightarrow> string \<Rightarrow> tdb \<Rightarrow> LoginRecord list \<times> nat" where
  "FindLoginRecords page pageSize hostID db =
     (let rows = vm_logins hostID [] (login_records db) in (paginate page pageSize (latest lo_LoginTime rows), length rows))"

text \<open>The left join of a login with the recordings of its session.\<close>

definition with_type :: "tdb \<Rightarrow> LoginRecord \<Rightarrow> (LoginRecord \<times> string) list" where
  "with_type db l = (case filter (\<lambda>r. sr_SessionID r = lo_SessionID l) (session_recordings db) of
     [] \<Rightarrow> [(l, ''webshell'')] | rs \<Rightarrow> map (\<lambda>r. (l, sr_ConnectionType r)) rs)"

definition FindLoginRecordsByUser :: "int \<Rightarrow> int \<Rightarrow> string \<Rightarrow> string \<Rightarrow> tdb \<Rightarrow> (LoginRecord \<times> string) list \<times> nat" where
  "FindLoginRecordsByUser page pageSize hostID userID db =
     (let rows = vm_logins hostID userID (login_records db) in
      (paginate page pageSize (latest (lo_LoginTime \<circ> fst) (concat (map (with_type db) rows))), length rows))"

definition GetRecentLoginsByUser :: "int \<Rightarrow> string \<Rightarrow> tdb \<Rightarrow> LoginRecord list" where
  "GetRecentLoginsByUser limit userID db =
     take (nat limit) (latest lo_LoginTime (vm_logins [] userID (login_records db)))"

definition repo_GetRecentLogins :: "int \<Rightarrow> tdb \<Rightarrow> LoginRecord list" where
  "repo_GetRecentLogins limit db = take (nat limit) (latest lo_LoginTime (vm_logins [] [] (login_records db)))"

definition CountRecentLogins :: "time \<Rightarrow> int \<Rightarrow> tdb \<Rightarrow> nat" where
  "CountRecentLogins now hours db =
     length (filter (\<lambda>l. now + int64 (int64 (- hours) * hour) \<le> lo_LoginTime l) (login_records db))"

definition CountRecentLoginsByUser :: "time \<Rightarrow> int \<Rightarrow> string \<Rightarrow> tdb \<Rightarrow> nat" where
  "CountRecentLoginsByUser now hours userID db =
     length (filter (\<lambda>l. now + int64 (int64 (- hours) * hour) \<le> lo_LoginTime l \<and> (userID = [] \<or> lo_UserID l = userID))
       (login_records db))"

subsection \<open>Recordings, histories and commands\<close>

definition FindSessionHistories :: "int \<Rightarrow> int \<Rightarrow> string \<Rightarrow> sdb \<Rightarrow> (SessionHistory \<times> string option) list \<times> nat" where
  "FindSessionHistories page pageSize hostID db =
     (let rows = filter (\<lambda>h. hostID = [] \<or> sh_HostID h = hostID) (sd_histories db) in
      (paginate page pageSize (latest (sh_StartTime \<circ> fst)
         (map (\<lambda>h. (h, map_option ho_Name (first_where (\<lambda>x. ho_ID x = sh_HostID h) (sd_hosts db)))) rows)), length rows))"

definition FindSessionRecordings :: "sql_match \<Rightarrow> int \<Rightarrow> int \<Rightarrow> string \<Rightarrow> tdb \<Rightarrow> SessionRecording list \<times> nat" where
  "FindSessionRecordings M page pageSize search db =
     (let rows = filter (\<lambda>r. sr_Status r \<noteq> ''failed'' \<and> (search = [] \<or> LIKE M (sr_HostName r) (around search) \<or>
            LIKE M (sr_Username r) (around search) \<or> LIKE M (sr_SessionID r) (around search))) (session_recordings db)
      in (paginate page pageSize (latest sr_StartTime rows), length rows))"

definition FindSessionRecordingByID :: "string \<Rightarrow> tdb \<Rightarrow> SessionRecording option" where
  "FindSessionRecordingByID sessionID db = recording_of sessionID db"

definition UpdateSessionRecording :: "string \<Rightarrow> (SessionRecording \<Rightarrow> SessionRecording) \<Rightarrow> tdb \<Rightarrow> tdb" where
  "UpdateSessionRecording sessionID updates db = set_recording sessionID updates db"

definition FindCommandsBySessionID :: "string \<Rightarrow> tdb \<Rightarrow> CommandRecord list" where
  "FindCommandsBySessionID sessionID db = sort_key cr_ExecutedAt (filter (\<lambda>c. cr_SessionID c = sessionID) (command_histories db))"

definition CountCommandsBySessionID :: "string \<Rightarrow> tdb \<Rightarrow> nat" where
  "CountCommandsBySessionID sessionID db = length (filter (\<lambda>c. cr_SessionID c = sessionID) (command_histories db))"

section \<open>Service\<close>

subsection \<open>Sessions and tokens\<close>

definition session_login :: "time \<Rightarrow> string \<Rightarrow> string \<Rightarrow> Host \<Rightarrow> string \<Rightarrow> string \<Rightarrow> LoginRecord" where
  "session_login now newID sessionID host hostID userID =
     \<lparr>lo_ID = newID, lo_UserID = userID, lo_HostID = hostID, lo_HostName = ho_Name host, lo_HostIP = ho_IP host, lo_Username = [],
      lo_LoginIP = [], lo_LoginTime = now, lo_LogoutTime = None, lo_Duration = None, lo_Status = ''active'', lo_SessionID = sessionID\<rparr>"

definition cleanExpiredTokens :: "time \<Rightarrow> sdb \<Rightarrow> sdb" where
  "cleanExpiredTokens now db = db\<lparr>sd_tokens := (\<lambda>k. case sd_tokens db k of
     None \<Rightarrow> None | Some i \<Rightarrow> if now > tk_ExpiresAt i then None else Some i)\<rparr>"

text \<open>The session, the token for the proxy and its address; \<open>newID\<close>, \<open>sessionID\<close> and \<open>token\<close> are generated.
  The clean-up of expired tokens is started in a goroutine of its own.\<close>

definition svc_CreateSession :: "time \<Rightarrow> string \<Rightarrow> string \<Rightarrow> string \<Rightarrow> string \<Rightarrow> string \<Rightarrow> sdb \<Rightarrow> (string \<times> string \<times> string) option \<times> sdb" where
  "svc_CreateSession now newID sessionID token hostID userID db = (case Host_FindByID hostID (sd_hosts db) of
     None \<Rightarrow> (None, db)
   | Some host \<Rightarrow> (case create_login (session_login now newID sessionID host hostID userID) (sd_trail db) of
       None \<Rightarrow> (None, db)
     | Some trail \<Rightarrow>
         (Some (sessionID, ''ws://localhost:8022/ws/ssh?token='' @ token, token),
          db\<lparr>sd_trail := trail, sd_tokens := (sd_tokens db)(token \<mapsto>
            \<lparr>tk_Token = token, tk_HostID = hostID, tk_UserID = userID, tk_Username = [], tk_ExpiresAt = now + 5 * minute\<rparr>)\<rparr>)))"

datatype token_error = InvalidToken | TokenExpired

definition ValidateSessionToken :: "time \<Rightarrow> string \<Rightarrow> sdb \<Rightarrow> (token_error + SessionToken) \<times> sdb" where
  "ValidateSessionToken now token db = (case sd_tokens db token of
     None \<Rightarrow> (Inl InvalidToken, db)
   | Some i \<Rightarrow> (if now > tk_ExpiresAt i then (Inl TokenExpired, db\<lparr>sd_tokens := (sd_tokens db)(token := None)\<rparr>) else (Inr i, db)))"

subsection \<open>Lists\<close>

definition GetLoginRecords :: "int \<Rightarrow> int \<Rightarrow> string \<Rightarrow> tdb \<Rightarrow> LoginRecord list \<times> nat" where
  "GetLoginRecords page pageSize hostID db = FindLoginRecords (clamp_page page) (clamp_size 100 pageSize) hostID db"

definition GetLoginRecordsByUser :: "int \<Rightarrow> int \<Rightarrow> string \<Rightarrow> string \<Rightarrow> tdb \<Rightarrow> (LoginRecord \<times> string) list \<times> nat" where
  "GetLoginRecordsByUser page pageSize hostID userID db =
     FindLoginRecordsByUser (clamp_page page) (clamp_size 100 pageSize) hostID userID db"

definition GetSessionHistories :: "int \<Rightarrow> int \<Rightarrow> string \<Rightarrow> sdb \<Rightarrow> (SessionHistory \<times> string option) list \<times> nat" where
  "GetSessionHistories page pageSize hostID db = FindSessionHistories (clamp_page page) (clamp_size 100 pageSize) hostID db"

definition GetRecentLogins :: "int \<Rightarrow> string \<Rightarrow> tdb \<Rightarrow> LoginRecord list" where
  "GetRecentLogins limit userID db = GetRecentLoginsByUser (clamp_size 100 limit) userID db"

definition GetRecentLoginsCount :: "time \<Rightarrow> int \<Rightarrow> string \<Rightarrow> tdb \<Rightarrow> nat" where
  "GetRecentLoginsCount now hours userID db = CountRecentLoginsByUser now hours userID db"

text \<open>A listed recording gets the name of its host, if it has none of its own, and the number of its commands.\<close>

definition listed_name :: "Host list \<Rightarrow> SessionRecording \<Rightarrow> SessionRecording" where
  "listed_name table r =
     (if (sr_HostName r = [] \<or> sr_HostName r = sr_HostIP r) \<and> sr_HostID r \<noteq> []
      then (case first_where (\<lambda>h. ho_ID h = sr_HostID r) table of None \<Rightarrow> r | Some h \<Rightarrow> r\<lparr>sr_HostName := ho_Name h\<rparr>)
      else r)"

definition counted :: "tdb \<Rightarrow> SessionRecording \<Rightarrow> SessionRecording" where
  "counted db r = r\<lparr>sr_CommandCount := int (CountCommandsBySessionID (sr_SessionID r) db)\<rparr>"

definition svc_GetSessionRecordings :: "sql_match \<Rightarrow> int \<Rightarrow> int \<Rightarrow> string \<Rightarrow> sdb \<Rightarrow> SessionRecording list \<times> nat" where
  "svc_GetSessionRecordings M page pageSize search db =
     (let rows = filter (\<lambda>r. search = [] \<or> LIKE M (sr_SessionID r) (around search) \<or> LIKE M (sr_HostIP r) (around search) \<or>
            LIKE M (sr_Username r) (around search)) (session_recordings (sd_trail db))
      in (map (counted (sd_trail db) \<circ> listed_name (sd_hosts db))
            (paginate (clamp_page page) (clamp_size 100 pageSize) (latest sr_StartTime rows)), length rows))"

definition svc_GetSessionRecording :: "string \<Rightarrow> sdb \<Rightarrow> SessionRecording option" where
  "svc_GetSessionRecording sessionID db = (case recording_of sessionID (sd_trail db) of
     None \<Rightarrow> None
   | Some r \<Rightarrow> Some (counted (sd_trail db)
       (if sr_HostName r = [] \<and> sr_HostID r \<noteq> [] then (case Host_FindByID (sr_HostID r) (sd_hosts db) of
          None \<Rightarrow> r | Some h \<Rightarrow> r\<lparr>sr_HostName := ho_Name h\<rparr>) else r)))"

definition svc_CreateSessionRecording :: "string \<Rightarrow> SessionRecording \<Rightarrow> tdb \<Rightarrow> tdb option" where
  "svc_CreateSessionRecording newID r db = create_recording (r\<lparr>sr_ID := newID\<rparr>) db"

definition svc_GetCommandRecords :: "sql_match \<Rightarrow> int \<Rightarrow> int \<Rightarrow> string \<Rightarrow> string \<Rightarrow> tdb \<Rightarrow> CommandRecord list \<times> nat" where
  "svc_GetCommandRecords M page pageSize search hostFilter db =
     (let rows = filter (\<lambda>c. (search = [] \<or> LIKE M (cr_Command c) (around search) \<or> LIKE M (cr_HostIP c) (around search)) \<and>
            (hostFilter = [] \<or> hostFilter = ''all'' \<or> cr_HostIP c = hostFilter)) (command_histories db)
      in (paginate (clamp_page page) (clamp_size 100 pageSize) (latest cr_ExecutedAt rows), length rows))"

definition GetCommandsBySession :: "string \<Rightarrow> tdb \<Rightarrow> CommandRecord list" where
  "GetCommandsBySession sessionID db = FindCommandsBySessionID sessionID db"

subsection \<open>Termination\<close>

datatype terminate_error = NoSession | NotActive | NoProxy | ProxyUnreachable | ProxyAnswered nat

text \<open>The request to a proxy: its URL and, if it is answered, the status.\<close>

definition terminate_url :: "Proxy \<Rightarrow> string \<Rightarrow> string" where
  "terminate_url p sessionID =
     ''http://'' @ px_IP p @ '':'' @ print_int (px_Port p) @ ''/api/sessions/'' @ sessionID @ ''/terminate''"

definition ask_proxy :: "(string \<Rightarrow> nat option) \<Rightarrow> SessionRecording \<Rightarrow> Proxy list \<Rightarrow> terminate_error option" where
  "ask_proxy http r table =
     (if sr_ConnectionType r = ''webshell'' \<and> sr_ProxyID r \<noteq> [] then
        (case First px_ID (\<lambda>p. px_ProxyID p = sr_ProxyID r) table of
           None \<Rightarrow> Some NoProxy
         | Some p \<Rightarrow> (case http (terminate_url p (sr_SessionID r)) of
             None \<Rightarrow> Some ProxyUnreachable
           | Some code \<Rightarrow> if code = 200 then None else Some (ProxyAnswered code)))
      else None)"

definition svc_TerminateSession :: "(string \<Rightarrow> nat option) \<Rightarrow> time \<Rightarrow> string \<Rightarrow> sdb \<Rightarrow> terminate_error option \<times> sdb" where
  "svc_TerminateSession http now sessionID db = (case recording_of sessionID (sd_trail db) of
     None \<Rightarrow> (Some NoSession, db)
   | Some r \<Rightarrow>
       (if sr_Status r \<noteq> ''active'' then (Some NotActive, db)
        else (case ask_proxy http r (sd_proxies db) of
            Some e \<Rightarrow> (Some e, db)
          | None \<Rightarrow>
              (let diff = now - sr_StartTime r in
               (None, db\<lparr>sd_trail := set_logins sessionID
                  (\<lambda>l. l\<lparr>lo_Status := ''closed'', lo_LogoutTime := Some now, lo_Duration := Some (trunc_div diff second)\<rparr>)
                  (set_recording sessionID (\<lambda>x. x\<lparr>sr_Status := ''closed'', sr_EndTime := Some now,
                     sr_Duration := duration_text diff\<rparr>) (sd_trail db))\<rparr>)))))"

section \<open>Handlers\<close>

text \<open>The status of an answer with its body.\<close>

definition handler_ValidateToken :: "time \<Rightarrow> string \<Rightarrow> sdb \<Rightarrow> (nat \<times> (string \<times> string \<times> string) option) \<times> sdb" where
  "handler_ValidateToken now token db =
     (if token = [] then ((400, None), db)
      else (case ValidateSessionToken now token db of
          (Inl _, db1) \<Rightarrow> ((401, None), db1)
        | (Inr i, db1) \<Rightarrow> ((200, Some (tk_HostID i, tk_UserID i, tk_Username i)), db1)))"

text \<open>The body is \<open>None\<close> when it cannot be bound; the user is the one of the middleware.\<close>

definition handler_CreateSession :: "time \<Rightarrow> string \<Rightarrow> string \<Rightarrow> string \<Rightarrow> string option \<Rightarrow> string option \<Rightarrow> sdb \<Rightarrow>
    (nat \<times> (string \<times> string \<times> string) option) \<times> sdb" where
  "handler_CreateSession now newID sessionID token hostID userID db = (case hostID of
     None \<Rightarrow> ((400, None), db)
   | Some h \<Rightarrow> (if h = [] then ((400, None), db)
       else (case userID of
           None \<Rightarrow> ((401, None), db)
         | Some u \<Rightarrow> (case svc_CreateSession now newID sessionID token h u db of
             (None, db1) \<Rightarrow> ((500, None), db1)
           | (Some answer, db1) \<Rightarrow> ((200, Some answer), db1)))))"

definition handler_GetLoginRecords :: "string option \<Rightarrow> string option \<Rightarrow> string \<Rightarrow> string \<Rightarrow> sdb \<Rightarrow> (LoginRecord \<times> string) list \<times> nat" where
  "handler_GetLoginRecords page pageSize hostID userID db =
     GetLoginRecordsByUser (query_int ''1'' page) (query_int ''10'' pageSize) hostID userID (sd_trail db)"

definition handler_GetSessionRecordings :: "sql_match \<Rightarrow> string option \<Rightarrow> string option \<Rightarrow> string option \<Rightarrow> string \<Rightarrow> sdb \<Rightarrow>
    nat \<times> (SessionRecording list \<times> nat) option" where
  "handler_GetSessionRecordings M role page pageSize search db =
     (if role \<noteq> Some ''admin'' then (403, None)
      else (200, Some (svc_GetSessionRecordings M (query_int ''1'' page) (query_int ''10'' pageSize) search db)))"

definition handler_GetSessionRecording :: "string \<Rightarrow> sdb \<Rightarrow> nat \<times> SessionRecording option" where
  "handler_GetSessionRecording sessionID db = (case svc_GetSessionRecording sessionID db of
     None \<Rightarrow> (404, None) | Some r \<Rightarrow> (200, Some r))"

definition handler_CreateSessionRecording :: "string \<Rightarrow> SessionRecording option \<Rightarrow> sdb \<Rightarrow> nat \<times> sdb" where
  "handler_CreateSessionRecording newID body db = (case body of
     None \<Rightarrow> (400, db)
   | Some r \<Rightarrow> (case svc_CreateSessionRecording newID r (sd_trail db) of
       None \<Rightarrow> (500, db) | Some trail \<Rightarrow> (200, db\<lparr>sd_trail := trail\<rparr>)))"

definition handler_GetCommandRecords :: "sql_match \<Rightarrow> string option \<Rightarrow> string option \<Rightarrow> string option \<Rightarrow> string \<Rightarrow> string option \<Rightarrow> sdb \<Rightarrow>
    nat \<times> (CommandRecord list \<times> nat) option" where
  "handler_GetCommandRecords M role page pageSize search host db =
     (if role \<noteq> Some ''admin'' then (403, None)
      else (200, Some (svc_GetCommandRecords M (query_int ''1'' page) (query_int ''10'' pageSize) search
        (case host of None \<Rightarrow> ''all'' | Some h \<Rightarrow> h) (sd_trail db))))"

text \<open>A command with a key of its own must not repeat one.\<close>

definition insert_command :: "CommandRecord \<Rightarrow> tdb \<Rightarrow> tdb option" where
  "insert_command c db =
     (if cr_ID c = 0 then Some (create_command c db)
      else if cr_ID c \<in> cr_ID ` set (command_histories db) then None
      else Some (db\<lparr>command_histories := command_histories db @ [c]\<rparr>))"

definition handler_CreateCommandRecord :: "CommandRecord option \<Rightarrow> sdb \<Rightarrow> nat \<times> sdb" where
  "handler_CreateCommandRecord body db = (case body of
     None \<Rightarrow> (400, db)
   | Some c \<Rightarrow> (case insert_command c (sd_trail db) of None \<Rightarrow> (500, db) | Some trail \<Rightarrow> (200, db\<lparr>sd_trail := trail\<rparr>)))"

definition handler_TerminateSession :: "(string \<Rightarrow> nat option) \<Rightarrow> time \<Rightarrow> string \<Rightarrow> sdb \<Rightarrow> nat \<times> sdb" where
  "handler_TerminateSession http now sessionID db = (case svc_TerminateSession http now sessionID db of
     (Some _, db1) \<Rightarrow> (500, db1) | (None, db1) \<Rightarrow> (200, db1))"

section \<open>Properties\<close>

subsection \<open>Tokens\<close>

text \<open>Time passes, sessions are created with new tokens, tokens are checked and cleaned up.\<close>

inductive token_step :: "time \<times> string set \<times> sdb \<Rightarrow> time \<times> string set \<times> sdb \<Rightarrow> bool" where
  wait: "0 \<le> d \<Longrightarrow> token_step (now, used, db) (now + d, used, db)"
| issue: "token \<notin> used \<Longrightarrow> svc_CreateSession now newID sessionID token hostID userID db = (answer, db') \<Longrightarrow>
    token_step (now, used, db) (now, insert token used, db')"
| check: "token_step (now, used, db) (now, used, snd (ValidateSessionToken now token db))"
| clean: "token_step (now, used, db) (now, used, cleanExpiredTokens now db)"

inductive_cases token_stepE: "token_step (now, used, db) (now', used', db')"

definition token_kept :: "string \<Rightarrow> SessionToken \<Rightarrow> time \<times> string set \<times> sdb \<Rightarrow> bool" where
  "token_kept k i s = (case s of (now, used, db) \<Rightarrow>
     k \<in> used \<and> (sd_tokens db k = Some i \<or> sd_tokens db k = None \<and> tk_ExpiresAt i < now))"

lemma CreateSession_other: "token \<noteq> k \<Longrightarrow> sd_tokens (snd (svc_CreateSession now n s token h u db)) k = sd_tokens db k"
  by (simp add: svc_CreateSession_def split: option.splits)

lemma token_kept_step: "token_step s s' \<Longrightarrow> token_kept k i s \<Longrightarrow> token_kept k i s'"
proof (induction rule: token_step.induct)
  case (issue token used now newID sessionID hostID userID db answer db')
  then have "token \<noteq> k" by (auto simp: token_kept_def)
  from CreateSession_other[OF this, of now newID sessionID hostID userID db] issue show ?case by (auto simp: token_kept_def)
qed (auto simp: token_kept_def ValidateSessionToken_def cleanExpiredTokens_def split: option.splits)

lemma token_kept_reached: "token_step\<^sup>*\<^sup>* s s' \<Longrightarrow> token_kept k i s \<Longrightarrow> token_kept k i s'"
  by (induction rule: rtranclp_induct) (auto intro: token_kept_step)

text \<open>The token of a session is valid for exactly five minutes.  Whatever sessions are created, checked
  and cleaned up in between, a check at time \<open>t\<close> gives back the host and the user of the session
  until five minutes after its creation, and an error ever after.\<close>

theorem session_token_window:
  assumes "svc_CreateSession T newID sessionID k hostID userID db0 = (Some answer, db1)"
    and "token_step\<^sup>*\<^sup>* (T, insert k used, db1) (t, used', db)"
  shows "(case fst (ValidateSessionToken t k db) of
      Inr i \<Rightarrow> t \<le> T + 5 * minute \<and> tk_HostID i = hostID \<and> tk_UserID i = userID
    | Inl e \<Rightarrow> T + 5 * minute < t)"
proof -
  obtain i where i: "sd_tokens db1 k = Some i" "tk_HostID i = hostID" "tk_UserID i = userID" "tk_ExpiresAt i = T + 5 * minute"
    using assms(1) by (auto simp: svc_CreateSession_def split: option.splits)
  have "token_kept k i (t, used', db)" by (rule token_kept_reached[OF assms(2)]) (simp add: token_kept_def i(1))
  then show ?thesis using i(2-4) by (auto simp: token_kept_def ValidateSessionToken_def)
qed

subsection \<open>Lists\<close>

lemma sort_key_map: "sort_key f (map g xs) = map g (sort_key (f \<circ> g) xs)"
proof (induction xs)
  case (Cons x xs)
  have "insort_key f (g x) (map g ys) = map g (insort_key (f \<circ> g) x ys)" for ys by (induction ys) auto
  with Cons show ?case by (simp add: comp_def)
qed simp

lemma latest_map: "latest f (map g xs) = map g (latest (f \<circ> g) xs)"
  using sort_key_map[of "\<lambda>r. - f r" g xs] by (simp add: latest_def comp_def)

lemma length_latest [simp]: "length (latest f xs) = length xs" and set_latest [simp]: "set (latest f xs) = set xs"
  by (simp_all add: latest_def)

definition connection_type :: "tdb \<Rightarrow> LoginRecord \<Rightarrow> string" where
  "connection_type db l = (case recording_of (lo_SessionID l) db of None \<Rightarrow> ''webshell'' | Some r \<Rightarrow> sr_ConnectionType r)"

lemma filter_unique:
  assumes "distinct (map k t)"
  shows "filter (\<lambda>x. k x = i) t = (case first_where (\<lambda>x. k x = i) t of None \<Rightarrow> [] | Some x \<Rightarrow> [x])"
  using assms
proof (induction t)
  case (Cons x t)
  show ?case
  proof (cases "k x = i")
    case True
    then have "filter (\<lambda>x. k x = i) t = []" using Cons.prems by (auto simp: filter_empty_conv image_iff)
    then show ?thesis using True by (simp add: first_where_Cons)
  qed (use Cons in \<open>simp add: first_where_Cons\<close>)
qed (simp add: first_where_Nil)

lemma with_type_unique: "trail_ok db \<Longrightarrow> with_type db l = [(l, connection_type db l)]"
  using filter_unique[of sr_SessionID "session_recordings db" "lo_SessionID l"]
  by (auto simp: with_type_def connection_type_def recording_of_first trail_ok_def split: option.splits)

definition login_list :: "string \<Rightarrow> string \<Rightarrow> tdb \<Rightarrow> (LoginRecord \<times> string) list" where
  "login_list hostID userID db =
     map (\<lambda>l. (l, connection_type db l)) (latest lo_LoginTime (vm_logins hostID userID (login_records db)))"

lemma FindLoginRecordsByUser_rows:
  assumes "trail_ok db"
  shows "FindLoginRecordsByUser page pageSize hostID userID db =
    (paginate page pageSize (login_list hostID userID db), length (login_list hostID userID db))"
proof -
  have "concat (map (with_type db) ls) = map (\<lambda>l. (l, connection_type db l)) ls" for ls
    by (induction ls) (simp_all add: with_type_unique[OF assms])
  then show ?thesis by (simp add: FindLoginRecordsByUser_def Let_def login_list_def latest_map comp_def)
qed

context paged
begin

lemma requested_pages_complete:
  assumes "1 \<le> s" "s \<le> largest" "length matching \<le> k * nat s" "in_int64 (int k * s)" "in_int64 (int k)" "in_int64 s"
  shows "concat (map (\<lambda>i. fst (find_page (clamp_page (query_int d (Some (print_int (1 + int i)))))
    (clamp_size largest (query_int d' (Some (print_int s)))))) [0..<k]) = matching"
proof -
  have "clamp_page (query_int d (Some (print_int (1 + int i)))) = 1 + int i" if "i < k" for i
    using that assms(5) by (simp add: in_int64_def query_int_def)
  moreover have "clamp_size largest (query_int d' (Some (print_int s))) = int (nat s)"
    using assms(1,2,6) by (simp add: query_int_def)
  ultimately have "map (\<lambda>i. fst (find_page (clamp_page (query_int d (Some (print_int (1 + int i)))))
      (clamp_size largest (query_int d' (Some (print_int s)))))) [0..<k] = map (\<lambda>i. fst (find_page (1 + int i) (int (nat s)))) [0..<k]"
    by simp
  moreover have "in_int64 (int (k * nat s))" using assms(1,4) by simp
  ultimately show ?thesis using pages_complete[OF _ assms(3)] by (simp only:)
qed

end

interpretation vm_login_pages: paged "\<lambda>page pageSize. FindLoginRecords page pageSize hostID db"
    "latest lo_LoginTime (vm_logins hostID [] (login_records db))"
  for hostID db
  by unfold_locales (simp add: FindLoginRecords_def Let_def)

text \<open>The pages of the login history, read one after the other, are exactly the caller's own logins to hosts, the latest
  first, each once and with the type of its connection.\<close>

theorem login_pages_complete:
  assumes "trail_ok (sd_trail db)" "1 \<le> s" "s \<le> 100" "length (login_list hostID userID (sd_trail db)) \<le> k * nat s"
    and "in_int64 (int k * s)" "in_int64 (int k)"
  shows "concat (map (\<lambda>i. fst (handler_GetLoginRecords (Some (print_int (1 + int i))) (Some (print_int s)) hostID userID db)) [0..<k]) =
    map (\<lambda>l. (l, connection_type (sd_trail db) l))
      (latest lo_LoginTime (vm_logins hostID userID (login_records (sd_trail db))))"
proof -
  have "paged (\<lambda>page pageSize. FindLoginRecordsByUser page pageSize hostID userID (sd_trail db)) (login_list hostID userID (sd_trail db))"
    by (rule paged.intro) (rule FindLoginRecordsByUser_rows[OF assms(1)])
  from paged.requested_pages_complete[OF this assms(2,3,4,5,6), of "''1''" "''10''"] assms(2,3) show ?thesis
    by (simp add: handler_GetLoginRecords_def GetLoginRecordsByUser_def login_list_def in_int64_def)
qed

subsection \<open>Termination\<close>

text \<open>A session is terminated only while it is active and, for a web shell behind a proxy, only once the proxy has
  confirmed; then its recording and its logins are closed and nothing else changes.  On any error
  nothing changes.\<close>

theorem TerminateSession_effect:
  assumes "trail_ok (sd_trail db)" "svc_TerminateSession http now i db = (e, db')"
  shows "case e of
      Some _ \<Rightarrow> db' = db
    | None \<Rightarrow> \<exists>r. recording_of i (sd_trail db) = Some r \<and> sr_Status r = ''active'' \<and> ask_proxy http r (sd_proxies db) = None \<and>
        view i (sd_trail db') = (Some (r\<lparr>sr_Status := ''closed'', sr_EndTime := Some now,
            sr_Duration := duration_text (now - sr_StartTime r)\<rparr>),
          map (\<lambda>l. l\<lparr>lo_Status := ''closed'', lo_LogoutTime := Some now,
            lo_Duration := Some (trunc_div (now - sr_StartTime r) second)\<rparr>) (logins i (sd_trail db))) \<and>
        (\<forall>j. j \<noteq> i \<longrightarrow> view j (sd_trail db') = view j (sd_trail db)) \<and> trail_ok (sd_trail db') \<and>
        command_histories (sd_trail db') = command_histories (sd_trail db) \<and> db' = db\<lparr>sd_trail := sd_trail db'\<rparr>"
proof (cases "recording_of i (sd_trail db)")
  case (Some r)
  let ?g = "\<lambda>x. x\<lparr>sr_Status := ''closed'', sr_EndTime := Some now, sr_Duration := duration_text (now - sr_StartTime r)\<rparr>"
  let ?f = "\<lambda>l. l\<lparr>lo_Status := ''closed'', lo_LogoutTime := Some now, lo_Duration := Some (trunc_div (now - sr_StartTime r) second)\<rparr>"
  let ?t = "set_logins i ?f (set_recording i ?g (sd_trail db))"
  have rec: "recording_of j (set_recording i ?g (sd_trail db)) =
      (if j = i then map_option ?g (recording_of j (sd_trail db)) else recording_of j (sd_trail db))" for j
    by (rule recording_of_set[OF assms(1)]) simp_all
  have ok: "trail_ok ?t" by (rule trail_ok_set(1), rule trail_ok_set(2)[OF assms(1)]) simp_all
  have v: "view i ?t = (Some (?g r), map ?f (logins i (sd_trail db)))" "j \<noteq> i \<Longrightarrow> view j ?t = view j (sd_trail db)" for j
    using Some by (simp_all add: view_def rec logins_set)
  show ?thesis
  proof (cases e)
    case None
    then have "sr_Status r = ''active''" "ask_proxy http r (sd_proxies db) = None" "db' = db\<lparr>sd_trail := ?t\<rparr>"
      using assms(2) Some by (auto simp: svc_TerminateSession_def Let_def split: if_splits option.splits)
    then show ?thesis using None Some ok v by simp
  next
    case (Some err)
    then show ?thesis using assms(2) \<open>recording_of i (sd_trail db) = _\<close>
      by (auto simp: svc_TerminateSession_def Let_def split: if_splits option.splits)
  qed
qed (use assms(2) in \<open>auto simp: svc_TerminateSession_def\<close>)

subsection \<open>An instance\<close>

definition session_db :: sdb where
  "session_db = \<lparr>sd_trail = saved_trail, sd_hosts = hd_hosts host_table, sd_proxies = [], sd_tokens = (\<lambda>_. None), sd_histories = []\<rparr>"

theorem session_token_window_witness:
  "\<exists>db1. svc_CreateSession 0 ''n'' ''s'' ''tok'' ''h1'' ''u1'' session_db = (Some (''s'', ''ws://localhost:8022/ws/ssh?token=tok'', ''tok''), db1) \<and>
     (\<exists>i. fst (ValidateSessionToken minute ''tok'' db1) = Inr i \<and> tk_HostID i = ''h1'') \<and>
     (\<exists>e. fst (ValidateSessionToken (6 * minute) ''tok'' db1) = Inl e)"
proof -
  let ?c = "svc_CreateSession 0 ''n'' ''s'' ''tok'' ''h1'' ''u1'' session_db"
  have "fst ?c = Some (''s'', ''ws://localhost:8022/ws/ssh?token=tok'', ''tok'')" by code_simp
  then obtain db1 where c: "?c = (Some (''s'', ''ws://localhost:8022/ws/ssh?token=tok'', ''tok''), db1)" by (metis prod.collapse)
  have w: "token_step\<^sup>*\<^sup>* (0, {''tok''}, db1) (t, {''tok''}, db1)" if "0 \<le> t" for t
    using token_step.wait[OF that, of 0 "{''tok''}" db1] by (simp add: r_into_rtranclp)
  have "case fst (ValidateSessionToken t ''tok'' db1) of
      Inr i \<Rightarrow> t \<le> 0 + 5 * minute \<and> tk_HostID i = ''h1'' \<and> tk_UserID i = ''u1'' | Inl e \<Rightarrow> 0 + 5 * minute < t" if "0 \<le> t" for t
    by (rule session_token_window[OF c w[OF that]])
  from this[of minute] this[of "6 * minute"] c show ?thesis
    by (auto simp: minute_def second_def split: sum.splits)
qed

theorem login_pages_complete_witness:
  "concat (map (\<lambda>i. fst (handler_GetLoginRecords (Some (print_int (1 + int i))) (Some (print_int 1)) [] ''u1'' session_db)) [0..<1]) =
     map (\<lambda>l. (l, connection_type (sd_trail session_db) l)) (latest lo_LoginTime (vm_logins [] ''u1'' (login_records (sd_trail session_db))))"
proof (rule login_pages_complete)
  show "trail_ok (sd_trail session_db)" by code_simp
  show "length (login_list [] ''u1'' (sd_trail session_db)) \<le> 1 * nat 1" by code_simp
qed (simp_all add: in_int64_def)

theorem TerminateSession_effect_witness:
  "fst (svc_TerminateSession (\<lambda>_. None) 9 ''a'' session_db) = Some NoProxy \<and>
   snd (svc_TerminateSession (\<lambda>_. None) 9 ''a'' session_db) = session_db"
proof -
  have ok: "trail_ok (sd_trail session_db)" by code_simp
  have e: "fst (svc_TerminateSession (\<lambda>_. None) 9 ''a'' session_db) = Some NoProxy" by code_simp
  from TerminateSession_effect[OF ok, of "\<lambda>_. None" 9 "''a''" "Some NoProxy"] e show ?thesis
    by (cases "svc_TerminateSession (\<lambda>_. None) 9 ''a'' session_db") auto
qed

end
