(* ===== verification/Proxy_Reports.thy ===== *)
theory Proxy_Reports
imports Sessions
begin

text \<open>
  The reports of proxies, \<open>internal/api/handler/proxy_handler.go\<close>: sessions and commands one by one and
  in batches, the closing of a session, and the statistics.  The routes need no
  authentication.  A batch is a list of JSON objects; a number of one is given by its
  integer part.  The parser of times is an argument, applied to a layout and a text.
\<close>

section \<open>Requests\<close>

datatype jvalue = JString string | JNumber int | JOther

type_synonym item = "string \<Rightarrow> jvalue option"

definition text_of :: "item \<Rightarrow> string \<Rightarrow> string" where
  "text_of x k = (case x k of Some (JString v) \<Rightarrow> v | _ \<Rightarrow> [])"

definition number_of :: "item \<Rightarrow> string \<Rightarrow> int" where
  "number_of x k = (case x k of Some (JNumber n) \<Rightarrow> n | _ \<Rightarrow> 0)"

text \<open>RFC 3339, also with a fraction of a second, and the layouts of SQLite.\<close>

definition timeFormats :: "string list" where
  "timeFormats = [''2006-01-02T15:04:05Z07:00'', ''2006-01-02T15:04:05.999999999Z07:00'', ''2006-01-02 15:04:05.999999-07:00'',
     ''2006-01-02 15:04:05-07:00'', ''2006-01-02T15:04:05Z07:00'']"

fun parse_first :: "(string \<Rightarrow> string \<Rightarrow> time option) \<Rightarrow> string list \<Rightarrow> string \<Rightarrow> time option" where
  "parse_first parse [] s = None"
| "parse_first parse (f # fs) s = (case parse f s of Some t \<Rightarrow> Some t | None \<Rightarrow> parse_first parse fs s)"

text \<open>A member that is no text is the zero time; an unreadable text is an error.\<close>

definition time_of :: "(string \<Rightarrow> string \<Rightarrow> time option) \<Rightarrow> item \<Rightarrow> string \<Rightarrow> string + time" where
  "time_of parse x k = (case x k of
     Some (JString s) \<Rightarrow> (case parse_first parse timeFormats s of None \<Rightarrow> Inl s | Some t \<Rightarrow> Inr t)
   | _ \<Rightarrow> Inr zero_time)"

definition end_of :: "(string \<Rightarrow> string \<Rightarrow> time option) \<Rightarrow> item \<Rightarrow> string + time option" where
  "end_of parse x = (case x ''end_time'' of
     Some (JString s) \<Rightarrow> (if s = [] then Inr None
       else (case parse_first parse timeFormats s of None \<Rightarrow> Inl s | Some t \<Rightarrow> Inr (Some t)))
   | _ \<Rightarrow> Inr None)"

section \<open>Sessions\<close>

text \<open>\<open>FirstOrCreate\<close> on a row whose key is set looks for the session and the key, and creates the row if
  there is none; the result is \<open>None\<close> when that breaks a unique key.\<close>

definition first_or_create_recording :: "SessionRecording \<Rightarrow> tdb \<Rightarrow> (SessionRecording \<times> tdb) option" where
  "first_or_create_recording r db =
     (case first_where (\<lambda>x. sr_SessionID x = sr_SessionID r \<and> (sr_ID r = [] \<or> sr_ID x = sr_ID r)) (session_recordings db) of
        Some x \<Rightarrow> Some (x, db)
      | None \<Rightarrow> (case create_recording r db of None \<Rightarrow> None | Some db1 \<Rightarrow> Some (stored r, db1)))"

definition first_or_create_login :: "LoginRecord \<Rightarrow> tdb \<Rightarrow> tdb" where
  "first_or_create_login l db =
     (case first_where (\<lambda>x. lo_SessionID x = lo_SessionID l \<and> lo_ID x = lo_ID l) (login_records db) of
        Some _ \<Rightarrow> db
      | None \<Rightarrow> (case create_login l db of None \<Rightarrow> db | Some db1 \<Rightarrow> db1))"

text \<open>A reported session; its end and its recording are not part of the report.\<close>

definition report_recording :: "string \<Rightarrow> SessionRecord \<Rightarrow> SessionRecording" where
  "report_recording proxyID s =
     \<lparr>sr_ID = sn_SessionID s, sr_SessionID = sn_SessionID s, sr_ConnectionType = ''webshell'', sr_ProxyID = proxyID,
      sr_UserID = sn_UserID s, sr_HostID = sn_HostID s, sr_HostName = [], sr_HostIP = sn_HostIP s, sr_Username = sn_Username s,
      sr_StartTime = sn_StartTime s, sr_EndTime = None, sr_Duration = in_progress, sr_CommandCount = 0, sr_Status = sn_Status s,
      sr_Recording = [], sr_TerminalCols = sn_TerminalCols s, sr_TerminalRows = sn_TerminalRows s\<rparr>"

definition report_login :: "string \<Rightarrow> SessionRecording \<Rightarrow> LoginRecord" where
  "report_login userID r =
     \<lparr>lo_ID = sr_SessionID r @ ''-login'', lo_UserID = userID, lo_HostID = sr_HostID r, lo_HostName = sr_HostName r,
      lo_HostIP = sr_HostIP r, lo_Username = sr_Username r, lo_LoginIP = [], lo_LoginTime = sr_StartTime r, lo_LogoutTime = None,
      lo_Duration = None, lo_Status = ''active'', lo_SessionID = sr_SessionID r\<rparr>"

text \<open>The body is \<open>None\<close> when it cannot be bound; the proxy is required.\<close>

definition ReportSession :: "(string \<times> SessionRecord) option \<Rightarrow> sdb \<Rightarrow> nat \<times> sdb" where
  "ReportSession body db = (case body of
     None \<Rightarrow> (400, db)
   | Some (proxyID, s) \<Rightarrow>
       (if proxyID = [] then (400, db)
        else (case first_or_create_recording (report_recording proxyID s) (sd_trail db) of
            None \<Rightarrow> (500, db)
          | Some (r, trail) \<Rightarrow> (200, db\<lparr>sd_trail := first_or_create_login (report_login (sn_UserID s) r) trail\<rparr>))))"

definition parse_session :: "(string \<Rightarrow> string \<Rightarrow> time option) \<Rightarrow> string \<Rightarrow> item \<Rightarrow> string + SessionRecording" where
  "parse_session parse proxyID x = (case time_of parse x ''start_time'' of
     Inl e \<Rightarrow> Inl e
   | Inr start \<Rightarrow> (case end_of parse x of
       Inl e \<Rightarrow> Inl e
     | Inr ends \<Rightarrow> Inr
         \<lparr>sr_ID = text_of x ''session_id'', sr_SessionID = text_of x ''session_id'', sr_ConnectionType = ''webshell'',
          sr_ProxyID = proxyID, sr_UserID = text_of x ''user_id'', sr_HostID = text_of x ''host_id'', sr_HostName = [],
          sr_HostIP = text_of x ''host_ip'', sr_Username = text_of x ''username'', sr_StartTime = start, sr_EndTime = ends,
          sr_Duration = (case ends of None \<Rightarrow> in_progress | Some e \<Rightarrow> duration_text (e - start)), sr_CommandCount = 0,
          sr_Status = text_of x ''status'', sr_Recording = text_of x ''recording'',
          sr_TerminalCols = number_of x ''terminal_cols'', sr_TerminalRows = number_of x ''terminal_rows''\<rparr>))"

definition valid_session :: "SessionRecording \<Rightarrow> bool" where
  "valid_session r \<longleftrightarrow> sr_SessionID r \<noteq> [] \<and> sr_StartTime r \<noteq> zero_time"

text \<open>The loop over a batch ends at the first unreadable time and drops invalid rows.\<close>

fun parse_batch :: "(item \<Rightarrow> string + 'r) \<Rightarrow> ('r \<Rightarrow> bool) \<Rightarrow> item list \<Rightarrow> string + 'r list" where
  "parse_batch p valid [] = Inr []"
| "parse_batch p valid (x # xs) = (case p x of
     Inl e \<Rightarrow> Inl e
   | Inr r \<Rightarrow> (case parse_batch p valid xs of Inl e \<Rightarrow> Inl e | Inr rs \<Rightarrow> Inr (if valid r then r # rs else rs)))"

definition sync_recording :: "SessionRecording \<Rightarrow> tdb \<Rightarrow> tdb" where
  "sync_recording r db = (case first_or_create_recording r db of None \<Rightarrow> db | Some (_, db1) \<Rightarrow> db1)"

definition sync_login :: "SessionRecording \<Rightarrow> LoginRecord" where
  "sync_login r =
     \<lparr>lo_ID = sr_SessionID r @ ''-login'', lo_UserID = sr_UserID r, lo_HostID = sr_HostID r, lo_HostName = sr_HostName r,
      lo_HostIP = sr_HostIP r, lo_Username = sr_Username r, lo_LoginIP = [], lo_LoginTime = sr_StartTime r,
      lo_LogoutTime = sr_EndTime r, lo_Duration = map_option (\<lambda>e. trunc_div (e - sr_StartTime r) second) (sr_EndTime r),
      lo_Status = sr_Status r, lo_SessionID = sr_SessionID r\<rparr>"

definition sync_sessions :: "SessionRecording list \<Rightarrow> tdb \<Rightarrow> tdb" where
  "sync_sessions rs db = fold first_or_create_login (map sync_login rs) (fold sync_recording rs db)"

definition SyncSessions :: "(string \<Rightarrow> string \<Rightarrow> time option) \<Rightarrow> (string \<times> item list) option \<Rightarrow> sdb \<Rightarrow> (nat \<times> nat) \<times> sdb" where
  "SyncSessions parse body db = (case body of
     None \<Rightarrow> ((400, 0), db)
   | Some (proxyID, data) \<Rightarrow>
       (if proxyID = [] then ((400, 0), db)
        else (case parse_batch (parse_session parse proxyID) valid_session data of
            Inl _ \<Rightarrow> ((400, 0), db)
          | Inr rs \<Rightarrow> ((200, length rs), db\<lparr>sd_trail := sync_sessions rs (sd_trail db)\<rparr>))))"

text \<open>Closing a reported session writes to the table of histories.\<close>

definition proxy_CloseSession :: "string \<Rightarrow> (string \<times> string \<times> time) option \<Rightarrow> sdb \<Rightarrow> nat \<times> sdb" where
  "proxy_CloseSession sessionID body db = (case body of
     None \<Rightarrow> (400, db)
   | Some (proxyID, recording, endTime) \<Rightarrow>
       (if proxyID = [] then (400, db)
        else (200, db\<lparr>sd_histories := update_where (\<lambda>h. sh_SessionID h = sessionID \<and> sh_ProxyID h = proxyID)
           (\<lambda>h. h\<lparr>sh_Status := ''closed'', sh_EndTime := Some endTime, sh_Recording := recording\<rparr>) (sd_histories db)\<rparr>)))"

section \<open>Commands\<close>

definition ReportCommand :: "(string \<times> CommandRecord) option \<Rightarrow> sdb \<Rightarrow> nat \<times> sdb" where
  "ReportCommand body db = (case body of
     None \<Rightarrow> (400, db)
   | Some (proxyID, c) \<Rightarrow>
       (if proxyID = [] then (400, db)
        else (200, db\<lparr>sd_trail := set_recording (cr_SessionID c) (\<lambda>r. r\<lparr>sr_CommandCount := sr_CommandCount r + 1\<rparr>)
           (create_command (c\<lparr>cr_ProxyID := proxyID, cr_DurationMs := 0\<rparr>) (sd_trail db))\<rparr>)))"

definition parse_command :: "(string \<Rightarrow> string \<Rightarrow> time option) \<Rightarrow> item \<Rightarrow> string + CommandRecord" where
  "parse_command parse x = (case time_of parse x ''executed_at'' of
     Inl e \<Rightarrow> Inl e
   | Inr t \<Rightarrow> Inr
       \<lparr>cr_ID = 0, cr_ProxyID = text_of x ''proxy_id'', cr_SessionID = text_of x ''session_id'', cr_HostID = text_of x ''host_id'',
        cr_UserID = text_of x ''user_id'', cr_Username = text_of x ''username'', cr_HostIP = text_of x ''host_ip'',
        cr_Command = text_of x ''command'', cr_Output = text_of x ''output'', cr_ExitCode = number_of x ''exit_code'',
        cr_ExecutedAt = t, cr_DurationMs = number_of x ''duration_ms''\<rparr>)"

definition valid_command :: "CommandRecord \<Rightarrow> bool" where "valid_command c \<longleftrightarrow> cr_ExecutedAt c \<noteq> zero_time"

definition commands_in :: "string \<Rightarrow> CommandRecord list \<Rightarrow> nat" where
  "commands_in sessionID cs = length (filter (\<lambda>c. cr_SessionID c = sessionID) cs)"

text \<open>The counts are applied in the order in which Go iterates over a map: any order of the sessions.\<close>

definition count_commands :: "(string list \<Rightarrow> string list) \<Rightarrow> CommandRecord list \<Rightarrow> tdb \<Rightarrow> tdb" where
  "count_commands order cs db = fold (\<lambda>i. set_recording i (\<lambda>r. r\<lparr>sr_CommandCount := sr_CommandCount r + int (commands_in i cs)\<rparr>))
     (order (remdups (map cr_SessionID cs))) db"

definition SyncCommands :: "(string list \<Rightarrow> string list) \<Rightarrow> (string \<Rightarrow> string \<Rightarrow> time option) \<Rightarrow> (string \<times> item list) option \<Rightarrow>
    sdb \<Rightarrow> (nat \<times> nat) \<times> sdb" where
  "SyncCommands order parse body db = (case body of
     None \<Rightarrow> ((400, 0), db)
   | Some (proxyID, data) \<Rightarrow>
       (if proxyID = [] then ((400, 0), db)
        else (case parse_batch (parse_command parse) valid_command data of
            Inl _ \<Rightarrow> ((400, 0), db)
          | Inr cs \<Rightarrow> ((200, length cs), db\<lparr>sd_trail := count_commands order cs (fold create_command cs (sd_trail db))\<rparr>))))"

section \<open>Statistics\<close>

definition GetProxyStats :: "string \<Rightarrow> sdb \<Rightarrow> nat \<times> nat \<times> nat" where
  "GetProxyStats proxyID db =
     (length (filter (\<lambda>h. sh_ProxyID h = proxyID) (sd_histories db)),
      length (filter (\<lambda>h. sh_ProxyID h = proxyID \<and> sh_Status h = ''active'') (sd_histories db)),
      length (filter (\<lambda>c. cr_ProxyID c = proxyID) (command_histories (sd_trail db))))"

section \<open>Properties\<close>

subsection \<open>Reports are recorded once\<close>

definition present_recording :: "SessionRecording \<Rightarrow> tdb \<Rightarrow> bool" where
  "present_recording r db \<longleftrightarrow> sr_ID r \<in> sr_ID ` set (session_recordings db) \<or> sr_SessionID r \<in> sr_SessionID ` set (session_recordings db)"

definition present_login :: "LoginRecord \<Rightarrow> tdb \<Rightarrow> bool" where
  "present_login l db \<longleftrightarrow> lo_ID l \<in> lo_ID ` set (login_records db)"

lemma stored_keys [simp]: "sr_ID (stored r) = sr_ID r" "sr_SessionID (stored r) = sr_SessionID r"
  by (simp_all add: stored_def)

lemma create_recording_cases:
  "create_recording r db = (if present_recording r db then None else Some (db\<lparr>session_recordings := session_recordings db @ [stored r]\<rparr>))"
  by (simp add: create_recording_def present_recording_def stored_def)

lemma first_or_create_recording_absent:
  "\<not> present_recording r db \<Longrightarrow>
   first_where (\<lambda>x. sr_SessionID x = sr_SessionID r \<and> (sr_ID r = [] \<or> sr_ID x = sr_ID r)) (session_recordings db) = None"
  by (auto simp: first_where_None present_recording_def image_iff)

lemma sync_recording_cases:
  "sync_recording r db = (if present_recording r db then db else db\<lparr>session_recordings := session_recordings db @ [stored r]\<rparr>)"
  using first_or_create_recording_absent[of r db]
  by (auto simp: sync_recording_def first_or_create_recording_def create_recording_cases split: option.splits)

lemma first_or_create_login_cases:
  "first_or_create_login l db = (if present_login l db then db
     else db\<lparr>login_records := login_records db @ [l\<lparr>lo_Status := or_default ''active'' (lo_Status l)\<rparr>]\<rparr>)"
proof (cases "present_login l db")
  case False
  then have "first_where (\<lambda>x. lo_SessionID x = lo_SessionID l \<and> lo_ID x = lo_ID l) (login_records db) = None"
    by (auto simp: first_where_None present_login_def image_iff)
  with False show ?thesis by (simp add: first_or_create_login_def create_login_def present_login_def)
next
  case True
  then show ?thesis by (simp add: first_or_create_login_def create_login_def present_login_def split: option.splits)
qed

interpretation synced: insert_once sync_recording present_recording
  by unfold_locales (auto simp: sync_recording_cases present_recording_def)

interpretation logged: insert_once first_or_create_login present_login
  by unfold_locales (auto simp: first_or_create_login_cases present_login_def)

lemma present_recording_login: "present_recording r (fold first_or_create_login ls db) = present_recording r db"
  by (induction ls arbitrary: db) (simp_all add: first_or_create_login_cases present_recording_def)

lemma sync_sessions_again:
  assumes "set ss \<subseteq> set rs"
  shows "sync_sessions ss (sync_sessions rs db) = sync_sessions rs db"
proof -
  let ?d = "sync_sessions rs db"
  have "present_recording r ?d" if "r \<in> set ss" for r
    using synced.all_present[of r rs db] that assms by (auto simp: sync_sessions_def present_recording_login)
  then have "fold sync_recording ss ?d = ?d" by (rule synced.skip_all)
  moreover have "fold first_or_create_login (map sync_login ss) ?d = ?d"
    unfolding sync_sessions_def by (rule logged.insert_again) (use assms in auto)
  ultimately show ?thesis by (simp add: sync_sessions_def)
qed

lemma parse_batch_set: "parse_batch p valid xs = Inr rs \<Longrightarrow> set rs = {r. \<exists>x \<in> set xs. p x = Inr r \<and> valid r}"
  by (induction xs arbitrary: rs) (auto split: sum.splits if_splits)

text \<open>A batch of sessions is applied once.  After a batch was accepted every valid session of it is in the
  table of recordings, and sending the batch again, in part, in another order or repeated,
  changes nothing.\<close>

theorem session_batch_once:
  assumes "SyncSessions parse (Some (proxyID, data)) db = ((200, n), db1)" "set data' \<subseteq> set data"
  shows "snd (SyncSessions parse (Some (proxyID, data')) db1) = db1 \<and>
    (\<forall>x \<in> set data. \<forall>r. parse_session parse proxyID x = Inr r \<and> valid_session r \<longrightarrow> present_recording r (sd_trail db1))"
proof -
  obtain rs where rs: "parse_batch (parse_session parse proxyID) valid_session data = Inr rs" and p: "proxyID \<noteq> []"
    and db1: "db1 = db\<lparr>sd_trail := sync_sessions rs (sd_trail db)\<rparr>"
    using assms(1) by (auto simp: SyncSessions_def split: if_splits sum.splits)
  have "snd (SyncSessions parse (Some (proxyID, data')) db1) = db1"
  proof (cases "parse_batch (parse_session parse proxyID) valid_session data'")
    case (Inr ss)
    then have "set ss \<subseteq> set rs" using parse_batch_set[OF Inr] parse_batch_set[OF rs] assms(2) by auto
    then show ?thesis using p Inr by (simp add: SyncSessions_def db1 sync_sessions_again)
  qed (simp add: SyncSessions_def)
  moreover have "present_recording r (sd_trail db1)" if "r \<in> set rs" for r
    using synced.all_present[OF that, of "sd_trail db"] by (simp add: db1 sync_sessions_def present_recording_login)
  ultimately show ?thesis using parse_batch_set[OF rs] by auto
qed

subsection \<open>Commands are counted\<close>

lemma create_commands:
  "session_recordings (fold create_command cs db) = session_recordings db"
  "login_records (fold create_command cs db) = login_records db"
  "map (cr_ID_update (\<lambda>_. 0)) (command_histories (fold create_command cs db)) =
     map (cr_ID_update (\<lambda>_. 0)) (command_histories db) @ map (cr_ID_update (\<lambda>_. 0)) cs"
  by (induction cs arbitrary: db) (simp_all add: create_command_def)

lemma count_fold:
  assumes "distinct is"
  shows "session_recordings (fold (\<lambda>i. set_recording i (\<lambda>r. r\<lparr>sr_CommandCount := sr_CommandCount r + n i\<rparr>)) is db) =
    map (\<lambda>r. if sr_SessionID r \<in> set is then r\<lparr>sr_CommandCount := sr_CommandCount r + n (sr_SessionID r)\<rparr> else r) (session_recordings db)"
  using assms by (induction "is" arbitrary: db) (auto simp: update_where_def)

lemma count_fold_rest:
  "login_records (fold (\<lambda>i. set_recording i (f i)) is db) = login_records db"
  "command_histories (fold (\<lambda>i. set_recording i (f i)) is db) = command_histories db"
  by (induction "is" arbitrary: db) simp_all

lemma count_commands_recordings:
  assumes "mset (order (remdups (map cr_SessionID cs))) = mset (remdups (map cr_SessionID cs))"
  shows "session_recordings (count_commands order cs db) =
    map (\<lambda>r. r\<lparr>sr_CommandCount := sr_CommandCount r + int (commands_in (sr_SessionID r) cs)\<rparr>) (session_recordings db)"
proof -
  let ?is = "order (remdups (map cr_SessionID cs))"
  have "distinct ?is" using mset_eq_imp_distinct_iff[OF assms] by simp
  moreover have "set ?is = cr_SessionID ` set cs" using mset_eq_setD[OF assms] by simp
  moreover have "commands_in i cs = 0" if "i \<notin> cr_SessionID ` set cs" for i
    using that by (auto simp: commands_in_def filter_empty_conv)
  ultimately show ?thesis by (auto simp: count_commands_def count_fold)
qed

text \<open>An accepted batch of commands is appended in its order, and the count of every recording grows by
  exactly the commands of its session, in whatever order the counts are applied; logins and
  all else stay.\<close>

theorem command_batch_counted:
  assumes "\<And>xs. mset (order xs) = mset xs" "parse_batch (parse_command parse) valid_command data = Inr cs" "proxyID \<noteq> []"
    and "SyncCommands order parse (Some (proxyID, data)) db = (answer, db1)"
  shows "answer = (200, length cs) \<and> login_records (sd_trail db1) = login_records (sd_trail db) \<and>
    session_recordings (sd_trail db1) =
      map (\<lambda>r. r\<lparr>sr_CommandCount := sr_CommandCount r + int (commands_in (sr_SessionID r) cs)\<rparr>) (session_recordings (sd_trail db)) \<and>
    map (cr_ID_update (\<lambda>_. 0)) (command_histories (sd_trail db1)) =
      map (cr_ID_update (\<lambda>_. 0)) (command_histories (sd_trail db)) @ map (cr_ID_update (\<lambda>_. 0)) cs"
proof -
  have "answer = (200, length cs)" "sd_trail db1 = count_commands order cs (fold create_command cs (sd_trail db))"
    using assms(2-4) by (auto simp: SyncCommands_def)
  then show ?thesis
    using count_commands_recordings[of order cs "fold create_command cs (sd_trail db)", OF assms(1)]
    by (simp add: create_commands) (simp add: count_commands_def count_fold_rest create_commands)
qed

subsection \<open>Reports only add\<close>

definition grown :: "SessionRecording \<Rightarrow> SessionRecording \<Rightarrow> bool" where
  "grown r r' \<longleftrightarrow> (\<exists>n \<ge> 0. r' = r\<lparr>sr_CommandCount := sr_CommandCount r + n\<rparr>)"

definition extends :: "tdb \<Rightarrow> tdb \<Rightarrow> bool" where
  "extends db db' \<longleftrightarrow> prefix (login_records db) (login_records db') \<and> prefix (command_histories db) (command_histories db') \<and>
     (\<exists>old new. session_recordings db' = old @ new \<and> list_all2 grown (session_recordings db) old)"

lemma grown_refl: "grown r r"
  unfolding grown_def by (rule exI[of _ 0]) simp

lemma grown_trans: "grown r s \<Longrightarrow> grown s t \<Longrightarrow> grown r t"
proof -
  assume "grown r s" "grown s t"
  then obtain m n where "0 \<le> m" "s = r\<lparr>sr_CommandCount := sr_CommandCount r + m\<rparr>" "0 \<le> n" "t = s\<lparr>sr_CommandCount := sr_CommandCount s + n\<rparr>"
    unfolding grown_def by blast
  then show ?thesis unfolding grown_def by (intro exI[of _ "m + n"]) simp
qed

lemma extendsI:
  assumes "login_records db' = login_records db @ ls" "command_histories db' = command_histories db @ cs"
    and "session_recordings db' = map f (session_recordings db) @ new" "\<And>r. grown r (f r)"
  shows "extends db db'"
proof -
  have "list_all2 grown (session_recordings db) (map f (session_recordings db))" using assms(4) by (simp add: list_all2_conv_all_nth)
  with assms(3) have "\<exists>old new. session_recordings db' = old @ new \<and> list_all2 grown (session_recordings db) old" by blast
  with assms(1,2) show ?thesis by (simp add: extends_def)
qed

lemma extends_refl: "extends db db"
  by (rule extendsI[of _ _ "[]" "[]" "\<lambda>r. r" "[]"]) (simp_all add: grown_refl)

lemma extends_trans: "extends a b \<Longrightarrow> extends b c \<Longrightarrow> extends a c"
proof -
  assume ab: "extends a b" and bc: "extends b c"
  from ab obtain o1 n1 where 1: "session_recordings b = o1 @ n1" "list_all2 grown (session_recordings a) o1" unfolding extends_def by blast
  from bc 1(1) obtain o2 n2 where 2: "session_recordings c = o2 @ n2" "list_all2 grown (o1 @ n1) o2" unfolding extends_def by auto
  then obtain u v where uv: "o2 = u @ v" "list_all2 grown o1 u" by (auto simp: list_all2_append1)
  have "list_all2 grown (session_recordings a) u" by (rule list_all2_trans[OF grown_trans 1(2) uv(2)])
  then have "\<exists>old new. session_recordings c = old @ new \<and> list_all2 grown (session_recordings a) old" using 2(1) uv(1) by auto
  then show ?thesis using ab bc by (auto simp: extends_def intro: prefix_order.trans)
qed

lemma extends_sync_recording: "extends db (sync_recording r db)"
  by (rule extendsI[of _ _ "[]" "[]" "\<lambda>r. r" "if present_recording r db then [] else [stored r]"])
    (simp_all add: sync_recording_cases grown_refl)

lemma extends_login: "extends db (first_or_create_login l db)"
  by (cases "present_login l db")
    (auto simp: first_or_create_login_cases extends_refl grown_refl intro!: extendsI[of _ _ _ "[]" "\<lambda>r. r" "[]"])

lemma extends_command: "extends db (create_command c db)"
  by (auto simp: create_command_def grown_refl intro!: extendsI[of _ _ "[]" _ "\<lambda>r. r" "[]"])

lemma extends_count:
  assumes "0 \<le> n"
  shows "extends db (set_recording i (\<lambda>r. r\<lparr>sr_CommandCount := sr_CommandCount r + n\<rparr>) db)"
proof (rule extendsI[of _ _ "[]" "[]" "\<lambda>r. if sr_SessionID r = i then r\<lparr>sr_CommandCount := sr_CommandCount r + n\<rparr> else r" "[]"])
  have "grown r (r\<lparr>sr_CommandCount := sr_CommandCount r + n\<rparr>)" for r unfolding grown_def using assms by blast
  then show "grown r (if sr_SessionID r = i then r\<lparr>sr_CommandCount := sr_CommandCount r + n\<rparr> else r)" for r by (simp add: grown_refl)
qed (simp_all add: update_where_def)

lemma extends_fold: "(\<And>x d. extends d (f x d)) \<Longrightarrow> extends db (fold f xs db)"
  by (induction xs arbitrary: db) (auto intro: extends_refl extends_trans)

lemma extends_reported: "first_or_create_recording r db = Some (x, db1) \<Longrightarrow> extends db db1"
  using extends_sync_recording[of db r] by (simp add: sync_recording_def)

text \<open>The requests of proxies.\<close>

datatype proxy_report =
    OneSession "(string \<times> SessionRecord) option"
  | SessionBatch "(string \<times> item list) option"
  | CloseReport string "(string \<times> string \<times> time) option"
  | OneCommand "(string \<times> CommandRecord) option"
  | CommandBatch "string list \<Rightarrow> string list" "(string \<times> item list) option"

fun serve_report :: "(string \<Rightarrow> string \<Rightarrow> time option) \<Rightarrow> proxy_report \<Rightarrow> sdb \<Rightarrow> sdb" where
  "serve_report parse (OneSession body) db = snd (ReportSession body db)"
| "serve_report parse (SessionBatch body) db = snd (SyncSessions parse body db)"
| "serve_report parse (CloseReport i body) db = snd (proxy_CloseSession i body db)"
| "serve_report parse (OneCommand body) db = snd (ReportCommand body db)"
| "serve_report parse (CommandBatch order body) db = snd (SyncCommands order parse body db)"

lemma serve_report_extends: "extends (sd_trail db) (sd_trail (serve_report parse q db))"
proof (cases q)
  case (OneSession body)
  then show ?thesis
    by (auto simp: ReportSession_def extends_refl split: option.splits dest!: extends_reported intro: extends_trans[OF _ extends_login])
next
  case (SessionBatch body)
  have "extends db (sync_sessions rs db)" for rs db
    unfolding sync_sessions_def by (rule extends_trans; rule extends_fold) (rule extends_sync_recording, rule extends_login)
  then show ?thesis using SessionBatch by (auto simp: SyncSessions_def extends_refl split: option.splits sum.splits)
next
  case (CloseReport i body)
  then show ?thesis by (auto simp: proxy_CloseSession_def extends_refl split: option.splits)
next
  case (OneCommand body)
  then show ?thesis
    by (auto simp: ReportCommand_def extends_refl split: option.splits intro!: extends_trans[OF extends_command extends_count])
next
  case (CommandBatch order body)
  have "extends db (count_commands order cs (fold create_command cs db))" for cs db
    unfolding count_commands_def by (rule extends_trans; rule extends_fold) (rule extends_command, rule extends_count, simp)
  then show ?thesis using CommandBatch by (auto simp: SyncCommands_def extends_refl split: option.splits sum.splits)
qed

lemma serve_report_rest:
  "sd_hosts (serve_report parse q db) = sd_hosts db \<and> sd_proxies (serve_report parse q db) = sd_proxies db \<and>
   sd_tokens (serve_report parse q db) = sd_tokens db"
  by (cases q) (auto simp: ReportSession_def SyncSessions_def proxy_CloseSession_def ReportCommand_def SyncCommands_def
      split: option.splits sum.splits)

text \<open>The reports of proxies, which nobody authenticates, can only add to the audit trail.  Whatever is reported in
  whatever order, the logins and commands that were there stay as they were, and a recording
  changes only in its command count, which never falls: no report ends a recording, not even
  the one that closes its session.\<close>

theorem reports_only_add:
  "let db' = fold (serve_report parse) reports db in
   extends (sd_trail db) (sd_trail db') \<and> sd_hosts db' = sd_hosts db \<and> sd_proxies db' = sd_proxies db \<and> sd_tokens db' = sd_tokens db"
proof -
  have "extends (sd_trail db) (sd_trail (fold (serve_report parse) reports db))"
    by (induction reports arbitrary: db) (auto intro: extends_refl extends_trans serve_report_extends)
  moreover have "sd_hosts (fold (serve_report parse) reports db) = sd_hosts db \<and> sd_proxies (fold (serve_report parse) reports db) = sd_proxies db \<and>
      sd_tokens (fold (serve_report parse) reports db) = sd_tokens db"
    by (induction reports arbitrary: db) (simp_all add: serve_report_rest)
  ultimately show ?thesis by (simp add: Let_def)
qed

subsection \<open>An instance\<close>

definition batch_item :: item where
  "batch_item k = (if k = ''session_id'' then Some (JString ''p1'') else if k = ''start_time'' then Some (JString ''7'')
     else if k = ''executed_at'' then Some (JString ''8'') else None)"

definition decimal_time :: "string \<Rightarrow> string \<Rightarrow> time option" where
  "decimal_time layout s = (case Atoi s of (n, ok) \<Rightarrow> if ok then Some n else None)"

theorem session_batch_once_witness:
  "let db1 = snd (SyncSessions decimal_time (Some (''px'', [batch_item])) session_db) in
   snd (SyncSessions decimal_time (Some (''px'', [batch_item, batch_item])) db1) = db1 \<and> length (session_recordings (sd_trail db1)) = 2"
proof -
  let ?s = "SyncSessions decimal_time (Some (''px'', [batch_item])) session_db"
  have "fst ?s = (200, 1)" by code_simp
  then have s: "?s = ((200, 1), snd ?s)" by (metis prod.collapse)
  have "length (session_recordings (sd_trail (snd ?s))) = 2" by code_simp
  with session_batch_once[OF s, of "[batch_item, batch_item]"] show ?thesis by (simp add: Let_def)
qed

theorem command_batch_counted_witness:
  "fst (SyncCommands rev decimal_time (Some (''px'', [batch_item])) session_db) = (200, 1) \<and>
   length (command_histories (sd_trail (snd (SyncCommands rev decimal_time (Some (''px'', [batch_item])) session_db)))) = 1"
proof -
  let ?p = "parse_batch (parse_command decimal_time) valid_command [batch_item]"
    and ?s = "SyncCommands rev decimal_time (Some (''px'', [batch_item])) session_db"
  have "(case ?p of Inl _ \<Rightarrow> False | Inr cs \<Rightarrow> length cs = 1)" by code_simp
  then obtain cs where cs: "?p = Inr cs" "length cs = 1" by (auto split: sum.splits)
  have "mset (rev xs) = mset xs" for xs :: "string list" by simp
  from command_batch_counted[OF this cs(1), of "''px''" session_db "fst ?s" "snd ?s"] cs(2)
  have "fst ?s = (200, 1)" "map (cr_ID_update (\<lambda>_. 0)) (command_histories (sd_trail (snd ?s))) =
      map (cr_ID_update (\<lambda>_. 0)) (command_histories (sd_trail session_db)) @ map (cr_ID_update (\<lambda>_. 0)) cs" by simp_all
  moreover have "command_histories (sd_trail session_db) = []" by code_simp
  ultimately show ?thesis using cs(2) by (metis append_Nil length_map list.map_disc_iff)
qed

end
