(* ===== verification/User_Groups.thy ===== *)
theory User_Groups
imports Accounts Hosts
begin

text \<open>
  User groups and their members: \<open>internal/repository/user_group_repository.go\<close>,
  \<open>internal/api/handler/user_group_handler.go\<close>, and the lists of users and the assignment of
  groups of \<open>internal/repository/user_repository.go\<close>, \<open>internal/service/auth_service.go\<close> and
  \<open>internal/api/handler/auth_handler.go\<close>.  They decide who falls under the rules of
  \<open>Permissions\<close>.  Members are (group, user) pairs with the unique and foreign keys of the
  schema; the creation time of an account, by which lists are ordered, is an argument.
\<close>

section \<open>Repository of user groups\<close>

record udb =
  ud_perms :: pdb
  ud_accounts :: adb

definition with_perms :: "udb \<Rightarrow> perm_error + pdb \<Rightarrow> perm_error option \<times> udb" where
  "with_perms db res = (case res of Inl e \<Rightarrow> (Some e, db) | Inr p \<Rightarrow> (None, db\<lparr>ud_perms := p\<rparr>))"

text \<open>The creation time is the current one unless the row carries another; names are unique under the collation.\<close>

definition created_at :: "time \<Rightarrow> time \<Rightarrow> time" where "created_at now t = (if t = zero_time then now else t)"

definition UserGroup_Create :: "libs \<Rightarrow> time \<Rightarrow> UserGroup \<Rightarrow> pdb \<Rightarrow> perm_error + pdb" where
  "UserGroup_Create L now g db =
     (if ug_ID g \<in> ug_ID ` set (user_groups db) \<or> collate L (ug_Name g) \<in> (collate L \<circ> ug_Name) ` set (user_groups db) then Inl DuplicateKey
      else Inr (db\<lparr>user_groups := user_groups db @ [g\<lparr>ug_Status := or_default ''active'' (ug_Status g), ug_CreatedAt := created_at now (ug_CreatedAt g)\<rparr>]\<rparr>))"

text \<open>Zero values and the columns of the creation are left alone.\<close>

definition merge_ug :: "UserGroup \<Rightarrow> UserGroup \<Rightarrow> UserGroup" where
  "merge_ug n old = old\<lparr>
     ug_Name := or_default (ug_Name old) (ug_Name n), ug_Description := or_default (ug_Description old) (ug_Description n),
     ug_Color := or_default (ug_Color old) (ug_Color n), ug_Icon := or_default (ug_Icon old) (ug_Icon n),
     ug_Priority := (if ug_Priority n = 0 then ug_Priority old else ug_Priority n),
     ug_Status := or_default (ug_Status old) (ug_Status n)\<rparr>"

definition UserGroup_Update :: "libs \<Rightarrow> UserGroup \<Rightarrow> pdb \<Rightarrow> perm_error + pdb" where
  "UserGroup_Update L g db =
     (let t = update_where (\<lambda>x. ug_ID x = ug_ID g) (merge_ug g) (user_groups db) in
      if distinct (map (collate L \<circ> ug_Name) t) then Inr (db\<lparr>user_groups := t\<rparr>) else Inl DuplicateKey)"

text \<open>Deleting a group deletes its members and, through the foreign key, its rules.\<close>

definition UserGroup_Delete :: "string \<Rightarrow> pdb \<Rightarrow> pdb" where
  "UserGroup_Delete i db =
     (let db = delete_rules (\<lambda>r. pr_UserGroupID r = i) (db\<lparr>user_group_members := delete_where (\<lambda>(g, u). g = i) (user_group_members db)\<rparr>) in
      db\<lparr>user_groups := delete_where (\<lambda>g. ug_ID g = i) (user_groups db)\<rparr>)"

definition UserGroup_FindByID :: "string \<Rightarrow> pdb \<Rightarrow> UserGroup option" where
  "UserGroup_FindByID i db = First ug_ID (\<lambda>g. ug_ID g = i) (user_groups db)"

definition ug_order :: "UserGroup list \<Rightarrow> UserGroup list" where
  "ug_order t = sort_key (\<lambda>g. - ug_Priority g) (sort_key (\<lambda>g. - ug_CreatedAt g) t)"

definition UserGroup_FindAll :: "pdb \<Rightarrow> UserGroup list" where "UserGroup_FindAll db = ug_order (user_groups db)"

definition UserGroup_FindByStatus :: "string \<Rightarrow> pdb \<Rightarrow> UserGroup list" where
  "UserGroup_FindByStatus status db = ug_order (filter (\<lambda>g. ug_Status g = status) (user_groups db))"

definition member_count :: "string \<Rightarrow> pdb \<Rightarrow> nat" where
  "member_count i db = length (remdups (map snd (filter (\<lambda>(g, u). g = i) (user_group_members db))))"

definition FindAllWithMembers :: "pdb \<Rightarrow> (UserGroup \<times> nat) list" where
  "FindAllWithMembers db = map (\<lambda>g. (g, member_count (ug_ID g) db)) (ug_order (user_groups db))"

text \<open>The join of the members with the accounts, by user name.\<close>

definition GetMembersByGroupID :: "libs \<Rightarrow> string \<Rightarrow> udb \<Rightarrow> User list" where
  "GetMembersByGroupID L i db = sort_key (\<lambda>u. collate L (u_Username u))
     (concat (map (\<lambda>(g, uid). filter (\<lambda>u. u_ID u = uid) (users (ud_accounts db)))
        (filter (\<lambda>(g, uid). g = i) (user_group_members (ud_perms db)))))"

definition FindByIDWithMembers :: "libs \<Rightarrow> string \<Rightarrow> udb \<Rightarrow> (UserGroup \<times> User list \<times> nat) option" where
  "FindByIDWithMembers L i db = (case UserGroup_FindByID i (ud_perms db) of
     None \<Rightarrow> None | Some g \<Rightarrow> (let ms = GetMembersByGroupID L i db in Some (g, ms, length ms)))"

text \<open>Inserting a membership: the group and the user exist and the pair is new.\<close>

definition insert_member :: "string \<Rightarrow> string \<Rightarrow> udb \<Rightarrow> perm_error + pdb" where
  "insert_member g u db =
     (if g \<notin> ug_ID ` set (user_groups (ud_perms db)) \<or> u \<notin> u_ID ` set (users (ud_accounts db)) then Inl ForeignKey
      else if (g, u) \<in> set (user_group_members (ud_perms db)) then Inl DuplicateKey
      else Inr ((ud_perms db)\<lparr>user_group_members := user_group_members (ud_perms db) @ [(g, u)]\<rparr>))"

definition AddMember :: "string \<Rightarrow> string \<Rightarrow> udb \<Rightarrow> perm_error option \<times> udb" where
  "AddMember g u db = with_perms db (insert_member g u db)"

definition RemoveMember :: "string \<Rightarrow> string \<Rightarrow> udb \<Rightarrow> udb" where
  "RemoveMember g u db = db\<lparr>ud_perms := (ud_perms db)
     \<lparr>user_group_members := delete_where (\<lambda>m. m = (g, u)) (user_group_members (ud_perms db))\<rparr>\<rparr>"

definition GetGroupsByUserID :: "string \<Rightarrow> pdb \<Rightarrow> UserGroup list" where
  "GetGroupsByUserID u db = ug_order (concat (map (\<lambda>g.
     map (\<lambda>_. g) (filter (\<lambda>m. m = (ug_ID g, u)) (user_group_members db))) (filter (\<lambda>g. ug_Status g = ''active'') (user_groups db))))"

definition IsMember :: "string \<Rightarrow> string \<Rightarrow> pdb \<Rightarrow> bool" where
  "IsMember g u db \<longleftrightarrow> (g, u) \<in> set (user_group_members db)"

text \<open>A list of memberships is inserted in one transaction or statement: any error leaves nothing of it.
  The text of an error of MySQL is never the one that the code means to ignore.\<close>

fun insert_members :: "(string \<times> string) list \<Rightarrow> udb \<Rightarrow> perm_error + udb" where
  "insert_members [] db = Inr db"
| "insert_members ((g, u) # ms) db = (case insert_member g u db of
     Inl e \<Rightarrow> Inl e | Inr p \<Rightarrow> insert_members ms (db\<lparr>ud_perms := p\<rparr>))"

definition all_or_nothing :: "udb \<Rightarrow> perm_error + udb \<Rightarrow> perm_error option \<times> udb" where
  "all_or_nothing db res = (case res of Inl e \<Rightarrow> (Some e, db) | Inr db1 \<Rightarrow> (None, db1))"

definition BatchAddMembers :: "string \<Rightarrow> string list \<Rightarrow> udb \<Rightarrow> perm_error option \<times> udb" where
  "BatchAddMembers g us db = all_or_nothing db (insert_members (map (\<lambda>u. (g, u)) us) db)"

definition BatchRemoveMembers :: "string \<Rightarrow> string list \<Rightarrow> udb \<Rightarrow> udb" where
  "BatchRemoveMembers g us db = db\<lparr>ud_perms := (ud_perms db)
     \<lparr>user_group_members := delete_where (\<lambda>(x, u). x = g \<and> u \<in> set us) (user_group_members (ud_perms db))\<rparr>\<rparr>"

section \<open>Users and their groups\<close>

text \<open>The old memberships are deleted first, in a statement of its own.\<close>

definition repo_AssignGroupsToUser :: "string \<Rightarrow> string list \<Rightarrow> udb \<Rightarrow> perm_error option \<times> udb" where
  "repo_AssignGroupsToUser userID groupIDs db =
     (let db = db\<lparr>ud_perms := (ud_perms db)\<lparr>user_group_members := delete_where (\<lambda>(g, u). u = userID) (user_group_members (ud_perms db))\<rparr>\<rparr> in
      if groupIDs = [] then (None, db) else all_or_nothing db (insert_members (map (\<lambda>g. (g, userID)) groupIDs) db))"

definition repo_GetUserGroups :: "string \<Rightarrow> pdb \<Rightarrow> string list" where
  "repo_GetUserGroups userID db = map fst (filter (\<lambda>(g, u). u = userID) (user_group_members db))"

definition GetUserWithGroups :: "string \<Rightarrow> udb \<Rightarrow> (User \<times> string list) option" where
  "GetUserWithGroups userID db = (case FindUserByID userID (ud_accounts db) of
     None \<Rightarrow> None | Some u \<Rightarrow> Some (u, repo_GetUserGroups userID (ud_perms db)))"

definition matching_users :: "sql_match \<Rightarrow> (User \<Rightarrow> time) \<Rightarrow> string \<Rightarrow> User list \<Rightarrow> User list" where
  "matching_users M created keyword t = sort_key (\<lambda>u. - created u) (filter (\<lambda>u. keyword = [] \<or>
     LIKE M (u_Username u) (around keyword) \<or> LIKE M (u_Email u) (around keyword) \<or> LIKE M (u_FullName u) (around keyword)) t)"

definition FindAllUsersWithPagination :: "sql_match \<Rightarrow> (User \<Rightarrow> time) \<Rightarrow> int \<Rightarrow> int \<Rightarrow> string \<Rightarrow> adb \<Rightarrow> User list \<times> nat" where
  "FindAllUsersWithPagination M created page pageSize keyword db =
     (paginate page pageSize (matching_users M created keyword (users db)), length (matching_users M created keyword (users db)))"

definition FindAllUsersWithGroups :: "sql_match \<Rightarrow> (User \<Rightarrow> time) \<Rightarrow> int \<Rightarrow> int \<Rightarrow> string \<Rightarrow> udb \<Rightarrow> (User \<times> string list) list \<times> nat" where
  "FindAllUsersWithGroups M created page pageSize keyword db =
     (case FindAllUsersWithPagination M created page pageSize keyword (ud_accounts db) of
        (us, n) \<Rightarrow> (map (\<lambda>u. (u, repo_GetUserGroups (u_ID u) (ud_perms db))) us, n))"

definition FindAllUsers :: "libs \<Rightarrow> adb \<Rightarrow> User list" where
  "FindAllUsers L db = sort_key (\<lambda>u. collate L (u_Username u)) (filter (\<lambda>u. u_Status u = ''active'') (users db))"

definition FindPlatformLoginRecords :: "int \<Rightarrow> int \<Rightarrow> string \<Rightarrow> adb \<Rightarrow> PlatformLoginRecord list \<times> nat" where
  "FindPlatformLoginRecords page pageSize userID db =
     (let rows = filter (\<lambda>r. userID = [] \<or> pl_UserID r = userID) (login_records db) in
      (paginate page pageSize (sort_key (\<lambda>r. - pl_LoginTime r) rows), length rows))"

definition RemoveUserFromGroup :: "string \<Rightarrow> string \<Rightarrow> udb \<Rightarrow> udb" where
  "RemoveUserFromGroup userID groupID db = RemoveMember groupID userID db"

definition AddUserToGroup :: "string \<Rightarrow> string \<Rightarrow> udb \<Rightarrow> perm_error option \<times> udb" where
  "AddUserToGroup userID groupID db = AddMember groupID userID db"

text \<open>The users with an enabled rule on a host group, whatever its period.\<close>

definition GetUsersInGroup :: "string \<Rightarrow> udb \<Rightarrow> User list" where
  "GetUsersInGroup groupID db =
     (let p = ud_perms db in remdups (filter (\<lambda>u. list_ex (\<lambda>r. pr_Enabled r \<and> (pr_UserGroupID r, u_ID u) \<in> set (user_group_members p) \<and>
        (pr_ID r, groupID) \<in> set (rule_host_groups p)) (permission_rules p)) (users (ud_accounts db))))"

text \<open>Hosts are no longer assigned to users directly.\<close>

definition repo_AssignHostsToUser :: "string \<Rightarrow> string list \<Rightarrow> udb \<Rightarrow> udb" where "repo_AssignHostsToUser userID hostIDs db = db"

definition GetUserHosts :: "string \<Rightarrow> string list" where "GetUserHosts userID = []"

definition GetUserHostGroupIDs :: "time \<Rightarrow> string \<Rightarrow> pdb \<Rightarrow> string list" where
  "GetUserHostGroupIDs now userID db =
     (let groups = repo_GetUserGroups userID db;
          rules = filter (\<lambda>r. pr_UserGroupID r \<in> set groups \<and> pr_Enabled r \<and> in_period now r) (permission_rules db)
      in remdups (map snd (filter (\<lambda>(r, g). r \<in> pr_ID ` set rules) (rule_host_groups db))))"

definition GetUserWithGroupsAndHosts :: "string \<Rightarrow> udb \<Rightarrow> (User \<times> string list \<times> string list) option" where
  "GetUserWithGroupsAndHosts userID db = (case FindUserByID userID (ud_accounts db) of
     None \<Rightarrow> None | Some u \<Rightarrow> Some (u, repo_GetUserGroups userID (ud_perms db), GetUserHosts userID))"

definition FindAllUsersWithGroupsAndHosts :: "sql_match \<Rightarrow> (User \<Rightarrow> time) \<Rightarrow> int \<Rightarrow> int \<Rightarrow> string \<Rightarrow> udb \<Rightarrow>
    (User \<times> string list \<times> string list) list \<times> nat" where
  "FindAllUsersWithGroupsAndHosts M created page pageSize keyword db =
     (case FindAllUsersWithPagination M created page pageSize keyword (ud_accounts db) of
        (us, n) \<Rightarrow> (map (\<lambda>u. (u, repo_GetUserGroups (u_ID u) (ud_perms db), GetUserHosts (u_ID u))) us, n))"

section \<open>Service\<close>

definition svc_AssignGroupsToUser :: "string \<Rightarrow> string list \<Rightarrow> udb \<Rightarrow> bool \<times> udb" where
  "svc_AssignGroupsToUser userID groupIDs db = (case FindUserByID userID (ud_accounts db) of
     None \<Rightarrow> (False, db)
   | Some _ \<Rightarrow> (case repo_AssignGroupsToUser userID groupIDs db of (e, db1) \<Rightarrow> (e = None, db1)))"

definition svc_AssignHostsToUser :: "string \<Rightarrow> string list \<Rightarrow> udb \<Rightarrow> bool \<times> udb" where
  "svc_AssignHostsToUser userID hostIDs db = (case FindUserByID userID (ud_accounts db) of
     None \<Rightarrow> (False, db) | Some _ \<Rightarrow> (True, repo_AssignHostsToUser userID hostIDs db))"

definition GetUsersWithPagination :: "sql_match \<Rightarrow> (User \<Rightarrow> time) \<Rightarrow> int \<Rightarrow> int \<Rightarrow> string \<Rightarrow> adb \<Rightarrow> User list \<times> nat" where
  "GetUsersWithPagination M created page pageSize keyword db =
     FindAllUsersWithPagination M created (clamp_page page) (clamp_size 100 pageSize) keyword db"

definition GetUsersWithGroups :: "sql_match \<Rightarrow> (User \<Rightarrow> time) \<Rightarrow> int \<Rightarrow> int \<Rightarrow> string \<Rightarrow> udb \<Rightarrow> (User \<times> string list) list \<times> nat" where
  "GetUsersWithGroups M created page pageSize keyword db =
     FindAllUsersWithGroups M created (clamp_page page) (clamp_size 100 pageSize) keyword db"

definition GetPlatformLoginRecords :: "int \<Rightarrow> int \<Rightarrow> string \<Rightarrow> adb \<Rightarrow> PlatformLoginRecord list \<times> nat" where
  "GetPlatformLoginRecords page pageSize userID db =
     FindPlatformLoginRecords (clamp_page page) (clamp_size 100 pageSize) userID db"

section \<open>Handlers\<close>

definition ListUserGroups :: "string \<Rightarrow> pdb \<Rightarrow> (UserGroup \<times> nat option) list" where
  "ListUserGroups withMembers db =
     (if withMembers = ''true'' then map (\<lambda>(g, n). (g, Some n)) (FindAllWithMembers db)
      else map (\<lambda>g. (g, None)) (UserGroup_FindAll db))"

definition GetUserGroup :: "libs \<Rightarrow> string \<Rightarrow> string \<Rightarrow> udb \<Rightarrow> nat \<times> (UserGroup \<times> (User list \<times> nat) option) option" where
  "GetUserGroup L i withMembers db =
     (if withMembers = ''true'' then (case FindByIDWithMembers L i db of
        None \<Rightarrow> (404, None) | Some (g, ms, n) \<Rightarrow> (200, Some (g, Some (ms, n))))
      else (case UserGroup_FindByID i (ud_perms db) of None \<Rightarrow> (404, None) | Some g \<Rightarrow> (200, Some (g, None))))"

text \<open>\<open>caller\<close> is the user of the middleware, a body \<open>None\<close> one that cannot be bound.\<close>

definition answer_of :: "perm_error option \<times> udb \<Rightarrow> nat \<times> udb" where
  "answer_of res = (case res of (None, db) \<Rightarrow> (200, db) | (Some _, db) \<Rightarrow> (500, db))"

definition CreateUserGroup :: "libs \<Rightarrow> time \<Rightarrow> string \<Rightarrow> string option \<Rightarrow> UserGroup option \<Rightarrow> udb \<Rightarrow> nat \<times> udb" where
  "CreateUserGroup L now newID caller body db = (case body of
     None \<Rightarrow> (400, db)
   | Some g \<Rightarrow> answer_of (with_perms db (UserGroup_Create L now
       (g\<lparr>ug_ID := newID, ug_CreatedBy := (case caller of None \<Rightarrow> ug_CreatedBy g | Some u \<Rightarrow> u)\<rparr>) (ud_perms db))))"

definition UpdateUserGroup :: "libs \<Rightarrow> string \<Rightarrow> UserGroup option \<Rightarrow> udb \<Rightarrow> nat \<times> udb" where
  "UpdateUserGroup L i body db = (case body of
     None \<Rightarrow> (400, db) | Some g \<Rightarrow> answer_of (with_perms db (UserGroup_Update L (g\<lparr>ug_ID := i\<rparr>) (ud_perms db))))"

definition DeleteUserGroup :: "string \<Rightarrow> udb \<Rightarrow> nat \<times> udb" where
  "DeleteUserGroup i db = (200, db\<lparr>ud_perms := UserGroup_Delete i (ud_perms db)\<rparr>)"

definition AddUserGroupMember :: "string \<Rightarrow> string option \<Rightarrow> udb \<Rightarrow> nat \<times> udb" where
  "AddUserGroupMember i body db = (case body of
     None \<Rightarrow> (400, db) | Some u \<Rightarrow> (if u = [] then (400, db) else answer_of (AddMember i u db)))"

definition RemoveUserGroupMember :: "string \<Rightarrow> string \<Rightarrow> udb \<Rightarrow> nat \<times> udb" where
  "RemoveUserGroupMember i u db = (200, RemoveMember i u db)"

definition handler_BatchAddMembers :: "string \<Rightarrow> string list option \<Rightarrow> udb \<Rightarrow> nat \<times> udb" where
  "handler_BatchAddMembers i body db = (case body of None \<Rightarrow> (400, db) | Some us \<Rightarrow> answer_of (BatchAddMembers i us db))"

definition GetUserGroups :: "string \<Rightarrow> pdb \<Rightarrow> nat \<times> UserGroup list" where
  "GetUserGroups userID db = (if userID = [] then (400, []) else (200, GetGroupsByUserID userID db))"

definition handler_AssignGroupsToUser :: "string \<Rightarrow> string list option \<Rightarrow> udb \<Rightarrow> nat \<times> udb" where
  "handler_AssignGroupsToUser userID body db = (case body of
     None \<Rightarrow> (400, db)
   | Some groupIDs \<Rightarrow> (case svc_AssignGroupsToUser userID groupIDs db of (ok, db1) \<Rightarrow> (if ok then 200 else 400, db1)))"

definition handler_AssignHostsToUser :: "string \<Rightarrow> string list option \<Rightarrow> udb \<Rightarrow> nat \<times> udb" where
  "handler_AssignHostsToUser userID body db = (case body of
     None \<Rightarrow> (400, db)
   | Some hostIDs \<Rightarrow> (case svc_AssignHostsToUser userID hostIDs db of (ok, db1) \<Rightarrow> (if ok then 200 else 400, db1)))"

definition handler_GetPlatformLoginRecords :: "string option \<Rightarrow> string option \<Rightarrow> string \<Rightarrow> string \<Rightarrow> string \<Rightarrow> adb \<Rightarrow>
    PlatformLoginRecord list \<times> nat" where
  "handler_GetPlatformLoginRecords page pageSize asked role caller db =
     GetPlatformLoginRecords (query_int ''1'' page) (query_int ''10'' pageSize) (if role \<noteq> ''admin'' then caller else asked) db"

definition handler_GetUsersWithPagination :: "sql_match \<Rightarrow> (User \<Rightarrow> time) \<Rightarrow> string option \<Rightarrow> string option \<Rightarrow> string \<Rightarrow> adb \<Rightarrow> User list \<times> nat" where
  "handler_GetUsersWithPagination M created page pageSize keyword db =
     GetUsersWithPagination M created (query_int ''1'' page) (query_int ''10'' pageSize) keyword db"

definition GetUsersWithUserGroups :: "sql_match \<Rightarrow> (User \<Rightarrow> time) \<Rightarrow> string option \<Rightarrow> string option \<Rightarrow> string \<Rightarrow> udb \<Rightarrow>
    (User \<times> UserGroup list) list \<times> nat" where
  "GetUsersWithUserGroups M created page pageSize keyword db =
     (case GetUsersWithPagination M created (query_int ''1'' page) (query_int ''10'' pageSize) keyword (ud_accounts db) of
        (us, n) \<Rightarrow> (map (\<lambda>u. (u, GetGroupsByUserID (u_ID u) (ud_perms db))) us, n))"

section \<open>Properties\<close>

subsection \<open>Permissions by groups\<close>

text \<open>What the members of a group may do.\<close>

definition group_permits :: "time \<Rightarrow> string \<Rightarrow> string \<Rightarrow> string \<Rightarrow> pdb \<Rightarrow> bool" where
  "group_permits t g h s db \<longleftrightarrow> (\<exists>x \<in> set (user_groups db). ug_ID x = g \<and> ug_Status x = ''active'') \<and>
     (\<exists>r \<in> set (permission_rules db). pr_UserGroupID r = g \<and> pr_Enabled r \<and> in_period t r \<and> host_in_rule db h r \<and>
        (pr_ID r, s) \<in> set (rule_system_users db))"

lemma permission_by_group:
  "CheckUserHasPermission t u h s db \<longleftrightarrow> (\<exists>g. (g, u) \<in> set (user_group_members db) \<and> group_permits t g h s db)"
proof
  assume "CheckUserHasPermission t u h s db"
  then obtain r where r: "r \<in> set (permission_rules db)" "rule_applies t db u h r" "(pr_ID r, s) \<in> set (rule_system_users db)" by (auto simp: CheckUserHasPermission_iff)
  then show "\<exists>g. (g, u) \<in> set (user_group_members db) \<and> group_permits t g h s db"
    by (auto simp: rule_applies_def user_in_rule_def list_ex_iff group_permits_def intro!: exI[of _ "pr_UserGroupID r"])
next
  assume "\<exists>g. (g, u) \<in> set (user_group_members db) \<and> group_permits t g h s db"
  then obtain x r where x: "x \<in> set (user_groups db)" "ug_Status x = ''active''" "(ug_ID x, u) \<in> set (user_group_members db)"
    and r: "r \<in> set (permission_rules db)" "pr_UserGroupID r = ug_ID x" "pr_Enabled r" "in_period t r" "host_in_rule db h r"
      "(pr_ID r, s) \<in> set (rule_system_users db)" by (auto simp: group_permits_def)
  from x r(2) have "user_in_rule db u r" by (auto simp: user_in_rule_def list_ex_iff)
  with r show "CheckUserHasPermission t u h s db" by (auto simp: CheckUserHasPermission_iff rule_applies_def)
qed

lemma group_permits_members [simp]: "group_permits t g h s (db\<lparr>user_group_members := m\<rparr>) = group_permits t g h s db"
  by (simp add: group_permits_def host_in_rule_def)

lemma insert_member_Inr:
  "insert_member g u db = Inr p \<Longrightarrow> p = (ud_perms db)\<lparr>user_group_members := user_group_members (ud_perms db) @ [(g, u)]\<rparr> \<and>
     g \<in> ug_ID ` set (user_groups (ud_perms db)) \<and> u \<in> u_ID ` set (users (ud_accounts db)) \<and> (g, u) \<notin> set (user_group_members (ud_perms db))"
  by (auto simp: insert_member_def split: if_splits)

text \<open>C31: adding a member gives exactly the permissions of the group to exactly that user; a failed addition changes
  nothing.\<close>

theorem AddMember_grants:
  assumes "AddMember g u db = (e, db')"
  shows "(case e of Some _ \<Rightarrow> db' = db
    | None \<Rightarrow> ud_accounts db' = ud_accounts db \<and>
        (\<forall>t x h s. CheckUserHasPermission t x h s (ud_perms db') \<longleftrightarrow>
           CheckUserHasPermission t x h s (ud_perms db) \<or> x = u \<and> group_permits t g h s (ud_perms db)))"
  using assms by (auto simp: AddMember_def with_perms_def permission_by_group split: sum.splits dest!: insert_member_Inr)

text \<open>Removing a member leaves every user exactly the permissions of the groups that remain to them.\<close>

theorem RemoveMember_revokes:
  "CheckUserHasPermission t x h s (ud_perms (RemoveMember g u db)) \<longleftrightarrow>
     (\<exists>g'. (g', x) \<in> set (user_group_members (ud_perms db)) \<and> (g', x) \<noteq> (g, u) \<and> group_permits t g' h s (ud_perms db))"
  by (auto simp: permission_by_group RemoveMember_def set_delete_where)

lemma insert_members_Inr:
  "insert_members ms db = Inr db1 \<Longrightarrow>
   db1 = db\<lparr>ud_perms := (ud_perms db)\<lparr>user_group_members := user_group_members (ud_perms db) @ ms\<rparr>\<rparr> \<and>
   distinct ms \<and> set ms \<inter> set (user_group_members (ud_perms db)) = {} \<and>
   (\<forall>(g, u) \<in> set ms. g \<in> ug_ID ` set (user_groups (ud_perms db)) \<and> u \<in> u_ID ` set (users (ud_accounts db)))"
proof (induction ms arbitrary: db)
  case (Cons m ms)
  obtain g u where m: "m = (g, u)" by (cases m)
  from Cons.prems obtain p where p: "insert_member g u db = Inr p" "insert_members ms (db\<lparr>ud_perms := p\<rparr>) = Inr db1"
    by (auto simp: m split: sum.splits)
  from insert_member_Inr[OF p(1)] Cons.IH[OF p(2)] show ?case by (auto simp: m)
qed simp

text \<open>Assigning groups to a user replaces the groups: on success the user has exactly the permissions of the listed
  groups and all others keep theirs.  But the assignment is not a transaction: when it fails, with
  an unknown or repeated group in the list, the user is left without any permission.\<close>

theorem assignment_replaces_groups:
  assumes "repo_AssignGroupsToUser u gs db = (e, db')"
  shows "CheckUserHasPermission t x h s (ud_perms db') \<longleftrightarrow>
    (if x \<noteq> u then CheckUserHasPermission t x h s (ud_perms db)
     else e = None \<and> (\<exists>g \<in> set gs. group_permits t g h s (ud_perms db)))"
proof -
  let ?p = "(ud_perms db)\<lparr>user_group_members := delete_where (\<lambda>(g, v). v = u) (user_group_members (ud_perms db))\<rparr>"
  have "ud_perms db' = ?p\<lparr>user_group_members := user_group_members ?p @ (if e = None then map (\<lambda>g. (g, u)) gs else [])\<rparr>"
    using assms by (auto simp: repo_AssignGroupsToUser_def Let_def all_or_nothing_def split: if_splits sum.splits dest!: insert_members_Inr)
  then show ?thesis by (auto simp: permission_by_group set_delete_where)
qed

lemma rule_refs_ok_frame [simp]:
  "rule_refs_ok (db\<lparr>user_group_members := m\<rparr>) = rule_refs_ok db" "rule_refs_ok (delete_rules P db) = rule_refs_ok db"
  by (auto simp: rule_refs_ok_def fun_eq_iff delete_rules_def Let_def split: option.splits)

lemma pdb_ok_members [simp]: "pdb_ok (db\<lparr>user_group_members := m\<rparr>) = pdb_ok db"
  by (simp add: pdb_ok_def)

lemma delete_rules_tables [simp]:
  "user_groups (delete_rules P db) = user_groups db" "user_group_members (delete_rules P db) = user_group_members db"
  "host_groups (delete_rules P db) = host_groups db" "host_group_members (delete_rules P db) = host_group_members db"
  "system_users (delete_rules P db) = system_users db"
  "set (permission_rules (delete_rules P db)) = {r \<in> set (permission_rules db). \<not> P r}"
  by (simp_all add: delete_rules_def Let_def set_delete_where)

lemma pdb_ok_delete_rules:
  assumes "pdb_ok db"
  shows "pdb_ok (delete_rules P db)"
proof -
  let ?d = "delete_rules P db"
  have keep: "i \<in> pr_ID ` set (permission_rules ?d)"
    if "i \<in> pr_ID ` set (permission_rules db)" "i \<notin> pr_ID ` {r \<in> set (permission_rules db). P r}" for i
    using that by auto
  have su: "i \<in> pr_ID ` set (permission_rules ?d) \<and> s \<in> su_ID ` set (system_users ?d)" if "(i, s) \<in> set (rule_system_users ?d)" for i s
  proof -
    from that have "(i, s) \<in> set (rule_system_users db)" "i \<notin> pr_ID ` {r \<in> set (permission_rules db). P r}"
      by (auto simp: delete_rules_def Let_def set_delete_where)
    with assms keep[of i] show ?thesis by (auto simp: pdb_ok_def)
  qed
  have hg: "i \<in> pr_ID ` set (permission_rules ?d) \<and> g \<in> hg_ID ` set (host_groups ?d)" if "(i, g) \<in> set (rule_host_groups ?d)" for i g
  proof -
    from that have "(i, g) \<in> set (rule_host_groups db)" "i \<notin> pr_ID ` {r \<in> set (permission_rules db). P r}"
      by (auto simp: delete_rules_def Let_def set_delete_where)
    with assms keep[of i] show ?thesis by (auto simp: pdb_ok_def)
  qed
  have "distinct (map pr_ID (permission_rules ?d))" using assms by (simp add: pdb_ok_def delete_rules_def Let_def delete_where_keys_distinct)
  moreover have "\<forall>r \<in> set (permission_rules ?d). rule_refs_ok ?d r" using assms by (simp add: pdb_ok_def)
  ultimately show ?thesis unfolding pdb_ok_def using su hg by blast
qed

lemma host_in_rule_delete:
  assumes "pdb_ok db" "r \<in> set (permission_rules db)" "\<not> P r"
  shows "host_in_rule (delete_rules P db) h r = host_in_rule db h r"
    "(pr_ID r, s) \<in> set (rule_system_users (delete_rules P db)) \<longleftrightarrow> (pr_ID r, s) \<in> set (rule_system_users db)"
proof -
  have "pr_ID r \<notin> pr_ID ` {x \<in> set (permission_rules db). P x}"
    using assms by (auto simp: pdb_ok_def distinct_map dest: inj_onD)
  then show "host_in_rule (delete_rules P db) h r = host_in_rule db h r"
    "(pr_ID r, s) \<in> set (rule_system_users (delete_rules P db)) \<longleftrightarrow> (pr_ID r, s) \<in> set (rule_system_users db)"
    by (auto simp: host_in_rule_def delete_rules_def Let_def list_ex_iff set_delete_where)
qed

lemma group_permits_delete_rules:
  assumes "pdb_ok db"
  shows "group_permits t g h s (delete_rules (\<lambda>r. pr_UserGroupID r = i) db) \<longleftrightarrow> g \<noteq> i \<and> group_permits t g h s db"
  using host_in_rule_delete[OF assms, of _ "\<lambda>r. pr_UserGroupID r = i"] by (auto simp: group_permits_def)

text \<open>Deleting a user group withdraws exactly the permissions that rest on it.\<close>

theorem UserGroup_Delete_revokes:
  assumes "pdb_ok db"
  shows "CheckUserHasPermission t x h s (UserGroup_Delete i db) \<longleftrightarrow>
    (\<exists>g. g \<noteq> i \<and> (g, x) \<in> set (user_group_members db) \<and> group_permits t g h s db)"
proof -
  let ?m = "db\<lparr>user_group_members := delete_where (\<lambda>(g, u). g = i) (user_group_members db)\<rparr>"
  have "pdb_ok ?m" using assms by simp
  from group_permits_delete_rules[OF this, of t _ h s i]
  have "group_permits t g h s (delete_rules (\<lambda>r. pr_UserGroupID r = i) ?m) \<longleftrightarrow> g \<noteq> i \<and> group_permits t g h s db" for g by simp
  moreover have "group_permits t g h s (p\<lparr>user_groups := delete_where (\<lambda>g. ug_ID g = i) t'\<rparr>) \<longleftrightarrow> group_permits t g h s p"
    if "g \<noteq> i" "user_groups p = t'" for g p t' using that by (auto simp: group_permits_def host_in_rule_def set_delete_where)
  moreover have "user_group_members (UserGroup_Delete i db) = delete_where (\<lambda>(g, u). g = i) (user_group_members db)"
    by (simp add: UserGroup_Delete_def delete_rules_def Let_def)
  ultimately show ?thesis unfolding permission_by_group
    by (auto simp: UserGroup_Delete_def Let_def set_delete_where)
qed

subsection \<open>Integrity\<close>

definition groups_ok :: "libs \<Rightarrow> udb \<Rightarrow> bool" where
  "groups_ok L db \<longleftrightarrow> pdb_ok (ud_perms db) \<and> distinct (map ug_ID (user_groups (ud_perms db))) \<and>
     distinct (map (collate L \<circ> ug_Name) (user_groups (ud_perms db))) \<and> distinct (user_group_members (ud_perms db)) \<and>
     (\<forall>(g, u) \<in> set (user_group_members (ud_perms db)).
        g \<in> ug_ID ` set (user_groups (ud_perms db)) \<and> u \<in> u_ID ` set (users (ud_accounts db)))"

lemma pdb_ok_user_groups:
  assumes "pdb_ok db" "ug_ID ` set (user_groups db) \<subseteq> ug_ID ` set t"
  shows "pdb_ok (db\<lparr>user_groups := t\<rparr>)"
proof -
  have "rule_refs_ok (db\<lparr>user_groups := t\<rparr>) r" if "rule_refs_ok db r" for r
    using that assms(2) by (cases "pr_HostGroupID r"; cases "pr_SystemUserID r") (auto simp: rule_refs_ok_def)
  with assms(1) show ?thesis by (simp add: pdb_ok_def)
qed

lemma groups_ok_Create:
  assumes "groups_ok L db" "UserGroup_Create L now g (ud_perms db) = Inr p"
  shows "groups_ok L (db\<lparr>ud_perms := p\<rparr>)"
proof -
  have p: "p = (ud_perms db)\<lparr>user_groups := user_groups (ud_perms db) @ [g\<lparr>ug_Status := or_default ''active'' (ug_Status g), ug_CreatedAt := created_at now (ug_CreatedAt g)\<rparr>]\<rparr>"
    "ug_ID g \<notin> ug_ID ` set (user_groups (ud_perms db))" "collate L (ug_Name g) \<notin> (collate L \<circ> ug_Name) ` set (user_groups (ud_perms db))"
    using assms(2) by (auto simp: UserGroup_Create_def split: if_splits)
  then show ?thesis using assms(1) by (auto simp: groups_ok_def intro!: pdb_ok_user_groups)
qed

lemma ug_ID_merge [simp]: "ug_ID (merge_ug n x) = ug_ID x"
  by (simp add: merge_ug_def)

lemma groups_ok_Update:
  assumes "groups_ok L db" "UserGroup_Update L g (ud_perms db) = Inr p"
  shows "groups_ok L (db\<lparr>ud_perms := p\<rparr>)"
proof -
  let ?t = "update_where (\<lambda>x. ug_ID x = ug_ID g) (merge_ug g) (user_groups (ud_perms db))"
  have p: "p = (ud_perms db)\<lparr>user_groups := ?t\<rparr>" "distinct (map (collate L \<circ> ug_Name) ?t)"
    using assms(2) by (auto simp: UserGroup_Update_def Let_def split: if_splits)
  have ids: "map ug_ID ?t = map ug_ID (user_groups (ud_perms db))" by (simp add: update_where_keys)
  then have "ug_ID ` set ?t = ug_ID ` set (user_groups (ud_perms db))" by (metis set_map)
  with p ids assms(1) show ?thesis by (auto simp: groups_ok_def intro!: pdb_ok_user_groups)
qed

lemma groups_ok_Delete:
  assumes "groups_ok L db"
  shows "groups_ok L (db\<lparr>ud_perms := UserGroup_Delete i (ud_perms db)\<rparr>)"
proof -
  let ?p = "delete_rules (\<lambda>r. pr_UserGroupID r = i)
      ((ud_perms db)\<lparr>user_group_members := delete_where (\<lambda>(g, u). g = i) (user_group_members (ud_perms db))\<rparr>)"
  have ok: "pdb_ok ?p" using assms by (simp add: groups_ok_def pdb_ok_delete_rules)
  have "rule_refs_ok (?p\<lparr>user_groups := delete_where (\<lambda>g. ug_ID g = i) (user_groups ?p)\<rparr>) r" if "r \<in> set (permission_rules ?p)" for r
  proof -
    have "rule_refs_ok ?p r" "pr_UserGroupID r \<noteq> i" using ok that by (auto simp: pdb_ok_def)
    then show ?thesis by (auto simp: rule_refs_ok_def set_delete_where image_iff split: option.splits)
  qed
  then have "pdb_ok (UserGroup_Delete i (ud_perms db))" using ok by (simp add: pdb_ok_def UserGroup_Delete_def Let_def)
  moreover have "user_groups (UserGroup_Delete i (ud_perms db)) = delete_where (\<lambda>g. ug_ID g = i) (user_groups (ud_perms db))"
    "user_group_members (UserGroup_Delete i (ud_perms db)) = delete_where (\<lambda>(g, u). g = i) (user_group_members (ud_perms db))"
    by (simp_all add: UserGroup_Delete_def Let_def)
  ultimately show ?thesis using assms
    by (auto simp: groups_ok_def set_delete_where image_iff) (auto simp: delete_where_def distinct_map_filter)
qed

lemma groups_ok_members:
  assumes "groups_ok L db" "distinct m"
    "\<forall>(g, u) \<in> set m. g \<in> ug_ID ` set (user_groups (ud_perms db)) \<and> u \<in> u_ID ` set (users (ud_accounts db))"
  shows "groups_ok L (db\<lparr>ud_perms := (ud_perms db)\<lparr>user_group_members := m\<rparr>\<rparr>)"
  using assms by (simp add: groups_ok_def)

lemma groups_ok_delete_members:
  assumes "groups_ok L db"
  shows "groups_ok L (db\<lparr>ud_perms := (ud_perms db)\<lparr>user_group_members := delete_where P (user_group_members (ud_perms db))\<rparr>\<rparr>)"
  using assms by (intro groups_ok_members) (auto simp: groups_ok_def delete_where_def)

lemma groups_ok_insert_members:
  assumes "groups_ok L db" "insert_members ms db = Inr db1"
  shows "groups_ok L db1"
proof -
  note ins = insert_members_Inr[OF assms(2)]
  have "groups_ok L (db\<lparr>ud_perms := (ud_perms db)\<lparr>user_group_members := user_group_members (ud_perms db) @ ms\<rparr>\<rparr>)"
    using assms(1) ins by (intro groups_ok_members) (auto simp: groups_ok_def)
  with ins show ?thesis by simp
qed

lemma groups_ok_all_or_nothing:
  assumes "groups_ok L db"
  shows "groups_ok L (snd (all_or_nothing db (insert_members ms db)))"
  using assms by (auto simp: all_or_nothing_def split: sum.splits intro: groups_ok_insert_members)

lemma groups_ok_AddMember:
  assumes "groups_ok L db"
  shows "groups_ok L (snd (AddMember g u db))"
  using groups_ok_all_or_nothing[OF assms, of "[(g, u)]"]
  by (auto simp: AddMember_def with_perms_def all_or_nothing_def split: sum.splits)

lemma groups_ok_Assign:
  assumes "groups_ok L db"
  shows "groups_ok L (snd (repo_AssignGroupsToUser u gs db))"
  using groups_ok_delete_members[OF assms] by (simp add: repo_AssignGroupsToUser_def Let_def groups_ok_all_or_nothing)

text \<open>The requests on groups and memberships.\<close>

datatype group_request =
    ReqCreate time string "string option" "UserGroup option"
  | ReqUpdate string "UserGroup option"
  | ReqDelete string
  | ReqAdd string "string option"
  | ReqRemove string string
  | ReqBatchAdd string "string list option"
  | ReqBatchRemove string "string list"
  | ReqAssign string "string list option"

primrec serve_group :: "libs \<Rightarrow> group_request \<Rightarrow> udb \<Rightarrow> udb" where
  "serve_group L (ReqCreate now i caller body) db = snd (CreateUserGroup L now i caller body db)"
| "serve_group L (ReqUpdate i body) db = snd (UpdateUserGroup L i body db)"
| "serve_group L (ReqDelete i) db = snd (DeleteUserGroup i db)"
| "serve_group L (ReqAdd i body) db = snd (AddUserGroupMember i body db)"
| "serve_group L (ReqRemove i u) db = snd (RemoveUserGroupMember i u db)"
| "serve_group L (ReqBatchAdd i body) db = snd (handler_BatchAddMembers i body db)"
| "serve_group L (ReqBatchRemove i us) db = BatchRemoveMembers i us db"
| "serve_group L (ReqAssign u body) db = snd (handler_AssignGroupsToUser u body db)"

lemma snd_answer_of [simp]: "snd (answer_of res) = snd res"
  by (auto simp: answer_of_def split: prod.splits option.splits)

lemma snd_with_perms: "snd (with_perms db res) = (case res of Inl _ \<Rightarrow> db | Inr p \<Rightarrow> db\<lparr>ud_perms := p\<rparr>)"
  by (auto simp: with_perms_def split: sum.splits)

lemmas group_handlers = CreateUserGroup_def UpdateUserGroup_def DeleteUserGroup_def AddUserGroupMember_def
  RemoveUserGroupMember_def RemoveMember_def handler_BatchAddMembers_def BatchAddMembers_def BatchRemoveMembers_def
  handler_AssignGroupsToUser_def svc_AssignGroupsToUser_def

lemma serve_group_ok:
  assumes "groups_ok L db"
  shows "groups_ok L (serve_group L r db)"
proof (cases r)
  case (ReqAssign u body)
  then show ?thesis using assms groups_ok_Assign[OF assms, of u]
    by (auto simp: group_handlers split: option.splits prod.splits) (metis snd_conv)
qed (use assms in \<open>auto simp: group_handlers snd_with_perms groups_ok_Delete groups_ok_AddMember groups_ok_delete_members
      groups_ok_all_or_nothing split: option.splits sum.splits intro: groups_ok_Create groups_ok_Update\<close>)

text \<open>No sequence of requests on groups leaves a membership without its group or its user, two groups with one name, a
  user twice in a group or a rule without its group.\<close>

theorem group_requests_keep_integrity:
  assumes "groups_ok L db"
  shows "groups_ok L (fold (serve_group L) rs db)"
  using assms by (induction rs arbitrary: db) (simp_all add: serve_group_ok)

definition sample_udb :: udb where
  "sample_udb = \<lparr> ud_perms = sample_granted\<lparr>user_group_members := []\<rparr>, ud_accounts = sample_adb \<rparr>"

theorem group_requests_keep_integrity_witness:
  "groups_ok sample_libs (fold (serve_group sample_libs) [ReqAdd ''g1'' (Some ''u1''), ReqDelete ''g1''] sample_udb) \<and>
   groups_ok sample_libs sample_udb"
proof -
  have ok: "groups_ok sample_libs sample_udb" by code_simp
  show ?thesis using group_requests_keep_integrity[OF ok, of "[ReqAdd ''g1'' (Some ''u1''), ReqDelete ''g1'']"] ok by simp
qed

theorem AddMember_grants_witness:
  "AddMember ''g1'' ''u1'' sample_udb = (None, snd (AddMember ''g1'' ''u1'' sample_udb)) \<and>
   CheckUserHasPermission 50 ''u1'' ''h1'' ''s1'' (ud_perms (snd (AddMember ''g1'' ''u1'' sample_udb))) \<and>
   \<not> CheckUserHasPermission 50 ''u1'' ''h1'' ''s1'' (ud_perms sample_udb)"
proof -
  have run: "AddMember ''g1'' ''u1'' sample_udb = (None, snd (AddMember ''g1'' ''u1'' sample_udb))" by code_simp
  have "group_permits 50 ''g1'' ''h1'' ''s1'' (ud_perms sample_udb)" by code_simp
  moreover have "\<not> CheckUserHasPermission 50 ''u1'' ''h1'' ''s1'' (ud_perms sample_udb)" by code_simp
  ultimately show ?thesis using AddMember_grants[OF run] run by simp
qed

theorem assignment_replaces_groups_witness:
  "repo_AssignGroupsToUser ''u1'' [''g1''] sample_udb = (None, snd (repo_AssignGroupsToUser ''u1'' [''g1''] sample_udb)) \<and>
   CheckUserHasPermission 50 ''u1'' ''h1'' ''s1'' (ud_perms (snd (repo_AssignGroupsToUser ''u1'' [''g1''] sample_udb)))"
proof -
  have run: "repo_AssignGroupsToUser ''u1'' [''g1''] sample_udb = (None, snd (repo_AssignGroupsToUser ''u1'' [''g1''] sample_udb))"
    by code_simp
  have "group_permits 50 ''g1'' ''h1'' ''s1'' (ud_perms sample_udb)" by code_simp
  with assignment_replaces_groups[OF run, of 50 "''u1''" "''h1''" "''s1''"] run show ?thesis by simp
qed

theorem UserGroup_Delete_revokes_witness:
  "pdb_ok sample_granted \<and> CheckUserHasPermission 50 ''u1'' ''h1'' ''s1'' sample_granted \<and>
   \<not> CheckUserHasPermission 50 ''u1'' ''h1'' ''s1'' (UserGroup_Delete ''g1'' sample_granted)"
proof -
  have ok: "pdb_ok sample_granted" by code_simp
  have "CheckUserHasPermission 50 ''u1'' ''h1'' ''s1'' sample_granted" by code_simp
  moreover have "\<forall>(g, x) \<in> set (user_group_members sample_granted). g = ''g1''" by code_simp
  ultimately show ?thesis using UserGroup_Delete_revokes[OF ok, of 50 "''u1''" "''h1''" "''s1''" "''g1''"] ok by auto
qed

end
