(* ===== verification/Host_Groups.thy ===== *)
theory Host_Groups
imports User_Groups
begin

text \<open>
  Host groups and the hosts in them: \<open>internal/repository/host_group_repository.go\<close> and
  \<open>internal/api/handler/host_group_handler.go\<close>.  With the user groups of \<open>User_Groups\<close> they decide
  whom the rules of \<open>Permissions\<close> let onto which host.  Memberships are (group, host)
  pairs with the unique and foreign keys of \<open>sql/init.sql\<close>; names of groups are not unique.
\<close>

section \<open>Repository\<close>

definition HostGroup_Create :: "time \<Rightarrow> HostGroup \<Rightarrow> pdb \<Rightarrow> perm_error + pdb" where
  "HostGroup_Create now g db =
     (if hg_ID g \<in> hg_ID ` set (host_groups db) then Inl DuplicateKey
      else Inr (db\<lparr>host_groups := host_groups db @ [g\<lparr>hg_CreatedAt := created_at now (hg_CreatedAt g)\<rparr>]\<rparr>))"

definition HostGroup_FindByID :: "string \<Rightarrow> pdb \<Rightarrow> HostGroup option" where
  "HostGroup_FindByID i db = First hg_ID (\<lambda>g. hg_ID g = i) (host_groups db)"

definition HostGroup_FindByName :: "libs \<Rightarrow> string \<Rightarrow> pdb \<Rightarrow> HostGroup option" where
  "HostGroup_FindByName L name db = First hg_ID (\<lambda>g. collate L (hg_Name g) = collate L name) (host_groups db)"

text \<open>\<open>ORDER BY sort_order ASC, name ASC\<close>.\<close>

definition hg_order :: "libs \<Rightarrow> HostGroup list \<Rightarrow> HostGroup list" where
  "hg_order L t = sort_key hg_SortOrder (sort_key (\<lambda>g. collate L (hg_Name g)) t)"

definition HostGroup_FindAll :: "libs \<Rightarrow> pdb \<Rightarrow> HostGroup list" where
  "HostGroup_FindAll L db = hg_order L (host_groups db)"

definition host_count :: "string \<Rightarrow> pdb \<Rightarrow> nat" where
  "host_count i db = length (filter (\<lambda>(g, h). g = i) (host_group_members db))"

text \<open>The join of hosts and members, in the order of the hosts.\<close>

definition joined_hosts :: "string \<Rightarrow> hdb \<Rightarrow> Host list" where
  "joined_hosts i db = concat (map (\<lambda>x. map (\<lambda>_. x) (filter (\<lambda>m. m = (i, ho_ID x)) (host_group_members (hd_perms db)))) (hd_hosts db))"

definition online_count :: "string \<Rightarrow> hdb \<Rightarrow> nat" where
  "online_count i db = length (filter (\<lambda>x. ho_Status x = ''online'') (joined_hosts i db))"

definition FindAllWithStats :: "libs \<Rightarrow> hdb \<Rightarrow> (HostGroup \<times> nat \<times> nat) list" where
  "FindAllWithStats L db =
     map (\<lambda>g. (g, host_count (hg_ID g) (hd_perms db), online_count (hg_ID g) db)) (hg_order L (host_groups (hd_perms db)))"

text \<open>\<open>Save\<close> writes every column, and inserts a row that is not there.\<close>

definition HostGroup_Update :: "HostGroup \<Rightarrow> pdb \<Rightarrow> pdb" where
  "HostGroup_Update g db = db\<lparr>host_groups :=
     (if hg_ID g \<in> hg_ID ` set (host_groups db) then update_where (\<lambda>x. hg_ID x = hg_ID g) (\<lambda>_. g) (host_groups db)
      else host_groups db @ [g])\<rparr>"

text \<open>Only the group is deleted; the foreign keys delete the members, the relations to rules and
  the rules that name the group.\<close>

definition HostGroup_Delete :: "string \<Rightarrow> pdb \<Rightarrow> pdb" where
  "HostGroup_Delete i db =
     (let db = delete_rules (\<lambda>r. pr_HostGroupID r = Some i) db in
      db\<lparr>host_groups := delete_where (\<lambda>g. hg_ID g = i) (host_groups db),
         host_group_members := delete_where (\<lambda>(g, h). g = i) (host_group_members db),
         rule_host_groups := delete_where (\<lambda>(r, g). g = i) (rule_host_groups db)\<rparr>)"

text \<open>One statement inserts all rows or none; gorm refuses an empty list.\<close>

fun insert_hosts :: "string \<Rightarrow> string list \<Rightarrow> hdb \<Rightarrow> perm_error + hdb" where
  "insert_hosts i [] db = Inr db"
| "insert_hosts i (h # hs) db =
     (if i \<notin> hg_ID ` set (host_groups (hd_perms db)) \<or> h \<notin> ho_ID ` set (hd_hosts db) then Inl ForeignKey
      else if (i, h) \<in> set (host_group_members (hd_perms db)) then Inl DuplicateKey
      else insert_hosts i hs (db\<lparr>hd_perms := (hd_perms db)\<lparr>host_group_members := host_group_members (hd_perms db) @ [(i, h)]\<rparr>\<rparr>))"

definition committed :: "hdb \<Rightarrow> perm_error + hdb \<Rightarrow> bool \<times> hdb" where
  "committed db res = (case res of Inl _ \<Rightarrow> (False, db) | Inr db1 \<Rightarrow> (True, db1))"

definition AddHostToGroup :: "string \<Rightarrow> string \<Rightarrow> hdb \<Rightarrow> bool \<times> hdb" where
  "AddHostToGroup i h db = committed db (insert_hosts i [h] db)"

definition remove_hosts :: "string \<Rightarrow> string list \<Rightarrow> hdb \<Rightarrow> hdb" where
  "remove_hosts i hs db = db\<lparr>hd_perms := (hd_perms db)
     \<lparr>host_group_members := delete_where (\<lambda>(g, h). g = i \<and> h \<in> set hs) (host_group_members (hd_perms db))\<rparr>\<rparr>"

definition RemoveHostFromGroup :: "string \<Rightarrow> string \<Rightarrow> hdb \<Rightarrow> hdb" where
  "RemoveHostFromGroup i h db = remove_hosts i [h] db"

definition repo_AddHostsToGroup :: "string \<Rightarrow> string list \<Rightarrow> hdb \<Rightarrow> bool \<times> hdb" where
  "repo_AddHostsToGroup i hs db = (if hs = [] then (False, db) else committed db (insert_hosts i hs db))"

definition repo_RemoveHostsFromGroup :: "string \<Rightarrow> string list \<Rightarrow> hdb \<Rightarrow> hdb" where
  "repo_RemoveHostsFromGroup i hs db = remove_hosts i hs db"

definition GetHostsByGroupID :: "libs \<Rightarrow> string \<Rightarrow> hdb \<Rightarrow> Host list" where
  "GetHostsByGroupID L i db = sort_key (\<lambda>x. collate L (ho_Name x)) (joined_hosts i db)"

definition GetHostsByGroupIDWithPagination :: "libs \<Rightarrow> string \<Rightarrow> int \<Rightarrow> int \<Rightarrow> hdb \<Rightarrow> Host list \<times> nat" where
  "GetHostsByGroupIDWithPagination L i page pageSize db =
     (paginate page pageSize (sort_key (\<lambda>x. collate L (ho_Name x)) (joined_hosts i db)), length (joined_hosts i db))"

definition GetGroupsByHostID :: "libs \<Rightarrow> string \<Rightarrow> pdb \<Rightarrow> HostGroup list" where
  "GetGroupsByHostID L h db = hg_order L (concat (map (\<lambda>g. map (\<lambda>_. g) (filter (\<lambda>m. m = (hg_ID g, h)) (host_group_members db))) (host_groups db)))"

definition IsHostInGroup :: "string \<Rightarrow> string \<Rightarrow> pdb \<Rightarrow> bool" where
  "IsHostInGroup i h db \<longleftrightarrow> 0 < length (filter (\<lambda>m. m = (i, h)) (host_group_members db))"

record HostGroupStatistics =
  gs_GroupID :: string
  gs_GroupName :: string
  gs_TotalHosts :: int
  gs_OnlineHosts :: int
  gs_OfflineHosts :: int

definition repo_GetGroupStatistics :: "string \<Rightarrow> hdb \<Rightarrow> HostGroupStatistics option" where
  "repo_GetGroupStatistics i db = (case HostGroup_FindByID i (hd_perms db) of
     None \<Rightarrow> None
   | Some g \<Rightarrow> Some \<lparr>gs_GroupID = i, gs_GroupName = hg_Name g, gs_TotalHosts = int (host_count i (hd_perms db)),
       gs_OnlineHosts = int (online_count i db), gs_OfflineHosts = int (host_count i (hd_perms db)) - int (online_count i db)\<rparr>)"

definition SearchHostsInGroup :: "libs \<Rightarrow> sql_match \<Rightarrow> string \<Rightarrow> string \<Rightarrow> hdb \<Rightarrow> Host list" where
  "SearchHostsInGroup L M i keyword db = sort_key (\<lambda>x. collate L (ho_Name x))
     (filter (\<lambda>x. keyword = [] \<or> LIKE M (ho_Name x) (around keyword) \<or> LIKE M (ho_IP x) (around keyword)) (joined_hosts i db))"

text \<open>The updates come from a Go map, so in any order, with distinct groups.\<close>

definition BatchUpdateSortOrder :: "(string \<times> int) list \<Rightarrow> pdb \<Rightarrow> pdb" where
  "BatchUpdateSortOrder updates db = fold (\<lambda>(i, n) db.
     db\<lparr>host_groups := update_where (\<lambda>g. hg_ID g = i) (\<lambda>g. g\<lparr>hg_SortOrder := n\<rparr>) (host_groups db)\<rparr>) updates db"

text \<open>A transaction: the removal is undone when the insertion fails.\<close>

definition MoveHostsBetweenGroups :: "string \<Rightarrow> string \<Rightarrow> string list \<Rightarrow> hdb \<Rightarrow> bool \<times> hdb" where
  "MoveHostsBetweenGroups i j hs db =
     (if hs = [] then (False, db) else committed db (insert_hosts j hs (remove_hosts i hs db)))"

section \<open>Requests\<close>

definition ListGroups :: "libs \<Rightarrow> string \<Rightarrow> hdb \<Rightarrow> (HostGroup \<times> nat \<times> nat) list" where
  "ListGroups L stats db =
     (if stats = ''true'' then FindAllWithStats L db else map (\<lambda>g. (g, 0, 0)) (HostGroup_FindAll L (hd_perms db)))"

definition GetGroup :: "string \<Rightarrow> hdb \<Rightarrow> nat \<times> (HostGroup \<times> int \<times> int) option" where
  "GetGroup i db = (case HostGroup_FindByID i (hd_perms db) of
     None \<Rightarrow> (404, None)
   | Some g \<Rightarrow> (200, Some (case repo_GetGroupStatistics i db of
       None \<Rightarrow> (g, 0, 0) | Some st \<Rightarrow> (g, gs_TotalHosts st, gs_OnlineHosts st))))"

definition CreateGroup :: "time \<Rightarrow> string \<Rightarrow> string option \<Rightarrow> HostGroup option \<Rightarrow> hdb \<Rightarrow> nat \<times> hdb" where
  "CreateGroup now newID caller body db = (case body of
     None \<Rightarrow> (400, db)
   | Some g \<Rightarrow> (case HostGroup_Create now
         (g\<lparr>hg_ID := newID, hg_CreatedBy := (case caller of None \<Rightarrow> hg_CreatedBy g | Some u \<Rightarrow> u)\<rparr>) (hd_perms db) of
       Inl _ \<Rightarrow> (500, db) | Inr p \<Rightarrow> (200, db\<lparr>hd_perms := p\<rparr>)))"

definition UpdateGroup :: "string \<Rightarrow> HostGroup option \<Rightarrow> hdb \<Rightarrow> nat \<times> hdb" where
  "UpdateGroup i body db = (case body of
     None \<Rightarrow> (400, db)
   | Some n \<Rightarrow> (case HostGroup_FindByID i (hd_perms db) of
       None \<Rightarrow> (404, db)
     | Some g \<Rightarrow> (200, db\<lparr>hd_perms := HostGroup_Update (g\<lparr>hg_Name := hg_Name n, hg_Description := hg_Description n,
         hg_Color := hg_Color n, hg_Icon := hg_Icon n, hg_SortOrder := hg_SortOrder n\<rparr>) (hd_perms db)\<rparr>)))"

definition DeleteGroup :: "string \<Rightarrow> hdb \<Rightarrow> nat \<times> hdb" where
  "DeleteGroup i db = (200, db\<lparr>hd_perms := HostGroup_Delete i (hd_perms db)\<rparr>)"

definition query_positive :: "int \<Rightarrow> string \<Rightarrow> int" where
  "query_positive d s = (case Atoi s of (n, ok) \<Rightarrow> if s \<noteq> [] \<and> ok \<and> 0 < n then n else d)"

text \<open>Pages cut by hand, in 64-bit arithmetic; \<open>None\<close> is the panic of a slice out of bounds.\<close>

definition manual_page :: "int \<Rightarrow> int \<Rightarrow> 'r list \<Rightarrow> 'r list option" where
  "manual_page page pageSize rows =
     (let start = page_offset page pageSize; stop = int64 (start + pageSize); n = int (length rows) in
      if start < n then
        (let stop = (if stop > n then n else stop) in
         if 0 \<le> start \<and> start \<le> stop then Some (take (nat (stop - start)) (drop (nat start) rows)) else None)
      else Some [])"

definition GetGroupHosts :: "libs \<Rightarrow> sql_match \<Rightarrow> string \<Rightarrow> string \<Rightarrow> string \<Rightarrow> string \<Rightarrow> hdb \<Rightarrow> (Host list \<times> nat) option" where
  "GetGroupHosts L M i page pageSize search db =
     (let p = query_positive 1 page; n = query_positive 20 pageSize in
      if search \<noteq> [] then (let rows = SearchHostsInGroup L M i search db in
        map_option (\<lambda>r. (r, length rows)) (manual_page p n rows))
      else Some (GetHostsByGroupIDWithPagination L i p n db))"

definition AddHostsToGroup :: "string \<Rightarrow> string list option \<Rightarrow> hdb \<Rightarrow> nat \<times> hdb" where
  "AddHostsToGroup i body db = (case body of
     None \<Rightarrow> (400, db)
   | Some hs \<Rightarrow> (case repo_AddHostsToGroup i hs db of (ok, db1) \<Rightarrow> (if ok then 200 else 500, db1)))"

definition RemoveHostsFromGroup :: "string \<Rightarrow> string list option \<Rightarrow> hdb \<Rightarrow> nat \<times> hdb" where
  "RemoveHostsFromGroup i body db = (case body of None \<Rightarrow> (400, db) | Some hs \<Rightarrow> (200, repo_RemoveHostsFromGroup i hs db))"

definition GetHostGroups :: "libs \<Rightarrow> string \<Rightarrow> hdb \<Rightarrow> HostGroup list" where
  "GetHostGroups L h db = GetGroupsByHostID L h (hd_perms db)"

definition GetGroupStatistics :: "string \<Rightarrow> hdb \<Rightarrow> nat \<times> HostGroupStatistics option" where
  "GetGroupStatistics i db = (case repo_GetGroupStatistics i db of None \<Rightarrow> (500, None) | Some st \<Rightarrow> (200, Some st))"

definition GetGroupUsers :: "string \<Rightarrow> udb \<Rightarrow> User list" where
  "GetGroupUsers i db = GetUsersInGroup i db"

section \<open>Properties\<close>

subsection \<open>Permissions on the hosts of a group\<close>

text \<open>What a user may do on the hosts of a group, by the rules on the group.\<close>

definition user_permits :: "time \<Rightarrow> string \<Rightarrow> string \<Rightarrow> string \<Rightarrow> pdb \<Rightarrow> bool" where
  "user_permits t u i s db \<longleftrightarrow> (\<exists>r \<in> set (permission_rules db). pr_Enabled r \<and> in_period t r \<and> user_in_rule db u r \<and>
     (pr_ID r, i) \<in> set (rule_host_groups db) \<and> (pr_ID r, s) \<in> set (rule_system_users db))"

definition listed_permits :: "time \<Rightarrow> string \<Rightarrow> string \<Rightarrow> string \<Rightarrow> pdb \<Rightarrow> bool" where
  "listed_permits t u h s db \<longleftrightarrow> (\<exists>r \<in> set (permission_rules db). pr_Enabled r \<and> in_period t r \<and> user_in_rule db u r \<and>
     host_listed h r \<and> (pr_ID r, s) \<in> set (rule_system_users db))"

lemma permission_by_host_group:
  "CheckUserHasPermission t u h s db \<longleftrightarrow>
     (\<exists>i. (i, h) \<in> set (host_group_members db) \<and> user_permits t u i s db) \<or> listed_permits t u h s db"
  unfolding CheckUserHasPermission_iff rule_applies_def host_in_rule_def list_ex_iff user_permits_def listed_permits_def by fastforce

lemma permits_host_members [simp]:
  "user_permits t u i s (db\<lparr>host_group_members := m\<rparr>) = user_permits t u i s db"
  "listed_permits t u h s (db\<lparr>host_group_members := m\<rparr>) = listed_permits t u h s db"
  by (simp_all add: user_permits_def listed_permits_def user_in_rule_def)

lemma insert_hosts_Inr:
  "insert_hosts i hs db = Inr db1 \<Longrightarrow>
   db1 = db\<lparr>hd_perms := (hd_perms db)\<lparr>host_group_members := host_group_members (hd_perms db) @ map (Pair i) hs\<rparr>\<rparr> \<and>
   distinct hs \<and> (\<forall>h \<in> set hs. (i, h) \<notin> set (host_group_members (hd_perms db)) \<and> h \<in> ho_ID ` set (hd_hosts db)) \<and>
   (hs \<noteq> [] \<longrightarrow> i \<in> hg_ID ` set (host_groups (hd_perms db)))"
proof (induction hs arbitrary: db)
  case (Cons h hs)
  from Cons.prems have "insert_hosts i hs (db\<lparr>hd_perms := (hd_perms db)\<lparr>host_group_members := host_group_members (hd_perms db) @ [(i, h)]\<rparr>\<rparr>) = Inr db1"
    and "i \<in> hg_ID ` set (host_groups (hd_perms db))" "h \<in> ho_ID ` set (hd_hosts db)" "(i, h) \<notin> set (host_group_members (hd_perms db))"
    by (auto split: if_splits)
  with Cons.IH show ?case by fastforce
qed simp

text \<open>Moving hosts between groups is all or nothing: when it fails nothing has changed, and when it succeeds every user
  may do on every host exactly what the rules on the host's new groups, or rules that list it, allow.\<close>

theorem move_hosts_permissions:
  assumes "MoveHostsBetweenGroups i j hs db = (ok, db')"
  shows "if ok then hd_hosts db' = hd_hosts db \<and> (\<forall>t u h s. CheckUserHasPermission t u h s (hd_perms db') \<longleftrightarrow>
        listed_permits t u h s (hd_perms db) \<or>
        (\<exists>g. user_permits t u g s (hd_perms db) \<and>
          (g = j \<and> h \<in> set hs \<or> (g, h) \<in> set (host_group_members (hd_perms db)) \<and> \<not> (g = i \<and> h \<in> set hs))))
    else db' = db"
proof (cases ok)
  case True
  then have "insert_hosts j hs (remove_hosts i hs db) = Inr db'"
    using assms by (auto simp: MoveHostsBetweenGroups_def committed_def split: if_splits sum.splits)
  from insert_hosts_Inr[OF this] True show ?thesis
    by (simp add: permission_by_host_group remove_hosts_def set_delete_where) blast
qed (use assms in \<open>auto simp: MoveHostsBetweenGroups_def committed_def split: if_splits sum.splits\<close>)

text \<open>Adding hosts to a group opens exactly these hosts to exactly those whom the rules on the group admit; a request
  that fails, as with a host that is already there, adds none of them.\<close>

theorem add_hosts_permissions:
  assumes "AddHostsToGroup i (Some hs) db = (code, db')"
  shows "if code = 200 then (\<forall>t u h s. CheckUserHasPermission t u h s (hd_perms db') \<longleftrightarrow>
        CheckUserHasPermission t u h s (hd_perms db) \<or> h \<in> set hs \<and> user_permits t u i s (hd_perms db))
    else code = 500 \<and> db' = db"
proof (cases "code = 200")
  case True
  then have "insert_hosts i hs db = Inr db'"
    using assms by (auto simp: AddHostsToGroup_def repo_AddHostsToGroup_def committed_def split: if_splits sum.splits)
  from insert_hosts_Inr[OF this] True show ?thesis by (auto simp: permission_by_host_group)
qed (use assms in \<open>auto simp: AddHostsToGroup_def repo_AddHostsToGroup_def committed_def split: if_splits sum.splits\<close>)

text \<open>Deleting a host group withdraws its hosts from every rule and removes the rules that name it.\<close>

theorem HostGroup_Delete_revokes:
  assumes "pdb_ok db"
  shows "CheckUserHasPermission t u h s (HostGroup_Delete i db) \<longleftrightarrow>
    (\<exists>r \<in> set (permission_rules db). pr_HostGroupID r \<noteq> Some i \<and> pr_Enabled r \<and> in_period t r \<and> user_in_rule db u r \<and>
       (pr_ID r, s) \<in> set (rule_system_users db) \<and>
       (host_listed h r \<or> (\<exists>g. g \<noteq> i \<and> (pr_ID r, g) \<in> set (rule_host_groups db) \<and> (g, h) \<in> set (host_group_members db))))"
proof -
  let ?P = "\<lambda>r. pr_HostGroupID r = Some i"
  have rules: "set (permission_rules (HostGroup_Delete i db)) = {r \<in> set (permission_rules db). \<not> ?P r}"
    and frame: "user_in_rule (HostGroup_Delete i db) u = user_in_rule db u"
    by (auto simp: HostGroup_Delete_def Let_def user_in_rule_def fun_eq_iff)
  have "(pr_ID r, s) \<in> set (rule_system_users (HostGroup_Delete i db)) \<longleftrightarrow> (pr_ID r, s) \<in> set (rule_system_users db)"
    "host_in_rule (HostGroup_Delete i db) h r \<longleftrightarrow> host_listed h r \<or>
       (\<exists>g. g \<noteq> i \<and> (pr_ID r, g) \<in> set (rule_host_groups db) \<and> (g, h) \<in> set (host_group_members db))"
    if "r \<in> set (permission_rules db)" "\<not> ?P r" for r
  proof -
    have "pr_ID r \<notin> pr_ID ` {x \<in> set (permission_rules db). ?P x}"
      using assms that by (auto simp: pdb_ok_def distinct_map dest: inj_onD)
    then show "(pr_ID r, s) \<in> set (rule_system_users (HostGroup_Delete i db)) \<longleftrightarrow> (pr_ID r, s) \<in> set (rule_system_users db)"
      "host_in_rule (HostGroup_Delete i db) h r \<longleftrightarrow> host_listed h r \<or>
       (\<exists>g. g \<noteq> i \<and> (pr_ID r, g) \<in> set (rule_host_groups db) \<and> (g, h) \<in> set (host_group_members db))"
      by (auto simp: HostGroup_Delete_def Let_def host_in_rule_def delete_rules_def list_ex_iff set_delete_where)
  qed
  then show ?thesis unfolding CheckUserHasPermission_iff rule_applies_def rules frame by auto
qed

subsection \<open>Listings and statistics\<close>

interpretation group_host_pages: paged "\<lambda>page pageSize. GetHostsByGroupIDWithPagination L i page pageSize db" "GetHostsByGroupID L i db"
  by unfold_locales (simp add: GetHostsByGroupIDWithPagination_def GetHostsByGroupID_def)

lemma page_offset_exact: "in_int64 ((page - 1) * pageSize) \<Longrightarrow> page_offset page pageSize = (page - 1) * pageSize"
  by (simp add: page_offset_def)

text \<open>The pages that the search cuts by hand are the pages of the database as long as the offset does not overflow;
  past that the request panics or answers with rows of another page.\<close>

theorem manual_page_paginates:
  assumes "0 < page" "0 < pageSize" "pageSize < 2 ^ 63" "in_int64 ((page - 1) * pageSize)" "int (length rows) < 2 ^ 62"
  shows "manual_page page pageSize rows = Some (paginate page pageSize rows)"
proof -
  let ?start = "(page - 1) * pageSize"
  have start: "page_offset page pageSize = ?start" "0 \<le> ?start" using assms(1,2,4) by (simp_all add: page_offset_exact)
  have cut: "take (nat ((if a + pageSize > int (length rows) then int (length rows) else a + pageSize) - a)) (drop (nat a) rows) =
      take (nat pageSize) (drop (nat a) rows)" if "0 \<le> a" "a < int (length rows)" for a
    using that by (auto intro!: take_all_iff[THEN iffD2, symmetric] simp: nat_diff_distrib)
  show ?thesis
  proof (cases "?start < int (length rows)")
    case True
    have "page = 1 \<or> pageSize \<le> ?start" using assms(1,2) mult_right_mono[of 1 "page - 1" pageSize] by linarith
    then have "?start + pageSize < 2 ^ 63" using True assms(3,5) by auto
    then have "int64 (?start + pageSize) = ?start + pageSize" using start(2) assms(2) by (intro int64_id) (simp add: in_int64_def)
    then show ?thesis using cut[OF start(2) True] start True assms(2) by (simp add: manual_page_def Let_def paginate_def)
  next
    case False
    then have "length rows \<le> nat ?start" by linarith
    then show ?thesis using False start by (simp add: manual_page_def Let_def paginate_def)
  qed
qed

theorem manual_page_paginates_witness:
  "manual_page 2 2 [''a'', ''b'', ''c''] = Some [''c''] \<and> manual_page (2 ^ 62 + 1) 2 [''a'', ''b'', ''c''] = None"
proof
  have "paginate 2 2 [''a'', ''b'', ''c''] = [''c'']" by code_simp
  then show "manual_page 2 2 [''a'', ''b'', ''c''] = Some [''c'']"
    using manual_page_paginates[of 2 2 "[''a'', ''b'', ''c'']"] by (simp add: in_int64_def)
  show "manual_page (2 ^ 62 + 1) 2 [''a'', ''b'', ''c''] = None" by code_simp
qed

lemma joined_hosts_length:
  assumes "distinct (map ho_ID hs)"
  shows "length (concat (map (\<lambda>x. map (\<lambda>_. x) (filter (\<lambda>m. m = (i, ho_ID x)) ms)) hs)) \<le> length (filter (\<lambda>(g, h). g = i) ms)"
proof -
  have "length (concat (map (\<lambda>x. map (\<lambda>_. x) (filter (\<lambda>m. m = (i, ho_ID x)) ms)) hs)) =
      length (filter (\<lambda>(g, h). g = i \<and> h \<in> ho_ID ` set hs) ms)"
    using assms
  proof (induction hs)
    case (Cons x hs)
    have "length (filter (\<lambda>(g, h). g = i \<and> h \<in> ho_ID ` set (x # hs)) ms) =
        length (filter (\<lambda>m. m = (i, ho_ID x)) ms) + length (filter (\<lambda>(g, h). g = i \<and> h \<in> ho_ID ` set hs) ms)"
      using Cons.prems by (induction ms) (auto simp: image_iff)
    then show ?case using Cons by simp
  qed simp
  also have "\<dots> \<le> length (filter (\<lambda>(g, h). g = i) ms)" by (induction ms) auto
  finally show ?thesis .
qed

text \<open>The statistics of a group count: the hosts online and offline are its hosts, and neither number is negative.\<close>

theorem group_statistics_count:
  assumes "distinct (map ho_ID (hd_hosts db))" "repo_GetGroupStatistics i db = Some st"
  shows "0 \<le> gs_OnlineHosts st \<and> 0 \<le> gs_OfflineHosts st \<and> gs_OnlineHosts st + gs_OfflineHosts st = gs_TotalHosts st \<and>
    gs_TotalHosts st = int (host_count i (hd_perms db))"
proof -
  have "online_count i db \<le> length (joined_hosts i db)" by (simp add: online_count_def)
  also have "\<dots> \<le> host_count i (hd_perms db)"
    using joined_hosts_length[OF assms(1)] by (simp add: joined_hosts_def host_count_def)
  finally show ?thesis using assms(2) by (auto simp: repo_GetGroupStatistics_def split: option.splits)
qed

text \<open>The order in which Go walks through the map of sort orders does not matter.\<close>

lemma sort_orders_apply:
  "host_groups (BatchUpdateSortOrder updates db) = fold (\<lambda>(i, n). update_where (\<lambda>g. hg_ID g = i) (\<lambda>g. g\<lparr>hg_SortOrder := n\<rparr>)) updates (host_groups db)"
  "BatchUpdateSortOrder updates db = db\<lparr>host_groups := host_groups (BatchUpdateSortOrder updates db)\<rparr>"
  by (induction updates arbitrary: db) (auto simp: BatchUpdateSortOrder_def)

lemma sort_orders_map:
  assumes "distinct (map fst updates)"
  shows "fold (\<lambda>(i, n). update_where (\<lambda>g. hg_ID g = i) (\<lambda>g. g\<lparr>hg_SortOrder := n\<rparr>)) updates (t :: HostGroup list) =
    map (\<lambda>g. case map_of updates (hg_ID g) of None \<Rightarrow> g | Some n \<Rightarrow> g\<lparr>hg_SortOrder := n\<rparr>) t"
  using assms
proof (induction updates arbitrary: t)
  case (Cons x updates)
  obtain i n where x: "x = (i, n)" by (cases x)
  with Cons.prems have "map_of updates i = None" by (simp add: map_of_eq_None_iff)
  then show ?case using Cons by (auto simp: x update_where_def split: option.splits)
qed simp

theorem sort_orders_any_order:
  assumes "distinct (map fst updates)" "mset updates' = mset updates"
  shows "BatchUpdateSortOrder updates' db = BatchUpdateSortOrder updates db \<and>
    host_groups (BatchUpdateSortOrder updates db) =
      map (\<lambda>g. case map_of updates (hg_ID g) of None \<Rightarrow> g | Some n \<Rightarrow> g\<lparr>hg_SortOrder := n\<rparr>) (host_groups db)"
proof -
  have d: "distinct (map fst updates')" using assms by (metis mset_eq_imp_distinct_iff mset_map)
  then have "map_of updates' = map_of updates"
    using assms mset_eq_setD[OF assms(2)] by (auto simp: fun_eq_iff intro: map_of_inject_set[THEN iffD2, THEN fun_cong])
  then show ?thesis
    using sort_orders_map[OF assms(1)] sort_orders_map[OF d] sort_orders_apply[of updates db] sort_orders_apply[of updates' db] by simp
qed

subsection \<open>Integrity\<close>

text \<open>What the keys of the schema promise of hosts, groups and rules together.\<close>

definition host_groups_ok :: "hdb \<Rightarrow> bool" where
  "host_groups_ok db \<longleftrightarrow> pdb_ok (hd_perms db) \<and> distinct (map hg_ID (host_groups (hd_perms db))) \<and>
     distinct (host_group_members (hd_perms db)) \<and>
     (\<forall>(g, h) \<in> set (host_group_members (hd_perms db)).
        g \<in> hg_ID ` set (host_groups (hd_perms db)) \<and> h \<in> ho_ID ` set (hd_hosts db))"

lemma pdb_ok_host_members [simp]: "pdb_ok (db\<lparr>host_group_members := m\<rparr>) = pdb_ok db"
proof -
  have "rule_refs_ok (db\<lparr>host_group_members := m\<rparr>) = rule_refs_ok db" by (auto simp: rule_refs_ok_def fun_eq_iff split: option.splits)
  then show ?thesis by (simp add: pdb_ok_def)
qed

lemma pdb_ok_host_groups:
  assumes "pdb_ok db" "hg_ID ` set (host_groups db) \<subseteq> hg_ID ` set t"
  shows "pdb_ok (db\<lparr>host_groups := t\<rparr>)"
proof -
  have "rule_refs_ok (db\<lparr>host_groups := t\<rparr>) r" if "rule_refs_ok db r" for r
    using that assms(2) by (cases "pr_HostGroupID r"; cases "pr_SystemUserID r") (auto simp: rule_refs_ok_def)
  with assms show ?thesis by (fastforce simp: pdb_ok_def)
qed

lemma host_groups_ok_members:
  assumes "host_groups_ok db" "distinct m"
    "\<forall>(g, h) \<in> set m. g \<in> hg_ID ` set (host_groups (hd_perms db)) \<and> h \<in> ho_ID ` set (hd_hosts db)"
  shows "host_groups_ok (db\<lparr>hd_perms := (hd_perms db)\<lparr>host_group_members := m\<rparr>\<rparr>)"
  using assms by (simp add: host_groups_ok_def)

lemma host_groups_ok_remove: "host_groups_ok db \<Longrightarrow> host_groups_ok (remove_hosts i hs db)"
  unfolding remove_hosts_def by (rule host_groups_ok_members) (auto simp: host_groups_ok_def delete_where_def)

lemma host_groups_ok_insert:
  assumes "host_groups_ok db" "insert_hosts i hs db = Inr db1"
  shows "host_groups_ok db1"
proof -
  note ins = insert_hosts_Inr[OF assms(2)]
  have "host_groups_ok (db\<lparr>hd_perms := (hd_perms db)\<lparr>host_group_members := host_group_members (hd_perms db) @ map (Pair i) hs\<rparr>\<rparr>)"
    using assms(1) ins by (intro host_groups_ok_members) (auto simp: host_groups_ok_def distinct_map inj_on_def)
  with ins show ?thesis by simp
qed

lemma host_groups_ok_groups:
  assumes "host_groups_ok db" "distinct (map hg_ID t)" "hg_ID ` set (host_groups (hd_perms db)) \<subseteq> hg_ID ` set t"
  shows "host_groups_ok (db\<lparr>hd_perms := (hd_perms db)\<lparr>host_groups := t\<rparr>\<rparr>)"
proof -
  have "pdb_ok ((hd_perms db)\<lparr>host_groups := t\<rparr>)" using assms by (intro pdb_ok_host_groups) (auto simp: host_groups_ok_def)
  then show ?thesis using assms by (auto simp: host_groups_ok_def)
qed

lemma host_groups_ok_Delete:
  assumes "host_groups_ok db"
  shows "host_groups_ok (db\<lparr>hd_perms := HostGroup_Delete i (hd_perms db)\<rparr>)"
proof -
  let ?d = "delete_rules (\<lambda>r. pr_HostGroupID r = Some i) (hd_perms db)" and ?p = "HostGroup_Delete i (hd_perms db)"
  have ok: "pdb_ok ?d" using assms by (simp add: host_groups_ok_def pdb_ok_delete_rules)
  have same: "permission_rules ?p = permission_rules ?d" "rule_system_users ?p = rule_system_users ?d" "system_users ?p = system_users ?d"
    "user_groups ?p = user_groups ?d" and
    rel: "set (rule_host_groups ?p) = {x \<in> set (rule_host_groups ?d). snd x \<noteq> i}" and
    grp: "host_groups ?p = delete_where (\<lambda>g. hg_ID g = i) (host_groups (hd_perms db))" "host_groups ?d = host_groups (hd_perms db)" and
    mem: "host_group_members ?p = delete_where (\<lambda>(g, h). g = i) (host_group_members (hd_perms db))"
    by (auto simp: HostGroup_Delete_def Let_def set_delete_where)
  have "rule_refs_ok ?p r" if "r \<in> set (permission_rules ?d)" for r
  proof -
    have "rule_refs_ok ?d r" "pr_HostGroupID r \<noteq> Some i" using ok that by (auto simp: pdb_ok_def)
    then show ?thesis using same grp
      by (cases "pr_HostGroupID r"; cases "pr_SystemUserID r") (auto simp: rule_refs_ok_def set_delete_where image_iff)
  qed
  then have "pdb_ok ?p" using ok unfolding pdb_ok_def same rel grp by (auto simp: set_delete_where image_iff)
  moreover have "distinct (map hg_ID (host_groups ?p))" "distinct (host_group_members ?p)"
    using assms by (simp_all add: grp mem host_groups_ok_def delete_where_keys_distinct) (simp add: delete_where_def)
  ultimately show ?thesis using assms by (auto simp: host_groups_ok_def grp mem set_delete_where image_iff)
qed

text \<open>The requests on groups, and those on hosts, which delete memberships with the host.\<close>

datatype host_group_request =
    GroupCreate time string "string option" "HostGroup option"
  | GroupUpdate string "HostGroup option"
  | GroupDelete string
  | HostsAdd string "string list option"
  | HostsRemove string "string list option"
  | HostsMove string string "string list"
  | OnHosts host_request

primrec serve_host_group :: "host_group_request \<Rightarrow> hdb \<Rightarrow> hdb" where
  "serve_host_group (GroupCreate now i caller body) db = snd (CreateGroup now i caller body db)"
| "serve_host_group (GroupUpdate i body) db = snd (UpdateGroup i body db)"
| "serve_host_group (GroupDelete i) db = snd (DeleteGroup i db)"
| "serve_host_group (HostsAdd i body) db = snd (AddHostsToGroup i body db)"
| "serve_host_group (HostsRemove i body) db = snd (RemoveHostsFromGroup i body db)"
| "serve_host_group (HostsMove i j hs) db = snd (MoveHostsBetweenGroups i j hs db)"
| "serve_host_group (OnHosts r) db = host_step r db"

lemma snd_committed: "host_groups_ok db \<Longrightarrow> (\<And>db1. res = Inr db1 \<Longrightarrow> host_groups_ok db1) \<Longrightarrow> host_groups_ok (snd (committed db res))"
  by (simp add: committed_def split: sum.splits)

lemma host_groups_ok_hosts:
  assumes "host_groups_ok db" "ho_ID ` set (hd_hosts db) \<subseteq> ho_ID ` set t"
  shows "host_groups_ok (db\<lparr>hd_hosts := t\<rparr>)"
  using assms by (auto simp: host_groups_ok_def)

lemma host_step_keys:
  "case r of
     HostDelete i \<Rightarrow> host_step r db = db\<lparr>hd_hosts := delete_where (\<lambda>h. ho_ID h = i) (hd_hosts db),
       hd_perms := (hd_perms db)\<lparr>host_group_members := delete_where (\<lambda>(g, h). h = i) (host_group_members (hd_perms db))\<rparr>\<rparr>
   | _ \<Rightarrow> (\<exists>t. host_step r db = db\<lparr>hd_hosts := t\<rparr> \<and> ho_ID ` set (hd_hosts db) \<subseteq> ho_ID ` set t)"
proof (cases r)
  case (HostCreate now newID body)
  then show ?thesis
    by (auto simp: CreateHost_def svc_CreateHost_def Host_Create_def split: option.splits intro: exI[of _ "hd_hosts db"])
next
  case (HostUpdate now i body)
  have "map ho_ID (Host_Update (merge_host now h old) t) = map ho_ID t" if "Host_FindByID i t = Some old" for h old t
    using First_SomeD[of ho_ID "\<lambda>h. ho_ID h = i" t old] that by (auto simp: Host_FindByID_def Host_Update_def update_where_def merge_host_def)
  then have "ho_ID ` set (Host_Update (merge_host now h old) t) = ho_ID ` set t" if "Host_FindByID i t = Some old" for h old t
    using that by (metis set_map)
  then show ?thesis using HostUpdate
    by (auto simp: UpdateHost_def svc_UpdateHost_def split: option.splits intro: exI[of _ "hd_hosts db"])
qed (simp add: DeleteHost_def Host_Delete_def)

lemma host_groups_ok_host_step:
  assumes "host_groups_ok db"
  shows "host_groups_ok (host_step r db)"
proof (cases r)
  case (HostDelete i)
  let ?m = "delete_where (\<lambda>(g, h). h = i) (host_group_members (hd_perms db))"
  have "distinct ?m" using assms by (simp add: host_groups_ok_def delete_where_def)
  then show ?thesis using assms host_step_keys[of r db] HostDelete
    by (auto simp: host_groups_ok_def set_delete_where image_iff)
qed (use host_step_keys[of r db] assms in \<open>auto intro: host_groups_ok_hosts\<close>)

lemma host_groups_ok_Update:
  assumes "host_groups_ok db"
  shows "host_groups_ok (db\<lparr>hd_perms := HostGroup_Update g (hd_perms db)\<rparr>)"
proof (cases "hg_ID g \<in> hg_ID ` set (host_groups (hd_perms db))")
  case True
  let ?t = "update_where (\<lambda>x. hg_ID x = hg_ID g) (\<lambda>_. g) (host_groups (hd_perms db))"
  have ids: "map hg_ID ?t = map hg_ID (host_groups (hd_perms db))" by (auto simp: update_where_def)
  then have "hg_ID ` set ?t = hg_ID ` set (host_groups (hd_perms db))" by (metis set_map)
  then show ?thesis using True assms ids by (auto simp: HostGroup_Update_def host_groups_ok_def[of db] intro!: host_groups_ok_groups)
qed (use assms in \<open>auto simp: HostGroup_Update_def host_groups_ok_def[of db] intro!: host_groups_ok_groups\<close>)

lemma host_groups_ok_Create:
  assumes "host_groups_ok db" "HostGroup_Create now g (hd_perms db) = Inr p"
  shows "host_groups_ok (db\<lparr>hd_perms := p\<rparr>)"
  using assms by (auto simp: HostGroup_Create_def host_groups_ok_def[of db] split: if_splits intro!: host_groups_ok_groups)

lemmas host_group_handlers = CreateGroup_def UpdateGroup_def DeleteGroup_def AddHostsToGroup_def repo_AddHostsToGroup_def
  RemoveHostsFromGroup_def repo_RemoveHostsFromGroup_def MoveHostsBetweenGroups_def

lemma serve_host_group_ok:
  assumes "host_groups_ok db"
  shows "host_groups_ok (serve_host_group r db)"
proof -
  have "host_groups_ok (snd (committed db (insert_hosts i hs db)))" "host_groups_ok (snd (committed db (insert_hosts i hs (remove_hosts j hs db))))" for i j hs
    using assms by (auto intro!: snd_committed intro: host_groups_ok_insert host_groups_ok_remove)
  then show ?thesis using assms
    by (cases r) (auto simp: host_group_handlers host_groups_ok_Delete host_groups_ok_remove host_groups_ok_Update host_groups_ok_host_step
        split: option.splits sum.splits prod.splits intro: host_groups_ok_Create dest!: arg_cong[where f = snd])
qed

text \<open>Whatever hosts and host groups are created, changed, moved and deleted, every membership has its host and its group,
  no host is twice in a group, and every rule has its groups.\<close>

theorem host_group_requests_keep_integrity:
  assumes "host_groups_ok db"
  shows "host_groups_ok (fold serve_host_group rs db)"
  using assms by (induction rs arbitrary: db) (simp_all add: serve_host_group_ok)

subsection \<open>An instance\<close>

definition sample_hdb :: hdb where
  "sample_hdb = \<lparr>hd_hosts = [blank_host\<lparr>ho_ID := ''h1'', ho_Status := ''online''\<rparr>, blank_host\<lparr>ho_ID := ''h2''\<rparr>], hd_logins = [],
     hd_perms = sample_granted\<lparr>host_groups := map (\<lambda>i. \<lparr> hg_ID = i, hg_Name = i, hg_Description = [], hg_Color = [], hg_Icon = [],
       hg_SortOrder = 0, hg_CreatedBy = [], hg_CreatedAt = 0 \<rparr>) [''hg1'', ''hg2'']\<rparr>\<rparr>"

lemma sample_hdb_ok: "host_groups_ok sample_hdb"
  by code_simp

theorem host_group_requests_keep_integrity_witness:
  "host_groups_ok sample_hdb \<and> host_groups_ok (fold serve_host_group [HostsAdd ''hg1'' (Some [''h2'']), OnHosts (HostDelete ''h1''), GroupDelete ''hg1''] sample_hdb)"
  using sample_hdb_ok host_group_requests_keep_integrity[OF sample_hdb_ok] by blast

theorem move_hosts_permissions_witness:
  "MoveHostsBetweenGroups ''hg1'' ''hg2'' [''h1''] sample_hdb = (True, snd (MoveHostsBetweenGroups ''hg1'' ''hg2'' [''h1''] sample_hdb)) \<and>
   CheckUserHasPermission 50 ''u1'' ''h1'' ''s1'' (hd_perms sample_hdb) \<and>
   \<not> CheckUserHasPermission 50 ''u1'' ''h1'' ''s1'' (hd_perms (snd (MoveHostsBetweenGroups ''hg1'' ''hg2'' [''h1''] sample_hdb)))"
proof -
  have run: "MoveHostsBetweenGroups ''hg1'' ''hg2'' [''h1''] sample_hdb = (True, snd (MoveHostsBetweenGroups ''hg1'' ''hg2'' [''h1''] sample_hdb))"
    by code_simp
  have "CheckUserHasPermission 50 ''u1'' ''h1'' ''s1'' (hd_perms sample_hdb)" "\<not> listed_permits 50 ''u1'' ''h1'' ''s1'' (hd_perms sample_hdb)"
    "\<not> user_permits 50 ''u1'' ''hg2'' ''s1'' (hd_perms sample_hdb)"
    "\<forall>(g, h) \<in> set (host_group_members (hd_perms sample_hdb)). g = ''hg1''" by code_simp+
  with run move_hosts_permissions[OF run] show ?thesis by auto
qed

theorem add_hosts_permissions_witness:
  "AddHostsToGroup ''hg1'' (Some [''h2'']) sample_hdb = (200, snd (AddHostsToGroup ''hg1'' (Some [''h2'']) sample_hdb)) \<and>
   CheckUserHasPermission 50 ''u1'' ''h2'' ''s1'' (hd_perms (snd (AddHostsToGroup ''hg1'' (Some [''h2'']) sample_hdb)))"
proof -
  have run: "AddHostsToGroup ''hg1'' (Some [''h2'']) sample_hdb = (200, snd (AddHostsToGroup ''hg1'' (Some [''h2'']) sample_hdb))"
    by code_simp
  have "user_permits 50 ''u1'' ''hg1'' ''s1'' (hd_perms sample_hdb)" by code_simp
  with run add_hosts_permissions[OF run] show ?thesis by simp
qed

theorem HostGroup_Delete_revokes_witness:
  "pdb_ok (hd_perms sample_hdb) \<and> CheckUserHasPermission 50 ''u1'' ''h1'' ''s1'' (hd_perms sample_hdb) \<and>
   \<not> CheckUserHasPermission 50 ''u1'' ''h1'' ''s1'' (HostGroup_Delete ''hg1'' (hd_perms sample_hdb))"
proof -
  have ok: "pdb_ok (hd_perms sample_hdb)" and can: "CheckUserHasPermission 50 ''u1'' ''h1'' ''s1'' (hd_perms sample_hdb)" by code_simp+
  have "\<forall>r \<in> set (permission_rules (hd_perms sample_hdb)). \<not> host_listed ''h1'' r"
    "\<forall>(g, h) \<in> set (host_group_members (hd_perms sample_hdb)). g = ''hg1''" by code_simp+
  with ok can HostGroup_Delete_revokes[OF ok, of 50 "''u1''" "''h1''" "''s1''" "''hg1''"] show ?thesis by auto
qed

theorem group_statistics_count_witness:
  "distinct (map ho_ID (hd_hosts sample_hdb)) \<and> map_option gs_OnlineHosts (repo_GetGroupStatistics ''hg1'' sample_hdb) = Some 1 \<and>
   map_option gs_OfflineHosts (repo_GetGroupStatistics ''hg1'' sample_hdb) = Some 0"
proof -
  have d: "distinct (map ho_ID (hd_hosts sample_hdb))" by code_simp
  obtain st where st: "repo_GetGroupStatistics ''hg1'' sample_hdb = Some st"
    by (cases "repo_GetGroupStatistics ''hg1'' sample_hdb") (auto simp: repo_GetGroupStatistics_def HostGroup_FindByID_def First_def sample_hdb_def)
  have "map_option gs_OnlineHosts (repo_GetGroupStatistics ''hg1'' sample_hdb) = Some 1"
    "host_count ''hg1'' (hd_perms sample_hdb) = 1" by code_simp+
  with d st group_statistics_count[OF d st] show ?thesis by auto
qed

theorem sort_orders_any_order_witness:
  "distinct (map fst [(''hg1'', 2 :: int), (''hg2'', 1)]) \<and>
   BatchUpdateSortOrder [(''hg2'', 1), (''hg1'', 2)] (hd_perms sample_hdb) = BatchUpdateSortOrder [(''hg1'', 2), (''hg2'', 1)] (hd_perms sample_hdb)"
  using sort_orders_any_order[of "[(''hg1'', 2), (''hg2'', 1)]" "[(''hg2'', 1), (''hg1'', 2)]" "hd_perms sample_hdb"] by simp

end
