(* ===== verification/Asset_Sync.thy ===== *)
theory Asset_Sync
imports Hosts
begin

text \<open>
  Import of hosts from inventories: \<open>internal/service/asset_sync_service.go\<close>,
  \<open>internal/repository/asset_sync_repository.go\<close>, \<open>internal/model/asset_sync.go\<close> and
  \<open>internal/api/handler/asset_sync_handler.go\<close>.  The answers of the inventories, as parsed, the
  identifiers generated for new hosts and the order in which Go walks through a map are
  arguments (\<open>sync_env\<close>).
\<close>

section \<open>Configurations\<close>

record AssetSyncConfig =
  sc_ID :: string
  sc_Name :: string
  sc_Type :: string
  sc_Enabled :: bool
  sc_URL :: string
  sc_AuthType :: string
  sc_Username :: string
  sc_Password :: string
  sc_Token :: string
  sc_SyncInterval :: int
  sc_LastSyncTime :: "time option"
  sc_LastSyncStatus :: string
  sc_SyncedCount :: int
  sc_ErrorMessage :: string
  sc_Config :: string
  sc_CreatedAt :: time

record AssetSyncLog =
  sl_ID :: string
  sl_ConfigID :: string
  sl_Status :: string
  sl_SyncedCount :: int
  sl_ErrorMessage :: string
  sl_Duration :: int
  sl_CreatedAt :: time

record ydb =
  yd_configs :: "AssetSyncConfig list"
  yd_logs :: "AssetSyncLog list"
  yd_hosts :: "Host list"

definition GetAll :: "ydb \<Rightarrow> AssetSyncConfig list" where "GetAll db = sort_key (\<lambda>c. - sc_CreatedAt c) (yd_configs db)"

definition GetByID :: "string \<Rightarrow> ydb \<Rightarrow> AssetSyncConfig option" where
  "GetByID i db = First sc_ID (\<lambda>c. sc_ID c = i) (yd_configs db)"

definition GetEnabledConfigs :: "ydb \<Rightarrow> AssetSyncConfig list" where "GetEnabledConfigs db = filter sc_Enabled (yd_configs db)"

text \<open>The column \<open>enabled\<close> has the default true, so every new configuration is enabled.\<close>

definition Config_Create :: "time \<Rightarrow> AssetSyncConfig \<Rightarrow> ydb \<Rightarrow> ydb option" where
  "Config_Create now c db =
     (if sc_ID c \<in> sc_ID ` set (yd_configs db) then None
      else Some (db\<lparr>yd_configs := yd_configs db @
        [c\<lparr>sc_Enabled := True, sc_CreatedAt := (if sc_CreatedAt c = zero_time then now else sc_CreatedAt c)\<rparr>]\<rparr>))"

text \<open>\<open>Save\<close> writes all columns and inserts a row that is not there.\<close>

definition Config_Update :: "AssetSyncConfig \<Rightarrow> ydb \<Rightarrow> ydb" where
  "Config_Update c db = db\<lparr>yd_configs :=
     (if sc_ID c \<in> sc_ID ` set (yd_configs db) then update_where (\<lambda>x. sc_ID x = sc_ID c) (\<lambda>_. c) (yd_configs db)
      else yd_configs db @ [c])\<rparr>"

definition Config_Delete :: "string \<Rightarrow> ydb \<Rightarrow> ydb" where
  "Config_Delete i db = db\<lparr>yd_configs := delete_where (\<lambda>c. sc_ID c = i) (yd_configs db)\<rparr>"

definition UpdateSyncStatus :: "string \<Rightarrow> string \<Rightarrow> int \<Rightarrow> string \<Rightarrow> ydb \<Rightarrow> ydb" where
  "UpdateSyncStatus i status n msg db = db\<lparr>yd_configs := update_where (\<lambda>c. sc_ID c = i)
     (\<lambda>c. c\<lparr>sc_LastSyncStatus := status, sc_SyncedCount := n, sc_ErrorMessage := msg\<rparr>) (yd_configs db)\<rparr>"

definition CreateLog :: "AssetSyncLog \<Rightarrow> ydb \<Rightarrow> ydb" where
  "CreateLog l db = (if sl_ID l \<in> sl_ID ` set (yd_logs db) then db else db\<lparr>yd_logs := yd_logs db @ [l]\<rparr>)"

definition repo_GetLogs :: "string \<Rightarrow> int \<Rightarrow> ydb \<Rightarrow> AssetSyncLog list" where
  "repo_GetLogs configID limit db =
     (let rows = sort_key (\<lambda>l. - sl_CreatedAt l) (filter (\<lambda>l. configID = [] \<or> sl_ConfigID l = configID) (yd_logs db))
      in if 0 < limit then take (nat limit) rows else rows)"

section \<open>Inventories\<close>

datatype sync_auth = NoAuth | BasicAuth string string | Bearer string

record sync_request =
  rq_URL :: string
  rq_Auth :: sync_auth

datatype 'b sync_body = ReadFailed string | Unparsable string | Parsed 'b

datatype 'b sync_answer = BadRequest string | DoFailed string | Answered int "'b sync_body"

text \<open>A sample of Prometheus: its labels and its values, \<open>None\<close> where one is not a text.\<close>

record prom_sample =
  pm_Metric :: "string \<Rightarrow> string option"
  pm_Value :: "string option list"

record cmdb_host =
  ch_Hostname :: string
  ch_IP :: string
  ch_Port :: int
  ch_OS :: string
  ch_Tags :: "string list"

record sync_env =
  y_newID :: "Host list \<Rightarrow> string"
  y_walk :: "(string \<times> string \<times> string) list \<Rightarrow> (string \<times> string \<times> string) list"
  y_query :: "string \<Rightarrow> string option"
  y_prom :: "sync_request \<Rightarrow> prom_sample list sync_answer"
  y_cmdb :: "sync_request \<Rightarrow> cmdb_host list sync_answer"
  y_custom :: "sync_request \<Rightarrow> unit sync_answer"

definition extractIP :: "string \<Rightarrow> string" where
  "extractIP inst = (if CHR '':'' \<in> set inst then hd (SplitChar (CHR '':'') inst) else inst)"

text \<open>\<open>net.ParseIP\<close> on a text without colons: four decimal numbers up to 255 without leading zeros.\<close>

definition ip_octet :: "string \<Rightarrow> bool" where
  "ip_octet s \<longleftrightarrow> s \<noteq> [] \<and> list_all is_digit s \<and> (length s = 1 \<or> hd s \<noteq> CHR ''0'') \<and> digits_value s \<le> 255"

definition isValidIP :: "string \<Rightarrow> bool" where
  "isValidIP s \<longleftrightarrow> (let fs = SplitChar (CHR ''.'') s in length fs = 4 \<and> list_all ip_octet fs)"

text \<open>\<open>url.QueryEscape\<close>.\<close>

definition hex_upper :: "nat \<Rightarrow> char" where "hex_upper n = (if n < 10 then char_of (48 + n) else char_of (55 + n))"

definition query_byte :: "char \<Rightarrow> string" where
  "query_byte c =
     (if is_digit c \<or> (65 \<le> ord c \<and> ord c \<le> 90) \<or> (97 \<le> ord c \<and> ord c \<le> 122) \<or> c \<in> set ''-_.~'' then [c]
      else if c = CHR '' '' then ''+'' else [CHR ''%'', hex_upper (ord c div 16), hex_upper (ord c mod 16)])"

definition QueryEscape :: "string \<Rightarrow> string" where "QueryEscape s = concat (map query_byte s)"

section \<open>Prometheus\<close>

definition sample_status :: "prom_sample \<Rightarrow> string" where
  "sample_status item = (if 2 \<le> length (pm_Value item) \<and> pm_Value item ! 1 = Some ''1'' then ''online'' else ''offline'')"

definition sample_job :: "prom_sample \<Rightarrow> string" where
  "sample_job item = (case pm_Metric item ''job'' of None \<Rightarrow> ''unknown'' | Some j \<Rightarrow> or_default ''unknown'' j)"

text \<open>The address that a sample is about, if it is one that is kept.\<close>

definition sample_ip :: "prom_sample \<Rightarrow> string option" where
  "sample_ip item = (case pm_Metric item ''instance'' of
     None \<Rightarrow> None
   | Some inst \<Rightarrow> (let ip = extractIP inst in if inst = [] \<or> ip = [] \<or> \<not> isValidIP ip then None else Some ip))"

text \<open>The map from addresses to job and state: the first sample stays unless a later one is online.\<close>

definition add_sample :: "prom_sample \<Rightarrow> (string \<times> string \<times> string) list \<Rightarrow> (string \<times> string \<times> string) list" where
  "add_sample item m = (case sample_ip item of
     None \<Rightarrow> m
   | Some ip \<Rightarrow> (case map_of m ip of
       None \<Rightarrow> m @ [(ip, sample_job item, sample_status item)]
     | Some (job, status) \<Rightarrow>
         (if sample_status item = ''online'' \<and> status = ''offline''
          then update_where (\<lambda>e. fst e = ip) (\<lambda>_. (ip, sample_job item, sample_status item)) m else m)))"

definition ipMap :: "prom_sample list \<Rightarrow> (string \<times> string \<times> string) list" where
  "ipMap items = fold add_sample items []"

definition new_host :: "time \<Rightarrow> string \<Rightarrow> Host" where
  "new_host now i = \<lparr>ho_ID = i, ho_Name = [], ho_IP = [], ho_Port = 0, ho_Status = [], ho_OS = [], ho_CPU = [], ho_Memory = [],
     ho_Tags = [], ho_Description = [], ho_DeviceType = [], ho_ConnectionMode = [], ho_ProxyID = [], ho_NetworkZone = [],
     ho_LastLoginTime = None, ho_LoginCount = 0, ho_CreatedAt = now, ho_UpdatedAt = now\<rparr>"

definition quoted :: "string \<Rightarrow> string" where "quoted s = CHR 0x22 # s @ [CHR 0x22]"

definition prom_host :: "time \<Rightarrow> string \<Rightarrow> string \<Rightarrow> string \<Rightarrow> string \<Rightarrow> Host" where
  "prom_host now i ip job status = (new_host now i)\<lparr>ho_Name := ''prometheus-'' @ job @ ''-'' @ ip, ho_IP := ip, ho_Port := 22,
     ho_DeviceType := ''server'', ho_Status := status, ho_Tags := ''['' @ quoted ''prometheus'' @ '','' @ quoted job @ '']'', ho_ConnectionMode := ''auto''\<rparr>"

text \<open>An address that has a host changes its state, another gets a host; with the count of both.\<close>

definition sync_ip :: "(Host list \<Rightarrow> string) \<Rightarrow> time \<Rightarrow> string \<times> string \<times> string \<Rightarrow> int \<times> Host list \<Rightarrow> int \<times> Host list" where
  "sync_ip newID now entry state = (case entry of (ip, job, status) \<Rightarrow> (case state of (n, t) \<Rightarrow>
     (case Host_FindByIP ip t of
        Some h \<Rightarrow> (if ho_Status h \<noteq> status then (n + 1, Host_UpdateStatus (ho_ID h) status t) else (n, t))
      | None \<Rightarrow> (case Host_Create (prom_host now (newID t) ip job status) t of None \<Rightarrow> (n, t) | Some t1 \<Rightarrow> (n + 1, t1)))))"

definition prom_request :: "sync_env \<Rightarrow> AssetSyncConfig \<Rightarrow> sync_request" where
  "prom_request E c =
     (let query = (if sc_Config c = [] then ''up'' else (case y_query E (sc_Config c) of None \<Rightarrow> ''up'' | Some q \<Rightarrow> or_default ''up'' q));
          auth = (if sc_AuthType c = ''basic'' then BasicAuth (sc_Username c) (sc_Password c)
                  else if sc_AuthType c = ''token'' then Bearer (sc_Token c) else NoAuth)
      in \<lparr>rq_URL = sc_URL c @ ''/api/v1/query?query='' @ QueryEscape query, rq_Auth = auth\<rparr>)"

definition syncFromPrometheus :: "sync_env \<Rightarrow> time \<Rightarrow> AssetSyncConfig \<Rightarrow> Host list \<Rightarrow> string + int \<times> Host list" where
  "syncFromPrometheus E now c t = (case y_prom E (prom_request E c) of
     BadRequest e \<Rightarrow> Inl e
   | DoFailed e \<Rightarrow> Inl (''failed to query Prometheus: '' @ e)
   | Answered code b \<Rightarrow>
       (if code \<noteq> 200 then Inl (''Prometheus returned status: '' @ print_int code)
        else (case b of
            ReadFailed e \<Rightarrow> Inl e
          | Unparsable e \<Rightarrow> Inl (''failed to parse response: '' @ e)
          | Parsed items \<Rightarrow> Inr (fold (sync_ip (y_newID E) now) (y_walk E (ipMap items)) (0, t)))))"

section \<open>Other inventories\<close>

definition token_auth :: "AssetSyncConfig \<Rightarrow> sync_auth" where
  "token_auth c = (if sc_AuthType c = ''token'' then Bearer (sc_Token c) else NoAuth)"

definition cmdb_new :: "time \<Rightarrow> string \<Rightarrow> cmdb_host \<Rightarrow> Host" where
  "cmdb_new now i x = (new_host now i)\<lparr>ho_Name := ch_Hostname x, ho_IP := ch_IP x, ho_Port := ch_Port x, ho_DeviceType := ''linux'',
     ho_OS := ch_OS x, ho_Tags := MarshalStrings (ch_Tags x @ [''cmdb''])\<rparr>"

definition sync_cmdb_host :: "(Host list \<Rightarrow> string) \<Rightarrow> time \<Rightarrow> cmdb_host \<Rightarrow> int \<times> Host list \<Rightarrow> int \<times> Host list" where
  "sync_cmdb_host newID now x state = (case state of (n, t) \<Rightarrow>
     (case Host_FindByIP (ch_IP x) t of
        Some _ \<Rightarrow> (n, t)
      | None \<Rightarrow> (case Host_Create (cmdb_new now (newID t) x) t of None \<Rightarrow> (n, t) | Some t1 \<Rightarrow> (n + 1, t1))))"

definition cmdb_request :: "AssetSyncConfig \<Rightarrow> sync_request" where
  "cmdb_request c = \<lparr>rq_URL = sc_URL c, rq_Auth = token_auth c\<rparr>"

definition syncFromCMDB :: "sync_env \<Rightarrow> time \<Rightarrow> AssetSyncConfig \<Rightarrow> Host list \<Rightarrow> string + int \<times> Host list" where
  "syncFromCMDB E now c t = (case y_cmdb E (cmdb_request c) of
     BadRequest e \<Rightarrow> Inl e
   | DoFailed e \<Rightarrow> Inl e
   | Answered code b \<Rightarrow>
       (if code \<noteq> 200 then Inl (''CMDB returned status: '' @ print_int code)
        else (case b of
            ReadFailed e \<Rightarrow> Inl e
          | Unparsable e \<Rightarrow> Inl e
          | Parsed xs \<Rightarrow> Inr (fold (sync_cmdb_host (y_newID E) now) xs (0, t)))))"

definition syncFromZabbix :: "AssetSyncConfig \<Rightarrow> string + int \<times> Host list" where
  "syncFromZabbix c = Inl ''Zabbix integration not fully implemented yet''"

definition syncFromCustomAPI :: "sync_env \<Rightarrow> AssetSyncConfig \<Rightarrow> string + int \<times> Host list" where
  "syncFromCustomAPI E c = (case y_custom E (cmdb_request c) of
     BadRequest e \<Rightarrow> Inl e | DoFailed e \<Rightarrow> Inl e
   | Answered code b \<Rightarrow> Inl ''Custom API integration requires specific implementation'')"

section \<open>Runs\<close>

definition sync_from :: "sync_env \<Rightarrow> time \<Rightarrow> AssetSyncConfig \<Rightarrow> Host list \<Rightarrow> string + int \<times> Host list" where
  "sync_from E now c t =
     (if sc_Type c = ''prometheus'' then syncFromPrometheus E now c t
      else if sc_Type c = ''zabbix'' then syncFromZabbix c
      else if sc_Type c = ''cmdb'' then syncFromCMDB E now c t
      else if sc_Type c = ''custom'' then syncFromCustomAPI E c
      else Inl (''unsupported sync type: '' @ sc_Type c))"

text \<open>The configuration is a copy that was read when the run was started.\<close>

definition executeSync :: "sync_env \<Rightarrow> time \<Rightarrow> time \<Rightarrow> string \<Rightarrow> AssetSyncConfig \<Rightarrow> ydb \<Rightarrow> string option \<times> ydb" where
  "executeSync E start now logID c db =
     (let res = sync_from E now c (yd_hosts db);
          err = (case res of Inl e \<Rightarrow> Some e | Inr _ \<Rightarrow> None);
          msg = (case err of None \<Rightarrow> [] | Some e \<Rightarrow> e);
          status = (if err = None then ''success'' else ''failed'');
          n = (case res of Inl _ \<Rightarrow> 0 | Inr (k, _) \<Rightarrow> k);
          db = db\<lparr>yd_hosts := (case res of Inl _ \<Rightarrow> yd_hosts db | Inr (_, t) \<Rightarrow> t)\<rparr>;
          db = Config_Update (c\<lparr>sc_LastSyncTime := Some now, sc_LastSyncStatus := status, sc_SyncedCount := n, sc_ErrorMessage := msg\<rparr>) db
      in (err, CreateLog \<lparr>sl_ID = logID, sl_ConfigID = sc_ID c, sl_Status = status, sl_SyncedCount = n, sl_ErrorMessage = msg,
                sl_Duration = (now - start) div second, sl_CreatedAt = now\<rparr> db))"

definition SyncNow :: "sync_env \<Rightarrow> time \<Rightarrow> time \<Rightarrow> string \<Rightarrow> string \<Rightarrow> ydb \<Rightarrow> string option \<times> ydb" where
  "SyncNow E start now logID i db = (case GetByID i db of
     None \<Rightarrow> (Some ''no configuration'', db)
   | Some c \<Rightarrow> (if \<not> sc_Enabled c then (Some ''disabled'', db) else executeSync E start now logID c db))"

text \<open>The runs that a tick of the scheduler starts, each with its copy.\<close>

definition sync_due :: "time \<Rightarrow> AssetSyncConfig \<Rightarrow> bool" where
  "sync_due now c \<longleftrightarrow> (case sc_LastSyncTime c of
     None \<Rightarrow> True | Some t \<Rightarrow> \<not> now < t + int64 (sc_SyncInterval c * minute))"

definition checkAndSync :: "time \<Rightarrow> ydb \<Rightarrow> AssetSyncConfig list" where
  "checkAndSync now db = filter (sync_due now) (GetEnabledConfigs db)"

section \<open>Requests\<close>

definition ListConfigs :: "ydb \<Rightarrow> AssetSyncConfig list" where "ListConfigs db = GetAll db"

definition CreateConfig :: "time \<Rightarrow> string \<Rightarrow> AssetSyncConfig option \<Rightarrow> ydb \<Rightarrow> nat \<times> ydb" where
  "CreateConfig now newID body db = (case body of
     None \<Rightarrow> (400, db)
   | Some c \<Rightarrow> (case Config_Create now (c\<lparr>sc_ID := newID\<rparr>) db of None \<Rightarrow> (500, db) | Some db1 \<Rightarrow> (200, db1)))"

definition UpdateConfig :: "string \<Rightarrow> AssetSyncConfig option \<Rightarrow> ydb \<Rightarrow> nat \<times> ydb" where
  "UpdateConfig i body db = (case body of None \<Rightarrow> (400, db) | Some c \<Rightarrow> (200, Config_Update (c\<lparr>sc_ID := i\<rparr>) db))"

definition DeleteConfig :: "string \<Rightarrow> ydb \<Rightarrow> nat \<times> ydb" where "DeleteConfig i db = (200, Config_Delete i db)"

definition ToggleConfig :: "string \<Rightarrow> ydb \<Rightarrow> nat \<times> ydb" where
  "ToggleConfig i db = (case GetByID i db of
     None \<Rightarrow> (404, db) | Some c \<Rightarrow> (200, Config_Update (c\<lparr>sc_Enabled := \<not> sc_Enabled c\<rparr>) db))"

definition GetLogs :: "string \<Rightarrow> ydb \<Rightarrow> AssetSyncLog list" where "GetLogs configID db = repo_GetLogs configID 50 db"

section \<open>Properties\<close>

subsection \<open>Addresses reported\<close>

lemma map_of_update_where:
  "map_of (update_where (\<lambda>e. fst e = k) (\<lambda>_. (k, v)) m) x = (if x = k \<and> k \<in> fst ` set m then Some v else map_of m x)"
proof (induction m)
  case (Cons e m)
  obtain a b where e: "e = (a, b)" by (cases e)
  show ?case using Cons.IH by (cases "a = k"; cases "x = k"; cases "x = a") (simp_all add: e update_where_Cons)
qed (simp add: update_where_def)

definition reported :: "prom_sample list \<Rightarrow> string \<Rightarrow> bool" where
  "reported items ip \<longleftrightarrow> (\<exists>i \<in> set items. sample_ip i = Some ip)"

definition reported_status :: "prom_sample list \<Rightarrow> string \<Rightarrow> string" where
  "reported_status items ip =
     (if \<exists>i \<in> set items. sample_ip i = Some ip \<and> sample_status i = ''online'' then ''online'' else ''offline'')"

lemma ipMap_correct:
  "distinct (map fst (ipMap items)) \<and> (\<forall>ip. ip \<in> fst ` set (ipMap items) \<longleftrightarrow> reported items ip) \<and>
   (\<forall>ip job st. map_of (ipMap items) ip = Some (job, st) \<longrightarrow> st = reported_status items ip)"
proof (induction items rule: rev_induct)
  case (snoc x items)
  let ?m = "ipMap items"
  have step: "ipMap (items @ [x]) = add_sample x ?m" by (simp add: ipMap_def)
  have st: "sample_status x = ''online'' \<or> sample_status x = ''offline''" by (simp add: sample_status_def)
  have rep: "reported (items @ [x]) ip \<longleftrightarrow> reported items ip \<or> sample_ip x = Some ip" for ip by (auto simp: reported_def)
  have rst: "reported_status (items @ [x]) ip =
      (if sample_ip x = Some ip \<and> sample_status x = ''online'' then ''online'' else reported_status items ip)" for ip
    by (auto simp: reported_status_def)
  have keys: "map fst (update_where (\<lambda>e. fst e = ip) (\<lambda>_. (ip, v)) ?m) = map fst ?m" for ip v
    by (auto simp: update_where_def)
  have kset: "fst ` set (update_where (\<lambda>e. fst e = ip) (\<lambda>_. (ip, v)) ?m) = fst ` set ?m" for ip v
    using keys by (metis set_map)
  show ?case
  proof (cases "sample_ip x")
    case None
    then show ?thesis using snoc by (simp add: step rep rst add_sample_def)
  next
    case (Some ip)
    show ?thesis
    proof (cases "map_of ?m ip")
      case None
      then have new: "ip \<notin> fst ` set ?m" by (simp add: map_of_eq_None_iff)
      then have "reported_status items ip = ''offline''" using snoc by (auto simp: reported_def reported_status_def)
      then show ?thesis using snoc Some None new st
        by (auto simp: step rep rst add_sample_def map_add_def split: option.splits)
    next
      case (Some e)
      then obtain job0 st0 where e: "map_of ?m ip = Some (job0, st0)" by (cases e) auto
      have st0: "st0 = reported_status items ip" using snoc e by blast
      have ip: "ip \<in> fst ` set ?m" using map_of_SomeD[OF e] by (rule rev_image_eqI) simp
      then have rep': "reported (items @ [x]) = reported items" using rep snoc \<open>sample_ip x = Some ip\<close> by auto
      show ?thesis
      proof (cases "sample_status x = ''online'' \<and> st0 = ''offline''")
        case True
        then have "add_sample x ?m = update_where (\<lambda>e. fst e = ip) (\<lambda>_. (ip, sample_job x, ''online'')) ?m"
          using e \<open>sample_ip x = Some ip\<close> by (simp add: add_sample_def)
        then show ?thesis using snoc ip True \<open>sample_ip x = Some ip\<close>
          by (simp add: step rep' rst keys kset map_of_update_where)
      next
        case False
        then have "add_sample x ?m = ?m" using e \<open>sample_ip x = Some ip\<close> by (auto simp: add_sample_def)
        moreover have "reported_status (items @ [x]) = reported_status items"
          using False st0 \<open>sample_ip x = Some ip\<close> by (auto simp: rst fun_eq_iff reported_status_def split: if_splits)
        ultimately show ?thesis using snoc by (simp add: step rep')
      qed
    qed
  qed
qed (simp add: ipMap_def reported_def)

subsection \<open>The host table\<close>

abbreviation addresses_ok :: "Host list \<Rightarrow> bool" where
  "addresses_ok t \<equiv> distinct (map ho_IP t) \<and> distinct (map ho_ID t)"

lemma FindByIP_iff:
  assumes "distinct (map ho_IP t)"
  shows "Host_FindByIP ip t = Some h \<longleftrightarrow> h \<in> set t \<and> ho_IP h = ip"
proof
  assume "Host_FindByIP ip t = Some h"
  then show "h \<in> set t \<and> ho_IP h = ip"
    using First_SomeD[of ho_ID "\<lambda>h. ho_IP h = ip" t h] by (simp add: Host_FindByIP_def)
next
  assume h: "h \<in> set t \<and> ho_IP h = ip"
  then obtain g where g: "Host_FindByIP ip t = Some g" by (cases "Host_FindByIP ip t") (auto simp: Host_FindByIP_def First_None)
  then have "g \<in> set t" "ho_IP g = ip" using First_SomeD[of ho_ID "\<lambda>h. ho_IP h = ip" t g] by (simp_all add: Host_FindByIP_def)
  with h assms g show "Host_FindByIP ip t = Some h" by (auto simp: distinct_map inj_on_def)
qed

lemma FindByIP_None: "Host_FindByIP ip t = None \<longleftrightarrow> ip \<notin> ho_IP ` set t"
  by (auto simp: Host_FindByIP_def First_None)

lemma FindByIP_eqI:
  assumes "distinct (map ho_IP t)" "distinct (map ho_IP u)" "\<And>h. ho_IP h = ip \<Longrightarrow> h \<in> set t \<longleftrightarrow> h \<in> set u"
  shows "Host_FindByIP ip t = Host_FindByIP ip u"
proof (cases "Host_FindByIP ip t")
  case None
  then have "ip \<notin> ho_IP ` set u" using assms(3) by (auto simp: FindByIP_None image_iff)
  then show ?thesis using None FindByIP_None by metis
next
  case (Some h)
  then have "h \<in> set u \<and> ho_IP h = ip" using FindByIP_iff[OF assms(1)] assms(3) by blast
  then show ?thesis using Some FindByIP_iff[OF assms(2)] by metis
qed

lemma FindByIP_append:
  assumes "distinct (map ho_IP (t @ [h]))"
  shows "Host_FindByIP ip (t @ [h]) = (if ip = ho_IP h then Some h else Host_FindByIP ip t)"
proof (cases "ip = ho_IP h")
  case True
  then show ?thesis using FindByIP_iff[OF assms] by simp
next
  case False
  then show ?thesis using assms by (auto intro: FindByIP_eqI)
qed

lemma UpdateStatus_at:
  assumes "addresses_ok t" "Host_FindByIP ip t = Some h"
  shows "addresses_ok (Host_UpdateStatus (ho_ID h) st t)"
    "Host_FindByIP x (Host_UpdateStatus (ho_ID h) st t) = (if x = ip then Some (h\<lparr>ho_Status := st\<rparr>) else Host_FindByIP x t)"
proof -
  let ?u = "Host_UpdateStatus (ho_ID h) st t"
  have h: "h \<in> set t" "ho_IP h = ip" using assms FindByIP_iff by auto
  have keys: "map ho_IP ?u = map ho_IP t" "map ho_ID ?u = map ho_ID t" by (auto simp: Host_UpdateStatus_def update_where_def)
  show ok: "addresses_ok ?u" using assms(1) keys by simp
  have id: "g = h" if "g \<in> set t" "ho_ID g = ho_ID h" for g using that h assms(1) by (auto simp: distinct_map inj_on_def)
  have u: "set ?u = (\<lambda>g. if g = h then h\<lparr>ho_Status := st\<rparr> else g) ` set t"
    using id by (auto simp: Host_UpdateStatus_def update_where_def image_iff)
  show "Host_FindByIP x ?u = (if x = ip then Some (h\<lparr>ho_Status := st\<rparr>) else Host_FindByIP x t)"
  proof (cases "x = ip")
    case True
    then show ?thesis using ok h u FindByIP_iff[of ?u ip "h\<lparr>ho_Status := st\<rparr>"] by force
  next
    case False
    have "Host_FindByIP x ?u = Host_FindByIP x t"
    proof (rule FindByIP_eqI)
      show "g \<in> set ?u \<longleftrightarrow> g \<in> set t" if "ho_IP g = x" for g using u h that False by (auto simp: image_iff)
    qed (use ok assms in auto)
    then show ?thesis using False by simp
  qed
qed

definition fresh_ids :: "(Host list \<Rightarrow> string) \<Rightarrow> bool" where
  "fresh_ids newID \<longleftrightarrow> (\<forall>t. newID t \<notin> ho_ID ` set t)"

text \<open>What an entry makes of the host at its address.\<close>

definition entry_host :: "time \<Rightarrow> string \<Rightarrow> string \<times> string \<times> string \<Rightarrow> Host option \<Rightarrow> Host" where
  "entry_host now i e old = (case e of (ip, job, st) \<Rightarrow>
     (case old of Some h \<Rightarrow> h\<lparr>ho_Status := st\<rparr> | None \<Rightarrow> prom_host now i ip job st))"

lemma sync_ip_step:
  assumes "fresh_ids newID" "addresses_ok t" "st \<noteq> []" "sync_ip newID now (ip, job, st) (n, t) = (n', t')"
  shows "addresses_ok t'"
    "Host_FindByIP x t' = (if x = ip then Some (entry_host now (newID t) (ip, job, st) (Host_FindByIP ip t)) else Host_FindByIP x t)"
    "n' = n + (if Host_FindByIP ip t' = Host_FindByIP ip t then 0 else 1)"
proof -
  have "addresses_ok t' \<and> (\<forall>x. Host_FindByIP x t' =
      (if x = ip then Some (entry_host now (newID t) (ip, job, st) (Host_FindByIP ip t)) else Host_FindByIP x t)) \<and>
      n' = n + (if Host_FindByIP ip t' = Host_FindByIP ip t then 0 else 1)"
  proof (cases "Host_FindByIP ip t")
    case None
    let ?h = "prom_host now (newID t) ip job st"
    have h: "ho_IP ?h = ip" "ho_ID ?h = newID t" by (simp_all add: prom_host_def new_host_def)
    have "Host_Create ?h t = Some (t @ [?h])"
      using assms(1,3) h by (auto simp: Host_Create_def fresh_ids_def or_default_def prom_host_def new_host_def)
    then have t': "t' = t @ [?h]" "n' = n + 1" using assms(4) None by (auto simp: sync_ip_def)
    have ok: "addresses_ok (t @ [?h])" using assms(1,2) None h by (auto simp: FindByIP_None fresh_ids_def)
    then show ?thesis using t' None h FindByIP_append[of t ?h] by (simp add: entry_host_def)
  next
    case (Some h)
    have same: "h\<lparr>ho_Status := st\<rparr> = h" if "ho_Status h = st" using that by (cases h) simp
    have "t' = (if ho_Status h \<noteq> st then Host_UpdateStatus (ho_ID h) st t else t)" "n' = n + (if ho_Status h \<noteq> st then 1 else 0)"
      using assms(4) Some by (auto simp: sync_ip_def split: if_splits)
    moreover have "h\<lparr>ho_Status := st\<rparr> = h \<longleftrightarrow> ho_Status h = st" by (cases h) auto
    ultimately show ?thesis
      using assms(2) UpdateStatus_at(1)[OF assms(2) Some, of st] UpdateStatus_at(2)[OF assms(2) Some, of _ st] Some same
      by (auto simp: entry_host_def)
  qed
  then show "addresses_ok t'"
    "Host_FindByIP x t' = (if x = ip then Some (entry_host now (newID t) (ip, job, st) (Host_FindByIP ip t)) else Host_FindByIP x t)"
    "n' = n + (if Host_FindByIP ip t' = Host_FindByIP ip t then 0 else 1)" by blast+
qed

lemma sync_ips:
  assumes "fresh_ids newID" "addresses_ok t" "distinct (map fst m)" "\<forall>(ip, job, st) \<in> set m. st \<noteq> []"
    "fold (sync_ip newID now) m (n, t) = (n', t')"
  shows "addresses_ok t' \<and>
    (\<forall>x. case map_of m x of
       None \<Rightarrow> Host_FindByIP x t' = Host_FindByIP x t
     | Some (job, st) \<Rightarrow> \<exists>i. Host_FindByIP x t' = Some (entry_host now i (x, job, st) (Host_FindByIP x t))) \<and>
    n' = n + int (card {x \<in> fst ` set m. Host_FindByIP x t' \<noteq> Host_FindByIP x t})"
  using assms(2-)
proof (induction m arbitrary: n t)
  case (Cons e m)
  obtain ip job st where e: "e = (ip, job, st)" by (cases e)
  obtain n1 t1 where s: "sync_ip newID now (ip, job, st) (n, t) = (n1, t1)" by (cases "sync_ip newID now (ip, job, st) (n, t)")
  have st: "st \<noteq> []" and new: "ip \<notin> fst ` set m" using Cons.prems by (auto simp: e)
  note step = sync_ip_step[OF assms(1) Cons.prems(1) st s]
  have "fold (sync_ip newID now) m (n1, t1) = (n', t')" using Cons.prems(4) s by (simp add: e)
  with step(1) Cons.prems have IH: "addresses_ok t'"
    "\<And>x. case map_of m x of
       None \<Rightarrow> Host_FindByIP x t' = Host_FindByIP x t1
     | Some (job, st) \<Rightarrow> \<exists>i. Host_FindByIP x t' = Some (entry_host now i (x, job, st) (Host_FindByIP x t1))"
    "n' = n1 + int (card {x \<in> fst ` set m. Host_FindByIP x t' \<noteq> Host_FindByIP x t1})"
    using Cons.IH[of t1 n1] by auto
  have at: "Host_FindByIP ip t' = Host_FindByIP ip t1" using IH(2)[of ip] new by (simp add: map_of_eq_None_iff[THEN iffD2])
  have other: "Host_FindByIP x t1 = Host_FindByIP x t" if "x \<in> fst ` set m" for x using that new step(2)[of x] by auto
  have "{x \<in> fst ` set m. Host_FindByIP x t' \<noteq> Host_FindByIP x t1} = {x \<in> fst ` set m. Host_FindByIP x t' \<noteq> Host_FindByIP x t}"
    by (rule Collect_cong, rule conj_cong, rule refl, simp only: other)
  moreover have "{x \<in> fst ` set (e # m). Host_FindByIP x t' \<noteq> Host_FindByIP x t} =
      (if Host_FindByIP ip t1 = Host_FindByIP ip t then {} else {ip}) \<union> {x \<in> fst ` set m. Host_FindByIP x t' \<noteq> Host_FindByIP x t}"
    using at by (auto simp: e)
  ultimately have "int (card {x \<in> fst ` set (e # m). Host_FindByIP x t' \<noteq> Host_FindByIP x t}) =
      (if Host_FindByIP ip t1 = Host_FindByIP ip t then 0 else 1) + int (card {x \<in> fst ` set m. Host_FindByIP x t' \<noteq> Host_FindByIP x t1})"
    using new by simp
  moreover have "case map_of (e # m) x of
       None \<Rightarrow> Host_FindByIP x t' = Host_FindByIP x t
     | Some (job, st) \<Rightarrow> \<exists>i. Host_FindByIP x t' = Some (entry_host now i (x, job, st) (Host_FindByIP x t))" for x
    using IH(2)[of x] step(2)[of x] at by (auto simp: e split: if_splits option.splits)
  ultimately show ?case using IH(1,3) step(3) by simp
qed simp

text \<open>Whatever the order in which Go walks through the addresses, a run over an answer of Prometheus leaves every
  reported address with one host, online exactly if some sample says so; a host that was there changes in nothing
  else, other hosts not at all, and the count is the number of addresses that changed.\<close>

theorem prometheus_sync:
  assumes "fresh_ids (y_newID E)" "\<forall>m. mset (y_walk E m) = mset m" "distinct (map ho_IP t)" "distinct (map ho_ID t)"
    and "y_prom E (prom_request E c) = Answered 200 (Parsed items)"
  shows "\<exists>n t'. syncFromPrometheus E now c t = Inr (n, t') \<and> distinct (map ho_IP t') \<and> distinct (map ho_ID t') \<and>
    (\<forall>ip. if reported items ip
       then (case Host_FindByIP ip t of
           Some h \<Rightarrow> Host_FindByIP ip t' = Some (h\<lparr>ho_Status := reported_status items ip\<rparr>)
         | None \<Rightarrow> \<exists>i job. Host_FindByIP ip t' = Some (prom_host now i ip job (reported_status items ip)))
       else Host_FindByIP ip t' = Host_FindByIP ip t) \<and>
    n = int (card {ip. Host_FindByIP ip t' \<noteq> Host_FindByIP ip t})"
proof -
  let ?m = "ipMap items" and ?w = "y_walk E (ipMap items)"
  obtain n t' where r: "fold (sync_ip (y_newID E) now) ?w (0, t) = (n, t')" by (cases "fold (sync_ip (y_newID E) now) ?w (0, t)")
  note m = ipMap_correct[of items]
  have mset: "mset ?w = mset ?m" and set_w: "set ?w = set ?m" using assms(2) mset_eq_setD by blast+
  have d: "distinct (map fst ?w)" using m mset by (metis mset_eq_imp_distinct_iff mset_map)
  have mo: "map_of ?w = map_of ?m" using m d set_w by (metis map_of_inject_set)
  have "st \<noteq> []" if "(ip, job, st) \<in> set ?m" for ip job st
  proof -
    have "st = reported_status items ip" using m map_of_is_SomeI[of ?m ip "(job, st)"] that by blast
    then show ?thesis by (simp add: reported_status_def)
  qed
  then have ne: "\<forall>(ip, job, st) \<in> set ?w. st \<noteq> []" using set_w by auto
  have res: "distinct (map ho_IP t')" "distinct (map ho_ID t')"
    "\<And>x. case map_of ?m x of
       None \<Rightarrow> Host_FindByIP x t' = Host_FindByIP x t
     | Some (job, st) \<Rightarrow> \<exists>i. Host_FindByIP x t' = Some (entry_host now i (x, job, st) (Host_FindByIP x t))"
    "n = int (card {x \<in> fst ` set ?m. Host_FindByIP x t' \<noteq> Host_FindByIP x t})"
    using sync_ips[OF assms(1) _ d ne r] assms(3,4) mo set_w by auto
  have at: "if reported items ip
       then (case Host_FindByIP ip t of
           Some h \<Rightarrow> Host_FindByIP ip t' = Some (h\<lparr>ho_Status := reported_status items ip\<rparr>)
         | None \<Rightarrow> \<exists>i job. Host_FindByIP ip t' = Some (prom_host now i ip job (reported_status items ip)))
       else Host_FindByIP ip t' = Host_FindByIP ip t" for ip
  proof (cases "map_of ?m ip")
    case None
    moreover have "\<not> reported items ip" using None m by (metis map_of_eq_None_iff)
    ultimately show ?thesis using res(3)[of ip] by simp
  next
    case (Some e)
    then obtain job st where e: "map_of ?m ip = Some (job, st)" by (cases e) auto
    then have "reported items ip" "st = reported_status items ip" using m map_of_SomeD[OF e] by (force, blast)
    then show ?thesis using res(3)[of ip] e by (auto simp: entry_host_def split: option.splits)
  qed
  then have "{x \<in> fst ` set ?m. Host_FindByIP x t' \<noteq> Host_FindByIP x t} = {ip. Host_FindByIP ip t' \<noteq> Host_FindByIP ip t}"
    using m by (intro Collect_cong) metis
  then show ?thesis using r res(1,2,4) at assms(5) by (simp add: syncFromPrometheus_def)
qed

subsection \<open>Inventories\<close>

lemma cmdb_fold:
  assumes "fresh_ids newID" "fold (sync_cmdb_host newID now) xs (n, t) = (n', t')"
  shows "\<exists>new. t' = t @ new \<and> n' = n + int (length new) \<and> distinct (map ho_IP new) \<and>
    ho_IP ` set new = ch_IP ` set xs - ho_IP ` set t"
  using assms(2)
proof (induction xs arbitrary: n t)
  case (Cons x xs)
  show ?case
  proof (cases "ch_IP x \<in> ho_IP ` set t")
    case True
    then obtain h where "Host_FindByIP (ch_IP x) t = Some h" using FindByIP_None[of "ch_IP x" t] by (cases "Host_FindByIP (ch_IP x) t") auto
    then have "sync_cmdb_host newID now x (n, t) = (n, t)" by (simp add: sync_cmdb_host_def)
    with Cons show ?thesis using True by (auto simp: insert_Diff_if)
  next
    case False
    then have none: "Host_FindByIP (ch_IP x) t = None" by (simp add: FindByIP_None)
    obtain h where h: "Host_Create (cmdb_new now (newID t) x) t = Some (t @ [h])" "ho_IP h = ch_IP x"
      using assms(1) by (auto simp: Host_Create_def fresh_ids_def cmdb_new_def new_host_def)
    then have "sync_cmdb_host newID now x (n, t) = (n + 1, t @ [h])" using none by (simp add: sync_cmdb_host_def)
    then have "fold (sync_cmdb_host newID now) xs (n + 1, t @ [h]) = (n', t')" using Cons.prems by simp
    from Cons.IH[OF this] obtain new where new: "t' = (t @ [h]) @ new" "n' = n + 1 + int (length new)" "distinct (map ho_IP new)"
      "ho_IP ` set new = ch_IP ` set xs - ho_IP ` set (t @ [h])" by auto
    then show ?thesis using h(2) False by (intro exI[of _ "h # new"]) auto
  qed
qed simp

text \<open>An import from a CMDB adds one host for each address that is new and leaves every other host alone; repeated on
  the same answer it changes nothing.\<close>

theorem cmdb_sync_once:
  assumes "fresh_ids (y_newID E)" "y_cmdb E (cmdb_request c) = Answered 200 (Parsed xs)"
  shows "\<exists>new. syncFromCMDB E now c t = Inr (int (length new), t @ new) \<and> distinct (map ho_IP new) \<and>
    ho_IP ` set new = ch_IP ` set xs - ho_IP ` set t \<and> syncFromCMDB E later c (t @ new) = Inr (0, t @ new)"
proof -
  obtain n t' where r: "fold (sync_cmdb_host (y_newID E) now) xs (0, t) = (n, t')" by (cases "fold (sync_cmdb_host (y_newID E) now) xs (0, t)")
  from cmdb_fold[OF assms(1) r] obtain new where new: "t' = t @ new" "n = int (length new)" "distinct (map ho_IP new)"
    "ho_IP ` set new = ch_IP ` set xs - ho_IP ` set t" by auto
  obtain n2 t2 where r2: "fold (sync_cmdb_host (y_newID E) later) xs (0, t @ new) = (n2, t2)"
    by (cases "fold (sync_cmdb_host (y_newID E) later) xs (0, t @ new)")
  from cmdb_fold[OF assms(1) r2] obtain new2 where new2: "t2 = (t @ new) @ new2" "n2 = int (length new2)"
    "ho_IP ` set new2 = ch_IP ` set xs - ho_IP ` set (t @ new)" by auto
  have "ho_IP ` set new2 = {}" unfolding new2(3) using new(4) by auto
  then have "new2 = []" by blast
  then have "n2 = 0" "t2 = t @ new" using new2 by simp_all
  then show ?thesis using r r2 new assms(2) by (auto simp: syncFromCMDB_def)
qed

subsection \<open>Runs and requests\<close>

lemma run_saves_config:
  "\<exists>status n msg. GetByID (sc_ID c) (snd (executeSync E start now logID c db)) =
     Some (c\<lparr>sc_LastSyncTime := Some now, sc_LastSyncStatus := status, sc_SyncedCount := n, sc_ErrorMessage := msg\<rparr>)"
proof -
  have save: "GetByID (sc_ID x) (Config_Update x d) = Some x" for x d
  proof -
    have "\<forall>y \<in> set (yd_configs (Config_Update x d)). sc_ID y = sc_ID x \<longrightarrow> y = x"
      by (auto simp: Config_Update_def update_where_def image_iff)
    moreover have "x \<in> set (yd_configs (Config_Update x d))"
      by (auto simp: Config_Update_def set_update_where split: if_splits intro: rev_image_eqI)
    ultimately have all: "\<forall>y \<in> set (yd_configs (Config_Update x d)). sc_ID y = sc_ID x \<longrightarrow> y = x"
      "\<not> (\<forall>y \<in> set (yd_configs (Config_Update x d)). sc_ID y \<noteq> sc_ID x)" by blast+
    then obtain y where y: "First sc_ID (\<lambda>y. sc_ID y = sc_ID x) (yd_configs (Config_Update x d)) = Some y"
      using First_None[of sc_ID "\<lambda>y. sc_ID y = sc_ID x" "yd_configs (Config_Update x d)"] by (auto simp only: not_None_eq)
    then show ?thesis using First_SomeD[OF y] all(1) by (simp add: GetByID_def)
  qed
  have log: "GetByID i (CreateLog l d) = GetByID i d" for i l d by (simp add: GetByID_def CreateLog_def)
  have "sc_ID (c\<lparr>sc_LastSyncTime := Some now, sc_LastSyncStatus := st, sc_SyncedCount := n, sc_ErrorMessage := msg\<rparr>) = sc_ID c" for st n msg
    by simp
  then show ?thesis using save unfolding executeSync_def Let_def snd_conv log by metis
qed

text \<open>A configuration that was run is due again exactly when its interval is over.\<close>

theorem next_run_after_interval:
  assumes "in_int64 (sc_SyncInterval c * minute)" "sc_Enabled c"
  shows "\<exists>c'. GetByID (sc_ID c) (snd (executeSync E start now logID c db)) = Some c' \<and>
    (sync_due t c' \<longleftrightarrow> now + sc_SyncInterval c * minute \<le> t)"
proof -
  obtain status n msg where "GetByID (sc_ID c) (snd (executeSync E start now logID c db)) =
      Some (c\<lparr>sc_LastSyncTime := Some now, sc_LastSyncStatus := status, sc_SyncedCount := n, sc_ErrorMessage := msg\<rparr>)"
    using run_saves_config by blast
  then show ?thesis using assms by (simp add: sync_due_def not_less)
qed

text \<open>A run ends by writing back the configuration it was started with: a configuration that was deleted in the meantime
  is there again, one that was disabled is enabled again.\<close>

theorem run_undoes_requests:
  assumes "sc_Enabled c" "db' = snd (DeleteConfig (sc_ID c) db) \<or> db' = snd (ToggleConfig (sc_ID c) db)"
  shows "\<exists>c'. GetByID (sc_ID c) (snd (executeSync E start now logID c db')) = Some c' \<and> sc_Enabled c' \<and> sc_URL c' = sc_URL c"
  using run_saves_config[of c E start now logID db'] assms(1) by auto

subsection \<open>An instance\<close>

text \<open>Identifiers longer than all others.\<close>

definition longer_id :: "Host list \<Rightarrow> string" where
  "longer_id t = replicate (Suc (foldr (\<lambda>h n. length (ho_ID h) + n) t 0)) (CHR ''x'')"

lemma fresh_longer_id: "fresh_ids longer_id"
proof -
  have le: "length (ho_ID h) \<le> foldr (\<lambda>h n. length (ho_ID h) + n) t 0" if "h \<in> set t" for h and t :: "Host list"
    using that by (induction t) auto
  have "longer_id t \<noteq> ho_ID h" if "h \<in> set t" for h t
  proof
    assume "longer_id t = ho_ID h"
    then have "length (longer_id t) = length (ho_ID h)" by simp
    with le[OF that] show False by (simp add: longer_id_def del: replicate.simps)
  qed
  then show ?thesis by (auto simp: fresh_ids_def)
qed

definition sample_inventory :: sync_env where
  "sample_inventory = \<lparr>y_newID = longer_id, y_walk = rev, y_query = (\<lambda>_. None),
     y_prom = (\<lambda>_. Answered 200 (Parsed [
       \<lparr>pm_Metric = [''instance'' \<mapsto> ''10.0.0.1:9100''], pm_Value = [None, Some ''0'']\<rparr>,
       \<lparr>pm_Metric = [''instance'' \<mapsto> ''10.0.0.1:9200'', ''job'' \<mapsto> ''node''], pm_Value = [None, Some ''1'']\<rparr>,
       \<lparr>pm_Metric = [''instance'' \<mapsto> ''db.example:9100''], pm_Value = [None, Some ''1'']\<rparr>])),
     y_cmdb = (\<lambda>_. Answered 200 (Parsed [\<lparr>ch_Hostname = ''a'', ch_IP = ''10.0.0.7'', ch_Port = 0, ch_OS = [], ch_Tags = []\<rparr>])),
     y_custom = (\<lambda>_. BadRequest [])\<rparr>"

definition sample_config :: AssetSyncConfig where
  "sample_config = \<lparr>sc_ID = ''c'', sc_Name = [], sc_Type = ''prometheus'', sc_Enabled = True, sc_URL = [], sc_AuthType = [],
     sc_Username = [], sc_Password = [], sc_Token = [], sc_SyncInterval = 60, sc_LastSyncTime = None, sc_LastSyncStatus = [],
     sc_SyncedCount = 0, sc_ErrorMessage = [], sc_Config = [], sc_CreatedAt = 0\<rparr>"

theorem prometheus_sync_witness:
  "fresh_ids (y_newID sample_inventory) \<and> (\<exists>n t'. syncFromPrometheus sample_inventory 5 sample_config [] = Inr (n, t') \<and>
     (\<exists>i job. Host_FindByIP ''10.0.0.1'' t' = Some (prom_host 5 i ''10.0.0.1'' job ''online'')))"
proof -
  let ?items = "[\<lparr>pm_Metric = [''instance'' \<mapsto> ''10.0.0.1:9100''], pm_Value = [None, Some ''0'']\<rparr>,
       \<lparr>pm_Metric = [''instance'' \<mapsto> ''10.0.0.1:9200'', ''job'' \<mapsto> ''node''], pm_Value = [None, Some ''1'']\<rparr>,
       \<lparr>pm_Metric = [''instance'' \<mapsto> ''db.example:9100''], pm_Value = [None, Some ''1'']\<rparr>]"
  have E: "y_newID sample_inventory = longer_id" "\<forall>m. mset (y_walk sample_inventory m) = mset m"
    "y_prom sample_inventory (prom_request sample_inventory sample_config) = Answered 200 (Parsed ?items)"
    by (simp_all add: sample_inventory_def)
  have fresh: "fresh_ids (y_newID sample_inventory)" using E(1) fresh_longer_id by simp
  obtain n t' where r: "syncFromPrometheus sample_inventory 5 sample_config [] = Inr (n, t')"
    "if reported ?items ''10.0.0.1''
       then (case Host_FindByIP ''10.0.0.1'' [] of
           Some h \<Rightarrow> Host_FindByIP ''10.0.0.1'' t' = Some (h\<lparr>ho_Status := reported_status ?items ''10.0.0.1''\<rparr>)
         | None \<Rightarrow> \<exists>i job. Host_FindByIP ''10.0.0.1'' t' = Some (prom_host 5 i ''10.0.0.1'' job (reported_status ?items ''10.0.0.1'')))
       else Host_FindByIP ''10.0.0.1'' t' = Host_FindByIP ''10.0.0.1'' []"
    using prometheus_sync[OF fresh E(2) _ _ E(3), of "[]" 5] by (simp only: list.map distinct.simps) blast
  have "reported ?items ''10.0.0.1''" "reported_status ?items ''10.0.0.1'' = ''online''" "Host_FindByIP ''10.0.0.1'' [] = None"
    by code_simp+
  with r(2) have "\<exists>i job. Host_FindByIP ''10.0.0.1'' t' = Some (prom_host 5 i ''10.0.0.1'' job ''online'')" by (simp only: if_True option.case)
  with r(1) fresh show ?thesis by blast
qed

theorem cmdb_sync_once_witness:
  "\<exists>new. syncFromCMDB sample_inventory 5 sample_config [] = Inr (int (length new), new) \<and> ho_IP ` set new = {''10.0.0.7''} \<and>
     syncFromCMDB sample_inventory 9 sample_config new = Inr (0, new)"
proof -
  have E: "fresh_ids (y_newID sample_inventory)"
    "y_cmdb sample_inventory (cmdb_request sample_config) =
       Answered 200 (Parsed [\<lparr>ch_Hostname = ''a'', ch_IP = ''10.0.0.7'', ch_Port = 0, ch_OS = [], ch_Tags = []\<rparr>])"
    by (simp_all add: sample_inventory_def fresh_longer_id)
  show ?thesis using cmdb_sync_once[OF E, of 5 "[]" 9] by auto
qed

theorem run_undoes_requests_witness:
  "\<exists>c'. GetByID ''c'' (snd (executeSync sample_inventory 1 2 ''l'' sample_config
     (snd (DeleteConfig ''c'' \<lparr>yd_configs = [sample_config], yd_logs = [], yd_hosts = []\<rparr>)))) = Some c' \<and> sc_Enabled c'"
proof -
  have c: "sc_Enabled sample_config" "sc_ID sample_config = ''c''" by (simp_all add: sample_config_def)
  show ?thesis
    using run_undoes_requests[of sample_config "snd (DeleteConfig ''c'' \<lparr>yd_configs = [sample_config], yd_logs = [], yd_hosts = []\<rparr>)"
        "\<lparr>yd_configs = [sample_config], yd_logs = [], yd_hosts = []\<rparr>" sample_inventory 1 2 "''l''"] c by auto
qed

theorem next_run_after_interval_witness:
  "\<exists>c'. GetByID ''c'' (snd (executeSync sample_inventory 1 2 ''l'' sample_config \<lparr>yd_configs = [], yd_logs = [], yd_hosts = []\<rparr>)) = Some c' \<and>
     \<not> sync_due minute c'"
proof -
  have c: "in_int64 (sc_SyncInterval sample_config * minute)" "sc_Enabled sample_config" by code_simp+
  have "\<not> 2 + sc_SyncInterval sample_config * minute \<le> minute" "sc_ID sample_config = ''c''" by code_simp+
  then show ?thesis using next_run_after_interval[OF c, of sample_inventory 1 2 "''l''" "\<lparr>yd_configs = [], yd_logs = [], yd_hosts = []\<rparr>" minute] by auto
qed

end
