(* ===== verification/Admin_Api.thy ===== *)
theory Admin_Api
imports Blacklist_Manager Sessions
begin

text \<open>
  Requests around repositories that are modelled elsewhere:
  \<open>internal/api/handler/system_user_handler.go\<close>, \<open>blacklist_handler.go\<close> and
  \<open>dashboard_handler.go\<close>, with the statistics of \<open>internal/service/host_service.go\<close>.  A body is
  \<open>None\<close> when it cannot be bound; the caller is the user of the middleware, if any.
\<close>

section \<open>System users\<close>

definition ListSystemUsers :: "string \<Rightarrow> pdb \<Rightarrow> SystemUser list" where
  "ListSystemUsers status db = (if status \<noteq> [] then FindByStatus status db else SystemUser_FindAll db)"

definition GetSystemUser :: "string \<Rightarrow> pdb \<Rightarrow> nat \<times> SystemUser option" where
  "GetSystemUser i db = (case SystemUser_FindByID i db of Inl _ \<Rightarrow> (404, None) | Inr su \<Rightarrow> (200, Some su))"

definition valid_credentials :: "SystemUser \<Rightarrow> bool" where
  "valid_credentials su \<longleftrightarrow> su_AuthType su = ''password'' \<and> su_Password su \<noteq> [] \<or> su_AuthType su = ''key'' \<and> su_PrivateKey su \<noteq> []"

definition CreateSystemUser :: "string \<Rightarrow> string option \<Rightarrow> SystemUser option \<Rightarrow> pdb \<Rightarrow> nat \<times> pdb" where
  "CreateSystemUser newID caller body db = (case body of
     None \<Rightarrow> (400, db)
   | Some su \<Rightarrow>
       (if su_AuthType su \<noteq> ''password'' \<and> su_AuthType su \<noteq> ''key'' then (400, db)
        else if su_AuthType su = ''password'' \<and> su_Password su = [] then (400, db)
        else if su_AuthType su = ''key'' \<and> su_PrivateKey su = [] then (400, db)
        else (case SystemUser_Create
              (su\<lparr>su_ID := newID, su_CreatedBy := (case caller of None \<Rightarrow> su_CreatedBy su | Some u \<Rightarrow> u)\<rparr>) db of
            Inl _ \<Rightarrow> (500, db) | Inr db1 \<Rightarrow> (200, db1))))"

definition UpdateSystemUser :: "string \<Rightarrow> SystemUser option \<Rightarrow> pdb \<Rightarrow> nat \<times> pdb" where
  "UpdateSystemUser i body db = (case body of
     None \<Rightarrow> (400, db)
   | Some su \<Rightarrow>
       (if su_AuthType su \<noteq> ''password'' \<and> su_AuthType su \<noteq> ''key'' then (400, db)
        else if su_AuthType su = ''password'' \<and> su_Password su = [] then (400, db)
        else if su_AuthType su = ''key'' \<and> su_PrivateKey su = [] then (400, db)
        else (200, SystemUser_Update (su\<lparr>su_ID := i\<rparr>) db)))"

definition DeleteSystemUser :: "string \<Rightarrow> pdb \<Rightarrow> nat \<times> pdb" where
  "DeleteSystemUser i db = (200, SystemUser_Delete i db)"

definition GetAvailableSystemUsers :: "time \<Rightarrow> string \<Rightarrow> string option \<Rightarrow> pdb \<Rightarrow> nat \<times> SystemUser list" where
  "GetAvailableSystemUsers now hostID caller db =
     (if hostID = [] then (400, []) else (case caller of
        None \<Rightarrow> (401, []) | Some u \<Rightarrow> (200, GetAvailableSystemUsersForUser now u hostID db)))"

definition CheckPermission :: "time \<Rightarrow> string \<Rightarrow> string \<Rightarrow> string option \<Rightarrow> pdb \<Rightarrow> nat \<times> bool" where
  "CheckPermission now hostID systemUserID caller db =
     (if hostID = [] \<or> systemUserID = [] then (400, False) else (case caller of
        None \<Rightarrow> (401, False) | Some u \<Rightarrow> (200, CheckUserHasPermission now u hostID systemUserID db)))"

section \<open>Blacklist rules\<close>

text \<open>A row with its creation time.\<close>

type_synonym rule_row = "BlacklistRule \<times> time"

definition GetCommands :: "rule_row list \<Rightarrow> rule_row list" where
  "GetCommands t = sort_key (\<lambda>r. - snd r) t"

definition CreateCommand :: "time \<Rightarrow> string \<Rightarrow> BlacklistRule option \<Rightarrow> rule_row list \<Rightarrow> nat \<times> rule_row list" where
  "CreateCommand now newID body t = (case body of
     None \<Rightarrow> (400, t)
   | Some r \<Rightarrow>
       (if newID \<in> (rule_ID \<circ> fst) ` set t then (500, t)
        else (200, t @ [(r\<lparr>rule_ID := newID, rule_Enabled := True, rule_Scope := or_default ''global'' (rule_Scope r)\<rparr>, now)])))"

text \<open>\<open>Updates\<close> with a struct writes the fields that are not zero, the key among them; \<open>users\<close> is \<open>None\<close> when the
  body has no list.\<close>

record rule_body =
  rb_Rule :: BlacklistRule
  rb_Users :: "string list option"
  rb_CreatedAt :: time

definition merge_command :: "rule_body \<Rightarrow> rule_row \<Rightarrow> rule_row" where
  "merge_command b row = (case row of (old, at) \<Rightarrow> (let n = rb_Rule b in
     (old\<lparr>rule_ID := or_default (rule_ID old) (rule_ID n), rule_Command := or_default (rule_Command old) (rule_Command n),
        rule_Pattern := or_default (rule_Pattern old) (rule_Pattern n),
        rule_Description := or_default (rule_Description old) (rule_Description n),
        rule_Scope := or_default (rule_Scope old) (rule_Scope n),
        rule_Users := (case rb_Users b of None \<Rightarrow> rule_Users old | Some us \<Rightarrow> us),
        rule_Enabled := rule_Enabled old \<or> rule_Enabled n\<rparr>,
      if rb_CreatedAt b = zero_time then at else rb_CreatedAt b)))"

definition UpdateCommand :: "string \<Rightarrow> rule_body option \<Rightarrow> rule_row list \<Rightarrow> nat \<times> rule_row list" where
  "UpdateCommand i body t = (case body of
     None \<Rightarrow> (400, t)
   | Some b \<Rightarrow> (let t1 = update_where (\<lambda>r. rule_ID (fst r) = i) (merge_command b) t in
       if distinct (map (rule_ID \<circ> fst) t1) then (200, t1) else (500, t)))"

definition DeleteCommand :: "string \<Rightarrow> rule_row list \<Rightarrow> nat \<times> rule_row list" where
  "DeleteCommand i t = (200, delete_where (\<lambda>r. rule_ID (fst r) = i) t)"

definition GetActiveCommands :: "rule_row list \<Rightarrow> BlacklistRule list" where
  "GetActiveCommands t = filter rule_Enabled (map fst t)"

section \<open>Dashboard\<close>

record DashboardStats =
  dt_TotalHosts :: nat
  dt_OnlineHosts :: nat
  dt_OfflineHosts :: nat
  dt_RecentLogins :: nat

definition stats_of :: "nat \<times> nat \<times> nat \<Rightarrow> DashboardStats" where
  "stats_of n = (case n of (a, b, c) \<Rightarrow> \<lparr>dt_TotalHosts = a, dt_OnlineHosts = b, dt_OfflineHosts = c, dt_RecentLogins = 0\<rparr>)"

definition GetDashboardStats :: "hdb \<Rightarrow> DashboardStats" where
  "GetDashboardStats db = stats_of (CountByStatus (hd_hosts db))"

definition GetUserDashboardStats :: "sql_match \<Rightarrow> time \<Rightarrow> string \<Rightarrow> hdb \<Rightarrow> DashboardStats" where
  "GetUserDashboardStats M now userID db = stats_of (CountByStatusForUser M now userID db)"

definition GetFrequentHosts :: "sql_match \<Rightarrow> time \<Rightarrow> string option \<Rightarrow> string option \<Rightarrow> hdb \<Rightarrow> nat \<times> Host list" where
  "GetFrequentHosts M now limit caller db = (case caller of
     None \<Rightarrow> (401, []) | Some u \<Rightarrow> (200, GetUserFrequentHosts M now u (query_int ''5'' limit) db))"

definition GetStats :: "sql_match \<Rightarrow> time \<Rightarrow> string \<Rightarrow> string \<Rightarrow> hdb \<Rightarrow> tdb \<Rightarrow> DashboardStats" where
  "GetStats M now userID role db trail =
     (let stats = (if role = ''admin'' then GetDashboardStats db else GetUserDashboardStats M now userID db) in
      stats\<lparr>dt_RecentLogins := GetRecentLoginsCount now 24 userID trail\<rparr>)"

definition dashboard_GetRecentLogins :: "string option \<Rightarrow> string \<Rightarrow> tdb \<Rightarrow> LoginRecord list" where
  "dashboard_GetRecentLogins limit userID trail = GetRecentLogins (query_int ''10'' limit) userID trail"

section \<open>Properties\<close>

subsection \<open>Credentials\<close>

datatype system_user_request =
    SUCreate string "string option" "SystemUser option" | SUUpdate string "SystemUser option" | SUDelete string

primrec serve_system_user :: "system_user_request \<Rightarrow> pdb \<Rightarrow> pdb" where
  "serve_system_user (SUCreate i caller body) db = snd (CreateSystemUser i caller body db)"
| "serve_system_user (SUUpdate i body) db = snd (UpdateSystemUser i body db)"
| "serve_system_user (SUDelete i) db = snd (DeleteSystemUser i db)"

lemma merge_su_credentials:
  "valid_credentials su \<Longrightarrow> valid_credentials (merge_su su old)"
  by (auto simp: valid_credentials_def merge_su_def or_default_def)

lemma system_user_guards:
  "CreateSystemUser newID caller (Some su) db =
     (if valid_credentials su then (case SystemUser_Create
          (su\<lparr>su_ID := newID, su_CreatedBy := (case caller of None \<Rightarrow> su_CreatedBy su | Some u \<Rightarrow> u)\<rparr>) db of
        Inl _ \<Rightarrow> (500, db) | Inr db1 \<Rightarrow> (200, db1)) else (400, db))"
  "UpdateSystemUser i (Some su) db =
     (if valid_credentials su then (200, SystemUser_Update (su\<lparr>su_ID := i\<rparr>) db) else (400, db))"
  by (auto simp: CreateSystemUser_def UpdateSystemUser_def valid_credentials_def)

lemma serve_system_user_credentials:
  assumes "\<forall>su \<in> set (system_users db). valid_credentials su"
  shows "\<forall>su \<in> set (system_users (serve_system_user r db)). valid_credentials su"
proof (cases r)
  case (SUCreate i caller body)
  show ?thesis
  proof (cases body)
    case (Some su)
    then show ?thesis using assms SUCreate
      by (auto simp: system_user_guards SystemUser_Create_def valid_credentials_def or_default_def)
  qed (use assms SUCreate in \<open>simp add: CreateSystemUser_def\<close>)
next
  case (SUUpdate i body)
  show ?thesis
  proof (cases body)
    case (Some su)
    have "valid_credentials (merge_su (su\<lparr>su_ID := i\<rparr>) old)" if "valid_credentials su" for old
      using that by (intro merge_su_credentials) (simp add: valid_credentials_def)
    then show ?thesis using assms SUUpdate Some by (auto simp: system_user_guards SystemUser_Update_def set_update_where)
  qed (use assms SUUpdate in \<open>simp add: UpdateSystemUser_def\<close>)
next
  case (SUDelete i)
  then show ?thesis using assms
    by (auto simp: DeleteSystemUser_def SystemUser_Delete_def delete_rules_def Let_def set_delete_where)
qed

text \<open>Requests never leave a system user without the secret of its authentication type, so a connection as one of them
  never ends for an unsupported type.\<close>

theorem system_users_can_authenticate:
  assumes "\<forall>su \<in> set (system_users db). valid_credentials su" "su \<in> set (system_users (fold serve_system_user rs db))"
  shows "valid_credentials su \<and> connect_auth parse_key dial su \<noteq> Some (UnsupportedAuth a)"
proof -
  have "\<forall>su \<in> set (system_users (fold serve_system_user rs db)). valid_credentials su"
    using assms(1)
  proof (induction rs arbitrary: db)
    case (Cons r rs)
    from Cons.IH[OF serve_system_user_credentials[OF Cons.prems]] show ?case by simp
  qed simp
  then have "valid_credentials su" using assms(2) by blast
  then show ?thesis by (auto simp: connect_auth_def valid_credentials_def split: option.splits)
qed

text \<open>The list of system users hands the secret of each of them to every caller, also to one whom no rule lets use it
  on any host.\<close>

theorem secrets_listed_for_everybody:
  assumes "distinct (map su_ID (system_users db))" "su \<in> set (system_users db)" "\<forall>h. \<not> CheckUserHasPermission now u h (su_ID su) db"
  shows "su \<in> set (ListSystemUsers [] db) \<and> GetSystemUser (su_ID su) db = (200, Some su)"
proof -
  obtain s where s: "First su_ID (\<lambda>s. su_ID s = su_ID su) (system_users db) = Some s"
    using assms(2) First_None[of su_ID "\<lambda>s. su_ID s = su_ID su" "system_users db"] by (cases "First su_ID (\<lambda>s. su_ID s = su_ID su) (system_users db)") auto
  then have "s = su" using First_SomeD[OF s] assms(1,2) by (auto simp: distinct_map inj_on_def)
  then show ?thesis using assms(2) s by (simp add: ListSystemUsers_def SystemUser_FindAll_def GetSystemUser_def SystemUser_FindByID_def)
qed

subsection \<open>Blacklist\<close>

datatype blacklist_request = RuleCreate time string "BlacklistRule option" | RuleUpdate string "rule_body option" | RuleDelete string

primrec serve_blacklist :: "blacklist_request \<Rightarrow> rule_row list \<Rightarrow> rule_row list" where
  "serve_blacklist (RuleCreate now i body) t = snd (CreateCommand now i body t)"
| "serve_blacklist (RuleUpdate i body) t = snd (UpdateCommand i body t)"
| "serve_blacklist (RuleDelete i) t = snd (DeleteCommand i t)"

definition all_enabled :: "rule_row list \<Rightarrow> bool" where
  "all_enabled t \<longleftrightarrow> (\<forall>r \<in> set t. rule_Enabled (fst r)) \<and> distinct (map (rule_ID \<circ> fst) t)"

lemma all_enabled_step: "all_enabled t \<Longrightarrow> all_enabled (serve_blacklist r t)"
proof (cases r)
  case (RuleDelete i)
  assume "all_enabled t"
  then show ?thesis using RuleDelete by (auto simp: DeleteCommand_def all_enabled_def set_delete_where delete_where_keys_distinct)
qed (auto simp: all_enabled_def CreateCommand_def UpdateCommand_def Let_def set_update_where merge_command_def split: option.splits prod.splits)

text \<open>No request disables a blacklist rule: however rules are created, changed and deleted, all of them are in force, so a
  manager that reads the table blocks every command that one of the rules matches.\<close>

theorem blacklist_rules_never_disabled:
  assumes "all_enabled t" "t' = fold serve_blacklist rs t"
  shows "GetActiveCommands t' = map fst t' \<and>
    (\<forall>r \<in> set (map fst t'). rule_Scope r = ''global'' \<and> TrimSpace command \<noteq> [] \<and>
       matchCommand (ToLower (TrimSpace command)) (ToLower (rule_Pattern r)) \<longrightarrow>
       IsBlocked (NewManagerFromDB (Some (Inr (map fst t')))) command username)"
proof -
  have "all_enabled t'" using assms by (induction rs arbitrary: t) (simp_all add: all_enabled_step)
  then have en: "\<forall>r \<in> set (map fst t'). rule_Enabled r" by (auto simp: all_enabled_def)
  then show ?thesis
    by (auto simp: GetActiveCommands_def IsBlocked_iff NewManagerFromDB_def refreshFromDB_def classify_rules rule_matches_def empty_manager_def)
qed

subsection \<open>Dashboard\<close>

text \<open>The dashboard of an ordinary user counts only hosts that the permissions give them, and its numbers fit.\<close>

theorem dashboard_counts:
  assumes "distinct (map ho_ID (hd_hosts db))" "role \<noteq> ''admin''"
  shows "dt_OnlineHosts (GetStats M now u role db trail) + dt_OfflineHosts (GetStats M now u role db trail)
      \<le> dt_TotalHosts (GetStats M now u role db trail) \<and>
    dt_TotalHosts (GetStats M now u role db trail) =
      card {h \<in> set (hd_hosts db). ho_ID h \<in> set (GetAccessibleHostIDsForUser M now u (hd_perms db))}"
proof -
  have d: "distinct (hd_hosts db)" using assms(1) by (simp add: distinct_map)
  have le: "length (filter (\<lambda>h. P h \<and> ho_Status h = ''online'') t) + length (filter (\<lambda>h. P h \<and> ho_Status h = ''offline'') t) \<le> length (filter P t)"
    for P and t :: "Host list" by (induction t) auto
  have c: "length (filter (\<lambda>h. ho_ID h \<in> S) (hd_hosts db)) = card {h \<in> set (hd_hosts db). ho_ID h \<in> S}" for S
    using distinct_card[of "filter (\<lambda>h. ho_ID h \<in> S) (hd_hosts db)"] d by simp
  show ?thesis using assms(2) le[of "\<lambda>h. ho_ID h \<in> set (GetAccessibleHostIDsForUser M now u (hd_perms db))" "hd_hosts db"] c
    by (auto simp: GetStats_def GetUserDashboardStats_def CountByStatusForUser_def CountByStatus_def stats_of_def Let_def)
qed

subsection \<open>An instance\<close>

theorem system_users_can_authenticate_witness:
  "(\<forall>su \<in> set (system_users sample_pdb). valid_credentials su) \<and>
   (let su = sample_su\<lparr>su_AuthType := ''key'', su_PrivateKey := ''k''\<rparr> in
    valid_credentials su \<and> connect_auth (\<lambda>_ _. None) (\<lambda>_. None) su \<noteq> Some (UnsupportedAuth ''key''))"
proof -
  let ?rs = "[SUUpdate ''s1'' (Some (sample_su\<lparr>su_AuthType := ''key'', su_PrivateKey := ''k''\<rparr>))]"
  have ok: "\<forall>su \<in> set (system_users sample_pdb). valid_credentials su" by code_simp
  have "sample_su\<lparr>su_AuthType := ''key'', su_PrivateKey := ''k''\<rparr> \<in> set (system_users (fold serve_system_user ?rs sample_pdb))"
    by code_simp
  from system_users_can_authenticate[OF ok this] ok show ?thesis by simp
qed

theorem secrets_listed_for_everybody_witness:
  "su_Password sample_su = ''x'' \<and> (\<forall>h. \<not> CheckUserHasPermission 0 ''u9'' h ''s1'' sample_granted) \<and>
   sample_su \<in> set (ListSystemUsers [] sample_granted) \<and> GetSystemUser ''s1'' sample_granted = (200, Some sample_su)"
proof -
  have su: "distinct (map su_ID (system_users sample_granted))" "sample_su \<in> set (system_users sample_granted)"
    "su_ID sample_su = ''s1''" "su_Password sample_su = ''x''" by code_simp+
  have no: "\<forall>h. \<not> CheckUserHasPermission 0 ''u9'' h (su_ID sample_su) sample_granted"
    by (simp add: CheckUserHasPermission_iff rule_applies_def user_in_rule_def sample_granted_def sample_pdb_def)
  from secrets_listed_for_everybody[OF su(1,2) no] no su(3,4) show ?thesis by simp
qed

theorem blacklist_rules_never_disabled_witness:
  "IsBlocked (NewManagerFromDB (Some (Inr (map fst (fold serve_blacklist
     [RuleCreate 1 ''r'' (Some (default_rule [] ''vi'' ''vi'' [])),
      RuleUpdate ''r'' (Some \<lparr>rb_Rule = (default_rule [] ''vi'' ''vi'' [])\<lparr>rule_ID := [], rule_Enabled := False\<rparr>, rb_Users = None,
        rb_CreatedAt = zero_time\<rparr>)] []))))) ''vi x'' ''bob''"
proof -
  let ?rs = "[RuleCreate 1 ''r'' (Some (default_rule [] ''vi'' ''vi'' [])),
      RuleUpdate ''r'' (Some \<lparr>rb_Rule = (default_rule [] ''vi'' ''vi'' [])\<lparr>rule_ID := [], rule_Enabled := False\<rparr>, rb_Users = None,
        rb_CreatedAt = zero_time\<rparr>)]"
  have ok: "all_enabled []" by (simp add: all_enabled_def)
  have "\<exists>r \<in> set (map fst (fold serve_blacklist ?rs [])). rule_Scope r = ''global'' \<and> TrimSpace ''vi x'' \<noteq> [] \<and>
      matchCommand (ToLower (TrimSpace ''vi x'')) (ToLower (rule_Pattern r))" by code_simp
  then show ?thesis using blacklist_rules_never_disabled[OF ok refl, of ?rs "''vi x''" "''bob''"] by blast
qed

theorem dashboard_counts_witness:
  "distinct (map ho_ID (hd_hosts host_table)) \<and>
   dt_TotalHosts (GetStats no_like 5 ''u1'' ''user'' host_table \<lparr>login_records = [], session_recordings = [], command_histories = []\<rparr>) =
     card {h \<in> set (hd_hosts host_table). ho_ID h \<in> set (GetAccessibleHostIDsForUser no_like 5 ''u1'' (hd_perms host_table))}"
proof -
  have d: "distinct (map ho_ID (hd_hosts host_table))" by code_simp
  show ?thesis using dashboard_counts[OF d, of "''user''" no_like 5 "''u1''" "\<lparr>login_records = [], session_recordings = [], command_histories = []\<rparr>"] d by simp
qed

end
