(* ===== verification/Ssh_Client.thy ===== *)
theory Ssh_Client
imports Hosts
begin

text \<open>
  The SSH client of the API server: \<open>pkg/sshclient/client.go\<close>.  It turns the credentials of a
  system user into the methods it offers to a host.  The parser of private keys and the dialer of
  \<open>golang.org/x/crypto/ssh\<close> are arguments (\<open>ssh_lib\<close>); errors are texts.
\<close>

record SSHConfig =
  cf_Host :: string
  cf_Port :: int
  cf_Username :: string
  cf_Password :: string
  cf_PrivateKey :: string
  cf_Passphrase :: string
  cf_AuthType :: string

datatype auth_method = PublicKeys string | PasswordAuth string

text \<open>Parsing a key takes its passphrase, if there is one; dialling takes the address, the user and the methods.\<close>

record ssh_lib =
  parse_key :: "string \<Rightarrow> string option \<Rightarrow> string option"
  ssh_dial :: "string \<Rightarrow> string \<Rightarrow> auth_method list \<Rightarrow> string option"
  ssh_session :: "string option"

definition key_method :: "ssh_lib \<Rightarrow> SSHConfig \<Rightarrow> string + auth_method list" where
  "key_method S cfg = (case parse_key S (cf_PrivateKey cfg) (if cf_Passphrase cfg \<noteq> [] then Some (cf_Passphrase cfg) else None) of
     Some e \<Rightarrow> Inl (''failed to parse private key: '' @ e) | None \<Rightarrow> Inr [PublicKeys (cf_PrivateKey cfg)])"

definition client_auth_methods :: "ssh_lib \<Rightarrow> SSHConfig \<Rightarrow> string + auth_method list" where
  "client_auth_methods S cfg =
     (if cf_AuthType cfg = ''key'' then
        (if cf_PrivateKey cfg = [] then Inl ''private key is required for key authentication'' else key_method S cfg)
      else if cf_AuthType cfg = ''password'' then
        (if cf_Password cfg = [] then Inl ''password is required for password authentication'' else Inr [PasswordAuth (cf_Password cfg)])
      else if cf_PrivateKey cfg \<noteq> [] then key_method S cfg
      else if cf_Password cfg \<noteq> [] then Inr [PasswordAuth (cf_Password cfg)]
      else Inr [])"

definition NewSSHClient :: "ssh_lib \<Rightarrow> SSHConfig \<Rightarrow> string option" where
  "NewSSHClient S cfg = (case client_auth_methods S cfg of
     Inl e \<Rightarrow> Some e
   | Inr [] \<Rightarrow> Some ''no authentication method provided''
   | Inr ms \<Rightarrow> map_option (\<lambda>e. ''failed to dial: '' @ e) (ssh_dial S (cf_Host cfg @ '':'' @ print_int (cf_Port cfg)) (cf_Username cfg) ms))"

definition client_NewSession :: "ssh_lib \<Rightarrow> string option" where
  "client_NewSession S = map_option (\<lambda>e. ''failed to create session: '' @ e) (ssh_session S)"

definition target_config :: "Host \<Rightarrow> SystemUser \<Rightarrow> SSHConfig" where
  "target_config host su = \<lparr>cf_Host = ho_IP host, cf_Port = ho_Port host, cf_Username = su_Username su, cf_Password = su_Password su,
     cf_PrivateKey = su_PrivateKey su, cf_Passphrase = su_Passphrase su, cf_AuthType = su_AuthType su\<rparr>"

text \<open>A client that connects has offered exactly one secret, that of the declared type, under the name and at the
  address of the configuration.\<close>

lemma NewSSHClient_offers:
  assumes "NewSSHClient S cfg = None"
  shows "\<exists>m. ssh_dial S (cf_Host cfg @ '':'' @ print_int (cf_Port cfg)) (cf_Username cfg) [m] = None \<and>
    (m = PublicKeys (cf_PrivateKey cfg) \<and> cf_AuthType cfg \<noteq> ''password'' \<and> cf_PrivateKey cfg \<noteq> [] \<or>
     m = PasswordAuth (cf_Password cfg) \<and> cf_AuthType cfg \<noteq> ''key'' \<and> cf_Password cfg \<noteq> [])"
  using assms by (auto simp: NewSSHClient_def client_auth_methods_def key_method_def split: option.splits if_splits sum.splits)

end
