(* ===== verification/Go_Path.thy ===== *)
theory Go_Path
imports Go_Strings
begin

text \<open>
  What the code uses of Go's package \<open>path\<close> (slash-separated paths): \<open>Clean\<close>, \<open>Base\<close>, \<open>Dir\<close> and
  \<open>Join\<close> of two elements, with the laws of normal paths: a slash and proper components.
\<close>

section \<open>Definitions\<close>

abbreviation slash :: char where "slash \<equiv> CHR ''/''"

text \<open>The elements kept so far are held in reverse; \<open>..\<close> takes one back where there is one to take.\<close>

fun clean_parts :: "bool \<Rightarrow> string list \<Rightarrow> string list \<Rightarrow> string list" where
  "clean_parts rooted acc [] = rev acc"
| "clean_parts rooted acc (p # ps) =
     (if p = [] \<or> p = ''.'' then clean_parts rooted acc ps
      else if p = ''..'' then
        (if acc \<noteq> [] \<and> hd acc \<noteq> ''..'' then clean_parts rooted (tl acc) ps
         else if rooted then clean_parts rooted acc ps else clean_parts rooted (p # acc) ps)
      else clean_parts rooted (p # acc) ps)"

definition path_Clean :: "string \<Rightarrow> string" where
  "path_Clean p =
     (if p = [] then ''.''
      else let rooted = (hd p = slash); q = Join (clean_parts rooted [] (SplitChar slash p)) ''/''
           in if rooted then slash # q else if q = [] then ''.'' else q)"

definition path_Base :: "string \<Rightarrow> string" where
  "path_Base p =
     (if p = [] then ''.''
      else let b = last (SplitChar slash (rev (dropWhile (\<lambda>c. c = slash) (rev p)))) in if b = [] then ''/'' else b)"

definition path_Dir :: "string \<Rightarrow> string" where
  "path_Dir p = path_Clean (rev (dropWhile (\<lambda>c. c \<noteq> slash) (rev p)))"

definition path_Join :: "string \<Rightarrow> string \<Rightarrow> string" where
  "path_Join a b = (if a = [] \<and> b = [] then [] else path_Clean (Join (filter (\<lambda>s. s \<noteq> []) [a, b]) ''/''))"

section \<open>Normal paths\<close>

definition proper :: "string \<Rightarrow> bool" where
  "proper c \<longleftrightarrow> c \<noteq> [] \<and> c \<noteq> ''.'' \<and> c \<noteq> ''..'' \<and> slash \<notin> set c"

definition rooted_path :: "string list \<Rightarrow> string" where "rooted_path cs = slash # Join cs ''/''"

lemma clean_parts_proper:
  assumes "list_all proper acc" "\<forall>p \<in> set ps. slash \<notin> set p"
  shows "list_all proper (clean_parts True acc ps)"
  using assms
proof (induction "True" acc ps rule: clean_parts.induct)
  case (2 acc p ps)
  have "list_all proper (tl acc)" using 2 by (cases acc) auto
  then show ?case using 2 by (auto simp: proper_def)
qed (simp add: list_all_iff)

lemma clean_parts_id: "list_all proper ps \<Longrightarrow> clean_parts r acc ps = rev acc @ ps"
  by (induction ps arbitrary: acc) (auto simp: proper_def)

lemma split_no_slash: "p \<in> set (SplitChar slash s) \<Longrightarrow> slash \<notin> set p"
  using split_by_words by (fastforce simp: SplitChar_def)

lemma path_Clean_rooted:
  "\<exists>cs. list_all proper cs \<and> path_Clean (slash # s) = rooted_path cs"
proof -
  have "list_all proper (clean_parts True [] (SplitChar slash (slash # s)))"
    by (rule clean_parts_proper) (auto dest: split_no_slash)
  then show ?thesis by (auto simp: path_Clean_def Let_def rooted_path_def)
qed

lemma split_rooted: "list_all proper cs \<Longrightarrow> SplitChar slash (rooted_path cs) = [] # (if cs = [] then [[]] else cs)"
proof (cases "cs = []")
  case False
  assume "list_all proper cs"
  then have "SplitChar slash (Join cs [slash]) = cs" using False by (intro split_by_Join) (auto simp: list_all_iff proper_def)
  then show ?thesis using False by (simp add: rooted_path_def SplitChar_def)
qed (simp add: rooted_path_def SplitChar_def)

lemma path_Clean_normal: "list_all proper cs \<Longrightarrow> path_Clean (rooted_path cs) = rooted_path cs"
proof -
  assume "list_all proper cs"
  moreover have "clean_parts True [] ([] # (if cs = [] then [[]] else cs)) = clean_parts True [] cs" by simp
  ultimately show ?thesis using split_rooted[of cs] clean_parts_id[of cs True "[]"]
    by (simp add: path_Clean_def Let_def) (simp add: rooted_path_def)
qed

lemma Join_snoc: "Join (cs @ [c]) [d] = (if cs = [] then c else Join cs [d] @ d # c)"
proof (induction cs)
  case (Cons a cs)
  then show ?case by (cases cs) auto
qed simp

lemma rooted_snoc: "rooted_path (cs @ [c]) = (if cs = [] then [slash] else rooted_path cs @ [slash]) @ c"
  by (simp add: rooted_path_def Join_snoc)

lemma path_Base_normal:
  assumes "list_all proper cs" "proper c"
  shows "path_Base (rooted_path (cs @ [c])) = c"
proof -
  have c: "c \<noteq> []" "slash \<notin> set c" using assms(2) by (simp_all add: proper_def)
  have l: "last c \<noteq> slash" using last_in_set[OF c(1)] c(2) by metis
  with c have "rev (dropWhile (\<lambda>x. x = slash) (rev (rooted_path (cs @ [c])))) = rooted_path (cs @ [c])"
    by (cases "rev c") (auto simp: rooted_snoc hd_rev[symmetric])
  then show ?thesis using assms c split_rooted[of "cs @ [c]"] by (simp add: path_Base_def Let_def rooted_path_def)
qed

lemma path_Dir_normal:
  assumes "list_all proper cs" "proper c"
  shows "path_Dir (rooted_path (cs @ [c])) = rooted_path cs"
proof -
  have c: "\<forall>x \<in> set (rev c). x \<noteq> slash" using assms(2) by (auto simp: proper_def)
  have "rev (dropWhile (\<lambda>x. x \<noteq> slash) (rev (rooted_path (cs @ [c])))) = (if cs = [] then [slash] else rooted_path cs @ [slash])"
    using c dropWhile_append2[of "rev c" "\<lambda>x. x \<noteq> slash"] by (auto simp: rooted_snoc)
  moreover have "path_Clean [slash] = rooted_path []" by (simp add: path_Clean_def SplitChar_def rooted_path_def)
  moreover have "path_Clean (rooted_path cs @ [slash]) = rooted_path cs" if "cs \<noteq> []"
  proof -
    have "SplitChar slash (rooted_path cs @ [slash]) = [] # cs @ [[]]"
      using split_by_append_sep[of "\<lambda>c. c = slash" slash "rooted_path cs" "[]"] split_rooted[OF assms(1)] that by (simp add: SplitChar_def)
    moreover have "clean_parts True acc (cs @ [[]]) = rev acc @ cs" for acc
      using assms(1) by (induction cs arbitrary: acc) (auto simp: proper_def)
    ultimately show ?thesis by (simp add: path_Clean_def Let_def rooted_path_def)
  qed
  ultimately show ?thesis by (auto simp: path_Dir_def)
qed

lemma path_Join_normal:
  assumes "list_all proper cs" "proper c"
  shows "path_Join (rooted_path cs) c = rooted_path (cs @ [c])"
proof -
  have ne: "rooted_path cs \<noteq> []" "c \<noteq> []" using assms(2) by (auto simp: rooted_path_def proper_def)
  then have j: "path_Join (rooted_path cs) c = path_Clean (rooted_path cs @ slash # c)" by (simp add: path_Join_def)
  show ?thesis
  proof (cases "cs = []")
    case True
    have "clean_parts True [] ([] # [] # [c]) = [c]" using assms(2) by (simp add: proper_def)
    moreover have "SplitChar slash (slash # slash # c) = [] # [] # [c]" using assms(2)
      by (simp add: SplitChar_def) (rule split_by_single, auto simp: proper_def)
    ultimately show ?thesis using True j by (simp add: path_Clean_def Let_def rooted_path_def)
  next
    case False
    then have "rooted_path cs @ slash # c = rooted_path (cs @ [c])" by (simp add: rooted_snoc)
    then show ?thesis using j path_Clean_normal[of "cs @ [c]"] assms by simp
  qed
qed

end
