(* ===== verification/File_Transfer.thy ===== *)
theory File_Transfer
imports Ssh_Client Go_Path
begin

text \<open>
  File transfer to and from hosts: \<open>internal/api/handler/file_handler.go\<close> over
  \<open>internal/model/file_transfer.go\<close>.  A request is authorised, its path is put into a shell command
  that runs on the host as the system user, and the transfer is recorded.  The SSH client is
  that of \<open>Ssh_Client\<close>; what the commands answer is an argument (\<open>remote\<close>).  \<open>sh_command\<close> reads a
  command as a POSIX shell does, to state what the host is asked to run.
\<close>

section \<open>State\<close>

record FileTransfer =
  ft_ID :: string
  ft_SessionID :: string
  ft_UserID :: string
  ft_Username :: string
  ft_HostID :: string
  ft_HostIP :: string
  ft_HostName :: string
  ft_Direction :: string
  ft_LocalPath :: string
  ft_RemotePath :: string
  ft_FileName :: string
  ft_FileSize :: int
  ft_Status :: string
  ft_Progress :: int
  ft_ErrorMessage :: string
  ft_TransferredAt :: time
  ft_CompletedAt :: "time option"
  ft_Duration :: int

record fdb =
  fd_perms :: pdb
  fd_hosts :: "Host list"
  fd_transfers :: "FileTransfer list"

definition insert_transfer :: "FileTransfer \<Rightarrow> fdb \<Rightarrow> fdb" where
  "insert_transfer f db =
     (if ft_ID f \<in> ft_ID ` set (fd_transfers db) then db else db\<lparr>fd_transfers := fd_transfers db @ [f]\<rparr>)"

definition set_transfer :: "string \<Rightarrow> (FileTransfer \<Rightarrow> FileTransfer) \<Rightarrow> fdb \<Rightarrow> fdb" where
  "set_transfer i f db = db\<lparr>fd_transfers := update_where (\<lambda>x. ft_ID x = i) f (fd_transfers db)\<rparr>"

section \<open>Paths and commands\<close>

definition normalizeRemotePath :: "string \<Rightarrow> string" where
  "normalizeRemotePath p =
     (if TrimSpace p = [] then ''/''
      else let q = path_Clean (if HasPrefix p ''/'' then p else ''/'' @ p) in if q = ''.'' then ''/'' else q)"

definition joinRemotePath :: "string \<Rightarrow> string \<Rightarrow> string" where
  "joinRemotePath basePath name = (if basePath = ''/'' then ''/'' @ name else path_Join basePath name)"

abbreviation squote :: char where "squote \<equiv> CHR 0x27"

abbreviation dquote :: char where "dquote \<equiv> CHR 0x22"

abbreviation newline :: char where "newline \<equiv> CHR 0x0A"

definition shellQuote :: "string \<Rightarrow> string" where
  "shellQuote s = squote # concat (map (\<lambda>c. if c = squote then [squote, dquote, squote, dquote, squote] else [c]) s) @ [squote]"

definition in_dquotes :: "string \<Rightarrow> string" where "in_dquotes s = dquote # s @ [dquote]"

definition list_rest :: string where
  "list_rest = ''if [ ! -d '' @ in_dquotes ''$TARGET'' @ '' ]; then'' @ [newline] @
     ''  echo '' @ in_dquotes ''directory not found: $TARGET'' @ '' >&2'' @ [newline] @ ''  exit 1'' @ [newline] @ ''fi'' @ [newline] @
     ''LC_ALL=C find '' @ in_dquotes ''$TARGET'' @ '' -mindepth 1 -maxdepth 1 -printf '' @ [squote] @
     concat (map (\<lambda>f. f @ [CHR 0x5C, CHR ''0'']) [''%f'', ''%y'', ''%s'', ''%M'', ''%TY-%Tm-%Td %TH:%TM:%TS'']) @ [squote, newline]"

definition file_guard :: string where
  "file_guard = ''if [ ! -f '' @ in_dquotes ''$TARGET'' @ '' ]; then'' @ [newline] @
     ''  echo '' @ in_dquotes ''file not found: $TARGET'' @ '' >&2'' @ [newline] @ ''  exit 1'' @ [newline] @ ''fi'' @ [newline]"

definition download_rest :: string where "download_rest = file_guard @ ''cat '' @ in_dquotes ''$TARGET'' @ [newline]"

definition size_rest :: string where "size_rest = file_guard @ ''wc -c < '' @ in_dquotes ''$TARGET'' @ [newline]"

definition upload_rest :: string where
  "upload_rest = ''mkdir -p '' @ in_dquotes ''$TARGET_DIR'' @ '' && cat > '' @ in_dquotes ''$TARGET_FILE'' @ [newline]"

definition target_script :: "string \<Rightarrow> string \<Rightarrow> string" where
  "target_script p rest = ''TARGET='' @ shellQuote p @ [newline] @ rest"

definition sh_c :: "string \<Rightarrow> string" where "sh_c script = ''sh -c '' @ shellQuote script"

definition buildListFilesCommand :: "string \<Rightarrow> string" where "buildListFilesCommand p = sh_c (target_script p list_rest)"

definition buildDownloadFileCommand :: "string \<Rightarrow> string" where "buildDownloadFileCommand p = sh_c (target_script p download_rest)"

definition buildRemoteFileSizeCommand :: "string \<Rightarrow> string" where "buildRemoteFileSizeCommand p = sh_c (target_script p size_rest)"

definition buildUploadFileCommand :: "string \<Rightarrow> string" where
  "buildUploadFileCommand p = sh_c (''TARGET_FILE='' @ shellQuote p @ [newline] @ ''TARGET_DIR='' @ shellQuote (path_Dir p) @ [newline] @ upload_rest)"

section \<open>Listings\<close>

record RemoteFileInfo =
  rf_Name :: string
  rf_Path :: string
  rf_Size :: int
  rf_IsDir :: bool
  rf_Mode :: string
  rf_ModTime :: string

text \<open>A size that cannot be parsed is zero.\<close>

definition file_info :: "string \<Rightarrow> string list \<Rightarrow> RemoteFileInfo" where
  "file_info currentPath fs = \<lparr>rf_Name = fs ! 0, rf_Path = joinRemotePath currentPath (fs ! 0),
     rf_Size = (case Atoi (fs ! 2) of (n, ok) \<Rightarrow> if ok then n else 0), rf_IsDir = (fs ! 1 = ''d''), rf_Mode = fs ! 3,
     rf_ModTime = TrimSpace (fs ! 4)\<rparr>"

fun file_infos :: "string \<Rightarrow> string list \<Rightarrow> RemoteFileInfo list" where
  "file_infos currentPath (a # b # c # d # e # fs) = file_info currentPath [a, b, c, d, e] # file_infos currentPath fs"
| "file_infos currentPath fs = []"

definition parseRemoteFileList :: "string \<Rightarrow> string \<Rightarrow> RemoteFileInfo list option" where
  "parseRemoteFileList output currentPath =
     (if output = [] then Some []
      else let parts = SplitChar (CHR 0x00) output; parts = (if last parts = [] then butlast parts else parts)
           in if length parts mod 5 \<noteq> 0 then None else Some (file_infos currentPath parts))"

definition parent_entry :: "string \<Rightarrow> RemoteFileInfo" where
  "parent_entry p = \<lparr>rf_Name = ''..'', rf_Path = (if path_Dir p = ''.'' then ''/'' else path_Dir p), rf_Size = 0, rf_IsDir = True,
     rf_Mode = ''drwxr-xr-x'', rf_ModTime = []\<rparr>"

text \<open>The parent first, then directories, then by name; Go's sort leaves the order of equal names open.\<close>

definition sort_files :: "RemoteFileInfo list \<Rightarrow> RemoteFileInfo list" where
  "sort_files fs = sort_key (\<lambda>f. if rf_Name f = ''..'' then 0 else 1 :: nat)
     (sort_key (\<lambda>f. if rf_IsDir f then 0 else 1 :: nat) (sort_key (\<lambda>f. ToLower (rf_Name f)) fs))"

section \<open>The SSH client\<close>

text \<open>What the client answers in one request: errors are texts.  A command run to its end gives its
  output, with the error if there is one; a stream gives its chunks and how it ended.\<close>

record remote =
  x_ssh :: ssh_lib
  x_pipe :: "string option"
  x_start :: "string \<Rightarrow> string option"
  x_combined :: "string \<Rightarrow> string \<times> string option"
  x_copied :: "int \<times> string option"
  x_closed :: "string option"
  x_waited :: "string option"
  x_stderr :: string
  x_chunks :: "string list"
  x_ended :: "string option"
  x_write :: "nat \<Rightarrow> string option"

definition remote_session :: "remote \<Rightarrow> Host \<Rightarrow> SystemUser \<Rightarrow> string option" where
  "remote_session X host su = (case NewSSHClient (x_ssh X) (target_config host su) of
     Some e \<Rightarrow> Some (''failed to connect via SSH: '' @ e)
   | None \<Rightarrow> map_option (\<lambda>e. ''failed to create SSH session: '' @ e) (client_NewSession (x_ssh X)))"

definition wait_error :: "string \<Rightarrow> remote \<Rightarrow> string \<Rightarrow> string" where
  "wait_error what X e = what @ '': '' @ e @ (if TrimSpace (x_stderr X) \<noteq> [] then '': '' @ TrimSpace (x_stderr X) else [])"

text \<open>The error and the progress reported.\<close>

definition uploadFile :: "remote \<Rightarrow> Host \<Rightarrow> SystemUser \<Rightarrow> string \<Rightarrow> int \<Rightarrow> string option \<times> int list" where
  "uploadFile X host su remotePath fileSize = (case remote_session X host su of
     Some e \<Rightarrow> (Some e, [])
   | None \<Rightarrow> (case x_pipe X of
       Some e \<Rightarrow> (Some (''failed to open SSH stdin: '' @ e), [])
     | None \<Rightarrow> (case x_start X (buildUploadFileCommand remotePath) of
         Some e \<Rightarrow> (Some (''failed to start remote upload command: '' @ e), [])
       | None \<Rightarrow> (case x_copied X of (written, copyErr) \<Rightarrow>
           (case copyErr of
              Some e \<Rightarrow> (Some (''failed to copy upload data: '' @ e), [10])
            | None \<Rightarrow> (case x_closed X of
                Some e \<Rightarrow> (Some (''failed to close upload stream: '' @ e), [10])
              | None \<Rightarrow> (case x_waited X of
                  Some e \<Rightarrow> (Some (wait_error ''remote upload command failed'' X e), [10])
                | None \<Rightarrow>
                    (if fileSize > 0 \<and> written \<noteq> fileSize
                     then (Some (''uploaded size mismatch: wrote '' @ print_int written @ '' bytes, expected '' @ print_int fileSize), [10])
                     else (None, [10, 100])))))))))"

definition listRemoteFiles :: "remote \<Rightarrow> Host \<Rightarrow> SystemUser \<Rightarrow> string \<Rightarrow> string + RemoteFileInfo list" where
  "listRemoteFiles X host su remotePath = (case remote_session X host su of
     Some e \<Rightarrow> Inl e
   | None \<Rightarrow> (case x_combined X (buildListFilesCommand remotePath) of
       (out, Some e) \<Rightarrow> Inl (''remote command failed: '' @ e @ '': '' @ TrimSpace out)
     | (out, None) \<Rightarrow> (case parseRemoteFileList out remotePath of
         None \<Rightarrow> Inl ''unexpected remote file list format''
       | Some fs \<Rightarrow> Inr (sort_files (if remotePath \<noteq> ''/'' then parent_entry remotePath # fs else fs)))))"

definition getRemoteFileSize :: "remote \<Rightarrow> Host \<Rightarrow> SystemUser \<Rightarrow> string \<Rightarrow> string + int" where
  "getRemoteFileSize X host su remotePath = (case remote_session X host su of
     Some e \<Rightarrow> Inl e
   | None \<Rightarrow> (case x_combined X (buildRemoteFileSizeCommand remotePath) of
       (out, Some e) \<Rightarrow> Inl (''remote file stat failed: '' @ e @ '': '' @ TrimSpace out)
     | (out, None) \<Rightarrow> (case Atoi (TrimSpace out) of (n, ok) \<Rightarrow>
         if ok then Inr n else Inl ''failed to parse remote file size'')))"

definition calculateTransferProgress :: "int \<Rightarrow> int \<Rightarrow> int" where
  "calculateTransferProgress transferred total_bytes =
     (if total_bytes \<le> 0 then (if transferred > 0 then 90 else 0)
      else let progress = trunc_div (int64 (transferred * 100)) total_bytes
           in if progress < 0 then 0 else if progress > 100 then 100 else progress)"

text \<open>The loop over the chunks: the error, the bytes written, the progress reported and the last progress.\<close>

fun stream_chunks :: "(nat \<Rightarrow> string option) \<Rightarrow> int \<Rightarrow> nat \<Rightarrow> int \<Rightarrow> int \<Rightarrow> string list \<Rightarrow> string option \<times> string \<times> int list \<times> int" where
  "stream_chunks wr n i written lastProgress [] = (None, [], [], lastProgress)"
| "stream_chunks wr n i written lastProgress (b # bs) =
     (if b = [] then stream_chunks wr n (Suc i) written lastProgress bs
      else (case wr i of
          Some e \<Rightarrow> (Some (''failed to stream download data: '' @ e), [], [], lastProgress)
        | None \<Rightarrow>
            (let written' = int64 (written + int (length b)); p = calculateTransferProgress written' n;
                 lastP = (if p > lastProgress then p else lastProgress)
             in case stream_chunks wr n (Suc i) written' lastP bs of
                  (e, out, ps, lp) \<Rightarrow> (e, b @ out, (if p > lastProgress then p # ps else ps), lp))))"

definition streamDownloadFile :: "remote \<Rightarrow> Host \<Rightarrow> SystemUser \<Rightarrow> string \<Rightarrow> int \<Rightarrow> string option \<times> string \<times> int list" where
  "streamDownloadFile X host su remotePath fileSize = (case remote_session X host su of
     Some e \<Rightarrow> (Some e, [], [])
   | None \<Rightarrow> (case x_pipe X of
       Some e \<Rightarrow> (Some (''failed to open SSH stdout: '' @ e), [], [])
     | None \<Rightarrow> (case x_start X (buildDownloadFileCommand remotePath) of
         Some e \<Rightarrow> (Some (''failed to start remote download command: '' @ e), [], [])
       | None \<Rightarrow> (case stream_chunks (x_write X) fileSize 0 0 (- 1) (x_chunks X) of
           (Some e, out, ps, lp) \<Rightarrow> (Some e, out, ps)
         | (None, out, ps, lp) \<Rightarrow> (case x_ended X of
             Some e \<Rightarrow> (Some (''failed to stream download data: '' @ e), out, ps)
           | None \<Rightarrow> (case x_waited X of
               Some e \<Rightarrow> (Some (wait_error ''remote download command failed'' X e), out, ps)
             | None \<Rightarrow> (None, out, if lp < 100 then ps @ [100] else ps)))))))"

section \<open>Requests\<close>

datatype resolve_error = Unauthorized | InvalidContext | Forbidden | HostNotFound | SystemUserNotFound | UnsupportedProtocol

text \<open>\<open>caller\<close> is the user of the middleware.\<close>

definition resolveAuthorizedTarget :: "time \<Rightarrow> string option \<Rightarrow> string \<Rightarrow> string \<Rightarrow> fdb \<Rightarrow> resolve_error + Host \<times> SystemUser \<times> string" where
  "resolveAuthorizedTarget now caller hostID systemUserID db = (case caller of
     None \<Rightarrow> Inl Unauthorized
   | Some userID \<Rightarrow>
       (if userID = [] then Inl InvalidContext
        else if \<not> CheckUserHasPermission now userID hostID systemUserID (fd_perms db) then Inl Forbidden
        else (case Host_FindByID hostID (fd_hosts db) of
            None \<Rightarrow> Inl HostNotFound
          | Some host \<Rightarrow> (case SystemUser_FindByID systemUserID (fd_perms db) of
              Inl _ \<Rightarrow> Inl SystemUserNotFound
            | Inr su \<Rightarrow> (if su_Protocol su \<noteq> [] \<and> su_Protocol su \<noteq> ''ssh'' then Inl UnsupportedProtocol else Inr (host, su, userID))))))"

fun writeResolveError :: "resolve_error \<Rightarrow> nat" where
  "writeResolveError Unauthorized = 401"
| "writeResolveError InvalidContext = 401"
| "writeResolveError Forbidden = 403"
| "writeResolveError HostNotFound = 404"
| "writeResolveError SystemUserNotFound = 404"
| "writeResolveError UnsupportedProtocol = 400"

definition ListFiles :: "remote \<Rightarrow> time \<Rightarrow> string option \<Rightarrow> string \<Rightarrow> string \<Rightarrow> string \<Rightarrow> fdb \<Rightarrow> nat \<times> RemoteFileInfo list" where
  "ListFiles X now caller hostID systemUserID requestedPath db =
     (if hostID = [] \<or> systemUserID = [] then (400, [])
      else (case resolveAuthorizedTarget now caller hostID systemUserID db of
          Inl e \<Rightarrow> (writeResolveError e, [])
        | Inr (host, su, _) \<Rightarrow> (case listRemoteFiles X host su (normalizeRemotePath requestedPath) of
            Inl _ \<Rightarrow> (500, []) | Inr fs \<Rightarrow> (200, fs))))"

record transfer_ids =
  i_ID :: string
  i_SessionID :: string
  i_Username :: "string option"
  i_start :: time
  i_end :: time

definition new_transfer :: "transfer_ids \<Rightarrow> string \<Rightarrow> Host \<Rightarrow> string \<Rightarrow> string \<Rightarrow> string \<Rightarrow> int \<Rightarrow> string \<Rightarrow> FileTransfer" where
  "new_transfer I userID host direction name remotePath n status =
     \<lparr>ft_ID = i_ID I, ft_SessionID = i_SessionID I, ft_UserID = userID,
      ft_Username = (case i_Username I of None \<Rightarrow> ''unknown'' | Some u \<Rightarrow> or_default ''unknown'' u),
      ft_HostID = ho_ID host, ft_HostIP = ho_IP host, ft_HostName = ho_Name host, ft_Direction = direction, ft_LocalPath = name,
      ft_RemotePath = remotePath, ft_FileName = name, ft_FileSize = n, ft_Status = status, ft_Progress = 0, ft_ErrorMessage = [],
      ft_TransferredAt = i_start I, ft_CompletedAt = None, ft_Duration = 0\<rparr>"

text \<open>What is written of a transfer: its progress, then its end.\<close>

definition finish_transfer :: "transfer_ids \<Rightarrow> string option \<Rightarrow> int list \<Rightarrow> fdb \<Rightarrow> fdb" where
  "finish_transfer I err ps db =
     (let db = fold (\<lambda>p. set_transfer (i_ID I) (\<lambda>f. f\<lparr>ft_Progress := p\<rparr>)) ps db; d = trunc_div (i_end I - i_start I) second in
      set_transfer (i_ID I) (\<lambda>f. case err of
          Some e \<Rightarrow> f\<lparr>ft_Status := ''failed'', ft_ErrorMessage := e, ft_CompletedAt := Some (i_end I), ft_Duration := d\<rparr>
        | None \<Rightarrow> f\<lparr>ft_Status := ''completed'', ft_Progress := 100, ft_CompletedAt := Some (i_end I), ft_Duration := d\<rparr>) db)"

text \<open>A file of the form: its name and its size.\<close>

definition UploadFile :: "remote \<Rightarrow> transfer_ids \<Rightarrow> string option \<Rightarrow> string \<Rightarrow> string \<Rightarrow> string \<Rightarrow> (string \<times> int) option \<Rightarrow> fdb \<Rightarrow> nat \<times> fdb" where
  "UploadFile X I caller hostID systemUserID remotePath file db =
     (if hostID = [] \<or> systemUserID = [] then (400, db)
      else (case file of
          None \<Rightarrow> (400, db)
        | Some (name, n) \<Rightarrow> (case resolveAuthorizedTarget (i_start I) caller hostID systemUserID db of
            Inl e \<Rightarrow> (writeResolveError e, db)
          | Inr (host, su, userID) \<Rightarrow>
              (let full = joinRemotePath (normalizeRemotePath (or_default ''/tmp'' remotePath)) (path_Base name);
                   db = insert_transfer (new_transfer I userID host ''upload'' name full n ''uploading'') db
               in case uploadFile X host su full n of
                    (err, ps) \<Rightarrow> (if err = None then 200 else 500, finish_transfer I err ps db)))))"

text \<open>The bytes that reach the client of a download; a failure after the first of them no longer changes the answer.\<close>

definition DownloadFile :: "remote \<Rightarrow> remote \<Rightarrow> transfer_ids \<Rightarrow> string option \<Rightarrow> string \<Rightarrow> string \<Rightarrow> string \<Rightarrow> fdb \<Rightarrow> (nat \<times> string) \<times> fdb" where
  "DownloadFile X1 X2 I caller hostID systemUserID remotePath db =
     (if hostID = [] \<or> systemUserID = [] \<or> remotePath = [] then ((400, []), db)
      else (case resolveAuthorizedTarget (i_start I) caller hostID systemUserID db of
          Inl e \<Rightarrow> ((writeResolveError e, []), db)
        | Inr (host, su, userID) \<Rightarrow>
            (let cleanPath = normalizeRemotePath remotePath in
             case getRemoteFileSize X1 host su cleanPath of
               Inl _ \<Rightarrow> ((500, []), db)
             | Inr n \<Rightarrow>
                 (let name = path_Base cleanPath; name = (if name = ''/'' \<or> name = ''.'' \<or> name = [] then ''download.bin'' else name);
                      db = insert_transfer (new_transfer I userID host ''download'' name cleanPath n ''downloading'') db
                  in case streamDownloadFile X2 host su cleanPath n of
                       (err, out, ps) \<Rightarrow> ((if err \<noteq> None \<and> out = [] then 500 else 200, out), finish_transfer I err ps db)))))"

definition GetFileTransfers :: "string \<Rightarrow> string \<Rightarrow> string \<Rightarrow> fdb \<Rightarrow> FileTransfer list" where
  "GetFileTransfers hostID userID direction db = sort_key (\<lambda>f. - ft_TransferredAt f)
     (filter (\<lambda>f. (hostID = [] \<or> ft_HostID f = hostID) \<and> (userID = [] \<or> ft_UserID f = userID) \<and>
        (direction = [] \<or> ft_Direction f = direction)) (fd_transfers db))"

section \<open>The shell of the host\<close>

text \<open>One simple command as a POSIX shell reads it: its words after quote removal, and what follows its line.  In
  single quotes every character stands for itself, in double quotes all but dollar, backquote and backslash.
  Outside quotes only characters without a meaning of their own are accepted, so that \<open>Some\<close> means a command
  without expansions, redirections or further commands.\<close>

datatype sh_mode = Plain | Single | Double

definition sh_plain :: "char \<Rightarrow> bool" where
  "sh_plain c \<longleftrightarrow> is_digit c \<or> is_upper c \<or> is_lower c \<or> c \<in> set ''-_=./:,+@%''"

definition sh_more :: "char \<Rightarrow> string option \<Rightarrow> string option" where
  "sh_more c w = Some (case w of None \<Rightarrow> [c] | Some u \<Rightarrow> u @ [c])"

definition sh_quoted :: "string option \<Rightarrow> string option" where
  "sh_quoted w = (case w of None \<Rightarrow> Some [] | Some u \<Rightarrow> Some u)"

definition sh_end :: "string option \<Rightarrow> string list" where
  "sh_end w = (case w of None \<Rightarrow> [] | Some u \<Rightarrow> [u])"

fun sh_read :: "sh_mode \<Rightarrow> string option \<Rightarrow> string \<Rightarrow> (string list \<times> string) option" where
  "sh_read m w [] = (if m = Plain then Some (sh_end w, []) else None)"
| "sh_read Plain w (c # s) =
     (if c = squote then sh_read Single (sh_quoted w) s
      else if c = dquote then sh_read Double (sh_quoted w) s
      else if c = newline then Some (sh_end w, s)
      else if c = CHR '' '' then map_option (\<lambda>(ws, r). (sh_end w @ ws, r)) (sh_read Plain None s)
      else if sh_plain c then sh_read Plain (sh_more c w) s else None)"
| "sh_read Single w (c # s) = (if c = squote then sh_read Plain w s else sh_read Single (sh_more c w) s)"
| "sh_read Double w (c # s) =
     (if c = dquote then sh_read Plain w s
      else if c \<in> {CHR ''$'', CHR 0x60, CHR 0x5C} then None else sh_read Double (sh_more c w) s)"

definition sh_command :: "string \<Rightarrow> (string list \<times> string) option" where
  "sh_command s = sh_read Plain None s"

section \<open>Properties\<close>

subsection \<open>Commands\<close>

text \<open>A quoted text is read as itself, whatever it contains and whatever precedes and follows it.\<close>

lemma sh_read_quoted_body:
  "sh_read Single (Some u) (concat (map (\<lambda>c. if c = squote then [squote, dquote, squote, dquote, squote] else [c]) s) @ squote # rest) =
     sh_read Plain (Some (u @ s)) rest"
proof (induction s arbitrary: u)
  case (Cons c s)
  then show ?case by (cases "c = squote") (simp_all add: sh_quoted_def sh_more_def)
qed simp

lemma sh_read_shellQuote:
  "sh_read Plain w (shellQuote s @ rest) = sh_read Plain (Some ((case w of None \<Rightarrow> [] | Some u \<Rightarrow> u) @ s)) rest"
  using sh_read_quoted_body[of _ s rest] by (cases w) (simp_all add: shellQuote_def sh_quoted_def)

lemma sh_read_plain:
  assumes "\<forall>c \<in> set t. sh_plain c" "t \<noteq> []"
  shows "sh_read Plain w (t @ rest) = sh_read Plain (Some ((case w of None \<Rightarrow> [] | Some u \<Rightarrow> u) @ t)) rest"
  using assms
proof (induction t arbitrary: w)
  case (Cons c t)
  have c: "c \<noteq> squote" "c \<noteq> dquote" "c \<noteq> newline" "c \<noteq> CHR '' ''" "sh_plain c" using Cons.prems by (auto simp: sh_plain_def is_digit_def is_upper_def is_lower_def)
  show ?case
  proof (cases "t = []")
    case True
    then show ?thesis using c by (simp add: sh_more_def split: option.splits)
  next
    case False
    then show ?thesis using c Cons.IH[of "sh_more c w"] Cons.prems by (simp add: sh_more_def split: option.splits)
  qed
qed simp

lemma sh_c_words: "sh_command (sh_c script) = Some ([''sh'', ''-c'', script], [])"
proof -
  have "sh_command (sh_c script) = sh_read Plain None (''sh'' @ '' '' @ ''-c'' @ '' '' @ shellQuote script @ [])" by (simp add: sh_command_def sh_c_def)
  also have "\<dots> = Some ([''sh'', ''-c'', script], [])"
    by (simp add: sh_read_shellQuote sh_plain_def sh_more_def sh_end_def is_digit_def is_upper_def is_lower_def
        del: append_Cons flip: append_Cons) (simp add: sh_read_shellQuote[where rest = "[]", simplified] sh_end_def sh_plain_def sh_more_def is_digit_def is_upper_def is_lower_def)
  finally show ?thesis .
qed

lemma sh_assignment:
  assumes "\<forall>c \<in> set name. sh_plain c" "name \<noteq> []"
  shows "sh_command (name @ shellQuote p @ [newline] @ rest) = Some ([name @ p], rest)"
  using sh_read_plain[OF assms, of None "shellQuote p @ [newline] @ rest"] sh_read_shellQuote[of "Some name" p "[newline] @ rest"]
  by (simp add: sh_command_def sh_end_def)

text \<open>C10: no path can leave its quotes.  Whatever the path, the shell of the host reads each command as \<open>sh -c\<close> with one
  script, and the script assigns exactly the path, and for an upload its directory, before a fixed rest.\<close>

theorem commands_cannot_be_injected:
  "(\<exists>script. sh_command (buildListFilesCommand p) = Some ([''sh'', ''-c'', script], []) \<and>
      sh_command script = Some ([''TARGET='' @ p], list_rest)) \<and>
   (\<exists>script. sh_command (buildDownloadFileCommand p) = Some ([''sh'', ''-c'', script], []) \<and>
      sh_command script = Some ([''TARGET='' @ p], download_rest)) \<and>
   (\<exists>script. sh_command (buildRemoteFileSizeCommand p) = Some ([''sh'', ''-c'', script], []) \<and>
      sh_command script = Some ([''TARGET='' @ p], size_rest)) \<and>
   (\<exists>script rest. sh_command (buildUploadFileCommand p) = Some ([''sh'', ''-c'', script], []) \<and>
      sh_command script = Some ([''TARGET_FILE='' @ p], rest) \<and> sh_command rest = Some ([''TARGET_DIR='' @ path_Dir p], upload_rest))"
proof -
  have names: "\<forall>c \<in> set ''TARGET=''. sh_plain c" "\<forall>c \<in> set ''TARGET_FILE=''. sh_plain c" "\<forall>c \<in> set ''TARGET_DIR=''. sh_plain c"
    by (simp_all add: sh_plain_def is_upper_def)
  have t: "sh_command (target_script p rest) = Some ([''TARGET='' @ p], rest)" for rest
    unfolding target_script_def by (rule sh_assignment[OF names(1)]) simp
  have u: "sh_command (''TARGET_FILE='' @ shellQuote p @ [newline] @ rest) = Some ([''TARGET_FILE='' @ p], rest)" for rest
    by (rule sh_assignment[OF names(2)]) simp
  have v: "sh_command (''TARGET_DIR='' @ shellQuote q @ [newline] @ rest) = Some ([''TARGET_DIR='' @ q], rest)" for q rest
    by (rule sh_assignment[OF names(3)]) simp
  show ?thesis
    unfolding buildListFilesCommand_def buildDownloadFileCommand_def buildRemoteFileSizeCommand_def buildUploadFileCommand_def
    using sh_c_words t u v by blast
qed

subsection \<open>Paths\<close>

lemma normalizeRemotePath_rooted: "\<exists>cs. list_all proper cs \<and> normalizeRemotePath p = rooted_path cs"
proof (cases "TrimSpace p = []")
  case True
  then show ?thesis by (intro exI[of _ "[]"]) (simp add: normalizeRemotePath_def rooted_path_def)
next
  case False
  obtain q where "(if HasPrefix p ''/'' then p else ''/'' @ p) = slash # q"
    by (cases "HasPrefix p ''/''") (auto simp: HasPrefix_def prefix_def)
  with path_Clean_rooted[of q] obtain cs where cs: "list_all proper cs"
    "path_Clean (if HasPrefix p ''/'' then p else ''/'' @ p) = rooted_path cs" by auto
  then show ?thesis using False by (auto simp: normalizeRemotePath_def rooted_path_def)
qed

lemma normalize_normal:
  assumes "list_all proper cs"
  shows "normalizeRemotePath (rooted_path cs) = rooted_path cs"
proof -
  have "TrimSpace (rooted_path cs) \<noteq> []"
    by (auto simp: TrimSpace_def rooted_path_def is_space_def dropWhile_eq_Nil_conv)
  then show ?thesis using path_Clean_normal[OF assms]
    by (simp add: normalizeRemotePath_def HasPrefix_def Let_def) (simp add: rooted_path_def)
qed

text \<open>C38: a path of a request becomes a normal absolute path, with no \<open>.\<close>, no \<open>..\<close> and no empty component, and stays it.\<close>

theorem remote_paths_normal:
  "\<exists>cs. list_all proper cs \<and> normalizeRemotePath p = rooted_path cs \<and> normalizeRemotePath (normalizeRemotePath p) = normalizeRemotePath p"
  using normalizeRemotePath_rooted[of p] normalize_normal by metis

lemma joinRemotePath_normal: "list_all proper cs \<Longrightarrow> proper c \<Longrightarrow> joinRemotePath (rooted_path cs) c = rooted_path (cs @ [c])"
proof (cases cs)
  case Nil
  then show ?thesis by (simp add: joinRemotePath_def rooted_path_def)
next
  case (Cons a as)
  assume "list_all proper cs" "proper c"
  moreover have "rooted_path cs \<noteq> ''/''" using Cons calculation(1) by (cases as) (auto simp: rooted_path_def proper_def)
  ultimately show ?thesis by (simp add: joinRemotePath_def path_Join_normal)
qed

text \<open>An uploaded file lands in the directory that was asked for, under the last component of its name, whatever path the
  client put into the name; only the names \<open>..\<close>, \<open>.\<close> and \<open>/\<close> are left out.\<close>

theorem upload_stays_in_directory:
  assumes "proper (path_Base name)"
  shows "path_Dir (joinRemotePath (normalizeRemotePath dir) (path_Base name)) = normalizeRemotePath dir \<and>
    path_Base (joinRemotePath (normalizeRemotePath dir) (path_Base name)) = path_Base name"
  using normalizeRemotePath_rooted[of dir] assms by (auto simp: joinRemotePath_normal path_Dir_normal path_Base_normal)

theorem upload_stays_in_directory_witness:
  "path_Dir (joinRemotePath (normalizeRemotePath ''srv/../data'') (path_Base ''../../etc/passwd'')) = ''/data'' \<and>
   joinRemotePath (normalizeRemotePath ''/data/in'') (path_Base ''..'') = ''/data''"
proof -
  have "proper (path_Base ''../../etc/passwd'')" "normalizeRemotePath ''srv/../data'' = ''/data''" by code_simp+
  moreover have "joinRemotePath (normalizeRemotePath ''/data/in'') (path_Base ''..'') = ''/data''" by code_simp
  ultimately show ?thesis using upload_stays_in_directory[of "''../../etc/passwd''" "''srv/../data''"] by simp
qed

subsection \<open>Listings\<close>

lemma split_terminated:
  assumes "\<forall>f \<in> set fs. d \<notin> set f"
  shows "SplitChar d (concat (map (\<lambda>f. f @ [d]) fs)) = fs @ [[]]"
  using assms
proof (induction fs)
  case (Cons f fs)
  then have "split_by (\<lambda>c. c = d) f = [f]" by (intro split_by_single) auto
  then show ?case using Cons split_by_append_sep[of "\<lambda>c. c = d" d f "concat (map (\<lambda>f. f @ [d]) fs)"] by (simp add: SplitChar_def)
qed (simp add: SplitChar_def)

lemma file_infos_rows: "\<forall>r \<in> set rows. length r = 5 \<Longrightarrow> file_infos cur (concat rows) = map (file_info cur) rows"
proof (induction rows)
  case (Cons r rows)
  then obtain a b c d e where "r = [a, b, c, d, e]" by (auto simp: length_Suc_conv numeral_eq_Suc)
  then show ?case using Cons by simp
qed simp

text \<open>The listing of a directory is read back whole: from the fields that \<open>find\<close> prints, none with a zero byte, come
  exactly the files, in their order, whatever else their names contain.\<close>

theorem listing_roundtrip:
  assumes "\<forall>r \<in> set rows. length r = 5" "\<forall>r \<in> set rows. \<forall>f \<in> set r. CHR 0x00 \<notin> set f"
  shows "parseRemoteFileList (concat (map (\<lambda>f. f @ [CHR 0x00]) (concat rows))) cur = Some (map (file_info cur) rows)"
proof (cases "rows = []")
  case False
  have l: "length (concat rows) = 5 * length rows" using assms(1) by (induction rows) auto
  have "concat rows \<noteq> []" using False assms(1) by (cases rows) auto
  then have "concat (map (\<lambda>f. f @ [CHR 0x00]) (concat rows)) \<noteq> []" by (cases "concat rows") auto
  then show ?thesis using split_terminated[of "concat rows" "CHR 0x00"] assms l file_infos_rows[OF assms(1), of cur]
    by (auto simp: parseRemoteFileList_def Let_def)
qed (simp add: parseRemoteFileList_def)

theorem listing_roundtrip_witness:
  "parseRemoteFileList (concat (map (\<lambda>f. f @ [CHR 0x00]) (concat [[''a b'', ''f'', ''12'', ''-rw-'', '' t ''], [''d'', ''d'', ''x'', [], []]]))) ''/srv'' =
     Some [\<lparr>rf_Name = ''a b'', rf_Path = ''/srv/a b'', rf_Size = 12, rf_IsDir = False, rf_Mode = ''-rw-'', rf_ModTime = ''t''\<rparr>,
       \<lparr>rf_Name = ''d'', rf_Path = ''/srv/d'', rf_Size = 0, rf_IsDir = True, rf_Mode = [], rf_ModTime = []\<rparr>]"
proof -
  have "map (file_info ''/srv'') [[''a b'', ''f'', ''12'', ''-rw-'', '' t ''], [''d'', ''d'', ''x'', [], []]] =
    [\<lparr>rf_Name = ''a b'', rf_Path = ''/srv/a b'', rf_Size = 12, rf_IsDir = False, rf_Mode = ''-rw-'', rf_ModTime = ''t''\<rparr>,
       \<lparr>rf_Name = ''d'', rf_Path = ''/srv/d'', rf_Size = 0, rf_IsDir = True, rf_Mode = [], rf_ModTime = []\<rparr>]" by code_simp
  then show ?thesis
    using listing_roundtrip[of "[[''a b'', ''f'', ''12'', ''-rw-'', '' t ''], [''d'', ''d'', ''x'', [], []]]" "''/srv''"] by simp
qed

subsection \<open>Authorisation\<close>

text \<open>C19: without a permission for the host and the system user no file request reaches the host: its answer does not depend
  on the SSH client, it is a refusal, and nothing is recorded.\<close>

theorem transfers_need_permission:
  assumes "\<not> CheckUserHasPermission (i_start I) u h s (fd_perms db)" "h \<noteq> []" "s \<noteq> []" "p \<noteq> []"
  shows "ListFiles X (i_start I) (Some u) h s p db = (if u = [] then 401 else 403, []) \<and>
    UploadFile X I (Some u) h s p (Some file) db = (if u = [] then 401 else 403, db) \<and>
    DownloadFile X X' I (Some u) h s p db = ((if u = [] then 401 else 403, []), db)"
proof -
  have "resolveAuthorizedTarget (i_start I) (Some u) h s db = Inl (if u = [] then InvalidContext else Forbidden)"
    using assms(1) by (simp add: resolveAuthorizedTarget_def)
  then show ?thesis using assms(2-) by (simp add: ListFiles_def UploadFile_def DownloadFile_def split: prod.splits)
qed

text \<open>A request that reaches a host reaches the host asked for, as the system user asked for, by a permission.\<close>

lemma resolveAuthorizedTarget_Inr:
  assumes "resolveAuthorizedTarget now caller h s db = Inr (host, su, u)"
  shows "caller = Some u \<and> CheckUserHasPermission now u h s (fd_perms db) \<and> host \<in> set (fd_hosts db) \<and> ho_ID host = h \<and>
    su \<in> set (system_users (fd_perms db)) \<and> su_ID su = s \<and> su_Protocol su \<in> {[], ''ssh''}"
  using assms First_SomeD[of ho_ID "\<lambda>x. ho_ID x = h" "fd_hosts db" host] First_SomeD[of su_ID "\<lambda>x. su_ID x = s" "system_users (fd_perms db)" su]
  by (auto simp: resolveAuthorizedTarget_def Host_FindByID_def SystemUser_FindByID_def split: option.splits if_splits sum.splits)

subsection \<open>Records\<close>

lemma set_transfer_new:
  assumes "i_ID I \<notin> ft_ID ` set t" "ft_ID f = i_ID I" "fd_transfers db = t @ [f]"
  shows "fd_transfers (set_transfer (i_ID I) g db) = t @ [g f]"
proof -
  have "\<forall>x \<in> set t. ft_ID x \<noteq> i_ID I" using assms(1) by force
  then show ?thesis using assms(2,3) update_where_snoc_new[of t "\<lambda>x. ft_ID x = i_ID I" f g] by (simp add: set_transfer_def)
qed

lemma progress_new:
  assumes "i_ID I \<notin> ft_ID ` set t" "ft_ID f = i_ID I" "fd_transfers db = t @ [f]"
  shows "\<exists>n. fd_transfers (fold (\<lambda>p. set_transfer (i_ID I) (\<lambda>f. f\<lparr>ft_Progress := p\<rparr>)) ps db) = t @ [f\<lparr>ft_Progress := n\<rparr>]"
  using assms(2-)
proof (induction ps arbitrary: f db)
  case Nil
  then show ?case by (intro exI[of _ "ft_Progress f"]) simp
next
  case (Cons p ps)
  have "fd_transfers (set_transfer (i_ID I) (\<lambda>f. f\<lparr>ft_Progress := p\<rparr>) db) = t @ [f\<lparr>ft_Progress := p\<rparr>]"
    by (rule set_transfer_new[OF assms(1) Cons.prems])
  from Cons.IH[OF _ this] Cons.prems show ?case by simp
qed

lemma finish_new:
  assumes "ft_ID f \<notin> ft_ID ` set (fd_transfers db)" "ft_ID f = i_ID I"
  shows "\<exists>n. fd_transfers (finish_transfer I err ps (insert_transfer f db)) = fd_transfers db @ [(case err of
      Some e \<Rightarrow> f\<lparr>ft_Progress := n, ft_Status := ''failed'', ft_ErrorMessage := e, ft_CompletedAt := Some (i_end I),
        ft_Duration := trunc_div (i_end I - i_start I) second\<rparr>
    | None \<Rightarrow> f\<lparr>ft_Progress := 100, ft_Status := ''completed'', ft_CompletedAt := Some (i_end I),
        ft_Duration := trunc_div (i_end I - i_start I) second\<rparr>)]"
proof -
  let ?g = "\<lambda>f. case err of
          Some e \<Rightarrow> f\<lparr>ft_Status := ''failed'', ft_ErrorMessage := e, ft_CompletedAt := Some (i_end I), ft_Duration := trunc_div (i_end I - i_start I) second\<rparr>
        | None \<Rightarrow> f\<lparr>ft_Status := ''completed'', ft_Progress := 100, ft_CompletedAt := Some (i_end I), ft_Duration := trunc_div (i_end I - i_start I) second\<rparr>"
  have t: "fd_transfers (insert_transfer f db) = fd_transfers db @ [f]" and new: "i_ID I \<notin> ft_ID ` set (fd_transfers db)"
    using assms by (simp_all add: insert_transfer_def)
  from progress_new[OF new assms(2) t, of ps] obtain n where
    n: "fd_transfers (fold (\<lambda>p. set_transfer (i_ID I) (\<lambda>f. f\<lparr>ft_Progress := p\<rparr>)) ps (insert_transfer f db)) = fd_transfers db @ [f\<lparr>ft_Progress := n\<rparr>]" by blast
  have "fd_transfers (finish_transfer I err ps (insert_transfer f db)) = fd_transfers db @ [?g (f\<lparr>ft_Progress := n\<rparr>)]"
    unfolding finish_transfer_def Let_def by (rule set_transfer_new[OF new _ n]) (simp add: assms(2))
  then show ?thesis by (intro exI[of _ n]) (simp split: option.splits)
qed

text \<open>Every upload that reaches a host leaves one record, of its user, its host and its target, which says completed exactly
  if the upload succeeded and otherwise carries the error; nothing else is changed.\<close>

theorem uploads_recorded:
  assumes "resolveAuthorizedTarget (i_start I) caller h s db = Inr (host, su, u)" "h \<noteq> []" "s \<noteq> []"
    and "i_ID I \<notin> ft_ID ` set (fd_transfers db)"
    and "UploadFile X I caller h s p (Some (name, n)) db = (code, db')"
  shows "\<exists>f. fd_transfers db' = fd_transfers db @ [f] \<and> ft_ID f = i_ID I \<and> ft_UserID f = u \<and> ft_HostID f = h \<and> ft_Direction f = ''upload'' \<and>
    ft_RemotePath f = joinRemotePath (normalizeRemotePath (or_default ''/tmp'' p)) (path_Base name) \<and>
    (if code = 200 then ft_Status f = ''completed'' \<and> ft_Progress f = 100 \<and> ft_ErrorMessage f = []
     else code = 500 \<and> ft_Status f = ''failed'' \<and> fst (uploadFile X host su (ft_RemotePath f) n) = Some (ft_ErrorMessage f))"
proof -
  let ?full = "joinRemotePath (normalizeRemotePath (or_default ''/tmp'' p)) (path_Base name)"
  let ?f = "new_transfer I u host ''upload'' name ?full n ''uploading''"
  obtain err ps where r: "uploadFile X host su ?full n = (err, ps)" by (cases "uploadFile X host su ?full n")
  have db': "db' = finish_transfer I err ps (insert_transfer ?f db)" "code = (if err = None then 200 else 500)"
    using assms(1-3,5) r by (simp_all add: UploadFile_def Let_def)
  have "ho_ID host = h" using resolveAuthorizedTarget_Inr[OF assms(1)] by simp
  moreover have "\<exists>k. fd_transfers db' = fd_transfers db @ [(case err of
      Some e \<Rightarrow> ?f\<lparr>ft_Progress := k, ft_Status := ''failed'', ft_ErrorMessage := e, ft_CompletedAt := Some (i_end I),
        ft_Duration := trunc_div (i_end I - i_start I) second\<rparr>
    | None \<Rightarrow> ?f\<lparr>ft_Progress := 100, ft_Status := ''completed'', ft_CompletedAt := Some (i_end I),
        ft_Duration := trunc_div (i_end I - i_start I) second\<rparr>)]"
    unfolding db'(1) by (rule finish_new) (simp_all add: new_transfer_def assms(4))
  ultimately show ?thesis using db'(2) r by (cases err) (auto simp: new_transfer_def)
qed

subsection \<open>Progress\<close>

lemma progress_range: "0 \<le> calculateTransferProgress a b \<and> calculateTransferProgress a b \<le> 100"
  by (simp add: calculateTransferProgress_def Let_def)

lemma stream_progress:
  assumes "stream_chunks wr n i written lp bs = (e, out, ps, lp')"
  shows "sorted_wrt (<) ps \<and> (\<forall>p \<in> set ps. lp < p \<and> p \<le> 100) \<and> lp' = (if ps = [] then lp else last ps) \<and>
    (e = None \<longrightarrow> out = concat bs) \<and> prefix out (concat bs)"
  using assms
proof (induction bs arbitrary: i written lp ps out e lp')
  case (Cons b bs)
  show ?case
  proof (cases "b = []")
    case True
    then show ?thesis using Cons by auto
  next
    case False
    show ?thesis
    proof (cases "wr i")
      case (Some err)
      then show ?thesis using Cons.prems False by auto
    next
      case None
      let ?w = "int64 (written + int (length b))"
      let ?p = "calculateTransferProgress ?w n"
      let ?lp = "if ?p > lp then ?p else lp"
      obtain e1 out1 ps1 lp1 where r: "stream_chunks wr n (Suc i) ?w ?lp bs = (e1, out1, ps1, lp1)"
        by (cases "stream_chunks wr n (Suc i) ?w ?lp bs") auto
      have now: "e = e1" "out = b @ out1" "ps = (if ?p > lp then ?p # ps1 else ps1)" "lp' = lp1"
        using Cons.prems False None r by (auto simp: Let_def)
      from Cons.IH[OF r] show ?thesis using now progress_range[of ?w n] by (auto simp: prefix_def)
    qed
  qed
qed simp

text \<open>C39: The progress of a download is reported in strictly growing steps up to 100, and when it ends without error the client
  has received exactly the bytes that the host sent.\<close>

theorem download_progress:
  assumes "streamDownloadFile X host su p n = (err, out, ps)"
  shows "sorted_wrt (<) ps \<and> (\<forall>q \<in> set ps. 0 \<le> q \<and> q \<le> 100) \<and> prefix out (concat (x_chunks X)) \<and>
    (err = None \<longrightarrow> out = concat (x_chunks X) \<and> ps \<noteq> [] \<and> last ps = 100)"
proof -
  obtain e o1 ps1 lp where r: "stream_chunks (x_write X) n 0 0 (- 1) (x_chunks X) = (e, o1, ps1, lp)"
    by (cases "stream_chunks (x_write X) n 0 0 (- 1) (x_chunks X)") auto
  note st = stream_progress[OF r]
  have rng: "0 \<le> q \<and> q \<le> 100" if "q \<in> set ps1" for q
  proof -
    have "- 1 < q" "q \<le> 100" using st that by blast+
    then show ?thesis by simp
  qed
  have le: "lp \<le> 100" using st by (cases "ps1 = []") auto
  have lt: "\<forall>q \<in> set ps1. q < 100" if "lp < 100"
  proof (cases ps1 rule: rev_cases)
    case (snoc qs q)
    then show ?thesis using that st by (auto simp: sorted_wrt_append)
  qed simp
  have "(out, ps) \<in> {([], []), (o1, ps1)} \<and> err \<noteq> None \<or> err = None \<and> e = None \<and> out = o1 \<and> ps = (if lp < 100 then ps1 @ [100] else ps1)"
    using assms r by (cases "remote_session X host su"; cases e) (auto simp: streamDownloadFile_def split: option.splits)
  then show ?thesis using st le lt rng by (auto simp: sorted_wrt_append split: if_splits)
qed

subsection \<open>An instance\<close>

definition sample_remote :: remote where
  "sample_remote = \<lparr>x_ssh = \<lparr>parse_key = (\<lambda>_ _. None), ssh_dial = (\<lambda>_ _ _. None), ssh_session = None\<rparr>, x_pipe = None, x_start = (\<lambda>_. None), x_combined = (\<lambda>_. (''5'', None)),
     x_copied = (4, None), x_closed = None, x_waited = None, x_stderr = [], x_chunks = [''ab'', ''cde''], x_ended = None, x_write = (\<lambda>_. None)\<rparr>"

definition sample_fdb :: fdb where
  "sample_fdb = \<lparr>fd_perms = sample_granted, fd_hosts = [blank_host\<lparr>ho_ID := ''h1''\<rparr>], fd_transfers = []\<rparr>"

definition sample_ids :: transfer_ids where
  "sample_ids = \<lparr>i_ID = ''t'', i_SessionID = ''x'', i_Username = None, i_start = 5, i_end = 5 + 2 * second\<rparr>"

theorem transfers_need_permission_witness:
  "\<not> CheckUserHasPermission 5 ''u9'' ''h1'' ''s1'' (fd_perms sample_fdb) \<and>
   UploadFile sample_remote sample_ids (Some ''u9'') ''h1'' ''s1'' ''/etc'' (Some (''f'', 4)) sample_fdb = (403, sample_fdb)"
proof -
  have no: "\<not> CheckUserHasPermission (i_start sample_ids) ''u9'' ''h1'' ''s1'' (fd_perms sample_fdb)" and st: "i_start sample_ids = 5" by code_simp+
  show ?thesis using transfers_need_permission[OF no, of "''/etc''" sample_remote "(''f'', 4)"] no st by simp
qed

theorem uploads_recorded_witness:
  "\<exists>f. fd_transfers (snd (UploadFile sample_remote sample_ids (Some ''u1'') ''h1'' ''s1'' [] (Some (''d/f'', 4)) sample_fdb)) = [f] \<and>
     ft_RemotePath f = ''/tmp/f'' \<and> ft_Status f = ''completed''"
proof -
  let ?r = "UploadFile sample_remote sample_ids (Some ''u1'') ''h1'' ''s1'' [] (Some (''d/f'', 4)) sample_fdb"
  have res: "resolveAuthorizedTarget (i_start sample_ids) (Some ''u1'') ''h1'' ''s1'' sample_fdb = Inr (blank_host\<lparr>ho_ID := ''h1''\<rparr>, sample_su, ''u1'')"
    and new: "i_ID sample_ids \<notin> ft_ID ` set (fd_transfers sample_fdb)" and code: "fst ?r = 200"
    and path: "joinRemotePath (normalizeRemotePath (or_default ''/tmp'' [])) (path_Base ''d/f'') = ''/tmp/f''"
    and empty: "fd_transfers sample_fdb = []" by code_simp+
  have run: "?r = (200, snd ?r)" using code by (metis prod.collapse)
  show ?thesis using uploads_recorded[OF res _ _ new run] path empty by auto
qed

theorem download_progress_witness:
  "fst (snd (streamDownloadFile sample_remote blank_host sample_su ''/f'' 5)) = ''abcde'' \<and>
   snd (snd (streamDownloadFile sample_remote blank_host sample_su ''/f'' 5)) = [40, 100]"
proof -
  have r: "streamDownloadFile sample_remote blank_host sample_su ''/f'' 5 = (None, ''abcde'', [40, 100])" by code_simp
  show ?thesis using download_progress[OF r] r by simp
qed

end
