(* ===== verification/Web_Terminal.thy ===== *)
theory Web_Terminal
imports Terminal_Interceptor Command_Extractor Sessions Ssh_Client
begin

text \<open>
  The terminal in the browser: \<open>internal/api/handler/connection_handler.go\<close>.  A request is
  authenticated by a token, a system user is chosen, the route decided, and then the messages of a
  websocket drive a shell on the host.  A message is what Go makes of its JSON; the answers of the
  SSH library and the exported recording are arguments.  The host is the line discipline of
  \<open>Terminal_Interceptor\<close>.
\<close>

section \<open>Connecting\<close>

record UserInfo =
  ui_UserID :: string
  ui_Username :: string

text \<open>A token of the login is tried first, a token of a session next.\<close>

definition web_validateToken :: "libs \<Rightarrow> time \<Rightarrow> string \<Rightarrow> sdb \<Rightarrow> UserInfo option \<times> sdb" where
  "web_validateToken L now token db = (case ValidateToken L now token of
     Inr claims \<Rightarrow> (Some \<lparr>ui_UserID = c_UserID claims, ui_Username = c_Username claims\<rparr>, db)
   | Inl _ \<Rightarrow> (case ValidateSessionToken now token db of
       (Inr i, db1) \<Rightarrow> (Some \<lparr>ui_UserID = tk_UserID i, ui_Username = tk_Username i\<rparr>, db1)
     | (Inl _, db1) \<Rightarrow> (None, db1)))"

datatype web_start = Refused nat | Choose "SystemUser list" | Connect RoutingDecision UserInfo SystemUser

definition web_select :: "time \<Rightarrow> string \<Rightarrow> string \<Rightarrow> string \<Rightarrow> pdb \<Rightarrow> web_start + SystemUser" where
  "web_select now userID hostID systemUserID db =
     (if systemUserID \<noteq> [] then
        (if \<not> CheckUserHasPermission now userID hostID systemUserID db then Inl (Refused 403)
         else (case SystemUser_FindByID systemUserID db of Inl _ \<Rightarrow> Inl (Refused 404) | Inr su \<Rightarrow> Inr su))
      else (case GetAvailableSystemUsersForUser now userID hostID db of
          [] \<Rightarrow> Inl (Refused 403) | [su] \<Rightarrow> Inr su | sus \<Rightarrow> Inl (Choose sus)))"

record wdb =
  wd_sessions :: sdb
  wd_perms :: pdb
  wd_settings :: "Setting list"

definition routing_db :: "wdb \<Rightarrow> rdb" where
  "routing_db db = \<lparr>hosts = sd_hosts (wd_sessions db), proxies = sd_proxies (wd_sessions db), rsettings = wd_settings db\<rparr>"

definition HandleConnection :: "libs \<Rightarrow> time \<Rightarrow> string \<Rightarrow> string \<Rightarrow> string \<Rightarrow> wdb \<Rightarrow> web_start \<times> wdb" where
  "HandleConnection L now hostID token systemUserID db =
     (if hostID = [] then (Refused 400, db)
      else if token = [] then (Refused 401, db)
      else (case web_validateToken L now token (wd_sessions db) of
          (None, s) \<Rightarrow> (Refused 401, db\<lparr>wd_sessions := s\<rparr>)
        | (Some ui, s) \<Rightarrow>
            (let db = db\<lparr>wd_sessions := s\<rparr> in
             case web_select now (ui_UserID ui) hostID systemUserID (wd_perms db) of
               Inl r \<Rightarrow> (r, db)
             | Inr su \<Rightarrow> (case MakeRoutingDecision hostID (routing_db db) of
                 Inl _ \<Rightarrow> (Refused 500, db) | Inr d \<Rightarrow> (Connect d ui su, db)))))"

section \<open>A direct session\<close>

record shell_lib =
  sl_ssh :: ssh_lib
  sl_pty :: "string option"
  sl_shell :: "string option"

text \<open>Opening the shell: the error if there is one.\<close>

definition open_shell :: "shell_lib \<Rightarrow> Host \<Rightarrow> SystemUser \<Rightarrow> string option" where
  "open_shell X host su =
     (if su_AuthType su = ''password'' \<and> su_Password su = [] then Some ''password missing''
      else if su_AuthType su = ''key'' \<and> su_PrivateKey su = [] then Some ''private key missing''
      else (case NewSSHClient (sl_ssh X) (target_config host su) of
          Some e \<Rightarrow> Some (''failed to connect: '' @ e)
        | None \<Rightarrow> (case client_NewSession (sl_ssh X) of
            Some e \<Rightarrow> Some (''failed to create session: '' @ e)
          | None \<Rightarrow> (case sl_pty X of
              Some e \<Rightarrow> Some (''failed to request pty: '' @ e)
            | None \<Rightarrow> map_option (\<lambda>e. ''failed to start shell: '' @ e) (sl_shell X)))))"

definition web_login :: "time \<Rightarrow> string \<Rightarrow> UserInfo \<Rightarrow> Host \<Rightarrow> LoginRecord" where
  "web_login now sessionID ui host = \<lparr>lo_ID = sessionID, lo_UserID = ui_UserID ui, lo_HostID = ho_ID host, lo_HostName = ho_Name host,
     lo_HostIP = ho_IP host, lo_Username = ui_Username ui, lo_LoginIP = [], lo_LoginTime = now, lo_LogoutTime = None, lo_Duration = None,
     lo_Status = ''connecting'', lo_SessionID = sessionID\<rparr>"

definition web_recording :: "time \<Rightarrow> string \<Rightarrow> string \<Rightarrow> UserInfo \<Rightarrow> Host \<Rightarrow> SessionRecording" where
  "web_recording start recID sessionID ui host = \<lparr>sr_ID = recID, sr_SessionID = sessionID, sr_ConnectionType = ''webshell'', sr_ProxyID = [],
     sr_UserID = ui_UserID ui, sr_HostID = ho_ID host, sr_HostName = ho_Name host, sr_HostIP = ho_IP host, sr_Username = ui_Username ui,
     sr_StartTime = start, sr_EndTime = None, sr_Duration = in_progress, sr_CommandCount = 0, sr_Status = ''active'', sr_Recording = [],
     sr_TerminalCols = 120, sr_TerminalRows = 30\<rparr>"

definition or_same :: "'a \<Rightarrow> 'a option \<Rightarrow> 'a" where "or_same x y = (case y of None \<Rightarrow> x | Some z \<Rightarrow> z)"

text \<open>What the start of a session writes: the login, and with the shell its recording and the counters of the host.\<close>

definition web_open :: "shell_lib \<Rightarrow> time \<Rightarrow> time \<Rightarrow> string \<Rightarrow> string \<Rightarrow> UserInfo \<Rightarrow> Host \<Rightarrow> SystemUser \<Rightarrow> sdb \<Rightarrow> bool \<times> sdb" where
  "web_open X start now recID sessionID ui host su db =
     (let trail = or_same (sd_trail db) (create_login (web_login start sessionID ui host) (sd_trail db)) in
      case open_shell X host su of
        Some e \<Rightarrow> (False, db\<lparr>sd_trail := trail\<rparr>)
      | None \<Rightarrow>
          (let trail = or_same trail (create_recording (web_recording start recID sessionID ui host) trail);
               trail = set_logins sessionID (\<lambda>l. l\<lparr>lo_Status := ''active''\<rparr>) trail
           in (True, db\<lparr>sd_trail := trail,
                 sd_hosts := UpdateLastLoginTime now (ho_ID host) (IncrementLoginCount (ho_ID host) (sd_hosts db))\<rparr>)))"

text \<open>The deferred end of a session.\<close>

definition web_close :: "bool \<Rightarrow> time \<Rightarrow> time \<Rightarrow> string \<Rightarrow> string \<Rightarrow> sdb \<Rightarrow> sdb" where
  "web_close success start stop sessionID recording db =
     (let diff = stop - start; done = (\<lambda>status. set_logins sessionID (\<lambda>l. l\<lparr>lo_LogoutTime := Some stop, lo_Status := status,
            lo_Duration := Some (trunc_div diff second)\<rparr>))
      in db\<lparr>sd_trail :=
        (if success then done ''completed'' (set_recording sessionID (\<lambda>r. r\<lparr>sr_EndTime := Some stop, sr_Status := ''closed'',
            sr_Duration := duration_text diff, sr_Recording := recording\<rparr>) (sd_trail db))
         else done ''failed'' (sd_trail db))\<rparr>)"

definition handleDirectConnection :: "shell_lib \<Rightarrow> time \<Rightarrow> time \<Rightarrow> time \<Rightarrow> string \<Rightarrow> string \<Rightarrow> string \<Rightarrow> UserInfo \<Rightarrow> string \<Rightarrow> SystemUser \<Rightarrow> sdb \<Rightarrow> sdb" where
  "handleDirectConnection X start now stop recID sessionID recording ui hostID su db = (case Host_FindByID hostID (sd_hosts db) of
     None \<Rightarrow> db
   | Some host \<Rightarrow> (case web_open X start now recID sessionID ui host su db of
       (success, db1) \<Rightarrow> web_close success start stop sessionID recording db1))"

section \<open>A session by a proxy\<close>

definition generateProxyToken :: "string \<Rightarrow> UserInfo \<Rightarrow> string" where
  "generateProxyToken hostID ui = ''proxy-token-'' @ hostID @ ''-'' @ ui_UserID ui"

text \<open>The URL that is dialled; the messages are then passed on unchanged in both directions.\<close>

definition handleProxyConnection :: "time \<Rightarrow> string \<Rightarrow> UserInfo \<Rightarrow> RoutingDecision \<Rightarrow> SystemUser \<Rightarrow> sdb \<Rightarrow> string option \<times> sdb" where
  "handleProxyConnection now hostID ui d su db = (case Host_FindByID hostID (sd_hosts db) of
     None \<Rightarrow> (None, db)
   | Some host \<Rightarrow>
       (Some (rd_ProxyURL d @ ''?token='' @ generateProxyToken hostID ui @ ''&hostId='' @ hostID),
        db\<lparr>sd_hosts := UpdateLastLoginTime now (ho_ID host) (IncrementLoginCount (ho_ID host) (sd_hosts db))\<rparr>))"

section \<open>Input\<close>

text \<open>A message: not JSON of an object, without a type, or of a type with its data where they have the right kind.\<close>

datatype ws_message = WRaw string | WNoType | WResize "(int \<times> int) option" | WInput "string option" | WOther

record web_state =
  wb_buffer :: string
  wb_stdin :: string
  wb_saved :: "(string \<times> block_reason option) list"
  wb_warned :: "block_reason list"
  wb_inputs :: "string list"
  wb_window :: "(int \<times> int) list"
  wb_alerts :: "alert list"

definition new_web :: web_state where
  "new_web = \<lparr>wb_buffer = [], wb_stdin = [], wb_saved = [], wb_warned = [], wb_inputs = [], wb_window = [], wb_alerts = []\<rparr>"

definition to_shell :: "string \<Rightarrow> web_state \<Rightarrow> web_state" where "to_shell s st = st\<lparr>wb_stdin := wb_stdin st @ s\<rparr>"

definition web_input :: "checker \<Rightarrow> string \<Rightarrow> web_state \<Rightarrow> web_state" where
  "web_input chk data st0 =
     (let st = st0\<lparr>wb_inputs := wb_inputs st0 @ [data]\<rparr> in
      if data = [chr 13] \<or> data = [chr 10] then
        (let command = TrimSpace (wb_buffer st); commandLen = length (wb_buffer st); st1 = st\<lparr>wb_buffer := []\<rparr> in
         if command \<noteq> [] \<and> fst (fst chk command) then
           (let reason = snd chk command in
            to_shell (replicate commandLen (chr 127) @ [chr 13])
              (st1\<lparr>wb_alerts := wb_alerts st @ (case snd (fst chk command) of None \<Rightarrow> [] | Some a \<Rightarrow> [a]),
                  wb_saved := wb_saved st @ [(command, Some reason)], wb_warned := wb_warned st @ [reason]\<rparr>))
         else to_shell data st1)
      else if data = [chr 3] then to_shell data (st\<lparr>wb_buffer := []\<rparr>)
      else if data = [chr 127] \<or> data = [chr 8] then
        to_shell data (if wb_buffer st \<noteq> [] then st\<lparr>wb_buffer := butlast (wb_buffer st)\<rparr> else st)
      else to_shell data (st\<lparr>wb_buffer := wb_buffer st @ data\<rparr>))"

definition web_message :: "checker \<Rightarrow> ws_message \<Rightarrow> web_state \<Rightarrow> web_state" where
  "web_message chk m st = (case m of
     WRaw s \<Rightarrow> to_shell s st
   | WNoType \<Rightarrow> st
   | WResize wh \<Rightarrow> (case wh of None \<Rightarrow> st | Some p \<Rightarrow> st\<lparr>wb_window := wb_window st @ [p]\<rparr>)
   | WInput d \<Rightarrow> (case d of None \<Rightarrow> st | Some data \<Rightarrow> web_input chk data st)
   | WOther \<Rightarrow> st)"

text \<open>What the host prints is searched for commands, which are saved, marked where the blacklist has them.\<close>

definition web_command :: "Manager option \<Rightarrow> string \<Rightarrow> string \<Rightarrow> string \<times> block_reason option" where
  "web_command mgr username command = (command, case mgr of
     None \<Rightarrow> None | Some m \<Rightarrow> if IsBlocked m command username then Some (GetBlockReason m command username) else None)"

definition web_output :: "Manager option \<Rightarrow> string \<Rightarrow> string list \<Rightarrow> (string \<times> block_reason option) list" where
  "web_output mgr username chunks = map (web_command mgr username) (ce_commands (fold (\<lambda>d e. Feed e d) chunks NewCommandExtractor))"

section \<open>The line of the terminal\<close>

text \<open>The keys that the terminal and the line discipline treat alike, one per message.\<close>

definition plain_key :: "char \<Rightarrow> bool" where
  "plain_key ch \<longleftrightarrow> ch \<in> {chr 13, chr 10, chr 3, chr 127, chr 8} \<or> 32 \<le> ord ch \<and> ord ch < 127"

definition web_keys :: "string \<Rightarrow> ws_message list" where "web_keys input = map (\<lambda>ch. WInput (Some [ch])) input"

definition web_session :: "checker \<Rightarrow> ws_message list \<Rightarrow> web_state" where
  "web_session chk ms = fold (web_message chk) ms new_web"

lemma erase_line: "fold host_byte (replicate n (chr 127)) (line, ls) = (take (length line - n) line, ls)"
proof (induction n arbitrary: line)
  case (Suc n)
  have "host_byte (chr 127) (line, ls) = (butlast line, ls)" by (simp add: host_byte_def chr_eq_iff)
  then show ?case using Suc.IH[of "butlast line"] by (simp add: butlast_conv_take take_take min_def)
qed simp

lemma erased_run:
  assumes "length (fst (host_run xs)) = n"
  shows "host_run (xs @ replicate n (chr 127) @ [chr 13]) = ([], host_executes xs @ [[]])"
  using assms erase_line[of n "fst (host_run xs)" "snd (host_run xs)"]
  by (simp add: host_run_append host_executes_def host_byte_def chr_eq_iff)

lemma printable_run:
  assumes "list_all (\<lambda>ch. 32 \<le> ord ch \<and> ord ch < 127) l"
  shows "fold host_byte l (line, ls) = (line @ l, ls)"
  using assms
proof (induction l arbitrary: line)
  case (Cons ch l)
  then have "host_byte ch (line, ls) = (line @ [ch], ls)" by (auto simp: host_byte_def)
  then show ?case using Cons by simp
qed simp

context command_check
begin

definition web_in_step :: "(string \<Rightarrow> block_reason) \<Rightarrow> string \<Rightarrow> web_state \<Rightarrow> bool" where
  "web_in_step why raw st \<longleftrightarrow> wb_buffer st = fst (host_run (wb_stdin st)) \<and> wb_buffer st = fst (host_run raw) \<and>
     host_executes (wb_stdin st) = map (\<lambda>l. if blocked l then [] else l) (host_executes raw) \<and>
     wb_saved st = map (\<lambda>l. (TrimSpace l, Some (why (TrimSpace l)))) (filter blocked (host_executes raw))"

lemma web_step_newline:
  assumes "web_in_step why raw st" "ch = chr 13 \<or> ch = chr 10"
  shows "web_in_step why (raw @ [ch]) (web_input (check, why) [ch] st)"
proof (cases "blocked (wb_buffer st)")
  case True
  then have b: "blocked (TrimSpace (wb_buffer st))" "TrimSpace (wb_buffer st) \<noteq> []"
    using blocked_trim[of "wb_buffer st"] not_blocked_empty by auto
  have len: "length (fst (host_run (wb_stdin st))) = length (wb_buffer st)" using assms(1) by (simp add: web_in_step_def)
  have "wb_stdin (web_input (check, why) [ch] st) = wb_stdin st @ replicate (length (wb_buffer st)) (chr 127) @ [chr 13]"
    "wb_buffer (web_input (check, why) [ch] st) = []"
    "wb_saved (web_input (check, why) [ch] st) = wb_saved st @ [(TrimSpace (wb_buffer st), Some (why (TrimSpace (wb_buffer st))))]"
    using b assms(2) by (auto simp: web_input_def Let_def to_shell_def)
  moreover have "fst (host_run raw) = fst (host_run (wb_stdin st))" using assms(1) by (auto simp: web_in_step_def)
  ultimately show ?thesis using assms True erased_run[OF len] host_line_newline[OF assms(2)]
    by (simp add: web_in_step_def host_executes_snoc) (simp add: host_executes_def)
next
  case False
  then have b: "\<not> (TrimSpace (wb_buffer st) \<noteq> [] \<and> blocked (TrimSpace (wb_buffer st)))" using blocked_trim[of "wb_buffer st"] by simp
  have "wb_stdin (web_input (check, why) [ch] st) = wb_stdin st @ [ch]" "wb_buffer (web_input (check, why) [ch] st) = []"
    "wb_saved (web_input (check, why) [ch] st) = wb_saved st"
    using b assms(2) by (auto simp: web_input_def Let_def to_shell_def)
  then show ?thesis using assms False host_line_newline[OF assms(2)] by (auto simp: web_in_step_def host_executes_snoc)
qed

lemma web_step_other:
  assumes "web_in_step why raw st" "plain_key ch" "ch \<noteq> chr 13" "ch \<noteq> chr 10"
  shows "web_in_step why (raw @ [ch]) (web_input (check, why) [ch] st)"
proof -
  let ?st = "web_input (check, why) [ch] st"
  have "wb_stdin ?st = wb_stdin st @ [ch]" "wb_saved ?st = wb_saved st"
    and buf: "wb_buffer ?st = (if ch = chr 3 then [] else if ch = chr 127 \<or> ch = chr 8 then butlast (wb_buffer st) else wb_buffer st @ [ch])"
    using assms(3,4) by (auto simp: web_input_def Let_def to_shell_def)
  moreover have "fst (host_run (xs @ [ch])) = (if ch = chr 3 then [] else if ch = chr 127 \<or> ch = chr 8 then butlast (fst (host_run xs))
      else fst (host_run xs) @ [ch])" for xs
    using assms(2-) by (auto simp: host_run_snoc host_byte_def plain_key_def split: prod.splits)
  ultimately show ?thesis using assms by (auto simp: web_in_step_def host_executes_snoc)
qed

lemma web_in_step_session:
  assumes "list_all plain_key input"
  shows "web_in_step why input (web_session (check, why) (web_keys input))"
  using assms
proof (induction input rule: rev_induct)
  case Nil
  then show ?case by (simp add: web_in_step_def web_session_def web_keys_def new_web_def host_run_def host_executes_def)
next
  case (snoc ch input)
  let ?st = "web_session (check, why) (web_keys input)"
  have "web_session (check, why) (web_keys (input @ [ch])) = web_input (check, why) [ch] ?st"
    by (simp add: web_session_def web_keys_def web_message_def)
  moreover have "web_in_step why (input @ [ch]) (web_input (check, why) [ch] ?st)"
    using snoc web_step_newline[of why input ?st ch] web_step_other[of why input ?st ch] by fastforce
  ultimately show ?case by simp
qed

end


text \<open>C34: the blacklist sees only what arrives key by key.  A line of printable characters that arrives together with its
  return in one message, as pasted text does, or in a message that is not JSON, is executed by the host whatever the
  blacklist says; nothing is saved and nobody is warned.\<close>

theorem web_paste_bypasses:
  assumes "list_all (\<lambda>ch. 32 \<le> ord ch \<and> ord ch < 127) l" "msg = WInput (Some (l @ [chr 13])) \<or> msg = WRaw (l @ [chr 13])" "l \<noteq> []"
  shows "host_executes (wb_stdin (web_session chk [msg])) = [l] \<and> wb_saved (web_session chk [msg]) = [] \<and>
    wb_warned (web_session chk [msg]) = [] \<and> wb_alerts (web_session chk [msg]) = []"
proof -
  have "host_executes (l @ [chr 13]) = [l]"
    using printable_run[OF assms(1), of "[]" "[]"] by (simp add: host_executes_def host_run_def host_byte_def)
  then show ?thesis using assms(2,3)
    by (auto simp: web_session_def web_message_def web_input_def Let_def to_shell_def new_web_def append_eq_Cons_conv)
qed

section \<open>Connections\<close>

lemma web_select_refuses: "web_select now u h s db = Inl r \<Longrightarrow> r \<noteq> Connect d ui su"
  by (auto simp: web_select_def split: if_splits sum.splits list.splits)

text \<open>C17: whoever gets a terminal has a valid token of a login or of a session, and a rule lets this user use the system user
  of the shell on the host; the system user is one of the table and the route is the one decided for the host.\<close>

theorem web_connection_permitted:
  assumes "HandleConnection L now hostID token systemUserID db = (Connect d ui su, db')"
  shows "(case ValidateToken L now token of
      Inr claims \<Rightarrow> ui_UserID ui = c_UserID claims
    | Inl _ \<Rightarrow> \<exists>i. sd_tokens (wd_sessions db) token = Some i \<and> now \<le> tk_ExpiresAt i \<and> ui_UserID ui = tk_UserID i) \<and>
    CheckUserHasPermission now (ui_UserID ui) hostID (su_ID su) (wd_perms db) \<and> su \<in> set (system_users (wd_perms db)) \<and>
    (systemUserID \<noteq> [] \<longrightarrow> su_ID su = systemUserID) \<and> MakeRoutingDecision hostID (routing_db db) = Inr d"
proof -
  obtain s where v: "web_validateToken L now token (wd_sessions db) = (Some ui, s)"
    and sel: "web_select now (ui_UserID ui) hostID systemUserID (wd_perms db) = Inr su"
    and r: "MakeRoutingDecision hostID (routing_db (db\<lparr>wd_sessions := s\<rparr>)) = Inr d"
    using assms by (auto simp: HandleConnection_def Let_def split: if_splits prod.splits option.splits sum.splits dest: web_select_refuses)
  have tok: "case ValidateToken L now token of
      Inr claims \<Rightarrow> ui_UserID ui = c_UserID claims
    | Inl _ \<Rightarrow> \<exists>i. sd_tokens (wd_sessions db) token = Some i \<and> now \<le> tk_ExpiresAt i \<and> ui_UserID ui = tk_UserID i"
    and same: "s = wd_sessions db"
    using v by (auto simp: web_validateToken_def ValidateSessionToken_def split: sum.splits prod.splits option.splits if_splits)
  have "CheckUserHasPermission now (ui_UserID ui) hostID (su_ID su) (wd_perms db) \<and> su \<in> set (system_users (wd_perms db)) \<and>
    (systemUserID \<noteq> [] \<longrightarrow> su_ID su = systemUserID)"
  proof (cases "systemUserID = []")
    case True
    then have "su \<in> set (GetAvailableSystemUsersForUser now (ui_UserID ui) hostID (wd_perms db))"
      using sel by (auto simp: web_select_def split: list.splits)
    then show ?thesis using available_permitted(1) True by (auto simp: GetAvailableSystemUsersForUser_def)
  next
    case False
    then show ?thesis using sel First_SomeD[of su_ID "\<lambda>x. su_ID x = systemUserID" "system_users (wd_perms db)" su]
      by (auto simp: web_select_def SystemUser_FindByID_def split: if_splits sum.splits option.splits)
  qed
  then show ?thesis using tok r same by simp
qed

text \<open>C35: a direct session leaves exactly one login, and a recording with it exactly if the shell was opened.  When the
  session is over the login has its end and its duration and says completed or failed, and the recording is closed with
  what was recorded; only an opened shell counts for the host.\<close>

theorem web_session_recorded:
  assumes "Host_FindByID hostID (sd_hosts db) = Some host"
    and "sessionID \<notin> lo_ID ` set (login_records (sd_trail db))" "sessionID \<notin> lo_SessionID ` set (login_records (sd_trail db))"
    and "recID \<notin> sr_ID ` set (session_recordings (sd_trail db))" "sessionID \<notin> sr_SessionID ` set (session_recordings (sd_trail db))"
  shows "let db' = handleDirectConnection X start now stop recID sessionID recording ui hostID su db; opened = (open_shell X host su = None) in
    login_records (sd_trail db') = login_records (sd_trail db) @ [(web_login start sessionID ui host)\<lparr>
      lo_Status := (if opened then ''completed'' else ''failed''), lo_LogoutTime := Some stop, lo_Duration := Some (trunc_div (stop - start) second)\<rparr>] \<and>
    session_recordings (sd_trail db') = session_recordings (sd_trail db) @ (if opened then [(web_recording start recID sessionID ui host)\<lparr>
      sr_EndTime := Some stop, sr_Status := ''closed'', sr_Duration := duration_text (stop - start), sr_Recording := recording\<rparr>] else []) \<and>
    sd_hosts db' = (if opened then UpdateLastLoginTime now (ho_ID host) (IncrementLoginCount (ho_ID host) (sd_hosts db)) else sd_hosts db)"
proof -
  let ?l = "web_login start sessionID ui host" and ?r = "web_recording start recID sessionID ui host"
  have l: "create_login ?l (sd_trail db) = Some ((sd_trail db)\<lparr>login_records := login_records (sd_trail db) @ [?l]\<rparr>)"
    using assms(2) by (simp add: create_login_def web_login_def or_default_def)
  have r: "create_recording ?r t = Some (t\<lparr>session_recordings := session_recordings (sd_trail db) @ [?r]\<rparr>)"
    if "session_recordings t = session_recordings (sd_trail db)" for t
    using assms(4,5) that by (simp add: create_recording_def web_recording_def or_default_def)
  have none: "\<forall>l \<in> set (login_records (sd_trail db)). lo_SessionID l \<noteq> sessionID"
    "\<forall>r \<in> set (session_recordings (sd_trail db)). sr_SessionID r \<noteq> sessionID"
    using assms(3,5) by (metis imageI)+
  note new = update_where_snoc_new[OF none(1)] and newr = update_where_snoc_new[OF none(2)]
  have ids: "lo_SessionID ?l = sessionID" "sr_SessionID ?r = sessionID" by (simp_all add: web_login_def web_recording_def)
  show ?thesis
  proof (cases "open_shell X host su")
    case None
    then show ?thesis using l r new newr ids assms(1)
      by (simp add: handleDirectConnection_def web_open_def web_close_def or_same_def Let_def)
  next
    case (Some e)
    then show ?thesis using l new ids assms(1)
      by (simp add: handleDirectConnection_def web_open_def web_close_def or_same_def Let_def)
  qed
qed

section \<open>An instance\<close>

text \<open>The rules of last resort: \<open>reboot\<close> is blocked, in both ways of typing it.\<close>

definition rebooting :: string where "rebooting = ''reboot'' @ [chr 13] @ ''lx'' @ [chr 127] @ ''s'' @ [chr 13]"


theorem web_paste_bypasses_witness:
  "IsBlocked (NewManagerFromDB None) ''reboot'' ''bob'' \<and>
   host_executes (wb_stdin (web_session (session_checker (Some (NewManagerFromDB None)) ''bob'' ''10.0.0.1'') [WInput (Some (''reboot'' @ [chr 13]))])) = [''reboot'']"
proof
  show "IsBlocked (NewManagerFromDB None) ''reboot'' ''bob''" by code_simp
  have "list_all (\<lambda>ch. 32 \<le> ord ch \<and> ord ch < 127) ''reboot''" by code_simp
  from web_paste_bypasses[OF this disjI1[OF refl], of "session_checker (Some (NewManagerFromDB None)) ''bob'' ''10.0.0.1''"]
  show "host_executes (wb_stdin (web_session (session_checker (Some (NewManagerFromDB None)) ''bob'' ''10.0.0.1'')
    [WInput (Some (''reboot'' @ [chr 13]))])) = [''reboot'']" by simp
qed

definition web_db :: wdb where
  "web_db = \<lparr>wd_sessions = session_db\<lparr>sd_hosts := [blank_host\<lparr>ho_ID := ''h1'', ho_IP := ''10.0.0.1'', ho_Port := 22\<rparr>],
     sd_tokens := [''k'' \<mapsto> \<lparr>tk_Token = ''k'', tk_HostID = ''h9'', tk_UserID = ''u1'', tk_Username = [], tk_ExpiresAt = 60\<rparr>]\<rparr>,
     wd_perms = sample_granted, wd_settings = []\<rparr>"

definition web_ui :: UserInfo where "web_ui = \<lparr>ui_UserID = ''u1'', ui_Username = []\<rparr>"

text \<open>The token was made for another host, and without the name of its user.\<close>

theorem web_connection_permitted_witness:
  "(\<exists>d db'. HandleConnection sample_libs 50 ''h1'' ''k'' ''s1'' web_db = (Connect d web_ui sample_su, db')) \<and>
   CheckUserHasPermission 50 ''u1'' ''h1'' ''s1'' (wd_perms web_db)"
proof -
  obtain d db' where c: "HandleConnection sample_libs 50 ''h1'' ''k'' ''s1'' web_db = (Connect d web_ui sample_su, db')"
  proof -
    have "case fst (HandleConnection sample_libs 50 ''h1'' ''k'' ''s1'' web_db) of Connect d ui su \<Rightarrow> ui = web_ui \<and> su = sample_su | _ \<Rightarrow> False"
      by code_simp
    then show ?thesis using that
      by (cases "HandleConnection sample_libs 50 ''h1'' ''k'' ''s1'' web_db") (auto split: web_start.splits)
  qed
  from web_connection_permitted[OF c] c show ?thesis by (auto simp: web_ui_def sample_su_def)
qed

definition open_all :: shell_lib where
  "open_all = \<lparr>sl_ssh = \<lparr>parse_key = \<lambda>k p. None, ssh_dial = \<lambda>a u ms. None, ssh_session = None\<rparr>, sl_pty = None, sl_shell = None\<rparr>"

theorem web_session_recorded_witness:
  "map lo_Status (login_records (sd_trail (handleDirectConnection open_all 0 0 (90 * second) ''r'' ''s'' ''cast'' web_ui ''h1'' sample_su
     (wd_sessions web_db)))) = map lo_Status (login_records (sd_trail session_db)) @ [''completed'']"
proof -
  let ?h = "blank_host\<lparr>ho_ID := ''h1'', ho_IP := ''10.0.0.1'', ho_Port := 22\<rparr>"
  have h: "Host_FindByID ''h1'' (sd_hosts (wd_sessions web_db)) = Some ?h" by code_simp
  have o: "open_shell open_all ?h sample_su = None" by code_simp
  have fresh: "''s'' \<notin> lo_ID ` set (login_records (sd_trail (wd_sessions web_db)))" "''s'' \<notin> lo_SessionID ` set (login_records (sd_trail (wd_sessions web_db)))"
    "''r'' \<notin> sr_ID ` set (session_recordings (sd_trail (wd_sessions web_db)))" "''s'' \<notin> sr_SessionID ` set (session_recordings (sd_trail (wd_sessions web_db)))"
    by code_simp+
  have same: "sd_trail (wd_sessions web_db) = sd_trail session_db" by (simp add: web_db_def)
  from web_session_recorded[OF h fresh, of open_all 0 0 "90 * second" "''cast''" web_ui sample_su]
  show ?thesis by (simp add: Let_def o same)
qed

end
