(* ===== verification/Go_Json_Value.thy ===== *)
theory Go_Json_Value
imports Go_Json Go_Numbers
begin

text \<open>
  Go's package encoding/json on values of any shape (\<open>interface{}\<close>): \<open>json.Marshal\<close> and
  \<open>json.Unmarshal\<close> with their round trip, on valid UTF-8.  An object is the list of its members;
  \<open>go_map\<close> puts them in the order in which Go prints a map.  A number is kept as its literal.
\<close>

section \<open>Texts\<close>

text \<open>A text given by its code points.\<close>

definition utf8_point :: "int \<Rightarrow> string" where
  "utf8_point n = (if n < 128 then [char_of n]
     else if n < 2048 then [char_of (192 + n div 64), char_of (128 + n mod 64)]
     else if n < 65536 then [char_of (224 + n div 4096), char_of (128 + n div 64 mod 64), char_of (128 + n mod 64)]
     else [char_of (240 + n div 262144), char_of (128 + n div 4096 mod 64), char_of (128 + n div 64 mod 64), char_of (128 + n mod 64)])"

definition uni :: "int list \<Rightarrow> string" where "uni ns = concat (map utf8_point ns)"

section \<open>Values\<close>

datatype json = VNull | VBool bool | VNum string | VStr string | VArr "json list" | VObj "(string \<times> json) list"

definition go_map :: "(string \<times> json) list \<Rightarrow> json" where "go_map kvs = VObj (sort_key fst kvs)"

text \<open>The value of a key: of several members with one key the last counts.\<close>

definition json_field :: "string \<Rightarrow> (string \<times> json) list \<Rightarrow> json option" where "json_field k kvs = map_of (rev kvs) k"

definition json_text :: "json option \<Rightarrow> string option" where
  "json_text v = (case v of Some (VStr s) \<Rightarrow> Some s | _ \<Rightarrow> None)"

lemma size_snd_member: "kv \<in> set kvs \<Longrightarrow> size (snd kv) < Suc (size_list (size_prod (\<lambda>_. 0) size) kvs)"
  by (induction kvs) (auto simp: size_prod_def split: prod.splits)

function Marshal :: "json \<Rightarrow> string" where
  "Marshal VNull = ''null''"
| "Marshal (VBool b) = (if b then ''true'' else ''false'')"
| "Marshal (VNum n) = n"
| "Marshal (VStr s) = json_string s"
| "Marshal (VArr vs) = ''['' @ Join (map Marshal vs) '','' @ '']''"
| "Marshal (VObj kvs) = ''{'' @ Join (map (\<lambda>kv. json_string (fst kv) @ '':'' @ Marshal (snd kv)) kvs) '','' @ ''}''"
  by pat_completeness auto
termination by (relation "measure size") (auto simp: size_snd_member less_Suc_eq_le size_list_estimation')

section \<open>Parsing\<close>

definition digits_of :: "string \<Rightarrow> string \<times> string" where
  "digits_of s = (takeWhile is_digit s, dropWhile is_digit s)"

text \<open>A number literal: sign, integer part, fraction and exponent.\<close>

definition parse_number :: "string \<Rightarrow> (json \<times> string) option" where
  "parse_number s =
     (let (sg, s1) = (if prefix ''-'' s then (''-'', tl s) else ([], s)); (i, s2) = digits_of s1 in
      if i = [] \<or> hd i = CHR ''0'' \<and> tl i \<noteq> [] then None
      else (let (fp, s3) = (if prefix ''.'' s2 then (case digits_of (tl s2) of (d, r) \<Rightarrow> (''.'' @ d, r)) else ([], s2)) in
        if fp = ''.'' then None
        else if s3 \<noteq> [] \<and> (hd s3 = CHR ''e'' \<or> hd s3 = CHR ''E'') then
          (let (es, s4) = (if tl s3 \<noteq> [] \<and> (hd (tl s3) = CHR ''+'' \<or> hd (tl s3) = CHR ''-'') then ([hd s3, hd (tl s3)], tl (tl s3)) else ([hd s3], tl s3));
               (d, r) = digits_of s4
           in if d = [] then None else Some (VNum (sg @ i @ fp @ es @ d), r))
        else Some (VNum (sg @ i @ fp), s3)))"

text \<open>The first argument bounds the depth of the calls; \<open>Unmarshal\<close> gives twice the length of the
  document, and every two calls consume a character.\<close>

fun parse_value :: "nat \<Rightarrow> string \<Rightarrow> (json \<times> string) option"
and parse_array :: "nat \<Rightarrow> string \<Rightarrow> (json list \<times> string) option"
and parse_members :: "nat \<Rightarrow> string \<Rightarrow> ((string \<times> json) list \<times> string) option" where
  "parse_value 0 s = None"
| "parse_value (Suc n) s = (case skip_ws s of
     [] \<Rightarrow> None
   | c # r \<Rightarrow>
       (if c = CHR 0x22 then map_option (\<lambda>(w, q). (VStr w, q)) (parse_chars r)
        else if c = CHR ''['' then
          (if prefix '']'' (skip_ws r) then Some (VArr [], tl (skip_ws r)) else map_option (\<lambda>(vs, q). (VArr vs, q)) (parse_array n r))
        else if c = CHR ''{'' then
          (if prefix ''}'' (skip_ws r) then Some (VObj [], tl (skip_ws r)) else map_option (\<lambda>(kvs, q). (VObj kvs, q)) (parse_members n r))
        else if prefix ''null'' (c # r) then Some (VNull, drop 3 r)
        else if prefix ''true'' (c # r) then Some (VBool True, drop 3 r)
        else if prefix ''false'' (c # r) then Some (VBool False, drop 4 r)
        else parse_number (c # r)))"
| "parse_array 0 s = None"
| "parse_array (Suc n) s = (case parse_value n s of
     None \<Rightarrow> None
   | Some (v, r) \<Rightarrow> (case skip_ws r of
       [] \<Rightarrow> None
     | d # q \<Rightarrow> (if d = CHR '','' then map_option (\<lambda>(vs, q). (v # vs, q)) (parse_array n q)
                else if d = CHR '']'' then Some ([v], q) else None)))"
| "parse_members 0 s = None"
| "parse_members (Suc n) s = (case skip_ws s of
     [] \<Rightarrow> None
   | c # r \<Rightarrow> (if c \<noteq> CHR 0x22 then None else (case parse_chars r of
       None \<Rightarrow> None
     | Some (k, r1) \<Rightarrow> (case skip_ws r1 of
         [] \<Rightarrow> None
       | d # q \<Rightarrow> (if d \<noteq> CHR '':'' then None else (case parse_value n q of
           None \<Rightarrow> None
         | Some (v, r2) \<Rightarrow> (case skip_ws r2 of
             [] \<Rightarrow> None
           | e # t \<Rightarrow> (if e = CHR '','' then map_option (\<lambda>(kvs, q). ((k, v) # kvs, q)) (parse_members n t)
                      else if e = CHR ''}'' then Some ([(k, v)], t) else None)))))))) "

definition Unmarshal :: "string \<Rightarrow> json option" where
  "Unmarshal s = (case parse_value (2 * length s) s of
     Some (v, r) \<Rightarrow> if skip_ws r = [] then Some v else None | None \<Rightarrow> None)"

text \<open>Into a \<open>map[string]interface{}\<close> and a list of them: \<open>null\<close> is the empty map and the empty list.\<close>

definition as_map :: "json \<Rightarrow> (string \<times> json) list option" where
  "as_map v = (case v of VObj kvs \<Rightarrow> Some kvs | VNull \<Rightarrow> Some [] | _ \<Rightarrow> None)"

definition UnmarshalMaps :: "string \<Rightarrow> (string \<times> json) list list option" where
  "UnmarshalMaps s = (case Unmarshal s of
     Some (VArr vs) \<Rightarrow> those (map as_map vs) | Some VNull \<Rightarrow> Some [] | _ \<Rightarrow> None)"

section \<open>Round trip\<close>

text \<open>Values whose numbers are integers.\<close>

function plain_json :: "json \<Rightarrow> bool" where
  "plain_json VNull = True"
| "plain_json (VBool b) = True"
| "plain_json (VNum n) = (\<exists>i. n = print_int i)"
| "plain_json (VStr s) = True"
| "plain_json (VArr vs) = (\<forall>v \<in> set vs. plain_json v)"
| "plain_json (VObj kvs) = (\<forall>kv \<in> set kvs. plain_json (snd kv))"
  by pat_completeness auto
termination by (relation "measure size") (auto simp: size_snd_member less_Suc_eq_le size_list_estimation')

lemma plain_go_map [simp]: "plain_json (go_map kvs) \<longleftrightarrow> (\<forall>kv \<in> set kvs. plain_json (snd kv))"
  by (simp add: go_map_def)

text \<open>What follows a value inside a document.\<close>

definition delimited :: "string \<Rightarrow> bool" where
  "delimited r \<longleftrightarrow> r = [] \<or> hd r = CHR '','' \<or> hd r = CHR '']'' \<or> hd r = CHR ''}''"

lemma delimited_simps [simp]: "delimited []" "delimited (CHR '','' # r)" "delimited (CHR '']'' # r)" "delimited (CHR ''}'' # r)"
  by (simp_all add: delimited_def)

lemma skip_ws_other: "\<not> json_ws c \<Longrightarrow> skip_ws (c # r) = c # r"
  by (simp add: skip_ws_def)

lemma digits_of_delimited: "list_all is_digit ds \<Longrightarrow> delimited r \<Longrightarrow> digits_of (ds @ r) = (ds, r)"
  by (cases r) (auto simp: digits_of_def delimited_def takeWhile_append2 dropWhile_append2 list_all_iff is_digit_def)

lemma print_digits_leading: "0 \<le> n \<Longrightarrow> \<not> (hd (print_digits n) = CHR ''0'' \<and> tl (print_digits n) \<noteq> [])"
proof (induction n rule: print_digits.induct)
  case (1 n)
  show ?case
  proof (cases "n < 10")
    case True
    then show ?thesis by (simp add: print_digits.simps[of n])
  next
    case False
    then have IH: "\<not> (hd (print_digits (n div 10)) = CHR ''0'' \<and> tl (print_digits (n div 10)) \<noteq> [])" using 1 by simp
    have "hd (print_digits (n div 10)) \<noteq> CHR ''0''"
    proof
      assume h: "hd (print_digits (n div 10)) = CHR ''0''"
      then have "tl (print_digits (n div 10)) = []" using IH by blast
      then have "print_digits (n div 10) = [CHR ''0'']" using h print_digits_ok[of "n div 10"] False by (metis list.collapse linorder_not_less pos_imp_zdiv_nonneg_iff zero_less_numeral order_trans zero_le_numeral)
      then have "n div 10 = 0" using print_digits_ok[of "n div 10"] False by (simp add: digits_value_def)
      then show False using False by simp
    qed
    then show ?thesis using print_digits_ok[of "n div 10"] False by (simp add: print_digits.simps[of n])
  qed
qed

lemma parse_number_int: "delimited r \<Longrightarrow> parse_number (print_int i @ r) = Some (VNum (print_int i), r)"
proof -
  assume r: "delimited r"
  define ds where "ds = print_digits \<bar>i\<bar>"
  have ds: "ds \<noteq> []" "list_all is_digit ds" "\<not> (hd ds = CHR ''0'' \<and> tl ds \<noteq> [])"
    using print_digits_ok[of "\<bar>i\<bar>"] print_digits_leading[of "\<bar>i\<bar>"] by (simp_all add: ds_def)
  have d: "digits_of (ds @ r) = (ds, r)" by (rule digits_of_delimited[OF ds(2) r])
  have m: "\<not> prefix ''-'' (ds @ r)" using ds(1,2) by (cases ds) (auto simp: is_digit_def)
  have e: "\<not> prefix ''.'' r" "\<not> (r \<noteq> [] \<and> (hd r = CHR ''e'' \<or> hd r = CHR ''E''))"
    using r by (auto simp: delimited_def prefix_def)
  have p: "print_int i = (if i < 0 then ''-'' else []) @ ds" by (simp add: print_int_def ds_def)
  show ?thesis using d m e ds(1,3) unfolding p parse_number_def by (cases "i < 0") (auto simp: Let_def)
qed

text \<open>How a printed value begins.\<close>

lemma print_int_begins: "\<exists>c s. print_int i = c # s \<and> (is_digit c \<or> c = CHR ''-'')"
  using print_digits_ok[of "\<bar>i\<bar>"] by (cases "print_digits \<bar>i\<bar>") (auto simp: print_int_def)

lemma Marshal_begins:
  assumes "plain_json v"
  shows "\<exists>c s. Marshal v = c # s \<and> \<not> json_ws c \<and> c \<noteq> CHR '']'' \<and> c \<noteq> CHR ''}''"
proof (cases v)
  case (VNum n)
  then obtain i where i: "n = print_int i" using assms by auto
  from print_int_begins[of i] obtain c s where "print_int i = c # s" "is_digit c \<or> c = CHR ''-''" by blast
  then show ?thesis using VNum i by (auto simp: is_digit_def json_ws_def)
next
  case (VBool b)
  then show ?thesis by (cases b) (auto simp: json_ws_def)
qed (auto simp: json_ws_def json_string_def)

lemma skip_ws_Marshal: "plain_json v \<Longrightarrow> skip_ws (Marshal v @ r) = Marshal v @ r"
  using Marshal_begins[of v] by (auto simp: skip_ws_other)

lemma not_closing: "plain_json v \<Longrightarrow> \<not> prefix '']'' (Marshal v @ r) \<and> \<not> prefix ''}'' (Marshal v @ r)"
  using Marshal_begins[of v] by auto

text \<open>Elements and members, given the round trip of the values in them.\<close>

definition reads :: "json \<Rightarrow> bool" where
  "reads v \<longleftrightarrow> (\<forall>n r. 2 * length (Marshal v) \<le> n \<longrightarrow> delimited r \<longrightarrow> parse_value n (Marshal v @ r) = Some (v, r))"

lemma Join_Cons_ne: "xs \<noteq> [] \<Longrightarrow> Join (x # xs) sep = x @ sep @ Join xs sep"
  by (cases xs) simp_all

lemma parse_array_reads:
  assumes "\<forall>v \<in> set vs. reads v" "vs \<noteq> []" "2 * length (Join (map Marshal vs) '','') < n"
  shows "parse_array n (Join (map Marshal vs) '','' @ '']'' @ r) = Some (vs, r)"
  using assms
proof (induction vs arbitrary: n)
  case (Cons v vs)
  obtain m where n: "n = Suc m" using Cons.prems(3) by (cases n) auto
  show ?case
  proof (cases "vs = []")
    case True
    then have "parse_value m (Marshal v @ '']'' @ r) = Some (v, '']'' @ r)" using Cons.prems n by (simp add: reads_def)
    then show ?thesis using True n by (simp add: skip_ws_other json_ws_def)
  next
    case False
    let ?rest = "Join (map Marshal vs) '','' @ '']'' @ r"
    have j: "Join (map Marshal (v # vs)) '','' = Marshal v @ '','' @ Join (map Marshal vs) '',''"
      using Join_Cons_ne[of "map Marshal vs" "Marshal v" "'',''"] False by simp
    then have "parse_value m (Marshal v @ '','' @ ?rest) = Some (v, '','' @ ?rest)" using Cons.prems(1,3) n by (simp add: reads_def)
    moreover have "parse_array m ?rest = Some (vs, r)" using Cons.IH[of m] Cons.prems(1,3) False n j by simp
    ultimately show ?thesis unfolding n j by (simp add: skip_ws_other json_ws_def)
  qed
qed simp

abbreviation member_text :: "string \<times> json \<Rightarrow> string" where
  "member_text kv \<equiv> json_string (fst kv) @ '':'' @ Marshal (snd kv)"

lemma parse_members_reads:
  assumes "\<forall>kv \<in> set kvs. reads (snd kv)" "kvs \<noteq> []" "2 * length (Join (map member_text kvs) '','') < n"
  shows "parse_members n (Join (map member_text kvs) '','' @ ''}'' @ r) = Some (kvs, r)"
  using assms
proof (induction kvs arbitrary: n)
  case (Cons kv kvs)
  obtain m where n: "n = Suc m" using Cons.prems(3) by (cases n) auto
  have key: "parse_chars (concat (map json_char (fst kv)) @ CHR 0x22 # x) = Some (fst kv, x)" for x
    by (rule parse_json_chars)
  show ?case
  proof (cases "kvs = []")
    case True
    then have "parse_value m (Marshal (snd kv) @ ''}'' @ r) = Some (snd kv, ''}'' @ r)" using Cons.prems n by (simp add: reads_def)
    then show ?thesis using True n key by (simp add: json_string_def skip_ws_other json_ws_def)
  next
    case False
    let ?rest = "Join (map member_text kvs) '','' @ ''}'' @ r"
    have j: "Join (map member_text (kv # kvs)) '','' = member_text kv @ '','' @ Join (map member_text kvs) '',''"
      using Join_Cons_ne[of "map member_text kvs" "member_text kv" "'',''"] False by simp
    then have "parse_value m (Marshal (snd kv) @ '','' @ ?rest) = Some (snd kv, '','' @ ?rest)" using Cons.prems(1,3) n by (simp add: reads_def)
    moreover have "parse_members m ?rest = Some (kvs, r)" using Cons.IH[of m] Cons.prems(1,3) False n j by simp
    ultimately show ?thesis unfolding n j using key by (simp add: json_string_def skip_ws_other json_ws_def)
  qed
qed simp

lemma reads_num: "reads (VNum (print_int i))"
  unfolding reads_def
proof (intro allI impI)
  fix n r assume n: "2 * length (Marshal (VNum (print_int i))) \<le> n" and r: "delimited r"
  from print_int_begins[of i] obtain c s where cs: "print_int i = c # s" "is_digit c \<or> c = CHR ''-''" by blast
  obtain m where m: "n = Suc m" using n cs(1) by (cases n) auto
  have c: "c \<noteq> CHR 0x22" "c \<noteq> CHR ''[''" "c \<noteq> CHR ''{''" "c \<noteq> CHR ''n''" "c \<noteq> CHR ''t''" "c \<noteq> CHR ''f''" "\<not> json_ws c"
    using cs(2) by (auto simp: is_digit_def json_ws_def)
  then show "parse_value n (Marshal (VNum (print_int i)) @ r) = Some (VNum (print_int i), r)"
    using parse_number_int[OF r, of i] by (simp add: m cs(1) skip_ws_other)
qed

lemma reads_plain: "plain_json v \<Longrightarrow> reads v"
proof (induction v rule: plain_json.induct)
  case (3 n)
  then show ?case using reads_num by auto
next
  case (2 b)
  show ?case unfolding reads_def
  proof (intro allI impI)
    fix n r assume "2 * length (Marshal (VBool b)) \<le> n"
    then obtain m where "n = Suc m" by (cases n) (auto split: if_splits)
    then show "parse_value n (Marshal (VBool b) @ r) = Some (VBool b, r)" by (simp add: skip_ws_other json_ws_def)
  qed
next
  case (4 s)
  show ?case unfolding reads_def
  proof (intro allI impI)
    fix n r assume "2 * length (Marshal (VStr s)) \<le> n"
    then obtain m where "n = Suc m" by (cases n) (auto simp: json_string_def)
    then show "parse_value n (Marshal (VStr s) @ r) = Some (VStr s, r)"
      using parse_json_chars[of s r] by (simp add: json_string_def)
  qed
next
  case (5 vs)
  show ?case unfolding reads_def
  proof (intro allI impI)
    fix n r assume n: "2 * length (Marshal (VArr vs)) \<le> n"
    then obtain m where m: "n = Suc m" by (cases n) auto
    show "parse_value n (Marshal (VArr vs) @ r) = Some (VArr vs, r)"
    proof (cases vs)
      case Nil
      then show ?thesis by (simp add: m skip_ws_other json_ws_def)
    next
      case (Cons v us)
      have "parse_array m (Join (map Marshal vs) '','' @ '']'' @ r) = Some (vs, r)"
        by (rule parse_array_reads) (use 5 Cons n m in auto)
      moreover have "\<exists>x. Join (map Marshal vs) '','' = Marshal v @ x" using Cons by (cases us) auto
      ultimately show ?thesis using skip_ws_Marshal[of v] not_closing[of v] 5(2) Cons
        by (auto simp: m skip_ws_other json_ws_def)
    qed
  qed
next
  case (6 kvs)
  show ?case unfolding reads_def
  proof (intro allI impI)
    fix n r assume n: "2 * length (Marshal (VObj kvs)) \<le> n"
    then obtain m where m: "n = Suc m" by (cases n) auto
    show "parse_value n (Marshal (VObj kvs) @ r) = Some (VObj kvs, r)"
    proof (cases kvs)
      case Nil
      then show ?thesis by (simp add: m skip_ws_other json_ws_def)
    next
      case (Cons kv us)
      have "parse_members m (Join (map member_text kvs) '','' @ ''}'' @ r) = Some (kvs, r)"
        by (rule parse_members_reads) (use 6 Cons n m in auto)
      moreover have "\<exists>x. Join (map member_text kvs) '','' = CHR 0x22 # x" using Cons by (cases us) (auto simp: json_string_def)
      ultimately show ?thesis by (auto simp: m skip_ws_other json_ws_def)
    qed
  qed
next
  case 1
  show ?case unfolding reads_def
  proof (intro allI impI)
    fix n r assume "2 * length (Marshal VNull) \<le> n"
    then obtain m where "n = Suc m" by (cases n) auto
    then show "parse_value n (Marshal VNull @ r) = Some (VNull, r)" by (simp add: skip_ws_other json_ws_def)
  qed
qed

lemma Unmarshal_Marshal_value:
  assumes "plain_json v"
  shows "Unmarshal (Marshal v) = Some v"
proof -
  have "parse_value (2 * length (Marshal v)) (Marshal v @ []) = Some (v, [])"
    using reads_plain[OF assms] delimited_simps(1) unfolding reads_def by blast
  then show ?thesis by (simp add: Unmarshal_def skip_ws_def)
qed

end
