(* ===== verification/Notification.thy ===== *)
theory Notification
imports Go_Json_Value Go_Base64 Settings Blacklist_Manager
begin

text \<open>
  Alerts to chat services: \<open>internal/notification/notification.go\<close> and \<open>init.go\<close>.  The manager
  keeps the notifiers that the settings enable; an alert is one request per notifier, sent by a
  goroutine of its own.  The keyed hash, the text of a time and the answers of the services are
  arguments.  The texts of the messages are given by their code points.
\<close>

section \<open>Notifiers\<close>

text \<open>A format with places for texts: the pieces between the places, and the texts.\<close>

fun sprintf :: "string list \<Rightarrow> string list \<Rightarrow> string" where
  "sprintf (p # ps) (x # xs) = p @ x @ sprintf ps xs"
| "sprintf ps [] = concat ps"
| "sprintf [] xs = concat xs"

datatype Notifier = FeishuNotifier string string | DingTalkNotifier string string | WeChatNotifier string

record note_lib =
  nl_hmac :: "string \<Rightarrow> string \<Rightarrow> string"
  nl_format :: "time \<Rightarrow> string"
  nl_post :: "string \<Rightarrow> string \<Rightarrow> string + nat"

definition feishu_genSign :: "note_lib \<Rightarrow> string \<Rightarrow> int \<Rightarrow> string" where
  "feishu_genSign N secret timestamp =
     (if secret = [] then [] else EncodeToString (nl_hmac N (print_int timestamp @ [chr 10] @ secret) []))"

definition dingtalk_genSign :: "note_lib \<Rightarrow> string \<Rightarrow> int \<Rightarrow> string" where
  "dingtalk_genSign N secret timestamp =
     (if secret = [] then [] else EncodeToString (nl_hmac N secret (print_int timestamp @ [chr 10] @ secret)))"

text \<open>A request and its error, if any.\<close>

definition post_message :: "note_lib \<Rightarrow> string \<Rightarrow> string \<Rightarrow> json \<Rightarrow> string option" where
  "post_message N service url message = (case nl_post N url (Marshal message) of
     Inl e \<Rightarrow> Some (''send request failed: '' @ e)
   | Inr code \<Rightarrow> if code \<noteq> 200 then Some (service @ '' returned non-200 status: '' @ print_int (int code)) else None)"

subsection \<open>Feishu\<close>

definition lark_text :: "string \<Rightarrow> json" where "lark_text s = go_map [(''content'', VStr s), (''tag'', VStr ''lark_md'')]"

definition plain_text :: "string \<Rightarrow> json" where "plain_text s = go_map [(''tag'', VStr ''plain_text''), (''content'', VStr s)]"

definition feishu_card :: "note_lib \<Rightarrow> string \<Rightarrow> time \<Rightarrow> string \<Rightarrow> string \<Rightarrow> json list \<Rightarrow> json" where
  "feishu_card N secret now title colour elements =
     (let timestamp = trunc_div now second in
      go_map [(''timestamp'', VStr (print_int timestamp)), (''sign'', VStr (feishu_genSign N secret timestamp)), (''msg_type'', VStr ''interactive''),
        (''card'', go_map [(''header'', go_map [(''title'', plain_text title), (''template'', VStr colour)]), (''elements'', VArr elements)])])"

definition card_div :: "string \<Rightarrow> json" where "card_div s = go_map [(''tag'', VStr ''div''), (''text'', lark_text s)]"

definition card_hr :: json where "card_hr = go_map [(''tag'', VStr ''hr'')]"

definition card_note :: "string \<Rightarrow> json" where "card_note s = go_map [(''tag'', VStr ''note''), (''elements'', VArr [plain_text s])]"

definition card_fields :: "string list \<Rightarrow> json" where
  "card_fields ss = go_map [(''tag'', VStr ''div''),
     (''fields'', VArr (map (\<lambda>s. go_map [(''is_short'', VBool True), (''text'', lark_text s)]) ss))]"

definition feishu_alert :: "note_lib \<Rightarrow> string \<Rightarrow> time \<Rightarrow> string \<Rightarrow> string \<Rightarrow> json" where
  "feishu_alert N secret now title content = feishu_card N secret now title ''red''
     [card_div content, card_hr, card_note (uni [21578, 35686, 26102, 38388] @ '': '' @ nl_format N now)]"

definition risk_level :: "string \<Rightarrow> string" where
  "risk_level command = (if length command < 20 then uni [128992] @ '' '' @ uni [20013, 21361] else '' '' @ uni [39640, 21361])"

definition alert_title :: string where "alert_title = uni [128680] @ '' '' @ uni [21361, 38505, 21629, 20196, 25318, 25130, 21578, 35686]"

definition feishu_command_alert :: "note_lib \<Rightarrow> string \<Rightarrow> time \<Rightarrow> string \<Rightarrow> string \<Rightarrow> string \<Rightarrow> string \<Rightarrow> json" where
  "feishu_command_alert N secret now username hostIP command reason =
     feishu_card N secret now alert_title (if length command < 20 then ''orange'' else ''red'')
       [card_div (''**'' @
       uni [26816, 27979, 21040, 29992, 25143, 23581, 35797, 25191, 34892, 21361, 38505, 21629, 20196, 65292, 24050, 34987, 31995, 32479, 25318, 25130, 65281] @
       ''**''), card_hr,
        card_fields [sprintf [''**'' @ uni [128100] @ '' '' @ uni [25805, 20316, 29992, 25143] @ ''**'' @ uni [10]] [username], sprintf [''**'' @ uni [128421, 65039] @ '' '' @ uni [30446, 26631, 20027, 26426] @ ''**'' @ uni [10]] [hostIP]],
        card_fields [sprintf [''** '' @ uni [21361, 38505, 31561, 32423] @ ''**'' @ uni [10]] [risk_level command], sprintf [''**'' @ uni [128336] @ '' '' @ uni [21578, 35686, 26102, 38388] @ ''**'' @ uni [10]] [nl_format N now]],
        card_hr,
        card_div (sprintf [''**'' @ uni [128187] @ '' '' @ uni [25318, 25130, 21629, 20196] @ ''**'' @ uni [10] @ ''```'' @
       uni [10], uni [10] @ ''```''] [command]),
        card_div (sprintf [''**'' @ uni [128203] @ '' '' @ uni [25318, 25130, 21407, 22240] @ ''**'' @ uni [10]] [reason]),
        card_hr, card_note (uni [128737, 65039] @ '' '' @
       uni [31995, 32479, 24050, 33258, 21160, 25318, 25130, 35813, 21629, 20196, 65292, 35831, 21450, 26102, 26680, 26597, 29992, 25143, 25805, 20316, 24847, 22270])]"

subsection \<open>DingTalk and WeChat\<close>

definition dingtalk_message :: "note_lib \<Rightarrow> string \<Rightarrow> time \<Rightarrow> string \<Rightarrow> string \<Rightarrow> json" where
  "dingtalk_message N secret now title content =
     (let timestamp = trunc_div now 1000000 in
      go_map ([(''msgtype'', VStr ''markdown''), (''markdown'', go_map [(''title'', VStr title), (''text'', VStr content)]),
         (''at'', go_map [(''isAtAll'', VBool False)])] @
       (if secret \<noteq> [] then [(''timestamp'', VNum (print_int timestamp)), (''sign'', VStr (dingtalk_genSign N secret timestamp))] else [])))"

definition dingtalk_url :: "note_lib \<Rightarrow> string \<Rightarrow> string \<Rightarrow> time \<Rightarrow> string" where
  "dingtalk_url N webhook secret now =
     (let timestamp = trunc_div now 1000000 in
      if secret \<noteq> [] then webhook @ ''&timestamp='' @ print_int timestamp @ ''&sign='' @ dingtalk_genSign N secret timestamp else webhook)"

definition dingtalk_template :: "string list" where
  "dingtalk_template =
     [''## '' @ uni [128680] @ '' '' @
       uni [21361, 38505, 21629, 20196, 25318, 25130, 21578, 35686, 10, 10] @ ''---'' @ uni [10, 10] @
       ''> **'' @
       uni [26816, 27979, 21040, 29992, 25143, 23581, 35797, 25191, 34892, 21361, 38505, 21629, 20196, 65292, 24050, 34987, 31995, 32479, 25318, 25130, 65281] @
       ''**'' @ uni [10, 10] @ ''---'' @ uni [10, 10] @ ''### '' @ uni [128203] @ '' '' @
       uni [21578, 35686, 35814, 24773, 10, 10] @ ''- **'' @ uni [128100] @ '' '' @
       uni [25805, 20316, 29992, 25143, 65306] @ ''** '',
      uni [10] @ ''- **'' @ uni [128421, 65039] @ '' '' @ uni [30446, 26631, 20027, 26426, 65306] @
       ''** '',
      uni [10] @ ''- ** '' @ uni [21361, 38505, 31561, 32423, 65306] @ ''** '',
      uni [10] @ ''- **'' @ uni [128336] @ '' '' @ uni [21578, 35686, 26102, 38388, 65306] @ ''** '',
      uni [10, 10] @ ''---'' @ uni [10, 10] @ ''### '' @ uni [128187] @ '' '' @
       uni [25318, 25130, 21629, 20196, 10, 10] @ ''```'' @ uni [10],
      uni [10] @ ''```'' @ uni [10, 10] @ ''###  '' @ uni [25318, 25130, 21407, 22240, 10, 10] @ ''> '',
      uni [10, 10] @ ''---'' @ uni [10, 10] @ ''### '' @ uni [128737, 65039] @ '' '' @
       uni [23433, 20840, 24314, 35758, 10, 10] @ ''-  '' @
       uni [31995, 32479, 24050, 33258, 21160, 25318, 25130, 35813, 21629, 20196, 10] @ ''-  '' @
       uni [35831, 21450, 26102, 26680, 26597, 29992, 25143, 25805, 20316, 24847, 22270, 10] @ ''- '' @
       uni [128222] @ '' '' @
       uni [22914, 26377, 30097, 38382, 35831, 32852, 31995, 23433, 20840, 22242, 38431, 10, 10] @ ''---'' @
       uni [10, 10] @ ''*'' @ uni [21578, 35686, 26469, 28304, 65306] @ ''ZJump '' @
       uni [22561, 22418, 26426, 31995, 32479] @ ''*'']"

definition dingtalk_content :: "note_lib \<Rightarrow> time \<Rightarrow> string \<Rightarrow> string \<Rightarrow> string \<Rightarrow> string \<Rightarrow> string" where
  "dingtalk_content N now username hostIP command reason =
     sprintf dingtalk_template [username, hostIP, risk_level command, nl_format N now, command, reason]"

definition wechat_message :: "string \<Rightarrow> json" where
  "wechat_message content = go_map [(''msgtype'', VStr ''markdown''), (''markdown'', go_map [(''content'', VStr content)])]"

definition wechat_template :: "string list" where
  "wechat_template =
     [''## '' @ uni [128680] @ '' '' @
       uni [21361, 38505, 21629, 20196, 25318, 25130, 21578, 35686, 10, 10] @ ''---'' @ uni [10, 10] @
       ''> <font color='' @ uni [34] @ ''warning'' @ uni [34] @ ''>**'' @
       uni [26816, 27979, 21040, 29992, 25143, 23581, 35797, 25191, 34892, 21361, 38505, 21629, 20196, 65292, 24050, 34987, 31995, 32479, 25318, 25130, 65281] @
       ''**</font>'' @ uni [10, 10] @ ''---'' @ uni [10, 10] @ ''### '' @ uni [128203] @ '' '' @
       uni [21578, 35686, 35814, 24773, 10, 10] @ ''> **'' @ uni [128100] @ '' '' @
       uni [25805, 20316, 29992, 25143, 65306] @ ''**'',
      uni [10] @ ''> **'' @ uni [128421, 65039] @ '' '' @ uni [30446, 26631, 20027, 26426, 65306] @ ''**'',
      uni [10] @ ''> ** '' @ uni [21361, 38505, 31561, 32423, 65306] @ ''**'',
      uni [10] @ ''> **'' @ uni [128336] @ '' '' @ uni [21578, 35686, 26102, 38388, 65306] @ ''**'',
      uni [10, 10] @ ''---'' @ uni [10, 10] @ ''### '' @ uni [128187] @ '' '' @
       uni [25318, 25130, 21629, 20196, 10, 10] @ ''```'' @ uni [10],
      uni [10] @ ''```'' @ uni [10, 10] @ ''###  '' @ uni [25318, 25130, 21407, 22240, 10, 10] @ ''> '',
      uni [10, 10] @ ''---'' @ uni [10, 10] @ ''### '' @ uni [128737, 65039] @ '' '' @
       uni [23433, 20840, 24314, 35758, 10, 10] @ ''- <font color='' @ uni [34] @ ''info'' @ uni [34] @
       ''> '' @ uni [31995, 32479, 24050, 33258, 21160, 25318, 25130, 35813, 21629, 20196] @ ''</font>'' @
       uni [10] @ ''- <font color='' @ uni [34] @ ''warning'' @ uni [34] @ ''> '' @
       uni [35831, 21450, 26102, 26680, 26597, 29992, 25143, 25805, 20316, 24847, 22270] @ ''</font>'' @
       uni [10] @ ''- <font color='' @ uni [34] @ ''comment'' @ uni [34] @ ''>'' @ uni [128222] @ '' '' @
       uni [22914, 26377, 30097, 38382, 35831, 32852, 31995, 23433, 20840, 22242, 38431] @ ''</font>'' @
       uni [10, 10] @ ''---'' @ uni [10, 10] @ ''*'' @ uni [21578, 35686, 26469, 28304, 65306] @ ''ZJump '' @
       uni [22561, 22418, 26426, 31995, 32479] @ ''*'']"

definition wechat_content :: "note_lib \<Rightarrow> time \<Rightarrow> string \<Rightarrow> string \<Rightarrow> string \<Rightarrow> string \<Rightarrow> string" where
  "wechat_content N now username hostIP command reason =
     sprintf wechat_template [username, hostIP, risk_level command, nl_format N now, command, reason]"

subsection \<open>Sending\<close>

fun service_name :: "Notifier \<Rightarrow> string" where
  "service_name (FeishuNotifier w s) = ''feishu''"
| "service_name (DingTalkNotifier w s) = ''dingtalk''"
| "service_name (WeChatNotifier w) = ''wechat''"

fun notifier_url :: "note_lib \<Rightarrow> time \<Rightarrow> Notifier \<Rightarrow> string" where
  "notifier_url N now (FeishuNotifier webhook secret) = webhook"
| "notifier_url N now (DingTalkNotifier webhook secret) = dingtalk_url N webhook secret now"
| "notifier_url N now (WeChatNotifier webhook) = webhook"

fun alert_message :: "note_lib \<Rightarrow> time \<Rightarrow> Notifier \<Rightarrow> string \<Rightarrow> string \<Rightarrow> json" where
  "alert_message N now (FeishuNotifier webhook secret) title content = feishu_alert N secret now title content"
| "alert_message N now (DingTalkNotifier webhook secret) title content = dingtalk_message N secret now title content"
| "alert_message N now (WeChatNotifier webhook) title content = wechat_message (''## '' @ title @ [chr 10, chr 10] @ content)"

fun command_message :: "note_lib \<Rightarrow> time \<Rightarrow> Notifier \<Rightarrow> string \<Rightarrow> string \<Rightarrow> string \<Rightarrow> string \<Rightarrow> json" where
  "command_message N now (FeishuNotifier webhook secret) username hostIP command reason =
     feishu_command_alert N secret now username hostIP command reason"
| "command_message N now (DingTalkNotifier webhook secret) username hostIP command reason =
     dingtalk_message N secret now alert_title (dingtalk_content N now username hostIP command reason)"
| "command_message N now (WeChatNotifier webhook) username hostIP command reason =
     wechat_message (wechat_content N now username hostIP command reason)"

definition SendAlert :: "note_lib \<Rightarrow> time \<Rightarrow> Notifier \<Rightarrow> string \<Rightarrow> string \<Rightarrow> string option" where
  "SendAlert N now n title content = post_message N (service_name n) (notifier_url N now n) (alert_message N now n title content)"

definition SendDangerousCommandAlert :: "note_lib \<Rightarrow> time \<Rightarrow> Notifier \<Rightarrow> string \<Rightarrow> string \<Rightarrow> string \<Rightarrow> string \<Rightarrow> string option" where
  "SendDangerousCommandAlert N now n username hostIP command reason =
     post_message N (service_name n) (notifier_url N now n) (command_message N now n username hostIP command reason)"

section \<open>Manager\<close>

record NotificationManager =
  nm_notifiers :: "Notifier list"
  nm_enabled :: bool
  nm_db :: bool

definition NewNotificationManager :: NotificationManager where
  "NewNotificationManager = \<lparr>nm_notifiers = [], nm_enabled = False, nm_db = False\<rparr>"

definition SetEnabled :: "bool \<Rightarrow> NotificationManager \<Rightarrow> NotificationManager" where
  "SetEnabled enabled nm = nm\<lparr>nm_enabled := enabled\<rparr>"

definition IsEnabled :: "NotificationManager \<Rightarrow> bool" where
  "IsEnabled nm \<longleftrightarrow> nm_enabled nm \<and> nm_notifiers nm \<noteq> []"

definition AddNotifier :: "Notifier \<Rightarrow> NotificationManager \<Rightarrow> NotificationManager" where
  "AddNotifier n nm = nm\<lparr>nm_notifiers := nm_notifiers nm @ [n]\<rparr>"

text \<open>The requests of an alert, in the order in which their goroutines are started.  The errors
  of \<open>SendDangerousCommandAlert\<close> and \<open>SendAlert\<close> are only logged.\<close>

definition manager_command_alert :: "note_lib \<Rightarrow> time \<Rightarrow> NotificationManager \<Rightarrow> string \<Rightarrow> string \<Rightarrow> string \<Rightarrow> string \<Rightarrow> (string \<times> string) list" where
  "manager_command_alert N now nm username hostIP command reason =
     (if \<not> nm_enabled nm \<or> nm_notifiers nm = [] then []
      else map (\<lambda>n. (notifier_url N now n, Marshal (command_message N now n username hostIP command reason))) (nm_notifiers nm))"

definition SendSessionAlert :: "note_lib \<Rightarrow> time \<Rightarrow> NotificationManager \<Rightarrow> string \<Rightarrow> string \<Rightarrow> string \<Rightarrow> (string \<times> string) list" where
  "SendSessionAlert N now nm username hostIP action =
     (if \<not> IsEnabled nm then []
      else map (\<lambda>n. (notifier_url N now n, Marshal (alert_message N now n (uni [8505, 65039] @ '' '' @ uni [20250, 35805, 36890, 30693])
        (sprintf [''**'' @ uni [29992, 25143] @ ''**: '', uni [10] @ ''**'' @ uni [30446, 26631, 20027, 26426] @ ''**: '', uni [10] @ ''**'' @ uni [25805, 20316] @ ''**: '', uni [10] @ ''**'' @ uni [26102, 38388] @ ''**: ''] [username, hostIP, action, nl_format N now])))) (nm_notifiers nm))"

subsection \<open>Settings\<close>

definition setting_of :: "(string \<Rightarrow> string option) \<Rightarrow> string \<Rightarrow> string" where
  "setting_of m k = (case m k of None \<Rightarrow> [] | Some v \<Rightarrow> v)"

definition configured :: "(string \<Rightarrow> string option) \<Rightarrow> Notifier list" where
  "configured m =
     (if setting_of m ''enableFeishu'' = ''true'' \<and> setting_of m ''feishuWebhook'' \<noteq> []
      then [FeishuNotifier (setting_of m ''feishuWebhook'') (setting_of m ''feishuSecret'')] else []) @
     (if setting_of m ''enableDingTalk'' = ''true'' \<and> setting_of m ''dingTalkWebhook'' \<noteq> []
      then [DingTalkNotifier (setting_of m ''dingTalkWebhook'') (setting_of m ''dingTalkSecret'')] else []) @
     (if setting_of m ''enableWeChat'' = ''true'' \<and> setting_of m ''wechatWebhookURL'' \<noteq> []
      then [WeChatNotifier (setting_of m ''wechatWebhookURL'')] else [])"

definition notification_loadConfig :: "Setting list \<Rightarrow> NotificationManager \<Rightarrow> NotificationManager" where
  "notification_loadConfig t nm =
     (if \<not> nm_db nm then nm
      else (let m = settings_object (sort_key st_Key (filter (\<lambda>s. st_Category s = ''notification'') t));
                nm1 = fold AddNotifier (configured m) (nm\<lparr>nm_notifiers := [], nm_enabled := False\<rparr>)
            in nm1\<lparr>nm_enabled := configured m \<noteq> []\<rparr>))"

definition InitFromDatabase :: "Setting list \<Rightarrow> NotificationManager" where
  "InitFromDatabase t = notification_loadConfig t (NewNotificationManager\<lparr>nm_db := True\<rparr>)"

definition ReloadFromDatabase :: "Setting list \<Rightarrow> NotificationManager \<Rightarrow> NotificationManager" where
  "ReloadFromDatabase t nm = notification_loadConfig t nm"

text \<open>What a saved batch of settings makes the manager do.\<close>

definition serve_setting_event :: "Setting list \<Rightarrow> setting_event \<Rightarrow> NotificationManager \<Rightarrow> NotificationManager" where
  "serve_setting_event t ev nm = (case ev of ReloadNotification \<Rightarrow> ReloadFromDatabase t nm | _ \<Rightarrow> nm)"

section \<open>Messages\<close>

text \<open>The texts in a message.\<close>

function json_texts :: "json \<Rightarrow> string list" where
  "json_texts (VStr s) = [s]"
| "json_texts (VArr vs) = concat (map json_texts vs)"
| "json_texts (VObj kvs) = concat (map (\<lambda>kv. json_texts (snd kv)) kvs)"
| "json_texts VNull = []"
| "json_texts (VBool b) = []"
| "json_texts (VNum n) = []"
  by pat_completeness auto
termination by (relation "measure size") (auto simp: size_snd_member less_Suc_eq_le size_list_estimation')

definition mentions :: "string \<Rightarrow> json \<Rightarrow> bool" where "mentions s v \<longleftrightarrow> (\<exists>t \<in> set (json_texts v). sublist s t)"

lemma mentions_simps [simp]:
  "mentions s (VStr t) \<longleftrightarrow> sublist s t"
  "mentions s (VArr vs) \<longleftrightarrow> (\<exists>v \<in> set vs. mentions s v)"
  "mentions s (go_map kvs) \<longleftrightarrow> (\<exists>kv \<in> set kvs. mentions s (snd kv))"
  by (auto simp: mentions_def go_map_def)

lemma sublist_sprintf: "s \<in> set xs \<Longrightarrow> sublist s (sprintf ps xs)"
proof (induction ps xs rule: sprintf.induct)
  case (1 p ps x xs)
  then show ?case by (auto intro: sublist_append[THEN iffD2])
next
  case (3 x xs)
  then have "s \<in> set (x # xs)" by simp
  then obtain a b where "x # xs = a @ s # b" by (meson split_list)
  then have "concat (x # xs) = concat a @ s @ concat b" by simp
  then show ?case by (metis sprintf.simps(3) sublist_appendI)
qed simp

lemmas message_defs = feishu_command_alert_def feishu_card_def card_div_def card_hr_def card_note_def card_fields_def lark_text_def
  plain_text_def dingtalk_message_def wechat_message_def Let_def

lemma command_message_plain: "plain_json (command_message N now n username hostIP command reason)"
  by (cases n) (auto simp: message_defs simp del: sprintf.simps)

lemma command_message_mentions:
  assumes "s \<in> {username, hostIP, command, reason}"
  shows "mentions s (command_message N now n username hostIP command reason)"
proof -
  have "sublist s (dingtalk_content N now username hostIP command reason)" "sublist s (wechat_content N now username hostIP command reason)"
    unfolding dingtalk_content_def wechat_content_def by (rule sublist_sprintf, use assms in auto)+
  then show ?thesis using assms sublist_sprintf[of s "[s]"]
    by (cases n) (auto simp: message_defs simp del: sprintf.simps)
qed

section \<open>Alerts\<close>


lemma AddNotifier_fold: "fold AddNotifier ns nm = nm\<lparr>nm_notifiers := nm_notifiers nm @ ns\<rparr>"
  by (induction ns arbitrary: nm) (simp_all add: AddNotifier_def)

lemma serve_reloads: "fold (serve_setting_event t) es nm = fold (serve_setting_event t) (filter (\<lambda>e. e = ReloadNotification) es) nm"
  by (induction es arbitrary: nm) (auto simp: serve_setting_event_def split: setting_event.splits)

text \<open>Saved settings take effect.  After a batch with settings of the category notification, the manager, whatever it had
  before, has exactly the notifiers that are enabled and have an address in the saved settings, at most one per service,
  and alerts go out exactly if there is one.\<close>

theorem settings_reach_alerts:
  assumes "UpdateSettings True has_monitor has_sync (Some members) t = (code, evs, t')" "nm_db nm"
    and "(key, val, ''notification'', ty) \<in> set (concat (map member_rows members))"
  shows "let nm' = fold (serve_setting_event t') evs nm;
      conf = configured (settings_object (sort_key st_Key (filter (\<lambda>s. st_Category s = ''notification'') t'))) in
    nm_notifiers nm' = conf \<and> (IsEnabled nm' \<longleftrightarrow> conf \<noteq> []) \<and> distinct (map service_name conf)"
proof -
  have evs: "filter (\<lambda>e. e = ReloadNotification) evs = [ReloadNotification]" "t' = Setting_BatchUpsert (concat (map member_rows members)) t"
    using assms(1,3) by (auto simp: UpdateSettings_def Let_def list_ex_iff filter_empty_conv split: prod.splits if_splits)
  have "fold (serve_setting_event t') evs nm = notification_loadConfig t' nm"
    using serve_reloads[of t' evs nm] by (simp add: evs(1) serve_setting_event_def ReloadFromDatabase_def)
  moreover have "distinct (map service_name (configured m))" for m by (auto simp: configured_def)
  ultimately show ?thesis using assms(2) by (simp add: notification_loadConfig_def Let_def AddNotifier_fold IsEnabled_def)
qed

section \<open>The signature of DingTalk\<close>

text \<open>How a server reads the value of a parameter in a URL.\<close>

fun QueryUnescape :: "string \<Rightarrow> string option" where
  "QueryUnescape [] = Some []"
| "QueryUnescape (c # s) =
     (if c = CHR ''%'' then (case s of
        a # b # r \<Rightarrow> (case (hex_val a, hex_val b) of
          (Some x, Some y) \<Rightarrow> map_option ((#) (chr (16 * x + y))) (QueryUnescape r) | _ \<Rightarrow> None)
      | _ \<Rightarrow> None)
      else map_option ((#) (if c = CHR ''+'' then CHR '' '' else c)) (QueryUnescape s))"

lemma b64_percent: "b64_value CHR ''%'' = None"
  by (simp add: b64_value_def is_upper_def is_lower_def is_digit_def)

lemma b64_char_text: "n < 64 \<Longrightarrow> CHR ''%'' \<noteq> b64_char n"
  using b64_value_char [of n] by (metis b64_percent option.distinct(1))

lemma base64_no_percent: "CHR ''%'' \<notin> set (EncodeToString s)"
  by (induction s rule: EncodeToString.induct) (simp_all add: b64_char_text)

lemma QueryUnescape_plain: "CHR ''%'' \<notin> set s \<Longrightarrow> QueryUnescape s = Some (map (\<lambda>c. if c = CHR ''+'' then CHR '' '' else c) s)"
  by (induction s) auto

text \<open>The signature is put into the address as it is.  The service reads it unchanged exactly if it has no plus sign; with
  one, which base64 uses, it reads a space in its place and rejects the alert.\<close>

theorem dingtalk_sign_lost:
  "QueryUnescape (dingtalk_genSign N secret timestamp) = Some (dingtalk_genSign N secret timestamp) \<longleftrightarrow>
     CHR ''+'' \<notin> set (dingtalk_genSign N secret timestamp)"
proof -
  have "CHR ''%'' \<notin> set (dingtalk_genSign N secret timestamp)" by (simp add: dingtalk_genSign_def base64_no_percent)
  moreover have "map (\<lambda>c. if c = CHR ''+'' then CHR '' '' else c) s = s \<longleftrightarrow> CHR ''+'' \<notin> set s" for s by (induction s) auto
  ultimately show ?thesis by (simp add: QueryUnescape_plain)
qed

section \<open>An instance\<close>

definition note_sample :: note_lib where
  "note_sample = \<lparr>nl_hmac = \<lambda>k d. [chr 251, chr 239], nl_format = \<lambda>t. ''2026-01-01'', nl_post = \<lambda>u b. Inr 200\<rparr>"


theorem settings_reach_alerts_witness:
  "nm_notifiers (fold (serve_setting_event (snd (snd (UpdateSettings True False False
       (Some [(''notification'', Object [(''enableFeishu'', JBool True), (''feishuWebhook'', JString ''http://f'')])]) []))))
     (fst (snd (UpdateSettings True False False
       (Some [(''notification'', Object [(''enableFeishu'', JBool True), (''feishuWebhook'', JString ''http://f'')])]) [])))
     (InitFromDatabase [])) = [FeishuNotifier ''http://f'' []]"
proof -
  let ?ms = "[(''notification'', Object [(''enableFeishu'', JBool True), (''feishuWebhook'', JString ''http://f'')])]"
  obtain code evs t' where u: "UpdateSettings True False False (Some ?ms) [] = (code, evs, t')" by (metis prod_cases3)
  have db: "nm_db (InitFromDatabase [])" by code_simp
  have row: "(''enableFeishu'', ''true'', ''notification'', ''boolean'') \<in> set (concat (map member_rows ?ms))" by code_simp
  have t: "t' = snd (snd (UpdateSettings True False False (Some ?ms) []))" using u by simp
  have "configured (settings_object (sort_key st_Key (filter (\<lambda>s. st_Category s = ''notification'') t'))) = [FeishuNotifier ''http://f'' []]"
    unfolding t by code_simp
  with settings_reach_alerts[OF u db row] show ?thesis by (simp add: u Let_def)
qed

end
