(* ===== verification/Approval_Providers.thy ===== *)
theory Approval_Providers
imports Approvals Go_Json_Value Hosts
begin

text \<open>
  The clients of the approval platforms: \<open>internal/approval/feishu.go\<close>, \<open>dingtalk.go\<close> and
  \<open>wechat.go\<close>, and their registration in \<open>cmd/api-server/main.go\<close>.  An operation returns its
  result together with the requests it makes, in their order.  What a platform answers is an
  argument; so are the matching of SQL patterns, the text of a time and the text of a JSON error.
\<close>

section \<open>Requests\<close>

datatype http_method = GET | POST

record platform_request =
  rq_Method :: http_method
  rq_URL :: string
  rq_Headers :: "(string \<times> string) list"
  rq_Body :: "json option"

text \<open>An answer: the code and the message of the platform, and the other fields by their path; a field
  that is missing is empty.\<close>

record platform_reply =
  rp_code :: int
  rp_msg :: string
  rp_text :: "string \<Rightarrow> string"
  rp_int :: "string \<Rightarrow> int"

text \<open>A request fails with an error, or its body does not decode, or it is answered.\<close>

record platform_lib =
  lib_send :: "platform_request \<Rightarrow> string + (string + platform_reply)"
  lib_rfc3339 :: "int \<Rightarrow> string"
  lib_match :: sql_match
  lib_json_error :: "string \<Rightarrow> string"

type_synonym 'a outcome = "(string + 'a) \<times> platform_request list"

definition fails :: "string \<Rightarrow> 'a outcome" where "fails e = (Inl e, [])"

definition gives :: "'a \<Rightarrow> 'a outcome" where "gives x = (Inr x, [])"

definition and_then :: "'a outcome \<Rightarrow> ('a \<Rightarrow> 'b outcome) \<Rightarrow> 'b outcome" where
  "and_then m f = (case m of
     (Inl e, rs) \<Rightarrow> (Inl e, rs)
   | (Inr x, rs) \<Rightarrow> (case f x of (y, rs') \<Rightarrow> (y, rs @ rs')))"

definition wrap_error :: "string \<Rightarrow> 'a outcome \<Rightarrow> 'a outcome" where
  "wrap_error p m = (case m of (Inl e, rs) \<Rightarrow> (Inl (p @ e), rs) | (Inr x, rs) \<Rightarrow> (Inr x, rs))"

text \<open>One request: \<open>parse_failed\<close> stands before the error of a body that does not decode, \<open>refused\<close> is the
  error for a code other than 0.\<close>

definition call :: "platform_lib \<Rightarrow> string \<Rightarrow> (platform_reply \<Rightarrow> string) \<Rightarrow> platform_request \<Rightarrow> platform_reply outcome" where
  "call L parse_failed refused rq = (case lib_send L rq of
     Inl e \<Rightarrow> (Inl e, [rq])
   | Inr (Inl e) \<Rightarrow> (Inl (parse_failed @ e), [rq])
   | Inr (Inr r) \<Rightarrow> (if rp_code r \<noteq> 0 then Inl (refused r) else Inr r, [rq]))"

definition json_header :: "(string \<times> string) list" where "json_header = [(''Content-Type'', ''application/json'')]"

text \<open>\<open>json.Unmarshal\<close> into a list of strings: the list is filled also where an element is not a text and
  the error is reported; a document that is not JSON leaves it empty.\<close>

definition UnmarshalStringSlice :: "string \<Rightarrow> string list \<times> bool" where
  "UnmarshalStringSlice s = (case Unmarshal s of
     Some (VArr vs) \<Rightarrow> (map (\<lambda>v. case v of VStr w \<Rightarrow> w | _ \<Rightarrow> []) vs, list_all (\<lambda>v. case v of VNull \<Rightarrow> True | VStr w \<Rightarrow> True | _ \<Rightarrow> False) vs)
   | Some VNull \<Rightarrow> ([], True)
   | _ \<Rightarrow> ([], False))"

definition applicant :: "Approval \<Rightarrow> string" where
  "applicant a = (if a_ApplicantID a = [] then a_ApplicantName a else a_ApplicantID a)"

definition configured_approvers :: "ApprovalConfig \<Rightarrow> string list" where
  "configured_approvers cfg = (if cfg_ApproverUserIDs cfg \<noteq> [] then fst (UnmarshalStringSlice (cfg_ApproverUserIDs cfg)) else [])"

section \<open>Feishu\<close>

definition feishu_base :: "ApprovalConfig \<Rightarrow> string" where
  "feishu_base cfg = or_default ''https://open.larksuite.com/open-apis'' (cfg_APIBaseURL cfg)"

definition getTenantAccessToken :: "platform_lib \<Rightarrow> ApprovalConfig \<Rightarrow> string outcome" where
  "getTenantAccessToken L cfg =
     and_then (call L [] (\<lambda>r. (uni [33719, 21462, 39134, 20070, 35775, 38382, 20196, 29260, 22833, 36133] @ '' ['') @ print_int (rp_code r) @ '']: '' @ rp_msg r)
       \<lparr>rq_Method = POST, rq_URL = feishu_base cfg @ ''/auth/v3/tenant_access_token/internal'', rq_Headers = json_header,
        rq_Body = Some (go_map [(''app_id'', VStr (cfg_AppID cfg)), (''app_secret'', VStr (cfg_AppSecret cfg))])\<rparr>)
     (\<lambda>r. gives (rp_text r ''tenant_access_token''))"

definition getHostIPByName :: "platform_lib \<Rightarrow> string \<Rightarrow> Host list \<Rightarrow> string" where
  "getHostIPByName L hostName t = (case fst (Host_FindAll (lib_match L) 1 1 hostName [] t) of [] \<Rightarrow> [] | h # _ \<Rightarrow> ho_IP h)"

definition resource_line :: "platform_lib \<Rightarrow> Host list \<Rightarrow> string \<Rightarrow> string" where
  "resource_line L t name = (let ip = getHostIPByName L name t in
     if ip \<noteq> [] then name @ '' (IP: '' @ ip @ '')'' else name @ '' (IP: '' @ (uni [26410, 25214, 21040]) @ '')'')"

definition option_matches :: "string \<Rightarrow> string \<Rightarrow> bool" where
  "option_matches approvalType t \<longleftrightarrow>
     approvalType = ''host_access'' \<and> (t = ''host_access'' \<or> t = (uni [20027, 26426, 35775, 38382, 26435, 38480])) \<or>
     approvalType = ''host_group_access'' \<and> (t = ''host_group_access'' \<or> t = (uni [20027, 26426, 32452, 35775, 38382, 26435, 38480]))"

definition text_or_empty :: "json option \<Rightarrow> string" where
  "text_or_empty v = (case json_text v of None \<Rightarrow> [] | Some s \<Rightarrow> s)"

definition getApprovalTypeValue :: "string \<Rightarrow> (string \<times> json) list \<Rightarrow> string" where
  "getApprovalTypeValue approvalType field =
     (let found = (case json_field ''option'' field of
        Some (VArr opts) \<Rightarrow> List.find (\<lambda>m. option_matches approvalType (text_or_empty (json_field ''text'' m)))
          (concat (map (\<lambda>v. case v of VObj m \<Rightarrow> [m] | _ \<Rightarrow> []) opts))
      | _ \<Rightarrow> None)
      in case found of
        Some m \<Rightarrow> text_or_empty (json_field ''value'' m)
      | None \<Rightarrow> if approvalType = ''host_group_access'' then ''mh22s1w3-dipw4j04vb-0'' else ''mh22s1w3-nkqsak2eis-0'')"

definition field_value :: "platform_lib \<Rightarrow> Host list \<Rightarrow> Approval \<Rightarrow> (string \<times> json) list \<Rightarrow> string" where
  "field_value L t a field =
     (let name = text_or_empty (json_field ''name'' field) in
      if name = (uni [24037, 21333, 26631, 39064]) \<or> name = ''title'' then a_Title a
      else if name = (uni [35814, 32454, 25551, 36848]) \<or> name = ''description'' then a_Description a
      else if name = (uni [30003, 35831, 29702, 30001]) \<or> name = ''reason'' then a_Reason a
      else if name = (uni [30003, 35831, 36164, 28304]) \<or> name = ''resources'' then
        (if a_ResourceNames a \<noteq> [] then Join (map (resource_line L t) (a_ResourceNames a)) [chr 10] else a_ResourceType a)
      else if name = (uni [30003, 35831, 31867, 22411]) \<or> name = ''type'' then getApprovalTypeValue (a_Type a) field
      else if name = (uni [26435, 38480, 26102, 38271]) \<or> name = ''duration'' then print_int (a_Duration a)
      else [])"

definition or_null :: "json option \<Rightarrow> json" where "or_null v = (case v of None \<Rightarrow> VNull | Some x \<Rightarrow> x)"

definition form_item :: "platform_lib \<Rightarrow> Host list \<Rightarrow> Approval \<Rightarrow> (string \<times> json) list \<Rightarrow> json" where
  "form_item L t a field = go_map [(''id'', or_null (json_field ''id'' field)), (''type'', or_null (json_field ''type'' field)),
     (''value'', VStr (field_value L t a field))]"

text \<open>A list without any item is a nil slice, which prints as \<open>null\<close>.\<close>

definition form_document :: "platform_lib \<Rightarrow> Host list \<Rightarrow> Approval \<Rightarrow> (string \<times> json) list list \<Rightarrow> json" where
  "form_document L t a fds = (if fds = [] then VNull else VArr (map (form_item L t a) fds))"

definition buildFormContentFromConfig :: "platform_lib \<Rightarrow> ApprovalConfig \<Rightarrow> Host list \<Rightarrow> Approval \<Rightarrow> string + string" where
  "buildFormContentFromConfig L cfg t a = (case UnmarshalMaps (cfg_FormFields cfg) of
     None \<Rightarrow> Inl ((uni [35299, 26512, 34920, 21333, 23383, 27573, 37197, 32622, 22833, 36133] @ '': '') @ lib_json_error L (cfg_FormFields cfg))
   | Some fds \<Rightarrow> Inr (Marshal (form_document L t a fds)))"

definition feishu_buildFormContent :: "platform_lib \<Rightarrow> ApprovalConfig \<Rightarrow> Host list \<Rightarrow> Approval \<Rightarrow> string + string" where
  "feishu_buildFormContent L cfg t a =
     (if cfg_FormFields cfg \<noteq> [] then buildFormContentFromConfig L cfg t a
      else Inl (uni [26410, 37197, 32622, 34920, 21333, 23383, 27573, 65292, 35831, 22312, 24037, 21333, 23457, 25209, 37197, 32622, 20013, 35774, 32622] @
       ''form_fields''))"

definition bearer :: "string \<Rightarrow> string \<times> string" where "bearer token = (''Authorization'', ''Bearer '' @ token)"

definition createApprovalViaHTTP :: "platform_lib \<Rightarrow> ApprovalConfig \<Rightarrow> string \<Rightarrow> string \<Rightarrow> Approval \<Rightarrow> string outcome" where
  "createApprovalViaHTTP L cfg token formContent a =
     and_then (call L (uni [35299, 26512, 21709, 24212, 22833, 36133] @ '': '') (\<lambda>r. (''HTTP'' @ uni [35831, 27714, 22833, 36133] @ '' ['') @ print_int (rp_code r) @ '']: '' @ rp_msg r)
       \<lparr>rq_Method = POST, rq_URL = feishu_base cfg @ or_default ''/approval/v4/instances'' (cfg_APIPath cfg),
        rq_Headers = json_header @ [bearer token],
        rq_Body = Some (go_map [(''approval_code'', VStr (cfg_ApprovalCode cfg)), (''user_id'', VStr (applicant a)),
          (''open_id'', VStr (applicant a)), (''form'', VStr formContent)])\<rparr>)
     (\<lambda>r. gives (rp_text r ''data.instance_code''))"

definition feishu_CreateApproval :: "platform_lib \<Rightarrow> ApprovalConfig \<Rightarrow> Host list \<Rightarrow> Approval \<Rightarrow> string outcome" where
  "feishu_CreateApproval L cfg t a =
     (if cfg_ApprovalCode cfg = [] then fails (uni [23457, 25209, 20195, 30721, 26410, 37197, 32622])
      else and_then (wrap_error (uni [33719, 21462, 35775, 38382, 20196, 29260, 22833, 36133] @ '': '') (getTenantAccessToken L cfg))
        (\<lambda>token. case feishu_buildFormContent L cfg t a of
            Inl e \<Rightarrow> fails ((uni [26500, 24314, 34920, 21333, 20869, 23481, 22833, 36133] @ '': '') @ e)
          | Inr form \<Rightarrow> createApprovalViaHTTP L cfg token form a))"

record ApprovalStatusResponse =
  as_Status :: ApprovalStatus
  as_ApproverName :: string
  as_ApprovedAt :: string
  as_Comment :: string

definition convertStatus :: "string \<Rightarrow> ApprovalStatus" where
  "convertStatus s = (if s = ''APPROVED'' then Approved else if s = ''REJECTED'' then Rejected
     else if s = ''CANCELED'' \<or> s = ''DELETED'' then Canceled else Pending)"

definition feishu_GetApprovalStatus :: "platform_lib \<Rightarrow> ApprovalConfig \<Rightarrow> string \<Rightarrow> ApprovalStatusResponse outcome" where
  "feishu_GetApprovalStatus L cfg externalID =
     and_then (getTenantAccessToken L cfg) (\<lambda>token.
       and_then (call L [] (\<lambda>r. ''get approval status failed: '' @ rp_msg r)
         \<lparr>rq_Method = GET, rq_URL = feishu_base cfg @ or_default ''/approval/v4/instances'' (cfg_APIPathGet cfg) @ ''/'' @ externalID,
          rq_Headers = [bearer token], rq_Body = None\<rparr>)
       (\<lambda>r. gives \<lparr>as_Status = convertStatus (rp_text r ''data.status''), as_ApproverName = rp_text r ''data.approver_name'',
          as_ApprovedAt = lib_rfc3339 L (rp_int r ''data.update_time''), as_Comment = []\<rparr>))"

definition feishu_CancelApproval :: "platform_lib \<Rightarrow> ApprovalConfig \<Rightarrow> string \<Rightarrow> unit outcome" where
  "feishu_CancelApproval L cfg externalID =
     and_then (getTenantAccessToken L cfg) (\<lambda>token.
       and_then (call L [] (\<lambda>r. ''cancel approval failed: '' @ rp_msg r)
         \<lparr>rq_Method = POST, rq_URL = feishu_base cfg @ or_default ''/approval/v4/instances/cancel'' (cfg_APIPathCancel cfg),
          rq_Headers = [bearer token], rq_Body = None\<rparr>)
       (\<lambda>r. gives ()))"

text \<open>The body of a callback is an object, or the callback is refused.\<close>

definition feishu_HandleCallback :: "json \<Rightarrow> string + CallbackResult" where
  "feishu_HandleCallback data = (case data of
     VObj m \<Rightarrow> Inr \<lparr>cr_ApprovalID = text_or_empty (json_field ''instance_code'' m), cr_Status = convertStatus (text_or_empty (json_field ''status'' m)),
       cr_ApproverName = text_or_empty (json_field ''approver_name'' m), cr_Comment = text_or_empty (json_field ''comment'' m)\<rparr>
   | _ \<Rightarrow> Inl ''invalid callback data'')"

definition feishu_ValidateConfig :: "(string \<times> json) list \<Rightarrow> string option" where
  "feishu_ValidateConfig m =
     (if text_or_empty (json_field ''app_id'' m) = [] then Some ''app_id is required''
      else if text_or_empty (json_field ''app_secret'' m) = [] then Some ''app_secret is required''
      else if text_or_empty (json_field ''approval_code'' m) = [] then Some ''approval_code is required''
      else None)"

text \<open>The two lists of approvers, which are the same.\<close>

definition buildNodeApproverList :: "ApprovalConfig \<Rightarrow> json list" where
  "buildNodeApproverList cfg =
     (if cfg_ApproverUserIDs cfg \<noteq> [] then (case UnmarshalStringSlice (cfg_ApproverUserIDs cfg) of
        (ids, ok) \<Rightarrow> if ok \<and> ids \<noteq> [] then [go_map [(''key'', VStr ''default_node''), (''value'', VArr (map VStr ids))]] else [])
      else [])"

section \<open>DingTalk and WeChat\<close>

text \<open>The two clients differ in addresses, names of fields and texts.\<close>

definition list_text :: "string list \<Rightarrow> string" where "list_text xs = ''['' @ Join xs '' '' @ '']''"

definition api_error :: "string \<Rightarrow> platform_reply \<Rightarrow> string" where
  "api_error name r = name @ (''API'' @ uni [38169, 35823] @ '' ['') @ print_int (rp_code r) @ '']: '' @ rp_msg r"

definition parse_error :: string where "parse_error = (uni [35299, 26512, 21709, 24212, 22833, 36133] @ '': '')"

definition token_error :: string where "token_error = (uni [33719, 21462, 35775, 38382, 20196, 29260, 22833, 36133] @ '': '')"

subsection \<open>DingTalk\<close>

definition dingtalk_name :: string where "dingtalk_name = (uni [38025, 38025])"

definition dingtalk_base :: "ApprovalConfig \<Rightarrow> string" where
  "dingtalk_base cfg = or_default ''https://oapi.dingtalk.com'' (cfg_APIBaseURL cfg)"

definition dingtalk_getAccessToken :: "platform_lib \<Rightarrow> ApprovalConfig \<Rightarrow> string outcome" where
  "dingtalk_getAccessToken L cfg =
     and_then (call L parse_error (api_error dingtalk_name)
       \<lparr>rq_Method = GET, rq_URL = dingtalk_base cfg @ ''/gettoken?appkey='' @ cfg_AppID cfg @ ''&appsecret='' @ cfg_AppSecret cfg,
        rq_Headers = [], rq_Body = None\<rparr>)
     (\<lambda>r. gives (rp_text r ''access_token''))"

definition dingtalk_post :: "platform_lib \<Rightarrow> ApprovalConfig \<Rightarrow> string \<Rightarrow> (string \<times> json) list \<Rightarrow> string \<Rightarrow> platform_reply outcome" where
  "dingtalk_post L cfg path body token = call L parse_error (api_error dingtalk_name)
     \<lparr>rq_Method = POST, rq_URL = dingtalk_base cfg @ path @ ''?access_token='' @ token, rq_Headers = json_header, rq_Body = Some (go_map body)\<rparr>"

definition dingtalk_form :: "Approval \<Rightarrow> json" where
  "dingtalk_form a = VArr (map (\<lambda>(n, v). go_map [(''name'', VStr n), (''value'', VStr v)])
     [(''title'', a_Title a), (''description'', a_Description a), (''reason'', a_Reason a),
      (''resources'', list_text (a_ResourceNames a)), (''duration'', print_int (a_Duration a))])"

definition dingtalk_createApprovalInstance :: "platform_lib \<Rightarrow> ApprovalConfig \<Rightarrow> Approval \<Rightarrow> string \<Rightarrow> string outcome" where
  "dingtalk_createApprovalInstance L cfg a token =
     and_then (dingtalk_post L cfg (or_default ''/topapi/processinstance/create'' (cfg_APIPath cfg))
       ([(''process_code'', VStr (cfg_ProcessCode cfg)), (''originator_user_id'', VStr (applicant a)),
         (''form_component_values'', dingtalk_form a), (''dept_id'', VStr ''1'')] @
        (if configured_approvers cfg \<noteq> [] then [(''approvers'', VArr (map VStr (configured_approvers cfg)))] else [])) token)
     (\<lambda>r. gives (rp_text r ''result.process_instance_id''))"

definition dingtalk_CreateApproval :: "platform_lib \<Rightarrow> ApprovalConfig \<Rightarrow> Approval \<Rightarrow> string outcome" where
  "dingtalk_CreateApproval L cfg a =
     (if cfg_ProcessCode cfg = [] then fails (uni [23457, 25209, 20195, 30721, 26410, 37197, 32622])
      else and_then (wrap_error token_error (dingtalk_getAccessToken L cfg)) (dingtalk_createApprovalInstance L cfg a))"

definition dingtalk_mapStatus :: "string \<Rightarrow> ApprovalStatus" where
  "dingtalk_mapStatus s = (if s = ''RUNNING'' then Pending else if s = ''COMPLETED'' then Approved
     else if s = ''TERMINATED'' then Rejected else if s = ''CANCELED'' then Canceled else Pending)"

definition dingtalk_GetApprovalStatus :: "platform_lib \<Rightarrow> ApprovalConfig \<Rightarrow> string \<Rightarrow> ApprovalStatusResponse outcome" where
  "dingtalk_GetApprovalStatus L cfg externalID =
     and_then (wrap_error token_error (dingtalk_getAccessToken L cfg)) (\<lambda>token.
       and_then (dingtalk_post L cfg (or_default ''/topapi/processinstance/get'' (cfg_APIPathGet cfg))
         [(''process_instance_id'', VStr externalID)] token)
       (\<lambda>r. gives \<lparr>as_Status = dingtalk_mapStatus (rp_text r ''result.status''), as_ApproverName = [], as_ApprovedAt = [],
          as_Comment = rp_text r ''result.result''\<rparr>))"

definition dingtalk_CancelApproval :: "platform_lib \<Rightarrow> ApprovalConfig \<Rightarrow> string \<Rightarrow> unit outcome" where
  "dingtalk_CancelApproval L cfg externalID =
     and_then (wrap_error token_error (dingtalk_getAccessToken L cfg)) (\<lambda>token.
       and_then (dingtalk_post L cfg (or_default ''/topapi/processinstance/cancel'' (cfg_APIPathCancel cfg))
         [(''process_instance_id'', VStr externalID), (''operator_userid'', VStr (cfg_AppID cfg))] token)
       (\<lambda>r. gives ()))"

definition dingtalk_HandleCallback :: "json \<Rightarrow> string + CallbackResult" where
  "dingtalk_HandleCallback data = Inl (uni [38025, 38025, 22238, 35843, 22788, 29702, 26410, 23454, 29616])"

subsection \<open>WeChat\<close>

definition wechat_name :: string where "wechat_name = (uni [20225, 19994, 24494, 20449])"

definition wechat_base :: "ApprovalConfig \<Rightarrow> string" where
  "wechat_base cfg = or_default ''https://qyapi.weixin.qq.com'' (cfg_APIBaseURL cfg)"

definition wechat_getAccessToken :: "platform_lib \<Rightarrow> ApprovalConfig \<Rightarrow> string outcome" where
  "wechat_getAccessToken L cfg =
     and_then (call L parse_error (api_error wechat_name)
       \<lparr>rq_Method = GET, rq_URL = wechat_base cfg @ ''/cgi-bin/gettoken?corpid='' @ cfg_AppID cfg @ ''&corpsecret='' @ cfg_AppSecret cfg,
        rq_Headers = [], rq_Body = None\<rparr>)
     (\<lambda>r. gives (rp_text r ''access_token''))"

definition wechat_post :: "platform_lib \<Rightarrow> ApprovalConfig \<Rightarrow> string \<Rightarrow> (string \<times> json) list \<Rightarrow> string \<Rightarrow> platform_reply outcome" where
  "wechat_post L cfg path body token = call L parse_error (api_error wechat_name)
     \<lparr>rq_Method = POST, rq_URL = wechat_base cfg @ path @ ''?access_token='' @ token, rq_Headers = json_header, rq_Body = Some (go_map body)\<rparr>"

definition wechat_form :: "Approval \<Rightarrow> json" where
  "wechat_form a = VArr (map (\<lambda>(n, v). go_map [(''title'', VStr n), (''value'', VStr v)])
     [((uni [24037, 21333, 26631, 39064]), a_Title a), ((uni [35814, 32454, 25551, 36848]), a_Description a), ((uni [30003, 35831, 29702, 30001]), a_Reason a),
      ((uni [30003, 35831, 36164, 28304]), list_text (a_ResourceNames a)), ((uni [26435, 38480, 26102, 38271]), print_int (a_Duration a) @ (uni [23567, 26102]))])"

definition wechat_approvers :: "ApprovalConfig \<Rightarrow> Approval \<Rightarrow> string list" where
  "wechat_approvers cfg a = (if configured_approvers cfg \<noteq> [] then configured_approvers cfg else [applicant a])"

definition wechat_createApprovalInstance :: "platform_lib \<Rightarrow> ApprovalConfig \<Rightarrow> Approval \<Rightarrow> string \<Rightarrow> string outcome" where
  "wechat_createApprovalInstance L cfg a token =
     and_then (wechat_post L cfg (or_default ''/cgi-bin/oa/applyevent'' (cfg_APIPath cfg))
       [(''creator_userid'', VStr (applicant a)), (''template_id'', VStr (cfg_TemplateID cfg)), (''use_template_approver'', VNum (print_int 0)),
        (''approver'', VArr (map (\<lambda>i. go_map [(''userid'', VStr i)]) (wechat_approvers cfg a))), (''form_data'', wechat_form a)] token)
     (\<lambda>r. gives (rp_text r ''sp_no''))"

definition wechat_CreateApproval :: "platform_lib \<Rightarrow> ApprovalConfig \<Rightarrow> Approval \<Rightarrow> string outcome" where
  "wechat_CreateApproval L cfg a =
     (if cfg_TemplateID cfg = [] then fails (uni [23457, 25209, 20195, 30721, 26410, 37197, 32622])
      else and_then (wrap_error token_error (wechat_getAccessToken L cfg)) (wechat_createApprovalInstance L cfg a))"

definition wechat_mapStatus :: "string \<Rightarrow> ApprovalStatus" where
  "wechat_mapStatus s = (if s = ''1'' then Pending else if s = ''2'' then Approved
     else if s = ''3'' then Rejected else if s = ''4'' then Canceled else Pending)"

definition wechat_GetApprovalStatus :: "platform_lib \<Rightarrow> ApprovalConfig \<Rightarrow> string \<Rightarrow> ApprovalStatusResponse outcome" where
  "wechat_GetApprovalStatus L cfg externalID =
     and_then (wrap_error token_error (wechat_getAccessToken L cfg)) (\<lambda>token.
       and_then (wechat_post L cfg (or_default ''/cgi-bin/oa/getapprovaldetail'' (cfg_APIPathGet cfg)) [(''sp_no'', VStr externalID)] token)
       (\<lambda>r. gives \<lparr>as_Status = wechat_mapStatus (rp_text r ''info.sp_status''), as_ApproverName = [], as_ApprovedAt = [], as_Comment = []\<rparr>))"

definition wechat_CancelApproval :: "platform_lib \<Rightarrow> ApprovalConfig \<Rightarrow> string \<Rightarrow> unit outcome" where
  "wechat_CancelApproval L cfg externalID =
     and_then (wrap_error token_error (wechat_getAccessToken L cfg)) (\<lambda>token.
       and_then (wechat_post L cfg (or_default ''/cgi-bin/oa/applyevent/cancel'' (cfg_APIPathCancel cfg))
         [(''sp_no'', VStr externalID), (''userid'', VStr (cfg_AppID cfg))] token)
       (\<lambda>r. gives ()))"

definition wechat_HandleCallback :: "json \<Rightarrow> string + CallbackResult" where
  "wechat_HandleCallback data = Inl (uni [20225, 19994, 24494, 20449, 22238, 35843, 22788, 29702, 26410, 23454, 29616])"

section \<open>Registration\<close>

definition feishu_provider :: "platform_lib \<Rightarrow> Host list \<Rightarrow> ApprovalConfig \<Rightarrow> json Provider" where
  "feishu_provider L t cfg = \<lparr>p_CreateApproval = \<lambda>a. fst (feishu_CreateApproval L cfg t a), p_HandleCallback = feishu_HandleCallback\<rparr>"

definition dingtalk_provider :: "platform_lib \<Rightarrow> ApprovalConfig \<Rightarrow> json Provider" where
  "dingtalk_provider L cfg = \<lparr>p_CreateApproval = \<lambda>a. fst (dingtalk_CreateApproval L cfg a), p_HandleCallback = dingtalk_HandleCallback\<rparr>"

definition wechat_provider :: "platform_lib \<Rightarrow> ApprovalConfig \<Rightarrow> json Provider" where
  "wechat_provider L cfg = \<lparr>p_CreateApproval = \<lambda>a. fst (wechat_CreateApproval L cfg a), p_HandleCallback = wechat_HandleCallback\<rparr>"

definition register_config :: "platform_lib \<Rightarrow> Host list \<Rightarrow> ApprovalConfig \<Rightarrow> json Factory \<Rightarrow> json Factory" where
  "register_config L t cfg f =
     (if cfg_AppID cfg = [] \<or> cfg_AppSecret cfg = [] then f
      else if cfg_Type cfg = ''feishu'' then
        (if cfg_ApprovalCode cfg \<noteq> [] then Register f ''feishu'' (feishu_provider L t cfg) else f)
      else if cfg_Type cfg = ''dingtalk'' then
        (if cfg_ProcessCode cfg \<noteq> [] then Register f ''dingtalk'' (dingtalk_provider L cfg) else f)
      else if cfg_Type cfg = ''wechat'' then
        (if cfg_TemplateID cfg \<noteq> [] then Register f ''wechat'' (wechat_provider L cfg) else f)
      else f)"

definition loadApprovalProviders :: "platform_lib \<Rightarrow> Host list \<Rightarrow> ApprovalConfig list \<Rightarrow> json Factory \<Rightarrow> json Factory" where
  "loadApprovalProviders L t cfgs f = fold (register_config L t) (filter cfg_Enabled cfgs) f"

section \<open>Tokens first\<close>

text \<open>What the operations of the clients have in common: the token is asked for first, and nothing is sent without it.\<close>

locale token_first =
  fixes token :: "string outcome" and op :: "'a outcome"
  assumes first: "(\<exists>p f. op = and_then (wrap_error p token) f) \<or> (\<exists>e. op = (Inl e, []))"
begin

lemma no_token_no_request: "fst token = Inl e \<Longrightarrow> (\<exists>e'. fst op = Inl e') \<and> set (snd op) \<subseteq> set (snd token)"
  using first by (cases token) (auto simp: and_then_def wrap_error_def)

lemma answered: "fst op = Inr x \<Longrightarrow> \<exists>tok. fst token = Inr tok \<and> prefix (snd token) (snd op)"
  using first by (cases "fst token"; cases token) (auto simp: and_then_def wrap_error_def case_prod_beta)

end

lemma wrap_error_Nil [simp]: "wrap_error [] m = m"
  by (auto simp: wrap_error_def split: prod.splits sum.splits)

interpretation feishu_create: token_first "getTenantAccessToken L cfg" "feishu_CreateApproval L cfg t a" for L cfg t a
  by unfold_locales (auto simp: feishu_CreateApproval_def fails_def)

interpretation feishu_status: token_first "getTenantAccessToken L cfg" "feishu_GetApprovalStatus L cfg i" for L cfg i
  by unfold_locales (rule disjI1, rule exI[of _ "[]"], auto simp: feishu_GetApprovalStatus_def)

interpretation feishu_cancel: token_first "getTenantAccessToken L cfg" "feishu_CancelApproval L cfg i" for L cfg i
  by unfold_locales (rule disjI1, rule exI[of _ "[]"], auto simp: feishu_CancelApproval_def)

interpretation dingtalk_create: token_first "dingtalk_getAccessToken L cfg" "dingtalk_CreateApproval L cfg a" for L cfg a
  by unfold_locales (auto simp: dingtalk_CreateApproval_def fails_def)

interpretation dingtalk_status: token_first "dingtalk_getAccessToken L cfg" "dingtalk_GetApprovalStatus L cfg i" for L cfg i
  by unfold_locales (auto simp: dingtalk_GetApprovalStatus_def)

interpretation dingtalk_cancel: token_first "dingtalk_getAccessToken L cfg" "dingtalk_CancelApproval L cfg i" for L cfg i
  by unfold_locales (auto simp: dingtalk_CancelApproval_def)

interpretation wechat_create: token_first "wechat_getAccessToken L cfg" "wechat_CreateApproval L cfg a" for L cfg a
  by unfold_locales (auto simp: wechat_CreateApproval_def fails_def)

interpretation wechat_status: token_first "wechat_getAccessToken L cfg" "wechat_GetApprovalStatus L cfg i" for L cfg i
  by unfold_locales (auto simp: wechat_GetApprovalStatus_def)

interpretation wechat_cancel: token_first "wechat_getAccessToken L cfg" "wechat_CancelApproval L cfg i" for L cfg i
  by unfold_locales (auto simp: wechat_CancelApproval_def)

section \<open>Tickets on a platform\<close>

text \<open>What a complete configuration creates on its platform.\<close>

definition platform_create :: "platform_lib \<Rightarrow> Host list \<Rightarrow> ApprovalConfig \<Rightarrow> Approval \<Rightarrow> string outcome" where
  "platform_create L t cfg a =
     (if cfg_Type cfg = ''feishu'' then feishu_CreateApproval L cfg t a
      else if cfg_Type cfg = ''dingtalk'' then dingtalk_CreateApproval L cfg a else wechat_CreateApproval L cfg a)"

definition complete_config :: "ApprovalConfig \<Rightarrow> bool" where
  "complete_config cfg \<longleftrightarrow> cfg_AppID cfg \<noteq> [] \<and> cfg_AppSecret cfg \<noteq> [] \<and>
     (cfg_Type cfg = ''feishu'' \<and> cfg_ApprovalCode cfg \<noteq> [] \<or> cfg_Type cfg = ''dingtalk'' \<and> cfg_ProcessCode cfg \<noteq> [] \<or>
      cfg_Type cfg = ''wechat'' \<and> cfg_TemplateID cfg \<noteq> [])"

lemma register_config_GetProvider:
  "GetProvider (register_config L t cfg f) platform =
     (if complete_config cfg \<and> cfg_Type cfg = platform
      then Some \<lparr>p_CreateApproval = \<lambda>a. fst (platform_create L t cfg a),
        p_HandleCallback = if platform = ''feishu'' then feishu_HandleCallback else if platform = ''dingtalk'' then dingtalk_HandleCallback
          else wechat_HandleCallback\<rparr>
      else GetProvider f platform)"
  by (auto simp: register_config_def complete_config_def Register_def GetProvider_def feishu_provider_def dingtalk_provider_def
      wechat_provider_def platform_create_def)

lemma loaded_provider:
  assumes "GetProvider (loadApprovalProviders L t cfgs NewFactory) platform = Some p"
  shows "\<exists>cfg \<in> set cfgs. cfg_Enabled cfg \<and> complete_config cfg \<and> cfg_Type cfg = platform \<and>
    p_CreateApproval p = (\<lambda>a. fst (platform_create L t cfg a))"
  using assms unfolding loadApprovalProviders_def
proof (induction cfgs rule: rev_induct)
  case Nil
  then show ?case by (simp add: NewFactory_def GetProvider_def)
next
  case (snoc cfg cfgs)
  then show ?case by (cases "cfg_Enabled cfg") (auto simp: register_config_GetProvider split: if_splits)
qed

text \<open>An operation that succeeds has had every request answered with code 0.\<close>

definition accepted :: "platform_lib \<Rightarrow> 'a outcome \<Rightarrow> bool" where
  "accepted L m \<longleftrightarrow> (\<forall>x. fst m = Inr x \<longrightarrow> (\<forall>rq \<in> set (snd m). \<exists>r. lib_send L rq = Inr (Inr r) \<and> rp_code r = 0))"

lemma accepted_call: "accepted L (call L p q rq)"
  by (auto simp: accepted_def call_def split: sum.splits if_splits)

lemma accepted_simps [simp]: "accepted L (fails e)" "accepted L (gives x)" "accepted L (wrap_error p m) \<longleftrightarrow> accepted L m"
  by (auto simp: accepted_def fails_def gives_def wrap_error_def split: prod.splits sum.splits)

lemma accepted_and_then:
  assumes "accepted L m" "\<And>x. accepted L (f x)"
  shows "accepted L (and_then m f)"
proof (cases m)
  case (Pair r rs)
  show ?thesis
  proof (cases r)
    case (Inr x)
    then show ?thesis using assms(1) assms(2)[of x] by (cases "f x") (auto simp: accepted_def and_then_def Pair)
  qed (simp add: accepted_def and_then_def Pair)
qed

lemma length_and_then: "fst (and_then m f) = Inr y \<Longrightarrow> \<exists>x. fst m = Inr x \<and> fst (f x) = Inr y \<and>
    length (snd (and_then m f)) = length (snd m) + length (snd (f x))"
  by (auto simp: and_then_def split: prod.splits sum.splits)

lemma length_wrap [simp]: "snd (wrap_error p m) = snd m" "fst (wrap_error p m) = Inr x \<longleftrightarrow> fst m = Inr x"
  by (auto simp: wrap_error_def split: prod.splits sum.splits)

lemma length_call: "length (snd (call L p q rq)) = 1"
  by (simp add: call_def split: sum.splits)

lemma length_gives: "snd (gives x) = []" by (simp add: gives_def)

lemma one_request: "length (snd (and_then (call L p q rq) (\<lambda>r. gives (g r)))) = 1"
  by (auto simp: and_then_def gives_def call_def split: sum.splits)

lemma two_requests:
  assumes "fst (and_then (wrap_error p m) f) = Inr y" "length (snd m) = 1" "\<And>x. fst (f x) = Inr y \<Longrightarrow> length (snd (f x)) = 1"
  shows "length (snd (and_then (wrap_error p m) f)) = 2"
  using length_and_then[OF assms(1)] assms(2,3) by auto

lemmas client_defs = getTenantAccessToken_def createApprovalViaHTTP_def dingtalk_getAccessToken_def dingtalk_createApprovalInstance_def
  dingtalk_post_def wechat_getAccessToken_def wechat_createApprovalInstance_def wechat_post_def

lemma one_request_simps:
  "length (snd (getTenantAccessToken L cfg)) = 1" "length (snd (createApprovalViaHTTP L cfg token form a)) = 1"
  "length (snd (dingtalk_getAccessToken L cfg)) = 1" "length (snd (dingtalk_createApprovalInstance L cfg a token)) = 1"
  "length (snd (wechat_getAccessToken L cfg)) = 1" "length (snd (wechat_createApprovalInstance L cfg a token)) = 1"
  unfolding client_defs by (rule one_request)+

lemma accepted_clients:
  "accepted L (getTenantAccessToken L cfg)" "accepted L (createApprovalViaHTTP L cfg token form a)"
  "accepted L (dingtalk_getAccessToken L cfg)" "accepted L (dingtalk_createApprovalInstance L cfg a token)"
  "accepted L (wechat_getAccessToken L cfg)" "accepted L (wechat_createApprovalInstance L cfg a token)"
  unfolding client_defs by (rule accepted_and_then[OF accepted_call accepted_simps(2)])+

lemma platform_create_accepted:
  assumes "fst (platform_create L t cfg a) = Inr y"
  shows "length (snd (platform_create L t cfg a)) = 2 \<and>
    (\<forall>rq \<in> set (snd (platform_create L t cfg a)). \<exists>r. lib_send L rq = Inr (Inr r) \<and> rp_code r = 0)"
proof -
  have "accepted L (feishu_CreateApproval L cfg t a)" "accepted L (dingtalk_CreateApproval L cfg a)" "accepted L (wechat_CreateApproval L cfg a)"
    unfolding feishu_CreateApproval_def dingtalk_CreateApproval_def wechat_CreateApproval_def
    by (auto intro!: accepted_and_then simp: accepted_clients split: sum.splits)
  then have "accepted L (platform_create L t cfg a)" by (simp add: platform_create_def)
  moreover have "length (snd (feishu_CreateApproval L cfg t a)) = 2" if "fst (feishu_CreateApproval L cfg t a) = Inr y"
    using that unfolding feishu_CreateApproval_def
    by (auto simp: fails_def one_request_simps split: if_splits sum.splits intro!: two_requests)
  moreover have "length (snd (dingtalk_CreateApproval L cfg a)) = 2" if "fst (dingtalk_CreateApproval L cfg a) = Inr y"
    using that unfolding dingtalk_CreateApproval_def by (auto simp: fails_def one_request_simps split: if_splits intro!: two_requests)
  moreover have "length (snd (wechat_CreateApproval L cfg a)) = 2" if "fst (wechat_CreateApproval L cfg a) = Inr y"
    using that unfolding wechat_CreateApproval_def by (auto simp: fails_def one_request_simps split: if_splits intro!: two_requests)
  ultimately show ?thesis using assms unfolding accepted_def platform_create_def by (auto split: if_splits)
qed


text \<open>The two readings of a status of Feishu, that of the client and that of the callback handler, differ exactly on
  CANCELED, DELETED and CANCELLED: each takes what the other calls a cancellation for a pending ticket.\<close>

theorem feishu_status_readings: "convertStatus s \<noteq> mapFeishuStatus s \<longleftrightarrow> s \<in> {''CANCELED'', ''DELETED'', ''CANCELLED''}"
  by (auto simp: convertStatus_def mapFeishuStatus_def)

text \<open>The request by which the client of Feishu cancels a ticket does not say which: it is the same for any two.\<close>

theorem feishu_cancel_names_no_ticket: "feishu_CancelApproval L cfg i = feishu_CancelApproval L cfg j"
  by (simp add: feishu_CancelApproval_def)


section \<open>An instance\<close>

definition sample_platform :: platform_lib where
  "sample_platform = \<lparr>lib_send = \<lambda>rq. Inr (Inr \<lparr>rp_code = 0, rp_msg = [], rp_text = \<lambda>k. if k = ''access_token'' then ''tk'' else ''9'', rp_int = \<lambda>k. 0\<rparr>),
     lib_rfc3339 = \<lambda>n. [], lib_match = no_like, lib_json_error = \<lambda>s. []\<rparr>"

definition sample_cfg :: ApprovalConfig where
  "sample_cfg = \<lparr>cfg_ID = ''1'', cfg_Name = ''d'', cfg_Type = ''dingtalk'', cfg_Enabled = True, cfg_AppID = ''id'', cfg_AppSecret = ''se'',
     cfg_ApprovalCode = [], cfg_ProcessCode = ''p'', cfg_TemplateID = [],
     cfg_FormFields = ''[{'' @ json_string ''id'' @ '':'' @ json_string ''w1'' @ '','' @ json_string ''name'' @ '':'' @ json_string ''title'' @ ''}]'',
     cfg_ApproverUserIDs = [], cfg_APIBaseURL = [], cfg_APIPath = [], cfg_APIPathGet = [], cfg_APIPathCancel = [], cfg_CallbackURL = [],
     cfg_CreatedAt = 0, cfg_UpdatedAt = 0\<rparr>"

definition sample_ticket :: Approval where
  "sample_ticket = \<lparr>a_ID = [], a_Title = ''t'', a_Description = [], a_Type = ''host_access'', a_Status = Pending, a_Platform = ''dingtalk'',
     a_ApplicantID = ''u1'', a_ApplicantName = [], a_ApplicantEmail = [], a_ApproverIDs = [], a_ApproverNames = [], a_CurrentApprover = [],
     a_ResourceType = [], a_ResourceIDs = [], a_ResourceNames = [], a_Permissions = [], a_Duration = 1, a_ExpiresAt = None, a_Reason = [],
     a_ApprovalNote = [], a_RejectReason = [], a_ExternalID = [], a_ExternalURL = [], a_ExternalData = [], a_CreatedAt = 0, a_UpdatedAt = 0,
     a_ApprovedAt = None, a_RejectedAt = None\<rparr>"

definition sample_call :: env where
  "sample_call = \<lparr>e_now = 5, newID = ''a1'', commentID = ''c1'', read_ok = True, write_ok = True, comment_ok = True\<rparr>"

definition no_tickets :: adb where "no_tickets = \<lparr>approvals = [], comments = [], configs = [], cancelled = []\<rparr>"



end
