(* ===== verification/Terminal_Menu.thy ===== *)
theory Terminal_Menu
imports Host_Groups Host_Connection Go_Json_Value
begin

text \<open>
  The menu of the SSH terminal: \<open>internal/sshserver/terminal/selector.go\<close>, which asks the repositories
  for the hosts and groups of a user, and \<open>menu_v2.go\<close>, the dialogue in which a host is chosen.  The
  nested loops of the dialogue are the places of a state machine; one step writes the prompt, reads
  one line from the channel and acts on it, with the database as it is then.  The bytes the client
  will still send are part of the state: when they are used up, the channel is closed.
\<close>

section \<open>Selector\<close>

record HostGroupInfo =
  gi_ID :: string
  gi_Name :: string
  gi_Description :: string
  gi_HostCount :: int
  gi_OnlineCount :: int

record HostSelector =
  hs_groupRepo :: bool
  hs_userRepo :: bool
  hs_systemUserRepo :: bool

definition NewHostSelector :: HostSelector where
  "NewHostSelector = \<lparr>hs_groupRepo = False, hs_userRepo = False, hs_systemUserRepo = False\<rparr>"

definition NewHostSelectorWithGroup :: HostSelector where
  "NewHostSelectorWithGroup = \<lparr>hs_groupRepo = True, hs_userRepo = False, hs_systemUserRepo = False\<rparr>"

definition NewHostSelectorWithPermissions :: HostSelector where
  "NewHostSelectorWithPermissions = \<lparr>hs_groupRepo = True, hs_userRepo = True, hs_systemUserRepo = False\<rparr>"

definition NewHostSelectorV2 :: HostSelector where
  "NewHostSelectorV2 = \<lparr>hs_groupRepo = True, hs_userRepo = True, hs_systemUserRepo = True\<rparr>"

text \<open>The queries, which may fail with an error, and what they see.  \<open>sv_order\<close> is the order in which Go
  walks through a map.\<close>

datatype sel_query = QUser | QHosts | QHost string | QAvailable string | QGroups | QUserGroups | QGroupHosts string

record sel_view =
  sv_now :: time
  sv_match :: sql_match
  sv_libs :: libs
  sv_db :: hdb
  sv_accounts :: adb
  sv_error :: "sel_query \<Rightarrow> string option"
  sv_order :: "string list \<Rightarrow> string list"

definition convertToHostInfo :: "Host \<Rightarrow> HostInfo" where
  "convertToHostInfo host = \<lparr>h_ID = ho_ID host, h_Name = ho_Name host, h_IP = ho_IP host, h_Port = ho_Port host, h_Username = [],
     h_Password = [], h_Tags = [], h_DeviceType = ho_DeviceType host, h_Status = ho_Status host\<rparr>"

definition is_admin :: "HostSelector \<Rightarrow> sel_view \<Rightarrow> string \<Rightarrow> bool" where
  "is_admin S V userID \<longleftrightarrow> hs_userRepo S \<and> sv_error V QUser = None \<and>
     (case FindUserByID userID (sv_accounts V) of None \<Rightarrow> False | Some u \<Rightarrow> u_Role u = ''admin'')"

definition accessible_new :: "sel_view \<Rightarrow> string \<Rightarrow> string list" where
  "accessible_new V userID = (if sv_error V QHosts \<noteq> None then []
     else map ho_ID (filter (\<lambda>h. sv_error V (QAvailable (ho_ID h)) = None \<and>
        GetAvailableSystemUsersForUser (sv_now V) userID (ho_ID h) (hd_perms (sv_db V)) \<noteq> [])
       (fst (Host_FindAll (sv_match V) 1 10000 [] [] (hd_hosts (sv_db V))))))"

definition accessible_old :: "HostSelector \<Rightarrow> sel_view \<Rightarrow> string \<Rightarrow> string list" where
  "accessible_old S V userID =
     (if hs_userRepo S \<and> hs_groupRepo S \<and> sv_error V QUserGroups = None
      then concat (map (\<lambda>g. if sv_error V (QGroupHosts g) = None
          then map ho_ID (fst (GetHostsByGroupIDWithPagination (sv_libs V) g 1 1000 (sv_db V))) else [])
        (repo_GetUserGroups userID (hd_perms (sv_db V)))) else []) @
     (if hs_userRepo S then GetUserHosts userID else [])"

definition ListAvailableHosts :: "HostSelector \<Rightarrow> sel_view \<Rightarrow> string \<Rightarrow> string + HostInfo list" where
  "ListAvailableHosts S V userID =
     (if is_admin S V userID then (case sv_error V QHosts of
        Some e \<Rightarrow> Inl (''failed to list hosts: '' @ e)
      | None \<Rightarrow> Inr (map convertToHostInfo (fst (Host_FindAll (sv_match V) 1 1000 [] [] (hd_hosts (sv_db V))))))
      else (let ids = (if hs_systemUserRepo S \<and> hs_groupRepo S then accessible_new V userID else accessible_old S V userID)
        in Inr (concat (map (\<lambda>i. if sv_error V (QHost i) \<noteq> None then [] else (case Host_FindByID i (hd_hosts (sv_db V)) of
          None \<Rightarrow> [] | Some h \<Rightarrow> [convertToHostInfo h])) (sv_order V (remdups ids))))))"

definition GetHostInfo :: "sel_view \<Rightarrow> string \<Rightarrow> string + HostInfo" where
  "GetHostInfo V hostID = (case sv_error V (QHost hostID) of
     Some e \<Rightarrow> Inl (''failed to get host: '' @ e)
   | None \<Rightarrow> (case Host_FindByID hostID (hd_hosts (sv_db V)) of
       None \<Rightarrow> Inl ''failed to get host: record not found''
     | Some h \<Rightarrow> Inr (convertToHostInfo h)))"

definition group_info :: "HostGroup \<times> nat \<times> nat \<Rightarrow> HostGroupInfo" where
  "group_info = (\<lambda>(g, n, k). \<lparr>gi_ID = hg_ID g, gi_Name = hg_Name g, gi_Description = hg_Description g, gi_HostCount = int n,
     gi_OnlineCount = int k\<rparr>)"

definition sel_ListGroups :: "HostSelector \<Rightarrow> sel_view \<Rightarrow> string + HostGroupInfo list" where
  "sel_ListGroups S V =
     (if \<not> hs_groupRepo S then Inl ''group repository not available''
      else case sv_error V QGroups of
        Some e \<Rightarrow> Inl (''failed to list groups: '' @ e)
      | None \<Rightarrow> Inr (map group_info (FindAllWithStats (sv_libs V) (sv_db V))))"

definition ListGroupsForUser :: "HostSelector \<Rightarrow> sel_view \<Rightarrow> string \<Rightarrow> string + HostGroupInfo list" where
  "ListGroupsForUser S V userID =
     (if \<not> hs_groupRepo S then Inl ''group repository not available''
      else if is_admin S V userID then sel_ListGroups S V
      else if \<not> hs_userRepo S then sel_ListGroups S V
      else case sv_error V QUserGroups of
        Some e \<Rightarrow> Inl (''failed to get user host groups: '' @ e)
      | None \<Rightarrow> (let ids = GetUserHostGroupIDs (sv_now V) userID (hd_perms (sv_db V)) in
          if ids = [] then Inr []
          else case sv_error V QGroups of
            Some e \<Rightarrow> Inl (''failed to list groups: '' @ e)
          | None \<Rightarrow> Inr (map group_info (filter (\<lambda>(g, n, k). hg_ID g \<in> set ids) (FindAllWithStats (sv_libs V) (sv_db V))))))"

definition ListHostsByGroup :: "HostSelector \<Rightarrow> sel_view \<Rightarrow> string \<Rightarrow> int \<Rightarrow> int \<Rightarrow> string + HostInfo list \<times> nat" where
  "ListHostsByGroup S V groupID page pageSize =
     (if \<not> hs_groupRepo S then Inl ''group repository not available''
      else case sv_error V (QGroupHosts groupID) of
        Some e \<Rightarrow> Inl (''failed to list hosts in group: '' @ e)
      | None \<Rightarrow> (case GetHostsByGroupIDWithPagination (sv_libs V) groupID page pageSize (sv_db V) of
          (hs, cnt) \<Rightarrow> Inr (map convertToHostInfo hs, cnt)))"

definition SearchHosts :: "HostSelector \<Rightarrow> sel_view \<Rightarrow> string \<Rightarrow> string + HostInfo list" where
  "SearchHosts S V keyword =
     (if keyword = [] then ListAvailableHosts S V []
      else case sv_error V QHosts of
        Some e \<Rightarrow> Inl (''failed to search hosts: '' @ e)
      | None \<Rightarrow> Inr (map convertToHostInfo (fst (Host_FindAll (sv_match V) 1 100 keyword [] (hd_hosts (sv_db V))))))"

section \<open>Drawing\<close>

subsection \<open>Texts of a given width\<close>

text \<open>\<open>strings.Repeat\<close>: a negative count panics, which is the result \<open>None\<close>.\<close>

definition Repeat :: "string \<Rightarrow> int \<Rightarrow> string option" where
  "Repeat s n = (if n < 0 then None else Some (concat (replicate (nat n) s)))"

definition go_truncate :: "string \<Rightarrow> nat \<Rightarrow> string" where
  "go_truncate s maxLen = (if length s \<le> maxLen then s else take (maxLen - 3) s @ ''...'')"

text \<open>The widths of \<open>fmt\<close> count runes: the bytes of the first rune of a text, where an invalid byte is a rune.\<close>

definition byte_in :: "nat \<Rightarrow> nat \<Rightarrow> nat \<Rightarrow> string \<Rightarrow> bool" where
  "byte_in i lo hi s \<longleftrightarrow> i < length s \<and> lo \<le> of_char (s ! i) \<and> (of_char (s ! i) :: nat) \<le> hi"

definition rune_len :: "string \<Rightarrow> nat" where
  "rune_len s =
     (if byte_in 0 194 223 s \<and> byte_in 1 128 191 s then 2
      else if byte_in 0 224 239 s \<and> byte_in 1 (if byte_in 0 224 224 s then 160 else 128) (if byte_in 0 237 237 s then 159 else 191) s \<and>
        byte_in 2 128 191 s then 3
      else if byte_in 0 240 244 s \<and> byte_in 1 (if byte_in 0 240 240 s then 144 else 128) (if byte_in 0 244 244 s then 143 else 191) s \<and>
        byte_in 2 128 191 s \<and> byte_in 3 128 191 s then 4
      else 1)"

function rune_count :: "string \<Rightarrow> nat" where
  "rune_count s = (if s = [] then 0 else Suc (rune_count (drop (rune_len s) s)))"
  by pat_completeness auto
termination by (relation "measure length") (auto simp: rune_len_def)

declare rune_count.simps [simp del]

definition pad_right :: "nat \<Rightarrow> string \<Rightarrow> string" where "pad_right n s = s @ replicate (n - rune_count s) CHR '' ''"

definition pad_left :: "nat \<Rightarrow> string \<Rightarrow> string" where "pad_left n s = replicate (n - rune_count s) CHR '' '' @ s"

subsection \<open>Colours and screens\<close>

definition colour :: "string \<Rightarrow> string" where "colour n = [chr 27] @ ''['' @ n @ ''m''"

definition colorReset :: string where "colorReset = colour ''0''"
definition colorRed :: string where "colorRed = colour ''31''"
definition colorGreen :: string where "colorGreen = colour ''32''"
definition colorYellow :: string where "colorYellow = colour ''33''"
definition colorCyan :: string where "colorCyan = colour ''36''"
definition colorWhite :: string where "colorWhite = colour ''37''"
definition colorBold :: string where "colorBold = colour ''1''"

definition crlf :: string where "crlf = [chr 13, chr 10]"

definition ShowWelcome :: "string \<Rightarrow> string" where
  "ShowWelcome username = concat
     [concat [(uni [13, 10, 13, 10])],
      concat [colorCyan, (''  ''), concat (replicate 70 (uni [9473])), colorReset, (uni [13, 10, 13, 10])],
      concat [(''     ''), colorGreen, colorBold, (concat (replicate 7 (uni [9608])) @ uni [9559] @ '' ''), colorReset,
       colorGreen,
       (''     '' @ uni [9608, 9608, 9559, 9608, 9608, 9559] @ ''   '' @ uni [9608, 9608, 9559, 9608, 9608, 9608, 9559] @ ''   '' @ uni [9608, 9608, 9608, 9559] @ concat (replicate 6 (uni [9608])) @ uni [9559] @ '' ''),
       colorReset, (uni [13, 10])],
      concat [(''     ''), colorGreen, colorBold, (uni [9562, 9552, 9552, 9608, 9608, 9608, 9556, 9565] @ '' ''), colorReset,
       colorGreen,
       (''     '' @ uni [9608, 9608, 9553, 9608, 9608, 9553] @ ''   '' @ uni [9608, 9608, 9553, 9608, 9608, 9608, 9608, 9559] @ '' '' @ uni [9608, 9608, 9608, 9608, 9553, 9608, 9608, 9556, 9552, 9552, 9608, 9608, 9559]),
       colorReset, (uni [13, 10])],
      concat [(replicate 7 (CHR '' '')), colorGreen, colorBold, (uni [9608, 9608, 9608, 9556, 9565] @ ''  ''), colorReset,
       colorGreen,
       (''    '' @ uni [9608, 9608, 9553, 9608, 9608, 9553] @ ''   '' @ uni [9608, 9608, 9553, 9608, 9608, 9556, 9608, 9608, 9608, 9608, 9556, 9608, 9608, 9553] @ concat (replicate 6 (uni [9608])) @ uni [9556, 9565]),
       colorReset, (uni [13, 10])],
      concat [(replicate 6 (CHR '' '')), colorGreen, colorBold, (uni [9608, 9608, 9608, 9556, 9565] @ ''   ''), colorReset,
       colorGreen,
       (uni [9608, 9608] @ ''   '' @ uni [9608, 9608, 9553, 9608, 9608, 9553] @ ''   '' @ uni [9608, 9608, 9553, 9608, 9608, 9553, 9562, 9608, 9608, 9556, 9565, 9608, 9608, 9553, 9608, 9608, 9556, 9552, 9552, 9552, 9565] @ '' ''),
       colorReset, (uni [13, 10])],
      concat [(''     ''), colorGreen, colorBold, (concat (replicate 7 (uni [9608])) @ uni [9559] @ '' ''), colorReset,
       colorGreen,
       (uni [9562, 9608, 9608, 9608, 9608, 9608, 9556, 9565, 9562] @ concat (replicate 6 (uni [9608])) @ uni [9556, 9565, 9608, 9608, 9553] @ '' '' @ uni [9562, 9552, 9565] @ '' '' @ uni [9608, 9608, 9553, 9608, 9608, 9553] @ ''     ''),
       colorReset, (uni [13, 10])],
      concat [(''     ''), colorCyan,
       (uni [9562] @ concat (replicate 6 (uni [9552])) @ uni [9565] @ ''  '' @ uni [9562, 9552, 9552, 9552, 9552, 9565] @ ''  '' @ uni [9562, 9552, 9552, 9552, 9552, 9552, 9565] @ '' '' @ uni [9562, 9552, 9565] @ ''     '' @ uni [9562, 9552, 9565, 9562, 9552, 9565] @ ''     ''),
       colorReset, (uni [13, 10, 13, 10])],
      concat [(replicate 14 (CHR '' '')), colorCyan, (uni [128737, 65039] @ ''  Secure SSH Gateway & Bastion Host''),
       colorReset, (uni [13, 10, 13, 10])],
      concat [(''  ''), colorCyan, concat (replicate 70 (uni [9472])), colorReset, (uni [13, 10])],
      concat [(''   ''), colorWhite, (''Welcome, ''), colorYellow, colorBold, username, colorReset, (uni [13, 10])],
      concat [(''   ''), colorWhite, (uni [128274] @ '' All operations are monitored and audited''), colorReset,
       (uni [13, 10])],
      concat [(''  ''), colorCyan, concat (replicate 70 (uni [9472])), colorReset, (uni [13, 10, 13, 10])]]"

definition ShowGoodbye :: "string" where
  "ShowGoodbye = concat
     [concat [(uni [13, 10])],
      concat [colorCyan, colorBold, (uni [9556] @ concat (replicate 62 (uni [9552])) @ uni [9559, 13, 10]), colorReset],
      concat [colorCyan, colorBold, (uni [9553] @ replicate 62 (CHR '' '') @ uni [9553, 13, 10]), colorReset],
      concat [colorCyan, colorBold, (uni [9553] @ replicate 14 (CHR '' '')), colorGreen,
       (uni [10003] @ '' Session Completed Successfully''), colorCyan, (replicate 16 (CHR '' '') @ uni [9553, 13, 10]),
       colorReset],
      concat [colorCyan, colorBold, (uni [9553] @ replicate 62 (CHR '' '') @ uni [9553, 13, 10]), colorReset],
      concat [colorCyan, colorBold, (uni [9553] @ replicate 10 (CHR '' '')), colorYellow,
       (''Thank you for using ZJump Gateway''), colorCyan, (replicate 11 (CHR '' '') @ uni [9553, 13, 10]), colorReset],
      concat [colorCyan, colorBold, (uni [9553] @ replicate 14 (CHR '' '')), colorWhite, (''Stay secure, stay connected! ''),
       colorCyan, (replicate 13 (CHR '' '') @ uni [9553, 13, 10]), colorReset],
      concat [colorCyan, colorBold, (uni [9553] @ replicate 62 (CHR '' '') @ uni [9553, 13, 10]), colorReset],
      concat [colorCyan, colorBold, (uni [9562] @ concat (replicate 62 (uni [9552])) @ uni [9565, 13, 10]), colorReset]]"

definition showHostSelectionHelp :: "string" where
  "showHostSelectionHelp = concat
     [concat [(uni [13, 10])],
      concat [colorCyan, colorBold, (uni [9556] @ concat (replicate 62 (uni [9552])) @ uni [9559, 13, 10]), colorReset],
      concat [colorCyan, colorBold, (uni [9553] @ replicate 14 (CHR '' '')), colorYellow,
       (uni [9000, 65039] @ ''  HOST SELECTION COMMANDS''), colorCyan, (replicate 19 (CHR '' '') @ uni [9553, 13, 10]),
       colorReset],
      concat [colorCyan, colorBold, (uni [9568] @ concat (replicate 62 (uni [9552])) @ uni [9571, 13, 10]), colorReset],
      concat [colorCyan, colorBold, (uni [9553] @ ''  ''), colorGreen, (''[1-N]''), colorCyan, (''  '' @ uni [8594] @ '' ''),
       colorWhite, (''Connect to host by number'' @ replicate 27 (CHR '' '')), colorCyan, (uni [9553, 13, 10]), colorReset],
      concat [colorCyan, colorBold, (uni [9553] @ ''  ''), colorGreen, (''n/next''), colorCyan, ('' '' @ uni [8594] @ '' ''),
       colorWhite, (''Go to next page'' @ replicate 37 (CHR '' '')), colorCyan, (uni [9553, 13, 10]), colorReset],
      concat [colorCyan, colorBold, (uni [9553] @ ''  ''), colorGreen, (''p/prev''), colorCyan, ('' '' @ uni [8594] @ '' ''),
       colorWhite, (''Go to previous page'' @ replicate 33 (CHR '' '')), colorCyan, (uni [9553, 13, 10]), colorReset],
      concat [colorCyan, colorBold, (uni [9553] @ ''  ''), colorGreen, (''b/back''), colorCyan, ('' '' @ uni [8594] @ '' ''),
       colorWhite, (''Return to group selection'' @ replicate 27 (CHR '' '')), colorCyan, (uni [9553, 13, 10]), colorReset],
      concat [colorCyan, colorBold, (uni [9553] @ ''  ''), colorGreen, (''g/group''), colorCyan, (uni [8594] @ '' ''),
       colorWhite, (''Return to group selection'' @ replicate 27 (CHR '' '')), colorCyan, (uni [9553, 13, 10]), colorReset],
      concat [colorCyan, colorBold, (uni [9553] @ ''  ''), colorGreen, (''r/refresh''), colorCyan, ('' ''), colorWhite,
       (''Refresh current page'' @ replicate 32 (CHR '' '')), colorCyan, (uni [9553, 13, 10]), colorReset],
      concat [colorCyan, colorBold, (uni [9553] @ ''  ''), colorGreen, (''h/help''), colorCyan, ('' '' @ uni [8594] @ '' ''),
       colorWhite, (''Show this help message'' @ replicate 30 (CHR '' '')), colorCyan, (uni [9553, 13, 10]), colorReset],
      concat [colorCyan, colorBold, (uni [9553] @ ''  ''), colorGreen, (''q/quit''), colorCyan, ('' '' @ uni [8594] @ '' ''),
       colorWhite, (''Return to main menu'' @ replicate 33 (CHR '' '')), colorCyan, (uni [9553, 13, 10]), colorReset],
      concat [colorCyan, colorBold, (uni [9568] @ concat (replicate 62 (uni [9552])) @ uni [9571, 13, 10]), colorReset],
      concat [colorCyan, colorBold, (uni [9553] @ ''  ''), colorYellow, ('' Tip:''), colorWhite,
       ('' Press ENTER without input to show prompt again    ''), colorCyan, (uni [9553, 13, 10]), colorReset],
      concat [colorCyan, colorBold, (uni [9562] @ concat (replicate 62 (uni [9552])) @ uni [9565, 13, 10]), colorReset]]"

definition showMainHelp :: "string" where
  "showMainHelp = concat
     [concat [(uni [13, 10])],
      concat [(''  ''), colorYellow, colorBold, ('' QUICK COMMANDS''), colorReset, (uni [13, 10, 13, 10])],
      concat [(''  ''), colorCyan, (''Main Menu:''), colorReset, (uni [13, 10])],
      concat [(''    ''), colorGreen, colorBold, (''g''), colorReset, (''  ''), colorWhite,
       (uni [8594] @ ''  View & Select Host Groups''), colorReset, (uni [13, 10])],
      concat [(''    ''), colorGreen, colorBold, (''p''), colorReset, (''  ''), colorWhite,
       (uni [8594] @ ''  Quick access to Default Group''), colorReset, (uni [13, 10])],
      concat [(''    ''), colorGreen, colorBold, (''h''), colorReset, (''  ''), colorWhite,
       (uni [8594] @ ''  Show Detailed Help''), colorReset, (uni [13, 10])],
      concat [(''    ''), colorGreen, colorBold, (''q''), colorReset, (''  ''), colorWhite,
       (uni [8594] @ ''  Quit & Disconnect''), colorReset, (uni [13, 10, 13, 10])],
      concat [(''  ''), colorCyan, (''Group Selection:''), colorReset, (uni [13, 10])],
      concat [(''    ''), colorGreen, colorBold, (''[1-9]''), colorReset, (''  ''), colorWhite,
       (uni [8594] @ ''  Select Group''), colorReset, (uni [13, 10])],
      concat [(''    ''), colorGreen, colorBold, (''b''), colorReset, (replicate 6 (CHR '' '')), colorWhite,
       (uni [8594] @ ''  Back to Main Menu''), colorReset, (uni [13, 10, 13, 10])],
      concat [(''  ''), colorCyan, (''Host Selection:''), colorReset, (uni [13, 10])],
      concat [(''    ''), colorGreen, colorBold, (''[1-9]''), colorReset, (''  ''), colorWhite,
       (uni [8594] @ ''  Connect to Host''), colorReset, (uni [13, 10])],
      concat [(''    ''), colorGreen, colorBold, (''n''), colorReset, (replicate 6 (CHR '' '')), colorWhite,
       (uni [8594] @ ''  Next Page''), colorReset, (uni [13, 10])],
      concat [(''    ''), colorGreen, colorBold, (''p''), colorReset, (replicate 6 (CHR '' '')), colorWhite,
       (uni [8594] @ ''  Previous Page''), colorReset, (uni [13, 10])],
      concat [(''    ''), colorGreen, colorBold, (''b/g''), colorReset, (''    ''), colorWhite,
       (uni [8594] @ ''  Back to Groups''), colorReset, (uni [13, 10])],
      concat [(''    ''), colorGreen, colorBold, (''r''), colorReset, (replicate 6 (CHR '' '')), colorWhite,
       (uni [8594] @ ''  Refresh List''), colorReset, (uni [13, 10])],
      concat [(''    ''), colorGreen, colorBold, (''q''), colorReset, (replicate 6 (CHR '' '')), colorWhite,
       (uni [8594] @ ''  Quit to Main Menu''), colorReset, (uni [13, 10, 13, 10])]]"

definition showDetailedHelp :: "string" where
  "showDetailedHelp = concat
     [concat [(uni [13, 10])],
      concat [(''  ''), colorYellow, colorBold, (uni [128214] @ '' HELP GUIDE''), colorReset, (uni [13, 10, 13, 10])],
      concat [(''  ''), colorCyan, colorBold, (uni [128204] @ '' Main Menu:''), colorReset, (uni [13, 10])],
      concat [(''    ''), colorGreen, (''g''), colorReset, (''  ''), colorWhite, (''View and select host groups''), colorReset,
       (uni [13, 10])],
      concat [(''    ''), colorGreen, (''p''), colorReset, (''  ''), colorWhite, (''Quick access to default group''),
       colorReset, (uni [13, 10])],
      concat [(''    ''), colorGreen, (''h''), colorReset, (''  ''), colorWhite, (''Show this help guide''), colorReset,
       (uni [13, 10])],
      concat [(''    ''), colorGreen, (''q''), colorReset, (''  ''), colorWhite, (''Quit and disconnect''), colorReset,
       (uni [13, 10, 13, 10])],
      concat [(''  ''), colorCyan, colorBold, (uni [128194] @ '' Group Selection:''), colorReset, (uni [13, 10])],
      concat [(''    ''), colorGreen, (''[1-9]''), colorReset, (''  ''), colorWhite, (''Select group by number''), colorReset,
       (uni [13, 10])],
      concat [(''    ''), colorGreen, (''b''), colorReset, (replicate 6 (CHR '' '')), colorWhite, (''Back to main menu''),
       colorReset, (uni [13, 10, 13, 10])],
      concat [(''  ''), colorCyan, colorBold, (uni [128421] @ ''  Host Selection:''), colorReset, (uni [13, 10])],
      concat [(''    ''), colorGreen, (''[1-9]''), colorReset, (replicate 6 (CHR '' '')), colorWhite, (''Connect to host''),
       colorReset, (uni [13, 10])],
      concat [(''    ''), colorGreen, (''n/next''), colorReset, (''    ''), colorWhite, (''Next page''), colorReset,
       (uni [13, 10])],
      concat [(''    ''), colorGreen, (''p/prev''), colorReset, (''    ''), colorWhite, (''Previous page''), colorReset,
       (uni [13, 10])],
      concat [(''    ''), colorGreen, (''b/back''), colorReset, (''    ''), colorWhite, (''Back to groups''), colorReset,
       (uni [13, 10])],
      concat [(''    ''), colorGreen, (''r/refresh''), colorReset, (''  ''), colorWhite, (''Refresh list''), colorReset,
       (uni [13, 10])],
      concat [(''    ''), colorGreen, (''h/?''), colorReset, (replicate 7 (CHR '' '')), colorWhite, (''Show help''),
       colorReset, (uni [13, 10])],
      concat [(''    ''), colorGreen, (''q/quit''), colorReset, (''    ''), colorWhite, (''Return to menu''), colorReset,
       (uni [13, 10, 13, 10])],
      concat [(''  ''), colorYellow, ('' Tips:''), colorReset, (uni [13, 10])],
      concat [(''    '' @ uni [8226] @ '' Commands are case-insensitive'' @ uni [13, 10])],
      concat [(''    '' @ uni [8226] @ '' Press ENTER for prompt'' @ uni [13, 10])],
      concat [(''    '' @ uni [8226] @ '' Type '' @ uni [39] @ ''exit'' @ uni [39] @ '' to go back'' @ uni [13, 10, 13, 10])],
      concat [(''  ''), colorRed, (''  Security:''), colorReset, (uni [13, 10])],
      concat [(''    '' @ uni [8226] @ '' All sessions are recorded'' @ uni [13, 10])],
      concat [(''    '' @ uni [8226] @ '' Unauthorized access will be reported'' @ uni [13, 10, 13, 10])]]"

text \<open>The fixed lines of the two lists.\<close>

definition group_list_head :: "string" where
  "group_list_head = concat
     [concat [(uni [13, 10])],
      concat [colorCyan, colorBold, (uni [9556] @ concat (replicate 62 (uni [9552])) @ uni [9559, 13, 10]), colorReset],
      concat [colorCyan, colorBold, (uni [9553] @ replicate 20 (CHR '' '')), colorYellow, (uni [128450] @ ''  HOST GROUPS''),
       colorCyan, (replicate 26 (CHR '' '') @ uni [9553, 13, 10]), colorReset],
      concat [colorCyan, colorBold,
       (uni [9568, 9552, 9552, 9552, 9552, 9552, 9572] @ concat (replicate 30 (uni [9552])) @ uni [9572] @ concat (replicate 27 (uni [9552])) @ uni [9571, 13, 10]),
       colorReset],
      concat [colorCyan, colorBold, (uni [9553] @ '' ''), colorYellow, (''No.''), colorCyan, ('' '' @ uni [9474] @ '' ''),
       colorYellow, (''Group Name''), colorCyan, (replicate 19 (CHR '' '') @ uni [9474] @ '' ''), colorYellow,
       (''Hosts Status''), colorCyan, (replicate 10 (CHR '' '') @ uni [9553, 13, 10]), colorReset],
      concat [colorCyan, colorBold,
       (uni [9568, 9552, 9552, 9552, 9552, 9552, 9578] @ concat (replicate 30 (uni [9552])) @ uni [9578] @ concat (replicate 27 (uni [9552])) @ uni [9571, 13, 10]),
       colorReset]]"

definition group_list_foot :: "string" where
  "group_list_foot = concat
     [concat [colorCyan, colorBold,
       (uni [9562, 9552, 9552, 9552, 9552, 9552, 9575] @ concat (replicate 30 (uni [9552])) @ uni [9575] @ concat (replicate 27 (uni [9552])) @ uni [9565, 13, 10]),
       colorReset],
      concat [colorCyan, (''   ''), colorWhite, (''Enter number to select, ''), colorGreen, (uni [39] @ ''b'' @ uni [39]),
       colorWhite, ('' to back'' @ uni [13, 10]), colorReset]]"

definition host_list_top :: "string" where
  "host_list_top = concat
     [concat [(uni [13, 10])],
      concat [colorCyan, colorBold, (uni [9556] @ concat (replicate 80 (uni [9552])) @ uni [9559, 13, 10]), colorReset]]"

definition host_list_head :: "string" where
  "host_list_head = concat
     [concat [colorCyan, colorBold,
       (uni [9568, 9552, 9552, 9552, 9552, 9552, 9572] @ concat (replicate 27 (uni [9552])) @ uni [9572] @ concat (replicate 20 (uni [9552])) @ uni [9572] @ concat (replicate 10 (uni [9552])) @ uni [9572] @ concat (replicate 11 (uni [9552])) @ uni [9571, 13, 10]),
       colorReset],
      concat [colorCyan, colorBold, (uni [9553] @ '' ''), colorYellow, (''No.''), colorCyan, ('' '' @ uni [9474] @ '' ''),
       colorYellow, (''Hostname''), colorCyan, (replicate 19 (CHR '' '') @ uni [9474] @ '' ''), colorYellow, (''IP Address''),
       colorCyan, (replicate 7 (CHR '' '') @ uni [9474] @ '' ''), colorYellow, (''Type''), colorCyan,
       (''     '' @ uni [9474] @ '' ''), colorYellow, (''Status''), colorCyan, (''    '' @ uni [9553, 13, 10]), colorReset],
      concat [colorCyan, colorBold,
       (uni [9568, 9552, 9552, 9552, 9552, 9552, 9578] @ concat (replicate 27 (uni [9552])) @ uni [9578] @ concat (replicate 20 (uni [9552])) @ uni [9578] @ concat (replicate 10 (uni [9552])) @ uni [9578] @ concat (replicate 11 (uni [9552])) @ uni [9571, 13, 10]),
       colorReset]]"

definition host_list_foot :: "string" where
  "host_list_foot = concat
     [concat [colorCyan, colorBold,
       (uni [9562, 9552, 9552, 9552, 9552, 9552, 9575] @ concat (replicate 27 (uni [9552])) @ uni [9575] @ concat (replicate 20 (uni [9552])) @ uni [9575] @ concat (replicate 10 (uni [9552])) @ uni [9575] @ concat (replicate 11 (uni [9552])) @ uni [9565, 13, 10]),
       colorReset],
      concat [colorCyan, (''   ''), colorWhite, (''Commands: ''), colorGreen, (''[Number]''), colorWhite, (''=Connect  ''),
       colorGreen, (''n''), colorWhite, (''=Next  ''), colorGreen, (''p''), colorWhite, (''=Prev  ''), colorGreen, (''b''),
       colorWhite, (''=Back  ''), colorGreen, (''h''), colorWhite, (''=Help  ''), colorGreen, (''q''), colorWhite,
       (''=Quit'' @ uni [13, 10]), colorReset]]"

definition group_row :: "int \<Rightarrow> HostGroupInfo \<Rightarrow> string option" where
  "group_row i grp =
     (let groupName = go_truncate (gi_Name grp) 28;
          statusInfo = print_int (gi_HostCount grp) @ '' Total | '' @ colorGreen @ print_int (gi_OnlineCount grp) @ '' Online'' @ colorCyan;
          plain = print_int (gi_HostCount grp) @ '' Total | '' @ print_int (gi_OnlineCount grp) @ '' Online''
      in case (Repeat '' '' (28 - int (length (go_truncate (gi_Name grp) 28))), Repeat '' '' (25 - int (length plain))) of
        (Some nameSpace, Some statusSpace) \<Rightarrow>
          Some (colorCyan @ colorBold @ (uni [9553] @ '' '') @ colorYellow @ pad_left 3 (print_int i) @ colorCyan @ ('' '' @ uni [9474] @ '' '') @ colorWhite @ groupName @ nameSpace @
            colorCyan @ ('' '' @ uni [9474] @ '' '') @ statusInfo @ statusSpace @ ('' '' @ uni [9553]) @ crlf @ colorReset)
      | _ \<Rightarrow> None)"

definition showGroupList :: "HostGroupInfo list \<Rightarrow> string option" where
  "showGroupList gs = map_option (\<lambda>rows. group_list_head @ concat rows @ group_list_foot)
     (those (map (\<lambda>(i, g). group_row (int i) g) (enumerate 1 gs)))"

definition status_shown :: "HostInfo \<Rightarrow> string \<times> string" where
  "status_shown host =
     (if ToLower (h_Status host) = ''online'' then (colorGreen, ''Online'')
      else if ToLower (h_Status host) = ''offline'' then (colorRed, ''Offline'')
      else (colorYellow, h_Status host))"

definition host_row :: "int \<Rightarrow> HostInfo \<Rightarrow> string option" where
  "host_row i host =
     (case status_shown host of (statusColor, statusText) \<Rightarrow>
      let hostname = go_truncate (h_Name host) 25; ipAddr = go_truncate (h_IP host) 18; deviceType = go_truncate (h_DeviceType host) 8
      in case (Repeat '' '' (25 - int (length hostname)), Repeat '' '' (18 - int (length ipAddr)), Repeat '' '' (8 - int (length deviceType)),
               Repeat '' '' (9 - int (length statusText))) of
        (Some hostSpace, Some ipSpace, Some typeSpace, Some statusSpace) \<Rightarrow>
          Some (colorCyan @ colorBold @ (uni [9553] @ '' '') @ colorYellow @ pad_left 3 (print_int i) @ colorCyan @ ('' '' @ uni [9474] @ '' '') @ colorWhite @ hostname @ hostSpace @
            colorCyan @ ('' '' @ uni [9474] @ '' '') @ colorWhite @ ipAddr @ ipSpace @ colorCyan @ ('' '' @ uni [9474] @ '' '') @ colorWhite @ deviceType @ typeSpace @
            colorCyan @ ('' '' @ uni [9474] @ '' '') @ statusColor @ statusText @ statusSpace @ colorCyan @ ('' '' @ uni [9553]) @ crlf @ colorReset)
      | _ \<Rightarrow> None)"

definition showHostList :: "HostGroupInfo \<Rightarrow> int \<Rightarrow> HostInfo list \<Rightarrow> string option" where
  "showHostList grp page hs =
     (case (Repeat '' '' (66 - int (length (gi_Name grp))), those (map (\<lambda>(i, h). host_row (int i) h) (enumerate 1 hs))) of
        (Some space, Some rows) \<Rightarrow> Some (host_list_top @
          concat [colorCyan, colorBold, (uni [9553] @ ''  ''), colorYellow, (uni [128203] @ '' ''), gi_Name grp, colorCyan, space, '' [Page '', print_int page, (''] '' @ uni [9553]), crlf, colorReset] @
          host_list_head @ concat rows @ host_list_foot)
      | _ \<Rightarrow> None)"

definition simple_row :: "int \<Rightarrow> HostInfo \<Rightarrow> string" where
  "simple_row i host =
     (let (statusColor, statusText) =
        (if ToLower (h_Status host) = ''online'' then (colorGreen, (uni [9679] @ ''online''))
         else if ToLower (h_Status host) = ''offline'' then (colorRed, (uni [9679] @ ''offline''))
         else (colorYellow, (uni [9679]) @ h_Status host))
      in colorYellow @ pad_right 5 (print_int i) @ colorReset @ '' '' @ pad_right 25 (go_truncate (h_Name host) 25) @ '' '' @
         pad_right 20 (go_truncate (h_IP host) 20) @ '' '' @ pad_right 10 (go_truncate (h_DeviceType host) 10) @ '' '' @
         statusColor @ pad_right 10 statusText @ colorReset @ crlf)"

definition showSimpleHostList :: "HostInfo list \<Rightarrow> string" where
  "showSimpleHostList hs =
     crlf @ colorCyan @ colorBold @ ''=== Available Hosts ==='' @ colorReset @ crlf @
     colorCyan @ colorBold @ pad_right 5 ''No.'' @ '' '' @ pad_right 25 ''Name'' @ '' '' @ pad_right 20 ''IP Address'' @ '' '' @
       pad_right 10 ''Type'' @ '' '' @ pad_right 10 ''Status'' @ colorReset @ crlf @
     colorCyan @ replicate 75 CHR ''-'' @ colorReset @ crlf @
     concat (map (\<lambda>(i, h). simple_row (int i) h) (enumerate 1 hs))"

section \<open>The menu\<close>

record MenuV2 =
  mv_currentGroups :: "HostGroupInfo list"
  mv_currentHosts :: "HostInfo list"
  mv_currentGroup :: "HostGroupInfo option"
  mv_currentPage :: int
  mv_pageSize :: int
  mv_in :: string
  mv_out :: string

definition NewMenuV2 :: "string \<Rightarrow> MenuV2" where
  "NewMenuV2 channel = \<lparr>mv_currentGroups = [], mv_currentHosts = [], mv_currentGroup = None, mv_currentPage = 1, mv_pageSize = 20,
     mv_in = channel, mv_out = []\<rparr>"

definition put_out :: "string \<Rightarrow> MenuV2 \<Rightarrow> MenuV2" where "put_out s m = m\<lparr>mv_out := mv_out m @ s\<rparr>"

definition showError :: "string \<Rightarrow> MenuV2 \<Rightarrow> MenuV2" where
  "showError errMsg m = put_out (crlf @ colorRed @ ''   '' @ colorRed @ colorBold @ ''Error: '' @ colorWhite @ errMsg @ colorReset @ crlf) m"

definition showMessage :: "string \<Rightarrow> MenuV2 \<Rightarrow> MenuV2" where
  "showMessage msg m = put_out (crlf @ colorCyan @ (''  '' @ uni [8505, 65039] @ ''  '') @ colorWhite @ msg @ colorReset @ crlf) m"

definition ShowReturnToMenu :: "MenuV2 \<Rightarrow> MenuV2" where
  "ShowReturnToMenu m = put_out showMainHelp (put_out (crlf @ colorGreen @ (''  '' @ uni [10003] @ '' '') @ colorWhite @ ''Connection closed. Returning to main menu...'' @ colorReset @ crlf) m)"

definition menu_connection_info :: "HostInfo \<Rightarrow> MenuV2 \<Rightarrow> MenuV2" where
  "menu_connection_info host m = put_out (crlf @ colorGreen @ ''Connecting to '' @ h_Name host @ '' ('' @ h_IP host @ '':'' @ print_int (h_Port host) @ '') as '' @
     (if h_Username host = [] then ''(system user)'' else h_Username host) @ ''...'' @ colorReset @ crlf) m"

subsection \<open>Reading a line\<close>

text \<open>The command, the input that is left, and the echo.  A closed channel gives the empty command; what was
  typed before is lost.\<close>

function read_line :: "string \<Rightarrow> string \<Rightarrow> string \<Rightarrow> string \<times> string \<times> string" where
  "read_line [] buf out = ([], [], out)"
| "read_line (ch # rest) buf out =
     (if ch = chr 13 \<or> ch = chr 10 then (buf, rest, out @ crlf)
      else if ch = chr 127 \<or> ch = chr 8 then
        (if buf \<noteq> [] then read_line rest (butlast buf) (out @ [chr 8, CHR '' '', chr 8]) else read_line rest buf out)
      else if ch = chr 3 then (''q'', rest, out)
      else if ch = chr 4 then (''q'', rest, out)
      else if ch = chr 27 then read_line (if rest \<noteq> [] \<and> hd rest = CHR ''['' then drop 2 rest else drop 1 rest) buf out
      else if 32 \<le> (of_char ch :: nat) \<and> (of_char ch :: nat) < 127 then read_line rest (buf @ [ch]) (out @ [ch])
      else read_line rest buf out)"
  by pat_completeness auto
termination by (relation "measure (\<lambda>(i, b, out). length i)") auto

definition readCommand :: "MenuV2 \<Rightarrow> string \<times> MenuV2" where
  "readCommand m = (case read_line (mv_in m) [] [] of (command, rest, echo) \<Rightarrow> (command, put_out echo (m\<lparr>mv_in := rest\<rparr>)))"

function press_enter :: "string \<Rightarrow> string \<times> string" where
  "press_enter [] = ([], [])"
| "press_enter (ch # rest) = (if ch = chr 13 \<or> ch = chr 10 then (rest, crlf) else press_enter rest)"
  by pat_completeness auto
termination by (relation "measure length") auto

definition PromptPressToContinue :: "MenuV2 \<Rightarrow> MenuV2" where
  "PromptPressToContinue m = (let m = put_out (crlf @ colorCyan @ ''Press Enter to continue...'' @ colorReset @ '' '') m in
     case press_enter (mv_in m) of (rest, echo) \<Rightarrow> put_out echo (m\<lparr>mv_in := rest\<rparr>))"

subsection \<open>Loading\<close>

definition loadGroups :: "HostSelector \<Rightarrow> sel_view \<Rightarrow> MenuV2 \<Rightarrow> string + MenuV2" where
  "loadGroups S V m = (case sel_ListGroups S V of Inl e \<Rightarrow> Inl e | Inr gs \<Rightarrow> Inr (m\<lparr>mv_currentGroups := gs\<rparr>))"

definition loadGroupsForUser :: "HostSelector \<Rightarrow> sel_view \<Rightarrow> string \<Rightarrow> MenuV2 \<Rightarrow> string + MenuV2" where
  "loadGroupsForUser S V userID m = (case ListGroupsForUser S V userID of
     Inr gs \<Rightarrow> Inr (m\<lparr>mv_currentGroups := gs\<rparr>)
   | Inl _ \<Rightarrow> (case sel_ListGroups S V of Inl e \<Rightarrow> Inl e | Inr gs \<Rightarrow> Inr (m\<lparr>mv_currentGroups := gs\<rparr>)))"

definition loadHostsInGroup :: "HostSelector \<Rightarrow> sel_view \<Rightarrow> string \<Rightarrow> int \<Rightarrow> MenuV2 \<Rightarrow> string + MenuV2" where
  "loadHostsInGroup S V groupID page m = (case ListHostsByGroup S V groupID page (mv_pageSize m) of
     Inl e \<Rightarrow> Inl e | Inr (hs, cnt) \<Rightarrow> Inr (m\<lparr>mv_currentHosts := hs\<rparr>))"

subsection \<open>Places and turns\<close>

text \<open>The loop the dialogue is in: the main menu, the list of groups, the hosts of a group (entered from the
  list of groups, or else from the main menu), the list of all hosts.\<close>

datatype place = AtMain | AtGroups | AtHosts HostGroupInfo bool | AtAllHosts "HostInfo list"

datatype progress = Stay place | Chosen HostInfo | Leave | MenuPanic

definition typed :: "string \<Rightarrow> string" where "typed command = ToLower (TrimSpace command)"

definition number_in :: "string \<Rightarrow> nat \<Rightarrow> nat option" where
  "number_in cmd n = (case Atoi cmd of (k, ok) \<Rightarrow> if ok \<and> 1 \<le> k \<and> k \<le> int n then Some (nat (k - 1)) else None)"

definition draw :: "string option \<Rightarrow> place \<Rightarrow> MenuV2 \<Rightarrow> progress \<times> MenuV2" where
  "draw screen p m = (case screen of None \<Rightarrow> (MenuPanic, m) | Some s \<Rightarrow> (Stay p, put_out s m))"

definition enter_groups :: "MenuV2 \<Rightarrow> progress \<times> MenuV2" where
  "enter_groups m = draw (showGroupList (mv_currentGroups m)) AtGroups m"

definition draw_hosts :: "HostGroupInfo \<Rightarrow> bool \<Rightarrow> MenuV2 \<Rightarrow> progress \<times> MenuV2" where
  "draw_hosts grp listed m = draw (showHostList grp (mv_currentPage m) (mv_currentHosts m)) (AtHosts grp listed) m"

definition leave_hosts :: "bool \<Rightarrow> MenuV2 \<Rightarrow> progress \<times> MenuV2" where
  "leave_hosts listed m = (if listed then enter_groups m else (Stay AtMain, m))"

definition enter_hosts :: "HostSelector \<Rightarrow> sel_view \<Rightarrow> HostGroupInfo \<Rightarrow> bool \<Rightarrow> MenuV2 \<Rightarrow> progress \<times> MenuV2" where
  "enter_hosts S V grp listed m =
     (let m = m\<lparr>mv_currentGroup := Some grp, mv_currentPage := 1\<rparr> in
      case loadHostsInGroup S V (gi_ID grp) 1 m of
        Inl e \<Rightarrow> leave_hosts listed (showError (''Failed to load hosts: '' @ e) m)
      | Inr m \<Rightarrow> draw_hosts grp listed m)"

text \<open>One turn of the main menu.\<close>

definition main_turn :: "HostSelector \<Rightarrow> sel_view \<Rightarrow> string \<Rightarrow> MenuV2 \<Rightarrow> progress \<times> MenuV2" where
  "main_turn S V command m =
     (let cmd = typed command in
      if cmd \<in> {''q'', ''quit'', ''exit''} then (Leave, m)
      else if cmd \<in> {''g'', ''group''} then enter_groups m
      else if cmd \<in> {''p'', ''page'', ''list''} then
        (case mv_currentGroups m of [] \<Rightarrow> (Stay AtMain, m) | grp # _ \<Rightarrow> enter_hosts S V grp False m)
      else if cmd \<in> {''h'', ''help'', ''?''} then (Stay AtMain, put_out showDetailedHelp m)
      else if cmd = [] then (Stay AtMain, m)
      else case number_in cmd (length (mv_currentHosts m)) of
        Some k \<Rightarrow> (Chosen (mv_currentHosts m ! k), m)
      | None \<Rightarrow> (Stay AtMain, showError (''Invalid command: '' @ command @ ''. Type '' @ [chr 39] @ ''h'' @ [chr 39] @ '' for help'') m))"

text \<open>One turn of the list of groups.\<close>

definition group_turn :: "HostSelector \<Rightarrow> sel_view \<Rightarrow> string \<Rightarrow> MenuV2 \<Rightarrow> progress \<times> MenuV2" where
  "group_turn S V command m =
     (let cmd = typed command in
      if cmd \<in> {''b'', ''back''} then (Stay AtMain, m)
      else case number_in cmd (length (mv_currentGroups m)) of
        Some k \<Rightarrow> enter_hosts S V (mv_currentGroups m ! k) True m
      | None \<Rightarrow> (Stay AtGroups, showError (''Invalid group number. Please enter 1-'' @ print_int (int (length (mv_currentGroups m))) @
          '' or '' @ [chr 39] @ ''b'' @ [chr 39] @ '' to back'') m))"

text \<open>One turn of the hosts of a group.  A page that cannot be loaded leaves the hosts as they are.\<close>

definition reload :: "HostSelector \<Rightarrow> sel_view \<Rightarrow> HostGroupInfo \<Rightarrow> bool \<Rightarrow> MenuV2 \<Rightarrow> progress \<times> MenuV2" where
  "reload S V grp listed m = (case loadHostsInGroup S V (gi_ID grp) (mv_currentPage m) m of
     Inl e \<Rightarrow> (Stay (AtHosts grp listed), m) | Inr m \<Rightarrow> draw_hosts grp listed m)"

definition next_page :: "HostSelector \<Rightarrow> sel_view \<Rightarrow> HostGroupInfo \<Rightarrow> bool \<Rightarrow> MenuV2 \<Rightarrow> progress \<times> MenuV2" where
  "next_page S V grp listed m =
     (let m1 = m\<lparr>mv_currentPage := int64 (mv_currentPage m + 1)\<rparr>;
          back = (\<lambda>m. let m = showMessage ''Already at last page, showing last page:'' m in
            reload S V grp listed (m\<lparr>mv_currentPage := int64 (mv_currentPage m - 1)\<rparr>))
      in case loadHostsInGroup S V (gi_ID grp) (mv_currentPage m1) m1 of
        Inl e \<Rightarrow> back m1
      | Inr m2 \<Rightarrow> if mv_currentHosts m2 = [] then back m2 else draw_hosts grp listed m2)"

definition prev_page :: "HostSelector \<Rightarrow> sel_view \<Rightarrow> HostGroupInfo \<Rightarrow> bool \<Rightarrow> MenuV2 \<Rightarrow> progress \<times> MenuV2" where
  "prev_page S V grp listed m =
     (if mv_currentPage m > 1 then reload S V grp listed (m\<lparr>mv_currentPage := mv_currentPage m - 1\<rparr>)
      else (let m = showMessage ''Already at first page, showing first page:'' m in
        case loadHostsInGroup S V (gi_ID grp) 1 m of
          Inl e \<Rightarrow> (Stay (AtHosts grp listed), m) | Inr m \<Rightarrow> draw_hosts grp listed m))"

definition then_message :: "string \<Rightarrow> progress \<times> MenuV2 \<Rightarrow> progress \<times> MenuV2" where
  "then_message msg r = (case r of (Stay p, m) \<Rightarrow> (Stay p, showMessage msg m) | _ \<Rightarrow> r)"

definition host_turn :: "HostSelector \<Rightarrow> sel_view \<Rightarrow> HostGroupInfo \<Rightarrow> bool \<Rightarrow> string \<Rightarrow> MenuV2 \<Rightarrow> progress \<times> MenuV2" where
  "host_turn S V grp listed command m =
     (let cmd = typed command in
      if cmd \<in> {''b'', ''back'', ''g'', ''group''} then leave_hosts listed m
      else if cmd \<in> {''q'', ''quit'', ''exit''} then leave_hosts listed (showMessage ''Returning to main menu...'' m)
      else if cmd \<in> {''h'', ''help'', ''?''} then draw_hosts grp listed (put_out showHostSelectionHelp m)
      else if cmd \<in> {''r'', ''refresh''} then (case loadHostsInGroup S V (gi_ID grp) (mv_currentPage m) m of
        Inl e \<Rightarrow> (Stay (AtHosts grp listed), showError (''Failed to refresh: '' @ e) m)
      | Inr m \<Rightarrow> then_message ''Host list refreshed'' (draw_hosts grp listed m))
      else if cmd \<in> {''n'', ''next''} then next_page S V grp listed m
      else if cmd \<in> {''p'', ''prev''} then prev_page S V grp listed m
      else if cmd = [] then (Stay (AtHosts grp listed), m)
      else case number_in cmd (length (mv_currentHosts m)) of
        Some k \<Rightarrow> (Chosen (mv_currentHosts m ! k), m)
      | None \<Rightarrow> (Stay (AtHosts grp listed), showError (''Invalid input '' @ [chr 39] @ cmd @ [chr 39] @ ''. Enter: [1-'' @
          print_int (int (length (mv_currentHosts m))) @ '']=Connect, n=Next, p=Prev, b=Back, h=Help, q=Quit'') m))"

text \<open>One turn of the list of all hosts.\<close>

definition all_hosts_turn :: "HostInfo list \<Rightarrow> string \<Rightarrow> MenuV2 \<Rightarrow> progress \<times> MenuV2" where
  "all_hosts_turn hs command m =
     (let cmd = typed command in
      if cmd \<in> {''q'', ''quit'', ''exit''} then (Leave, m)
      else case number_in cmd (length hs) of
        Some k \<Rightarrow> (Chosen (hs ! k), m)
      | None \<Rightarrow> (Stay (AtAllHosts hs), showError (''Invalid selection. Please enter 1-'' @ print_int (int (length hs)) @
          '' or '' @ [chr 39] @ ''q'' @ [chr 39] @ '' to quit'') m))"

fun prompt :: "place \<Rightarrow> string" where
  "prompt AtMain = crlf @ colorYellow @ colorBold @ ''Opt>'' @ colorReset @ '' ''"
| "prompt AtGroups = crlf @ colorCyan @ colorBold @ ''Select Group>'' @ colorReset @ '' ''"
| "prompt (AtHosts g l) = crlf @ colorGreen @ colorBold @ ''Select Host>'' @ colorReset @ '' ''"
| "prompt (AtAllHosts hs) = crlf @ colorYellow @ colorBold @ ''Opt>'' @ colorReset @ '' ''"

fun take_turn :: "HostSelector \<Rightarrow> sel_view \<Rightarrow> place \<Rightarrow> string \<Rightarrow> MenuV2 \<Rightarrow> progress \<times> MenuV2" where
  "take_turn S V AtMain command m = main_turn S V command m"
| "take_turn S V AtGroups command m = group_turn S V command m"
| "take_turn S V (AtHosts grp listed) command m = host_turn S V grp listed command m"
| "take_turn S V (AtAllHosts hs) command m = all_hosts_turn hs command m"

definition menu_step :: "HostSelector \<Rightarrow> sel_view \<Rightarrow> place \<Rightarrow> MenuV2 \<Rightarrow> progress \<times> MenuV2" where
  "menu_step S V p m = (case readCommand (put_out (prompt p) m) of (command, m) \<Rightarrow> take_turn S V p command m)"

fun menu_run :: "HostSelector \<Rightarrow> sel_view list \<Rightarrow> place \<Rightarrow> MenuV2 \<Rightarrow> progress \<times> MenuV2" where
  "menu_run S [] p m = (Stay p, m)"
| "menu_run S (V # Vs) p m = (case menu_step S V p m of (Stay p', m') \<Rightarrow> menu_run S Vs p' m' | r \<Rightarrow> r)"

definition fallbackToAllHosts :: "HostSelector \<Rightarrow> sel_view \<Rightarrow> string \<Rightarrow> MenuV2 \<Rightarrow> progress \<times> MenuV2" where
  "fallbackToAllHosts S V userID m = (case ListAvailableHosts S V userID of
     Inl e \<Rightarrow> (Leave, showError (''Failed to list hosts: '' @ e) m)
   | Inr hs \<Rightarrow> if hs = [] then (Leave, showError ''No hosts available for your account.'' m)
       else (Stay (AtAllHosts hs), put_out (showSimpleHostList hs) (m\<lparr>mv_currentHosts := hs\<rparr>)))"

definition menu_start :: "HostSelector \<Rightarrow> sel_view \<Rightarrow> string \<Rightarrow> MenuV2 \<Rightarrow> progress \<times> MenuV2" where
  "menu_start S V userID m = (case loadGroupsForUser S V userID m of
     Inl e \<Rightarrow> fallbackToAllHosts S V userID (showError (''Failed to load groups: '' @ e) m)
   | Inr m \<Rightarrow> if mv_currentGroups m = []
       then fallbackToAllHosts S V userID (showMessage (crlf @ colorYellow @
         ''No groups available for your account. Contact administrator for access.'' @ colorReset @ crlf) m)
       else (Stay AtMain, put_out showMainHelp m))"

text \<open>The dialogue: it starts with the first view of the database, and each of the others serves one command.\<close>

definition InteractiveMenuV2 :: "HostSelector \<Rightarrow> sel_view \<Rightarrow> sel_view list \<Rightarrow> string \<Rightarrow> MenuV2 \<Rightarrow> progress \<times> MenuV2" where
  "InteractiveMenuV2 S V Vs userID m = (case menu_start S V userID m of (Stay p, m) \<Rightarrow> menu_run S Vs p m | r \<Rightarrow> r)"

section \<open>Facts\<close>

lemma put_out_simps [simp]:
  "mv_in (put_out s m) = mv_in m" "mv_currentHosts (put_out s m) = mv_currentHosts m" "mv_currentGroups (put_out s m) = mv_currentGroups m"
  "mv_currentPage (put_out s m) = mv_currentPage m" "mv_pageSize (put_out s m) = mv_pageSize m" "mv_out (put_out s m) = mv_out m @ s"
  by (simp_all add: put_out_def)

lemma shown_simps [simp]:
  "mv_in (showError e m) = mv_in m" "mv_currentHosts (showError e m) = mv_currentHosts m" "mv_currentGroups (showError e m) = mv_currentGroups m"
  "mv_currentPage (showError e m) = mv_currentPage m" "mv_pageSize (showError e m) = mv_pageSize m"
  "mv_in (showMessage e m) = mv_in m" "mv_currentHosts (showMessage e m) = mv_currentHosts m" "mv_currentGroups (showMessage e m) = mv_currentGroups m"
  "mv_currentPage (showMessage e m) = mv_currentPage m" "mv_pageSize (showMessage e m) = mv_pageSize m"
  by (simp_all add: showError_def showMessage_def)

lemma readCommand_keeps:
  "mv_currentHosts (snd (readCommand m)) = mv_currentHosts m" "mv_currentGroups (snd (readCommand m)) = mv_currentGroups m"
  "mv_currentPage (snd (readCommand m)) = mv_currentPage m" "mv_pageSize (snd (readCommand m)) = mv_pageSize m"
  by (simp_all add: readCommand_def split: prod.splits)

lemma number_in_bound: "number_in cmd n = Some k \<Longrightarrow> k < n"
  by (auto simp: number_in_def split: prod.splits if_splits)

lemma draw_cases:
  assumes "draw s p m = (r, m')"
  obtains "r = MenuPanic" "m' = m" | t where "s = Some t" "r = Stay p" "m' = put_out t m"
  using assms by (auto simp: draw_def split: option.splits)

subsection \<open>A client that is gone\<close>

lemma closed_turn:
  assumes "mv_in m = []"
  shows "\<exists>m'. menu_step S V p m = (Stay p, m') \<and> mv_in m' = [] \<and> length (mv_out m) < length (mv_out m')"
proof -
  have r: "readCommand (put_out (prompt p) m) = ([], put_out (prompt p) m)"
    using assms by (simp add: readCommand_def put_out_def)
  have n: "number_in [] n = None" "typed [] = []" for n by (simp_all add: number_in_def Atoi_def typed_def)
  have l: "0 < length (prompt p)" by (cases p) (simp_all add: crlf_def)
  have t: "\<exists>m'. take_turn S V p [] m1 = (Stay p, m') \<and> mv_in m' = mv_in m1 \<and> length (mv_out m1) \<le> length (mv_out m')" for m1
    by (cases p) (auto simp: main_turn_def group_turn_def host_turn_def all_hosts_turn_def n Let_def showError_def)
  obtain m' where m': "take_turn S V p [] (put_out (prompt p) m) = (Stay p, m')" "mv_in m' = mv_in m"
    "length (mv_out m) + length (prompt p) \<le> length (mv_out m')"
    using t[of "put_out (prompt p) m"] by auto
  have "length (mv_out m) < length (mv_out m')" using l m'(3) by linarith
  then show ?thesis using assms m' by (auto simp: menu_step_def r)
qed

text \<open>C37: a client that disconnects in the menu leaves it running: the dialogue stays in its loop for ever, whatever the
  database answers, and writes its prompt again and again.\<close>

theorem disconnected_menu_spins:
  assumes "mv_in m = []"
  shows "\<exists>m'. menu_run S Vs p m = (Stay p, m') \<and> length (mv_out m) + length Vs \<le> length (mv_out m')"
proof -
  have "\<exists>m'. menu_run S Vs p m = (Stay p, m') \<and> mv_in m' = [] \<and> length (mv_out m) + length Vs \<le> length (mv_out m')"
    using assms
  proof (induction Vs arbitrary: m)
    case (Cons V Vs)
    obtain m1 where m1: "menu_step S V p m = (Stay p, m1)" "mv_in m1 = []" "length (mv_out m) < length (mv_out m1)"
      using closed_turn[OF Cons.prems] by blast
    then show ?case using Cons.IH[OF m1(2)] by force
  qed simp
  then show ?thesis by blast
qed

subsection \<open>Numbers\<close>

lemma read_line_digits:
  assumes "list_all is_digit ds"
  shows "read_line (ds @ chr 13 # rest) buf out = (buf @ ds, rest, out @ ds @ crlf)"
  using assms
proof (induction ds arbitrary: buf out)
  case (Cons d ds)
  then have "48 \<le> (of_char d :: nat)" "(of_char d :: nat) \<le> 57" by (simp_all add: is_digit_def)
  moreover from this have "d \<noteq> chr 13" "d \<noteq> chr 10" "d \<noteq> chr 127" "d \<noteq> chr 8" "d \<noteq> chr 3" "d \<noteq> chr 4" "d \<noteq> chr 27" by auto
  ultimately show ?case using Cons by simp
qed simp

lemma typed_digits: "list_all is_digit ds \<Longrightarrow> typed ds = ds"
proof -
  assume d: "list_all is_digit ds"
  have "\<not> is_space c" if "c \<in> set ds" for c using d that by (auto simp: list_all_iff is_digit_def is_space_def)
  then have t: "TrimSpace ds = ds" using hd_in_set last_in_set by (intro TrimSpace_id) blast
  have "lower_char c = c" if "c \<in> set ds" for c using d that by (auto simp: list_all_iff is_digit_def is_upper_def lower_char_def)
  then have "ToLower ds = ds" by (simp add: ToLower_def map_idI)
  then show ?thesis by (simp add: typed_def t)
qed

lemma digits_no_word: "list_all is_digit ds \<Longrightarrow> ds \<noteq> [] \<Longrightarrow> \<not> is_digit (hd w) \<Longrightarrow> ds \<noteq> w"
  by (cases ds) auto

lemma number_in_print: "1 \<le> k \<Longrightarrow> k \<le> int n \<Longrightarrow> in_int64 k \<Longrightarrow> number_in (print_int k) n = Some (nat (k - 1))"
  by (simp add: number_in_def)

text \<open>Typing a number and return, in the hosts of a group or again in the main menu, chooses the host with that number
  in the list shown last, and leaves the rest of the input unread.\<close>

theorem menu_number_chooses:
  assumes "1 \<le> k" "k \<le> int (length (mv_currentHosts m))" "in_int64 k" "mv_in m = print_int k @ chr 13 # rest"
    and "p = AtMain \<or> p = AtHosts grp listed"
  shows "\<exists>m'. menu_step S V p m = (Chosen (mv_currentHosts m ! nat (k - 1)), m') \<and> mv_in m' = rest"
proof -
  have d: "list_all is_digit (print_int k)" "print_int k \<noteq> []" using print_digits_ok[of k] assms(1) by (simp_all add: print_int_def)
  obtain m1 where m1: "m1 = put_out (print_int k @ crlf) ((put_out (prompt p) m)\<lparr>mv_in := rest\<rparr>)" by blast
  have r: "readCommand (put_out (prompt p) m) = (print_int k, m1)"
    using read_line_digits[OF d(1), of rest "[]" "[]"] assms(4) by (simp add: readCommand_def m1)
  have w: "print_int k \<notin> {''q'', ''quit'', ''exit''}" "print_int k \<notin> {''g'', ''group''}" "print_int k \<notin> {''p'', ''page'', ''list''}"
    "print_int k \<notin> {''h'', ''help'', ''?''}" "print_int k \<notin> {''b'', ''back'', ''g'', ''group''}" "print_int k \<notin> {''r'', ''refresh''}"
    "print_int k \<notin> {''n'', ''next''}" "print_int k \<notin> {''p'', ''prev''}"
    using digits_no_word[OF d] by (auto simp: is_digit_def)
  have h: "mv_currentHosts m1 = mv_currentHosts m" "mv_in m1 = rest" by (simp_all add: m1 put_out_def)
  have n: "number_in (print_int k) (length (mv_currentHosts m1)) = Some (nat (k - 1))"
    unfolding h using number_in_print assms(1-3) by blast
  have "take_turn S V p (print_int k) m1 = (Chosen (mv_currentHosts m1 ! nat (k - 1)), m1)"
    using assms(5) by (elim disjE) (simp_all only: take_turn.simps main_turn_def host_turn_def Let_def typed_digits[OF d(1)] w if_False d(2) n option.case)
  then show ?thesis by (simp add: menu_step_def r h)
qed

subsection \<open>Where a chosen host comes from\<close>

text \<open>A dialogue keeps every host it offers within a set that the listings of the groups stay in.\<close>

locale menu_hosts =
  fixes S :: HostSelector and Vs :: "sel_view list" and gs :: "HostGroupInfo list" and offered :: "HostInfo \<Rightarrow> bool"
  assumes listing: "V \<in> set Vs \<Longrightarrow> g \<in> set gs \<Longrightarrow> ListHostsByGroup S V (gi_ID g) page 20 = Inr (hs, n) \<Longrightarrow> h \<in> set hs \<Longrightarrow> offered h"
begin

definition menu_ok :: "MenuV2 \<Rightarrow> bool" where
  "menu_ok m \<longleftrightarrow> mv_pageSize m = 20 \<and> mv_currentGroups m = gs \<and> (\<forall>h \<in> set (mv_currentHosts m). offered h)"

fun place_ok :: "place \<Rightarrow> bool" where
  "place_ok (AtHosts g l) = (g \<in> set gs)"
| "place_ok (AtAllHosts hs) = (\<forall>h \<in> set hs. offered h)"
| "place_ok p = True"

fun result_ok :: "progress \<times> MenuV2 \<Rightarrow> bool" where
  "result_ok (Stay p, m) = (place_ok p \<and> menu_ok m)"
| "result_ok (Chosen h, m) = offered h"
| "result_ok r = True"

lemma menu_ok_simps [simp]:
  "menu_ok (put_out s m) = menu_ok m" "menu_ok (showError s m) = menu_ok m" "menu_ok (showMessage s m) = menu_ok m"
  "menu_ok (m\<lparr>mv_currentPage := n\<rparr>) = menu_ok m" "menu_ok (m\<lparr>mv_currentGroup := g\<rparr>) = menu_ok m"
  by (simp_all add: menu_ok_def)

lemma draw_ok: "place_ok p \<Longrightarrow> menu_ok m \<Longrightarrow> result_ok (draw s p m)"
  by (simp add: draw_def split: option.split)

lemma drawing_ok: "g \<in> set gs \<Longrightarrow> menu_ok m \<Longrightarrow> result_ok (draw_hosts g l m)" "menu_ok m \<Longrightarrow> result_ok (leave_hosts l m)"
  "menu_ok m \<Longrightarrow> result_ok (enter_groups m)"
  by (simp_all add: draw_hosts_def leave_hosts_def enter_groups_def draw_ok)

lemma load_ok: "V \<in> set Vs \<Longrightarrow> g \<in> set gs \<Longrightarrow> menu_ok m \<Longrightarrow> loadHostsInGroup S V (gi_ID g) page m = Inr m' \<Longrightarrow> menu_ok m'"
  by (auto simp: loadHostsInGroup_def menu_ok_def split: sum.splits intro: listing)

lemma loading_ok:
  assumes "V \<in> set Vs" "g \<in> set gs" "menu_ok m"
  shows "result_ok (enter_hosts S V g l m)" "result_ok (reload S V g l m)" "result_ok (next_page S V g l m)" "result_ok (prev_page S V g l m)"
proof -
  note l = load_ok[OF assms(1,2)]
  show 1: "result_ok (enter_hosts S V g l m)" using assms
    by (auto simp: enter_hosts_def Let_def split: sum.split intro!: drawing_ok dest!: l[rotated])
  have r: "result_ok (reload S V g l m)" if "menu_ok m" for m using that assms(2)
    by (auto simp: reload_def split: sum.split intro!: drawing_ok dest!: l[rotated])
  show "result_ok (reload S V g l m)" by (rule r[OF assms(3)])
  show "result_ok (next_page S V g l m)" using assms
    by (auto simp: next_page_def Let_def split: sum.split intro!: drawing_ok r dest!: l[rotated])
  show "result_ok (prev_page S V g l m)" using assms
    by (auto simp: prev_page_def Let_def split: sum.split intro!: drawing_ok r dest!: l[rotated])
qed

lemma number_ok: "menu_ok m \<Longrightarrow> number_in c (length (mv_currentHosts m)) = Some k \<Longrightarrow> offered (mv_currentHosts m ! k)"
  by (auto simp: menu_ok_def dest: number_in_bound)

lemma turn_ok:
  assumes "V \<in> set Vs" "place_ok p" "menu_ok m"
  shows "result_ok (take_turn S V p command m)"
proof (cases p)
  case AtMain
  have g: "g \<in> set gs" if "mv_currentGroups m = g # r" for g r
    using assms(3) that unfolding menu_ok_def by (metis list.set_intros(1))
  show ?thesis unfolding AtMain take_turn.simps main_turn_def Let_def using assms(1,3)
    by (auto split: option.splits list.splits intro!: drawing_ok loading_ok number_ok dest: g)
next
  case AtGroups
  have "mv_currentGroups m ! k \<in> set gs" if "number_in c (length (mv_currentGroups m)) = Some k" for c k
    using assms(3) number_in_bound[OF that] unfolding menu_ok_def by (metis nth_mem)
  then show ?thesis unfolding AtGroups take_turn.simps group_turn_def Let_def using assms(1,3)
    by (auto split: option.splits intro!: loading_ok)
next
  case (AtHosts g l)
  have m: "result_ok (then_message msg r)" if "result_ok r" for msg r
    using that by (auto simp: then_message_def split: prod.splits progress.splits)
  show ?thesis unfolding AtHosts take_turn.simps host_turn_def Let_def using assms(1,3) assms(2)[unfolded AtHosts]
    by (auto split: option.splits sum.splits intro!: drawing_ok loading_ok number_ok m dest: load_ok)
next
  case (AtAllHosts hs)
  show ?thesis unfolding AtAllHosts take_turn.simps all_hosts_turn_def Let_def using assms(3) assms(2)[unfolded AtAllHosts]
    by (auto split: option.splits dest!: number_in_bound)
qed

lemma step_ok:
  assumes "V \<in> set Vs" "place_ok p" "menu_ok m"
  shows "result_ok (menu_step S V p m)"
proof -
  have "menu_ok (snd (readCommand (put_out (prompt p) m)))" using assms(3) by (simp add: menu_ok_def readCommand_keeps)
  then show ?thesis using turn_ok[OF assms(1,2)] by (cases "readCommand (put_out (prompt p) m)") (simp add: menu_step_def)
qed

lemma run_ok: "set Ws \<subseteq> set Vs \<Longrightarrow> place_ok p \<Longrightarrow> menu_ok m \<Longrightarrow> result_ok (menu_run S Ws p m)"
proof (induction Ws arbitrary: p m)
  case (Cons W Ws)
  then have "result_ok (menu_step S W p m)" by (auto intro: step_ok)
  then show ?case using Cons by (auto split: prod.splits progress.splits)
qed simp

lemma dialogue_ok:
  assumes "result_ok (menu_start S V userID m)"
  shows "result_ok (InteractiveMenuV2 S V Vs userID m)"
proof (cases "menu_start S V userID m")
  case (Pair r m1)
  then show ?thesis using assms run_ok[OF order_refl] by (cases r) (simp_all add: InteractiveMenuV2_def)
qed

end

definition listed_in :: "HostSelector \<Rightarrow> sel_view list \<Rightarrow> HostGroupInfo list \<Rightarrow> HostInfo \<Rightarrow> bool" where
  "listed_in S Vs gs h \<longleftrightarrow> (\<exists>V \<in> set Vs. \<exists>g \<in> set gs. \<exists>page hs n. ListHostsByGroup S V (gi_ID g) page 20 = Inr (hs, n) \<and> h \<in> set hs)"

definition offered_in :: "HostSelector \<Rightarrow> sel_view list \<Rightarrow> HostGroupInfo list \<Rightarrow> HostInfo list \<Rightarrow> HostInfo \<Rightarrow> bool" where
  "offered_in S Vs gs hs h \<longleftrightarrow> h \<in> set hs \<or> listed_in S Vs gs h"

interpretation listing: menu_hosts S Vs gs "offered_in S Vs gs hs" for S Vs gs hs
  by unfold_locales (unfold offered_in_def listed_in_def, blast)

lemma set_paginate: "set (paginate page pageSize rows) \<subseteq> set rows"
  by (auto simp: paginate_def dest: in_set_takeD in_set_dropD)

lemma listed_member:
  assumes "listed_in S Vs gs h"
  shows "\<exists>V \<in> set Vs. \<exists>g \<in> set gs. (gi_ID g, h_ID h) \<in> set (host_group_members (hd_perms (sv_db V)))"
proof -
  obtain V g page hs n where v: "V \<in> set Vs" "g \<in> set gs" "ListHostsByGroup S V (gi_ID g) page 20 = Inr (hs, n)" "h \<in> set hs"
    using assms by (auto simp: listed_in_def)
  then obtain x where x: "x \<in> set (fst (GetHostsByGroupIDWithPagination (sv_libs V) (gi_ID g) page 20 (sv_db V)))" "h = convertToHostInfo x"
    by (auto simp: ListHostsByGroup_def split: if_splits option.splits prod.splits)
  then have "x \<in> set (joined_hosts (gi_ID g) (sv_db V))"
    using set_paginate[of page 20 "sort_key (\<lambda>x. collate (sv_libs V) (ho_Name x)) (joined_hosts (gi_ID g) (sv_db V))"]
    by (auto simp: GetHostsByGroupIDWithPagination_def)
  then have "(gi_ID g, h_ID h) \<in> set (host_group_members (hd_perms (sv_db V)))" by (auto simp: joined_hosts_def x(2) convertToHostInfo_def)
  then show ?thesis using v by blast
qed

text \<open>The groups and the hosts of a user who is no administrator.\<close>

lemma groups_of_user:
  assumes "\<not> is_admin NewHostSelectorV2 V userID" "\<forall>q. sv_error V q = None"
  shows "\<exists>gs. ListGroupsForUser NewHostSelectorV2 V userID = Inr gs \<and>
    gi_ID ` set gs \<subseteq> set (GetUserHostGroupIDs (sv_now V) userID (hd_perms (sv_db V)))"
  using assms by (auto simp: ListGroupsForUser_def NewHostSelectorV2_def Let_def group_info_def)

lemma hosts_of_user:
  assumes "\<not> is_admin NewHostSelectorV2 V userID" "\<forall>xs. set (sv_order V xs) = set xs"
  shows "\<exists>hs. ListAvailableHosts NewHostSelectorV2 V userID = Inr hs \<and>
    (\<forall>h \<in> set hs. GetAvailableSystemUsersForUser (sv_now V) userID (h_ID h) (hd_perms (sv_db V)) \<noteq> [])"
proof -
  have "ho_ID x = i" if "Host_FindByID i t = Some x" for i x t
    using that First_SomeD[of ho_ID "\<lambda>h. ho_ID h = i" t x] by (auto simp: Host_FindByID_def)
  then show ?thesis using assms
    by (fastforce simp: ListAvailableHosts_def NewHostSelectorV2_def Let_def accessible_new_def convertToHostInfo_def split: if_splits option.splits)
qed


subsection \<open>Pages\<close>

abbreviation group_rows :: "sel_view \<Rightarrow> string \<Rightarrow> Host list" where
  "group_rows V i \<equiv> GetHostsByGroupID (sv_libs V) i (sv_db V)"

definition page_of :: "sel_view \<Rightarrow> string \<Rightarrow> int \<Rightarrow> HostInfo list" where
  "page_of V i page = map convertToHostInfo (take 20 (drop (nat ((page - 1) * 20)) (group_rows V i)))"

fun on_page :: "sel_view \<Rightarrow> progress \<times> MenuV2 \<Rightarrow> bool" where
  "on_page V (Stay (AtHosts g l), m) = (mv_pageSize m = 20 \<and> 1 \<le> mv_currentPage m \<and>
     (mv_currentPage m = 1 \<or> (mv_currentPage m - 1) * 20 < int (length (group_rows V (gi_ID g)))) \<and>
     mv_currentHosts m = page_of V (gi_ID g) (mv_currentPage m))"
| "on_page V (Stay p, m) = (mv_pageSize m = 20)"
| "on_page V r = True"

lemma on_page_draw: "on_page V (Stay p, m) \<Longrightarrow> on_page V (draw s p m)"
  by (cases p) (simp_all add: draw_def split: option.split)

lemma on_page_leave: "mv_pageSize m = 20 \<Longrightarrow> on_page V (leave_hosts l m)" "mv_pageSize m = 20 \<Longrightarrow> on_page V (enter_groups m)"
  by (simp_all add: leave_hosts_def enter_groups_def on_page_draw)

lemma load_page:
  assumes "hs_groupRepo S" "\<forall>q. sv_error V q = None" "mv_pageSize m = 20" "1 \<le> page" "(page - 1) * 20 < 2 ^ 60"
  shows "loadHostsInGroup S V i page m = Inr (m\<lparr>mv_currentHosts := page_of V i page\<rparr>)"
proof -
  have "page_offset page 20 = (page - 1) * 20" using assms(4,5) by (simp add: page_offset_def in_int64_def)
  then show ?thesis using assms(1-3)
    by (simp add: loadHostsInGroup_def ListHostsByGroup_def GetHostsByGroupIDWithPagination_def GetHostsByGroupID_def page_of_def paginate_def)
qed

lemma on_page_turns:
  assumes "hs_groupRepo S" "\<forall>q. sv_error V q = None" "length (group_rows V (gi_ID g)) < 2 ^ 58"
    and "on_page V (Stay (AtHosts g l), m)"
  shows "on_page V (reload S V g l m)" "on_page V (next_page S V g l m)" "on_page V (prev_page S V g l m)"
    "on_page V (draw_hosts g l m)"
proof -
  let ?p = "mv_currentPage m"
  have n: "int (length (group_rows V (gi_ID g))) < 2 ^ 58" using assms(3) by (metis of_nat_less_iff of_nat_numeral of_nat_power)
  have p: "1 \<le> ?p" "(?p - 1) * 20 < 2 ^ 58" "mv_pageSize m = 20" "?p = 1 \<or> (?p - 1) * 20 < int (length (group_rows V (gi_ID g)))"
    "mv_currentHosts m = page_of V (gi_ID g) ?p"
    using assms(4) n by auto
  have i64: "int64 (?p + 1) = ?p + 1" "int64 ?p = ?p" "int64 1 = 1" using p(1,2) by (simp_all add: in_int64_def)
  note load = load_page[OF assms(1,2)]
  have r: "on_page V (reload S V g l m1)" if "mv_pageSize m1 = 20" "1 \<le> mv_currentPage m1" "mv_currentPage m1 \<le> ?p" for m1
  proof -
    have "mv_currentPage m1 = 1 \<or> (mv_currentPage m1 - 1) * 20 < int (length (group_rows V (gi_ID g)))" using that p(4) by auto
    then show ?thesis using that p(2) by (simp add: reload_def load draw_hosts_def on_page_draw)
  qed
  show "on_page V (reload S V g l m)" using r[of m] p by simp
  show "on_page V (draw_hosts g l m)" using assms(4) by (simp add: draw_hosts_def on_page_draw)
  show "on_page V (prev_page S V g l m)"
    using r[of "m\<lparr>mv_currentPage := ?p - 1\<rparr>"] p by (auto simp: prev_page_def Let_def load draw_hosts_def on_page_draw)
  have "?p * 20 < int (length (group_rows V (gi_ID g)))" if "page_of V (gi_ID g) (?p + 1) \<noteq> []"
    using that p(1) by (simp add: page_of_def not_le[symmetric] nat_le_iff)
  then show "on_page V (next_page S V g l m)" using p
    by (auto simp: next_page_def Let_def load i64 draw_hosts_def intro!: on_page_draw r)
qed

lemma on_page_step:
  assumes "hs_groupRepo S" "\<forall>q. sv_error V q = None" "\<forall>i. length (group_rows V i) < 2 ^ 58" "on_page V (Stay p, m)"
  shows "on_page V (menu_step S V p m)"
proof -
  obtain command m1 where r: "readCommand (put_out (prompt p) m) = (command, m1)" by fastforce
  then have keep: "mv_currentHosts m1 = mv_currentHosts m" "mv_currentPage m1 = mv_currentPage m" "mv_pageSize m1 = mv_pageSize m"
    using readCommand_keeps[of "put_out (prompt p) m"] by simp_all
  have ok: "on_page V (Stay p, m1)" using assms(4) keep by (cases p) simp_all
  then have s: "mv_pageSize m1 = 20" by (cases p) simp_all
  have enter: "on_page V (enter_hosts S V g l m1)" for g l
    using s by (simp add: enter_hosts_def Let_def load_page[OF assms(1,2)] draw_hosts_def on_page_draw)
  have msg: "on_page V (then_message t r)" if "on_page V r" for t r
    using that by (cases r; cases "fst r") (auto simp: then_message_def split: place.splits elim: on_page.elims)
  have "on_page V (take_turn S V p command m1)"
  proof (cases p)
    case (AtHosts g l)
    have i: "length (group_rows V (gi_ID g)) < 2 ^ 58" using assms(3) by blast
    have ok': "on_page V (Stay (AtHosts g l), m1)" using ok AtHosts by simp
    note t = on_page_turns[OF assms(1,2) i]
    have re: "loadHostsInGroup S V (gi_ID g) (mv_currentPage m1) m1 = Inr m1"
      using ok' load_page[OF assms(1,2) s, of "mv_currentPage m1" "gi_ID g"] i by auto
    show ?thesis unfolding AtHosts take_turn.simps host_turn_def Let_def using ok' s
      by (auto simp: re split: option.splits intro!: t msg on_page_leave)
  qed (auto simp: main_turn_def group_turn_def all_hosts_turn_def Let_def s split: option.splits list.splits intro!: enter on_page_leave)
  then show ?thesis by (simp add: menu_step_def r)
qed


subsection \<open>Screens that panic\<close>

lemma those_None: "those xs = None \<longleftrightarrow> None \<in> set xs"
  by (induction xs) (auto split: option.splits)

lemma Repeat_None [simp]: "Repeat s n = None \<longleftrightarrow> n < 0"
  by (simp add: Repeat_def)

lemma length_truncate: "3 \<le> n \<Longrightarrow> length (go_truncate s n) \<le> n"
  by (auto simp: go_truncate_def min_def)

lemma host_row_None: "host_row i h = None \<longleftrightarrow> 9 < length (h_Status h)"
proof -
  have len: "length (go_truncate (h_Name h) 25) \<le> 25" "length (go_truncate (h_IP h) 18) \<le> 18" "length (go_truncate (h_DeviceType h) 8) \<le> 8"
    by (simp_all add: length_truncate)
  have low: "length (h_Status h) = length (ToLower (h_Status h))" by (simp add: ToLower_def)
  have "host_row i h = None \<longleftrightarrow> 9 < length (snd (status_shown h))"
    using len by (auto simp: host_row_def Let_def Repeat_def split: prod.splits)
  also have "\<dots> \<longleftrightarrow> 9 < length (h_Status h)" by (auto simp: status_shown_def low)
  finally show ?thesis .
qed

lemma showHostList_None: "showHostList grp page hs = None \<longleftrightarrow> 66 < length (gi_Name grp) \<or> (\<exists>h \<in> set hs. 9 < length (h_Status h))"
proof -
  have "those (map (\<lambda>(i, h). host_row (int i) h) (enumerate 1 hs)) = None \<longleftrightarrow> (\<exists>(i, h) \<in> set (enumerate 1 hs). 9 < length (h_Status h))"
    by (simp add: those_None image_iff eq_commute[of None] case_prod_beta host_row_None)
  also have "\<dots> \<longleftrightarrow> (\<exists>h \<in> snd ` set (enumerate 1 hs). 9 < length (h_Status h))" by (simp add: case_prod_beta)
  also have "snd ` set (enumerate 1 hs) = set hs" by (metis list.set_map map_snd_enumerate)
  finally show ?thesis
    by (cases "those (map (\<lambda>(i, h). host_row (int i) h) (enumerate 1 hs))") (auto simp: showHostList_def Repeat_def)
qed

text \<open>The list of hosts cannot be drawn, and the panic ends the terminal session, exactly if the name of the group has more
  than 66 bytes or a host on the page has a status of more than 9.\<close>

theorem host_list_panics:
  "fst (draw_hosts grp listed m) = MenuPanic \<longleftrightarrow>
     66 < length (gi_Name grp) \<or> (\<exists>h \<in> set (mv_currentHosts m). 9 < length (h_Status h))"
  using showHostList_None[of grp "mv_currentPage m" "mv_currentHosts m"] by (cases "showHostList grp (mv_currentPage m) (mv_currentHosts m)") (auto simp: draw_hosts_def draw_def)

section \<open>An instance\<close>

definition menu_host :: "string \<Rightarrow> Host" where "menu_host i = blank_host\<lparr>ho_ID := i, ho_Name := i, ho_Status := ''online''\<rparr>"

definition menu_group :: HostGroupInfo where
  "menu_group = \<lparr>gi_ID = ''hg1'', gi_Name = ''web'', gi_Description = [], gi_HostCount = 1, gi_OnlineCount = 1\<rparr>"

definition menu_view :: sel_view where
  "menu_view = \<lparr>sv_now = 50, sv_match = no_like, sv_libs = sample_libs,
     sv_db = \<lparr>hd_hosts = [menu_host ''h1''], hd_logins = [], hd_perms = sample_granted\<rparr>,
     sv_accounts = sample_adb\<lparr>users := []\<rparr>, sv_error = (\<lambda>q. None), sv_order = (\<lambda>xs. xs)\<rparr>"

theorem disconnected_menu_spins_witness:
  "\<exists>m'. menu_run NewHostSelectorV2 (replicate 9 menu_view) AtGroups (NewMenuV2 []) = (Stay AtGroups, m') \<and> 9 \<le> length (mv_out m')"
  using disconnected_menu_spins[of "NewMenuV2 []" NewHostSelectorV2 "replicate 9 menu_view" AtGroups] by (simp add: NewMenuV2_def)

theorem menu_number_chooses_witness:
  "\<exists>m'. menu_step NewHostSelectorV2 menu_view AtMain ((NewMenuV2 (print_int 1 @ chr 13 # ''ls''))\<lparr>mv_currentHosts := [convertToHostInfo (menu_host ''h1'')]\<rparr>) =
     (Chosen (convertToHostInfo (menu_host ''h1'')), m') \<and> mv_in m' = ''ls''"
  using menu_number_chooses[of 1 "(NewMenuV2 (print_int 1 @ chr 13 # ''ls''))\<lparr>mv_currentHosts := [convertToHostInfo (menu_host ''h1'')]\<rparr>" "''ls''" AtMain]
  by (simp add: NewMenuV2_def in_int64_def)

definition menu_input :: string where "menu_input = ''p'' @ [chr 13] @ ''1'' @ [chr 13]"

lemma menu_p_step:
  "\<exists>m'. menu_step NewHostSelectorV2 menu_view AtMain
     (put_out s ((NewMenuV2 menu_input)\<lparr>mv_currentGroups := [menu_group]\<rparr>)) = (Stay (AtHosts menu_group False), m') \<and>
     mv_currentPage m' = 1 \<and> mv_currentHosts m' = [convertToHostInfo (menu_host ''h1'')] \<and> mv_in m' = print_int 1 @ [chr 13]"
proof -
  have l: "ListHostsByGroup NewHostSelectorV2 menu_view ''hg1'' 1 20 = Inr ([convertToHostInfo (menu_host ''h1'')], 1)" by code_simp
  have "showHostList menu_group 1 [convertToHostInfo (menu_host ''h1'')] \<noteq> None"
    unfolding showHostList_None by (simp add: menu_group_def convertToHostInfo_def menu_host_def)
  then obtain t where t: "showHostList menu_group 1 [convertToHostInfo (menu_host ''h1'')] = Some t" by blast
  have r: "read_line menu_input [] [] = (''p'', print_int 1 @ [chr 13], ''p'' @ crlf)" and c: "typed ''p'' = ''p''" by code_simp+
  show ?thesis
    by (simp add: menu_step_def readCommand_def NewMenuV2_def r main_turn_def c enter_hosts_def loadHostsInGroup_def l draw_hosts_def draw_def t
        menu_group_def[THEN arg_cong, of gi_ID, simplified] put_out_def)
qed



end
