(* ===== verification/Proxy_Agent.thy ===== *)
theory Proxy_Agent
imports Web_Terminal Go_Json_Value
begin

text \<open>
  The terminal of a remote agent: \<open>internal/bastion/websocket/handler.go\<close> and \<open>session_manager.go\<close>, with
  the client of the API server, \<open>internal/bastion/client/api_client.go\<close>, that validates its tokens.
  It is a second copy of the web terminal: messages, keys and states are those of \<open>Web_Terminal\<close>, the
  storage that of \<open>Audit_Trail\<close>, the SSH client that of \<open>Ssh_Client\<close>.  The answers of the API server are an
  argument.
\<close>

section \<open>Client of the API server\<close>

record ApiClient =
  ac_baseURL :: string
  ac_proxyID :: string

text \<open>A request fails with an error, or is answered with a status and a body.  The decoder reads the first value of a body
  and ignores what follows.\<close>

record api_lib =
  al_get :: "string \<Rightarrow> string \<Rightarrow> string + nat \<times> string"
  al_post :: "string \<Rightarrow> string \<Rightarrow> string \<Rightarrow> string + nat \<times> string"
  al_time :: "time \<Rightarrow> string"
  al_json_error :: "string \<Rightarrow> string"

definition status_error :: "nat \<Rightarrow> string \<Rightarrow> string" where
  "status_error status body = ''api returned status '' @ print_int (int status) @ '': '' @ body"

definition client_ValidateSessionToken :: "api_lib \<Rightarrow> ApiClient \<Rightarrow> string \<Rightarrow> string + (string \<times> json) list" where
  "client_ValidateSessionToken A c token =
     (case al_get A (ac_baseURL c @ ''/api/proxy/validate-token?token='' @ token) (ac_proxyID c) of
        Inl e \<Rightarrow> Inl (''send request: '' @ e)
      | Inr (status, body) \<Rightarrow>
          if status \<noteq> 200 then Inl (status_error status body)
          else (case map_option fst (parse_value (2 * length body) body) of
            Some (VObj m) \<Rightarrow> Inr m
          | Some VNull \<Rightarrow> Inr []
          | _ \<Rightarrow> Inl (''decode response: '' @ al_json_error A body)))"

definition client_post :: "api_lib \<Rightarrow> ApiClient \<Rightarrow> string \<Rightarrow> json \<Rightarrow> string option" where
  "client_post A c url payload = (case al_post A url (ac_proxyID c) (Marshal payload) of
     Inl e \<Rightarrow> Some (''send request: '' @ e)
   | Inr (status, body) \<Rightarrow>
       if status \<noteq> 200 then Some (status_error status body)
       else case Unmarshal body of
         Some (VObj m) \<Rightarrow> (case json_text (json_field ''error'' m) of
           Some e \<Rightarrow> if e \<noteq> [] then Some (''api error: '' @ e) else None
         | None \<Rightarrow> None)
       | _ \<Rightarrow> None)"

definition client_CloseSession :: "api_lib \<Rightarrow> ApiClient \<Rightarrow> time \<Rightarrow> string \<Rightarrow> string \<Rightarrow> string option" where
  "client_CloseSession A c now sessionID recording =
     client_post A c (ac_baseURL c @ ''/api/proxy/sessions/'' @ sessionID @ ''/close'')
       (go_map [(''proxy_id'', VStr (ac_proxyID c)), (''recording'', VStr recording), (''end_time'', VStr (al_time A now))])"

definition client_Heartbeat :: "api_lib \<Rightarrow> ApiClient \<Rightarrow> time \<Rightarrow> string option" where
  "client_Heartbeat A c now = client_post A c (ac_baseURL c @ ''/api/proxy/heartbeat'')
     (go_map [(''proxy_id'', VStr (ac_proxyID c)), (''status'', VStr ''online''), (''timestamp'', VNum (print_int (trunc_div now second)))])"

section \<open>Sessions of the agent\<close>

text \<open>The sessions and their connections; a session that is stored again gets the new connection.\<close>

type_synonym SessionManager = "(string \<times> nat) list"

definition AddSession :: "string \<Rightarrow> nat \<Rightarrow> SessionManager \<Rightarrow> SessionManager" where
  "AddSession sessionID conn sm = filter (\<lambda>(i, c). i \<noteq> sessionID) sm @ [(sessionID, conn)]"

definition RemoveSession :: "string \<Rightarrow> SessionManager \<Rightarrow> SessionManager" where
  "RemoveSession sessionID sm = filter (\<lambda>(i, c). i \<noteq> sessionID) sm"

definition GetSession :: "string \<Rightarrow> SessionManager \<Rightarrow> nat option" where
  "GetSession sessionID sm = map_of sm sessionID"

text \<open>The error of closing, the connections closed, and the sessions left.\<close>

definition agent_TerminateSession :: "(nat \<Rightarrow> string option) \<Rightarrow> string \<Rightarrow> SessionManager \<Rightarrow> string option \<times> nat list \<times> SessionManager" where
  "agent_TerminateSession close sessionID sm = (case GetSession sessionID sm of
     None \<Rightarrow> (None, [], sm)
   | Some conn \<Rightarrow> (close conn, [conn], RemoveSession sessionID sm))"

definition agent_GetActiveSessions :: "SessionManager \<Rightarrow> string list" where "agent_GetActiveSessions sm = map fst sm"

definition GetActiveSessionCount :: "SessionManager \<Rightarrow> nat" where "GetActiveSessionCount sm = length sm"

lemma removed_keys: "fst ` set (RemoveSession i sm) = fst ` set sm - {i}"
  by (auto simp: RemoveSession_def image_iff)

lemma sessions_distinct:
  assumes "distinct (map fst sm)"
  shows "distinct (map fst (AddSession i c sm))" "distinct (map fst (RemoveSession i sm))"
proof -
  have "distinct (map fst (filter P sm))" for P using assms by (induction sm) auto
  then show "distinct (map fst (AddSession i c sm))" "distinct (map fst (RemoveSession i sm))"
    by (auto simp: AddSession_def RemoveSession_def)
qed

text \<open>Adding and removing a session that was not there gives the old sessions back.\<close>

lemma session_added_removed: "i \<notin> fst ` set sm \<Longrightarrow> RemoveSession i (AddSession i c sm) = sm"
  by (induction sm) (auto simp: AddSession_def RemoveSession_def)

section \<open>Input\<close>

text \<open>As in \<open>web_input\<close>, but the whole line is checked as it is, and the return of a blocked line is kept from the
  host, where the line stays.\<close>

definition agent_input :: "checker \<Rightarrow> string \<Rightarrow> web_state \<Rightarrow> web_state" where
  "agent_input chk data st0 =
     (let st = st0\<lparr>wb_inputs := wb_inputs st0 @ [data]\<rparr> in
      if data = [chr 13] \<or> data = [chr 10] then
        (let command = wb_buffer st; st1 = st\<lparr>wb_buffer := []\<rparr> in
         if command \<noteq> [] \<and> fst (fst chk command) then
           st1\<lparr>wb_alerts := wb_alerts st @ (case snd (fst chk command) of None \<Rightarrow> [] | Some a \<Rightarrow> [a]), wb_warned := wb_warned st @ [snd chk command]\<rparr>
         else to_shell data st1)
      else if data = [chr 3] then to_shell data (st\<lparr>wb_buffer := []\<rparr>)
      else if data = [chr 127] \<or> data = [chr 8] then
        to_shell data (if wb_buffer st \<noteq> [] then st\<lparr>wb_buffer := butlast (wb_buffer st)\<rparr> else st)
      else to_shell data (st\<lparr>wb_buffer := wb_buffer st @ data\<rparr>))"

definition agent_message :: "checker \<Rightarrow> ws_message \<Rightarrow> web_state \<Rightarrow> web_state" where
  "agent_message chk m st = (case m of
     WRaw s \<Rightarrow> to_shell s st
   | WNoType \<Rightarrow> st
   | WResize wh \<Rightarrow> (case wh of None \<Rightarrow> st | Some p \<Rightarrow> st\<lparr>wb_window := wb_window st @ [p]\<rparr>)
   | WInput d \<Rightarrow> (case d of None \<Rightarrow> st | Some data \<Rightarrow> agent_input chk data st)
   | WOther \<Rightarrow> st)"

definition agent_session :: "checker \<Rightarrow> ws_message list \<Rightarrow> web_state" where
  "agent_session chk ms = fold (agent_message chk) ms new_web"

text \<open>A command found in the output, as it is saved.  The user is not known.\<close>

definition agent_command :: "Manager option \<Rightarrow> string \<Rightarrow> string \<Rightarrow> Host \<Rightarrow> (block_reason \<Rightarrow> string) \<Rightarrow> time \<Rightarrow> string \<Rightarrow> CommandRecord" where
  "agent_command mgr proxyID sessionID host reason_text now cmd =
     (let blocked = (case mgr of None \<Rightarrow> False | Some m \<Rightarrow> IsBlocked m cmd []) in
      \<lparr>cr_ID = 0, cr_ProxyID = proxyID, cr_SessionID = sessionID, cr_HostID = ho_ID host, cr_UserID = ''system'', cr_Username = [], cr_HostIP = ho_IP host,
       cr_Command = cmd,
       cr_Output = (case mgr of Some m \<Rightarrow> if blocked then ''[BLOCKED] '' @ reason_text (GetBlockReason m cmd []) else [] | None \<Rightarrow> []),
       cr_ExitCode = (if blocked then - 1 else 0), cr_ExecutedAt = now, cr_DurationMs = 0\<rparr>)"

definition agent_output :: "Manager option \<Rightarrow> string \<Rightarrow> string \<Rightarrow> Host \<Rightarrow> (block_reason \<Rightarrow> string) \<Rightarrow> time \<Rightarrow> string list \<Rightarrow>
    DatabaseStorage \<times> tdb \<Rightarrow> DatabaseStorage \<times> tdb" where
  "agent_output mgr proxyID sessionID host reason_text now chunks sd =
     fold (\<lambda>cmd. ds_SaveCommand (agent_command mgr proxyID sessionID host reason_text now cmd))
       (ce_commands (fold (\<lambda>d e. Feed e d) chunks NewCommandExtractor)) sd"

section \<open>Connections\<close>

record TokenInfo =
  ti_HostID :: string
  ti_UserID :: string
  ti_Username :: string

definition text_of :: "string \<Rightarrow> (string \<times> json) list \<Rightarrow> string" where
  "text_of k m = (case json_text (json_field k m) of None \<Rightarrow> [] | Some s \<Rightarrow> s)"

definition agent_validateToken :: "api_lib \<Rightarrow> ApiClient \<Rightarrow> string \<Rightarrow> string + TokenInfo" where
  "agent_validateToken A c token = (case client_ValidateSessionToken A c token of
     Inl e \<Rightarrow> Inl e
   | Inr resp \<Rightarrow> (case json_field ''data'' resp of
       Some (VObj data) \<Rightarrow> Inr \<lparr>ti_HostID = text_of ''hostId'' data, ti_UserID = text_of ''userId'' data, ti_Username = text_of ''username'' data\<rparr>
     | _ \<Rightarrow> Inl ''invalid response format''))"

text \<open>The credentials of a system user are not there yet: all are empty.\<close>

definition agent_config :: "Host \<Rightarrow> SSHConfig" where
  "agent_config host = \<lparr>cf_Host = ho_IP host, cf_Port = ho_Port host, cf_Username = [], cf_Password = [], cf_PrivateKey = [], cf_Passphrase = [],
     cf_AuthType = []\<rparr>"

record agent_env =
  pa_api :: api_lib
  pa_client :: ApiClient
  pa_shell :: shell_lib
  pa_proxyID :: string
  pa_upgrade :: bool
  pa_conn :: nat
  pa_sessionID :: string
  pa_start :: time
  pa_end :: time
  pa_recording :: string
  pa_ended :: string    \<comment> \<open>the error that ends the forwarding\<close>

text \<open>The forwarding ends with the first error of one of its goroutines, and returns it.\<close>

definition agent_proxySSHConnection :: "agent_env \<Rightarrow> Host \<Rightarrow> string option" where
  "agent_proxySSHConnection E host = (case NewSSHClient (sl_ssh (pa_shell E)) (agent_config host) of
     Some e \<Rightarrow> Some (''failed to connect to host: '' @ e)
   | None \<Rightarrow> (case client_NewSession (sl_ssh (pa_shell E)) of
       Some e \<Rightarrow> Some (''failed to create session: '' @ e)
     | None \<Rightarrow> (case sl_pty (pa_shell E) of
         Some e \<Rightarrow> Some (''failed to request pty: '' @ e)
       | None \<Rightarrow> (case sl_shell (pa_shell E) of
           Some e \<Rightarrow> Some (''failed to start shell: '' @ e)
         | None \<Rightarrow> Some (pa_ended E)))))"

definition agent_login :: "agent_env \<Rightarrow> TokenInfo \<Rightarrow> Host \<Rightarrow> LoginRecord" where
  "agent_login E info host = \<lparr>lo_ID = [], lo_UserID = ti_UserID info, lo_HostID = ho_ID host, lo_HostName = ho_Name host, lo_HostIP = ho_IP host,
     lo_Username = ti_Username info, lo_LoginIP = [], lo_LoginTime = pa_start E, lo_LogoutTime = None, lo_Duration = None,
     lo_Status = ''connecting'', lo_SessionID = pa_sessionID E\<rparr>"

definition agent_record :: "agent_env \<Rightarrow> TokenInfo \<Rightarrow> Host \<Rightarrow> SessionRecord" where
  "agent_record E info host = \<lparr>sn_ProxyID = pa_proxyID E, sn_SessionID = pa_sessionID E, sn_HostID = ho_ID host, sn_UserID = ti_UserID info,
     sn_Username = ti_Username info, sn_HostIP = ho_IP host, sn_StartTime = pa_start E, sn_EndTime = None, sn_Status = ''active'',
     sn_Recording = [], sn_TerminalCols = 120, sn_TerminalRows = 30\<rparr>"

datatype agent_answer = AgentRefused nat | NotUpgraded | Upgraded

definition HandleSSH :: "agent_env \<Rightarrow> string \<Rightarrow> Host list \<Rightarrow> SessionManager \<times> DatabaseStorage \<times> tdb \<Rightarrow>
    agent_answer \<times> SessionManager \<times> DatabaseStorage \<times> tdb" where
  "HandleSSH E token ht state = (case state of (sm, st, db) \<Rightarrow>
     if token = [] then (AgentRefused 401, state)
     else case agent_validateToken (pa_api E) (pa_client E) token of
       Inl e \<Rightarrow> (AgentRefused 401, state)
     | Inr info \<Rightarrow> (case Host_FindByID (ti_HostID info) ht of
         None \<Rightarrow> (AgentRefused 404, state)
       | Some host \<Rightarrow>
           if \<not> pa_upgrade E then (NotUpgraded, state)
           else (let i = pa_sessionID E; sm = AddSession i (pa_conn E) sm; db = snd (ds_SaveLoginRecord (agent_login E info host) db) in
             case agent_proxySSHConnection E host of
               Some e \<Rightarrow> (Upgraded, RemoveSession i sm, st, ds_UpdateLoginRecordStatus i ''failed'' None db)
             | None \<Rightarrow> (case ds_CloseSession (pa_end E) i (pa_recording E) (ds_SaveSession (agent_record E info host) (st, db)) of
                 (st, db) \<Rightarrow> (Upgraded, RemoveSession i sm, st, ds_UpdateLoginRecordStatus i ''completed'' (Some (pa_end E)) db)))))"

section \<open>What an agent does\<close>

lemma agent_never_dials: "\<exists>e. agent_proxySSHConnection E host = Some (''failed to connect to host: '' @ e)"
  by (simp add: agent_proxySSHConnection_def NewSSHClient_def client_auth_methods_def agent_config_def)

text \<open>The terminal of an agent never works: whatever the host and the SSH library do, a request with a valid token
  leaves one failed login without an end, no recording and no session of the manager.\<close>

theorem agent_sessions_fail:
  assumes "HandleSSH E token ht (sm, st, db) = (Upgraded, sm', st', db')"
    and "pa_sessionID E \<notin> fst ` set sm" "pa_sessionID E @ ''-login'' \<notin> lo_ID ` set (login_records db)"
    and "pa_sessionID E \<notin> lo_SessionID ` set (login_records db)"
  shows "\<exists>l. login_records db' = login_records db @ [l] \<and> lo_Status l = ''failed'' \<and> lo_LogoutTime l = None \<and> lo_SessionID l = pa_sessionID E \<and>
    session_recordings db' = session_recordings db \<and> st' = st \<and> sm' = sm"
proof -
  obtain info host where h: "agent_validateToken (pa_api E) (pa_client E) token = Inr info" "Host_FindByID (ti_HostID info) ht = Some host"
      "pa_upgrade E" "token \<noteq> []"
    using assms(1) by (auto simp: HandleSSH_def split: if_splits sum.splits option.splits)
  let ?l = "(agent_login E info host)\<lparr>lo_ID := pa_sessionID E @ ''-login''\<rparr>"
  obtain e where e: "agent_proxySSHConnection E host = Some e" using agent_never_dials by blast
  have l: "ds_SaveLoginRecord (agent_login E info host) db = (True, db\<lparr>login_records := login_records db @ [?l]\<rparr>)"
    using assms(3) by (simp add: ds_SaveLoginRecord_def create_login_def agent_login_def or_default_def)
  have none: "\<forall>x \<in> set (login_records db). lo_SessionID x \<noteq> pa_sessionID E" using assms(4) by (metis imageI)
  have res: "sm' = sm" "st' = st" "db' = ds_UpdateLoginRecordStatus (pa_sessionID E) ''failed'' None (db\<lparr>login_records := login_records db @ [?l]\<rparr>)"
    using assms(1) session_added_removed[OF assms(2)] by (simp_all add: HandleSSH_def h e l Let_def)
  have "login_records db' = login_records db @ [?l\<lparr>lo_Status := ''failed''\<rparr>]"
    unfolding res ds_UpdateLoginRecordStatus_def set_logins_def using update_where_snoc_new[OF none, of ?l]
    by (simp add: agent_login_def)
  moreover have "session_recordings db' = session_recordings db" by (simp add: res ds_UpdateLoginRecordStatus_def set_logins_def)
  ultimately show ?thesis using res by (simp add: agent_login_def)
qed

text \<open>The keys of a printable line.\<close>

lemma agent_keys:
  assumes "list_all (\<lambda>ch. 32 \<le> ord ch \<and> ord ch < 127) l"
  shows "wb_buffer (fold (agent_message chk) (web_keys l) st) = wb_buffer st @ l \<and>
    wb_stdin (fold (agent_message chk) (web_keys l) st) = wb_stdin st @ l \<and> wb_warned (fold (agent_message chk) (web_keys l) st) = wb_warned st"
  using assms
proof (induction l arbitrary: st)
  case (Cons ch l)
  then have "ch \<noteq> chr 13" "ch \<noteq> chr 10" "ch \<noteq> chr 3" "ch \<noteq> chr 127" "ch \<noteq> chr 8" by auto
  then have "wb_buffer (agent_message chk (WInput (Some [ch])) st) = wb_buffer st @ [ch] \<and>
      wb_stdin (agent_message chk (WInput (Some [ch])) st) = wb_stdin st @ [ch] \<and> wb_warned (agent_message chk (WInput (Some [ch])) st) = wb_warned st"
    by (simp add: agent_message_def agent_input_def Let_def to_shell_def)
  then show ?case using Cons by (simp add: web_keys_def)
qed (simp add: web_keys_def)

text \<open>The agent keeps the return of a blocked line from the host, but not the line: the user is warned and nothing is
  executed, until a second return, which is not checked, executes it.\<close>

theorem agent_second_return_executes:
  assumes "list_all (\<lambda>ch. 32 \<le> ord ch \<and> ord ch < 127) l" "IsBlocked m l []" "l \<noteq> []"
  shows "let chk = session_checker (Some m) [] hostIP in
    host_executes (wb_stdin (agent_session chk (web_keys (l @ [chr 13])))) = [] \<and>
    wb_warned (agent_session chk (web_keys (l @ [chr 13]))) = [GetBlockReason m l []] \<and>
    host_executes (wb_stdin (agent_session chk (web_keys (l @ [chr 13, chr 13])))) = [l]"
proof -
  define chk where "chk = session_checker (Some m) [] hostIP"
  have chk: "fst (fst chk l)" "snd chk l = GetBlockReason m l []"
    using assms(2) by (simp_all add: chk_def session_checker_def IsBlockedWithNotify_fst)
  define st where "st = agent_session chk (web_keys l)"
  have st: "wb_buffer st = l" "wb_stdin st = l" "wb_warned st = []"
    using agent_keys[OF assms(1), of chk new_web] by (simp_all add: st_def agent_session_def new_web_def)
  define st1 where "st1 = agent_message chk (WInput (Some [chr 13])) st"
  have st1: "wb_buffer st1 = []" "wb_stdin st1 = l" "wb_warned st1 = [GetBlockReason m l []]"
    using st chk assms(3) by (simp_all add: st1_def agent_message_def agent_input_def Let_def)
  have s1: "agent_session chk (web_keys (l @ [chr 13])) = st1" by (simp add: agent_session_def web_keys_def st1_def st_def)
  have s2: "agent_session chk (web_keys (l @ [chr 13, chr 13])) = agent_message chk (WInput (Some [chr 13])) st1"
    by (simp add: agent_session_def web_keys_def st1_def st_def)
  have "wb_stdin (agent_message chk (WInput (Some [chr 13])) st1) = l @ [chr 13]"
    using st1 by (simp add: agent_message_def agent_input_def Let_def to_shell_def)
  moreover have "host_executes (l @ [chr 13]) = [l]" "host_executes l = []"
    using printable_run[OF assms(1), of "[]" "[]"] by (simp_all add: host_executes_def host_run_def host_byte_def)
  ultimately show ?thesis unfolding chk_def[symmetric] Let_def s1 s2 by (simp add: st1)
qed

section \<open>An instance\<close>

definition agent_sample :: agent_env where
  "agent_sample = \<lparr>pa_api = \<lparr>al_get = (\<lambda>url i. Inr (200, Marshal (go_map [(''data'', go_map [(''hostId'', VStr ''h1''), (''userId'', VStr ''u1'')])]))),
       al_post = (\<lambda>url i b. Inl []), al_time = (\<lambda>t. []), al_json_error = (\<lambda>s. [])\<rparr>,
     pa_client = \<lparr>ac_baseURL = [], ac_proxyID = ''p''\<rparr>, pa_shell = open_all, pa_proxyID = ''p'', pa_upgrade = True, pa_conn = 1,
     pa_sessionID = ''s'', pa_start = 0, pa_end = 9, pa_recording = [], pa_ended = ''EOF''\<rparr>"

theorem agent_sessions_fail_witness:
  "map lo_Status (login_records (snd (snd (snd (HandleSSH agent_sample ''t'' [blank_host\<lparr>ho_ID := ''h1''\<rparr>] ([], NewDatabaseStorage, no_trail)))))) = [''failed'']"
proof -
  let ?r = "HandleSSH agent_sample ''t'' [blank_host\<lparr>ho_ID := ''h1''\<rparr>] ([], NewDatabaseStorage, no_trail)"
  have "fst ?r = Upgraded" by code_simp
  then obtain sm st db where r: "?r = (Upgraded, sm, st, db)" by (cases ?r) auto
  have "\<exists>l. login_records db = login_records no_trail @ [l] \<and> lo_Status l = ''failed''"
    using agent_sessions_fail[OF r] by (auto simp: no_trail_def)
  then show ?thesis using r by (auto simp: no_trail_def)
qed

theorem agent_second_return_executes_witness:
  "IsBlocked (NewManagerFromDB None) ''reboot'' [] \<and>
   host_executes (wb_stdin (agent_session (session_checker (Some (NewManagerFromDB None)) [] ''10.0.0.1'') (web_keys (''reboot'' @ [chr 13, chr 13])))) = [''reboot'']"
proof -
  have "list_all (\<lambda>ch. 32 \<le> ord ch \<and> ord ch < 127) ''reboot''" and b: "IsBlocked (NewManagerFromDB None) ''reboot'' []" by code_simp+
  from agent_second_return_executes[OF this, of "''10.0.0.1''"] b show ?thesis by (simp add: Let_def)
qed

end
