(* ===== verification/Api_Routes.thy ===== *)
theory Api_Routes
imports Accounts
begin

text \<open>
  The routes of the API server: \<open>internal/api/router/router.go\<close> with \<open>internal/api/middleware\<close>.  A route has
  the middleware of its group and its own; a request passes through them in their order before its
  handler runs.  Handlers are named as in the code.  The lookup of gin, which finds the route of a
  path, is an argument.
\<close>

section \<open>Routes\<close>

datatype http_verb = GET | POST | PUT | DELETE | PATCH | OPTIONS

datatype middleware = Auth | Admin

record route =
  ro_verb :: http_verb
  ro_path :: string
  ro_chain :: "middleware list"
  ro_handler :: string

text \<open>The routes of a group: its prefix, its middleware, and for each route the verb, the path, the middleware of its own
  and the handler.\<close>

definition registered :: "string \<Rightarrow> middleware list \<Rightarrow> (http_verb \<times> string \<times> middleware list \<times> string) list \<Rightarrow> route list" where
  "registered pre chain rs = map (\<lambda>(v, path, own, h). \<lparr>ro_verb = v, ro_path = pre @ path, ro_chain = chain @ own, ro_handler = h\<rparr>) rs"

definition ws_routes :: "route list" where
  "ws_routes = registered [] []
     [(GET, ''/ws/connect'', [], ''connectionHandler.HandleConnection'')]"

definition auth_routes :: "route list" where
  "auth_routes = registered ''/api/auth'' []
     [(POST, ''/register'', [], ''authHandler.Register''),
      (POST, ''/login'', [], ''authHandler.Login''),
      (POST, ''/logout'', [], ''authHandler.Logout''),
      (GET, ''/method'', [], ''authHandler.GetAuthMethod''),
      (GET, ''/sso/config'', [], ''authHandler.GetSSOConfig''),
      (GET, ''/sso/initiate'', [], ''authHandler.InitiateSSO''),
      (GET, ''/sso/callback'', [], ''authHandler.SSOCallback'')]"

definition public_api_routes :: "route list" where
  "public_api_routes = registered ''/api'' []
     [(GET, ''/settings/public'', [], ''settingHandler.GetPublicSettings''),
      (GET, ''/auth/methods'', [], ''settingHandler.GetAuthMethods'')]"

definition proxy_routes :: "route list" where
  "proxy_routes = registered ''/api/proxy'' []
     [(POST, ''/register'', [], ''proxyHandler.RegisterProxy''),
      (POST, ''/unregister'', [], ''proxyHandler.Unregister''),
      (POST, ''/heartbeat'', [], ''proxyHandler.Heartbeat''),
      (POST, ''/sessions'', [], ''proxyHandler.ReportSession''),
      (POST, ''/sessions/:session_id/close'', [], ''proxyHandler.CloseSession''),
      (POST, ''/commands'', [], ''proxyHandler.ReportCommand''),
      (POST, ''/sessions/batch'', [], ''proxyHandler.SyncSessions''),
      (POST, ''/commands/batch'', [], ''proxyHandler.SyncCommands''),
      (GET, ''/blacklist'', [], ''blacklistHandler.GetActiveCommands''),
      (GET, ''/validate-token'', [], ''sessionHandler.ValidateToken'')]"

definition authenticated_routes :: "route list" where
  "authenticated_routes = registered ''/api'' [Auth]
     [(GET, ''/auth/me'', [], ''authHandler.GetCurrentUser''),
      (GET, ''/auth/login-records'', [], ''authHandler.GetPlatformLoginRecords''),
      (GET, ''/users'', [], ''authHandler.GetUsers'')]"

definition two_factor_routes :: "route list" where
  "two_factor_routes = registered ''/api/two-factor'' [Auth]
     [(GET, ''/status'', [], ''twoFactorHandler.GetUserStatus''),
      (GET, ''/global-status'', [], ''twoFactorHandler.GetGlobalStatus''),
      (POST, ''/setup'', [], ''twoFactorHandler.SetupTwoFactor''),
      (POST, ''/verify'', [], ''twoFactorHandler.VerifyTwoFactor''),
      (POST, ''/disable'', [], ''twoFactorHandler.DisableTwoFactor''),
      (POST, ''/verify-code'', [], ''twoFactorHandler.VerifyCode''),
      (GET, ''/backup-codes'', [], ''twoFactorHandler.GetBackupCodes''),
      (POST, ''/regenerate-backup-codes'', [], ''twoFactorHandler.RegenerateBackupCodes'')]"

definition dashboard_routes :: "route list" where
  "dashboard_routes = registered ''/api/dashboard'' [Auth]
     [(GET, ''/stats'', [], ''dashboardHandler.GetStats''),
      (GET, ''/recent-logins'', [], ''dashboardHandler.GetRecentLogins''),
      (GET, ''/frequent-hosts'', [], ''dashboardHandler.GetFrequentHosts'')]"

definition hosts_routes :: "route list" where
  "hosts_routes = registered ''/api/hosts'' [Auth]
     [(GET, [], [], ''hostHandler.ListHosts''),
      (POST, [], [], ''hostHandler.CreateHost''),
      (GET, ''/:id'', [], ''hostHandler.GetHost''),
      (PUT, ''/:id'', [], ''hostHandler.UpdateHost''),
      (DELETE, ''/:id'', [], ''hostHandler.DeleteHost''),
      (POST, ''/:id/test'', [], ''hostHandler.TestConnection''),
      (POST, ''/:id/check-status'', [], ''hostMonitorHandler.CheckHostStatus''),
      (POST, ''/check-all-status'', [], ''hostMonitorHandler.CheckAllHostsStatus''),
      (GET, ''/:id/groups'', [], ''hostGroupHandler.GetHostGroups'')]"

definition host_groups_routes :: "route list" where
  "host_groups_routes = registered ''/api/host-groups'' [Auth]
     [(GET, [], [], ''hostGroupHandler.ListGroups''),
      (POST, [], [], ''hostGroupHandler.CreateGroup''),
      (GET, ''/:id'', [], ''hostGroupHandler.GetGroup''),
      (PUT, ''/:id'', [], ''hostGroupHandler.UpdateGroup''),
      (DELETE, ''/:id'', [], ''hostGroupHandler.DeleteGroup''),
      (GET, ''/:id/hosts'', [], ''hostGroupHandler.GetGroupHosts''),
      (POST, ''/:id/hosts'', [], ''hostGroupHandler.AddHostsToGroup''),
      (DELETE, ''/:id/hosts'', [], ''hostGroupHandler.RemoveHostsFromGroup''),
      (GET, ''/:id/statistics'', [], ''hostGroupHandler.GetGroupStatistics''),
      (GET, ''/:id/users'', [], ''hostGroupHandler.GetGroupUsers'')]"

definition sessions_routes :: "route list" where
  "sessions_routes = registered ''/api/sessions'' [Auth]
     [(POST, [], [], ''sessionHandler.CreateSession''),
      (GET, ''/records'', [], ''sessionHandler.GetLoginRecords'')]"

definition files_routes :: "route list" where
  "files_routes = registered ''/api/files'' [Auth]
     [(GET, ''/list'', [], ''fileHandler.ListFiles''),
      (POST, ''/upload'', [], ''fileHandler.UploadFile''),
      (GET, ''/download'', [], ''fileHandler.DownloadFile''),
      (POST, ''/download'', [], ''fileHandler.DownloadFile''),
      (GET, ''/transfers'', [], ''fileHandler.GetFileTransfers'')]"

definition session_manage_routes :: "route list" where
  "session_manage_routes = registered ''/api/sessions'' [Auth, Admin]
     [(GET, ''/recordings'', [], ''sessionHandler.GetSessionRecordings''),
      (GET, ''/recordings/:sessionId'', [], ''sessionHandler.GetSessionRecording''),
      (POST, ''/recordings'', [], ''sessionHandler.CreateSessionRecording''),
      (DELETE, ''/:sessionId/terminate'', [], ''sessionHandler.TerminateSession'')]"

definition commands_routes :: "route list" where
  "commands_routes = registered ''/api/commands'' [Auth, Admin]
     [(GET, [], [], ''sessionHandler.GetCommandRecords''),
      (POST, [], [], ''sessionHandler.CreateCommandRecord''),
      (GET, ''/session/:sessionId'', [], ''sessionHandler.GetCommandsBySession'')]"

definition blacklist_routes :: "route list" where
  "blacklist_routes = registered ''/api/proxy/blacklist'' [Auth, Admin]
     [(GET, ''/commands'', [], ''blacklistHandler.GetCommands''),
      (POST, ''/commands'', [], ''blacklistHandler.CreateCommand''),
      (PATCH, ''/commands/:id'', [], ''blacklistHandler.UpdateCommand''),
      (DELETE, ''/commands/:id'', [], ''blacklistHandler.DeleteCommand'')]"

definition proxy_manage_routes :: "route list" where
  "proxy_manage_routes = registered ''/api/proxy'' [Auth, Admin]
     [(GET, ''/list'', [], ''proxyHandler.ListProxies''),
      (GET, ''/:proxy_id/stats'', [], ''proxyHandler.GetProxyStats'')]"

definition user_ssh_key_routes :: "route list" where
  "user_ssh_key_routes = registered ''/api/user-management'' [Auth]
     [(POST, ''/users/:id/ssh-key/generate'', [], ''authHandler.GenerateSSHKey''),
      (DELETE, ''/users/:id/ssh-key'', [], ''authHandler.DeleteSSHKey''),
      (GET, ''/users/:id/ssh-key/download'', [], ''authHandler.DownloadSSHPrivateKey''),
      (PUT, ''/users/:id/auth-method'', [], ''authHandler.UpdateUserAuthMethod'')]"

definition user_manage_routes :: "route list" where
  "user_manage_routes = registered ''/api/user-management'' [Auth, Admin]
     [(GET, ''/users'', [], ''authHandler.GetUsersWithPagination''),
      (GET, ''/users-with-groups'', [], ''authHandler.GetUsersWithGroups''),
      (GET, ''/users-with-user-groups'', [], ''authHandler.GetUsersWithUserGroups''),
      (POST, ''/users'', [], ''authHandler.CreateUserByAdmin''),
      (GET, ''/users/:id'', [], ''authHandler.GetUserWithGroups''),
      (PUT, ''/users/:id'', [], ''authHandler.UpdateUserByAdmin''),
      (PUT, ''/users/:id/role'', [], ''authHandler.UpdateUserRole''),
      (PUT, ''/users/:id/status'', [], ''authHandler.UpdateUserStatus''),
      (DELETE, ''/users/:id'', [], ''authHandler.DeleteUser''),
      (POST, ''/users/:id/reset-password'', [], ''authHandler.ResetUserPassword''),
      (GET, ''/users/:id/groups'', [], ''authHandler.GetUserGroups''),
      (POST, ''/users/:id/groups'', [], ''authHandler.AssignGroupsToUser''),
      (GET, ''/users/:id/hosts'', [], ''authHandler.GetUserHosts''),
      (POST, ''/users/:id/hosts'', [], ''authHandler.AssignHostsToUser''),
      (GET, ''/users/:id/permissions'', [], ''authHandler.GetUserWithGroupsAndHosts'')]"

definition settings_routes :: "route list" where
  "settings_routes = registered ''/api/settings'' [Auth, Admin]
     [(GET, [], [], ''settingHandler.GetAllSettings''),
      (GET, ''/:category'', [], ''settingHandler.GetSettingsByCategory''),
      (PUT, [], [], ''settingHandler.UpdateSettings''),
      (PUT, ''/item'', [], ''settingHandler.UpdateSetting''),
      (DELETE, ''/:key'', [], ''settingHandler.DeleteSetting''),
      (POST, ''/test-ldap'', [], ''settingHandler.TestLDAPConnection''),
      (POST, ''/test-sso'', [], ''settingHandler.TestSSOConnection''),
      (POST, ''/test-feishu'', [], ''settingHandler.TestFeishuNotification''),
      (POST, ''/test-dingtalk'', [], ''settingHandler.TestDingtalkNotification''),
      (POST, ''/test-wechat'', [], ''settingHandler.TestWechatNotification'')]"

definition admin_two_factor_routes :: "route list" where
  "admin_two_factor_routes = registered ''/api/admin/two-factor'' [Auth, Admin]
     [(GET, ''/config'', [], ''twoFactorHandler.GetGlobalConfig''),
      (PUT, ''/config'', [], ''twoFactorHandler.UpdateGlobalConfig''),
      (POST, ''/reset/:userId'', [], ''twoFactorHandler.ResetUserTwoFactor'')]"

definition routing_routes :: "route list" where
  "routing_routes = registered ''/api/routing'' [Auth]
     [(GET, ''/config'', [], ''routingHandler.GetRoutingConfig''),
      (PUT, ''/config'', [], ''routingHandler.UpdateRoutingConfig''),
      (GET, ''/proxies'', [], ''routingHandler.GetAvailableProxies''),
      (GET, ''/rules'', [], ''routingHandler.ListRoutingRules''),
      (GET, ''/rules/:id'', [], ''routingHandler.GetRoutingRule''),
      (POST, ''/rules'', [], ''routingHandler.CreateRoutingRule''),
      (PUT, ''/rules/:id'', [], ''routingHandler.UpdateRoutingRule''),
      (DELETE, ''/rules/:id'', [], ''routingHandler.DeleteRoutingRule''),
      (PATCH, ''/rules/:id/toggle'', [], ''routingHandler.ToggleRoutingRule'')]"

definition host_route_routes :: "route list" where
  "host_route_routes = registered ''/api'' [Auth]
     [(GET, ''/hosts/:id/route'', [], ''routingHandler.GetRoutingDecision'')]"

definition approvals_routes :: "route list" where
  "approvals_routes = registered ''/api/approvals'' [Auth]
     [(GET, [], [], ''approvalHandler.ListApprovals''),
      (POST, [], [], ''approvalHandler.CreateApproval''),
      (GET, ''/stats'', [], ''approvalHandler.GetApprovalStats''),
      (GET, ''/config'', [], ''approvalHandler.GetApprovalConfig''),
      (GET, ''/search/users'', [], ''approvalHandler.SearchUsers''),
      (GET, ''/search/hosts'', [], ''approvalHandler.SearchHosts''),
      (GET, ''/:id'', [], ''approvalHandler.GetApproval''),
      (POST, ''/:id/approve'', [], ''approvalHandler.ApproveApproval''),
      (POST, ''/:id/reject'', [], ''approvalHandler.RejectApproval''),
      (POST, ''/:id/cancel'', [], ''approvalHandler.CancelApproval''),
      (POST, ''/:id/comments'', [], ''approvalHandler.AddComment'')]"

definition approval_config_routes :: "route list" where
  "approval_config_routes = registered ''/api/approvals/config'' [Auth, Admin]
     [(POST, [], [], ''approvalHandler.UpdateApprovalConfig''),
      (PUT, ''/:id'', [], ''approvalHandler.UpdateApprovalConfig''),
      (DELETE, ''/:id'', [], ''approvalHandler.DeleteApprovalConfig'')]"

definition asset_sync_routes :: "route list" where
  "asset_sync_routes = registered ''/api/asset-sync'' [Auth, Admin]
     [(GET, ''/configs'', [], ''assetSyncHandler.ListConfigs''),
      (POST, ''/configs'', [], ''assetSyncHandler.CreateConfig''),
      (PUT, ''/configs/:id'', [], ''assetSyncHandler.UpdateConfig''),
      (DELETE, ''/configs/:id'', [], ''assetSyncHandler.DeleteConfig''),
      (POST, ''/configs/:id/toggle'', [], ''assetSyncHandler.ToggleConfig''),
      (POST, ''/configs/:id/sync'', [], ''assetSyncHandler.SyncNow''),
      (GET, ''/logs'', [], ''assetSyncHandler.GetLogs'')]"

definition system_users_routes :: "route list" where
  "system_users_routes = registered ''/api/system-users'' [Auth]
     [(GET, [], [], ''systemUserHandler.ListSystemUsers''),
      (GET, ''/available'', [], ''systemUserHandler.GetAvailableSystemUsers''),
      (GET, ''/check-permission'', [], ''systemUserHandler.CheckPermission''),
      (GET, ''/:id'', [], ''systemUserHandler.GetSystemUser''),
      (POST, [], [Admin], ''systemUserHandler.CreateSystemUser''),
      (PUT, ''/:id'', [Admin], ''systemUserHandler.UpdateSystemUser''),
      (DELETE, ''/:id'', [Admin], ''systemUserHandler.DeleteSystemUser'')]"

definition user_groups_routes :: "route list" where
  "user_groups_routes = registered ''/api/user-groups'' [Auth]
     [(GET, [], [], ''userGroupHandler.ListUserGroups''),
      (GET, ''/by-user'', [], ''userGroupHandler.GetUserGroups''),
      (GET, ''/:id'', [], ''userGroupHandler.GetUserGroup''),
      (GET, ''/:id/members'', [], ''userGroupHandler.GetUserGroupMembers''),
      (POST, [], [Admin], ''userGroupHandler.CreateUserGroup''),
      (PUT, ''/:id'', [Admin], ''userGroupHandler.UpdateUserGroup''),
      (DELETE, ''/:id'', [Admin], ''userGroupHandler.DeleteUserGroup''),
      (POST, ''/:id/members'', [Admin], ''userGroupHandler.AddUserGroupMember''),
      (DELETE, ''/:id/members/:userId'', [Admin], ''userGroupHandler.RemoveUserGroupMember''),
      (POST, ''/:id/members/batch'', [Admin], ''userGroupHandler.BatchAddMembers'')]"

definition permission_rules_routes :: "route list" where
  "permission_rules_routes = registered ''/api/permission-rules'' [Auth, Admin]
     [(GET, [], [], ''permissionRuleHandler.ListPermissionRules''),
      (GET, ''/:id'', [], ''permissionRuleHandler.GetPermissionRule''),
      (POST, [], [], ''permissionRuleHandler.CreatePermissionRule''),
      (PUT, ''/:id'', [], ''permissionRuleHandler.UpdatePermissionRule''),
      (DELETE, ''/:id'', [], ''permissionRuleHandler.DeletePermissionRule''),
      (GET, ''/by-user-group'', [], ''permissionRuleHandler.GetPermissionRulesByUserGroup''),
      (GET, ''/by-host-group'', [], ''permissionRuleHandler.GetPermissionRulesByHostGroup'')]"

definition callback_routes :: "route list" where
  "callback_routes = registered ''/api'' []
     [(POST, ''/approvals/callback/feishu'', [], ''approvalCallbackHandler.HandleFeishuCallback''),
      (POST, ''/approvals/callback/dingtalk'', [], ''approvalCallbackHandler.HandleDingTalkCallback''),
      (POST, ''/approvals/callback/wechat'', [], ''approvalCallbackHandler.HandleWeChatCallback'')]"

definition root_routes :: "route list" where
  "root_routes = registered [] []
     [(GET, ''/metrics'', [], ''promhttp.Handler''),
      (GET, ''/health'', [], ''health''),
      (GET, ''/swagger/*any'', [], ''ginSwagger.WrapHandler'')]"

text \<open>All routes.\<close>

definition Setup :: "route list" where
  "Setup = ws_routes @ auth_routes @ public_api_routes @ proxy_routes @
     authenticated_routes @ two_factor_routes @ dashboard_routes @ hosts_routes @ host_groups_routes @ sessions_routes @ files_routes @
     session_manage_routes @ commands_routes @ blacklist_routes @ proxy_manage_routes @ user_ssh_key_routes @ user_manage_routes @
     settings_routes @ admin_two_factor_routes @ routing_routes @ host_route_routes @ approvals_routes @ approval_config_routes @
     asset_sync_routes @ system_users_routes @ user_groups_routes @ permission_rules_routes @ callback_routes @ root_routes"

section \<open>Requests\<close>

text \<open>The methods that \<open>CORS\<close> allows other origins, and its answer to a preflight request.\<close>

definition allowed_methods :: "http_verb list" where "allowed_methods = [POST, OPTIONS, GET, PUT, DELETE]"

definition CORS :: "http_verb \<Rightarrow> nat option" where "CORS verb = (if verb = OPTIONS then Some 204 else None)"

text \<open>One middleware after the other: the first that aborts gives the status.\<close>

fun run_chain :: "libs \<Rightarrow> time \<Rightarrow> string \<Rightarrow> string \<Rightarrow> middleware list \<Rightarrow> request_context option \<Rightarrow> nat + request_context option" where
  "run_chain L now header query [] ctx = Inr ctx"
| "run_chain L now header query (Auth # ms) ctx = (case AuthMiddleware L now header query of
     Inl code \<Rightarrow> Inl code | Inr c \<Rightarrow> run_chain L now header query ms (Some c))"
| "run_chain L now header query (Admin # ms) ctx = (case AdminMiddleware ctx of
     Some code \<Rightarrow> Inl code | None \<Rightarrow> run_chain L now header query ms ctx)"

type_synonym lookup = "http_verb \<Rightarrow> string \<Rightarrow> route option"

text \<open>The status of a request that is not served, or the handler that serves it and the user it acts for.\<close>

definition serve_path :: "lookup \<Rightarrow> libs \<Rightarrow> time \<Rightarrow> string \<Rightarrow> string \<Rightarrow> http_verb \<Rightarrow> string \<Rightarrow> nat + string \<times> request_context option" where
  "serve_path look L now header query verb path = (case CORS verb of
     Some code \<Rightarrow> Inl code
   | None \<Rightarrow> (case look verb path of
       None \<Rightarrow> Inl 404
     | Some r \<Rightarrow> (case run_chain L now header query (ro_chain r) None of
         Inl code \<Rightarrow> Inl code | Inr ctx \<Rightarrow> Inr (ro_handler r, ctx))))"

text \<open>The lookup finds only registered routes of the verb.\<close>

definition lookup_ok :: "lookup \<Rightarrow> bool" where
  "lookup_ok look \<longleftrightarrow> (\<forall>v p r. look v p = Some r \<longrightarrow> r \<in> set Setup \<and> ro_verb r = v)"

section \<open>Who reaches which handler\<close>

text \<open>The rights the handlers are meant to need, by the object they belong to.\<close>

definition of_object :: "string \<Rightarrow> string \<Rightarrow> bool" where "of_object obj h \<longleftrightarrow> prefix (obj @ ''.'') h"

definition open_handler :: "string \<Rightarrow> bool" where
  "open_handler h \<longleftrightarrow> h \<in> set [''authHandler.Register'', ''authHandler.Login'', ''authHandler.Logout'', ''authHandler.GetAuthMethod'',
     ''authHandler.GetSSOConfig'', ''authHandler.InitiateSSO'', ''authHandler.SSOCallback'', ''settingHandler.GetPublicSettings'',
     ''settingHandler.GetAuthMethods'', ''connectionHandler.HandleConnection'', ''sessionHandler.ValidateToken'', ''blacklistHandler.GetActiveCommands'',
     ''health'', ''promhttp.Handler'', ''ginSwagger.WrapHandler''] \<or>
   of_object ''approvalCallbackHandler'' h \<or>
   h \<in> set [''proxyHandler.RegisterProxy'', ''proxyHandler.Unregister'', ''proxyHandler.Heartbeat'', ''proxyHandler.ReportSession'',
     ''proxyHandler.CloseSession'', ''proxyHandler.ReportCommand'', ''proxyHandler.SyncSessions'', ''proxyHandler.SyncCommands'']"

definition admin_object :: "string \<Rightarrow> bool" where
  "admin_object h \<longleftrightarrow> of_object ''permissionRuleHandler'' h \<or> of_object ''assetSyncHandler'' h \<or> of_object ''settingHandler'' h \<or>
     of_object ''blacklistHandler'' h \<or> of_object ''proxyHandler'' h"

definition route_as_meant :: "route \<Rightarrow> bool" where
  "route_as_meant r \<longleftrightarrow> (if open_handler (ro_handler r) then ro_chain r = []
     else if admin_object (ro_handler r) then ro_chain r = [Auth, Admin]
     else ro_chain r = [Auth] \<or> ro_chain r = [Auth, Admin])"

lemma Setup_as_meant: "list_all route_as_meant Setup"
  by code_simp

lemma run_chain_admin: "run_chain L now header query [Auth, Admin] None = Inr ctx \<Longrightarrow>
    \<exists>c. ctx = Some c \<and> AuthMiddleware L now header query = Inr c \<and> rc_role c = ''admin''"
  by (auto simp: AdminMiddleware_def split: sum.splits if_splits)

lemma run_chain_auth: "run_chain L now header query [Auth] None = Inr ctx \<Longrightarrow> \<exists>c. ctx = Some c \<and> AuthMiddleware L now header query = Inr c"
  by (auto split: sum.splits)


definition host_management :: "string list" where
  "host_management = [''hostHandler.CreateHost'', ''hostHandler.UpdateHost'', ''hostHandler.DeleteHost'', ''hostGroupHandler.CreateGroup'',
     ''hostGroupHandler.UpdateGroup'', ''hostGroupHandler.DeleteGroup'', ''hostGroupHandler.AddHostsToGroup'', ''hostGroupHandler.RemoveHostsFromGroup'',
     ''routingHandler.UpdateRoutingConfig'']"

lemma host_management_chain: "list_all (\<lambda>h. list_ex (\<lambda>r. ro_handler r = h \<and> ro_chain r = [Auth] \<and> ro_verb r \<noteq> OPTIONS)
    (hosts_routes @ host_groups_routes @ routing_routes)) host_management"
  by code_simp

text \<open>Hosts, host groups and the routing of connections have no such protection: for every handler that creates, changes or
  deletes them there is a request of any signed-in user that it serves.\<close>

theorem host_management_open:
  assumes "h \<in> set host_management" "AuthMiddleware L now header query = Inr c" "\<forall>r \<in> set Setup. ro_handler r = h \<longrightarrow> look (ro_verb r) (ro_path r) = Some r"
  shows "\<exists>verb path. serve_path look L now header query verb path = Inr (h, Some c)"
proof -
  obtain r where r: "r \<in> set Setup" "ro_handler r = h" "ro_chain r = [Auth]" "ro_verb r \<noteq> OPTIONS"
    using host_management_chain assms(1) by (auto simp: list_all_iff list_ex_iff Setup_def)
  then have "serve_path look L now header query (ro_verb r) (ro_path r) = Inr (h, Some c)"
    using assms(2,3) by (simp add: serve_path_def CORS_def)
  then show ?thesis by blast
qed

text \<open>Blacklist rules are changed with a method that other origins are not allowed to use.\<close>

lemma patch_not_allowed: "list_ex (\<lambda>r. ro_verb r \<notin> set allowed_methods \<and> ro_handler r = ''blacklistHandler.UpdateCommand'') blacklist_routes"
  by code_simp

section \<open>An instance\<close>

text \<open>Two routes, and a lookup that knows only them.\<close>

definition rules_route :: route where
  "rules_route = \<lparr>ro_verb = GET, ro_path = ''/api/permission-rules'', ro_chain = [Auth, Admin], ro_handler = ''permissionRuleHandler.ListPermissionRules''\<rparr>"

definition delete_route :: route where
  "delete_route = \<lparr>ro_verb = DELETE, ro_path = ''/api/hosts/:id'', ro_chain = [Auth], ro_handler = ''hostHandler.DeleteHost''\<rparr>"

definition two_routes :: lookup where
  "two_routes v p = (if v = GET \<and> p = ro_path rules_route then Some rules_route
     else if v = DELETE \<and> p = ro_path delete_route then Some delete_route else None)"

lemma only_delete_route: "filter (\<lambda>r. ro_handler r = ''hostHandler.DeleteHost'') Setup = [delete_route]"
  by code_simp

lemma two_routes_ok: "lookup_ok two_routes"
proof -
  have "delete_route \<in> set (filter (\<lambda>r. ro_handler r = ''hostHandler.DeleteHost'') Setup)" by (simp only: only_delete_route list.set_intros)
  moreover have "rules_route \<in> set permission_rules_routes" by code_simp
  ultimately show ?thesis by (auto simp: lookup_ok_def two_routes_def Setup_def rules_route_def delete_route_def)
qed


theorem host_management_open_witness:
  "\<exists>verb path c. serve_path two_routes sample_libs 0 ''Bearer t-u1'' [] verb path = Inr (''hostHandler.DeleteHost'', Some c)"
proof -
  have "case AuthMiddleware sample_libs 0 ''Bearer t-u1'' [] of Inr c \<Rightarrow> True | Inl _ \<Rightarrow> False" by code_simp
  then obtain c where c: "AuthMiddleware sample_libs 0 ''Bearer t-u1'' [] = Inr c" by (auto split: sum.splits)
  have h: "''hostHandler.DeleteHost'' \<in> set host_management" by code_simp
  have two: "two_routes (ro_verb delete_route) (ro_path delete_route) = Some delete_route" by code_simp
  have "r = delete_route" if "r \<in> set Setup" "ro_handler r = ''hostHandler.DeleteHost''" for r
    using that arg_cong[OF only_delete_route, of set] by auto
  then have "\<forall>r \<in> set Setup. ro_handler r = ''hostHandler.DeleteHost'' \<longrightarrow> two_routes (ro_verb r) (ro_path r) = Some r"
    using two by metis
  from host_management_open[OF h c this] show ?thesis by blast
qed

end
