(* ===== verification/Cluster.thy ===== *)
theory Cluster
imports Go_Json_Value
begin

text \<open>
  What the instances of a deployment share: the SSH host key (\<open>pkg/sshkey/shared_key.go\<close> and
  \<open>setupHostKey\<close> of \<open>internal/sshserver/server/server.go\<close>) and the changes of settings
  (\<open>pkg/distributed/config_sync.go\<close>).  The instances run at the same time: the query for a key and the
  insertion of a new one are steps of their own, in any order over all instances.  Generation and
  parsing of keys are arguments; a signer is any type.
\<close>

section \<open>Host keys\<close>

record SSHHostKey =
  hk_ID :: nat
  hk_KeyType :: string
  hk_KeyName :: string
  hk_PrivateKey :: string
  hk_PublicKey :: string
  hk_Fingerprint :: string
  hk_KeySize :: int
  hk_Comment :: string

record 's key_lib =
  kl_parse :: "string \<Rightarrow> string + 's"
  kl_public :: "'s \<Rightarrow> string"
  kl_fingerprint :: "'s \<Rightarrow> string"

text \<open>The private key that the generator gives, or its error, is an argument.\<close>

definition host_generateSSHKeyPair :: "'s key_lib \<Rightarrow> string \<Rightarrow> string + string \<Rightarrow> string + 's \<times> string \<times> string \<times> string" where
  "host_generateSSHKeyPair K keyType rnd =
     (if keyType \<noteq> ''rsa'' then Inl (''unsupported key type: '' @ keyType @ '' (currently only '' @ [chr 39] @ ''rsa'' @ [chr 39] @ '' is supported)'')
      else case rnd of
        Inl e \<Rightarrow> Inl (''failed to generate RSA key: '' @ e)
      | Inr pem \<Rightarrow> (case kl_parse K pem of
          Inl e \<Rightarrow> Inl (''failed to parse private key: '' @ e)
        | Inr s \<Rightarrow> Inr (s, pem, kl_public K s, kl_fingerprint K s)))"

definition find_key :: "string \<Rightarrow> string \<Rightarrow> SSHHostKey list \<Rightarrow> SSHHostKey option" where
  "find_key keyType keyName t = First hk_ID (\<lambda>k. hk_KeyType k = keyType \<and> hk_KeyName k = keyName) t"

text \<open>Type and name are a unique key of the table.\<close>

definition create_key :: "SSHHostKey \<Rightarrow> SSHHostKey list \<Rightarrow> string + SSHHostKey list" where
  "create_key k t =
     (if (hk_KeyType k, hk_KeyName k) \<in> set (map (\<lambda>x. (hk_KeyType x, hk_KeyName x)) t) then Inl ''Duplicate entry''
      else Inr (t @ [k\<lparr>hk_ID := Suc (fold max (map hk_ID t) 0)\<rparr>]))"

text \<open>The two halves of \<open>GetOrGenerateSharedHostKey\<close>: the query, which may make a key necessary, and its generation.\<close>

definition shared_query :: "'s key_lib \<Rightarrow> string \<Rightarrow> string \<Rightarrow> SSHHostKey list \<Rightarrow> (string + 's) option" where
  "shared_query K keyType keyName t = (case find_key keyType keyName t of
     None \<Rightarrow> None
   | Some k \<Rightarrow> Some (case kl_parse K (hk_PrivateKey k) of
       Inl e \<Rightarrow> Inl (''failed to parse shared host key from database: '' @ e) | Inr s \<Rightarrow> Inr s))"

definition shared_create :: "'s key_lib \<Rightarrow> string + string \<Rightarrow> string \<Rightarrow> string \<Rightarrow> string \<Rightarrow> SSHHostKey list \<Rightarrow> (string + 's) \<times> SSHHostKey list" where
  "shared_create K rnd generated_at keyType keyName t = (case host_generateSSHKeyPair K keyType rnd of
     Inl e \<Rightarrow> (Inl (''failed to generate SSH key pair: '' @ e), t)
   | Inr (s, pem, pub, fp) \<Rightarrow>
       (case create_key \<lparr>hk_ID = 0, hk_KeyType = keyType, hk_KeyName = keyName, hk_PrivateKey = pem, hk_PublicKey = pub, hk_Fingerprint = fp,
          hk_KeySize = 2048, hk_Comment = ''Shared SSH host key for multi-instance deployment - Generated at '' @ generated_at\<rparr> t of
          Inl e \<Rightarrow> (Inl (''failed to save host key to database: '' @ e), t)
        | Inr t' \<Rightarrow> (Inr s, t')))"

definition key_defaults :: "string \<Rightarrow> string \<Rightarrow> string \<times> string" where
  "key_defaults keyType keyName = (if keyType = [] then ''rsa'' else keyType, if keyName = [] then ''default'' else keyName)"

definition GetOrGenerateSharedHostKey :: "'s key_lib \<Rightarrow> string + string \<Rightarrow> string \<Rightarrow> string \<Rightarrow> string \<Rightarrow> SSHHostKey list option \<Rightarrow>
    (string + 's) \<times> SSHHostKey list option" where
  "GetOrGenerateSharedHostKey K rnd generated_at keyType keyName db = (case db of
     None \<Rightarrow> (Inl ''database connection is nil'', None)
   | Some t \<Rightarrow> (case key_defaults keyType keyName of (kt, kn) \<Rightarrow>
       (case shared_query K kt kn t of
          Some r \<Rightarrow> (r, Some t)
        | None \<Rightarrow> (case shared_create K rnd generated_at kt kn t of (r, t') \<Rightarrow> (r, Some t')))))"

definition DeleteHostKey :: "string \<Rightarrow> string \<Rightarrow> SSHHostKey list option \<Rightarrow> string option \<times> SSHHostKey list option" where
  "DeleteHostKey keyType keyName db = (case db of
     None \<Rightarrow> (Some ''database connection is nil'', None)
   | Some t \<Rightarrow> (let gone = (\<lambda>k. hk_KeyType k = keyType \<and> hk_KeyName k = keyName) in
       (if list_ex gone t then None else Some ''host key not found'', Some (delete_where gone t))))"

definition ListHostKeys :: "SSHHostKey list option \<Rightarrow> string + SSHHostKey list" where
  "ListHostKeys db = (case db of
     None \<Rightarrow> Inl ''database connection is nil''
   | Some t \<Rightarrow> Inr (map (\<lambda>k. k\<lparr>hk_PrivateKey := ''[REDACTED]''\<rparr>) t))"

definition GetHostKeyFingerprint :: "string \<Rightarrow> string \<Rightarrow> SSHHostKey list option \<Rightarrow> string + string" where
  "GetHostKeyFingerprint keyType keyName db = (case db of
     None \<Rightarrow> Inl ''database connection is nil''
   | Some t \<Rightarrow> (case find_key keyType keyName t of
       None \<Rightarrow> Inl ''failed to get host key fingerprint: record not found'' | Some k \<Rightarrow> Inr (hk_Fingerprint k)))"

subsection \<open>The key of a server\<close>

record key_config =
  kc_UseSharedHostKey :: bool
  kc_DB :: bool
  kc_HostKeyPath :: string

text \<open>Files by their paths.  Errors of the file system are arguments: reading, making the directory, writing.\<close>

record file_lib =
  fl_read :: "string \<Rightarrow> string option"
  fl_mkdir :: "string \<Rightarrow> string option"
  fl_write :: "string \<Rightarrow> string option"
  fl_dir :: "string \<Rightarrow> string"

definition loadOrGenerateHostKey :: "'s key_lib \<Rightarrow> file_lib \<Rightarrow> string + string \<Rightarrow> string \<Rightarrow> (string \<Rightarrow> string option) \<Rightarrow> (string + 's) \<times> (string \<Rightarrow> string option)" where
  "loadOrGenerateHostKey K F rnd path fs = (case fs path of
     Some content \<Rightarrow> (case fl_read F path of
         Some e \<Rightarrow> (Inl (''failed to read host key file '' @ path @ '': '' @ e), fs)
       | None \<Rightarrow> (case kl_parse K content of
           Inl e \<Rightarrow> (Inl (''failed to parse private key from '' @ path @ '': '' @ e), fs) | Inr s \<Rightarrow> (Inr s, fs)))
   | None \<Rightarrow> (case rnd of
         Inl e \<Rightarrow> (Inl (''failed to generate RSA key: '' @ e), fs)
       | Inr pem \<Rightarrow> (let dir = fl_dir F path; made = (if dir \<noteq> [] \<and> dir \<noteq> ''.'' then fl_mkdir F dir else None) in
           case made of
             Some e \<Rightarrow> (Inl (''failed to create directory '' @ dir @ '': '' @ e), fs)
           | None \<Rightarrow> (case fl_write F path of
               Some e \<Rightarrow> (Inl (''failed to save host key to '' @ e @ '': %!w(MISSING)''), fs)
             | None \<Rightarrow> (case kl_parse K pem of
                 Inl e \<Rightarrow> (Inl (''failed to parse private key: '' @ e), fs(path \<mapsto> pem))
               | Inr s \<Rightarrow> (Inr s, fs(path \<mapsto> pem)))))))"

text \<open>The keys that are added to the server.  A key from the file that stands in for the shared one is added a second
  time by what follows.\<close>

definition setupHostKey :: "'s key_lib \<Rightarrow> file_lib \<Rightarrow> key_config \<Rightarrow> string + 's \<Rightarrow> string + string \<Rightarrow> (string \<Rightarrow> string option) \<Rightarrow>
    (string + 's list) \<times> (string \<Rightarrow> string option)" where
  "setupHostKey K F cfg shared rnd fs =
     (let path = kc_HostKeyPath cfg;
          unavailable = (\<lambda>e. ''failed to get shared host key from database and no fallback path configured: '' @ e);
          from_file = (\<lambda>added fs. case loadOrGenerateHostKey K F rnd path fs of (Inl e, fs') \<Rightarrow> (Inl e, fs') | (Inr s, fs') \<Rightarrow> (Inr (added @ [s]), fs'))
      in if kc_UseSharedHostKey cfg \<and> kc_DB cfg then (case shared of
           Inr s \<Rightarrow> (Inr [s], fs)
         | Inl e \<Rightarrow>
             if path \<noteq> [] then (case loadOrGenerateHostKey K F rnd path fs of
               (Inl e', fs') \<Rightarrow> (Inl (unavailable e'), fs') | (Inr s, fs') \<Rightarrow> from_file [s] fs')
             else (Inl (unavailable e), fs))
         else if path \<noteq> [] then from_file [] fs
         else case rnd of
           Inl e \<Rightarrow> (Inl (''failed to generate private key: '' @ e), fs)
         | Inr pem \<Rightarrow> (case kl_parse K pem of
             Inl e \<Rightarrow> (Inl (''failed to create signer: '' @ e), fs) | Inr s \<Rightarrow> (Inr [s], fs)))"

section \<open>Instances that start together\<close>

text \<open>What an instance has done, and the steps of all.\<close>

datatype 's start_phase = NotStarted | KeyMissing | Finished "string + 's"

type_synonym 's key_state = "SSHHostKey list \<times> (nat \<Rightarrow> 's start_phase)"

inductive key_step :: "'s key_lib \<Rightarrow> string \<Rightarrow> string \<Rightarrow> 's key_state \<Rightarrow> 's key_state \<Rightarrow> bool" for K kt kn where
  found: "ph i = NotStarted \<Longrightarrow> shared_query K kt kn t = Some r \<Longrightarrow> key_step K kt kn (t, ph) (t, ph(i := Finished r))"
| missing: "ph i = NotStarted \<Longrightarrow> shared_query K kt kn t = None \<Longrightarrow> key_step K kt kn (t, ph) (t, ph(i := KeyMissing))"
| create: "ph i = KeyMissing \<Longrightarrow> shared_create K rnd at kt kn t = (r, t') \<Longrightarrow> key_step K kt kn (t, ph) (t', ph(i := Finished r))"

inductive_cases key_step_cases: "key_step K kt kn (t, ph) s"

definition key_agreed :: "'s key_lib \<Rightarrow> string \<Rightarrow> string \<Rightarrow> 's key_state \<Rightarrow> bool" where
  "key_agreed K kt kn st \<longleftrightarrow> (\<forall>i s. snd st i = Finished (Inr s) \<longrightarrow> (\<exists>k. find_key kt kn (fst st) = Some k \<and> kl_parse K (hk_PrivateKey k) = Inr s))"

lemma find_key_append: "find_key kt kn t = Some k \<Longrightarrow> (hk_KeyType x, hk_KeyName x) \<noteq> (kt, kn) \<Longrightarrow> find_key kt kn (t @ [x]) = Some k"
  by (auto simp: find_key_def First_def)

lemma find_key_None: "find_key kt kn t = None \<longleftrightarrow> (kt, kn) \<notin> set (map (\<lambda>x. (hk_KeyType x, hk_KeyName x)) t)"
  by (auto simp: find_key_def First_None image_iff)

lemma find_key_new:
  assumes "find_key kt kn t = None" "hk_KeyType x = kt" "hk_KeyName x = kn"
  shows "find_key kt kn (t @ [x]) = Some x"
proof -
  have "filter (\<lambda>k. hk_KeyType k = kt \<and> hk_KeyName k = kn) t = []"
    using assms(1) by (auto simp: find_key_def First_None filter_empty_conv)
  then show ?thesis using assms(2,3) by (simp add: find_key_def First_def)
qed

lemma create_key_cases:
  assumes "create_key x t = Inr t'"
  shows "find_key (hk_KeyType x) (hk_KeyName x) t = None"
    "\<exists>n. find_key (hk_KeyType x) (hk_KeyName x) t' = Some (x\<lparr>hk_ID := n\<rparr>)"
proof -
  show none: "find_key (hk_KeyType x) (hk_KeyName x) t = None"
    using assms unfolding create_key_def find_key_None by (simp split: if_splits)
  obtain n where "t' = t @ [x\<lparr>hk_ID := n\<rparr>]" using assms by (auto simp: create_key_def split: if_splits)
  then show "\<exists>n. find_key (hk_KeyType x) (hk_KeyName x) t' = Some (x\<lparr>hk_ID := n\<rparr>)"
    using find_key_new[OF none, of "x\<lparr>hk_ID := n\<rparr>"] by auto
qed

lemma generated_key_parses: "host_generateSSHKeyPair K kt rnd = Inr (s, pem, pub, fp) \<Longrightarrow> kl_parse K pem = Inr s"
  by (auto simp: host_generateSSHKeyPair_def split: if_splits sum.splits)

text \<open>Creating a key leaves an existing one of the name, and a key that was created is found.\<close>

lemma shared_create_cases:
  assumes "shared_create K rnd at kt kn t = (r, t')"
  shows "(\<exists>e. r = Inl e \<and> t' = t) \<or> (\<exists>s k. r = Inr s \<and> find_key kt kn t = None \<and> find_key kt kn t' = Some k \<and> kl_parse K (hk_PrivateKey k) = Inr s)"
proof (cases "host_generateSSHKeyPair K kt rnd")
  case (Inr v)
  obtain sg pem pub fp where v: "v = (sg, pem, pub, fp)" by (cases v)
  let ?x = "\<lparr>hk_ID = 0, hk_KeyType = kt, hk_KeyName = kn, hk_PrivateKey = pem, hk_PublicKey = pub, hk_Fingerprint = fp,
      hk_KeySize = 2048, hk_Comment = ''Shared SSH host key for multi-instance deployment - Generated at '' @ at\<rparr>"
  show ?thesis
  proof (cases "create_key ?x t")
    case (Inl e)
    then show ?thesis using assms Inr v by (auto simp: shared_create_def)
  next
    case new: (Inr u)
    have "r = Inr sg" "t' = u" using assms Inr v new by (auto simp: shared_create_def)
    then show ?thesis using create_key_cases[OF new] generated_key_parses[OF Inr[unfolded v]] by auto
  qed
qed (use assms in \<open>auto simp: shared_create_def\<close>)

lemma key_agreed_step: "key_step K kt kn st st' \<Longrightarrow> key_agreed K kt kn st \<Longrightarrow> key_agreed K kt kn st'"
proof (induction rule: key_step.induct)
  case (found ph i t r)
  then show ?case by (auto simp: key_agreed_def shared_query_def split: option.splits sum.splits)
next
  case (missing ph i t)
  then show ?case by (auto simp: key_agreed_def)
next
  case (create ph i rnd at t r t')
  from shared_create_cases[OF create(2)] show ?case
  proof (elim disjE exE conjE)
    fix s k assume s: "r = Inr s" "find_key kt kn t = None" "find_key kt kn t' = Some k" "kl_parse K (hk_PrivateKey k) = Inr s"
    then have "ph j \<noteq> Finished (Inr u)" for j u using create(3) by (auto simp: key_agreed_def)
    then show ?thesis using s by (simp add: key_agreed_def)
  qed (use create(3) in \<open>auto simp: key_agreed_def\<close>)
qed

text \<open>C29: however the starts of any number of instances interleave, all that get the shared host key get the same one, whether it
  was there or one of them generated it.\<close>

theorem shared_key_agreement:
  assumes "(key_step K kt kn)\<^sup>*\<^sup>* (t, \<lambda>i. NotStarted) (t', ph)" "ph i = Finished (Inr s)" "ph j = Finished (Inr s')"
  shows "s = s'"
proof -
  have "key_agreed K kt kn (t', ph)" using assms(1)
    by (induction rule: rtranclp_induct) (auto simp: key_agreed_def[of _ _ _ "(t, _)"] intro: key_agreed_step)
  then have "\<exists>k. find_key kt kn t' = Some k \<and> kl_parse K (hk_PrivateKey k) = Inr u" if "ph n = Finished (Inr u)" for n u
    using that by (simp add: key_agreed_def)
  from this[OF assms(2)] this[OF assms(3)] show ?thesis by auto
qed

text \<open>But of two instances that find no key, the one that saves its key second fails, and where a file stands in, its server
  runs with the key of that file.\<close>

theorem race_loser_uses_file:
  assumes "find_key ''rsa'' kn t = None" "kl_parse K p1 = Inr s1" "kl_parse K p2 = Inr s2"
    and "kc_UseSharedHostKey cfg" "kc_DB cfg" "kc_HostKeyPath cfg \<noteq> []" "fs (kc_HostKeyPath cfg) = Some content"
    and "fl_read F (kc_HostKeyPath cfg) = None" "kl_parse K content = Inr s3"
  shows "\<exists>t' e. (key_step K ''rsa'' kn)\<^sup>*\<^sup>* (t, \<lambda>i. NotStarted) (t', (\<lambda>i. NotStarted)(0 := Finished (Inr s1), 1 := Finished (Inl e))) \<and>
    setupHostKey K F cfg (Inl e) rnd fs = (Inr [s3, s3], fs)"
proof -
  let ?k = "\<lparr>hk_ID = 0, hk_KeyType = ''rsa'', hk_KeyName = kn, hk_PrivateKey = p1, hk_PublicKey = kl_public K s1, hk_Fingerprint = kl_fingerprint K s1,
      hk_KeySize = 2048, hk_Comment = ''Shared SSH host key for multi-instance deployment - Generated at ''\<rparr>"
  let ?t = "t @ [?k\<lparr>hk_ID := Suc (fold max (map hk_ID t) 0)\<rparr>]"
  let ?e = "''failed to save host key to database: Duplicate entry''"
  have q: "shared_query K ''rsa'' kn t = None" using assms(1) by (simp add: shared_query_def)
  have fresh: "(''rsa'', kn) \<notin> set (map (\<lambda>x. (hk_KeyType x, hk_KeyName x)) t)"
    using assms(1) by (simp only: find_key_None not_False_eq_True)
  have c1: "shared_create K (Inr p1) [] ''rsa'' kn t = (Inr s1, ?t)"
    using fresh by (simp add: shared_create_def host_generateSSHKeyPair_def create_key_def assms(2))
  have c2: "shared_create K (Inr p2) [] ''rsa'' kn ?t = (Inl ?e, ?t)"
    by (simp add: shared_create_def host_generateSSHKeyPair_def create_key_def assms(3))
  let ?n = "\<lambda>i. NotStarted"
  let ?m = "?n(0 := KeyMissing, 1 := KeyMissing)"
  have s1: "key_step K ''rsa'' kn (t, ?n) (t, ?n(0 := KeyMissing))" by (rule key_step.missing) (simp_all add: q)
  have s2: "key_step K ''rsa'' kn (t, ?n(0 := KeyMissing)) (t, ?m)" by (rule key_step.missing) (simp_all add: q)
  have s3: "key_step K ''rsa'' kn (t, ?m) (?t, ?m(0 := Finished (Inr s1)))" by (rule key_step.create[OF _ c1]) simp
  have s4: "key_step K ''rsa'' kn (?t, ?m(0 := Finished (Inr s1))) (?t, ?m(0 := Finished (Inr s1), 1 := Finished (Inl ?e)))"
    by (rule key_step.create[OF _ c2]) simp
  have m: "?m(0 := Finished (Inr s1), 1 := Finished (Inl ?e)) = ?n(0 := Finished (Inr s1), 1 := Finished (Inl ?e))" by auto
  have "(key_step K ''rsa'' kn)\<^sup>*\<^sup>* (t, ?n) (t, ?n(0 := KeyMissing))" using s1 by (rule r_into_rtranclp)
  then have "(key_step K ''rsa'' kn)\<^sup>*\<^sup>* (t, ?n) (t, ?m)" using s2 by (rule rtranclp.rtrancl_into_rtrancl)
  then have "(key_step K ''rsa'' kn)\<^sup>*\<^sup>* (t, ?n) (?t, ?m(0 := Finished (Inr s1)))" using s3 by (rule rtranclp.rtrancl_into_rtrancl)
  then have "(key_step K ''rsa'' kn)\<^sup>*\<^sup>* (t, ?n) (?t, ?m(0 := Finished (Inr s1), 1 := Finished (Inl ?e)))"
    using s4 by (rule rtranclp.rtrancl_into_rtrancl)
  then have "(key_step K ''rsa'' kn)\<^sup>*\<^sup>* (t, ?n) (?t, ?n(0 := Finished (Inr s1), 1 := Finished (Inl ?e)))" by (simp only: m)
  moreover have "setupHostKey K F cfg (Inl ?e) rnd fs = (Inr [s3, s3], fs)"
    using assms(4-) by (simp add: setupHostKey_def loadOrGenerateHostKey_def)
  ultimately show ?thesis by blast
qed

section \<open>Changes of settings\<close>

text \<open>A manager with its channel and its listeners, named by numbers.\<close>

record ConfigSyncManager =
  cm_channel :: string
  cm_listeners :: "nat list"

definition NewConfigSyncManager :: "string \<Rightarrow> ConfigSyncManager" where
  "NewConfigSyncManager channel = \<lparr>cm_channel = channel, cm_listeners = []\<rparr>"

definition AddListener :: "nat \<Rightarrow> ConfigSyncManager \<Rightarrow> ConfigSyncManager" where
  "AddListener l m = m\<lparr>cm_listeners := cm_listeners m @ [l]\<rparr>"

definition sync_PublishConfigChange :: "string \<Rightarrow> string \<Rightarrow> string \<Rightarrow> ConfigSyncManager \<Rightarrow> string \<times> string" where
  "sync_PublishConfigChange timestamp key value m =
     (cm_channel m, Marshal (go_map [(''key'', VStr key), (''value'', VStr value), (''timestamp'', VStr timestamp)]))"

text \<open>\<open>json.Unmarshal\<close> into a map of strings.\<close>

definition UnmarshalStringMap :: "string \<Rightarrow> (string \<times> json) list option" where
  "UnmarshalStringMap s = (case Unmarshal s of
     Some (VObj m) \<Rightarrow> if list_all (\<lambda>(k, v). case v of VStr _ \<Rightarrow> True | VNull \<Rightarrow> True | _ \<Rightarrow> False) m then Some m else None
   | Some VNull \<Rightarrow> Some []
   | _ \<Rightarrow> None)"

definition string_of_key :: "string \<Rightarrow> (string \<times> json) list \<Rightarrow> string" where
  "string_of_key k m = (case json_text (json_field k m) of None \<Rightarrow> [] | Some s \<Rightarrow> s)"

text \<open>The calls of the listeners, each in a goroutine of its own.\<close>

definition sync_handleMessage :: "string \<Rightarrow> ConfigSyncManager \<Rightarrow> (nat \<times> string \<times> string) list" where
  "sync_handleMessage payload m = (case UnmarshalStringMap payload of
     None \<Rightarrow> []
   | Some data \<Rightarrow> map (\<lambda>l. (l, string_of_key ''key'' data, string_of_key ''value'' data)) (cm_listeners m))"

text \<open>A published change of a setting calls every listener on the channel once, with exactly the key and the value that were
  published, whatever characters they have.\<close>

theorem config_change_delivered:
  "sync_handleMessage (snd (sync_PublishConfigChange timestamp key value m)) m' = map (\<lambda>l. (l, key, value)) (cm_listeners m')"
proof -
  let ?v = "go_map [(''key'', VStr key), (''value'', VStr value), (''timestamp'', VStr timestamp)]"
  have o: "?v = VObj [(''key'', VStr key), (''timestamp'', VStr timestamp), (''value'', VStr value)]"
    by (simp add: go_map_def)
  have "plain_json ?v" by simp
  then have "Unmarshal (Marshal ?v) = Some ?v" by (rule Unmarshal_Marshal_value)
  then show ?thesis
    by (simp add: sync_PublishConfigChange_def sync_handleMessage_def UnmarshalStringMap_def o string_of_key_def json_field_def json_text_def)
qed

section \<open>An instance\<close>

definition text_keys :: "string key_lib" where
  "text_keys = \<lparr>kl_parse = (\<lambda>p. if p = [] then Inl ''empty'' else Inr p), kl_public = (\<lambda>s. s), kl_fingerprint = (\<lambda>s. s)\<rparr>"

theorem shared_key_agreement_witness:
  "\<exists>t' ph s s'. (key_step text_keys ''rsa'' ''default'')\<^sup>*\<^sup>* ([], \<lambda>i. NotStarted) (t', ph) \<and> ph 0 = Finished (Inr s) \<and>
     ph 1 = Finished (Inr s') \<and> s = s'"
proof -
  let ?n = "\<lambda>i. NotStarted"
  let ?t = "[\<lparr>hk_ID = 1, hk_KeyType = ''rsa'', hk_KeyName = ''default'', hk_PrivateKey = ''k0'', hk_PublicKey = ''k0'', hk_Fingerprint = ''k0'',
      hk_KeySize = 2048, hk_Comment = ''Shared SSH host key for multi-instance deployment - Generated at ''\<rparr>]"
  let ?p = "?n(0 := KeyMissing, 0 := Finished (Inr ''k0''))"
  have s1: "key_step text_keys ''rsa'' ''default'' ([], ?n) ([], ?n(0 := KeyMissing))"
    by (rule key_step.missing) (simp_all add: shared_query_def find_key_def First_def)
  have "shared_create text_keys (Inr ''k0'') [] ''rsa'' ''default'' [] = (Inr ''k0'', ?t)"
    by (simp add: shared_create_def host_generateSSHKeyPair_def create_key_def text_keys_def)
  then have s2: "key_step text_keys ''rsa'' ''default'' ([], ?n(0 := KeyMissing)) (?t, ?p)"
    by (rule key_step.create[rotated]) simp
  have s3: "key_step text_keys ''rsa'' ''default'' (?t, ?p) (?t, ?p(1 := Finished (Inr ''k0'')))"
    by (rule key_step.found) (simp_all add: shared_query_def find_key_def First_def text_keys_def)
  have "(key_step text_keys ''rsa'' ''default'')\<^sup>*\<^sup>* ([], ?n) (?t, ?p)"
    using s1 s2 by (rule rtranclp.rtrancl_into_rtrancl[OF r_into_rtranclp])
  then have r: "(key_step text_keys ''rsa'' ''default'')\<^sup>*\<^sup>* ([], ?n) (?t, ?p(1 := Finished (Inr ''k0'')))"
    using s3 by (rule rtranclp.rtrancl_into_rtrancl)
  have p: "(?p(1 := Finished (Inr ''k0''))) 0 = Finished (Inr ''k0'')" "(?p(1 := Finished (Inr ''k0''))) 1 = Finished (Inr ''k0'')" by simp_all
  from r p shared_key_agreement[OF r p] show ?thesis by blast
qed

theorem race_loser_uses_file_witness:
  "\<exists>t' e. (key_step text_keys ''rsa'' ''default'')\<^sup>*\<^sup>* ([], \<lambda>i. NotStarted)
      (t', (\<lambda>i. NotStarted)(0 := Finished (Inr ''k0''), 1 := Finished (Inl e))) \<and>
    setupHostKey text_keys \<lparr>fl_read = \<lambda>p. None, fl_mkdir = \<lambda>p. None, fl_write = \<lambda>p. None, fl_dir = \<lambda>p. []\<rparr>
      \<lparr>kc_UseSharedHostKey = True, kc_DB = True, kc_HostKeyPath = ''f''\<rparr> (Inl e) (Inr ''k2'') [''f'' \<mapsto> ''old''] = (Inr [''old'', ''old''], [''f'' \<mapsto> ''old''])"
  using race_loser_uses_file[of "''default''" "[]" text_keys "''k0''" "''k0''" "''k1''" "''k1''"
      "\<lparr>kc_UseSharedHostKey = True, kc_DB = True, kc_HostKeyPath = ''f''\<rparr>" "[''f'' \<mapsto> ''old'']" "''old''"
      "\<lparr>fl_read = \<lambda>p. None, fl_mkdir = \<lambda>p. None, fl_write = \<lambda>p. None, fl_dir = \<lambda>p. []\<rparr>" "''old''" "Inr ''k2''"]
  by (simp add: find_key_def First_def text_keys_def)

end
