(* ===== verification/Sign_On.thy ===== *)
theory Sign_On
imports Account_Api Asset_Sync Notification
begin

text \<open>
  Requests that send a browser or a message to another service: the start of the single sign-on and the
  public queries of the login page (\<open>auth_handler.go\<close>), and the tests of the settings page
  (\<open>setting_handler.go\<close>).  The address that starts a sign-on is built with \<open>url.Values\<close>; the reader of
  such a query says what the service gets.
\<close>

section \<open>Queries of addresses\<close>

text \<open>\<open>url.Values\<close>, with one value per key, and its \<open>Encode\<close>, which sorts the keys.\<close>

definition Values_Set :: "string \<Rightarrow> string \<Rightarrow> (string \<times> string) list \<Rightarrow> (string \<times> string) list" where
  "Values_Set k v vs = delete_where (\<lambda>e. fst e = k) vs @ [(k, v)]"

definition query_pair :: "string \<times> string \<Rightarrow> string" where
  "query_pair e = QueryEscape (fst e) @ ''='' @ QueryEscape (snd e)"

definition Values_Encode :: "(string \<times> string) list \<Rightarrow> string" where
  "Values_Encode vs = Join (map query_pair (sort_key fst vs)) ''&''"

text \<open>The reader of a form query: pairs between \<open>&\<close>, each split at its first \<open>=\<close>, with \<open>+\<close> and percent escapes.\<close>

definition hex_value :: "char \<Rightarrow> nat option" where
  "hex_value c =
     (if is_digit c then Some (ord c - 48) else if 65 \<le> ord c \<and> ord c \<le> 70 then Some (ord c - 55)
      else if 97 \<le> ord c \<and> ord c \<le> 102 then Some (ord c - 87) else None)"

fun QueryUnescape :: "string \<Rightarrow> string option" where
  "QueryUnescape [] = Some []"
| "QueryUnescape (c # s) =
     (if c = CHR ''%'' then (case s of
        h # l # s' \<Rightarrow> (case (hex_value h, hex_value l) of
            (Some a, Some b) \<Rightarrow> map_option (\<lambda>r. char_of (16 * a + b) # r) (QueryUnescape s') | _ \<Rightarrow> None)
      | _ \<Rightarrow> None)
      else map_option (\<lambda>r. (if c = CHR ''+'' then CHR '' '' else c) # r) (QueryUnescape s))"

definition read_pair :: "string \<Rightarrow> (string \<times> string) option" where
  "read_pair p = (case (QueryUnescape (takeWhile (\<lambda>c. c \<noteq> CHR ''='') p), QueryUnescape (drop 1 (dropWhile (\<lambda>c. c \<noteq> CHR ''='') p))) of
     (Some k, Some v) \<Rightarrow> Some (k, v) | _ \<Rightarrow> None)"

definition read_query :: "string \<Rightarrow> (string \<times> string) option list" where
  "read_query q = map read_pair (SplitChar (CHR ''&'') q)"

section \<open>Single sign-on\<close>

text \<open>The loop over the settings keeps the last value of a key.\<close>

definition last_value :: "string \<Rightarrow> Setting list \<Rightarrow> string" where
  "last_value k ss = fold (\<lambda>s v. if st_Key s = k then st_Value s else v) ss []"

datatype sso_start = SsoRefused nat string | SsoAddress string string

definition sso_params :: "string \<Rightarrow> Setting list \<Rightarrow> (string \<times> string) list" where
  "sso_params state ss =
     (let scopes = or_default ''openid profile email'' (last_value ''ssoScopes'' ss);
          vs = Values_Set ''state'' state (Values_Set ''response_type'' ''code''
                 (Values_Set ''redirect_uri'' (last_value ''ssoRedirectUrl'' ss) (Values_Set ''client_id'' (last_value ''ssoClientId'' ss) [])))
      in if scopes \<noteq> [] then Values_Set ''scope'' scopes vs else vs)"

definition InitiateSSO :: "string \<Rightarrow> adb \<Rightarrow> sso_start" where
  "InitiateSSO state db =
     (let ss = GetByCategory ''auth'' db; authUrl = last_value ''ssoAuthUrl'' ss in
      if last_value ''ssoEnabled'' ss \<noteq> ''true'' then SsoRefused 400 (''SSO '' @ uni [26410, 21551, 29992])
      else if authUrl = [] \<or> last_value ''ssoClientId'' ss = [] then SsoRefused 500 (''SSO '' @ uni [37197, 32622, 19981, 23436, 25972])
      else SsoAddress (authUrl @ (if Contains authUrl ''?'' then ''&'' else ''?'') @ Values_Encode (sso_params state ss)) state)"

definition GetSSOConfig :: "adb \<Rightarrow> bool \<times> string" where
  "GetSSOConfig db = (let authMethod = getSettingValue (GetByCategory ''auth'' db) ''authMethod'' [] in (authMethod = ''sso'', authMethod))"

definition GetAuthMethod :: "adb \<Rightarrow> string" where
  "GetAuthMethod db = getSettingValue (GetByCategory ''auth'' db) ''authMethod'' ''password''"

section \<open>Tests of the settings page\<close>

text \<open>An answer: a status, and with status 200 whether the test succeeded, and a text.\<close>

type_synonym test_answer = "nat \<times> (bool \<times> string) option"

definition required :: "string list \<Rightarrow> test_answer \<Rightarrow> test_answer" where
  "required fs answer = (if list_all (\<lambda>f. f \<noteq> []) fs then answer else (400, None))"

record sso_test =
  sx_provider :: string
  sx_clientId :: string
  sx_clientSecret :: string
  sx_authUrl :: string
  sx_tokenUrl :: string

definition TestSSOConnection :: "sso_test option \<Rightarrow> test_answer" where
  "TestSSOConnection body = (case body of
     None \<Rightarrow> (400, None)
   | Some r \<Rightarrow> required [sx_provider r, sx_clientId r, sx_clientSecret r, sx_authUrl r, sx_tokenUrl r]
       (200, Some (True, ''SSO configuration is valid'')))"

definition sent_answer :: "string option \<Rightarrow> string \<Rightarrow> test_answer" where
  "sent_answer err success = (case err of Some e \<Rightarrow> (200, Some (False, (uni [21457, 36865, 22833, 36133] @ '': '') @ e)) | None \<Rightarrow> (200, Some (True, success)))"

definition TestFeishuNotification :: "note_lib \<Rightarrow> time \<Rightarrow> (string \<times> string) option \<Rightarrow> test_answer" where
  "TestFeishuNotification N now body = (case body of
     None \<Rightarrow> (400, None)
   | Some (webhook, secret) \<Rightarrow> required [webhook] (sent_answer
       (SendAlert N now (FeishuNotifier webhook secret) ('' ZJump '' @ uni [36890, 30693, 27979, 35797])
          ((''**'' @ uni [36825, 26159, 19968, 26465, 27979, 35797, 28040, 24687] @ ''**'' @
       uni [10, 10, 22914, 26524, 24744, 25910, 21040, 27492, 28040, 24687, 65292, 35828, 26126, 39134, 20070, 36890, 30693, 37197, 32622, 25104, 21151, 65281, 10, 10, 27979, 35797, 26102, 38388, 65306]) @ nl_format N now))
       ('' '' @
       uni [27979, 35797, 28040, 24687, 24050, 21457, 36865, 65281, 35831, 26816, 26597, 39134, 20070, 32676, 32452, 26159, 21542, 25910, 21040, 28040, 24687, 12290])))"

definition dingtalk_test_content :: "note_lib \<Rightarrow> time \<Rightarrow> string" where
  "dingtalk_test_content N now = (''##  ZJump '' @ uni [36890, 30693, 27979, 35797, 10, 10] @ ''---'' @ uni [10, 10] @ ''**'' @
       uni [36825, 26159, 19968, 26465, 27979, 35797, 28040, 24687] @ ''**'' @
       uni [10, 10, 22914, 26524, 24744, 25910, 21040, 27492, 28040, 24687, 65292, 35828, 26126, 38025, 38025, 36890, 30693, 37197, 32622, 25104, 21151, 65281, 10, 10] @
       ''---'' @ uni [10, 10] @ ''- **'' @ uni [27979, 35797, 26102, 38388, 65306] @ ''** '') @ nl_format N now @ (uni [10] @ ''- **'' @ uni [31995, 32479, 65306] @ ''** ZJump '' @ uni [22561, 22418, 26426, 10] @
       ''- **'' @ uni [29366, 24577, 65306] @ ''**  '' @ uni [37197, 32622, 27491, 24120, 10, 10] @ ''---'' @
       uni [10, 10] @ ''*'' @ uni [27979, 35797, 28040, 24687, 26469, 28304, 65306] @ ''ZJump '' @
       uni [31995, 32479, 35774, 32622] @ ''*'')"

definition TestDingtalkNotification :: "note_lib \<Rightarrow> time \<Rightarrow> (string \<times> string) option \<Rightarrow> test_answer" where
  "TestDingtalkNotification N now body = (case body of
     None \<Rightarrow> (400, None)
   | Some (webhook, secret) \<Rightarrow> required [webhook] (sent_answer
       (SendAlert N now (DingTalkNotifier webhook secret) ('' ZJump '' @ uni [36890, 30693, 27979, 35797]) (dingtalk_test_content N now))
       ('' '' @
       uni [27979, 35797, 28040, 24687, 24050, 21457, 36865, 65281, 35831, 26816, 26597, 38025, 38025, 32676, 32452, 26159, 21542, 25910, 21040, 28040, 24687, 12290])))"

definition TestWechatNotification :: "(string \<times> string \<times> string) option \<Rightarrow> test_answer" where
  "TestWechatNotification body = (case body of
     None \<Rightarrow> (400, None)
   | Some (corpId, agentId, secret) \<Rightarrow> required [corpId, agentId, secret] (200, Some (True,
       ('' '' @ uni [20225, 19994, 24494, 20449, 36890, 30693, 38656, 35201, 23436, 25972, 30340] @
       '' API '' @ uni [38598, 25104, 12290, 10, 10, 24314, 35758, 65306, 10] @ ''1. '' @
       uni [22914, 26524, 20351, 29992, 32676, 26426, 22120, 20154, 65292, 35831, 37197, 32622] @
       '' Webhook URL'' @ uni [10] @ ''2. '' @
       uni [22914, 26524, 20351, 29992, 24212, 29992, 28040, 24687, 65292, 38656, 35201, 23454, 29616] @
       '' access_token '' @
       uni [33719, 21462, 36923, 36753, 10, 10, 24403, 21069, 37197, 32622, 30340, 21442, 25968, 24050, 20445, 23384, 65292, 31995, 32479, 20250, 22312, 26816, 27979, 21040, 21361, 38505, 21629, 20196, 26102, 23581, 35797, 21457, 36865, 36890, 30693, 12290]))))"

section \<open>Round trip\<close>

lemma ord_hex_upper: "n < 16 \<Longrightarrow> ord (hex_upper n) = (if n < 10 then 48 + n else 55 + n)"
  by (simp add: hex_upper_def)

lemma hex_value_upper: "n < 16 \<Longrightarrow> hex_value (hex_upper n) = Some n"
  by (auto simp: hex_value_def ord_hex_upper is_digit_def)

lemma ord_div_16: "ord c div 16 < 16"
  using nat_of_char_less_256 [of c] by (simp add: less_mult_imp_div_less)

lemma hex_upper_clean: "n < 16 \<Longrightarrow> hex_upper n \<noteq> CHR ''&'' \<and> hex_upper n \<noteq> CHR ''=''"
proof -
  assume "n < 16"
  then have "ord (hex_upper n) \<noteq> 38" "ord (hex_upper n) \<noteq> 61" by (simp_all add: ord_hex_upper)
  then show ?thesis by auto
qed

lemma query_byte_clean: "d \<in> set (query_byte c) \<Longrightarrow> d \<noteq> CHR ''&'' \<and> d \<noteq> CHR ''=''"
  using hex_upper_clean[OF ord_div_16, of c] hex_upper_clean[of "ord c mod 16"]
  by (auto simp: query_byte_def is_digit_def split: if_splits)

lemma QueryEscape_clean: "CHR ''&'' \<notin> set (QueryEscape s)" "CHR ''='' \<notin> set (QueryEscape s)"
  using query_byte_clean by (auto simp: QueryEscape_def)

lemma QueryUnescape_byte: "QueryUnescape (query_byte c @ s) = map_option (\<lambda>r. c # r) (QueryUnescape s)"
proof (cases "is_digit c \<or> (65 \<le> ord c \<and> ord c \<le> 90) \<or> (97 \<le> ord c \<and> ord c \<le> 122) \<or> c \<in> set ''-_.~''")
  case True
  then have "c \<noteq> CHR ''%''" "c \<noteq> CHR ''+''" by (auto simp: is_digit_def)
  then show ?thesis using True by (simp add: query_byte_def)
next
  case False
  have "16 * (ord c div 16) + ord c mod 16 = ord c" by simp
  then have "char_of (16 * (ord c div 16) + ord c mod 16) = c" by (simp only: char_of_char)
  then have "QueryUnescape (CHR ''%'' # hex_upper (ord c div 16) # hex_upper (ord c mod 16) # s) = map_option (\<lambda>r. c # r) (QueryUnescape s)"
    by (simp add: hex_value_upper ord_div_16)
  moreover have "query_byte c = (if c = CHR '' '' then ''+'' else [CHR ''%'', hex_upper (ord c div 16), hex_upper (ord c mod 16)])"
    using False by (simp only: query_byte_def if_False)
  ultimately show ?thesis by (cases "c = CHR '' ''") (simp_all del: QueryUnescape.simps(2), simp)
qed

lemma QueryUnescape_QueryEscape [simp]: "QueryUnescape (QueryEscape s) = Some s"
  by (induction s) (simp_all add: QueryEscape_def QueryUnescape_byte)

lemma read_pair_query_pair: "read_pair (query_pair e) = Some e"
proof -
  have "takeWhile (\<lambda>c. c \<noteq> CHR ''='') (query_pair e) = QueryEscape (fst e)"
    "dropWhile (\<lambda>c. c \<noteq> CHR ''='') (query_pair e) = ''='' @ QueryEscape (snd e)"
    using QueryEscape_clean(2)[of "fst e"] by (auto simp: query_pair_def takeWhile_append dropWhile_append)
  then show ?thesis by (simp add: read_pair_def)
qed

lemma read_query_Encode: "vs \<noteq> [] \<Longrightarrow> read_query (Values_Encode vs) = map Some (sort_key fst vs)"
proof -
  assume vs: "vs \<noteq> []"
  have "CHR ''&'' \<notin> set (query_pair e)" for e using QueryEscape_clean(1) by (auto simp: query_pair_def)
  moreover have "sort_key fst vs \<noteq> []" using vs by (metis length_0_conv length_sort)
  ultimately have "SplitChar (CHR ''&'') (Values_Encode vs) = map query_pair (sort_key fst vs)"
    unfolding Values_Encode_def by (intro split_by_Join) auto
  then show ?thesis by (simp add: read_query_def read_pair_query_pair)
qed

lemma sso_params_sorted: "sort_key fst (sso_params state ss) = [(''client_id'', last_value ''ssoClientId'' ss),
    (''redirect_uri'', last_value ''ssoRedirectUrl'' ss), (''response_type'', ''code''),
    (''scope'', or_default ''openid profile email'' (last_value ''ssoScopes'' ss)), (''state'', state)]"
  by (simp add: sso_params_def Values_Set_def delete_where_def or_default_def)

text \<open>The address that starts a sign-on is the configured one with a query that the service reads back as exactly the
  configured client, return address and scopes and the fresh state, whatever characters they have.\<close>

theorem sso_address_roundtrip:
  assumes "InitiateSSO state db = SsoAddress url st"
  shows "\<exists>q. url = last_value ''ssoAuthUrl'' (GetByCategory ''auth'' db) @
      (if Contains (last_value ''ssoAuthUrl'' (GetByCategory ''auth'' db)) ''?'' then ''&'' else ''?'') @ q \<and> st = state \<and>
    read_query q = map Some [(''client_id'', last_value ''ssoClientId'' (GetByCategory ''auth'' db)),
      (''redirect_uri'', last_value ''ssoRedirectUrl'' (GetByCategory ''auth'' db)), (''response_type'', ''code''),
      (''scope'', or_default ''openid profile email'' (last_value ''ssoScopes'' (GetByCategory ''auth'' db))), (''state'', state)]"
proof -
  let ?ss = "GetByCategory ''auth'' db"
  have "sso_params state ?ss \<noteq> []" by (simp add: sso_params_def Values_Set_def Let_def)
  then have "read_query (Values_Encode (sso_params state ?ss)) = map Some (sort_key fst (sso_params state ?ss))" by (rule read_query_Encode)
  then show ?thesis using assms unfolding InitiateSSO_def sso_params_sorted by (auto simp: Let_def split: if_splits)
qed

lemma setting_of_absent:
  assumes "\<forall>s\<in>set t. st_Key s \<noteq> k" shows "setting_of (settings_object (sort_key st_Key (filter P t))) k = []"
proof -
  have "fold (\<lambda>s m. m(st_Key s \<mapsto> st_Value s)) ss m k = m k" if "\<forall>s\<in>set ss. st_Key s \<noteq> k" for ss :: "Setting list" and m
    using that by (induction ss arbitrary: m) auto
  then show ?thesis using assms by (simp add: setting_of_def settings_object_def)
qed

lemma reloaded_notifiers: "nm_db nm \<Longrightarrow>
    nm_notifiers (ReloadFromDatabase t nm) = configured (settings_object (sort_key st_Key (filter (\<lambda>s. st_Category s = ''notification'') t)))"
proof -
  have "nm_notifiers (fold AddNotifier ns nm) = nm_notifiers nm @ ns" for ns nm
    by (induction ns arbitrary: nm) (auto simp: AddNotifier_def)
  then show "nm_db nm \<Longrightarrow> ?thesis" by (simp add: ReloadFromDatabase_def notification_loadConfig_def Let_def)
qed

text \<open>The test of WeChat reports success for every complete configuration and sends nothing; and no manager has a WeChat
  notifier while the settings have no \<open>wechatWebhookURL\<close>, which is not among what the test is given.\<close>

theorem wechat_test_misleads:
  assumes "corpId \<noteq> []" "agentId \<noteq> []" "secret \<noteq> []" "nm_db nm" "\<forall>s\<in>set t. st_Key s \<noteq> ''wechatWebhookURL''"
  shows "(\<exists>m. TestWechatNotification (Some (corpId, agentId, secret)) = (200, Some (True, m))) \<and>
    WeChatNotifier url \<notin> set (nm_notifiers (ReloadFromDatabase t nm))"
  using assms by (simp add: TestWechatNotification_def required_def reloaded_notifiers configured_def setting_of_absent)

section \<open>An instance\<close>

definition sso_settings :: "Setting list" where
  "sso_settings = map (\<lambda>(i, k, v). \<lparr>st_ID = i, st_Key = k, st_Value = v, st_Category = ''auth'', st_Type = ''string''\<rparr>)
     [(1, ''ssoAuthUrl'', ''https://id/auth''), (2, ''ssoClientId'', ''a&b''), (3, ''ssoEnabled'', ''true''), (4, ''ssoRedirectUrl'', ''https://z/cb?x=1'')]"

theorem sso_address_roundtrip_witness:
  "\<exists>url q. InitiateSSO ''s 1'' (sample_adb\<lparr>settings := sso_settings\<rparr>) = SsoAddress url ''s 1'' \<and> url = ''https://id/auth?'' @ q \<and>
    read_query q = map Some [(''client_id'', ''a&b''), (''redirect_uri'', ''https://z/cb?x=1''), (''response_type'', ''code''),
      (''scope'', ''openid profile email''), (''state'', ''s 1'')]"
proof -
  let ?db = "sample_adb\<lparr>settings := sso_settings\<rparr>"
  have v: "last_value ''ssoAuthUrl'' (GetByCategory ''auth'' ?db) = ''https://id/auth''" "last_value ''ssoClientId'' (GetByCategory ''auth'' ?db) = ''a&b''"
    "last_value ''ssoEnabled'' (GetByCategory ''auth'' ?db) = ''true''" "last_value ''ssoScopes'' (GetByCategory ''auth'' ?db) = []"
    "last_value ''ssoRedirectUrl'' (GetByCategory ''auth'' ?db) = ''https://z/cb?x=1''" "\<not> Contains ''https://id/auth'' ''?''" by code_simp+
  then obtain url where "InitiateSSO ''s 1'' ?db = SsoAddress url ''s 1''" by (simp add: InitiateSSO_def)
  with sso_address_roundtrip[OF this] show ?thesis by (auto simp: v or_default_def)
qed

theorem wechat_test_misleads_witness:
  "(\<exists>m. TestWechatNotification (Some (''c'', ''1'', ''s'')) = (200, Some (True, m))) \<and>
    WeChatNotifier ''https://w'' \<notin> set (nm_notifiers (ReloadFromDatabase sso_settings (NewNotificationManager\<lparr>nm_db := True\<rparr>)))"
  by (rule wechat_test_misleads) (simp_all add: sso_settings_def)

end
