(* ===== verification/Countdown.thy ===== *)
theory Countdown
imports Web_Terminal Go_Json_Value
begin

text \<open>
  The countdowns that are shown while a host is dialled: in the SSH terminal (\<open>dialWithCountdown\<close> of
  \<open>terminal/handler.go\<close>), which gives up after ten seconds, and in the web terminal
  (\<open>proxySSHConnectionWithTimeout\<close> of \<open>connection_handler.go\<close>), where it only informs.  A run of the
  \<open>select\<close> loop is the list of what its channels deliver, in order.
\<close>

section \<open>SSH terminal\<close>

text \<open>The dialler is done, with a client or an error, or the ticker fires at a time.\<close>

datatype 'c dial_event = Dialled "string + 'c" | DialTick time

definition clearLine :: string where "clearLine = [chr 13, chr 27] @ ''[K''"

definition dial_timeout :: time where "dial_timeout = 10 * second"

definition countdown_text :: "time \<Rightarrow> string" where
  "countdown_text remaining = [chr 27] @ ''[33mConnecting... '' @ print_int (remaining div second) @ '' seconds remaining'' @ [chr 27] @ ''[0m''"

text \<open>What is written to the terminal, the outcome, and the events that come after the return.\<close>

fun dial_loop :: "time \<Rightarrow> bool \<Rightarrow> 'c dial_event list \<Rightarrow> string list \<times> (string + 'c) option \<times> 'c dial_event list" where
  "dial_loop deadline countdownShown [] = ([], None, [])"
| "dial_loop deadline countdownShown (Dialled r # es) = (if countdownShown then [clearLine] else [], Some r, es)"
| "dial_loop deadline countdownShown (DialTick now # es) =
     (let remaining = deadline - now in
      if remaining \<le> 0 then (if countdownShown then [clearLine] else [], Some (Inl ''connection timeout after 10 seconds''), es)
      else case dial_loop deadline True es of (ws, r, rest) \<Rightarrow> ((clearLine @ countdown_text remaining) # ws, r, rest))"

definition dialWithCountdown :: "time \<Rightarrow> 'c dial_event list \<Rightarrow> string list \<times> (string + 'c) option \<times> 'c dial_event list" where
  "dialWithCountdown start es = dial_loop (start + dial_timeout) False es"

text \<open>The ticks of a run, and a ticker that fires at least a second after the start and after each tick.\<close>

fun ticks :: "'c dial_event list \<Rightarrow> time list" where
  "ticks [] = []"
| "ticks (DialTick t # es) = t # ticks es"
| "ticks (Dialled r # es) = ticks es"

fun every_second :: "time \<Rightarrow> time list \<Rightarrow> bool" where
  "every_second t [] = True"
| "every_second t (u # us) = (t + second \<le> u \<and> every_second u us)"

text \<open>Clients that the dialler delivers to nobody.\<close>

definition abandoned :: "'c dial_event list \<Rightarrow> 'c list" where
  "abandoned es = concat (map (\<lambda>e. case e of Dialled (Inr c) \<Rightarrow> [c] | _ \<Rightarrow> []) es)"

section \<open>Web terminal\<close>

datatype countdown_event = CountdownStop | CountdownTick time

definition web_remaining :: "time \<Rightarrow> string" where
  "web_remaining remaining = [chr 13, chr 27] @ ''[33m'' @ (uni [27491, 22312, 36830, 25509] @ ''... '' @ uni [21097, 20313, 26102, 38388] @ '': '') @ print_int (remaining div second) @ ('' '' @ uni [31186]) @ [chr 27] @ ''[0m''"

text \<open>What the goroutine sends, and whether it has ended.\<close>

fun web_countdown :: "time \<Rightarrow> bool \<Rightarrow> countdown_event list \<Rightarrow> string list \<times> bool" where
  "web_countdown deadline countdownShown [] = ([], False)"
| "web_countdown deadline countdownShown (CountdownStop # es) = (if countdownShown then [clearLine] else [], True)"
| "web_countdown deadline countdownShown (CountdownTick now # es) =
     (let remaining = deadline - now in
      if 0 < remaining then (case web_countdown deadline True es of (ws, fin) \<Rightarrow> (web_remaining remaining # ws, fin))
      else web_countdown deadline countdownShown es)"

text \<open>The channel is closed only after the shell has started; ticks before and after.\<close>

definition proxySSHConnectionWithTimeout :: "shell_lib \<Rightarrow> time \<Rightarrow> Host \<Rightarrow> SystemUser \<Rightarrow> time list \<Rightarrow> time list \<Rightarrow> string option \<times> string list \<times> bool" where
  "proxySSHConnectionWithTimeout S start h su before after =
     (let err = open_shell S h su in
      (err, web_countdown (start + 30 * second) False
         (map CountdownTick before @ (if err = None then [CountdownStop] else []) @ map CountdownTick after)))"

section \<open>Properties\<close>

lemma every_second_ticks:
  assumes "every_second t us" shows "n < length us \<Longrightarrow> t + int (Suc n) * second \<le> us ! n"
  using assms
proof (induction us arbitrary: t n)
  case (Cons u us)
  then show ?case by (cases n) (auto simp: algebra_simps, fastforce)
qed simp

lemma dial_tick: "dial_loop d b (DialTick now # es) =
    (if d \<le> now then (if b then [clearLine] else [], Some (Inl ''connection timeout after 10 seconds''), es)
     else ((clearLine @ countdown_text (d - now)) # fst (dial_loop d True es), snd (dial_loop d True es)))"
  by (cases "dial_loop d True es") (simp add: Let_def)

lemma dial_loop_returns:
  assumes "t \<in> set (ticks es)" "deadline \<le> t"
  shows "\<exists>r. fst (snd (dial_loop deadline b es)) = Some r"
  using assms
proof (induction es arbitrary: b)
  case (Cons e es)
  then show ?case by (cases e) (auto simp: dial_tick simp del: dial_loop.simps(3))
qed simp

lemma dial_loop_writes:
  assumes "every_second t (ticks es)" "deadline \<le> t + int n * second"
  shows "length (fst (dial_loop deadline b es)) \<le> max 1 n"
  using assms
proof (induction es arbitrary: t n b)
  case (Cons e es)
  show ?case
  proof (cases "\<exists>now. e = DialTick now \<and> now < deadline")
    case True
    then obtain now where now: "e = DialTick now" "now < deadline" by blast
    from Cons.prems now have s: "t + second \<le> now" "every_second now (ticks es)" by simp_all
    have "1 < n"
    proof (rule ccontr)
      assume "\<not> 1 < n"
      then have "int n * second \<le> 1 * second" by (intro mult_right_mono) (simp_all add: second_def)
      with s(1) now(2) Cons.prems(2) show False by linarith
    qed
    then obtain k where k: "n = Suc k" "0 < k" by (cases n) auto
    have "deadline \<le> now + int k * second" using Cons.prems(2) s(1) k by (simp add: distrib_right)
    from Cons.IH[OF s(2) this, of True] show ?thesis using k now by (simp add: dial_tick del: dial_loop.simps(3))
  next
    case False
    then show ?thesis by (cases e) (simp_all add: dial_tick del: dial_loop.simps(3))
  qed
qed simp

lemma dial_loop_clean:
  assumes "dial_loop deadline b es = (ws, Some r, rest)" "b \<or> ws \<noteq> []"
  shows "ws \<noteq> [] \<and> last ws = clearLine"
  using assms
proof (induction es arbitrary: b ws)
  case (Cons e es)
  show ?case
  proof (cases e)
    case (DialTick now)
    show ?thesis
    proof (cases "deadline \<le> now")
      case False
      let ?l = "dial_loop deadline True es"
      have w: "ws = (clearLine @ countdown_text (deadline - now)) # fst ?l" "snd ?l = (Some r, rest)"
        using Cons.prems(1) False by (simp_all add: DialTick dial_tick del: dial_loop.simps(3))
      then have "?l = (fst ?l, Some r, rest)" by (metis prod.collapse)
      from Cons.IH[OF this] w(1) show ?thesis by simp
    qed (use Cons.prems DialTick in \<open>auto simp: dial_tick simp del: dial_loop.simps(3) split: if_splits\<close>)
  qed (use Cons.prems in \<open>auto split: if_splits\<close>)
qed simp

text \<open>C36: whatever the dialler does, dialling with a countdown has returned when the tenth tick has come; it writes at most ten
  times, and what it has written it clears.\<close>

theorem dial_returns_in_ten_ticks:
  assumes "every_second start (ticks es)" "10 \<le> length (ticks es)"
  shows "\<exists>ws r rest. dialWithCountdown start es = (ws, Some r, rest) \<and> length ws \<le> 10 \<and> (ws = [] \<or> last ws = clearLine)"
proof -
  have "start + int (Suc 9) * second \<le> ticks es ! 9" using assms(2) by (intro every_second_ticks[OF assms(1)]) simp
  moreover have "ticks es ! 9 \<in> set (ticks es)" using assms(2) by (intro nth_mem) simp
  ultimately obtain r where r: "fst (snd (dialWithCountdown start es)) = Some r"
    using dial_loop_returns[of "ticks es ! 9" es "start + dial_timeout" False] by (auto simp: dialWithCountdown_def dial_timeout_def)
  obtain ws rest where d: "dialWithCountdown start es = (ws, Some r, rest)" using r by (metis prod.collapse)
  moreover have "length ws \<le> 10"
    using dial_loop_writes[OF assms(1), of "start + dial_timeout" 10 False] d by (simp add: dialWithCountdown_def dial_timeout_def)
  moreover have "ws = [] \<or> last ws = clearLine" using dial_loop_clean[of "start + dial_timeout" False es ws r rest] d
    by (auto simp: dialWithCountdown_def)
  ultimately show ?thesis by blast
qed

text \<open>A connection that comes up after the countdown has given up is closed by nobody.\<close>

theorem late_connection_abandoned:
  assumes "\<forall>t\<in>set us. t < start + dial_timeout" "start + dial_timeout \<le> t"
  shows "\<exists>ws rest. dialWithCountdown start (map DialTick us @ DialTick t # es @ [Dialled (Inr c)]) =
      (ws, Some (Inl ''connection timeout after 10 seconds''), rest) \<and> c \<in> set (abandoned rest)"
proof -
  have "\<exists>ws. dial_loop d b (map DialTick us @ DialTick t # es @ [Dialled (Inr c)]) =
      (ws, Some (Inl ''connection timeout after 10 seconds''), es @ [Dialled (Inr c)])" if "\<forall>t\<in>set us. t < d" "d \<le> t" for d b
    using that by (induction us arbitrary: b) (auto simp: dial_tick simp del: dial_loop.simps(3), metis fst_conv snd_conv)
  from this[OF assms, of False] show ?thesis by (auto simp: dialWithCountdown_def abandoned_def)
qed

lemma web_countdown_ticks: "\<not> snd (web_countdown deadline b (map CountdownTick ts))"
proof (induction ts arbitrary: b)
  case (Cons t ts)
  then show ?case using Cons[of True] by (auto simp: Let_def split_beta)
qed simp

text \<open>The countdown of a web connection whose host cannot be reached never ends.\<close>

theorem failed_connection_keeps_countdown:
  assumes "open_shell S h su = Some e"
  shows "fst (proxySSHConnectionWithTimeout S start h su before after) = Some e \<and>
    \<not> snd (snd (proxySSHConnectionWithTimeout S start h su before after))"
  using assms web_countdown_ticks[of _ False "before @ after"] by (simp add: proxySSHConnectionWithTimeout_def)

section \<open>Instances\<close>

definition seconds_after :: "time list" where "seconds_after = map (\<lambda>n. n * second) [1, 2, 3, 4, 5, 6, 7, 8, 9, 10]"

theorem dial_returns_in_ten_ticks_witness:
  "\<exists>ws r rest. dialWithCountdown 0 (map DialTick seconds_after :: string dial_event list) = (ws, Some r, rest) \<and> length ws \<le> 10 \<and> (ws = [] \<or> last ws = clearLine)"
  by (rule dial_returns_in_ten_ticks) (simp_all add: seconds_after_def second_def)

theorem late_connection_abandoned_witness:
  "\<exists>ws rest. dialWithCountdown 0 (map DialTick [second] @ DialTick (10 * second) # [] @ [Dialled (Inr ''client'')]) =
      (ws, Some (Inl ''connection timeout after 10 seconds''), rest) \<and> ''client'' \<in> set (abandoned rest)"
  by (rule late_connection_abandoned) (simp_all add: second_def dial_timeout_def)

theorem failed_connection_keeps_countdown_witness:
  "fst (proxySSHConnectionWithTimeout (open_all\<lparr>sl_shell := Some ''no shell''\<rparr>) 0 blank_host sample_su [second] [40 * second]) =
      Some ''failed to start shell: no shell'' \<and>
    \<not> snd (snd (proxySSHConnectionWithTimeout (open_all\<lparr>sl_shell := Some ''no shell''\<rparr>) 0 blank_host sample_su [second] [40 * second]))"
  by (rule failed_connection_keeps_countdown) code_simp

end
