(* ===== verification/Spec2Isabelle.thy ===== *)
theory Spec2Isabelle
imports Terminal_Interceptor Command_Parser Command_Extractor Approvals Account_Api Expiration Ssh_Channels Ssh_Server Host_Monitor Proxy_Reports Host_Groups
  Asset_Sync Admin_Api File_Transfer Web_Terminal Notification Approval_Providers Terminal_Menu Proxy_Agent Api_Routes Cluster Sign_On Countdown
begin

text \<open>
  \<^bold>\<open>zjump, a bastion host: verification library.\<close>

  zjump stands between users and servers.  Users log in to a platform (HTTP API)
  and to an SSH port, pick a host, and work on it in a terminal whose input passes
  through the bastion: commands on a blacklist are stopped, commands and sessions
  are audited and recorded.  Administrators grant permissions by rules, users ask
  for them by approval tickets, accounts and rules expire.  The library models the
  Go code of these parts, definition by function, and proves what makes them
  correct.

  \<^bold>\<open>Theories and sources\<close> (paths below \<open>src/\<close>):

  \<^item> \<open>Prelude\<close>: time units, SQL-style table operations (\<open>update_where\<close>,
    \<open>delete_where\<close>, gorm's \<open>First\<close>), collections of rules, the locale \<open>lifecycle\<close>.
  \<^item> \<open>Go_Strings\<close>, \<open>Go_Regexp\<close>, \<open>Go_Json\<close>, \<open>Go_Base64\<close>: what the code uses of Go's
    packages strings, regexp (a backtracking matcher with the greedy semantics, the
    locale \<open>match_engine\<close>), encoding/json on arrays of strings and
    encoding/base64, with the round trips; \<open>Go_Json_Value\<close>: JSON values, printed and read; \<open>Go_Numbers\<close>: 64-bit integers and their
    texts; \<open>Paging\<close>: pages of a query, the locale \<open>paged\<close>.
  \<^item> \<open>Blacklist_Detector\<close> and \<open>Blacklist_Manager\<close>
    (\<open>internal/bastion/blacklist/advanced_detector.go\<close>, \<open>manager.go\<close>): the detectors
    for disguised commands, the rules, their refresh and the decision.  The locale
    \<open>command_filter\<close> states what the manager promises; it is interpreted on the
    manager.
  \<^item> \<open>Terminal_Interceptor\<close> (\<open>internal/sshserver/terminal/handler.go\<close>, input and
    output loops): the bytes forwarded to the host, the lines intercepted, recorded
    and audited.  It relies on the blacklist through the locale \<open>command_check\<close>.
    What a host executes is read off the forwarded bytes by a plain line discipline
    (erase, kill line, interrupt, newline).
  \<^item> \<open>Command_Parser\<close>, \<open>Command_Extractor\<close> (\<open>internal/bastion/parser/command_parser.go\<close>):
    the two reconstructions of commands from terminal output.
  \<^item> \<open>Permissions\<close> (\<open>internal/repository/system_user_repository.go\<close>,
    \<open>internal/api/handler/permission_rule_handler.go\<close>): system users, permission
    rules and their relations as tables, the two permission queries, the rule
    requests.  The locale \<open>host_access\<close> is what the terminal relies on.
  \<^item> \<open>Host_Connection\<close> (\<open>terminal/handler.go\<close>, \<open>HandleTerminal\<close>,
    \<open>handleHostConnection\<close>): choosing a system user and connecting, with the order
    of the audit and recording calls; a client of \<open>host_access\<close>.
  \<^item> \<open>Two_Factor\<close> (\<open>pkg/twofactor/twofactor.go\<close>, \<open>internal/model/blacklist.go\<close>): backup
    codes, replay windows, the column type for lists of strings.
  \<^item> \<open>Accounts\<close> (\<open>internal/service/auth_service.go\<close>,
    \<open>internal/repository/user_repository.go\<close>, \<open>internal/api/middleware/auth.go\<close>):
    accounts, registration, login, single sign-on, tokens, SSH keys.
  \<^item> \<open>Account_Api\<close> (\<open>internal/api/handler/auth_handler.go\<close>, \<open>twofactor_handler.go\<close>,
    \<open>internal/api/router/router.go\<close>): the account requests with their routes and
    middleware.
  \<^item> \<open>Expiration\<close> (\<open>internal/service/expiration_service.go\<close>): the periodic checks over
    accounts and rules, and renewals.
  \<^item> \<open>Approvals\<close> (\<open>internal/api/handler/approval_handler.go\<close>,
    \<open>approval_callback_handler.go\<close>, \<open>internal/approval/interface.go\<close>,
    \<open>internal/model/approval.go\<close>): tickets as a state machine under requests and
    callbacks; an interpretation of \<open>lifecycle\<close>.
  \<^item> \<open>Ssh_Wire\<close>, \<open>Ssh_Gateway\<close>, \<open>Ssh_Channels\<close>
    (\<open>internal/sshserver/protocol/custom_ssh.go\<close>, \<open>channel_handler.go\<close>): the framing of
    messages on a segmented stream, the authentication dialogue, and channels as
    objects shared by the message loop and the shells.
  \<^item> \<open>Ssh_Auth\<close>, \<open>Ssh_Server\<close> (\<open>internal/sshserver/auth\<close>, \<open>server\<close>): the authenticators
    with their limits, and the sessions of the SSH server with the second factor.
  \<^item> \<open>Settings\<close> (\<open>internal/repository/setting_repository.go\<close>,
    \<open>internal/api/handler/setting_handler.go\<close>), \<open>Hosts\<close>
    (\<open>internal/repository/host_repository.go\<close>, \<open>internal/service/host_service.go\<close>,
    \<open>internal/api/handler/host_handler.go\<close>) and \<open>Routing\<close>
    (\<open>internal/router/connection_router.go\<close>, proxies and their registration).
  \<^item> \<open>Redis_Lock\<close> (\<open>pkg/distributed/redis_lock.go\<close>): the lock objects of all processes on
    one server as a step relation; \<open>Host_Monitor\<close>
    (\<open>internal/service/host_monitor_service.go\<close>): configuration, ticker and rounds, with
    the lock.
  \<^item> \<open>Recorder\<close> (\<open>internal/bastion/recorder/recorder.go\<close>): recording as steps of concurrent
    goroutines; \<open>Audit_Trail\<close> (\<open>internal/audit\<close>,
    \<open>internal/bastion/storage/database_storage.go\<close>,
    \<open>internal/sshserver/recorder/recorder.go\<close>): auditor, storage queues and recorder over
    their tables; the two ways to close a session share the locale
    \<open>session_closing\<close>, and the calls of \<open>Host_Connection\<close> are carried out on them.
  \<^item> \<open>Sessions\<close> (\<open>session_repository.go\<close>, \<open>session_service.go\<close>, \<open>session_handler.go\<close>): tokens,
    lists and termination of sessions; \<open>Proxy_Reports\<close> (\<open>proxy_handler.go\<close>): what remote
    agents report.
  \<^item> \<open>User_Groups\<close>, \<open>Host_Groups\<close> (\<open>user_group_repository.go\<close>, \<open>host_group_repository.go\<close> and
    their handlers): membership, and what it does to permissions.
  \<^item> \<open>Asset_Sync\<close> (\<open>asset_sync_service.go\<close>, its repository and handler): hosts imported from
    inventories, and the scheduler; \<open>Admin_Api\<close> (\<open>system_user_handler.go\<close>,
    \<open>blacklist_handler.go\<close>, \<open>dashboard_handler.go\<close>).
  \<^item> \<open>Go_Path\<close> (Go's package path), \<open>Ssh_Client\<close> (\<open>pkg/sshclient/client.go\<close>) and
    \<open>File_Transfer\<close> (\<open>file_handler.go\<close>): paths, quoted shell commands, transfers and their
    records; a reader of shell words says what a host runs.
  \<^item> \<open>Web_Terminal\<close> (\<open>connection_handler.go\<close>): the terminal in the browser, a second client of
    \<open>command_check\<close>.
  \<^item> \<open>Notification\<close> (\<open>internal/notification\<close>): alerts to chat services, the manager and its
    settings; \<open>Approval_Providers\<close> (\<open>internal/approval/feishu.go\<close>, \<open>dingtalk.go\<close>, \<open>wechat.go\<close> and the
    registration in \<open>cmd/api-server/main.go\<close>): the clients of the approval platforms, whose nine
    operations share the locale \<open>token_first\<close>.
  \<^item> \<open>Terminal_Menu\<close> (\<open>internal/sshserver/terminal/menu_v2.go\<close>, \<open>selector.go\<close>): the hosts and groups a user
    is shown and the dialogue of the menu, byte by byte, with its screens; the locale \<open>menu_hosts\<close>
    is what the dialogue relies on.  \<open>Countdown\<close> (\<open>terminal/handler.go\<close>, \<open>connection_handler.go\<close>):
    the countdowns while a host is dialled.
  \<^item> \<open>Proxy_Agent\<close> (\<open>internal/bastion/websocket\<close>, \<open>client\<close>): tokens, sessions and input of the terminal of
    a remote agent.
  \<^item> \<open>Api_Routes\<close> (\<open>internal/api/router/router.go\<close>, \<open>middleware/cors.go\<close>): the route table with the
    middleware of every route; \<open>Sign_On\<close> (\<open>auth_handler.go\<close>, \<open>setting_handler.go\<close>): the address that
    starts a single sign-on, and the tests of the settings page.
  \<^item> \<open>Cluster\<close> (\<open>pkg/sshkey/shared_key.go\<close>, \<open>pkg/distributed/config_sync.go\<close>, \<open>setupHostKey\<close> of
    \<open>internal/sshserver/server/server.go\<close>): what several instances share, with the starts of the
    instances as interleaved steps.

  \<^bold>\<open>How the code is read.\<close>  A struct is a record, an enumeration or an error a
  datatype, a message text of an error or a log a constructor.  Strings are lists of
  bytes; case mapping and character classes are those of ASCII.  A time is an
  integer of nanoseconds, and an operation reads the clock once; \<open>AddDate\<close> adds
  24 hours per day.  The database is a record of tables, a table the list of its
  rows, with the unique keys and foreign keys of \<open>sql/init.sql\<close> checked on writing,
  cascading deletions, column defaults on creation, and gorm's rule that \<open>Updates\<close>
  with a struct skips zero values; a failing transaction leaves the database
  unchanged.  Queries always answer; the errors of the code that remain are those
  its own conditions and constraints give.  Identifiers are compared exactly; user
  names and e-mail addresses under a collation that is a parameter.  Requests are
  served one after the other, so the models show every interleaving of whole
  requests and ticks, not of their parts.

  \<^bold>\<open>Parameters.\<close>  Code outside the repository is an argument: password hashing,
  tokens, time-based codes, AES-GCM, key generation and the parser of RFC 3339 times
  (the record \<open>libs\<close>), the answers of HTTP services (\<open>sso_env\<close>, the approval
  providers), of random sources and identifier generators, of the SSH dialer and of
  the terminal's user (\<open>conn_env\<close>), the lookup of routes, the parser of host keys (\<open>key_lib\<close>) and the
  file system.  Where a property relies on documented behaviour
  of such code it is a named hypothesis (\<open>jwt_roundtrip\<close>, \<open>gcm_ok\<close>, \<open>redis_ok\<close>) with a witness.

  \<^bold>\<open>What is shown.\<close>  Terminal: a host executes exactly the typed lines the blacklist
  lets through, and never a blocked one, whatever fails.  Blacklist: the decision is
  the documented one, wildcards match as wildcards, disguises by escapes and
  pipelines are found, the last good rule set stays in force.  Parsers: reported
  commands are clean and are the typed ones.  Permissions: listing and checking
  agree, a new rule grants exactly what it says, a deletion withdraws it, requests
  keep referential integrity; a terminal reaches a host only as a permitted system
  user and is audited.  Accounts: exactly when a token is handed out, who can change
  what, uniqueness under all requests, round trips of tokens, keys and backup codes.
  Expiration: the effect of a check in one pass, that it changes no later decision,
  that a renewal lasts.  Approvals: a decided ticket stays decided under requests,
  what a cancellation does, decisions are dated.  SSH: messages survive any
  segmentation, only authenticated sessions open channels, the handlers never panic
  on input, and a password session reaches only permitted hosts.  Settings keep
  their types; hosts their identifiers; a routed proxy is online; a lock has one
  holder; a monitor round reports every probe in any order of its goroutines.
  Recording: events stay in order, and a finished connection leaves one completed
  login and one closed recording with what was recorded.  Groups: what joining, leaving,
  moving and deleting do to permissions, exactly.  Files: no path can change the command a
  host runs, transfers need a permission, progress is monotone.  Web terminal: keys are
  filtered as in the SSH terminal, connections need a permission, and pasted lines are not
  filtered.  Alerts: every notifier gets every blocked command, with its
  facts readable in the message.  Platforms: a ticket is stored only if its platform accepted it,
  and its form reads back.  Menu: a user can choose only
  hosts that a rule in force gives, pages exist, and a client that disconnects leaves its dialogue
  running.  Dialling ends after ten ticks.  Agents: a second return executes a blocked line.  Routes:
  every handler outside the public ones has a valid token, administration an administrator.
  Instances: all that get the shared host key get the same one, a published setting arrives
  unchanged, the address of a sign-on reads back.  Inventories: a run adds and updates exactly the reported hosts.  Some theorems state behaviour the
  authors probably did not intend (single sign-on of disabled accounts, reusable
  backup codes, rules that cannot be disabled, callbacks that overwrite internal
  tickets, secrets listed for everybody, runs that undo requests, a logout that always refuses); they say so in their text.

  \<^bold>\<open>Loops.\<close>  All definitions are total functions: the byte loops recurse on their
  input, the matcher on the expression and the rest of the text, the periodic loops
  on the list of their ticks; there is no fuel.

  \<^bold>\<open>Not modelled\<close>: the unified protocol handlers of \<open>internal/bastion/protocol\<close> (RDP, file transfer
  over channels), which nothing creates; the older menu of \<open>terminal/menu.go\<close>, which the terminal
  does not use; the proxied WebSocket, which passes messages on; read handlers that only hand on the
  answer of a modelled query; network and file I/O, metrics, logging, configuration, start-up, the
  generated API documentation and the web interface, which have no logic of their own to verify.
\<close>

end
